(* ===== verification/GoBase.thy ===== *)
theory GoBase
  imports
    Main
    "HOL-Library.Char_ord"
    "HOL-Library.List_Lexorder"
    "HOL-Library.Multiset"
begin

text \<open>
  What every component of the development shares: the parts of the Go language and of its
  standard library that the controllers use.

  \<^item> machine integers: values of type \<^typ>\<open>int\<close> kept at their width by explicit two's-complement
    wrap-around (\<open>wrap32\<close>, \<open>wrap64\<close>);
  \<^item> errors and panics as values (\<open>err\<close>), the result type \<open>err + 'a\<close> with its sequencing
    (\<open>bindR\<close>), and state-passing computations that keep the state reached when they fail
    (\<open>bindE\<close>), because Go code that has mutated an object before it returns an error leaves the
    mutation in place;
  \<^item> \<open>sort.Sort\<close> (\<open>sort_Sort\<close>) with the contract a \<open>Less\<close> method has to satisfy as a locale;
  \<^item> decimal conversion (\<open>strconv.ParseInt\<close>, \<open>strconv.FormatInt\<close>), \<open>strings.Split\<close> and
    \<open>strings.Join\<close>, and the reading of possibly nil string maps.
\<close>

named_theorems go_monad \<open>unfolding rules of the error and state monads\<close>
named_theorems go_wrap \<open>facts that remove a wrap-around on values in range\<close>

section \<open>Machine integers\<close>

definition in32 :: "int \<Rightarrow> bool" where
  "in32 x \<longleftrightarrow> - 2147483648 \<le> x \<and> x \<le> 2147483647"

definition wrap32 :: "int \<Rightarrow> int" where
  "wrap32 x = (x + 2147483648) mod 4294967296 - 2147483648"

definition in64 :: "int \<Rightarrow> bool" where
  "in64 x \<longleftrightarrow> - 9223372036854775808 \<le> x \<and> x \<le> 9223372036854775807"

definition wrap64 :: "int \<Rightarrow> int" where
  "wrap64 x = (x + 9223372036854775808) mod 18446744073709551616 - 9223372036854775808"

lemma wrap32_id [simp, go_wrap]: "in32 x \<Longrightarrow> wrap32 x = x"
  by (simp add: in32_def wrap32_def)

lemma wrap64_id [simp, go_wrap]: "in64 x \<Longrightarrow> wrap64 x = x"
  by (simp add: in64_def wrap64_def)

lemma in32_wrap32 [simp]: "in32 (wrap32 x)"
  using pos_mod_bound [of 4294967296 "x + 2147483648"]
    pos_mod_sign [of 4294967296 "x + 2147483648"]
  by (simp add: in32_def wrap32_def)

lemma in32_between: "in32 a \<Longrightarrow> in32 b \<Longrightarrow> a \<le> x \<Longrightarrow> x \<le> b \<Longrightarrow> in32 x"
  by (simp add: in32_def)

lemma in32_0 [simp]: "in32 0" and in32_1 [simp]: "in32 1"
  by (simp_all add: in32_def)

lemma wrap32_eq_0 [simp]: "wrap32 0 = 0"
  by simp

section \<open>Errors, results and state-passing computations\<close>

text \<open>
  \<open>Panic\<close> is a run-time panic (a nil dereference, an index out of range), \<open>NotFound\<close> an API error
  for which \<open>apierrors.IsNotFound\<close> holds, \<open>Err\<close> any other error value, identified by what it is
  about; \<open>Wrap\<close> is \<open>errors.Wrap\<close> and \<open>Wrapf\<close>, \<open>Aggregate\<close> is \<open>kerrors.NewAggregate\<close>.
\<close>

datatype err = Panic string | NotFound string | Err string | Wrap string err | Aggregate "err list"

fun isNotFound :: "err \<Rightarrow> bool" where
  "isNotFound (NotFound _) = True"
| "isNotFound (Wrap _ e) = isNotFound e"
| "isNotFound _ = False"

text \<open>A panic unwinds through every caller; it is never handled as an error value.\<close>

fun isPanic :: "err \<Rightarrow> bool" where
  "isPanic (Panic _) = True"
| "isPanic (Wrap _ e) = isPanic e"
| "isPanic _ = False"

type_synonym 'a res = "err + 'a"

definition bindR :: "'a res \<Rightarrow> ('a \<Rightarrow> 'b res) \<Rightarrow> 'b res" where
  "bindR r f = (case r of Inl e \<Rightarrow> Inl e | Inr x \<Rightarrow> f x)"

lemma bindR_Inl [simp, go_monad]: "bindR (Inl e) f = Inl e"
  and bindR_Inr [simp, go_monad]: "bindR (Inr x) f = f x"
  by (simp_all add: bindR_def)

lemma bindR_eq_Inr [go_monad]: "bindR r f = Inr y \<longleftrightarrow> (\<exists>x. r = Inr x \<and> f x = Inr y)"
  by (cases r) auto

lemma bindR_cong [fundef_cong]:
  "r = r' \<Longrightarrow> (\<And>x. r' = Inr x \<Longrightarrow> f x = g x) \<Longrightarrow> bindR r f = bindR r' g"
  by (cases r') auto

text \<open>Dereference of a pointer that may be nil.\<close>

definition deref :: "string \<Rightarrow> 'a option \<Rightarrow> 'a res" where
  "deref what p = (case p of None \<Rightarrow> Inl (Panic what) | Some x \<Rightarrow> Inr x)"

lemma deref_simps [simp, go_monad]: "deref w None = Inl (Panic w)" "deref w (Some x) = Inr x"
  by (simp_all add: deref_def)

lemma deref_eq_Inr: "deref w p = Inr x \<longleftrightarrow> p = Some x"
  by (cases p) auto

type_synonym ('s, 'a) comp = "'s \<Rightarrow> 'a res \<times> 's"

definition returnE :: "'a \<Rightarrow> ('s, 'a) comp" where
  "returnE x s = (Inr x, s)"

definition failE :: "err \<Rightarrow> ('s, 'a) comp" where
  "failE e s = (Inl e, s)"

definition liftE :: "'a res \<Rightarrow> ('s, 'a) comp" where
  "liftE r s = (r, s)"

definition getsE :: "('s \<Rightarrow> 'a) \<Rightarrow> ('s, 'a) comp" where
  "getsE f s = (Inr (f s), s)"

definition modifyE :: "('s \<Rightarrow> 's) \<Rightarrow> ('s, unit) comp" where
  "modifyE f s = (Inr (), f s)"

definition bindE :: "('s, 'a) comp \<Rightarrow> ('a \<Rightarrow> ('s, 'b) comp) \<Rightarrow> ('s, 'b) comp" where
  "bindE m f s = (case m s of (Inl e, s') \<Rightarrow> (Inl e, s') | (Inr x, s') \<Rightarrow> f x s')"

lemma comp_simps [simp, go_monad]:
  "returnE x s = (Inr x, s)" "failE e s = (Inl e, s)" "liftE r s = (r, s)"
  "getsE f s = (Inr (f s), s)" "modifyE h s = (Inr (), h s)"
  by (simp_all add: returnE_def failE_def liftE_def getsE_def modifyE_def)

lemma bindE_run:
  "m s = (Inl e, s') \<Longrightarrow> bindE m f s = (Inl e, s')"
  "m s = (Inr x, s') \<Longrightarrow> bindE m f s = f x s'"
  by (simp_all add: bindE_def)

lemma bindE_returnE [simp, go_monad]: "bindE (returnE x) f s = f x s"
  by (simp add: bindE_def)

lemma bindE_failE [simp, go_monad]: "bindE (failE e) f s = (Inl e, s)"
  by (simp add: bindE_def)

lemma bindE_getsE [simp, go_monad]: "bindE (getsE g) f s = f (g s) s"
  by (simp add: bindE_def)

lemma bindE_modifyE [simp, go_monad]: "bindE (modifyE h) f s = f () (h s)"
  by (simp add: bindE_def)

lemma bindE_liftE [simp, go_monad]:
  "bindE (liftE r) f s = (case r of Inl e \<Rightarrow> (Inl e, s) | Inr x \<Rightarrow> f x s)"
  by (simp add: bindE_def split: sum.splits)

text \<open>A call whose error the code looks at: the result is a value and the run goes on.\<close>

definition attemptE :: "('s, 'a) comp \<Rightarrow> ('s, 'a res) comp" where
  "attemptE m s = (case m s of (r, s') \<Rightarrow> (Inr r, s'))"

lemma bindE_attemptE [simp]: "bindE (attemptE m) f s = (case m s of (r, s') \<Rightarrow> f r s')"
  by (simp add: bindE_def attemptE_def split: prod.splits)

text \<open>An error wrapped with a message, as \<open>errors.Wrap\<close> does on the way out.\<close>

definition wrapE :: "string \<Rightarrow> ('s, 'a) comp \<Rightarrow> ('s, 'a) comp" where
  "wrapE msg m s = (case m s of (Inl e, s') \<Rightarrow> (Inl (Wrap msg e), s') | (Inr x, s') \<Rightarrow> (Inr x, s'))"

text \<open>
  The way a run of a sequence is taken apart: it is the run of the first part alone when that
  part fails, or the run of the rest from the state the first part reached.
\<close>

lemma bindE_cases:
  assumes "bindE m f s = (r, s')"
  obtains (fail) e where "m s = (Inl e, s')" and "r = Inl e"
  | (cont) x s1 where "m s = (Inr x, s1)" and "f x s1 = (r, s')"
  using assms by (auto simp: bindE_def split: prod.splits sum.splits)

lemma bindE_Inr:
  assumes "bindE m f s = (Inr y, s')"
  obtains x s1 where "m s = (Inr x, s1)" and "f x s1 = (Inr y, s')"
  using assms by (auto simp: bindE_def split: prod.splits sum.splits)

lemma wrapE_Inr: "wrapE w m s = (Inr x, s') \<longleftrightarrow> m s = (Inr x, s')"
  by (auto simp: wrapE_def split: prod.splits sum.splits)

lemma attemptE_Inr: "attemptE m s = (Inr r, s') \<longleftrightarrow> m s = (r, s')"
  by (auto simp: attemptE_def split: prod.splits)

text \<open>
  What a run preserves: a reflexive and transitive relation between the state before and after that
  holds of every basic step holds of the whole run, whether it succeeds or fails. An
  interpretation names the relation; its rules decompose a program.
\<close>

definition keeps :: "('s \<Rightarrow> 's \<Rightarrow> bool) \<Rightarrow> ('s, 'a) comp \<Rightarrow> bool" where
  "keeps R m \<longleftrightarrow> (\<forall>s r s'. m s = (r, s') \<longrightarrow> R s s')"

lemma keepsD: "keeps R m \<Longrightarrow> m s = (r, s') \<Longrightarrow> R s s'"
  by (simp add: keeps_def)

definition keepsAt :: "('s \<Rightarrow> 's \<Rightarrow> bool) \<Rightarrow> ('s, 'a) comp \<Rightarrow> 's \<Rightarrow> bool" where
  "keepsAt R m s \<longleftrightarrow> (\<forall>r s'. m s = (r, s') \<longrightarrow> R s s')"

lemma keeps_at: "keeps R m \<Longrightarrow> keepsAt R m s"
  by (simp add: keeps_def keepsAt_def)

lemma keepsI: "(\<And>s. keepsAt R m s) \<Longrightarrow> keeps R m"
  by (simp add: keeps_def keepsAt_def)

lemma keepsAtD: "keepsAt R m s \<Longrightarrow> m s = (r, s') \<Longrightarrow> R s s'"
  by (simp add: keepsAt_def)

lemma keepsAt_if: "(b \<Longrightarrow> keepsAt R m s) \<Longrightarrow> (\<not> b \<Longrightarrow> keepsAt R m' s) \<Longrightarrow> keepsAt R (if b then m else m') s"
  by simp

lemma keepsAt_option: "(x = None \<Longrightarrow> keepsAt R m s) \<Longrightarrow> (\<And>v. x = Some v \<Longrightarrow> keepsAt R (f v) s) \<Longrightarrow>
    keepsAt R (case x of None \<Rightarrow> m | Some v \<Rightarrow> f v) s"
  by (cases x) simp_all

lemma keepsAt_sum: "(\<And>e. x = Inl e \<Longrightarrow> keepsAt R (g e) s) \<Longrightarrow> (\<And>v. x = Inr v \<Longrightarrow> keepsAt R (f v) s) \<Longrightarrow>
    keepsAt R (case x of Inl e \<Rightarrow> g e | Inr v \<Rightarrow> f v) s"
  by (cases x) simp_all

lemma keepsAt_prod: "(\<And>a b. x = (a, b) \<Longrightarrow> keepsAt R (f a b) s) \<Longrightarrow> keepsAt R (case x of (a, b) \<Rightarrow> f a b) s"
  by (cases x) simp

lemma keepsAt_let: "keepsAt R (f v) s \<Longrightarrow> keepsAt R (Let v f) s"
  by simp

locale state_relation =
  fixes R :: "'s \<Rightarrow> 's \<Rightarrow> bool"
  assumes rel_refl: "R s s"
    and rel_trans: "R s t \<Longrightarrow> R t v \<Longrightarrow> R s v"
begin

lemma keeps_pure: "keeps R (returnE x)" "keeps R (failE e)" "keeps R (liftE r)" "keeps R (getsE f)"
  by (simp_all add: keeps_def rel_refl)

lemma keeps_modifyE: "(\<And>s. R s (f s)) \<Longrightarrow> keeps R (modifyE f)"
  by (simp add: keeps_def)

lemma keeps_bindE: "keeps R m \<Longrightarrow> (\<And>x. keeps R (f x)) \<Longrightarrow> keeps R (bindE m f)"
  unfolding keeps_def by (meson bindE_cases rel_trans)

lemma keeps_attemptE: "keeps R m \<Longrightarrow> keeps R (attemptE m)"
  by (auto simp: keeps_def attemptE_def split: prod.splits)

lemma keeps_wrapE: "keeps R m \<Longrightarrow> keeps R (wrapE w m)"
  by (fastforce simp: keeps_def wrapE_def split: prod.splits sum.splits)

lemma keeps_if: "(b \<Longrightarrow> keeps R m) \<Longrightarrow> (\<not> b \<Longrightarrow> keeps R m') \<Longrightarrow> keeps R (if b then m else m')"
  by simp

lemma keeps_option: "(x = None \<Longrightarrow> keeps R m) \<Longrightarrow> (\<And>v. x = Some v \<Longrightarrow> keeps R (f v)) \<Longrightarrow>
    keeps R (case x of None \<Rightarrow> m | Some v \<Rightarrow> f v)"
  by (cases x) simp_all

lemma keeps_sum: "(\<And>e. x = Inl e \<Longrightarrow> keeps R (g e)) \<Longrightarrow> (\<And>v. x = Inr v \<Longrightarrow> keeps R (f v)) \<Longrightarrow>
    keeps R (case x of Inl e \<Rightarrow> g e | Inr v \<Rightarrow> f v)"
  by (cases x) simp_all

lemma keeps_prod: "(\<And>a b. x = (a, b) \<Longrightarrow> keeps R (f a b)) \<Longrightarrow> keeps R (case x of (a, b) \<Rightarrow> f a b)"
  by (cases x) simp

lemma keeps_let: "keeps R (f v) \<Longrightarrow> keeps R (Let v f)"
  by simp

text \<open>The same from one state, with what the run has established so far at hand.\<close>

lemma keepsAt_bindE:
  assumes "keepsAt R m s" and "\<And>x s1. m s = (Inr x, s1) \<Longrightarrow> keepsAt R (f x) s1"
  shows "keepsAt R (bindE m f) s"
  unfolding keepsAt_def
proof (intro allI impI)
  fix r s' assume "bindE m f s = (r, s')"
  then show "R s s'" by (cases rule: bindE_cases) (use assms in \<open>auto simp: keepsAt_def intro: rel_trans\<close>)
qed

lemma keepsAt_attempt:
  "keepsAt R m s \<Longrightarrow> (\<And>r s1. m s = (r, s1) \<Longrightarrow> keepsAt R (f r) s1) \<Longrightarrow> keepsAt R (bindE (attemptE m) f) s"
  by (cases "m s") (auto simp: keepsAt_def intro: rel_trans)

lemma keepsAt_wrapE: "keepsAt R m s \<Longrightarrow> keepsAt R (wrapE w m) s"
  by (fastforce simp: keepsAt_def wrapE_def split: prod.splits sum.splits)

lemmas keeps_rules = keeps_pure keeps_bindE keeps_attemptE keeps_wrapE keeps_if keeps_option keeps_sum keeps_prod keeps_let

end

text \<open>
  Programs that record their calls: every call of a run is allowed by what has been called before.
  The calls of a run are those added to the trace \<open>tr\<close> of the state.
\<close>

fun okFrom :: "('c list \<Rightarrow> 'c \<Rightarrow> bool) \<Rightarrow> 'c list \<Rightarrow> 'c list \<Rightarrow> bool" where
  "okFrom ok h [] = True"
| "okFrom ok h (c # cs) = (ok h c \<and> okFrom ok (h @ [c]) cs)"

lemma okFrom_append: "okFrom ok h (cs @ ds) \<longleftrightarrow> okFrom ok h cs \<and> okFrom ok (h @ cs) ds"
  by (induction cs arbitrary: h) auto

lemma okFrom_mono: "okFrom ok h cs \<Longrightarrow> (\<And>h c. ok h c \<Longrightarrow> ok' h c) \<Longrightarrow> okFrom ok' h cs"
  by (induction cs arbitrary: h) auto

lemma okFrom_each: "okFrom ok h (a @ c # b) \<Longrightarrow> ok (h @ a) c"
  by (simp add: okFrom_append)

lemma okFrom_set: "okFrom (\<lambda>_. P) h cs \<longleftrightarrow> (\<forall>c \<in> set cs. P c)"
  by (induction cs arbitrary: h) auto

definition allowed :: "('s \<Rightarrow> 'c list) \<Rightarrow> ('c list \<Rightarrow> 'c \<Rightarrow> bool) \<Rightarrow> 's \<Rightarrow> 's \<Rightarrow> bool" where
  "allowed tr ok s s' \<longleftrightarrow> (\<exists>cs. tr s' = tr s @ cs \<and> okFrom ok (tr s) cs)"

lemma allowed_refl [simp]: "allowed tr ok s s"
  by (simp add: allowed_def)

lemma allowed_trans: "allowed tr ok s t \<Longrightarrow> allowed tr ok t v \<Longrightarrow> allowed tr ok s v"
  by (auto simp: allowed_def okFrom_append)

lemma allowed_mono: "allowed tr ok s s' \<Longrightarrow> (\<And>h c. ok h c \<Longrightarrow> ok' h c) \<Longrightarrow> allowed tr ok' s s'"
  by (auto simp: allowed_def intro: okFrom_mono)

section \<open>Sorting with a Less method\<close>

text \<open>
  \<open>sort.Sort\<close> and \<open>sort.Slice\<close>: each element is moved to the left past the elements it is less
  than, which is the insertion sort the library runs on up to twelve elements. The accumulator is
  the sorted prefix, largest first. For a \<open>Less\<close> that is a total order every sorting algorithm
  returns the same list (\<open>sort_unique\<close>); where \<open>Less\<close> leaves ties, larger inputs may come back
  with tied elements in another order.
\<close>

fun go_insert :: "('a \<Rightarrow> 'a \<Rightarrow> bool) \<Rightarrow> 'a \<Rightarrow> 'a list \<Rightarrow> 'a list" where
  "go_insert lt x [] = [x]"
| "go_insert lt x (y # ys) = (if lt x y then y # go_insert lt x ys else x # y # ys)"

definition sort_Sort :: "('a \<Rightarrow> 'a \<Rightarrow> bool) \<Rightarrow> 'a list \<Rightarrow> 'a list" where
  "sort_Sort lt xs = rev (foldl (\<lambda>acc x. go_insert lt x acc) [] xs)"

lemma mset_go_insert [simp]: "mset (go_insert lt x ys) = add_mset x (mset ys)"
  by (induction ys) auto

lemma mset_foldl_go_insert:
  "mset (foldl (\<lambda>acc x. go_insert lt x acc) acc xs) = mset acc + mset xs"
  by (induction xs arbitrary: acc) auto

lemma mset_sort_Sort [simp]: "mset (sort_Sort lt xs) = mset xs"
  by (simp add: sort_Sort_def mset_foldl_go_insert)

lemma set_sort_Sort [simp]: "set (sort_Sort lt xs) = set xs"
  by (metis mset_sort_Sort set_mset_mset)

lemma length_sort_Sort [simp]: "length (sort_Sort lt xs) = length xs"
  by (metis mset_sort_Sort size_mset)

lemma distinct_map_sort_Sort [simp]:
  "distinct (map f (sort_Sort lt xs)) = distinct (map f xs)"
  by (metis mset_map mset_eq_imp_distinct_iff mset_sort_Sort)

lemma distinct_sort_Sort [simp]: "distinct (sort_Sort lt xs) = distinct xs"
  by (metis mset_eq_imp_distinct_iff mset_sort_Sort)

lemma sum_list_sort_Sort [simp]:
  "sum_list (map f (sort_Sort lt xs)) = (sum_list (map f xs) :: int)"
  by (metis mset_map mset_sort_Sort sum_mset_sum_list)

lemma sort_Sort_Nil [simp]: "sort_Sort lt [] = []"
  by (simp add: sort_Sort_def)

lemma sort_Sort_eq_Nil [simp]: "sort_Sort lt xs = [] \<longleftrightarrow> xs = []"
  by (metis length_0_conv length_sort_Sort)

text \<open>What a \<open>Less\<close> method promises: a strict weak order.\<close>

locale strict_weak =
  fixes lt :: "'a \<Rightarrow> 'a \<Rightarrow> bool"
  assumes less_asym: "lt a b \<Longrightarrow> \<not> lt b a"
    and less_ntrans: "\<not> lt a b \<Longrightarrow> \<not> lt b c \<Longrightarrow> \<not> lt a c"
begin

lemma go_insert_sorted:
  "sorted_wrt (\<lambda>a b. \<not> lt a b) ys \<Longrightarrow> sorted_wrt (\<lambda>a b. \<not> lt a b) (go_insert lt x ys)"
proof (induction ys)
  case Nil
  then show ?case by simp
next
  case (Cons y ys)
  have "set (go_insert lt x ys) = insert x (set ys)"
    by (metis mset_go_insert set_mset_add_mset_insert set_mset_mset)
  with Cons show ?case
    by (auto dest: less_asym less_ntrans)
qed

lemma foldl_go_insert_sorted:
  "sorted_wrt (\<lambda>a b. \<not> lt a b) acc \<Longrightarrow>
    sorted_wrt (\<lambda>a b. \<not> lt a b) (foldl (\<lambda>acc x. go_insert lt x acc) acc xs)"
  by (induction xs arbitrary: acc) (auto simp: go_insert_sorted)

lemma sort_sorted: "sorted_wrt (\<lambda>a b. \<not> lt b a) (sort_Sort lt xs)"
  using foldl_go_insert_sorted [of "[]" xs]
  by (simp add: sort_Sort_def sorted_wrt_rev)

lemma sort_hd_min:
  assumes "sort_Sort lt xs = y # ys" and "x \<in> set xs"
  shows "\<not> lt x y"
proof -
  from assms(1) have s: "sorted_wrt (\<lambda>a b. \<not> lt b a) (y # ys)"
    using sort_sorted [of xs] by simp
  have "x \<in> set (y # ys)"
    using assms by (metis set_sort_Sort)
  with s show ?thesis
    using less_asym by auto
qed

end

text \<open>
  A \<open>Less\<close> with a tie breaker: elements neither of which is less than the other have the same key.
  Then the sorted list of elements with distinct keys is determined by the elements alone.
\<close>

locale strict_total = strict_weak +
  fixes key :: "'a \<Rightarrow> 'k"
  assumes less_total: "\<not> lt a b \<Longrightarrow> \<not> lt b a \<Longrightarrow> key a = key b"
begin

lemma sorted_unique:
  "inj_on key (set xs) \<Longrightarrow> mset xs = mset ys \<Longrightarrow> sorted_wrt (\<lambda>a b. \<not> lt b a) xs \<Longrightarrow>
    sorted_wrt (\<lambda>a b. \<not> lt b a) ys \<Longrightarrow> xs = ys"
proof (induction xs arbitrary: ys)
  case Nil
  then show ?case by simp
next
  case (Cons x xs)
  then obtain y ys' where ys: "ys = y # ys'"
    by (cases ys) auto
  have "x \<in> set ys" and y: "y \<in> set (x # xs)"
    using Cons.prems(2) ys by (metis list.set_intros(1) mset_eq_setD)+
  then have "x = y \<or> key x = key y"
    using Cons.prems ys less_total by auto
  then have "x = y"
    using Cons.prems(1) y by (auto dest: inj_onD)
  then have "xs = ys'"
    using Cons ys by auto
  with \<open>x = y\<close> ys show ?case by simp
qed

lemma sort_unique:
  assumes "inj_on key (set xs)" and "mset ys = mset xs" and "sorted_wrt (\<lambda>a b. \<not> lt b a) ys"
  shows "sort_Sort lt xs = ys"
  using assms sort_sorted by (intro sorted_unique) auto

end

section \<open>Strings: decimal conversion, Split and Join\<close>

definition is_digit :: "char \<Rightarrow> bool" where
  "is_digit c \<longleftrightarrow> 48 \<le> (of_char c :: nat) \<and> (of_char c :: nat) \<le> 57"

definition digit_val :: "char \<Rightarrow> nat" where
  "digit_val c = of_char c - 48"

definition digit_char :: "nat \<Rightarrow> char" where
  "digit_char d = char_of (48 + d)"

fun parse_digits :: "nat \<Rightarrow> string \<Rightarrow> nat option" where
  "parse_digits acc [] = Some acc"
| "parse_digits acc (c # cs) =
     (if is_digit c then parse_digits (acc * 10 + digit_val c) cs else None)"

text \<open>\<open>strconv.ParseUint(s, 10, bits)\<close>: digits only, at least one, in range.\<close>

definition ParseUint :: "nat \<Rightarrow> string \<Rightarrow> nat res" where
  "ParseUint bits s =
     (if s = [] then Inl (Err ''invalid syntax'') else
      case parse_digits 0 s of
        None \<Rightarrow> Inl (Err ''invalid syntax'')
      | Some n \<Rightarrow> if n < 2 ^ bits then Inr n else Inl (Err ''value out of range''))"

text \<open>\<open>strconv.ParseInt(s, 10, bits)\<close>: an optional sign, then digits, in the signed range.\<close>

definition ParseInt :: "nat \<Rightarrow> string \<Rightarrow> int res" where
  "ParseInt bits s =
     (let (neg, ds) = (case s of [] \<Rightarrow> (False, [])
                       | c # cs \<Rightarrow> if c = CHR ''-'' then (True, cs)
                                   else if c = CHR ''+'' then (False, cs) else (False, s))
      in if ds = [] then Inl (Err ''invalid syntax'') else
         case parse_digits 0 ds of
           None \<Rightarrow> Inl (Err ''invalid syntax'')
         | Some n \<Rightarrow>
             (if neg then (if int n \<le> 2 ^ (bits - 1) then Inr (- int n) else Inl (Err ''value out of range''))
              else (if int n < 2 ^ (bits - 1) then Inr (int n) else Inl (Err ''value out of range''))))"

fun format_nat :: "nat \<Rightarrow> string" where
  "format_nat n = (if n < 10 then [digit_char n] else format_nat (n div 10) @ [digit_char (n mod 10)])"

declare format_nat.simps [simp del]

text \<open>\<open>strconv.FormatInt(n, 10)\<close> and \<open>fmt.Sprintf("%d", n)\<close>.\<close>

definition FormatInt :: "int \<Rightarrow> string" where
  "FormatInt n = (if n < 0 then CHR ''-'' # format_nat (nat (- n)) else format_nat (nat n))"

lemma of_char_digit_char: "d < 10 \<Longrightarrow> (of_char (digit_char d) :: nat) = 48 + d"
  by (simp add: digit_char_def)

lemma is_digit_digit_char [simp]: "d < 10 \<Longrightarrow> is_digit (digit_char d)"
  by (simp add: is_digit_def of_char_digit_char)

lemma digit_val_digit_char [simp]: "d < 10 \<Longrightarrow> digit_val (digit_char d) = d"
  by (simp add: digit_val_def of_char_digit_char)

lemma format_nat_nonempty: "format_nat n \<noteq> []"
  by (subst format_nat.simps) simp

lemma format_nat_digits: "c \<in> set (format_nat n) \<Longrightarrow> is_digit c"
proof (induction n rule: format_nat.induct)
  case (1 n)
  then show ?case
    by (cases "n < 10") (auto simp: format_nat.simps [of n])
qed

lemma parse_digits_append:
  "parse_digits acc (xs @ ys) =
    (case parse_digits acc xs of None \<Rightarrow> None | Some a \<Rightarrow> parse_digits a ys)"
  by (induction xs arbitrary: acc) auto

lemma parse_format_nat: "parse_digits 0 (format_nat n) = Some n"
proof (induction n rule: format_nat.induct)
  case (1 n)
  show ?case
  proof (cases "n < 10")
    case True
    then show ?thesis by (simp add: format_nat.simps [of n])
  next
    case False
    with 1 show ?thesis
      by (simp add: format_nat.simps [of n] parse_digits_append div_mult_mod_eq)
  qed
qed

lemma not_digit_sign: "\<not> is_digit (CHR ''-'')" "\<not> is_digit (CHR ''+'')"
  by (simp_all add: is_digit_def)

lemma ParseUint_format_nat: "n < 2 ^ bits \<Longrightarrow> ParseUint bits (format_nat n) = Inr n"
  by (simp add: ParseUint_def format_nat_nonempty parse_format_nat)

text \<open>Round trip: reading back a printed number that fits the width.\<close>

lemma ParseInt_FormatInt:
  assumes "- (2 ^ (bits - 1)) \<le> n" and "n < 2 ^ (bits - 1)"
  shows "ParseInt bits (FormatInt n) = Inr n"
proof (cases "n < 0")
  case True
  then show ?thesis
    using assms by (simp add: ParseInt_def FormatInt_def format_nat_nonempty parse_format_nat)
next
  case False
  obtain c cs where f: "format_nat (nat n) = c # cs"
    using format_nat_nonempty by (metis neq_Nil_conv)
  then have "is_digit c"
    using format_nat_digits [of c "nat n"] by simp
  then have "c \<noteq> CHR ''-''" and "c \<noteq> CHR ''+''"
    using not_digit_sign by auto
  moreover have "parse_digits 0 (c # cs) = Some (nat n)"
    using parse_format_nat [of "nat n"] f by simp
  ultimately show ?thesis
    using False assms f by (simp add: ParseInt_def FormatInt_def del: parse_digits.simps)
qed

lemma ParseInt32_FormatInt [simp]: "in32 n \<Longrightarrow> ParseInt 32 (FormatInt n) = Inr n"
  by (rule ParseInt_FormatInt) (simp_all add: in32_def)

lemma ParseInt64_FormatInt [simp]: "in64 n \<Longrightarrow> ParseInt 64 (FormatInt n) = Inr n"
  by (rule ParseInt_FormatInt) (simp_all add: in64_def)

lemma FormatInt_inject32: "in32 m \<Longrightarrow> in32 n \<Longrightarrow> FormatInt m = FormatInt n \<longleftrightarrow> m = n"
  by (metis ParseInt32_FormatInt sum.inject(2))

fun Split :: "char \<Rightarrow> string \<Rightarrow> string list" where
  "Split sep [] = [[]]"
| "Split sep (c # cs) =
     (if c = sep then [] # Split sep cs
      else (case Split sep cs of [] \<Rightarrow> [[c]] | w # ws \<Rightarrow> (c # w) # ws))"

fun Join :: "string \<Rightarrow> string list \<Rightarrow> string" where
  "Join sep [] = []"
| "Join sep [w] = w"
| "Join sep (w # ws) = w @ sep @ Join sep ws"

lemma Split_nonempty [simp]: "Split sep s \<noteq> []"
  by (induction s) (auto split: list.splits)

lemma Split_no_sep: "sep \<notin> set s \<Longrightarrow> Split sep s = [s]"
  by (induction s) auto

lemma Split_append_sep: "sep \<notin> set a \<Longrightarrow> Split sep (a @ sep # b) = a # Split sep b"
  by (induction a) auto

lemma Join_Split: "Join [sep] (Split sep s) = s"
proof (induction s)
  case Nil
  then show ?case by simp
next
  case (Cons c cs)
  obtain w ws where "Split sep cs = w # ws"
    by (metis Split_nonempty neq_Nil_conv)
  with Cons show ?case
    by (cases ws) auto
qed

section \<open>String maps that may be nil\<close>

type_synonym strmap = "string \<rightharpoonup> string"

text \<open>Reading a nil map finds nothing; \<open>m[k]\<close> without the second result is the empty string then.\<close>

definition mlookup :: "strmap option \<Rightarrow> string \<Rightarrow> string option" where
  "mlookup m k = (case m of None \<Rightarrow> None | Some f \<Rightarrow> f k)"

definition mget :: "strmap option \<Rightarrow> string \<Rightarrow> string" where
  "mget m k = (case mlookup m k of None \<Rightarrow> [] | Some v \<Rightarrow> v)"

lemma mlookup_simps [simp]: "mlookup None k = None" "mlookup (Some f) k = f k"
  by (simp_all add: mlookup_def)

lemma mget_simps [simp]: "mget None k = []"
  "mget (Some f) k = (case f k of None \<Rightarrow> [] | Some v \<Rightarrow> v)"
  by (simp_all add: mget_def)

end
