(* ===== verification/Conditions.thy ===== *)
theory Conditions
  imports GoBase
begin

text \<open>
  The conditions library of Cluster API (\<open>src/cluster-api/util/conditions\<close>): reading a condition
  (\<open>getter.go\<close>), setting one (\<open>setter.go\<close>), merging many into one (\<open>merge.go\<close>,
  \<open>merge_strategies.go\<close>) and the three-way merge of condition lists (\<open>patch.go\<close>).

  A \<open>Getter\<close> is what the library sees of an API object: its kind, its name and its conditions. The
  operations that change an object take and return its condition list; the locale
  \<open>condition_object\<close> below is the \<open>Setter\<close> interface, and each API type of the development is an
  interpretation of it. Statuses and severities are strings, as in the Go types, so values outside
  the documented ones are covered. \<open>now\<close> is \<open>time.Now().UTC().Truncate(time.Second)\<close>.
\<close>

section \<open>Data\<close>

type_synonym time = int

record Condition =
  ctype :: string
  cstatus :: string
  cseverity :: string
  clastTransitionTime :: time
  creason :: string
  cmessage :: string

record Getter =
  gkind :: string
  gname :: string
  gconditions :: "Condition list"

abbreviation ConditionTrue :: string where "ConditionTrue \<equiv> ''True''"
abbreviation ConditionFalse :: string where "ConditionFalse \<equiv> ''False''"
abbreviation ConditionUnknown :: string where "ConditionUnknown \<equiv> ''Unknown''"
abbreviation ConditionSeverityError :: string where "ConditionSeverityError \<equiv> ''Error''"
abbreviation ConditionSeverityWarning :: string where "ConditionSeverityWarning \<equiv> ''Warning''"
abbreviation ConditionSeverityInfo :: string where "ConditionSeverityInfo \<equiv> ''Info''"
abbreviation (input) ConditionSeverityNone :: string where "ConditionSeverityNone \<equiv> []"
abbreviation ReadyCondition :: string where "ReadyCondition \<equiv> ''Ready''"

section \<open>fmt.Sprintf\<close>

text \<open>
  The formatting the condition constructors apply to their message: literal text is copied,
  \<open>%%\<close> is a percent sign, any other verb takes the next argument (already printed), a verb without
  an argument is reported as missing and a percent sign at the end as a missing verb. Flags, width
  and precision are skipped; explicit argument indexes (\<open>%[1]d\<close>) are not used by the code and not
  modelled.
\<close>

definition skip_spec :: "string \<Rightarrow> string" where
  "skip_spec s = dropWhile (\<lambda>c. c \<in> {CHR ''#'', CHR ''+'', CHR ''-'', CHR '' '', CHR ''.''} \<or> is_digit c) s"

lemma length_skip_spec: "length (skip_spec s) \<le> length s"
  by (simp add: skip_spec_def length_dropWhile_le)

function Sprintf :: "string \<Rightarrow> string list \<Rightarrow> string" where
  "Sprintf [] args = []"
| "Sprintf (c # cs) args =
     (if c \<noteq> CHR ''%'' then c # Sprintf cs args
      else case skip_spec cs of
        [] \<Rightarrow> ''%!(NOVERB)''
      | v # rest \<Rightarrow>
          if v = CHR ''%'' then CHR ''%'' # Sprintf rest args
          else (case args of
                  [] \<Rightarrow> ''%!'' @ [v] @ ''(MISSING)'' @ Sprintf rest []
                | a # as \<Rightarrow> a @ Sprintf rest as))"
  by pat_completeness auto
termination
proof (relation "measure (length \<circ> fst)")
  show "wf (measure (length \<circ> (fst :: string \<times> string list \<Rightarrow> string)))" by simp
next
  fix c :: char and cs args and v :: char and rest
  assume "skip_spec cs = v # rest"
  then have "length rest < length cs"
    using length_skip_spec [of cs] by simp
  then show "((rest, args), (c # cs, args)) \<in> measure (length \<circ> fst)"
    and "((rest, []), (c # cs, args)) \<in> measure (length \<circ> fst)"
    and "\<And>as. ((rest, as), (c # cs, args)) \<in> measure (length \<circ> fst)"
    by simp_all
qed simp_all

lemma Sprintf_no_percent: "CHR ''%'' \<notin> set s \<Longrightarrow> Sprintf s args = s"
  by (induction s) auto

section \<open>getter.go\<close>

definition Get :: "Condition list \<Rightarrow> string \<Rightarrow> Condition option" where
  "Get cs t = find (\<lambda>c. ctype c = t) cs"

definition Has :: "Condition list \<Rightarrow> string \<Rightarrow> bool" where
  "Has cs t \<longleftrightarrow> Get cs t \<noteq> None"

definition IsTrue :: "Condition list \<Rightarrow> string \<Rightarrow> bool" where
  "IsTrue cs t = (case Get cs t of Some c \<Rightarrow> cstatus c = ConditionTrue | None \<Rightarrow> False)"

definition IsFalse :: "Condition list \<Rightarrow> string \<Rightarrow> bool" where
  "IsFalse cs t = (case Get cs t of Some c \<Rightarrow> cstatus c = ConditionFalse | None \<Rightarrow> False)"

definition IsUnknown :: "Condition list \<Rightarrow> string \<Rightarrow> bool" where
  "IsUnknown cs t = (case Get cs t of Some c \<Rightarrow> cstatus c = ConditionUnknown | None \<Rightarrow> True)"

definition GetReason :: "Condition list \<Rightarrow> string \<Rightarrow> string" where
  "GetReason cs t = (case Get cs t of Some c \<Rightarrow> creason c | None \<Rightarrow> [])"

definition GetMessage :: "Condition list \<Rightarrow> string \<Rightarrow> string" where
  "GetMessage cs t = (case Get cs t of Some c \<Rightarrow> cmessage c | None \<Rightarrow> [])"

definition GetSeverity :: "Condition list \<Rightarrow> string \<Rightarrow> string option" where
  "GetSeverity cs t = map_option cseverity (Get cs t)"

definition GetLastTransitionTime :: "Condition list \<Rightarrow> string \<Rightarrow> time option" where
  "GetLastTransitionTime cs t = map_option clastTransitionTime (Get cs t)"

section \<open>setter.go\<close>

definition lexicographicLess :: "Condition \<Rightarrow> Condition \<Rightarrow> bool" where
  "lexicographicLess i j \<longleftrightarrow>
     (ctype i = ReadyCondition \<or> ctype i < ctype j) \<and> ctype j \<noteq> ReadyCondition"

definition hasSameState :: "Condition \<Rightarrow> Condition \<Rightarrow> bool" where
  "hasSameState i j \<longleftrightarrow> ctype i = ctype j \<and> cstatus i = cstatus j \<and> creason i = creason j \<and>
     cseverity i = cseverity j \<and> cmessage i = cmessage j"

text \<open>The loop over the existing conditions; the flag says whether one of that type exists.\<close>

fun set_existing :: "time \<Rightarrow> Condition \<Rightarrow> Condition list \<Rightarrow> Condition list \<times> bool" where
  "set_existing now c [] = ([], False)"
| "set_existing now c (e # es) =
     (if ctype e = ctype c then
        (if \<not> hasSameState e c then c\<lparr>clastTransitionTime := now\<rparr> # es else e # es, True)
      else let (es', ex) = set_existing now c es in (e # es', ex))"

definition Set :: "time \<Rightarrow> Condition list \<Rightarrow> Condition option \<Rightarrow> Condition list" where
  "Set now cs condition =
     (case condition of
        None \<Rightarrow> cs
      | Some c \<Rightarrow>
          let (cs', ex) = set_existing now c cs;
              cs'' = (if \<not> ex
                      then cs' @ [if clastTransitionTime c = 0 then c\<lparr>clastTransitionTime := now\<rparr> else c]
                      else cs')
          in sort_Sort lexicographicLess cs'')"

definition mkCondition :: "string \<Rightarrow> string \<Rightarrow> string \<Rightarrow> string \<Rightarrow> string \<Rightarrow> Condition" where
  "mkCondition t st r sev msg =
     \<lparr>ctype = t, cstatus = st, cseverity = sev, clastTransitionTime = 0, creason = r, cmessage = msg\<rparr>"

definition TrueCondition :: "string \<Rightarrow> Condition" where
  "TrueCondition t = mkCondition t ConditionTrue [] [] []"

definition TrueConditionWithNegativePolarity ::
  "string \<Rightarrow> string \<Rightarrow> string \<Rightarrow> string \<Rightarrow> string list \<Rightarrow> Condition" where
  "TrueConditionWithNegativePolarity t reason severity messageFormat messageArgs =
     mkCondition t ConditionTrue reason severity (Sprintf messageFormat messageArgs)"

definition FalseCondition ::
  "string \<Rightarrow> string \<Rightarrow> string \<Rightarrow> string \<Rightarrow> string list \<Rightarrow> Condition" where
  "FalseCondition t reason severity messageFormat messageArgs =
     mkCondition t ConditionFalse reason severity (Sprintf messageFormat messageArgs)"

definition FalseConditionWithNegativePolarity :: "string \<Rightarrow> Condition" where
  "FalseConditionWithNegativePolarity t = mkCondition t ConditionFalse [] [] []"

definition UnknownCondition :: "string \<Rightarrow> string \<Rightarrow> string \<Rightarrow> string list \<Rightarrow> Condition" where
  "UnknownCondition t reason messageFormat messageArgs =
     mkCondition t ConditionUnknown reason [] (Sprintf messageFormat messageArgs)"

definition MarkTrue :: "time \<Rightarrow> Condition list \<Rightarrow> string \<Rightarrow> Condition list" where
  "MarkTrue now cs t = Set now cs (Some (TrueCondition t))"

definition MarkTrueWithNegativePolarity ::
  "time \<Rightarrow> Condition list \<Rightarrow> string \<Rightarrow> string \<Rightarrow> string \<Rightarrow> string \<Rightarrow> string list \<Rightarrow> Condition list" where
  "MarkTrueWithNegativePolarity now cs t reason severity fm args =
     Set now cs (Some (TrueConditionWithNegativePolarity t reason severity fm args))"

definition MarkUnknown ::
  "time \<Rightarrow> Condition list \<Rightarrow> string \<Rightarrow> string \<Rightarrow> string \<Rightarrow> string list \<Rightarrow> Condition list" where
  "MarkUnknown now cs t reason fm args = Set now cs (Some (UnknownCondition t reason fm args))"

definition MarkFalse ::
  "time \<Rightarrow> Condition list \<Rightarrow> string \<Rightarrow> string \<Rightarrow> string \<Rightarrow> string \<Rightarrow> string list \<Rightarrow> Condition list" where
  "MarkFalse now cs t reason severity fm args =
     Set now cs (Some (FalseCondition t reason severity fm args))"

definition MarkFalseWithNegativePolarity :: "time \<Rightarrow> Condition list \<Rightarrow> string \<Rightarrow> Condition list" where
  "MarkFalseWithNegativePolarity now cs t = Set now cs (Some (FalseConditionWithNegativePolarity t))"

definition Delete :: "Condition list \<Rightarrow> string \<Rightarrow> Condition list" where
  "Delete cs t = filter (\<lambda>c. ctype c \<noteq> t) cs"

section \<open>merge.go and merge_strategies.go\<close>

datatype conditionPolarity = PositivePolarity | NegativePolarity

record localizedCondition =
  lcondition :: "Condition option"
  lpolarity :: conditionPolarity
  lgetter :: Getter

text \<open>A condition kept in a group is not nil; it is stored with the object it came from.\<close>

record conditionGroup =
  gstatus :: string
  gseverity :: string
  gmembers :: "(Condition \<times> Getter) list"

definition mergePriority :: "conditionGroup \<Rightarrow> int" where
  "mergePriority g =
     (if gstatus g = ConditionFalse then
        (if gseverity g = ConditionSeverityError then 0
         else if gseverity g = ConditionSeverityWarning then 1
         else if gseverity g = ConditionSeverityInfo then 2
         else 99)
      else if gstatus g = ConditionTrue then 3
      else if gstatus g = ConditionUnknown then 4
      else 99)"

definition groupStatus :: "conditionPolarity \<Rightarrow> Condition \<Rightarrow> string" where
  "groupStatus p c =
     (if p = NegativePolarity then
        (if cstatus c = ConditionFalse then ConditionTrue
         else if cstatus c = ConditionTrue then ConditionFalse
         else cstatus c)
      else cstatus c)"

fun add_to_groups :: "string \<Rightarrow> Condition \<times> Getter \<Rightarrow> conditionGroup list \<Rightarrow> conditionGroup list" where
  "add_to_groups st m [] =
     [\<lparr>gstatus = st, gseverity = cseverity (fst m), gmembers = [m]\<rparr>]"
| "add_to_groups st m (g # gs) =
     (if gstatus g = st \<and> gseverity g = cseverity (fst m)
      then g\<lparr>gmembers := gmembers g @ [m]\<rparr> # gs
      else g # add_to_groups st m gs)"

definition groups_step :: "conditionGroup list \<Rightarrow> localizedCondition \<Rightarrow> conditionGroup list" where
  "groups_step gs lc =
     (case lcondition lc of
        None \<Rightarrow> gs
      | Some c \<Rightarrow> add_to_groups (groupStatus (lpolarity lc) c) (c, lgetter lc) gs)"

definition groupsLess :: "conditionGroup \<Rightarrow> conditionGroup \<Rightarrow> bool" where
  "groupsLess g h \<longleftrightarrow> mergePriority g < mergePriority h"

definition memberLess :: "Condition \<times> Getter \<Rightarrow> Condition \<times> Getter \<Rightarrow> bool" where
  "memberLess a b =
     (if ctype (fst a) \<noteq> ctype (fst b) then lexicographicLess (fst a) (fst b)
      else gname (snd a) < gname (snd b))"

definition getConditionGroups :: "localizedCondition list \<Rightarrow> conditionGroup list" where
  "getConditionGroups conditions =
     (case sort_Sort groupsLess (foldl groups_step [] conditions) of
        [] \<Rightarrow> []
      | g # gs \<Rightarrow> g\<lparr>gmembers := sort_Sort memberLess (gmembers g)\<rparr> # gs)"

definition TopGroup :: "conditionGroup list \<Rightarrow> conditionGroup option" where
  "TopGroup g = (case g of [] \<Rightarrow> None | x # _ \<Rightarrow> Some x)"

definition getByStatusAndSeverity :: "conditionGroup list \<Rightarrow> string \<Rightarrow> string \<Rightarrow> conditionGroup option" where
  "getByStatusAndSeverity g st sev = find (\<lambda>x. gstatus x = st \<and> gseverity x = sev) g"

definition TrueGroup :: "conditionGroup list \<Rightarrow> conditionGroup option" where
  "TrueGroup g = getByStatusAndSeverity g ConditionTrue ConditionSeverityNone"

definition ErrorGroup :: "conditionGroup list \<Rightarrow> conditionGroup option" where
  "ErrorGroup g = getByStatusAndSeverity g ConditionFalse ConditionSeverityError"

definition WarningGroup :: "conditionGroup list \<Rightarrow> conditionGroup option" where
  "WarningGroup g = getByStatusAndSeverity g ConditionFalse ConditionSeverityWarning"

record mergeOptions =
  conditionTypes :: "string list option"
  negativeConditionTypes :: "string list"
  addSourceRef :: bool
  addStepCounter :: bool
  addStepCounterIfOnlyConditionTypes :: "string list option"
  stepCounter :: int

definition mergeOptions0 :: mergeOptions where
  "mergeOptions0 = \<lparr>conditionTypes = None, negativeConditionTypes = [], addSourceRef = False,
     addStepCounter = False, addStepCounterIfOnlyConditionTypes = None, stepCounter = 0\<rparr>"

type_synonym MergeOption = "mergeOptions \<Rightarrow> mergeOptions"

text \<open>A variadic option called without arguments sets a nil slice.\<close>

definition WithConditions :: "string list \<Rightarrow> MergeOption" where
  "WithConditions ts c = c\<lparr>conditionTypes := (if ts = [] then None else Some ts)\<rparr>"

definition WithNegativePolarityConditions :: "string list \<Rightarrow> MergeOption" where
  "WithNegativePolarityConditions ts c = c\<lparr>negativeConditionTypes := ts\<rparr>"

definition WithStepCounter :: MergeOption where
  "WithStepCounter c = c\<lparr>addStepCounter := True\<rparr>"

definition WithStepCounterIf :: "bool \<Rightarrow> MergeOption" where
  "WithStepCounterIf b c = c\<lparr>addStepCounter := b\<rparr>"

definition WithStepCounterIfOnly :: "string list \<Rightarrow> MergeOption" where
  "WithStepCounterIfOnly ts c =
     c\<lparr>addStepCounterIfOnlyConditionTypes := (if ts = [] then None else Some ts)\<rparr>"

definition AddSourceRef :: MergeOption where
  "AddSourceRef c = c\<lparr>addSourceRef := True\<rparr>"

definition applyMergeOptions :: "MergeOption list \<Rightarrow> mergeOptions \<Rightarrow> mergeOptions" where
  "applyMergeOptions opts o0 = foldl (\<lambda>o' f. f o') o0 opts"

definition firstOfType :: "(Condition \<times> Getter) list \<Rightarrow> string \<Rightarrow> (Condition \<times> Getter) option" where
  "firstOfType ms p = find (\<lambda>m. ctype (fst m) = p) ms"

fun firstByPriority :: "(Condition \<times> Getter) list \<Rightarrow> string list \<Rightarrow> (Condition \<times> Getter) option" where
  "firstByPriority ms [] = None"
| "firstByPriority ms (p # ps) =
     (case firstOfType ms p of Some m \<Rightarrow> Some m | None \<Rightarrow> firstByPriority ms ps)"

definition getFirstCondition :: "conditionGroup list \<Rightarrow> string list \<Rightarrow> (Condition \<times> Getter) option" where
  "getFirstCondition g priority =
     (case TopGroup g of
        None \<Rightarrow> None
      | Some tg \<Rightarrow>
          (case gmembers tg of
             [] \<Rightarrow> None
           | [m] \<Rightarrow> Some m
           | m # ms \<Rightarrow> (case firstByPriority (m # ms) priority of Some x \<Rightarrow> Some x | None \<Rightarrow> Some m)))"

definition localizeReason :: "string \<Rightarrow> Getter \<Rightarrow> string" where
  "localizeReason reason from =
     (if CHR ''@'' \<in> set reason then reason
      else reason @ '' @ '' @ gkind from @ ''/'' @ gname from)"

definition getFirstReason :: "conditionGroup list \<Rightarrow> string list \<Rightarrow> bool \<Rightarrow> string" where
  "getFirstReason g order addRef =
     (case getFirstCondition g order of
        Some (c, from) \<Rightarrow> if addRef then localizeReason (creason c) from else creason c
      | None \<Rightarrow> [])"

definition orderOf :: "mergeOptions \<Rightarrow> string list" where
  "orderOf opts = (case conditionTypes opts of None \<Rightarrow> [] | Some ts \<Rightarrow> ts)"

definition getReason :: "conditionGroup list \<Rightarrow> mergeOptions \<Rightarrow> string" where
  "getReason g opts = getFirstReason g (orderOf opts) (addSourceRef opts)"

definition getStepCounterMessage :: "conditionGroup list \<Rightarrow> int \<Rightarrow> string" where
  "getStepCounterMessage g to =
     (let ct = (case TrueGroup g of Some t \<Rightarrow> int (length (gmembers t)) | None \<Rightarrow> 0)
      in FormatInt ct @ '' of '' @ FormatInt to @ '' completed'')"

definition getFirstMessage :: "conditionGroup list \<Rightarrow> string list \<Rightarrow> string" where
  "getFirstMessage g order =
     (case getFirstCondition g order of Some (c, _) \<Rightarrow> cmessage c | None \<Rightarrow> [])"

definition getMessage :: "conditionGroup list \<Rightarrow> mergeOptions \<Rightarrow> string" where
  "getMessage g opts =
     (if addStepCounter opts then getStepCounterMessage g (stepCounter opts)
      else getFirstMessage g (orderOf opts))"

definition merge :: "localizedCondition list \<Rightarrow> string \<Rightarrow> mergeOptions \<Rightarrow> Condition option" where
  "merge conditions targetCondition opts =
     (let g = getConditionGroups conditions in
      case g of
        [] \<Rightarrow> None
      | tg # _ \<Rightarrow>
          if gstatus tg = ConditionTrue then Some (TrueCondition targetCondition)
          else
            let targetReason = getReason g opts; targetMessage = getMessage g opts
            in if gstatus tg = ConditionFalse
               then Some (FalseCondition targetCondition targetReason (gseverity tg) targetMessage [])
               else Some (UnknownCondition targetCondition targetReason targetMessage []))"

section \<open>getter.go: summary, mirror, aggregate\<close>

definition inScope :: "mergeOptions \<Rightarrow> Condition \<Rightarrow> bool" where
  "inScope opts c \<longleftrightarrow> ctype c \<noteq> ReadyCondition \<and>
     (case conditionTypes opts of None \<Rightarrow> True | Some ts \<Rightarrow> ctype c \<in> set ts)"

definition localize :: "mergeOptions \<Rightarrow> Getter \<Rightarrow> Condition \<Rightarrow> localizedCondition" where
  "localize opts from c =
     \<lparr>lcondition = Some c,
      lpolarity = (if ctype c \<in> set (negativeConditionTypes opts) then NegativePolarity else PositivePolarity),
      lgetter = from\<rparr>"

definition summary :: "Getter \<Rightarrow> MergeOption list \<Rightarrow> Condition option" where
  "summary from options =
     (let opts0 = applyMergeOptions options mergeOptions0;
          scoped = filter (inScope opts0) (gconditions from);
          opts1 = (case addStepCounterIfOnlyConditionTypes opts0 of
                     None \<Rightarrow> opts0
                   | Some ts \<Rightarrow> if \<forall>c \<in> set scoped. ctype c \<in> set ts then opts0
                               else opts0\<lparr>addStepCounter := False\<rparr>);
          opts2 = (if addStepCounter opts1 then
                     opts1\<lparr>stepCounter :=
                       (case addStepCounterIfOnlyConditionTypes opts1 of
                          Some ts \<Rightarrow> int (length ts)
                        | None \<Rightarrow> (case conditionTypes opts1 of
                                     Some ts \<Rightarrow> int (length ts)
                                   | None \<Rightarrow> int (length scoped)))\<rparr>
                   else opts1)
      in merge (map (localize opts0 from) scoped) ReadyCondition opts2)"

record mirrorOptions =
  fallbackTo :: "bool option"
  fallbackReason :: string
  fallbackSeverity :: string
  fallbackMessage :: string

definition mirrorOptions0 :: mirrorOptions where
  "mirrorOptions0 = \<lparr>fallbackTo = None, fallbackReason = [], fallbackSeverity = [], fallbackMessage = []\<rparr>"

definition WithFallbackValue :: "bool \<Rightarrow> string \<Rightarrow> string \<Rightarrow> string \<Rightarrow> mirrorOptions \<Rightarrow> mirrorOptions" where
  "WithFallbackValue v reason severity msg c =
     c\<lparr>fallbackTo := Some v, fallbackReason := reason, fallbackSeverity := severity, fallbackMessage := msg\<rparr>"

definition mirror :: "Condition list \<Rightarrow> string \<Rightarrow> (mirrorOptions \<Rightarrow> mirrorOptions) list \<Rightarrow> Condition option" where
  "mirror from targetCondition options =
     (let mo = foldl (\<lambda>o' f. f o') mirrorOptions0 options;
          c0 = Get from ReadyCondition;
          c1 = (case (fallbackTo mo, c0) of
                  (Some True, None) \<Rightarrow> Some (TrueCondition targetCondition)
                | (Some False, None) \<Rightarrow>
                    Some (FalseCondition targetCondition (fallbackReason mo) (fallbackSeverity mo) (fallbackMessage mo) [])
                | _ \<Rightarrow> c0)
      in map_option (\<lambda>c. c\<lparr>ctype := targetCondition\<rparr>) c1)"

definition aggregate :: "Getter list \<Rightarrow> string \<Rightarrow> MergeOption list \<Rightarrow> Condition option" where
  "aggregate from targetCondition options =
     merge (map (\<lambda>f. \<lparr>lcondition = Get (gconditions f) ReadyCondition,
                      lpolarity = PositivePolarity, lgetter = f\<rparr>) from)
       targetCondition
       (applyMergeOptions options
          (mergeOptions0\<lparr>addStepCounter := True, stepCounter := int (length from)\<rparr>))"

definition SetSummary :: "time \<Rightarrow> Getter \<Rightarrow> MergeOption list \<Rightarrow> Condition list" where
  "SetSummary now to options = Set now (gconditions to) (summary to options)"

definition SetMirror ::
  "time \<Rightarrow> Condition list \<Rightarrow> string \<Rightarrow> Condition list \<Rightarrow> (mirrorOptions \<Rightarrow> mirrorOptions) list \<Rightarrow> Condition list" where
  "SetMirror now to targetCondition from options = Set now to (mirror from targetCondition options)"

definition SetAggregate ::
  "time \<Rightarrow> Condition list \<Rightarrow> string \<Rightarrow> Getter list \<Rightarrow> MergeOption list \<Rightarrow> Condition list" where
  "SetAggregate now to targetCondition from options = Set now to (aggregate from targetCondition options)"

section \<open>patch.go\<close>

datatype PatchOperation =
    AddConditionPatch Condition
  | ChangeConditionPatch Condition Condition  \<comment> \<open>before, after\<close>
  | RemoveConditionPatch Condition

definition NewPatch :: "Condition list option \<Rightarrow> Condition list option \<Rightarrow> PatchOperation list res" where
  "NewPatch before after =
     (case before of
        None \<Rightarrow> Inl (Err ''error creating patch: before object is nil'')
      | Some b \<Rightarrow>
        (case after of
           None \<Rightarrow> Inl (Err ''error creating patch: after object is nil'')
         | Some a \<Rightarrow>
             Inr (List.map_filter
                    (\<lambda>t. case Get b (ctype t) of
                           None \<Rightarrow> Some (AddConditionPatch t)
                         | Some cur \<Rightarrow> if t \<noteq> cur then Some (ChangeConditionPatch cur t) else None) a
                  @ List.map_filter
                      (\<lambda>c. if Get a (ctype c) = None then Some (RemoveConditionPatch c) else None) b)))"

record applyOptions =
  ownedConditions :: "string list"
  forceOverwrite :: bool

definition applyOptions0 :: applyOptions where
  "applyOptions0 = \<lparr>ownedConditions = [], forceOverwrite = False\<rparr>"

type_synonym ApplyOption = "applyOptions \<Rightarrow> applyOptions"

definition WithOwnedConditions :: "string list \<Rightarrow> ApplyOption" where
  "WithOwnedConditions t c = c\<lparr>ownedConditions := t\<rparr>"

definition WithForceOverwrite :: "bool \<Rightarrow> ApplyOption" where
  "WithForceOverwrite v c = c\<lparr>forceOverwrite := v\<rparr>"

text \<open>An option may be a nil function, which is an error.\<close>

fun runApplyOptions :: "ApplyOption option list \<Rightarrow> applyOptions \<Rightarrow> applyOptions res" where
  "runApplyOptions [] o' = Inr o'"
| "runApplyOptions (None # os) o' = Inl (Err ''error patching conditions: ApplyOption was nil'')"
| "runApplyOptions (Some f # os) o' = runApplyOptions os (f o')"

definition isOwnedCondition :: "applyOptions \<Rightarrow> string \<Rightarrow> bool" where
  "isOwnedCondition opts t \<longleftrightarrow> t \<in> set (ownedConditions opts)"

definition apply_op :: "time \<Rightarrow> applyOptions \<Rightarrow> PatchOperation \<Rightarrow> Condition list \<Rightarrow> Condition list res" where
  "apply_op now opts op latest =
     (case op of
        AddConditionPatch after \<Rightarrow>
          if forceOverwrite opts \<or> isOwnedCondition opts (ctype after) then Inr (Set now latest (Some after))
          else (case Get latest (ctype after) of
                  Some l \<Rightarrow> if \<not> hasSameState l after then Inl (Err ''merge/AddCondition conflict'')
                            else Inr latest
                | None \<Rightarrow> Inr (Set now latest (Some after)))
      | ChangeConditionPatch before after \<Rightarrow>
          if forceOverwrite opts \<or> isOwnedCondition opts (ctype after) then Inr (Set now latest (Some after))
          else (case Get latest (ctype after) of
                  None \<Rightarrow> Inl (Err ''merge/ChangeCondition conflict'')
                | Some l \<Rightarrow> if l \<noteq> before then
                              (if \<not> hasSameState l after then Inl (Err ''merge/ChangeCondition conflict'')
                               else Inr latest)
                            else Inr (Set now latest (Some after)))
      | RemoveConditionPatch before \<Rightarrow>
          if forceOverwrite opts \<or> isOwnedCondition opts (ctype before) then Inr (Delete latest (ctype before))
          else (case Get latest (ctype before) of
                  Some l \<Rightarrow> if \<not> hasSameState l before then Inl (Err ''merge/RemoveCondition conflict'')
                            else Inr (Delete latest (ctype before))
                | None \<Rightarrow> Inr (Delete latest (ctype before))))"

text \<open>
  The loop of \<open>Apply\<close>. The object is changed in place, so the conditions applied before a conflict
  stay: the second component is the object's condition list when the loop is left.
\<close>

fun apply_ops :: "time \<Rightarrow> applyOptions \<Rightarrow> PatchOperation list \<Rightarrow> Condition list \<Rightarrow> err option \<times> Condition list" where
  "apply_ops now opts [] latest = (None, latest)"
| "apply_ops now opts (op # ops) latest =
     (case apply_op now opts op latest of
        Inl e \<Rightarrow> (Some e, latest)
      | Inr l \<Rightarrow> apply_ops now opts ops l)"

definition IsZero :: "PatchOperation list \<Rightarrow> bool" where
  "IsZero p \<longleftrightarrow> length p = 0"

definition Apply :: "time \<Rightarrow> ApplyOption option list \<Rightarrow> PatchOperation list \<Rightarrow> Condition list option \<Rightarrow>
    err option \<times> Condition list option" where
  "Apply now options p latest =
     (if IsZero p then (None, latest)
      else case latest of
        None \<Rightarrow> (Some (Err ''error patching conditions: latest object was nil''), None)
      | Some l \<Rightarrow>
          (case runApplyOptions options applyOptions0 of
             Inl e \<Rightarrow> (Some e, Some l)
           | Inr opts \<Rightarrow> (case apply_ops now opts p l of (e, l') \<Rightarrow> (e, Some l'))))"

section \<open>The order of conditions\<close>

text \<open>
  \<open>lexicographicLess\<close> orders conditions by type with Ready first: it satisfies the contract of
  \<open>sort.Sort\<close>, and on conditions of distinct types the sorted list is unique.
\<close>

interpretation cond_order: strict_total lexicographicLess ctype
  by unfold_locales (auto simp: lexicographicLess_def)

interpretation group_order: strict_weak groupsLess
  by unfold_locales (auto simp: groupsLess_def)

interpretation member_order: strict_weak memberLess
  by unfold_locales (auto simp: memberLess_def lexicographicLess_def split: if_splits)

definition wfConditions :: "Condition list \<Rightarrow> bool" where
  "wfConditions cs \<longleftrightarrow> distinct (map ctype cs)"

definition orderedConditions :: "Condition list \<Rightarrow> bool" where
  "orderedConditions cs \<longleftrightarrow> wfConditions cs \<and> sorted_wrt lexicographicLess cs"

lemma Get_append: "Get (xs @ ys) t = (case Get xs t of Some c \<Rightarrow> Some c | None \<Rightarrow> Get ys t)"
  by (induction xs) (auto simp: Get_def)

lemma Get_Cons [simp]: "Get (c # cs) t = (if ctype c = t then Some c else Get cs t)"
  by (simp add: Get_def)

lemma Get_Nil [simp]: "Get [] t = None"
  by (simp add: Get_def)

lemma Get_Some_in: "Get cs t = Some c \<Longrightarrow> c \<in> set cs \<and> ctype c = t"
  by (auto simp: Get_def find_Some_iff)

lemma Get_None_iff: "Get cs t = None \<longleftrightarrow> t \<notin> ctype ` set cs"
  by (auto simp: Get_def find_None_iff)

lemma Get_eq_Some: "wfConditions cs \<Longrightarrow> Get cs t = Some c \<longleftrightarrow> c \<in> set cs \<and> ctype c = t"
  by (induction cs) (auto simp: Get_def wfConditions_def)

lemma Get_cong_set:
  assumes "wfConditions cs" "wfConditions ds" "set cs = set ds"
  shows "Get cs t = Get ds t"
proof -
  have "Get cs t = Some c \<longleftrightarrow> Get ds t = Some c" for c
    using assms by (simp add: Get_eq_Some)
  then show ?thesis
    by (metis not_None_eq)
qed

lemma wfConditions_sort [simp]: "wfConditions (sort_Sort lexicographicLess cs) = wfConditions cs"
  by (simp add: wfConditions_def)

lemma Get_sort [simp]: "wfConditions cs \<Longrightarrow> Get (sort_Sort lexicographicLess cs) t = Get cs t"
  by (rule Get_cong_set) simp_all

section \<open>Set and Delete\<close>

text \<open>What \<open>Set\<close> stores for the condition's type, given what is there.\<close>

definition stored :: "time \<Rightarrow> Condition \<Rightarrow> Condition option \<Rightarrow> Condition" where
  "stored now c old =
     (case old of
        None \<Rightarrow> if clastTransitionTime c = 0 then c\<lparr>clastTransitionTime := now\<rparr> else c
      | Some e \<Rightarrow> if hasSameState e c then e else c\<lparr>clastTransitionTime := now\<rparr>)"

lemma ctype_stored [simp]: "ctype (stored now c (Get cs (ctype c))) = ctype c"
  by (cases "Get cs (ctype c)") (auto simp: stored_def dest: Get_Some_in)

lemma hasSameState_stored [simp]: "hasSameState (stored now c (Get cs (ctype c))) c"
  by (cases "Get cs (ctype c)") (auto simp: stored_def hasSameState_def dest: Get_Some_in)

lemma ctype_stored_None [simp]: "ctype (stored now c None) = ctype c"
  by (simp add: stored_def)

lemma ctype_stored_Some [simp]: "ctype e = ctype c \<Longrightarrow> ctype (stored now c (Some e)) = ctype c"
  by (simp add: stored_def)

lemma set_existing_absent: "ctype c \<notin> ctype ` set cs \<Longrightarrow> set_existing now c cs = (cs, False)"
  by (induction cs) auto

lemma set_existing_present:
  "Get cs (ctype c) = Some e \<Longrightarrow>
    \<exists>xs ys. cs = xs @ e # ys \<and> ctype e = ctype c \<and> ctype c \<notin> ctype ` set xs \<and>
      set_existing now c cs = (xs @ stored now c (Some e) # ys, True)"
proof (induction cs)
  case Nil
  then show ?case by (simp add: Get_def)
next
  case (Cons a cs)
  show ?case
  proof (cases "ctype a = ctype c")
    case True
    with Cons.prems show ?thesis
      by (intro exI [of _ "[]"] exI [of _ cs]) (auto simp: Get_def stored_def)
  next
    case False
    with Cons obtain xs ys where
      "cs = xs @ e # ys" "ctype e = ctype c" "ctype c \<notin> ctype ` set xs"
      "set_existing now c cs = (xs @ stored now c (Some e) # ys, True)"
      by (auto simp: Get_def)
    with False show ?thesis
      by (intro exI [of _ "a # xs"] exI [of _ ys]) auto
  qed
qed

text \<open>The list \<open>Set\<close> hands to \<open>sort.Slice\<close>.\<close>

definition unsorted :: "time \<Rightarrow> Condition list \<Rightarrow> Condition \<Rightarrow> Condition list" where
  "unsorted now cs c =
     (case Get cs (ctype c) of
        None \<Rightarrow> cs @ [stored now c None]
      | Some e \<Rightarrow> fst (set_existing now c cs))"

lemma Set_unsorted: "Set now cs (Some c) = sort_Sort lexicographicLess (unsorted now cs c)"
proof (cases "Get cs (ctype c)")
  case None
  then show ?thesis
    using set_existing_absent [of c cs now] Get_None_iff [of cs "ctype c"]
    by (simp add: Set_def unsorted_def stored_def)
next
  case (Some e)
  then show ?thesis
    using set_existing_present [OF Some, of now] by (auto simp: Set_def unsorted_def)
qed

lemma wf_unsorted: "wfConditions cs \<Longrightarrow> wfConditions (unsorted now cs c)"
proof (cases "Get cs (ctype c)")
  case None
  moreover assume "wfConditions cs"
  ultimately show ?thesis
    using Get_None_iff [of cs "ctype c"] by (simp add: wfConditions_def unsorted_def)
next
  case (Some e)
  moreover assume "wfConditions cs"
  ultimately show ?thesis
    using set_existing_present [OF Some, of now] by (auto simp: unsorted_def wfConditions_def)
qed

lemma Get_unsorted:
  assumes "wfConditions cs"
  shows "Get (unsorted now cs c) t =
    (if t = ctype c then Some (stored now c (Get cs t)) else Get cs t)"
proof (cases "Get cs (ctype c)")
  case None
  then show ?thesis
    by (auto simp: unsorted_def Get_append split: option.splits)
next
  case (Some e)
  from set_existing_present [OF this, of now] obtain xs ys where
    *: "cs = xs @ e # ys" "ctype e = ctype c" "ctype c \<notin> ctype ` set xs"
      "fst (set_existing now c cs) = xs @ stored now c (Some e) # ys"
    by auto
  then have "Get xs (ctype c) = None"
    by (simp add: Get_None_iff)
  with * Some show ?thesis
    by (auto simp: unsorted_def Get_append split: option.splits)
qed

lemma wf_Set [simp]: "wfConditions cs \<Longrightarrow> wfConditions (Set now cs copt)"
  by (cases copt) (simp_all add: Set_def [of _ _ None] Set_unsorted wf_unsorted)

lemma Set_None [simp]: "Set now cs None = cs"
  by (simp add: Set_def)

lemma Get_Set:
  "wfConditions cs \<Longrightarrow> Get (Set now cs (Some c)) t =
    (if t = ctype c then Some (stored now c (Get cs t)) else Get cs t)"
  by (simp add: Set_unsorted wf_unsorted Get_unsorted)

lemma ordered_sort:
  assumes "wfConditions cs"
  shows "orderedConditions (sort_Sort lexicographicLess cs)"
proof -
  let ?s = "sort_Sort lexicographicLess cs"
  have d: "distinct (map ctype ?s)"
    using assms by (simp add: wfConditions_def)
  have "sorted_wrt lexicographicLess ?s"
  proof -
    have "\<not> lexicographicLess b a \<Longrightarrow> ctype a \<noteq> ctype b \<Longrightarrow> lexicographicLess a b" for a b
      using cond_order.less_total by blast
    then show ?thesis
      using d cond_order.sort_sorted [of cs]
      by (auto simp: sorted_wrt_iff_nth_less distinct_conv_nth)
  qed
  with d show ?thesis
    by (simp add: orderedConditions_def wfConditions_def)
qed

lemma ordered_Set: "wfConditions cs \<Longrightarrow> orderedConditions (Set now cs (Some c))"
  by (simp add: Set_unsorted ordered_sort wf_unsorted)

lemma Get_Delete: "Get (Delete cs t) u = (if u = t then None else Get cs u)"
  by (induction cs) (auto simp: Get_def Delete_def)

lemma wf_Delete [simp]: "wfConditions cs \<Longrightarrow> wfConditions (Delete cs t)"
  by (simp add: wfConditions_def Delete_def distinct_map_filter)

lemma ordered_Delete: "orderedConditions cs \<Longrightarrow> orderedConditions (Delete cs t)"
  by (simp add: orderedConditions_def) (simp add: Delete_def sorted_wrt_filter)

section \<open>Merge\<close>

text \<open>The group a condition belongs to, and the conditions of a list that belong to a group.\<close>

definition entryKey :: "localizedCondition \<Rightarrow> (string \<times> string) option" where
  "entryKey lc = map_option (\<lambda>c. (groupStatus (lpolarity lc) c, cseverity c)) (lcondition lc)"

definition keysOf :: "localizedCondition list \<Rightarrow> (string \<times> string) set" where
  "keysOf lcs = set (List.map_filter entryKey lcs)"

definition entryMember :: "string \<times> string \<Rightarrow> localizedCondition \<Rightarrow> (Condition \<times> Getter) option" where
  "entryMember k lc =
     (if entryKey lc = Some k then map_option (\<lambda>c. (c, lgetter lc)) (lcondition lc) else None)"

definition groupKey :: "conditionGroup \<Rightarrow> string \<times> string" where
  "groupKey g = (gstatus g, gseverity g)"

definition keyPriority :: "string \<times> string \<Rightarrow> int" where
  "keyPriority k = mergePriority \<lparr>gstatus = fst k, gseverity = snd k, gmembers = []\<rparr>"

lemma mergePriority_key: "mergePriority g = keyPriority (groupKey g)"
  by (simp add: keyPriority_def groupKey_def mergePriority_def)

lemma groupKey_upd [simp]: "groupKey (g\<lparr>gmembers := ms\<rparr>) = groupKey g"
  by (simp add: groupKey_def)

lemma entryKey_None [simp]: "entryKey lc = None \<longleftrightarrow> lcondition lc = None"
  by (simp add: entryKey_def)

lemma map_filter_snoc:
  "List.map_filter f (xs @ [x]) = List.map_filter f xs @ (case f x of None \<Rightarrow> [] | Some y \<Rightarrow> [y])"
  by (simp add: List.map_filter_def split: option.splits)

lemma map_filter_empty_iff: "List.map_filter f xs = [] \<longleftrightarrow> (\<forall>x \<in> set xs. f x = None)"
  by (auto simp: List.map_filter_def filter_empty_conv)

lemma in_map_filter: "y \<in> set (List.map_filter f xs) \<longleftrightarrow> (\<exists>x \<in> set xs. f x = Some y)"
proof (induction xs)
  case (Cons x xs)
  then show ?case
    by (cases "f x") (simp_all add: map_filter_simps, blast)
qed (simp add: map_filter_simps)

lemma keysOf_iff: "k \<in> keysOf lcs \<longleftrightarrow> (\<exists>lc \<in> set lcs. entryKey lc = Some k)"
  by (simp add: keysOf_def in_map_filter)

lemma keysOf_snoc: "keysOf (lcs @ [lc]) = keysOf lcs \<union> set_option (entryKey lc)"
  by (auto simp: keysOf_def map_filter_snoc split: option.splits)

lemma keysOf_empty: "keysOf lcs = {} \<longleftrightarrow> (\<forall>lc \<in> set lcs. lcondition lc = None)"
  by (simp add: keysOf_def map_filter_empty_iff)

lemma add_to_groups_keys:
  "groupKey ` set (add_to_groups st m gs) = insert (st, cseverity (fst m)) (groupKey ` set gs)"
  by (induction gs) (auto simp: groupKey_def)

lemma add_to_groups_distinct:
  "distinct (map groupKey gs) \<Longrightarrow> distinct (map groupKey (add_to_groups st m gs))"
proof (induction gs)
  case (Cons g gs)
  then show ?case
    using add_to_groups_keys [of st m gs] by (auto simp: groupKey_def)
qed simp

definition membersOf :: "conditionGroup list \<Rightarrow> string \<times> string \<Rightarrow> (Condition \<times> Getter) list" where
  "membersOf gs k = concat (map gmembers (filter (\<lambda>g. groupKey g = k) gs))"

lemma membersOf_absent: "k \<notin> groupKey ` set gs \<Longrightarrow> membersOf gs k = []"
  by (auto simp: membersOf_def filter_empty_conv)

lemma membersOf_present:
  "distinct (map groupKey gs) \<Longrightarrow> g \<in> set gs \<Longrightarrow> membersOf gs (groupKey g) = gmembers g"
proof (induction gs)
  case (Cons h gs)
  show ?case
  proof (cases "g = h")
    case True
    with Cons.prems have "membersOf gs (groupKey g) = []"
      by (intro membersOf_absent) simp
    with True show ?thesis by (simp add: membersOf_def)
  next
    case False
    with Cons.prems have "groupKey h \<noteq> groupKey g" "g \<in> set gs"
      by force+
    with Cons show ?thesis by (simp add: membersOf_def)
  qed
qed simp

lemma membersOf_add:
  "distinct (map groupKey gs) \<Longrightarrow>
    membersOf (add_to_groups st m gs) k =
      membersOf gs k @ (if k = (st, cseverity (fst m)) then [m] else [])"
proof (induction gs)
  case Nil
  then show ?case by (auto simp: membersOf_def groupKey_def)
next
  case (Cons g gs)
  show ?case
  proof (cases "gstatus g = st \<and> gseverity g = cseverity (fst m)")
    case True
    then have "groupKey g = (st, cseverity (fst m))"
      by (simp add: groupKey_def)
    with Cons.prems have "membersOf gs (st, cseverity (fst m)) = []"
      by (intro membersOf_absent) auto
    moreover have "membersOf (add_to_groups st m (g # gs)) k =
        (if groupKey g = k then gmembers g @ [m] else []) @ membersOf gs k"
      using True by (simp add: membersOf_def)
    moreover have "membersOf (g # gs) k = (if groupKey g = k then gmembers g else []) @ membersOf gs k"
      by (simp add: membersOf_def)
    ultimately show ?thesis
      using \<open>groupKey g = _\<close> by auto
  next
    case False
    then have "membersOf (add_to_groups st m (g # gs)) k =
        (if groupKey g = k then gmembers g else []) @ membersOf (add_to_groups st m gs) k"
      by (auto simp: membersOf_def)
    with Cons show ?thesis by (simp add: membersOf_def)
  qed
qed

definition groupsOf :: "localizedCondition list \<Rightarrow> conditionGroup list \<Rightarrow> bool" where
  "groupsOf lcs gs \<longleftrightarrow> distinct (map groupKey gs) \<and> groupKey ` set gs = keysOf lcs \<and>
     membersOf gs = (\<lambda>k. List.map_filter (entryMember k) lcs)"

lemma groups_step_groupsOf:
  assumes "groupsOf lcs gs"
  shows "groupsOf (lcs @ [lc]) (groups_step gs lc)"
proof (cases "lcondition lc")
  case None
  with assms show ?thesis
    by (auto simp: groupsOf_def groups_step_def keysOf_snoc entryKey_def entryMember_def map_filter_snoc)
next
  case (Some c)
  let ?st = "groupStatus (lpolarity lc) c"
  have k: "entryKey lc = Some (?st, cseverity c)"
    by (simp add: entryKey_def Some)
  have mem: "membersOf (add_to_groups ?st (c, lgetter lc) gs) =
      (\<lambda>k. List.map_filter (entryMember k) (lcs @ [lc]))"
    using assms k by (auto simp: fun_eq_iff groupsOf_def membersOf_add map_filter_snoc entryMember_def Some
        simp del: split_paired_All)
  have "keysOf (lcs @ [lc]) = insert (?st, cseverity c) (keysOf lcs)"
    using k by (simp add: keysOf_snoc)
  with assms mem show ?thesis
    by (simp add: groupsOf_def groups_step_def Some add_to_groups_keys add_to_groups_distinct)
qed

lemma foldl_groupsOf: "groupsOf lcs (foldl groups_step [] lcs)"
proof (induction lcs rule: rev_induct)
  case Nil
  then show ?case by (simp add: groupsOf_def keysOf_def fun_eq_iff membersOf_def)
next
  case (snoc lc lcs)
  then show ?case by (simp add: groups_step_groupsOf)
qed

lemma getConditionGroups_Nil: "getConditionGroups lcs = [] \<longleftrightarrow> keysOf lcs = {}"
proof -
  have "foldl groups_step [] lcs = [] \<longleftrightarrow> keysOf lcs = {}"
    using foldl_groupsOf [of lcs] by (auto simp: groupsOf_def)
  then show ?thesis
    by (auto simp: getConditionGroups_def split: list.splits)
qed

text \<open>The first group has the least priority value, and holds the conditions of its key.\<close>

lemma getConditionGroups_hd:
  assumes "getConditionGroups lcs = g # gs"
  shows "groupKey g \<in> keysOf lcs"
    and "k \<in> keysOf lcs \<Longrightarrow> keyPriority (groupKey g) \<le> keyPriority k"
    and "mset (gmembers g) = mset (List.map_filter (entryMember (groupKey g)) lcs)"
proof -
  let ?fs = "foldl groups_step [] lcs"
  note inv = foldl_groupsOf [of lcs]
  from assms obtain g0 where s: "sort_Sort groupsLess ?fs = g0 # gs"
    and g: "g = g0\<lparr>gmembers := sort_Sort memberLess (gmembers g0)\<rparr>"
    by (auto simp: getConditionGroups_def split: list.splits)
  then have g0: "g0 \<in> set ?fs"
    by (metis list.set_intros(1) set_sort_Sort)
  with inv show "groupKey g \<in> keysOf lcs"
    by (auto simp: g groupsOf_def)
  show "mset (gmembers g) = mset (List.map_filter (entryMember (groupKey g)) lcs)"
    using inv g0 membersOf_present [of ?fs g0] by (simp add: g groupsOf_def)
  assume "k \<in> keysOf lcs"
  with inv have "k \<in> groupKey ` set ?fs"
    by (simp add: groupsOf_def)
  then obtain h where "h \<in> set ?fs" "groupKey h = k"
    by auto
  with group_order.sort_hd_min [OF s] show "keyPriority (groupKey g) \<le> keyPriority k"
    by (auto simp: groupsLess_def mergePriority_key g not_less)
qed

lemma firstByPriority_in: "firstByPriority ms ps = Some m \<Longrightarrow> m \<in> set ms"
  by (induction ps) (auto simp: firstOfType_def find_Some_iff split: option.splits)

lemma getFirstCondition_in:
  assumes "gmembers g \<noteq> []"
  shows "\<exists>m \<in> set (gmembers g). getFirstCondition (g # gs) ps = Some m"
proof (cases "firstByPriority (gmembers g) ps")
  case None
  with assms show ?thesis
    by (auto simp: getFirstCondition_def TopGroup_def neq_Nil_conv split: list.splits)
next
  case (Some m)
  with assms firstByPriority_in [OF Some] show ?thesis
    by (cases "gmembers g" rule: remdups_adj.cases) (auto simp: getFirstCondition_def TopGroup_def simp del: firstByPriority.simps)
qed

lemma hd_member_key:
  assumes "getConditionGroups lcs = g # gs" and "m \<in> set (gmembers g)"
  shows "\<exists>lc \<in> set lcs. entryKey lc = Some (groupKey g) \<and> lcondition lc = Some (fst m) \<and> lgetter lc = snd m"
proof -
  have "set (gmembers g) = set (List.map_filter (entryMember (groupKey g)) lcs)"
    using getConditionGroups_hd(3) [OF assms(1)] by (metis set_mset_mset)
  with assms(2) show ?thesis
    by (auto simp: List.map_filter_def entryMember_def split: if_splits)
qed

lemma hd_members_nonempty:
  assumes "getConditionGroups lcs = g # gs"
  shows "gmembers g \<noteq> []"
proof -
  obtain lc where "lc \<in> set lcs" "entryKey lc = Some (groupKey g)"
    using getConditionGroups_hd(1) [OF assms] by (auto simp: keysOf_iff)
  then have "entryMember (groupKey g) lc \<noteq> None"
    by (auto simp: entryMember_def entryKey_def)
  then have "List.map_filter (entryMember (groupKey g)) lcs \<noteq> []"
    using \<open>lc \<in> set lcs\<close> by (auto simp: map_filter_empty_iff)
  then show ?thesis
    using getConditionGroups_hd(3) [OF assms] by auto
qed

lemma getReason_from:
  assumes "getConditionGroups lcs = g # gs"
  shows "\<exists>lc c. lc \<in> set lcs \<and> entryKey lc = Some (groupKey g) \<and> lcondition lc = Some c \<and>
    getReason (g # gs) opts = (if addSourceRef opts then localizeReason (creason c) (lgetter lc) else creason c)"
proof -
  obtain m where m: "m \<in> set (gmembers g)" "getFirstCondition (g # gs) (orderOf opts) = Some m"
    using getFirstCondition_in [OF hd_members_nonempty [OF assms]] by blast
  from hd_member_key [OF assms m(1)] obtain lc where
    "lc \<in> set lcs" "entryKey lc = Some (groupKey g)" "lcondition lc = Some (fst m)" "lgetter lc = snd m"
    by blast
  then show ?thesis
    by (intro exI [of _ lc] exI [of _ "fst m"]) (auto simp: getReason_def getFirstReason_def m(2) split: prod.splits)
qed

text \<open>The status a target condition gets from the key of the first group.\<close>

definition targetStatus :: "string \<times> string \<Rightarrow> string" where
  "targetStatus k = (if fst k = ConditionTrue then ConditionTrue
     else if fst k = ConditionFalse then ConditionFalse else ConditionUnknown)"

lemma merge_first_ex:
  assumes "getConditionGroups lcs = g # gs"
  shows "\<exists>c. merge lcs t opts = Some c \<and> ctype c = t \<and> cstatus c = targetStatus (groupKey g) \<and>
    cseverity c = (if cstatus c = ConditionFalse then snd (groupKey g) else []) \<and>
    creason c = (if cstatus c = ConditionTrue then [] else getReason (g # gs) opts)"
  using assms
  by (simp add: merge_def Let_def groupKey_def targetStatus_def TrueCondition_def FalseCondition_def
      UnknownCondition_def mkCondition_def)

lemma merge_first:
  assumes "getConditionGroups lcs = g # gs"
  obtains c where "merge lcs t opts = Some c" "ctype c = t" "cstatus c = targetStatus (groupKey g)"
    "cseverity c = (if cstatus c = ConditionFalse then snd (groupKey g) else [])"
    "creason c = (if cstatus c = ConditionTrue then [] else getReason (g # gs) opts)"
  using merge_first_ex [OF assms] by blast

lemma merge_ctype: "merge lcs t opts = Some c \<Longrightarrow> ctype c = t"
  by (auto simp: merge_def Let_def TrueCondition_def FalseCondition_def UnknownCondition_def mkCondition_def
      split: list.splits if_splits)

lemma merge_None_iff: "merge lcs t opts = None \<longleftrightarrow> keysOf lcs = {}"
proof (cases "getConditionGroups lcs")
  case Nil
  then show ?thesis
    using getConditionGroups_Nil [of lcs] by (simp add: merge_def)
next
  case (Cons g gs)
  then obtain c where "merge lcs t opts = Some c"
    by (rule merge_first)
  with Cons show ?thesis
    using getConditionGroups_hd(1) [OF Cons] by auto
qed

lemma keyPriority_True: "keyPriority k = 3 \<longleftrightarrow> fst k = ConditionTrue"
  by (simp add: keyPriority_def mergePriority_def)

lemma keyPriority_less_3: "keyPriority k < 3 \<longleftrightarrow> fst k = ConditionFalse \<and>
    snd k \<in> {ConditionSeverityError, ConditionSeverityWarning, ConditionSeverityInfo}"
  by (simp add: keyPriority_def mergePriority_def)

lemma merge_True_iff:
  "(\<exists>c. merge lcs t opts = Some c \<and> ctype c = t \<and> cstatus c = ConditionTrue) \<longleftrightarrow>
    (\<exists>k \<in> keysOf lcs. keyPriority k = 3) \<and> (\<forall>k \<in> keysOf lcs. \<not> keyPriority k < 3)"
proof (cases "getConditionGroups lcs")
  case Nil
  then show ?thesis
    using getConditionGroups_Nil [of lcs] by (simp add: merge_def)
next
  case (Cons g gs)
  obtain c where c: "merge lcs t opts = Some c" "cstatus c = targetStatus (groupKey g)" "ctype c = t"
    using merge_first [OF Cons] .
  have "cstatus c = ConditionTrue \<longleftrightarrow> keyPriority (groupKey g) = 3"
    by (simp add: c(2) targetStatus_def keyPriority_True)
  moreover note getConditionGroups_hd(1,2) [OF Cons]
  ultimately show ?thesis
    using c(1,3) by (fastforce intro: antisym)
qed

text \<open>
  (C26) Merging never hides the most relevant condition. \<open>merge\<close> yields nothing exactly when no source
  has the condition; otherwise some condition of the list has the highest priority of all (False with
  severity Error, then Warning, then Info, then True, then Unknown, after normalising negative polarity),
  the target takes its status and, when False, its severity, and the target's reason is the reason of
  a condition of that same status and severity (with the reference to its object when asked).
\<close>

theorem merge_highest_priority:
  "(case merge lcs t opts of
      None \<Rightarrow> \<forall>lc \<in> set lcs. lcondition lc = None
    | Some c \<Rightarrow> ctype c = t \<and>
       (\<exists>lc x k. lc \<in> set lcs \<and> lcondition lc = Some x \<and> entryKey lc = Some k \<and>
          (\<forall>k' \<in> keysOf lcs. keyPriority k \<le> keyPriority k') \<and>
          cstatus c = targetStatus k \<and>
          cseverity c = (if cstatus c = ConditionFalse then snd k else ConditionSeverityNone) \<and>
          creason c = (if cstatus c = ConditionTrue then []
                       else if addSourceRef opts then localizeReason (creason x) (lgetter lc)
                       else creason x)))"
proof (cases "getConditionGroups lcs")
  case Nil
  then have "keysOf lcs = {}" "merge lcs t opts = None"
    using getConditionGroups_Nil [of lcs] by (simp_all add: merge_def)
  then show ?thesis
    by (simp add: keysOf_empty)
next
  case (Cons g gs)
  obtain lc x where "lc \<in> set lcs" "entryKey lc = Some (groupKey g)" "lcondition lc = Some x"
    "getReason (g # gs) opts = (if addSourceRef opts then localizeReason (creason x) (lgetter lc) else creason x)"
    using getReason_from [OF Cons] by blast
  moreover obtain c where "merge lcs t opts = Some c" "ctype c = t" "cstatus c = targetStatus (groupKey g)"
    "cseverity c = (if cstatus c = ConditionFalse then snd (groupKey g) else [])"
    "creason c = (if cstatus c = ConditionTrue then [] else getReason (g # gs) opts)"
    using merge_first [OF Cons] .
  ultimately show ?thesis
    using getConditionGroups_hd(2) [OF Cons]
    by (simp only: option.case) (intro conjI exI [of _ lc] exI [of _ x] exI [of _ "groupKey g"]; auto)
qed

theorem merge_highest_priority_witness:
  "(case merge [\<lparr>lcondition = Some (TrueCondition ''A''), lpolarity = PositivePolarity,
                  lgetter = \<lparr>gkind = ''M'', gname = ''m'', gconditions = []\<rparr>\<rparr>] ''T'' mergeOptions0 of
      None \<Rightarrow> False | Some c \<Rightarrow> cstatus c = ConditionTrue)"
  using merge_highest_priority [of "[\<lparr>lcondition = Some (TrueCondition ''A''), lpolarity = PositivePolarity,
                  lgetter = \<lparr>gkind = ''M'', gname = ''m'', gconditions = []\<rparr>\<rparr>]" "''T''" mergeOptions0]
  by (simp add: merge_def getConditionGroups_def groups_step_def groupStatus_def TrueCondition_def mkCondition_def
      sort_Sort_def Let_def)

text \<open>
  What a summary counts as good and as bad: a condition in scope is good when it is True (False, if its
  type has negative polarity); it is bad when it is the opposite, with one of the documented severities.
\<close>

definition isGood :: "mergeOptions \<Rightarrow> Condition \<Rightarrow> bool" where
  "isGood opts c \<longleftrightarrow>
     cstatus c = (if ctype c \<in> set (negativeConditionTypes opts) then ConditionFalse else ConditionTrue)"

definition isBad :: "mergeOptions \<Rightarrow> Condition \<Rightarrow> bool" where
  "isBad opts c \<longleftrightarrow>
     cstatus c = (if ctype c \<in> set (negativeConditionTypes opts) then ConditionTrue else ConditionFalse) \<and>
     cseverity c \<in> {ConditionSeverityError, ConditionSeverityWarning, ConditionSeverityInfo}"

definition scopeKey :: "mergeOptions \<Rightarrow> Condition \<Rightarrow> string \<times> string" where
  "scopeKey opts c =
     (groupStatus (if ctype c \<in> set (negativeConditionTypes opts) then NegativePolarity else PositivePolarity) c,
      cseverity c)"

lemma keysOf_localize: "keysOf (map (localize opts from) cs) = scopeKey opts ` set cs"
  by (simp add: keysOf_def List.map_filter_def localize_def entryKey_def image_image comp_def scopeKey_def)

lemma scopeKey_good: "keyPriority (scopeKey opts c) = 3 \<longleftrightarrow> isGood opts c"
  by (simp add: keyPriority_True scopeKey_def groupStatus_def isGood_def)

lemma scopeKey_bad: "keyPriority (scopeKey opts c) < 3 \<longleftrightarrow> isBad opts c"
  by (simp add: keyPriority_less_3 scopeKey_def groupStatus_def isBad_def)

lemma summary_merge:
  "\<exists>opts'. summary from options =
     merge (map (localize (applyMergeOptions options mergeOptions0) from)
              (filter (inScope (applyMergeOptions options mergeOptions0)) (gconditions from)))
       ReadyCondition opts'"
  unfolding summary_def Let_def by blast

text \<open>
  (C28) The summary an object gets as its Ready condition is True exactly when, among the conditions in
  scope, one is good and none is bad; there is no summary exactly when no condition is in scope.
\<close>

theorem summary_ready_iff:
  "let opts = applyMergeOptions options mergeOptions0 in
    ((\<exists>c. summary from options = Some c \<and> ctype c = ReadyCondition \<and> cstatus c = ConditionTrue) \<longleftrightarrow>
      (\<exists>c \<in> set (gconditions from). inScope opts c \<and> isGood opts c) \<and>
      \<not> (\<exists>c \<in> set (gconditions from). inScope opts c \<and> isBad opts c)) \<and>
    (summary from options = None \<longleftrightarrow> \<not> (\<exists>c \<in> set (gconditions from). inScope opts c))"
proof -
  define opts where "opts = applyMergeOptions options mergeOptions0"
  obtain opts' where s: "summary from options =
     merge (map (localize opts from) (filter (inScope opts) (gconditions from))) ReadyCondition opts'"
    unfolding opts_def using summary_merge by blast
  let ?lcs = "map (localize opts from) (filter (inScope opts) (gconditions from))"
  have good: "(\<exists>k \<in> keysOf ?lcs. keyPriority k = 3) \<longleftrightarrow>
      (\<exists>c \<in> set (gconditions from). inScope opts c \<and> isGood opts c)"
    unfolding keysOf_localize by (auto simp: scopeKey_good)
  have bad: "(\<forall>k \<in> keysOf ?lcs. \<not> keyPriority k < 3) \<longleftrightarrow>
      \<not> (\<exists>c \<in> set (gconditions from). inScope opts c \<and> isBad opts c)"
    unfolding keysOf_localize by (auto simp: scopeKey_bad)
  have none: "keysOf ?lcs = {} \<longleftrightarrow> \<not> (\<exists>c \<in> set (gconditions from). inScope opts c)"
    unfolding keysOf_localize by (auto simp: filter_empty_conv)
  show ?thesis
    unfolding Let_def opts_def [symmetric] s merge_True_iff merge_None_iff good bad none by simp
qed

theorem summary_ready_iff_witness:
  "\<exists>c. summary \<lparr>gkind = ''M'', gname = ''m'', gconditions = [TrueCondition ''A'']\<rparr> [] = Some c \<and>
     ctype c = ReadyCondition \<and> cstatus c = ConditionTrue"
  using summary_ready_iff [of "[]" "\<lparr>gkind = ''M'', gname = ''m'', gconditions = [TrueCondition ''A'']\<rparr>"]
  by (simp add: applyMergeOptions_def mergeOptions0_def inScope_def isGood_def isBad_def
      TrueCondition_def mkCondition_def)

section \<open>The three-way merge of patch.go\<close>

definition opType :: "PatchOperation \<Rightarrow> string" where
  "opType op = (case op of AddConditionPatch a \<Rightarrow> ctype a | ChangeConditionPatch b a \<Rightarrow> ctype a
     | RemoveConditionPatch b \<Rightarrow> ctype b)"

text \<open>An operation looks at, and changes, only the condition of its type.\<close>

definition opConflict :: "applyOptions \<Rightarrow> PatchOperation \<Rightarrow> Condition option \<Rightarrow> bool" where
  "opConflict opts op l \<longleftrightarrow> \<not> forceOverwrite opts \<and> \<not> isOwnedCondition opts (opType op) \<and>
     (case op of
        AddConditionPatch a \<Rightarrow> (\<exists>x \<in> set_option l. \<not> hasSameState x a)
      | ChangeConditionPatch b a \<Rightarrow> l = None \<or> (\<exists>x \<in> set_option l. x \<noteq> b \<and> \<not> hasSameState x a)
      | RemoveConditionPatch b \<Rightarrow> (\<exists>x \<in> set_option l. \<not> hasSameState x b))"

definition sameStateOpt :: "Condition option \<Rightarrow> Condition option \<Rightarrow> bool" where
  "sameStateOpt = rel_option hasSameState"

definition opTarget :: "PatchOperation \<Rightarrow> Condition option" where
  "opTarget op = (case op of AddConditionPatch a \<Rightarrow> Some a | ChangeConditionPatch b a \<Rightarrow> Some a
     | RemoveConditionPatch b \<Rightarrow> None)"

lemma hasSameState_refl [simp]: "hasSameState c c"
  by (simp add: hasSameState_def)

lemma sameStateOpt_refl [simp]: "sameStateOpt c c"
  by (cases c) (simp_all add: sameStateOpt_def)

lemma sameStateOpt_Set: "wfConditions cs \<Longrightarrow> sameStateOpt (Get (Set now cs (Some c)) (ctype c)) (Some c)"
  by (simp add: sameStateOpt_def Get_Set)

lemma apply_op_Inl:
  "isl (apply_op now opts op l) \<longleftrightarrow> opConflict opts op (Get l (opType op))"
  by (cases op) (auto simp: apply_op_def opConflict_def opType_def split: option.splits)

lemma apply_op_Inr:
  assumes "wfConditions l" and "apply_op now opts op l = Inr l'"
  shows "wfConditions l'" and "t \<noteq> opType op \<Longrightarrow> Get l' t = Get l t"
    and "sameStateOpt (Get l' (opType op)) (opTarget op)"
proof -
  have "l' = Set now l (Some a) \<or> (l' = l \<and> (\<exists>x. Get l (ctype a) = Some x \<and> hasSameState x a))"
    if "op = AddConditionPatch a \<or> op = ChangeConditionPatch b a" for a b
    using that assms(2) by (auto simp: apply_op_def split: if_splits option.splits)
  moreover have "l' = Delete l (ctype b)" if "op = RemoveConditionPatch b" for b
    using that assms(2) by (auto simp: apply_op_def split: if_splits option.splits)
  ultimately have "(\<exists>a. opTarget op = Some a \<and> opType op = ctype a \<and>
      (l' = Set now l (Some a) \<or> l' = l \<and> (\<exists>x. Get l (ctype a) = Some x \<and> hasSameState x a))) \<or>
    opTarget op = None \<and> l' = Delete l (opType op)"
    by (cases op) (auto simp: opTarget_def opType_def)
  with assms(1) show "wfConditions l'" "t \<noteq> opType op \<Longrightarrow> Get l' t = Get l t"
    "sameStateOpt (Get l' (opType op)) (opTarget op)"
    by (auto simp: Get_Set Get_Delete sameStateOpt_Set) (auto simp: sameStateOpt_def)
qed

lemma apply_ops_conflict:
  "wfConditions l \<Longrightarrow> distinct (map opType ops) \<Longrightarrow>
    fst (apply_ops now opts ops l) = None \<longleftrightarrow> (\<forall>op \<in> set ops. \<not> opConflict opts op (Get l (opType op)))"
proof (induction ops arbitrary: l)
  case (Cons op ops)
  show ?case
  proof (cases "apply_op now opts op l")
    case (Inl e)
    then have "opConflict opts op (Get l (opType op))"
      using apply_op_Inl [of now opts op l] by simp
    then show ?thesis
      by (simp add: Inl)
  next
    case (Inr l')
    have "\<not> opConflict opts op (Get l (opType op))"
      using Inr apply_op_Inl [of now opts op l] by simp
    moreover have "Get l' (opType op') = Get l (opType op')" if "op' \<in> set ops" for op'
    proof (rule apply_op_Inr(2) [OF Cons.prems(1) Inr])
      show "opType op' \<noteq> opType op"
        using that Cons.prems(2) by (metis distinct.simps(2) image_eqI list.set_map list.simps(9))
    qed
    ultimately show ?thesis
      using Cons.IH [OF apply_op_Inr(1) [OF Cons.prems(1) Inr]] Cons.prems(2) by (simp add: Inr)
  qed
qed simp

lemma apply_ops_result:
  "wfConditions l \<Longrightarrow> distinct (map opType ops) \<Longrightarrow> apply_ops now opts ops l = (None, l') \<Longrightarrow>
    wfConditions l' \<and> (\<forall>op \<in> set ops. sameStateOpt (Get l' (opType op)) (opTarget op)) \<and>
    (\<forall>t. t \<notin> opType ` set ops \<longrightarrow> Get l' t = Get l t)"
proof (induction ops arbitrary: l)
  case (Cons op ops)
  obtain l1 where l1: "apply_op now opts op l = Inr l1" and r: "apply_ops now opts ops l1 = (None, l')"
    using Cons.prems(3) by (auto split: sum.splits)
  note step = apply_op_Inr [OF Cons.prems(1) l1]
  from Cons.IH [OF step(1) _ r] Cons.prems(2) have
    ih: "wfConditions l'" "\<And>op. op \<in> set ops \<Longrightarrow> sameStateOpt (Get l' (opType op)) (opTarget op)"
      "\<And>t. t \<notin> opType ` set ops \<Longrightarrow> Get l' t = Get l1 t"
    by auto
  have "opType op \<notin> opType ` set ops"
    using Cons.prems(2) by simp
  with ih step show ?case by auto
qed simp

text \<open>The operation \<open>NewPatch\<close> emits for a type, from what the two lists hold for it.\<close>

definition diffOp :: "Condition option \<Rightarrow> Condition option \<Rightarrow> PatchOperation option" where
  "diffOp b a = (case a of
       Some x \<Rightarrow> (case b of None \<Rightarrow> Some (AddConditionPatch x)
                   | Some y \<Rightarrow> if x \<noteq> y then Some (ChangeConditionPatch y x) else None)
     | None \<Rightarrow> map_option RemoveConditionPatch b)"

lemma opType_diffOp: "diffOp (Get b t) (Get a t) = Some op \<Longrightarrow> opType op = t"
  by (auto simp: diffOp_def opType_def split: option.splits if_splits dest!: Get_Some_in)

lemma opTarget_diffOp: "diffOp b a = Some op \<Longrightarrow> opTarget op = a"
  by (auto simp: diffOp_def opTarget_def split: option.splits if_splits)

lemma diffOp_None: "diffOp b a = None \<longleftrightarrow> b = a"
  by (auto simp: diffOp_def split: option.splits)

lemma distinct_map_filter_key:
  assumes "\<forall>x \<in> set xs. \<forall>y. f x = Some y \<longrightarrow> g y = h x" and "distinct (map h xs)"
  shows "distinct (map g (List.map_filter f xs))"
proof -
  have "map g (List.map_filter f xs) = map h (filter (\<lambda>x. f x \<noteq> None) xs)"
    using assms(1) by (auto simp: List.map_filter_def)
  moreover have "distinct (map h (filter (\<lambda>x. f x \<noteq> None) xs))"
    using assms(2) by (rule distinct_map_filter)
  ultimately show ?thesis by simp
qed

definition addChange :: "Condition list \<Rightarrow> Condition \<Rightarrow> PatchOperation option" where
  "addChange b t = (case Get b (ctype t) of None \<Rightarrow> Some (AddConditionPatch t)
     | Some cur \<Rightarrow> if t \<noteq> cur then Some (ChangeConditionPatch cur t) else None)"

definition removeOp :: "Condition list \<Rightarrow> Condition \<Rightarrow> PatchOperation option" where
  "removeOp a c = (if Get a (ctype c) = None then Some (RemoveConditionPatch c) else None)"

lemma NewPatch_parts:
  "NewPatch (Some b) (Some a) = Inr (List.map_filter (addChange b) a @ List.map_filter (removeOp a) b)"
  by (simp add: NewPatch_def addChange_def [abs_def] removeOp_def [abs_def])

lemma addChange_diff: "wfConditions a \<Longrightarrow> x \<in> set a \<Longrightarrow> addChange b x = diffOp (Get b (ctype x)) (Get a (ctype x))"
  using Get_eq_Some [of a "ctype x" x] by (simp add: addChange_def diffOp_def)

lemma removeOp_diff: "wfConditions b \<Longrightarrow> y \<in> set b \<Longrightarrow> Get a (ctype y) = None \<Longrightarrow>
    removeOp a y = diffOp (Get b (ctype y)) (Get a (ctype y))"
  using Get_eq_Some [of b "ctype y" y] by (simp add: removeOp_def diffOp_def)

lemma opType_addChange: "addChange b x = Some op \<Longrightarrow> opType op = ctype x"
  by (auto simp: addChange_def opType_def split: option.splits if_splits)

lemma opType_removeOp: "removeOp a y = Some op \<Longrightarrow> opType op = ctype y \<and> ctype y \<notin> ctype ` set a"
  by (auto simp: removeOp_def opType_def Get_None_iff split: if_splits)

lemma NewPatch_ops:
  assumes "wfConditions b" "wfConditions a" and "NewPatch (Some b) (Some a) = Inr p"
  shows "op \<in> set p \<longleftrightarrow> (\<exists>t. diffOp (Get b t) (Get a t) = Some op)" (is "_ \<longleftrightarrow> ?R")
proof -
  have p: "p = List.map_filter (addChange b) a @ List.map_filter (removeOp a) b"
    using assms(3) by (simp add: NewPatch_parts)
  have "?R" if "op \<in> set p"
  proof -
    from that consider x where "x \<in> set a" "addChange b x = Some op" | y where "y \<in> set b" "removeOp a y = Some op"
      by (auto simp: p in_map_filter)
    then show ?thesis
    proof cases
      case 1
      then show ?thesis using addChange_diff [OF assms(2)] by metis
    next
      case 2
      then have "Get a (ctype y) = None" by (simp add: removeOp_def split: if_splits)
      with 2 show ?thesis using removeOp_diff [OF assms(1)] by metis
    qed
  qed
  moreover have "op \<in> set p" if "diffOp (Get b t) (Get a t) = Some op" for t
  proof (cases "Get a t")
    case None
    with that obtain y where "Get b t = Some y"
      by (simp add: diffOp_def) blast
    then have "y \<in> set b" "ctype y = t" by (auto dest: Get_Some_in)
    with None that removeOp_diff [OF assms(1), of y a] show ?thesis
      by (auto simp: p in_map_filter)
  next
    case (Some x)
    then have "x \<in> set a" "ctype x = t" by (auto dest: Get_Some_in)
    with that addChange_diff [OF assms(2), of x b] show ?thesis
      by (auto simp: p in_map_filter)
  qed
  ultimately show ?thesis by blast
qed

lemma NewPatch_distinct:
  assumes "wfConditions b" "wfConditions a" and "NewPatch (Some b) (Some a) = Inr p"
  shows "distinct (map opType p)"
proof -
  have p: "p = List.map_filter (addChange b) a @ List.map_filter (removeOp a) b"
    using assms(3) by (simp add: NewPatch_parts)
  have "distinct (map opType (List.map_filter (addChange b) a))"
    using assms(2) by (intro distinct_map_filter_key [where h = ctype])
      (auto simp: wfConditions_def opType_addChange)
  moreover have "distinct (map opType (List.map_filter (removeOp a) b))"
    using assms(1) by (intro distinct_map_filter_key [where h = ctype])
      (auto simp: wfConditions_def opType_removeOp)
  moreover have "opType ` set (List.map_filter (addChange b) a) \<subseteq> ctype ` set a"
    using opType_addChange [of b] by (fastforce simp: in_map_filter)
  moreover have "opType ` set (List.map_filter (removeOp a) b) \<inter> ctype ` set a = {}"
    using opType_removeOp [of a] by (fastforce simp: in_map_filter)
  ultimately show ?thesis
    by (simp add: p) blast
qed

lemma NewPatch_op_at:
  assumes "wfConditions b" "wfConditions a" and "NewPatch (Some b) (Some a) = Inr p" and "op \<in> set p"
  shows "diffOp (Get b (opType op)) (Get a (opType op)) = Some op"
proof -
  obtain t where "diffOp (Get b t) (Get a t) = Some op"
    using NewPatch_ops [OF assms(1-3)] assms(4) by blast
  with opType_diffOp [OF this] show ?thesis by simp
qed

lemma NewPatch_types:
  assumes "wfConditions b" "wfConditions a" and "NewPatch (Some b) (Some a) = Inr p"
  shows "opType ` set p = {t. Get b t \<noteq> Get a t}"
proof (intro equalityI subsetI)
  fix t assume "t \<in> opType ` set p"
  then obtain op where "t = opType op" "op \<in> set p" by blast
  with NewPatch_op_at [OF assms] have "diffOp (Get b t) (Get a t) \<noteq> None" by simp
  then show "t \<in> {t. Get b t \<noteq> Get a t}" by (simp only: diffOp_None mem_Collect_eq simp_thms)
next
  fix t assume "t \<in> {t. Get b t \<noteq> Get a t}"
  then have "diffOp (Get b t) (Get a t) \<noteq> None" by (simp only: diffOp_None mem_Collect_eq simp_thms)
  then obtain op where op: "diffOp (Get b t) (Get a t) = Some op" by blast
  then have "op \<in> set p" using NewPatch_ops [OF assms] by blast
  with opType_diffOp [OF op] show "t \<in> opType ` set p" by blast
qed

lemma Apply_run:
  assumes "Apply now options p (Some l) = (None, Some l')"
  shows "\<exists>opts. apply_ops now opts p l = (None, l')"
proof (cases "runApplyOptions options applyOptions0")
  case (Inr opts)
  with assms show ?thesis
    by (cases "p = []"; cases "apply_ops now opts p l") (auto simp: Apply_def IsZero_def)
next
  case (Inl e)
  with assms show ?thesis
    by (cases "p = []") (auto simp: Apply_def IsZero_def)
qed

text \<open>The states of one condition type in the three lists agree, or the owner decides.\<close>

definition noConflict :: "Condition option \<Rightarrow> Condition option \<Rightarrow> Condition option \<Rightarrow> bool" where
  "noConflict b a l \<longleftrightarrow> b = a \<or>
     (case a of
        Some x \<Rightarrow> (case l of None \<Rightarrow> b = None | Some z \<Rightarrow> hasSameState z x \<or> b = Some z)
      | None \<Rightarrow> (case l of None \<Rightarrow> True | Some z \<Rightarrow> (case b of None \<Rightarrow> True | Some y \<Rightarrow> hasSameState z y)))"

lemma opConflict_diffOp:
  "diffOp b a = Some op \<Longrightarrow> opConflict opts op l \<longleftrightarrow>
    \<not> forceOverwrite opts \<and> \<not> isOwnedCondition opts (opType op) \<and> \<not> noConflict b a l"
  by (cases a; cases b; cases l) (auto simp: diffOp_def opConflict_def noConflict_def split: if_splits)

text \<open>
  (C27) The three-way merge of conditions is correct: if the patch from \<open>before\<close> to \<open>after\<close> applies to
  \<open>latest\<close> without a conflict, then every condition the controller changed ends in the state it has in
  \<open>after\<close> (absent when removed), every condition it did not change is exactly what \<open>latest\<close> has,
  and no condition type appears twice.
\<close>

theorem Apply_three_way:
  assumes "wfConditions before" "wfConditions after" "wfConditions latest"
    and "NewPatch (Some before) (Some after) = Inr p"
    and "Apply now options p (Some latest) = (None, Some latest')"
  shows "wfConditions latest' \<and>
    (\<forall>t. if Get before t = Get after t then Get latest' t = Get latest t
         else sameStateOpt (Get latest' t) (Get after t))"
proof -
  obtain opts where r: "apply_ops now opts p latest = (None, latest')"
    using Apply_run [OF assms(5)] by blast
  note d = NewPatch_distinct [OF assms(1,2,4)] and ty = NewPatch_types [OF assms(1,2,4)]
  note res = apply_ops_result [OF assms(3) d r]
  have "Get latest' t = Get latest t" if "Get before t = Get after t" for t
    using res ty that by blast
  moreover have "sameStateOpt (Get latest' t) (Get after t)" if "Get before t \<noteq> Get after t" for t
  proof -
    obtain op where op: "op \<in> set p" "t = opType op"
      using ty \<open>Get before t \<noteq> Get after t\<close> by blast
    then have "opTarget op = Get after t"
      using NewPatch_op_at [OF assms(1,2,4)] opTarget_diffOp by blast
    moreover have "sameStateOpt (Get latest' (opType op)) (opTarget op)"
      using res op(1) by blast
    ultimately show ?thesis using op(2) by simp
  qed
  ultimately show ?thesis
    using res by simp
qed

text \<open>
  Conflicts are exactly the incompatible changes: applying a patch fails if and only if, for some
  condition type that is neither owned nor overwritten by force, the controller changed the condition
  and \<open>latest\<close> deviates from both its old and its new state; in particular a patch over owned
  conditions never fails.
\<close>

theorem Apply_conflict_iff:
  assumes "wfConditions before" "wfConditions after" "wfConditions latest"
    and "NewPatch (Some before) (Some after) = Inr p"
    and "runApplyOptions options applyOptions0 = Inr opts"
  shows "fst (Apply now options p (Some latest)) = None \<longleftrightarrow>
    (\<forall>t. forceOverwrite opts \<or> isOwnedCondition opts t \<or>
         noConflict (Get before t) (Get after t) (Get latest t))"
proof -
  note d = NewPatch_distinct [OF assms(1,2,4)] and ty = NewPatch_types [OF assms(1,2,4)]
  have conflict: "opConflict opts op (Get latest (opType op)) \<longleftrightarrow>
      \<not> (forceOverwrite opts \<or> isOwnedCondition opts (opType op) \<or>
         noConflict (Get before (opType op)) (Get after (opType op)) (Get latest (opType op)))"
    if "op \<in> set p" for op
    using opConflict_diffOp [OF NewPatch_op_at [OF assms(1,2,4) that]] by simp
  have same: "noConflict (Get before t) (Get after t) (Get latest t)" if "t \<notin> opType ` set p" for t
    using that ty by (simp add: noConflict_def)
  have "fst (Apply now options p (Some latest)) = None \<longleftrightarrow>
      (\<forall>op \<in> set p. \<not> opConflict opts op (Get latest (opType op)))"
    using apply_ops_conflict [OF assms(3) d, of now opts]
    by (cases "p = []"; cases "apply_ops now opts p latest") (simp_all add: Apply_def IsZero_def assms(5))
  also have "\<dots> \<longleftrightarrow> (\<forall>op \<in> set p. forceOverwrite opts \<or> isOwnedCondition opts (opType op) \<or>
         noConflict (Get before (opType op)) (Get after (opType op)) (Get latest (opType op)))"
    using conflict by blast
  also have "\<dots> \<longleftrightarrow> (\<forall>t. forceOverwrite opts \<or> isOwnedCondition opts t \<or>
         noConflict (Get before t) (Get after t) (Get latest t))"
    using same by (metis (no_types, lifting) image_iff)
  finally show ?thesis .
qed

theorem Apply_three_way_witness:
  "let b = [TrueCondition ''A'']; a = [TrueCondition ''A'', TrueCondition ''B'']; l = [TrueCondition ''C''];
       l' = snd (Apply 7 [] [AddConditionPatch (TrueCondition ''B'')] (Some l))
   in wfConditions (the l') \<and> Get (the l') ''C'' = Get l ''C'' \<and> sameStateOpt (Get (the l') ''B'') (Get a ''B'')"
proof -
  let ?b = "[TrueCondition ''A'']" and ?a = "[TrueCondition ''A'', TrueCondition ''B'']"
    and ?l = "[TrueCondition ''C'']"
  have n: "NewPatch (Some ?b) (Some ?a) = Inr [AddConditionPatch (TrueCondition ''B'')]"
    by (simp add: NewPatch_def map_filter_simps TrueCondition_def mkCondition_def)
  have ap: "Apply 7 [] [AddConditionPatch (TrueCondition ''B'')] (Some ?l) =
      (None, Some (Set 7 ?l (Some (TrueCondition ''B''))))"
    by (simp add: Apply_def IsZero_def apply_op_def applyOptions0_def isOwnedCondition_def
        TrueCondition_def mkCondition_def)
  have wf: "wfConditions ?b" "wfConditions ?a" "wfConditions ?l"
    by (simp_all add: wfConditions_def TrueCondition_def mkCondition_def)
  note res = Apply_three_way [OF wf n ap]
  from conjunct1 [OF res] conjunct2 [OF res, THEN spec, of "''C''"] conjunct2 [OF res, THEN spec, of "''B''"]
  show ?thesis
    unfolding Let_def ap by (simp add: TrueCondition_def mkCondition_def)
qed

theorem Apply_conflict_iff_witness:
  "fst (Apply 7 [] [AddConditionPatch (TrueCondition ''B'')] (Some [])) = None"
proof -
  have n: "NewPatch (Some []) (Some [TrueCondition ''B'']) = Inr [AddConditionPatch (TrueCondition ''B'')]"
    by (simp add: NewPatch_def map_filter_simps)
  show ?thesis
    using Apply_conflict_iff [OF _ _ _ n, of "[]" "[]" applyOptions0 7]
    by (simp add: wfConditions_def noConflict_def)
qed

section \<open>Setting a condition\<close>

text \<open>
  \<open>Set\<close> is the update of a map from condition types to conditions: on a list with one condition
  per type the result again has one condition per type, sorted with Ready first; only the condition of
  the given type changes; it takes the given state, and its transition time moves to now exactly
  when the state changed (a new condition keeps a transition time that is already set).
\<close>

theorem Set_spec:
  assumes "wfConditions cs"
  shows "orderedConditions (Set now cs (Some c)) \<and>
    (\<forall>t. Get (Set now cs (Some c)) t =
       (if t \<noteq> ctype c then Get cs t
        else Some (case Get cs t of
            None \<Rightarrow> if clastTransitionTime c = 0 then c\<lparr>clastTransitionTime := now\<rparr> else c
          | Some e \<Rightarrow> if hasSameState e c then e else c\<lparr>clastTransitionTime := now\<rparr>)))"
  using assms by (simp add: ordered_Set Get_Set stored_def)

theorem Set_spec_witness:
  "Get (Set 9 [TrueCondition ''A''] (Some (FalseCondition ''A'' ''r'' ''Error'' ''m'' []))) ''A'' =
    Some ((FalseCondition ''A'' ''r'' ''Error'' ''m'' [])\<lparr>clastTransitionTime := 9\<rparr>)"
  using Set_spec [of "[TrueCondition ''A'']" 9 "FalseCondition ''A'' ''r'' ''Error'' ''m'' []"]
  by (simp add: wfConditions_def TrueCondition_def FalseCondition_def mkCondition_def hasSameState_def)

section \<open>The Setter interface\<close>

text \<open>
  An API object whose conditions are read and written through \<open>GetConditions\<close> and \<open>SetConditions\<close>.
  The lemmas are what the controllers rely on after a \<open>Mark\<close> call.
\<close>

locale condition_object =
  fixes getc :: "'o \<Rightarrow> Condition list"
    and setc :: "Condition list \<Rightarrow> 'o \<Rightarrow> 'o"
  assumes get_set: "getc (setc cs ob) = cs"
    and set_set: "setc cs (setc ds ob) = setc cs ob"
    and set_get: "setc (getc ob) ob = ob"
begin

lemma mark_true:
  "wfConditions (getc ob) \<Longrightarrow> IsTrue (getc (setc (MarkTrue now (getc ob) t) ob)) t"
  by (simp add: get_set MarkTrue_def IsTrue_def Get_Set TrueCondition_def mkCondition_def stored_def
      hasSameState_def split: option.splits)

lemma mark_false:
  "wfConditions (getc ob) \<Longrightarrow> IsFalse (getc (setc (MarkFalse now (getc ob) t r sev fm args) ob)) t \<and>
    GetReason (getc (setc (MarkFalse now (getc ob) t r sev fm args) ob)) t = r"
  by (simp add: get_set MarkFalse_def IsFalse_def GetReason_def Get_Set FalseCondition_def mkCondition_def
      stored_def hasSameState_def split: option.splits)

lemma mark_frame:
  "wfConditions (getc ob) \<Longrightarrow> u \<noteq> t \<Longrightarrow>
    Get (getc (setc (MarkTrue now (getc ob) t) ob)) u = Get (getc ob) u \<and>
    Get (getc (setc (MarkFalse now (getc ob) t r sev fm args) ob)) u = Get (getc ob) u"
  by (simp add: get_set MarkTrue_def MarkFalse_def Get_Set TrueCondition_def FalseCondition_def mkCondition_def)

lemma mark_wf:
  "wfConditions (getc ob) \<Longrightarrow> wfConditions (getc (setc (MarkTrue now (getc ob) t) ob)) \<and>
    wfConditions (getc (setc (MarkFalse now (getc ob) t r sev fm args) ob))"
  by (simp add: get_set MarkTrue_def MarkFalse_def)

end

interpretation getter_object: condition_object gconditions "\<lambda>cs g. g\<lparr>gconditions := cs\<rparr>"
  by unfold_locales simp_all

end
