(* ===== verification/ApiTypes.thy ===== *)
theory ApiTypes
  imports Conditions
begin

text \<open>
  The API objects the controllers work on (\<open>src/cluster-api/api/v1beta1\<close>): Machine, MachineSet,
  MachineDeployment and the types they are made of. Pointers are options, times are integers (0 is
  the zero time), maps that may be nil are optional partial functions. Each object is an
  interpretation of the \<open>condition_object\<close> interface.
\<close>

section \<open>Metadata\<close>

record OwnerReference =
  orAPIVersion :: string
  orKind :: string
  orName :: string
  orUID :: string
  orController :: "bool option"
  orBlockOwnerDeletion :: "bool option"

record ObjectReference =
  refKind :: string
  refNamespace :: string
  refName :: string
  refUID :: string
  refAPIVersion :: string

record ObjMeta =
  mname :: string
  mnamespace :: string
  muid :: string
  mgeneration :: int
  mlabels :: "strmap option"
  mannotations :: "strmap option"
  mcreationTimestamp :: time
  mdeletionTimestamp :: "time option"
  mownerReferences :: "OwnerReference list"
  mfinalizers :: "string list"

definition emptyMeta :: ObjMeta where
  "emptyMeta = \<lparr>mname = [], mnamespace = [], muid = [], mgeneration = 0, mlabels = None,
     mannotations = None, mcreationTimestamp = 0, mdeletionTimestamp = None,
     mownerReferences = [], mfinalizers = []\<rparr>"

text \<open>\<open>(*metav1.Time).IsZero\<close>: nil or the zero time.\<close>

definition timeIsZero :: "time option \<Rightarrow> bool" where
  "timeIsZero t = (case t of None \<Rightarrow> True | Some x \<Rightarrow> x = 0)"

record LabelSelectorRequirement =
  lsrKey :: string
  lsrOperator :: string
  lsrValues :: "string list option"

record LabelSelector =
  lsMatchLabels :: "strmap option"
  lsMatchExpressions :: "LabelSelectorRequirement list option"

datatype IntOrString = IntVal int | StrVal string

section \<open>Machine\<close>

record Bootstrap =
  bConfigRef :: "ObjectReference option"
  bDataSecretName :: "string option"

record MachineSpec =
  spClusterName :: string
  spBootstrap :: Bootstrap
  spInfrastructureRef :: ObjectReference
  spVersion :: "string option"
  spProviderID :: "string option"
  spFailureDomain :: "string option"
  spNodeDrainTimeout :: "int option"
  spNodeVolumeDetachTimeout :: "int option"
  spNodeDeletionTimeout :: "int option"

record MachineStatus =
  stNodeRef :: "ObjectReference option"
  stNodeInfo :: "string option"
  stLastUpdated :: "time option"
  stFailureReason :: "string option"
  stFailureMessage :: "string option"
  stAddresses :: "(string \<times> string) list"
  stPhase :: string
  stCertificatesExpiryDate :: "time option"
  stBootstrapReady :: bool
  stInfrastructureReady :: bool
  stObservedGeneration :: int
  stConditions :: "Condition list"

record Machine =
  mchMeta :: ObjMeta
  mchSpec :: MachineSpec
  mchStatus :: MachineStatus

abbreviation "mchName m \<equiv> mname (mchMeta m)"
abbreviation "mchConditions m \<equiv> stConditions (mchStatus m)"

definition setMachineConditions :: "Condition list \<Rightarrow> Machine \<Rightarrow> Machine" where
  "setMachineConditions cs m = m\<lparr>mchStatus := (mchStatus m)\<lparr>stConditions := cs\<rparr>\<rparr>"

interpretation machine_conditions: condition_object "\<lambda>m. stConditions (mchStatus m)" setMachineConditions
  by unfold_locales (simp_all add: setMachineConditions_def)

section \<open>MachineSet\<close>

record MachineTemplateSpec =
  tLabels :: "strmap option"
  tAnnotations :: "strmap option"
  tSpec :: MachineSpec

record MachineSetSpec =
  mssClusterName :: string
  mssReplicas :: "int option"
  mssMinReadySeconds :: int
  mssDeletePolicy :: string
  mssSelector :: LabelSelector
  mssTemplate :: MachineTemplateSpec

record MachineSetStatus =
  msstSelector :: string
  msstReplicas :: int
  msstFullyLabeledReplicas :: int
  msstReadyReplicas :: int
  msstAvailableReplicas :: int
  msstObservedGeneration :: int
  msstFailureReason :: "string option"
  msstFailureMessage :: "string option"
  msstConditions :: "Condition list"

record MachineSet =
  msMeta :: ObjMeta
  msSpec :: MachineSetSpec
  msStatus :: MachineSetStatus

abbreviation "msName ms \<equiv> mname (msMeta ms)"
abbreviation "msUID ms \<equiv> muid (msMeta ms)"
abbreviation "msCreated ms \<equiv> mcreationTimestamp (msMeta ms)"
abbreviation "msAnnotations ms \<equiv> mannotations (msMeta ms)"
abbreviation "msReplicas ms \<equiv> mssReplicas (msSpec ms)"
abbreviation "msAvailable ms \<equiv> msstAvailableReplicas (msStatus ms)"

definition setMachineSetConditions :: "Condition list \<Rightarrow> MachineSet \<Rightarrow> MachineSet" where
  "setMachineSetConditions cs m = m\<lparr>msStatus := (msStatus m)\<lparr>msstConditions := cs\<rparr>\<rparr>"

interpretation machineset_conditions: condition_object "\<lambda>m. msstConditions (msStatus m)" setMachineSetConditions
  by unfold_locales (simp_all add: setMachineSetConditions_def)

section \<open>MachineDeployment\<close>

record MachineRollingUpdateDeployment =
  ruMaxUnavailable :: "IntOrString option"
  ruMaxSurge :: "IntOrString option"
  ruDeletePolicy :: "string option"

record MachineDeploymentStrategy =
  sgType :: string
  sgRollingUpdate :: "MachineRollingUpdateDeployment option"
  sgRemediationMaxInFlight :: "IntOrString option option"

record MachineDeploymentSpec =
  mdsClusterName :: string
  mdsReplicas :: "int option"
  mdsRolloutAfter :: "time option"
  mdsSelector :: LabelSelector
  mdsTemplate :: MachineTemplateSpec
  mdsStrategy :: "MachineDeploymentStrategy option"
  mdsMinReadySeconds :: "int option"
  mdsRevisionHistoryLimit :: "int option"
  mdsPaused :: bool
  mdsProgressDeadlineSeconds :: "int option"

record MachineDeploymentStatus =
  mdstObservedGeneration :: int
  mdstSelector :: string
  mdstReplicas :: int
  mdstUpdatedReplicas :: int
  mdstReadyReplicas :: int
  mdstAvailableReplicas :: int
  mdstUnavailableReplicas :: int
  mdstPhase :: string
  mdstConditions :: "Condition list"

record MachineDeployment =
  mdMeta :: ObjMeta
  mdSpec :: MachineDeploymentSpec
  mdStatus :: MachineDeploymentStatus

abbreviation "mdName md \<equiv> mname (mdMeta md)"
abbreviation "mdReplicas md \<equiv> mdsReplicas (mdSpec md)"

definition setMachineDeploymentConditions :: "Condition list \<Rightarrow> MachineDeployment \<Rightarrow> MachineDeployment" where
  "setMachineDeploymentConditions cs m = m\<lparr>mdStatus := (mdStatus m)\<lparr>mdstConditions := cs\<rparr>\<rparr>"

interpretation machinedeployment_conditions:
  condition_object "\<lambda>m. mdstConditions (mdStatus m)" setMachineDeploymentConditions
  by unfold_locales (simp_all add: setMachineDeploymentConditions_def)

text \<open>Strategy types and the names of annotations and labels.\<close>

abbreviation "RollingUpdateMachineDeploymentStrategyType \<equiv> ''RollingUpdate''"
abbreviation "OnDeleteMachineDeploymentStrategyType \<equiv> ''OnDelete''"
definition RevisionAnnotation :: string where
  "RevisionAnnotation = ''machinedeployment.clusters.x-k8s.io/revision''"
definition RevisionHistoryAnnotation :: string where
  "RevisionHistoryAnnotation = ''machinedeployment.clusters.x-k8s.io/revision-history''"
definition DesiredReplicasAnnotation :: string where
  "DesiredReplicasAnnotation = ''machinedeployment.clusters.x-k8s.io/desired-replicas''"
definition MaxReplicasAnnotation :: string where
  "MaxReplicasAnnotation = ''machinedeployment.clusters.x-k8s.io/max-replicas''"
definition MachineDeploymentUniqueLabel :: string where
  "MachineDeploymentUniqueLabel = ''machine-template-hash''"
definition MachineDeploymentNameLabel :: string where
  "MachineDeploymentNameLabel = ''cluster.x-k8s.io/deployment-name''"
definition DisableMachineCreateAnnotation :: string where
  "DisableMachineCreateAnnotation = ''cluster.x-k8s.io/disable-machine-create''"
definition DeleteMachineAnnotation :: string where
  "DeleteMachineAnnotation = ''cluster.x-k8s.io/delete-machine''"
definition ClusterNameLabel :: string where
  "ClusterNameLabel = ''cluster.x-k8s.io/cluster-name''"

lemmas annotation_names = RevisionAnnotation_def RevisionHistoryAnnotation_def DesiredReplicasAnnotation_def
  MaxReplicasAnnotation_def DisableMachineCreateAnnotation_def DeleteMachineAnnotation_def
lemmas label_names = MachineDeploymentUniqueLabel_def MachineDeploymentNameLabel_def ClusterNameLabel_def

lemma annotation_names_distinct [simp]:
  "RevisionAnnotation \<noteq> RevisionHistoryAnnotation" "RevisionHistoryAnnotation \<noteq> RevisionAnnotation"
  "RevisionAnnotation \<noteq> DesiredReplicasAnnotation" "DesiredReplicasAnnotation \<noteq> RevisionAnnotation"
  "RevisionAnnotation \<noteq> MaxReplicasAnnotation" "MaxReplicasAnnotation \<noteq> RevisionAnnotation"
  "RevisionHistoryAnnotation \<noteq> DesiredReplicasAnnotation" "DesiredReplicasAnnotation \<noteq> RevisionHistoryAnnotation"
  "RevisionHistoryAnnotation \<noteq> MaxReplicasAnnotation" "MaxReplicasAnnotation \<noteq> RevisionHistoryAnnotation"
  "DesiredReplicasAnnotation \<noteq> MaxReplicasAnnotation" "MaxReplicasAnnotation \<noteq> DesiredReplicasAnnotation"
  "MachineDeploymentUniqueLabel \<noteq> []" "MachineDeploymentNameLabel \<noteq> MachineDeploymentUniqueLabel"
  by (simp_all add: annotation_names label_names)

end
