(* ===== verification/MdUtil.thy ===== *)
theory MdUtil
  imports ApiTypes
begin

text \<open>
  The helper functions of the MachineDeployment controller
  (\<open>src/cluster-api/internal/controllers/machinedeployment/mdutil/util.go\<close>): sort orders, revisions
  and annotations, rolling-update bounds, proportional scaling and finding the new MachineSet.

  MachineSets are pointers into a store \<open>h\<close> where the code returns pointers or sorts a slice in place
  (the sorted slice is returned), and values where it only reads them. The functions of other
  packages are the fields of \<open>mdDeps\<close>: \<open>GetScaled\<close> is
  \<open>intstr.GetScaledValueFromIntOrPercent\<close>, \<open>RoundQuot a b\<close> is
  \<open>integer.RoundToInt32(float64(a) / float64(b))\<close>, \<open>apiGroup\<close> is the group that
  \<open>GroupVersionKind\<close> reads from an API version, \<open>cmpDiff\<close> is \<open>cmp.Diff\<close> of go-cmp (\<open>Inl\<close> when it panics)
  and \<open>fmtRFC3339\<close> prints a time.
\<close>

type_synonym ptr = nat
type_synonym store = "ptr \<Rightarrow> MachineSet"

record mdDeps =
  GetScaled :: "IntOrString option \<Rightarrow> int \<Rightarrow> bool \<Rightarrow> int res"
  RoundQuot :: "int \<Rightarrow> int \<Rightarrow> int"
  apiGroup :: "string \<Rightarrow> string"
  cmpDiff :: "MachineTemplateSpec \<Rightarrow> MachineTemplateSpec \<Rightarrow> string res"
  fmtRFC3339 :: "time \<Rightarrow> string"

section \<open>Sort orders\<close>

definition MachineSetsByDecreasingReplicas :: "MachineSet \<Rightarrow> MachineSet \<Rightarrow> bool" where
  "MachineSetsByDecreasingReplicas a b =
     (case msReplicas a of
        None \<Rightarrow> False
      | Some ra \<Rightarrow>
        (case msReplicas b of
           None \<Rightarrow> True
         | Some rb \<Rightarrow>
             if ra = rb then
               (if msCreated a = msCreated b then msName a < msName b else msCreated a < msCreated b)
             else ra > rb))"

definition MachineSetsByCreationTimestamp :: "MachineSet \<Rightarrow> MachineSet \<Rightarrow> bool" where
  "MachineSetsByCreationTimestamp a b =
     (if msCreated a = msCreated b then msName a < msName b else msCreated a < msCreated b)"

text \<open>The size orders dereference the replicas; they are only used on active MachineSets, which have them.\<close>

definition repl :: "MachineSet \<Rightarrow> int" where
  "repl ms = (case msReplicas ms of Some n \<Rightarrow> n | None \<Rightarrow> 0)"

definition MachineSetsBySizeOlder :: "MachineSet \<Rightarrow> MachineSet \<Rightarrow> bool" where
  "MachineSetsBySizeOlder a b =
     (if repl a = repl b then msCreated a < msCreated b else repl a > repl b)"

definition MachineSetsBySizeNewer :: "MachineSet \<Rightarrow> MachineSet \<Rightarrow> bool" where
  "MachineSetsBySizeNewer a b =
     (if repl a = repl b then msCreated b < msCreated a else repl a > repl b)"

text \<open>Sorting a slice of pointers in place, and with \<open>sort.Reverse\<close>.\<close>

definition sortPtrs :: "(MachineSet \<Rightarrow> MachineSet \<Rightarrow> bool) \<Rightarrow> store \<Rightarrow> ptr list \<Rightarrow> ptr list" where
  "sortPtrs lt h ps = sort_Sort (\<lambda>p q. lt (h p) (h q)) ps"

definition sortPtrsReverse :: "(MachineSet \<Rightarrow> MachineSet \<Rightarrow> bool) \<Rightarrow> store \<Rightarrow> ptr list \<Rightarrow> ptr list" where
  "sortPtrsReverse lt h ps = sort_Sort (\<lambda>p q. lt (h q) (h p)) ps"

section \<open>Revisions and annotations\<close>

definition setAnn :: "string \<Rightarrow> string \<Rightarrow> strmap option \<Rightarrow> strmap option" where
  "setAnn k v m = Some ((case m of None \<Rightarrow> Map.empty | Some f \<Rightarrow> f)(k \<mapsto> v))"

definition SetDeploymentRevision :: "MachineDeployment \<Rightarrow> string \<Rightarrow> MachineDeployment \<times> bool" where
  "SetDeploymentRevision d revision =
     (let anns = Some (case mannotations (mdMeta d) of None \<Rightarrow> Map.empty | Some f \<Rightarrow> f);
          anns' = (if mget anns RevisionAnnotation \<noteq> revision
                   then setAnn RevisionAnnotation revision anns else anns)
      in (d\<lparr>mdMeta := (mdMeta d)\<lparr>mannotations := anns'\<rparr>\<rparr>, mget anns RevisionAnnotation \<noteq> revision))"

definition Revision :: "MachineSet \<Rightarrow> int res" where
  "Revision ms =
     (case mlookup (msAnnotations ms) RevisionAnnotation of
        None \<Rightarrow> Inr 0
      | Some v \<Rightarrow> ParseInt 64 v)"

fun MaxRevisionLoop :: "int \<Rightarrow> MachineSet list \<Rightarrow> int" where
  "MaxRevisionLoop m [] = m"
| "MaxRevisionLoop m (ms # mss) =
     (case Revision ms of
        Inl _ \<Rightarrow> MaxRevisionLoop m mss
      | Inr v \<Rightarrow> MaxRevisionLoop (if v > m then v else m) mss)"

definition MaxRevision :: "MachineSet list \<Rightarrow> int" where
  "MaxRevision allMSs = MaxRevisionLoop 0 allMSs"

definition annotationsToSkip :: "string list" where
  "annotationsToSkip = [''kubectl.kubernetes.io/last-applied-configuration'', RevisionAnnotation,
     RevisionHistoryAnnotation, DesiredReplicasAnnotation, MaxReplicasAnnotation,
     ''cluster.x-k8s.io/conversion-data'']"

definition skipCopyAnnotation :: "string \<Rightarrow> bool" where
  "skipCopyAnnotation key \<longleftrightarrow> key \<in> set annotationsToSkip"

definition getIntFromAnnotation :: "MachineSet \<Rightarrow> string \<Rightarrow> int \<times> bool" where
  "getIntFromAnnotation ms annotationKey =
     (case mlookup (msAnnotations ms) annotationKey of
        None \<Rightarrow> (0, False)
      | Some v \<Rightarrow> (case ParseInt 32 v of Inl _ \<Rightarrow> (0, False) | Inr n \<Rightarrow> (wrap32 n, True)))"

definition getMaxReplicasAnnotation :: "MachineSet \<Rightarrow> int \<times> bool" where
  "getMaxReplicasAnnotation ms = getIntFromAnnotation ms MaxReplicasAnnotation"

section \<open>Rolling-update bounds\<close>

definition strategyOf :: "MachineDeployment \<Rightarrow> MachineDeploymentStrategy res" where
  "strategyOf d = deref ''Spec.Strategy'' (mdsStrategy (mdSpec d))"

definition rollingOf :: "MachineDeployment \<Rightarrow> MachineRollingUpdateDeployment res" where
  "rollingOf d = bindR (strategyOf d) (\<lambda>s. deref ''Spec.Strategy.RollingUpdate'' (sgRollingUpdate s))"

definition replicasOf :: "MachineDeployment \<Rightarrow> int res" where
  "replicasOf d = deref ''Spec.Replicas'' (mdReplicas d)"

definition IsRollingUpdate :: "MachineDeployment \<Rightarrow> bool res" where
  "IsRollingUpdate d = bindR (strategyOf d) (\<lambda>s. Inr (sgType s = RollingUpdateMachineDeploymentStrategyType))"

definition ResolveFenceposts :: "mdDeps \<Rightarrow> IntOrString option \<Rightarrow> IntOrString option \<Rightarrow> int \<Rightarrow> (int \<times> int) res" where
  "ResolveFenceposts D maxSurge maxUnavailable desired =
     bindR (GetScaled D maxSurge desired True) (\<lambda>surge.
     bindR (GetScaled D maxUnavailable desired False) (\<lambda>unavailable.
       let unavailable' = (if surge = 0 \<and> unavailable = 0 then 1 else unavailable)
       in Inr (wrap32 surge, wrap32 unavailable')))"

text \<open>The callers ignore the error of \<open>ResolveFenceposts\<close>: the values are zero then.\<close>

definition fenceposts :: "mdDeps \<Rightarrow> MachineDeployment \<Rightarrow> (int \<times> int) res" where
  "fenceposts D d =
     bindR (rollingOf d) (\<lambda>ru.
     bindR (replicasOf d) (\<lambda>n.
       case ResolveFenceposts D (ruMaxSurge ru) (ruMaxUnavailable ru) n of
         Inl _ \<Rightarrow> Inr (0, 0) | Inr p \<Rightarrow> Inr p))"

definition MaxUnavailable :: "mdDeps \<Rightarrow> MachineDeployment \<Rightarrow> int res" where
  "MaxUnavailable D d =
     bindR (IsRollingUpdate d) (\<lambda>rolling.
       if \<not> rolling then Inr 0
       else bindR (replicasOf d) (\<lambda>n.
         if n = 0 then Inr 0
         else bindR (fenceposts D d) (\<lambda>(surge, unavailable).
           if unavailable > n then Inr n else Inr unavailable)))"

definition MaxSurge :: "mdDeps \<Rightarrow> MachineDeployment \<Rightarrow> int res" where
  "MaxSurge D d =
     bindR (IsRollingUpdate d) (\<lambda>rolling.
       if \<not> rolling then Inr 0
       else bindR (fenceposts D d) (\<lambda>(surge, unavailable). Inr surge))"

text \<open>The sizes a controller writes into the annotations: replicas and replicas plus surge.\<close>

definition maxReplicas :: "mdDeps \<Rightarrow> MachineDeployment \<Rightarrow> int res" where
  "maxReplicas D d = bindR (replicasOf d) (\<lambda>n. bindR (MaxSurge D d) (\<lambda>s. Inr (wrap32 (n + s))))"

definition newRevisionFor :: "int \<Rightarrow> MachineSet option \<Rightarrow> string res" where
  "newRevisionFor maxOldRevision newMS =
     (let newRevisionInt = wrap64 (maxOldRevision + 1); newRevision = FormatInt newRevisionInt in
      case newMS of
        None \<Rightarrow> Inr newRevision
      | Some ms \<Rightarrow>
          (case mlookup (msAnnotations ms) RevisionAnnotation of
             None \<Rightarrow> Inr newRevision
           | Some currentRevision \<Rightarrow>
               (case ParseInt 64 currentRevision of
                  Inl e \<Rightarrow> Inl (Wrap ''failed to parse current revision on MachineSet'' e)
                | Inr n \<Rightarrow> Inr (if newRevisionInt < n then currentRevision else newRevision))))"

definition withHistory :: "MachineSet option \<Rightarrow> string \<Rightarrow> strmap \<Rightarrow> strmap" where
  "withHistory newMS newRevision anns =
     (case newMS of
        None \<Rightarrow> anns
      | Some ms \<Rightarrow>
          let revisionHistory = mget (msAnnotations ms) RevisionHistoryAnnotation;
              a1 = (case mlookup (msAnnotations ms) RevisionHistoryAnnotation of
                      None \<Rightarrow> anns | Some v \<Rightarrow> anns(RevisionHistoryAnnotation \<mapsto> v))
          in (case mlookup (msAnnotations ms) RevisionAnnotation of
                None \<Rightarrow> a1
              | Some currentRevision \<Rightarrow>
                  if currentRevision \<noteq> newRevision then
                    let oldRevisions = Split (CHR '','') revisionHistory in
                    if oldRevisions ! 0 = [] then a1(RevisionHistoryAnnotation \<mapsto> currentRevision)
                    else a1(RevisionHistoryAnnotation \<mapsto> Join '','' (oldRevisions @ [currentRevision]))
                  else a1))"

definition ComputeMachineSetAnnotations ::
  "mdDeps \<Rightarrow> MachineDeployment \<Rightarrow> MachineSet list \<Rightarrow> MachineSet option \<Rightarrow> strmap res" where
  "ComputeMachineSetAnnotations D deployment oldMSs newMS =
     (let copied = (\<lambda>k. if skipCopyAnnotation k then None else mlookup (mannotations (mdMeta deployment)) k)
      in bindR (newRevisionFor (MaxRevision oldMSs) newMS) (\<lambda>newRevision.
         bindR (replicasOf deployment) (\<lambda>n.
         bindR (maxReplicas D deployment) (\<lambda>mx.
           Inr ((withHistory newMS newRevision copied)
                  (RevisionAnnotation \<mapsto> newRevision,
                   DesiredReplicasAnnotation \<mapsto> FormatInt n,
                   MaxReplicasAnnotation \<mapsto> FormatInt mx))))))"

definition SetReplicasAnnotations :: "MachineSet \<Rightarrow> int \<Rightarrow> int \<Rightarrow> MachineSet \<times> bool" where
  "SetReplicasAnnotations ms desired mx =
     (let a0 = Some (case msAnnotations ms of None \<Rightarrow> Map.empty | Some f \<Rightarrow> f);
          u1 = (mget a0 DesiredReplicasAnnotation \<noteq> FormatInt desired);
          a1 = (if u1 then setAnn DesiredReplicasAnnotation (FormatInt desired) a0 else a0);
          u2 = (mget a1 MaxReplicasAnnotation \<noteq> FormatInt mx);
          a2 = (if u2 then setAnn MaxReplicasAnnotation (FormatInt mx) a1 else a1)
      in (ms\<lparr>msMeta := (msMeta ms)\<lparr>mannotations := a2\<rparr>\<rparr>, u1 \<or> u2))"

definition ReplicasAnnotationsNeedUpdate :: "MachineSet \<Rightarrow> int \<Rightarrow> int \<Rightarrow> bool" where
  "ReplicasAnnotationsNeedUpdate ms desired mx \<longleftrightarrow>
     (if msAnnotations ms = None then True
      else if mget (msAnnotations ms) DesiredReplicasAnnotation \<noteq> FormatInt desired then True
      else if mget (msAnnotations ms) MaxReplicasAnnotation \<noteq> FormatInt mx then True
      else False)"

section \<open>Proportional scaling\<close>

definition getMachineSetFraction :: "mdDeps \<Rightarrow> MachineSet \<Rightarrow> MachineDeployment \<Rightarrow> int res" where
  "getMachineSetFraction D ms md =
     bindR (replicasOf md) (\<lambda>n.
     bindR (deref ''ms.Spec.Replicas'' (msReplicas ms)) (\<lambda>size.
       if n = 0 then Inr (wrap32 (- size))
       else bindR (maxReplicas D md) (\<lambda>deploymentReplicas.
         let (ann, ok) = getMaxReplicasAnnotation ms;
             annotatedReplicas = (if \<not> ok then mdstReplicas (mdStatus md) else ann)
         in Inr (wrap32 (RoundQuot D (wrap32 (size * deploymentReplicas)) annotatedReplicas - size)))))"

definition GetProportion :: "mdDeps \<Rightarrow> MachineSet option \<Rightarrow> MachineDeployment \<Rightarrow> int \<Rightarrow> int \<Rightarrow> int res" where
  "GetProportion D msp md toAdd added =
     (case msp of
        None \<Rightarrow> Inr 0
      | Some ms \<Rightarrow>
          bindR (deref ''ms.Spec.Replicas'' (msReplicas ms)) (\<lambda>size.
            if size = 0 \<or> toAdd = 0 \<or> toAdd = added then Inr 0
            else bindR (getMachineSetFraction D ms md) (\<lambda>msFraction.
              let allowed = wrap32 (toAdd - added) in
              if toAdd > 0 then Inr (min msFraction allowed) else Inr (max msFraction allowed))))"

section \<open>Finding the new MachineSet\<close>

fun ReplaceNBSP :: "string \<Rightarrow> string" where
  "ReplaceNBSP (c # d # cs) =
     (if c = CHR 0xC2 \<and> d = CHR 0xA0 then CHR '' '' # ReplaceNBSP cs else c # ReplaceNBSP (d # cs))"
| "ReplaceNBSP cs = cs"

definition ReplaceTab :: "string \<Rightarrow> string" where
  "ReplaceTab s = concat (map (\<lambda>c. if c = CHR 0x09 then ''  '' else [c]) s)"

definition isSpace :: "char \<Rightarrow> bool" where
  "isSpace c \<longleftrightarrow> c \<in> {CHR 0x09, CHR 0x0A, CHR 0x0B, CHR 0x0C, CHR 0x0D, CHR '' ''}"

definition TrimSpace :: "string \<Rightarrow> string" where
  "TrimSpace s = rev (dropWhile isSpace (rev (dropWhile isSpace s)))"

definition compare_Diff :: "mdDeps \<Rightarrow> MachineTemplateSpec \<Rightarrow> MachineTemplateSpec \<Rightarrow> (bool \<times> string) res" where
  "compare_Diff D x y =
     (case cmpDiff D x y of
        Inl e \<Rightarrow> Inl (Wrap ''error diffing objects'' e)
      | Inr diff \<Rightarrow>
          let diff' = (if diff \<noteq> [] then TrimSpace (ReplaceTab (ReplaceNBSP diff)) else diff)
          in Inr (diff' = [], diff'))"

definition dropVersion :: "mdDeps \<Rightarrow> ObjectReference \<Rightarrow> ObjectReference" where
  "dropVersion D r = r\<lparr>refAPIVersion := apiGroup D (refAPIVersion r)\<rparr>"

definition MachineTemplateDeepCopyRolloutFields :: "mdDeps \<Rightarrow> MachineTemplateSpec \<Rightarrow> MachineTemplateSpec" where
  "MachineTemplateDeepCopyRolloutFields D t =
     t\<lparr>tLabels := None, tAnnotations := None,
       tSpec := (tSpec t)
         \<lparr>spNodeDrainTimeout := None, spNodeDeletionTimeout := None, spNodeVolumeDetachTimeout := None,
          spInfrastructureRef := dropVersion D (spInfrastructureRef (tSpec t)),
          spBootstrap := (spBootstrap (tSpec t))
            \<lparr>bConfigRef := map_option (dropVersion D) (bConfigRef (spBootstrap (tSpec t)))\<rparr>\<rparr>\<rparr>"

definition EqualMachineTemplate :: "mdDeps \<Rightarrow> MachineTemplateSpec \<Rightarrow> MachineTemplateSpec \<Rightarrow> (bool \<times> string) res" where
  "EqualMachineTemplate D t1 t2 =
     compare_Diff D (MachineTemplateDeepCopyRolloutFields D t1) (MachineTemplateDeepCopyRolloutFields D t2)"

text \<open>The loop that splits the sorted list into matching MachineSets and differences.\<close>

fun matchLoop :: "mdDeps \<Rightarrow> store \<Rightarrow> MachineDeployment \<Rightarrow> ptr list \<Rightarrow> ptr list \<Rightarrow> string list \<Rightarrow>
    (ptr list \<times> string list) res" where
  "matchLoop D h d [] matching diffs = Inr (matching, diffs)"
| "matchLoop D h d (p # ps) matching diffs =
     (case EqualMachineTemplate D (mssTemplate (msSpec (h p))) (mdsTemplate (mdSpec d)) of
        Inl e \<Rightarrow> Inl (Wrap ''failed to compare MachineDeployment spec template with MachineSet'' e)
      | Inr (eq, diff) \<Rightarrow>
          if eq then matchLoop D h d ps (matching @ [p]) diffs
          else matchLoop D h d ps matching
                 (diffs @ [''MachineSet '' @ msName (h p) @ '': diff: '' @ diff]))"

text \<open>The result carries the list in the order \<open>sort.Sort\<close> leaves it in.\<close>

definition FindNewMachineSet :: "mdDeps \<Rightarrow> store \<Rightarrow> MachineDeployment \<Rightarrow> ptr list \<Rightarrow> time \<Rightarrow>
    (ptr option \<times> string \<times> ptr list) res" where
  "FindNewMachineSet D h deployment msList reconciliationTime =
     (if length msList = 0 then Inr (None, ''no MachineSets exist for the MachineDeployment'', msList)
      else
        let sorted = sortPtrs MachineSetsByDecreasingReplicas h msList in
        bindR (matchLoop D h deployment sorted [] []) (\<lambda>(matching, diffs).
          if length matching = 0 then
            Inr (None, ''couldn't find MachineSet matching MachineDeployment spec template: '' @ Join '','' diffs, sorted)
          else case mdsRolloutAfter (mdSpec deployment) of
            None \<Rightarrow> Inr (Some (matching ! 0), [], sorted)
          | Some rolloutAfter \<Rightarrow>
              if reconciliationTime < rolloutAfter then Inr (Some (matching ! 0), [], sorted)
              else (case find (\<lambda>p. msCreated (h p) > rolloutAfter) matching of
                      Some p \<Rightarrow> Inr (Some p, [], sorted)
                    | None \<Rightarrow> Inr (None, ''RolloutAfter on MachineDeployment set to '' @ fmtRFC3339 D rolloutAfter
                                 @ '', no MachineSet has been created afterwards'', sorted))))"

definition FindOldMachineSets :: "mdDeps \<Rightarrow> store \<Rightarrow> MachineDeployment \<Rightarrow> ptr list \<Rightarrow> time \<Rightarrow>
    (ptr list \<times> ptr list) res" where
  "FindOldMachineSets D h deployment msList reconciliationTime =
     bindR (FindNewMachineSet D h deployment msList reconciliationTime) (\<lambda>(newMS, reason, sorted).
       Inr (filter (\<lambda>p. \<not> (case newMS of None \<Rightarrow> False | Some n \<Rightarrow> msUID (h p) = msUID (h n))) sorted, sorted))"

section \<open>Replica counts\<close>

text \<open>Sums over a slice that may hold nil pointers, accumulated as \<open>int32\<close>.\<close>

fun sumReplicas :: "(MachineSet \<Rightarrow> int res) \<Rightarrow> int \<Rightarrow> MachineSet option list \<Rightarrow> int res" where
  "sumReplicas f acc [] = Inr acc"
| "sumReplicas f acc (None # mss) = sumReplicas f acc mss"
| "sumReplicas f acc (Some ms # mss) = bindR (f ms) (\<lambda>v. sumReplicas f (wrap32 (acc + v)) mss)"

definition GetReplicaCountForMachineSets :: "MachineSet option list \<Rightarrow> int res" where
  "GetReplicaCountForMachineSets mss = sumReplicas (\<lambda>ms. deref ''ms.Spec.Replicas'' (msReplicas ms)) 0 mss"

definition GetActualReplicaCountForMachineSets :: "MachineSet option list \<Rightarrow> int res" where
  "GetActualReplicaCountForMachineSets mss = sumReplicas (\<lambda>ms. Inr (msstReplicas (msStatus ms))) 0 mss"

definition TotalMachineSetsReplicaSum :: "MachineSet option list \<Rightarrow> int res" where
  "TotalMachineSetsReplicaSum mss =
     sumReplicas (\<lambda>ms. bindR (deref ''ms.Spec.Replicas'' (msReplicas ms))
       (\<lambda>n. Inr (max n (msstReplicas (msStatus ms))))) 0 mss"

definition GetReadyReplicaCountForMachineSets :: "MachineSet option list \<Rightarrow> int res" where
  "GetReadyReplicaCountForMachineSets mss = sumReplicas (\<lambda>ms. Inr (msstReadyReplicas (msStatus ms))) 0 mss"

definition GetAvailableReplicaCountForMachineSets :: "MachineSet option list \<Rightarrow> int res" where
  "GetAvailableReplicaCountForMachineSets mss = sumReplicas (\<lambda>ms. Inr (msAvailable ms)) 0 mss"

definition DeploymentComplete :: "MachineDeployment \<Rightarrow> MachineDeploymentStatus \<Rightarrow> bool res" where
  "DeploymentComplete d st =
     bindR (replicasOf d) (\<lambda>n.
       Inr (mdstUpdatedReplicas st = n \<and> mdstReplicas st = n \<and> mdstAvailableReplicas st = n \<and>
            mdstObservedGeneration st \<ge> mgeneration (mdMeta d)))"

definition NewMSNewReplicas :: "mdDeps \<Rightarrow> MachineDeployment \<Rightarrow> MachineSet option list \<Rightarrow> int \<Rightarrow> int res" where
  "NewMSNewReplicas D deployment allMSs newMSReplicas =
     bindR (strategyOf deployment) (\<lambda>s.
       if sgType s = RollingUpdateMachineDeploymentStrategyType then
         bindR (rollingOf deployment) (\<lambda>ru.
         bindR (replicasOf deployment) (\<lambda>n.
         bindR (GetScaled D (ruMaxSurge ru) n True) (\<lambda>maxSurge.
         bindR (TotalMachineSetsReplicaSum allMSs) (\<lambda>currentMachineCount.
           let maxTotalMachines = wrap32 (n + wrap32 maxSurge) in
           if currentMachineCount \<ge> maxTotalMachines then Inr newMSReplicas
           else
             let scaleUpCount = wrap32 (maxTotalMachines - currentMachineCount);
                 scaleUpCount' = min scaleUpCount (wrap32 (n - newMSReplicas))
             in Inr (wrap32 (newMSReplicas + scaleUpCount'))))))
       else if sgType s = OnDeleteMachineDeploymentStrategyType then
         bindR (TotalMachineSetsReplicaSum allMSs) (\<lambda>currentMachineCount.
         bindR (replicasOf deployment) (\<lambda>n.
           if currentMachineCount \<ge> n then Inr newMSReplicas
           else Inr (wrap32 (newMSReplicas + wrap32 (n - currentMachineCount)))))
       else Inl (Err ''failed to compute replicas: deployment strategy isn't supported''))"

definition IsSaturated :: "MachineDeployment \<Rightarrow> MachineSet option \<Rightarrow> bool res" where
  "IsSaturated deployment msp =
     (case msp of
        None \<Rightarrow> Inr False
      | Some ms \<Rightarrow>
          (case ParseInt 32 (mget (msAnnotations ms) DesiredReplicasAnnotation) of
             Inl _ \<Rightarrow> Inr False
           | Inr desired \<Rightarrow>
               bindR (deref ''ms.Spec.Replicas'' (msReplicas ms)) (\<lambda>r.
               bindR (replicasOf deployment) (\<lambda>n.
                 Inr (r = n \<and> wrap32 desired = n \<and> msAvailable ms = n)))))"

definition isActive :: "store \<Rightarrow> ptr option \<Rightarrow> bool" where
  "isActive h p = (case p of None \<Rightarrow> False
     | Some q \<Rightarrow> (case msReplicas (h q) of None \<Rightarrow> False | Some n \<Rightarrow> n > 0))"

definition FilterMachineSets :: "(ptr option \<Rightarrow> bool) \<Rightarrow> ptr option list \<Rightarrow> ptr option list" where
  "FilterMachineSets filterFn ps = filter filterFn ps"

definition FilterActiveMachineSets :: "store \<Rightarrow> ptr option list \<Rightarrow> ptr list" where
  "FilterActiveMachineSets h ps = List.map_filter id (FilterMachineSets (isActive h) ps)"

definition FindOneActiveOrLatest :: "store \<Rightarrow> ptr option \<Rightarrow> ptr list \<Rightarrow> ptr option \<times> ptr list" where
  "FindOneActiveOrLatest h newMS oldMSs =
     (if newMS = None \<and> length oldMSs = 0 then (None, oldMSs)
      else
        let old' = sortPtrsReverse MachineSetsByCreationTimestamp h oldMSs;
            allMSs = FilterActiveMachineSets h (map Some old' @ [newMS])
        in (case allMSs of
              [] \<Rightarrow> (case newMS of Some p \<Rightarrow> (Some p, old') | None \<Rightarrow> (Some (old' ! 0), old'))
            | [p] \<Rightarrow> (Some p, old')
            | _ \<Rightarrow> (None, old')))"

definition CloneAndAddLabel :: "strmap option \<Rightarrow> string \<Rightarrow> string \<Rightarrow> strmap option" where
  "CloneAndAddLabel labels labelKey labelValue =
     (if labelKey = [] then labels else setAnn labelKey labelValue labels)"

definition CloneSelectorAndAddLabel :: "LabelSelector \<Rightarrow> string \<Rightarrow> string \<Rightarrow> LabelSelector" where
  "CloneSelectorAndAddLabel selector labelKey labelValue =
     (if labelKey = [] then selector
      else \<lparr>lsMatchLabels = setAnn labelKey labelValue (lsMatchLabels selector),
            lsMatchExpressions = lsMatchExpressions selector\<rparr>)"

definition GetDeletingMachineCount :: "Machine list \<Rightarrow> int" where
  "GetDeletingMachineCount ms =
     wrap32 (int (length (filter (\<lambda>m. \<not> timeIsZero (mdeletionTimestamp (mchMeta m))) ms)))"

section \<open>The sort orders\<close>

interpretation by_decreasing: strict_weak MachineSetsByDecreasingReplicas
  by unfold_locales (auto simp: MachineSetsByDecreasingReplicas_def split: option.splits if_splits)

interpretation by_creation: strict_total MachineSetsByCreationTimestamp "\<lambda>ms. (msCreated ms, msName ms)"
  by unfold_locales (auto simp: MachineSetsByCreationTimestamp_def split: if_splits)

interpretation by_size_older: strict_weak MachineSetsBySizeOlder
  by unfold_locales (auto simp: MachineSetsBySizeOlder_def split: if_splits)

interpretation by_size_newer: strict_weak MachineSetsBySizeNewer
  by unfold_locales (auto simp: MachineSetsBySizeNewer_def split: if_splits)

lemma sortPtrs_simps [simp]:
  "set (sortPtrs lt h ps) = set ps" "mset (sortPtrs lt h ps) = mset ps" "length (sortPtrs lt h ps) = length ps"
  "distinct (sortPtrs lt h ps) = distinct ps"
  by (simp_all add: sortPtrs_def)

lemma sortPtrsReverse_simps [simp]:
  "set (sortPtrsReverse lt h ps) = set ps" "mset (sortPtrsReverse lt h ps) = mset ps"
  "length (sortPtrsReverse lt h ps) = length ps" "distinct (sortPtrsReverse lt h ps) = distinct ps"
  by (simp_all add: sortPtrsReverse_def)

section \<open>Replica counts\<close>

text \<open>A sum of non-negative counts that fits into 32 bits is computed without wrap-around.\<close>

lemma sumReplicas_exact:
  assumes "\<And>ms. ms \<in> set mss \<Longrightarrow> f ms = Inr (g ms) \<and> 0 \<le> g ms"
    and "0 \<le> acc" and "acc + (\<Sum>ms \<leftarrow> mss. g ms) < 2 ^ 31"
  shows "sumReplicas f acc (map Some mss) = Inr (acc + (\<Sum>ms \<leftarrow> mss. g ms))"
  using assms
proof (induction mss arbitrary: acc)
  case (Cons ms mss)
  have nn: "0 \<le> g ms" "f ms = Inr (g ms)" "0 \<le> (\<Sum>x \<leftarrow> mss. g x)"
    using Cons.prems(1) by (auto intro!: sum_list_nonneg)
  then have "in32 (acc + g ms)"
    using Cons.prems(2,3) by (simp add: in32_def)
  with nn show ?case
    using Cons.IH [of "acc + g ms"] Cons.prems by (simp add: add.assoc)
qed simp

text \<open>MachineSets whose counts are proper: replicas set, nothing negative.\<close>

definition okMS :: "MachineSet \<Rightarrow> bool" where
  "okMS ms \<longleftrightarrow> msReplicas ms \<noteq> None \<and> 0 \<le> repl ms \<and> 0 \<le> msAvailable ms \<and> 0 \<le> msstReplicas (msStatus ms)"

lemma okMS_deref: "okMS ms \<Longrightarrow> msReplicas ms = Some (repl ms)"
  by (auto simp: okMS_def repl_def)

lemma okMS_nonneg: "okMS ms \<Longrightarrow> 0 \<le> repl ms" "okMS ms \<Longrightarrow> 0 \<le> msAvailable ms"
  "okMS ms \<Longrightarrow> 0 \<le> msstReplicas (msStatus ms)"
  by (auto simp: okMS_def)

lemma GetReplicaCount_exact:
  assumes "\<forall>ms \<in> set mss. okMS ms" and "(\<Sum>ms \<leftarrow> mss. repl ms) < 2 ^ 31"
  shows "GetReplicaCountForMachineSets (map Some mss) = Inr (\<Sum>ms \<leftarrow> mss. repl ms)"
proof -
  have "sumReplicas (\<lambda>ms. deref ''ms.Spec.Replicas'' (msReplicas ms)) 0 (map Some mss) =
      Inr (0 + (\<Sum>ms \<leftarrow> mss. repl ms))"
    using assms by (intro sumReplicas_exact) (simp_all add: okMS_deref okMS_nonneg)
  then show ?thesis by (simp add: GetReplicaCountForMachineSets_def)
qed

lemma GetAvailable_exact:
  assumes "\<forall>ms \<in> set mss. okMS ms" and "(\<Sum>ms \<leftarrow> mss. msAvailable ms) < 2 ^ 31"
  shows "GetAvailableReplicaCountForMachineSets (map Some mss) = Inr (\<Sum>ms \<leftarrow> mss. msAvailable ms)"
proof -
  have "sumReplicas (\<lambda>ms. Inr (msAvailable ms)) 0 (map Some mss) = Inr (0 + (\<Sum>ms \<leftarrow> mss. msAvailable ms))"
    using assms by (intro sumReplicas_exact) (simp_all add: okMS_nonneg)
  then show ?thesis by (simp add: GetAvailableReplicaCountForMachineSets_def)
qed

text \<open>The machines a MachineSet has or may still get: what counts against the surge.\<close>

definition footprint :: "MachineSet \<Rightarrow> int" where
  "footprint ms = max (repl ms) (msstReplicas (msStatus ms))"

lemma footprint_nonneg: "okMS ms \<Longrightarrow> 0 \<le> footprint ms"
  by (simp add: footprint_def okMS_def le_max_iff_disj)

lemma Total_exact:
  assumes "\<forall>ms \<in> set mss. okMS ms" and "(\<Sum>ms \<leftarrow> mss. footprint ms) < 2 ^ 31"
  shows "TotalMachineSetsReplicaSum (map Some mss) = Inr (\<Sum>ms \<leftarrow> mss. footprint ms)"
proof -
  have "sumReplicas (\<lambda>ms. bindR (deref ''ms.Spec.Replicas'' (msReplicas ms))
       (\<lambda>n. Inr (max n (msstReplicas (msStatus ms))))) 0 (map Some mss) = Inr (0 + (\<Sum>ms \<leftarrow> mss. footprint ms))"
    using assms by (intro sumReplicas_exact) (simp_all add: okMS_deref okMS_nonneg footprint_def le_max_iff_disj)
  then show ?thesis by (simp add: TotalMachineSetsReplicaSum_def)
qed

section \<open>Rolling-update bounds\<close>


text \<open>A concrete instance of the other packages' functions, on which the theorems are applied.\<close>

definition sampleDeps :: mdDeps where
  "sampleDeps = \<lparr>GetScaled = (\<lambda>v n up. case v of None \<Rightarrow> Inl (Err ''nil value for IntOrString'')
       | Some (IntVal i) \<Rightarrow> Inr i | Some (StrVal _) \<Rightarrow> Inl (Err ''invalid value for IntOrString'')),
     RoundQuot = (\<lambda>a b. if b = 0 then 0 else (2 * a + b) div (2 * b)),
     apiGroup = (\<lambda>v. hd (Split (CHR ''/'') v)),
     cmpDiff = (\<lambda>a b. if spVersion (tSpec a) = spVersion (tSpec b) then Inr [] else Inr ''version''),
     fmtRFC3339 = FormatInt\<rparr>"

definition sampleTemplate :: MachineTemplateSpec where
  "sampleTemplate = \<lparr>tLabels = None, tAnnotations = None,
     tSpec = \<lparr>spClusterName = ''c'', spBootstrap = \<lparr>bConfigRef = None, bDataSecretName = None\<rparr>,
       spInfrastructureRef = \<lparr>refKind = ''K'', refNamespace = ''ns'', refName = ''t'', refUID = [],
         refAPIVersion = ''g/v1''\<rparr>,
       spVersion = Some ''v1'', spProviderID = None, spFailureDomain = None, spNodeDrainTimeout = None,
       spNodeVolumeDetachTimeout = None, spNodeDeletionTimeout = None\<rparr>\<rparr>"

definition sampleMS :: "string \<Rightarrow> int \<Rightarrow> int \<Rightarrow> int \<Rightarrow> MachineSet" where
  "sampleMS name replicas available created =
     \<lparr>msMeta = emptyMeta\<lparr>mname := name, muid := name, mcreationTimestamp := created\<rparr>,
      msSpec = \<lparr>mssClusterName = ''c'', mssReplicas = Some replicas, mssMinReadySeconds = 0,
        mssDeletePolicy = [], mssSelector = \<lparr>lsMatchLabels = None, lsMatchExpressions = None\<rparr>,
        mssTemplate = sampleTemplate\<rparr>,
      msStatus = \<lparr>msstSelector = [], msstReplicas = replicas, msstFullyLabeledReplicas = 0,
        msstReadyReplicas = available, msstAvailableReplicas = available, msstObservedGeneration = 0,
        msstFailureReason = None, msstFailureMessage = None, msstConditions = []\<rparr>\<rparr>"

definition sampleMD :: "int \<Rightarrow> int \<Rightarrow> int \<Rightarrow> MachineDeployment" where
  "sampleMD replicas surge unavailable =
     \<lparr>mdMeta = emptyMeta\<lparr>mname := ''md''\<rparr>,
      mdSpec = \<lparr>mdsClusterName = ''c'', mdsReplicas = Some replicas, mdsRolloutAfter = None,
        mdsSelector = \<lparr>lsMatchLabels = None, lsMatchExpressions = None\<rparr>, mdsTemplate = sampleTemplate,
        mdsStrategy = Some \<lparr>sgType = ''RollingUpdate'',
          sgRollingUpdate = Some \<lparr>ruMaxUnavailable = Some (IntVal unavailable), ruMaxSurge = Some (IntVal surge),
            ruDeletePolicy = None\<rparr>, sgRemediationMaxInFlight = None\<rparr>,
        mdsMinReadySeconds = None, mdsRevisionHistoryLimit = Some 1, mdsPaused = False,
        mdsProgressDeadlineSeconds = None\<rparr>,
      mdStatus = \<lparr>mdstObservedGeneration = 0, mdstSelector = [], mdstReplicas = 0, mdstUpdatedReplicas = 0,
        mdstReadyReplicas = 0, mdstAvailableReplicas = 0, mdstUnavailableReplicas = 0, mdstPhase = [],
        mdstConditions = []\<rparr>\<rparr>"

lemma sampleMS_simps [simp]:
  "repl (sampleMS nm r a c) = r" "msAvailable (sampleMS nm r a c) = a" "msName (sampleMS nm r a c) = nm"
  "msUID (sampleMS nm r a c) = nm" "msCreated (sampleMS nm r a c) = c" "msReplicas (sampleMS nm r a c) = Some r"
  "msstReplicas (msStatus (sampleMS nm r a c)) = r" "footprint (sampleMS nm r a c) = r"
  "okMS (sampleMS nm r a c) \<longleftrightarrow> 0 \<le> r \<and> 0 \<le> a"
  by (auto simp: sampleMS_def repl_def footprint_def okMS_def emptyMeta_def)


text \<open>
  A MachineDeployment with a rolling-update strategy of \<open>n\<close> replicas whose surge resolves to \<open>s\<close> and
  whose unavailability resolves to \<open>u\<close>, everything within \<open>int32\<close>.
\<close>

definition rollingParams :: "mdDeps \<Rightarrow> MachineDeployment \<Rightarrow> int \<Rightarrow> int \<Rightarrow> int \<Rightarrow> bool" where
  "rollingParams D d n s u \<longleftrightarrow>
     mdReplicas d = Some n \<and> 0 \<le> n \<and> 0 \<le> s \<and> n + s < 2 ^ 31 \<and> 0 \<le> u \<and> u < 2 ^ 31 \<and>
     (case mdsStrategy (mdSpec d) of
        None \<Rightarrow> False
      | Some sg \<Rightarrow> sgType sg = RollingUpdateMachineDeploymentStrategyType \<and>
         (case sgRollingUpdate sg of
            None \<Rightarrow> False
          | Some ru \<Rightarrow> GetScaled D (ruMaxSurge ru) n True = Inr s \<and>
                        GetScaled D (ruMaxUnavailable ru) n False = Inr u))"

lemma rollingParams_sample:
  "0 \<le> n \<Longrightarrow> 0 \<le> s \<Longrightarrow> n + s < 2 ^ 31 \<Longrightarrow> 0 \<le> u \<Longrightarrow> u < 2 ^ 31 \<Longrightarrow>
    rollingParams sampleDeps (sampleMD n s u) n s u"
  by (simp add: rollingParams_def sampleMD_def sampleDeps_def)

lemma rollingParams_unfold:
  assumes "rollingParams D d n s u"
  obtains sg ru where "mdsStrategy (mdSpec d) = Some sg" "sgType sg = RollingUpdateMachineDeploymentStrategyType"
    "sgRollingUpdate sg = Some ru" "mdReplicas d = Some n"
    "GetScaled D (ruMaxSurge ru) n True = Inr s" "GetScaled D (ruMaxUnavailable ru) n False = Inr u"
    "0 \<le> n" "0 \<le> s" "n + s < 2 ^ 31" "0 \<le> u" "u < 2 ^ 31"
  using assms by (auto simp: rollingParams_def split: option.splits)

lemma rolling_simps:
  assumes "rollingParams D d n s u"
  shows "replicasOf d = Inr n" "IsRollingUpdate d = Inr True"
    "MaxSurge D d = Inr s" "maxReplicas D d = Inr (n + s)"
    "MaxUnavailable D d = Inr (if n = 0 then 0 else min n (if s = 0 \<and> u = 0 then 1 else u))"
proof -
  obtain sg ru where *: "mdsStrategy (mdSpec d) = Some sg" "sgType sg = RollingUpdateMachineDeploymentStrategyType"
    "sgRollingUpdate sg = Some ru" "mdReplicas d = Some n"
    "GetScaled D (ruMaxSurge ru) n True = Inr s" "GetScaled D (ruMaxUnavailable ru) n False = Inr u"
    "0 \<le> n" "0 \<le> s" "n + s < 2 ^ 31" "0 \<le> u" "u < 2 ^ 31"
    using assms by (rule rollingParams_unfold)
  have in32s: "in32 s" "in32 (n + s)" "in32 (if s = 0 \<and> u = 0 then 1 else u)"
    using * by (auto simp: in32_def)
  show 1: "replicasOf d = Inr n" by (simp add: replicasOf_def *)
  show 2: "IsRollingUpdate d = Inr True" by (simp add: IsRollingUpdate_def strategyOf_def *)
  have f: "fenceposts D d = Inr (s, if s = 0 \<and> u = 0 then 1 else u)"
    using in32s by (simp add: fenceposts_def rollingOf_def strategyOf_def ResolveFenceposts_def 1 * Let_def)
  show 3: "MaxSurge D d = Inr s" by (simp add: MaxSurge_def 2 f)
  show "maxReplicas D d = Inr (n + s)" using in32s by (simp add: maxReplicas_def 1 3)
  show "MaxUnavailable D d = Inr (if n = 0 then 0 else min n (if s = 0 \<and> u = 0 then 1 else u))"
    by (simp add: MaxUnavailable_def 1 2 f min_def)
qed

lemma MaxUnavailable_bounds:
  assumes "rollingParams D d n s u"
  obtains mu where "MaxUnavailable D d = Inr mu" "0 \<le> mu" "mu \<le> n"
proof
  show "MaxUnavailable D d = Inr (if n = 0 then 0 else min n (if s = 0 \<and> u = 0 then 1 else u))"
    using rolling_simps(5) [OF assms] .
qed (use assms in \<open>auto simp: rollingParams_def\<close>)

lemma NewMSNewReplicas_within:
  assumes "rollingParams D d n s u"
    and "\<forall>ms \<in> set mss. okMS ms" and "(\<Sum>ms \<leftarrow> mss. footprint ms) < 2 ^ 31"
    and "0 \<le> r" and "r \<le> n"
  shows "\<exists>r'. NewMSNewReplicas D d (map Some mss) r = Inr r' \<and> r \<le> r' \<and> r' \<le> n \<and>
    (r < r' \<longrightarrow> (\<Sum>ms \<leftarrow> mss. footprint ms) + (r' - r) \<le> n + s) \<and>
    (r' = n \<or> n + s \<le> (\<Sum>ms \<leftarrow> mss. footprint ms) + (r' - r))"
proof -
  obtain sg ru where *: "mdsStrategy (mdSpec d) = Some sg" "sgType sg = RollingUpdateMachineDeploymentStrategyType"
    "sgRollingUpdate sg = Some ru" "mdReplicas d = Some n" "GetScaled D (ruMaxSurge ru) n True = Inr s"
    "0 \<le> n" "0 \<le> s" "n + s < 2 ^ 31"
    using assms(1) by (rule rollingParams_unfold)
  define F where "F = (\<Sum>ms \<leftarrow> mss. footprint ms)"
  have F: "0 \<le> F" "F < 2 ^ 31"
    using assms(2,3) unfolding F_def by (auto intro!: sum_list_nonneg simp: footprint_nonneg)
  have in32s: "in32 s" "in32 (n + s)" "in32 (n + s - F)" "in32 (n - r)" "in32 (r + min (n + s - F) (n - r))"
    using * assms(4,5) F by (auto simp: in32_def min_def)
  have "TotalMachineSetsReplicaSum (map Some mss) = Inr F"
    using Total_exact [OF assms(2,3)] by (simp add: F_def)
  then have "NewMSNewReplicas D d (map Some mss) r =
      Inr (if F \<ge> n + s then r else r + min (n + s - F) (n - r))"
    using in32s by (simp add: NewMSNewReplicas_def strategyOf_def rollingOf_def replicasOf_def * Let_def)
  then show ?thesis
    unfolding F_def [symmetric] using assms(4,5) by (auto simp: min_def)
qed

text \<open>
  The new MachineSet grows within the surge and up to the desired size: with \<open>r\<close> replicas now, it
  gets \<open>r'\<close> with \<open>r \<le> r' \<le> n\<close>; if it grows, all machines together (counting what is specified or
  still running) stay within replicas plus surge; and it stops growing only at the desired size or
  at that limit.
\<close>

theorem NewMSNewReplicas_surge:
  assumes "rollingParams D d n s u"
    and "\<forall>ms \<in> set mss. okMS ms" and "(\<Sum>ms \<leftarrow> mss. footprint ms) < 2 ^ 31"
    and "0 \<le> r" and "r \<le> n"
  shows "\<exists>r'. NewMSNewReplicas D d (map Some mss) r = Inr r' \<and> r \<le> r' \<and> r' \<le> n \<and>
    (r < r' \<longrightarrow> (\<Sum>ms \<leftarrow> mss. footprint ms) + (r' - r) \<le> n + s) \<and>
    (r' = n \<or> n + s \<le> (\<Sum>ms \<leftarrow> mss. footprint ms) + (r' - r))"
  using assms by (rule NewMSNewReplicas_within)

theorem NewMSNewReplicas_surge_witness:
  "NewMSNewReplicas sampleDeps (sampleMD 5 1 0) (map Some [sampleMS ''old'' 5 5 1, sampleMS ''new'' 0 0 2]) 0 = Inr 1"
  using NewMSNewReplicas_surge [OF rollingParams_sample [of 5 1 0],
      of "[sampleMS ''old'' 5 5 1, sampleMS ''new'' 0 0 2]" 0]
  by (auto split: if_splits)

section \<open>Proportional scaling\<close>

text \<open>
  A proportion never exceeds what is left to distribute, whatever the rounding: scaling up it adds at
  most, and scaling down it removes at most, the difference between the replicas to add and the
  replicas added so far.
\<close>

theorem GetProportion_within_allowed:
  assumes "GetProportion D (Some ms) md toAdd added = Inr p" and "in32 (toAdd - added)"
  shows "(0 < toAdd \<and> added \<le> toAdd \<longrightarrow> added + p \<le> toAdd) \<and>
    (toAdd < 0 \<and> toAdd \<le> added \<longrightarrow> toAdd \<le> added + p) \<and> (toAdd = 0 \<longrightarrow> p = 0)"
  using assms
  by (auto simp: GetProportion_def bindR_eq_Inr Let_def deref_eq_Inr split: if_splits)

theorem GetProportion_within_allowed_witness:
  "let md = sampleMD 10 0 0; md' = md\<lparr>mdStatus := (mdStatus md)\<lparr>mdstReplicas := 8\<rparr>\<rparr>
   in GetProportion sampleDeps (Some (sampleMS ''a'' 4 4 1)) md' 3 2 = Inr 1 \<and> 2 + 1 \<le> (3 :: int)"
proof -
  let ?md = "(sampleMD 10 0 0)\<lparr>mdStatus := (mdStatus (sampleMD 10 0 0))\<lparr>mdstReplicas := 8\<rparr>\<rparr>"
  have "GetProportion sampleDeps (Some (sampleMS ''a'' 4 4 1)) ?md 3 2 = Inr 1"
    by (simp add: GetProportion_def getMachineSetFraction_def replicasOf_def maxReplicas_def MaxSurge_def
        IsRollingUpdate_def strategyOf_def fenceposts_def rollingOf_def ResolveFenceposts_def Let_def
        getMaxReplicasAnnotation_def getIntFromAnnotation_def sampleMD_def sampleMS_def sampleDeps_def
        emptyMeta_def wrap32_def)
  with GetProportion_within_allowed [OF this] show ?thesis
    by (simp add: Let_def in32_def)
qed

section \<open>Revisions\<close>

lemma MaxRevisionLoop_ge: "m \<le> MaxRevisionLoop m mss"
proof (induction mss arbitrary: m)
  case (Cons x mss)
  show ?case
  proof (cases "Revision x")
    case (Inr v)
    then show ?thesis using Cons [of v] Cons [of m] by auto
  qed (simp add: Cons)
qed simp

lemma MaxRevisionLoop_upper: "ms \<in> set mss \<Longrightarrow> Revision ms = Inr v \<Longrightarrow> v \<le> MaxRevisionLoop m mss"
proof (induction mss arbitrary: m)
  case (Cons x mss)
  show ?case
  proof (cases "ms = x")
    case True
    then show ?thesis
      using Cons.prems(2) MaxRevisionLoop_ge [of v mss] MaxRevisionLoop_ge [of m mss] by auto
  next
    case False
    then show ?thesis using Cons by (auto split: sum.splits)
  qed
qed simp

lemma MaxRevision_bounds: "ms \<in> set mss \<Longrightarrow> Revision ms = Inr v \<Longrightarrow> v \<le> MaxRevision mss"
  "0 \<le> MaxRevision mss"
  using MaxRevisionLoop_upper MaxRevisionLoop_ge by (auto simp: MaxRevision_def)

lemma ParseInt64_range: "ParseInt 64 s = Inr n \<Longrightarrow> in64 n"
  by (auto simp: ParseInt_def in64_def split: if_splits option.splits list.splits sum.splits)

lemma MaxRevisionLoop_in64: "in64 m \<Longrightarrow> in64 (MaxRevisionLoop m mss)"
proof (induction mss arbitrary: m)
  case (Cons x mss)
  have "Revision x = Inr v \<Longrightarrow> in64 v" for v
    by (auto simp: Revision_def in64_def dest!: ParseInt64_range split: option.splits)
  with Cons show ?case by (auto split: sum.splits)
qed simp

lemma in64_MaxRevision: "in64 (MaxRevision mss)"
  unfolding MaxRevision_def by (rule MaxRevisionLoop_in64) (simp add: in64_def)

lemma newRevisionFor_cases:
  assumes "newRevisionFor m newMS = Inr nr" and "in64 (m + 1)"
  shows "\<exists>r. ParseInt 64 nr = Inr r \<and> m + 1 \<le> r \<and>
    (\<forall>ms v. newMS = Some ms \<longrightarrow> mlookup (msAnnotations ms) RevisionAnnotation \<noteq> None \<longrightarrow> Revision ms = Inr v \<longrightarrow> v \<le> r)"
proof (cases newMS)
  case None
  with assms show ?thesis
    by (auto simp: newRevisionFor_def Let_def)
next
  case (Some ms)
  show ?thesis
  proof (cases "mlookup (msAnnotations ms) RevisionAnnotation")
    case None
    with Some assms show ?thesis
      by (auto simp: newRevisionFor_def Let_def)
  next
    case (Some c)
    with \<open>newMS = Some ms\<close> assms show ?thesis
      by (auto simp: newRevisionFor_def Let_def Revision_def split: sum.splits if_splits)
  qed
qed

text \<open>
  Revisions never decrease: unless the 64-bit revision counter is exhausted, the computed
  annotations carry a revision that is greater than the revision of every old MachineSet and at least
  the current revision of the new one, together with the desired and the maximum size.
\<close>

theorem ComputeMachineSetAnnotations_revision:
  assumes "ComputeMachineSetAnnotations D d oldMSs newMS = Inr anns"
    and "MaxRevision oldMSs < 2 ^ 63 - 1"
  shows "\<exists>r n m. ParseInt 64 (the (anns RevisionAnnotation)) = Inr r \<and>
    (\<forall>ms \<in> set oldMSs. \<forall>v. Revision ms = Inr v \<longrightarrow> v < r) \<and>
    (\<forall>ms v. newMS = Some ms \<and> mlookup (msAnnotations ms) RevisionAnnotation \<noteq> None \<and> Revision ms = Inr v \<longrightarrow> v \<le> r) \<and>
    replicasOf d = Inr n \<and> maxReplicas D d = Inr m \<and>
    anns DesiredReplicasAnnotation = Some (FormatInt n) \<and> anns MaxReplicasAnnotation = Some (FormatInt m)"
proof -
  let ?m = "MaxRevision oldMSs"
  have in64: "in64 (?m + 1)"
    using assms(2) MaxRevision_bounds(2) [of oldMSs] by (simp add: in64_def)
  obtain rev n m where rev: "newRevisionFor ?m newMS = Inr rev"
    and nm: "replicasOf d = Inr n" "maxReplicas D d = Inr m"
    and anns: "anns RevisionAnnotation = Some rev"
      "anns DesiredReplicasAnnotation = Some (FormatInt n)" "anns MaxReplicasAnnotation = Some (FormatInt m)"
    using assms(1) by (auto simp: ComputeMachineSetAnnotations_def Let_def bindR_eq_Inr)
  obtain r where r: "ParseInt 64 rev = Inr r" "?m + 1 \<le> r"
    and cur: "\<And>ms v. newMS = Some ms \<Longrightarrow> mlookup (msAnnotations ms) RevisionAnnotation \<noteq> None \<Longrightarrow>
      Revision ms = Inr v \<Longrightarrow> v \<le> r"
    using newRevisionFor_cases [OF rev in64] by blast
  have "\<forall>ms \<in> set oldMSs. \<forall>v. Revision ms = Inr v \<longrightarrow> v < r"
    using MaxRevision_bounds(1) r(2) by fastforce
  then show ?thesis
    using r(1) cur nm anns by (intro exI [of _ r] exI [of _ n] exI [of _ m]) auto
qed

theorem ComputeMachineSetAnnotations_revision_witness:
  "\<exists>anns r. ComputeMachineSetAnnotations sampleDeps (sampleMD 3 1 0) [] None = Inr anns \<and>
    ParseInt 64 (the (anns RevisionAnnotation)) = Inr r \<and> anns DesiredReplicasAnnotation = Some (FormatInt 3)"
proof -
  have "\<exists>anns. ComputeMachineSetAnnotations sampleDeps (sampleMD 3 1 0) [] None = Inr anns"
    using rolling_simps(1,4) [OF rollingParams_sample [of 3 1 0]]
    by (simp add: ComputeMachineSetAnnotations_def newRevisionFor_def Let_def)
  then obtain anns where a: "ComputeMachineSetAnnotations sampleDeps (sampleMD 3 1 0) [] None = Inr anns" ..
  moreover have "replicasOf (sampleMD 3 1 0) = Inr 3"
    by (simp add: replicasOf_def sampleMD_def)
  ultimately show ?thesis
    using ComputeMachineSetAnnotations_revision [OF a] by (auto simp: MaxRevision_def)
qed

section \<open>The replica annotations\<close>

lemma FormatInt_nonempty [simp]: "FormatInt n \<noteq> []" "[] \<noteq> FormatInt n"
  by (simp_all add: FormatInt_def format_nat_nonempty [symmetric] format_nat_nonempty)

lemma SetReplicasAnnotations_lookup:
  "mlookup (msAnnotations (fst (SetReplicasAnnotations ms d m))) k =
    (if k = DesiredReplicasAnnotation then Some (FormatInt d)
     else if k = MaxReplicasAnnotation then Some (FormatInt m)
     else mlookup (msAnnotations ms) k)"
  by (cases "msAnnotations ms")
    (auto simp: SetReplicasAnnotations_def Let_def setAnn_def split: option.splits if_splits)

lemma SetReplicasAnnotations_frame [simp]:
  "msSpec (fst (SetReplicasAnnotations ms d m)) = msSpec ms"
  "msStatus (fst (SetReplicasAnnotations ms d m)) = msStatus ms"
  "msName (fst (SetReplicasAnnotations ms d m)) = msName ms"
  "msUID (fst (SetReplicasAnnotations ms d m)) = msUID ms"
  "msCreated (fst (SetReplicasAnnotations ms d m)) = msCreated ms"
  by (simp_all add: SetReplicasAnnotations_def Let_def)

text \<open>
  The replica annotations round-trip: after \<open>SetReplicasAnnotations\<close> no update is needed for the
  same sizes, the maximum reads back as the number written, every other annotation is unchanged, and the
  reported flag is exactly whether something had to be written.
\<close>

theorem ReplicasAnnotations_roundtrip:
  assumes "in32 m"
  shows "let ms' = fst (SetReplicasAnnotations ms d m) in
    \<not> ReplicasAnnotationsNeedUpdate ms' d m \<and> getMaxReplicasAnnotation ms' = (m, True) \<and>
    (\<forall>k. k \<noteq> DesiredReplicasAnnotation \<longrightarrow> k \<noteq> MaxReplicasAnnotation \<longrightarrow>
       mlookup (msAnnotations ms') k = mlookup (msAnnotations ms) k) \<and>
    (msAnnotations ms \<noteq> None \<longrightarrow>
       snd (SetReplicasAnnotations ms d m) = ReplicasAnnotationsNeedUpdate ms d m)"
proof -
  let ?ms = "fst (SetReplicasAnnotations ms d m)"
  note lk = SetReplicasAnnotations_lookup [of ms d m]
  have "msAnnotations ?ms \<noteq> None"
    using lk [of MaxReplicasAnnotation] by (auto simp: mlookup_def split: option.splits)
  then have "\<not> ReplicasAnnotationsNeedUpdate ?ms d m"
    by (simp add: ReplicasAnnotationsNeedUpdate_def mget_def lk)
  moreover have "getMaxReplicasAnnotation ?ms = (m, True)"
    using assms by (simp add: getMaxReplicasAnnotation_def getIntFromAnnotation_def lk)
  moreover have "snd (SetReplicasAnnotations ms d m) = ReplicasAnnotationsNeedUpdate ms d m" if "msAnnotations ms \<noteq> None"
    using that by (auto simp: SetReplicasAnnotations_def ReplicasAnnotationsNeedUpdate_def Let_def setAnn_def
        split: option.splits)
  ultimately show ?thesis
    using lk by (simp add: Let_def)
qed

theorem ReplicasAnnotations_roundtrip_witness:
  "getMaxReplicasAnnotation (fst (SetReplicasAnnotations (sampleMS ''a'' 1 1 1) 3 4)) = (4, True)"
  using ReplicasAnnotations_roundtrip [of 4 "sampleMS ''a'' 1 1 1" 3] by (simp add: Let_def in32_def)

section \<open>The new and the old MachineSets\<close>

definition matches :: "mdDeps \<Rightarrow> store \<Rightarrow> MachineDeployment \<Rightarrow> ptr \<Rightarrow> bool" where
  "matches D h d p =
     (case EqualMachineTemplate D (mssTemplate (msSpec (h p))) (mdsTemplate (mdSpec d)) of
        Inl _ \<Rightarrow> False | Inr (eq, _) \<Rightarrow> eq)"

lemma matchLoop_filter:
  "matchLoop D h d ps m ds = Inr (m', ds') \<Longrightarrow> m' = m @ filter (matches D h d) ps"
  by (induction D h d ps m ds rule: matchLoop.induct)
    (auto simp: matches_def split: sum.splits prod.splits if_splits)

text \<open>A MachineSet the deployment may adopt as its new one at the given time.\<close>

definition eligible :: "mdDeps \<Rightarrow> store \<Rightarrow> MachineDeployment \<Rightarrow> time \<Rightarrow> ptr \<Rightarrow> bool" where
  "eligible D h d t p \<longleftrightarrow> matches D h d p \<and>
     (\<forall>ra. mdsRolloutAfter (mdSpec d) = Some ra \<and> ra \<le> t \<longrightarrow> ra < msCreated (h p))"

lemma FindNew_sorted: "FindNewMachineSet D h d ps t = Inr (r, why, so) \<Longrightarrow> mset so = mset ps"
  by (auto simp: FindNewMachineSet_def Let_def bindR_eq_Inr split: if_splits option.splits)

lemma FindNew_first:
  assumes "FindNewMachineSet D h d ps t = Inr (r, why, so)"
  shows "r = find (eligible D h d t) (sortPtrs MachineSetsByDecreasingReplicas h ps)"
proof (cases "ps = []")
  case True
  then show ?thesis
    using assms by (simp add: FindNewMachineSet_def sortPtrs_def)
next
  case False
  let ?s = "sortPtrs MachineSetsByDecreasingReplicas h ps"
  from assms False obtain m ds where ml: "matchLoop D h d ?s [] [] = Inr (m, ds)"
    and r: "r = (if m = [] then None else case mdsRolloutAfter (mdSpec d) of None \<Rightarrow> Some (m ! 0)
      | Some ra \<Rightarrow> if t < ra then Some (m ! 0) else find (\<lambda>p. msCreated (h p) > ra) m)"
    by (auto simp: FindNewMachineSet_def Let_def bindR_eq_Inr split: if_splits option.splits)
  have m: "m = filter (matches D h d) ?s"
    using matchLoop_filter [OF ml] by simp
  have hd: "(if filter P xs = [] then None else Some (filter P xs ! 0)) = find P xs" for P and xs :: "ptr list"
    by (induction xs) auto
  have nest: "find Q (filter P xs) = find (\<lambda>x. P x \<and> Q x) xs" for P Q and xs :: "ptr list"
    by (induction xs) auto
  show ?thesis
  proof (cases "mdsRolloutAfter (mdSpec d)")
    case None
    then have "eligible D h d t = matches D h d"
      by (auto simp: eligible_def fun_eq_iff)
    with None show ?thesis
      using hd [of "matches D h d" ?s] by (auto simp: r m)
  next
    case (Some ra)
    show ?thesis
    proof (cases "t < ra")
      case True
      with Some have "eligible D h d t = matches D h d"
        by (auto simp: eligible_def fun_eq_iff)
      with Some True show ?thesis
        using hd [of "matches D h d" ?s] by (auto simp: r m)
    next
      case False
      with Some have "eligible D h d t = (\<lambda>x. matches D h d x \<and> ra < msCreated (h x))"
        by (auto simp: eligible_def fun_eq_iff)
      with Some False show ?thesis
        using nest [of "\<lambda>p. ra < msCreated (h p)" "matches D h d" ?s] by (auto simp: r m)
    qed
  qed
qed

lemma strict_weak_store: "strict_weak lt \<Longrightarrow> strict_weak (\<lambda>p q. lt (h p) (h q))"
  unfolding strict_weak_def by blast

lemma sortPtrs_sorted: "strict_weak lt \<Longrightarrow> sorted_wrt (\<lambda>p q. \<not> lt (h q) (h p)) (sortPtrs lt h ps)"
  unfolding sortPtrs_def using strict_weak.sort_sorted [OF strict_weak_store] by blast

lemma find_sorted_min:
  "sorted_wrt (\<lambda>p q. \<not> lt q p) xs \<Longrightarrow> (\<And>x. \<not> lt x x) \<Longrightarrow> find P xs = Some p \<Longrightarrow> q \<in> set xs \<Longrightarrow> P q \<Longrightarrow> \<not> lt q p"
  by (induction xs) (auto split: if_splits)

lemma find_in: "find P xs = Some p \<Longrightarrow> p \<in> set xs \<and> P p"
  by (induction xs) (auto split: if_splits)

lemma filter_uid_remove:
  assumes "distinct ps" "inj_on u (set ps)" "p \<in> set ps"
  shows "mset (p # filter (\<lambda>q. u q \<noteq> u p) ps) = mset ps"
proof -
  have "filter (\<lambda>q. u q \<noteq> u p) ps = filter (\<lambda>q. q \<noteq> p) ps"
    using assms(2,3) by (intro filter_cong) (auto dest: inj_onD)
  also have "\<dots> = remove1 p ps"
    using assms(1) by (simp add: distinct_remove1_removeAll removeAll_filter_not_eq eq_commute)
  finally show ?thesis
    using assms(3) by simp
qed

text \<open>
  Every MachineSet of the deployment is the new one or an old one, never both: with distinct
  UIDs, \<open>FindOldMachineSets\<close> returns all MachineSets but the one \<open>FindNewMachineSet\<close> picks; the one
  picked has the deployment's template (and was created after \<open>rolloutAfter\<close> once that time has
  passed) and no other such MachineSet has more replicas or, at equal replicas, is older; none is
  picked only if none qualifies.
\<close>

theorem FindMachineSets_partition:
  assumes "FindOldMachineSets D h d ps t = Inr (olds, so)"
    and "distinct ps" and "inj_on (\<lambda>p. msUID (h p)) (set ps)"
  shows "\<exists>newMS why. FindNewMachineSet D h d ps t = Inr (newMS, why, so) \<and>
    (case newMS of
       None \<Rightarrow> (\<forall>p \<in> set ps. \<not> eligible D h d t p) \<and> mset olds = mset ps
     | Some p \<Rightarrow> p \<in> set ps \<and> eligible D h d t p \<and> mset (p # olds) = mset ps \<and>
         (\<forall>q \<in> set ps. eligible D h d t q \<longrightarrow> \<not> MachineSetsByDecreasingReplicas (h q) (h p)))"
proof -
  obtain newMS why where f: "FindNewMachineSet D h d ps t = Inr (newMS, why, so)"
    and olds: "olds = filter (\<lambda>p. \<not> (case newMS of None \<Rightarrow> False | Some n \<Rightarrow> msUID (h p) = msUID (h n))) so"
    using assms(1) by (auto simp: FindOldMachineSets_def bindR_eq_Inr)
  let ?s = "sortPtrs MachineSetsByDecreasingReplicas h ps"
  have new: "newMS = find (eligible D h d t) ?s"
    using FindNew_first [OF f] .
  have so: "mset so = mset ps" "set so = set ps"
    using FindNew_sorted [OF f] by (auto dest: mset_eq_setD)
  show ?thesis
  proof (cases newMS)
    case None
    then have "\<forall>p \<in> set ps. \<not> eligible D h d t p"
      using new by (auto simp: find_None_iff)
    with f None olds so show ?thesis by auto
  next
    case (Some p)
    with new have p: "p \<in> set ps" "eligible D h d t p"
      using find_in [of "eligible D h d t" ?s p] by auto
    have "distinct so"
      using so(1) assms(2) mset_eq_imp_distinct_iff by blast
    then have "mset (p # olds) = mset ps"
      using filter_uid_remove [of so "\<lambda>p. msUID (h p)" p] assms(3) so p(1) by (simp add: olds Some)
    moreover have "\<not> MachineSetsByDecreasingReplicas (h q) (h p)" if "q \<in> set ps" "eligible D h d t q" for q
    proof (rule find_sorted_min [where lt = "\<lambda>p q. MachineSetsByDecreasingReplicas (h p) (h q)"])
      show "sorted_wrt (\<lambda>p q. \<not> MachineSetsByDecreasingReplicas (h q) (h p)) ?s"
        by (rule sortPtrs_sorted) (rule by_decreasing.strict_weak_axioms)
      show "\<not> MachineSetsByDecreasingReplicas (h x) (h x)" for x
        using by_decreasing.less_asym by blast
      show "find (eligible D h d t) ?s = Some p"
        using new Some by simp
    qed (use that in simp_all)
    ultimately show ?thesis
      using f Some p by (intro exI [of _ newMS] exI [of _ why]) simp
  qed
qed

theorem FindMachineSets_partition_witness:
  "let h = (\<lambda>p. if p = 0 then sampleMS ''a'' 1 1 1 else sampleMS ''b'' 2 2 2)
   in \<exists>why so. FindNewMachineSet sampleDeps h (sampleMD 3 1 0) [0, 1] 9 = Inr (Some 1, why, so)"
proof -
  let ?h = "\<lambda>p :: nat. if p = 0 then sampleMS ''a'' 1 1 1 else sampleMS ''b'' 2 2 2"
  have s: "sortPtrs MachineSetsByDecreasingReplicas ?h [0, 1] = [1, 0]"
    by (simp add: sortPtrs_def sort_Sort_def MachineSetsByDecreasingReplicas_def)
  have e: "EqualMachineTemplate sampleDeps sampleTemplate sampleTemplate = Inr (True, [])"
    by (simp add: EqualMachineTemplate_def compare_Diff_def sampleDeps_def)
  have m: "mssTemplate (msSpec (sampleMS nm r a c)) = sampleTemplate"
    "mdsTemplate (mdSpec (sampleMD n su u)) = sampleTemplate" "mdsRolloutAfter (mdSpec (sampleMD n su u)) = None"
    for nm r a c n su u
    by (simp_all add: sampleMS_def sampleMD_def)
  have f: "FindOldMachineSets sampleDeps ?h (sampleMD 3 1 0) [0, 1] 9 = Inr ([0], [1, 0])"
    by (simp add: FindOldMachineSets_def FindNewMachineSet_def Let_def s [unfolded One_nat_def] e m)
  have "distinct [0 :: nat, 1]" "inj_on (\<lambda>p. msUID (?h p)) (set [0, 1])"
    by (auto simp: inj_on_def)
  from FindMachineSets_partition [OF f this] show ?thesis
    unfolding Let_def by (auto split: option.splits)
qed

end
