(* ===== verification/MachineDeploymentSync.thy ===== *)
theory MachineDeploymentSync
  imports MdUtil
begin

text \<open>
  The rollout logic of the MachineDeployment controller
  (\<open>src/cluster-api/internal/controllers/machinedeployment/\<close>: \<open>machinedeployment_sync.go\<close>,
  \<open>machinedeployment_rolling.go\<close>, \<open>machinedeployment_rollout_ondelete.go\<close>).

  The state of a reconciliation is the store of MachineSets the code holds pointers to, the
  MachineDeployment it updates in place, and the API calls made so far. What the API server, the clock,
  the random generator, hashing and selector conversion answer is the environment \<open>mdEnv\<close>; an
  answer may depend on all calls made before, so every behaviour of the server is covered.
  A slice that is sorted in place is returned in its new order. Log lines and events are not modelled.
\<close>

section \<open>State and environment\<close>

datatype apicall =
    NewPatchHelper string
  | PatchMachineSet MachineSet MachineSet
  | SSAPatchMachineSet "MachineSet option" MachineSet
  | GetMachineSet string
  | DeleteMachineSet MachineSet
  | ListMachines string "strmap"
  | ListMachineSets string
  | AdoptMachineSet MachineSet MachineSet
  | CleanUpManagedFields MachineSet
  | GetExternal ObjectReference
  | PatchExternal ObjectReference
  | PatchMachineDeployment MachineDeployment

record mdState =
  heap :: store
  nextPtr :: ptr
  mdObj :: MachineDeployment
  calls :: "apicall list"

record mdEnv =
  mdeps :: mdDeps
  outcome :: "apicall list \<Rightarrow> apicall \<Rightarrow> err option"
  ssaResponse :: "apicall list \<Rightarrow> MachineSet \<Rightarrow> MachineSet"
  listedMachines :: "apicall list \<Rightarrow> Machine list"
  nowAt :: "apicall list \<Rightarrow> time"
  computeHash :: "MachineTemplateSpec \<Rightarrow> int res"
  randSuffix :: "apicall list \<Rightarrow> string"
  LabelSelectorAsMap :: "LabelSelector \<Rightarrow> strmap res"
  selectorString :: "LabelSelector \<Rightarrow> string res"
  pollTicks :: nat

text \<open>One API call: it is recorded, and fails if the server says so.\<close>

definition invoke :: "mdEnv \<Rightarrow> apicall \<Rightarrow> (mdState, unit) comp" where
  "invoke E c s =
     (case outcome E (calls s) c of
        None \<Rightarrow> (Inr (), s\<lparr>calls := calls s @ [c]\<rparr>)
      | Some e \<Rightarrow> (Inl e, s\<lparr>calls := calls s @ [c]\<rparr>))"

definition setMS :: "ptr \<Rightarrow> MachineSet \<Rightarrow> (mdState, unit) comp" where
  "setMS p ms = modifyE (\<lambda>s. s\<lparr>heap := (heap s)(p := ms)\<rparr>)"

definition allocMS :: "MachineSet \<Rightarrow> (mdState, ptr) comp" where
  "allocMS ms s = (Inr (nextPtr s), s\<lparr>heap := (heap s)(nextPtr s := ms), nextPtr := nextPtr s + 1\<rparr>)"

definition setMD :: "(MachineDeployment \<Rightarrow> MachineDeployment) \<Rightarrow> (mdState, unit) comp" where
  "setMD f = modifyE (\<lambda>s. s\<lparr>mdObj := f (mdObj s)\<rparr>)"

abbreviation "unless_nil x what m \<equiv> (case x of None \<Rightarrow> failE (Err what) | Some v \<Rightarrow> m v)"

section \<open>Scaling one MachineSet\<close>

definition withReplicas :: "int \<Rightarrow> MachineSet \<Rightarrow> MachineSet" where
  "withReplicas n ms = ms\<lparr>msSpec := (msSpec ms)\<lparr>mssReplicas := Some n\<rparr>\<rparr>"

definition scaleMachineSet :: "mdEnv \<Rightarrow> ptr \<Rightarrow> int \<Rightarrow> (mdState, unit) comp" where
  "scaleMachineSet E p newScale =
     bindE (getsE (\<lambda>s. (heap s p, mdObj s))) (\<lambda>(ms, deployment).
       unless_nil (msReplicas ms) ''spec.replicas for MachineSet is nil'' (\<lambda>cur.
       unless_nil (mdReplicas deployment) ''spec.replicas for MachineDeployment is nil'' (\<lambda>n.
         bindE (liftE (maxReplicas (mdeps E) deployment)) (\<lambda>mx.
           if cur = newScale \<and> \<not> ReplicasAnnotationsNeedUpdate ms n mx then returnE ()
           else
             bindE (invoke E (NewPatchHelper (msName ms))) (\<lambda>_.
               let ms' = fst (SetReplicasAnnotations (withReplicas newScale ms) n mx) in
               bindE (setMS p ms') (\<lambda>_.
               invoke E (PatchMachineSet ms ms')))))))"

section \<open>Status\<close>

definition MachineDeploymentAvailableCondition :: string where
  "MachineDeploymentAvailableCondition = ''Available''"
definition MachineSetReadyCondition :: string where
  "MachineSetReadyCondition = ''MachineSetReady''"
abbreviation "WaitingForMachineSetFallbackReason \<equiv> ''WaitingForMachineSet''"
abbreviation "WaitingForAvailableMachinesReason \<equiv> ''WaitingForAvailableMachines''"

definition calculateStatus ::
  "mdEnv \<Rightarrow> MachineSet option list \<Rightarrow> MachineSet option \<Rightarrow> MachineDeployment \<Rightarrow> MachineDeploymentStatus res" where
  "calculateStatus E allMSs newMS deployment =
     bindR (GetAvailableReplicaCountForMachineSets allMSs) (\<lambda>availableReplicas.
     bindR (GetReplicaCountForMachineSets allMSs) (\<lambda>totalReplicas.
       let unavailableReplicas = (let u = wrap32 (totalReplicas - availableReplicas) in if u < 0 then 0 else u) in
     bindR (case selectorString E (mdsSelector (mdSpec deployment)) of
              Inl _ \<Rightarrow> Inl (Panic ''selector.String'') | Inr t \<Rightarrow> Inr t) (\<lambda>sel.
     bindR (GetActualReplicaCountForMachineSets allMSs) (\<lambda>replicas.
     bindR (GetActualReplicaCountForMachineSets [newMS]) (\<lambda>updated.
     bindR (GetReadyReplicaCountForMachineSets allMSs) (\<lambda>ready.
     bindR (replicasOf deployment) (\<lambda>n.
       let p0 = (if n = ready then ''Running'' else []);
           p1 = (if n > ready then ''ScalingUp'' else p0);
           p2 = (if wrap32 (totalReplicas - availableReplicas) < 0 then ''ScalingDown'' else p1);
           p3 = (if list_ex (\<lambda>m. case m of None \<Rightarrow> False
                     | Some ms \<Rightarrow> msstFailureReason (msStatus ms) \<noteq> None \<or> msstFailureMessage (msStatus ms) \<noteq> None) allMSs
                 then ''Failed'' else p2)
       in Inr \<lparr>mdstObservedGeneration = mgeneration (mdMeta deployment), mdstSelector = sel,
               mdstReplicas = replicas, mdstUpdatedReplicas = updated, mdstReadyReplicas = ready,
               mdstAvailableReplicas = availableReplicas, mdstUnavailableReplicas = unavailableReplicas,
               mdstPhase = p3, mdstConditions = mdstConditions (mdStatus deployment)\<rparr>)))))))"

definition derefAll :: "store \<Rightarrow> ptr option list \<Rightarrow> MachineSet option list" where
  "derefAll h ps = map (map_option h) ps"

definition syncDeploymentStatus :: "mdEnv \<Rightarrow> ptr option list \<Rightarrow> ptr option \<Rightarrow> (mdState, unit) comp" where
  "syncDeploymentStatus E allMSs newMS =
     bindE (getsE (\<lambda>s. (heap s, mdObj s))) (\<lambda>(h, md0).
     bindE (liftE (calculateStatus E (derefAll h allMSs) (map_option h newMS) md0)) (\<lambda>st.
     bindE (setMD (\<lambda>d. d\<lparr>mdStatus := st\<rparr>)) (\<lambda>_.
     bindE (getsE mdObj) (\<lambda>md.
     bindE (liftE (replicasOf md)) (\<lambda>n.
     bindE (liftE (MaxUnavailable (mdeps E) md)) (\<lambda>mu.
     bindE (getsE (\<lambda>s. nowAt E (calls s))) (\<lambda>now.
       let minReplicasNeeded = wrap32 (n - mu); available = mdstAvailableReplicas (mdStatus md) in
     bindE (setMD (\<lambda>d. setMachineDeploymentConditions
              (if available \<ge> minReplicasNeeded
               then MarkTrue now (mdstConditions (mdStatus d)) MachineDeploymentAvailableCondition
               else MarkFalse now (mdstConditions (mdStatus d)) MachineDeploymentAvailableCondition
                      WaitingForAvailableMachinesReason ConditionSeverityWarning
                      ''Minimum availability requires %d replicas, current %d available''
                      [FormatInt minReplicasNeeded, FormatInt available]) d)) (\<lambda>_.
       setMD (\<lambda>d. setMachineDeploymentConditions
              (case newMS of
                 Some p \<Rightarrow> SetMirror now (mdstConditions (mdStatus d)) MachineSetReadyCondition
                             (msstConditions (msStatus (h p)))
                             [WithFallbackValue False WaitingForMachineSetFallbackReason ConditionSeverityInfo []]
               | None \<Rightarrow> MarkFalse now (mdstConditions (mdStatus d)) MachineSetReadyCondition
                           WaitingForMachineSetFallbackReason ConditionSeverityInfo ''MachineSet not found'' []) d)))))))))"

section \<open>Rolling update\<close>

definition reconcileNewMachineSet :: "mdEnv \<Rightarrow> ptr option list \<Rightarrow> ptr \<Rightarrow> (mdState, unit) comp" where
  "reconcileNewMachineSet E allMSs newMS =
     bindE (getsE (\<lambda>s. (heap s, mdObj s))) (\<lambda>(h, deployment).
       unless_nil (mdReplicas deployment) ''spec.replicas for MachineDeployment is nil'' (\<lambda>n.
       unless_nil (msReplicas (h newMS)) ''spec.replicas for MachineSet is nil'' (\<lambda>r.
         if r = n then returnE ()
         else if r > n then scaleMachineSet E newMS n
         else bindE (liftE (NewMSNewReplicas (mdeps E) deployment (derefAll h allMSs) r)) (\<lambda>newReplicasCount.
                scaleMachineSet E newMS newReplicasCount))))"

fun cleanupLoop :: "mdEnv \<Rightarrow> int \<Rightarrow> ptr list \<Rightarrow> int \<Rightarrow> (mdState, int) comp" where
  "cleanupLoop E maxCleanupCount [] scaled = returnE scaled"
| "cleanupLoop E maxCleanupCount (p # ps) scaled =
     bindE (getsE (\<lambda>s. heap s p)) (\<lambda>targetMS.
       unless_nil (msReplicas targetMS) ''spec.replicas for MachineSet is nil'' (\<lambda>oldMSReplicas.
         if scaled \<ge> maxCleanupCount then returnE scaled
         else if oldMSReplicas = 0 then cleanupLoop E maxCleanupCount ps scaled
         else
           let oldMSAvailableReplicas = msAvailable targetMS in
           if oldMSReplicas = oldMSAvailableReplicas then cleanupLoop E maxCleanupCount ps scaled
           else
             let remainingCleanupCount = wrap32 (maxCleanupCount - scaled);
                 unhealthyCount = wrap32 (oldMSReplicas - oldMSAvailableReplicas);
                 scaledDownCount = min remainingCleanupCount unhealthyCount;
                 newReplicasCount = wrap32 (oldMSReplicas - scaledDownCount)
             in if newReplicasCount > oldMSReplicas
                then failE (Err ''when cleaning up unhealthy replicas, got invalid request to scale down'')
                else bindE (scaleMachineSet E p newReplicasCount) (\<lambda>_.
                       cleanupLoop E maxCleanupCount ps (wrap32 (scaled + scaledDownCount)))))"

definition cleanupUnhealthyReplicas :: "mdEnv \<Rightarrow> ptr list \<Rightarrow> int \<Rightarrow> (mdState, ptr list \<times> int) comp" where
  "cleanupUnhealthyReplicas E oldMSs maxCleanupCount =
     bindE (getsE (\<lambda>s. sortPtrs MachineSetsByCreationTimestamp (heap s) oldMSs)) (\<lambda>sortedMSs.
     bindE (cleanupLoop E maxCleanupCount sortedMSs 0) (\<lambda>scaled. returnE (sortedMSs, scaled)))"

fun scaleDownLoop :: "mdEnv \<Rightarrow> int \<Rightarrow> ptr list \<Rightarrow> int \<Rightarrow> (mdState, int) comp" where
  "scaleDownLoop E totalScaleDownCount [] scaled = returnE scaled"
| "scaleDownLoop E totalScaleDownCount (p # ps) scaled =
     bindE (getsE (\<lambda>s. heap s p)) (\<lambda>targetMS.
       unless_nil (msReplicas targetMS) ''spec.replicas for MachineSet is nil'' (\<lambda>r.
         if scaled \<ge> totalScaleDownCount then returnE scaled
         else if r = 0 then scaleDownLoop E totalScaleDownCount ps scaled
         else
           let scaleDownCount = min r (wrap32 (totalScaleDownCount - scaled));
               newReplicasCount = wrap32 (r - scaleDownCount)
           in if newReplicasCount > r
              then failE (Err ''when scaling down old MachineSet, got invalid request to scale down'')
              else bindE (scaleMachineSet E p newReplicasCount) (\<lambda>_.
                     scaleDownLoop E totalScaleDownCount ps (wrap32 (scaled + scaleDownCount)))))"

definition scaleDownOldMachineSetsForRollingUpdate ::
  "mdEnv \<Rightarrow> ptr option list \<Rightarrow> ptr list \<Rightarrow> (mdState, int) comp" where
  "scaleDownOldMachineSetsForRollingUpdate E allMSs oldMSs =
     bindE (getsE (\<lambda>s. (heap s, mdObj s))) (\<lambda>(h, deployment).
       unless_nil (mdReplicas deployment) ''spec.replicas for MachineDeployment is nil'' (\<lambda>n.
         bindE (liftE (MaxUnavailable (mdeps E) deployment)) (\<lambda>maxUnavailable.
           let minAvailable = wrap32 (n - maxUnavailable) in
         bindE (liftE (GetAvailableReplicaCountForMachineSets (derefAll h allMSs))) (\<lambda>availableMachineCount.
           if availableMachineCount \<le> minAvailable then returnE 0
           else scaleDownLoop E (wrap32 (availableMachineCount - minAvailable))
                  (sortPtrs MachineSetsByCreationTimestamp h oldMSs) 0))))"

definition reconcileOldMachineSets :: "mdEnv \<Rightarrow> ptr option list \<Rightarrow> ptr list \<Rightarrow> ptr \<Rightarrow> (mdState, unit) comp" where
  "reconcileOldMachineSets E allMSs oldMSs newMS =
     bindE (getsE (\<lambda>s. (heap s, mdObj s))) (\<lambda>(h, deployment).
       unless_nil (mdReplicas deployment) ''spec.replicas for MachineDeployment is nil'' (\<lambda>n.
       unless_nil (msReplicas (h newMS)) ''spec.replicas for MachineSet is nil'' (\<lambda>newReplicas.
         bindE (liftE (GetReplicaCountForMachineSets (derefAll h (map Some oldMSs)))) (\<lambda>oldMachinesCount.
           if oldMachinesCount = 0 then returnE ()
           else
             bindE (liftE (GetReplicaCountForMachineSets (derefAll h allMSs))) (\<lambda>allMachinesCount.
             bindE (liftE (MaxUnavailable (mdeps E) deployment)) (\<lambda>maxUnavailable.
               let minAvailable = wrap32 (n - maxUnavailable);
                   newMSUnavailableMachineCount = wrap32 (newReplicas - msAvailable (h newMS));
                   maxScaledDown = wrap32 (wrap32 (allMachinesCount - minAvailable) - newMSUnavailableMachineCount)
               in if maxScaledDown \<le> 0 then returnE ()
                  else
                    bindE (cleanupUnhealthyReplicas E oldMSs maxScaledDown) (\<lambda>(oldMSs', cleanupCount).
                    bindE (scaleDownOldMachineSetsForRollingUpdate E (map Some oldMSs' @ [Some newMS]) oldMSs')
                      (\<lambda>_. returnE ()))))))))"

section \<open>Creating and updating the new MachineSet\<close>

definition maxGeneratedNameLength :: nat where
  "maxGeneratedNameLength = 63 - 5"

definition computeNewMachineSetName :: "string \<Rightarrow> string \<Rightarrow> string \<times> string" where
  "computeNewMachineSetName r base =
     (let b = (if length base > maxGeneratedNameLength then take maxGeneratedNameLength base else base)
      in (b @ r, r))"

definition cloneStringMap :: "strmap option \<Rightarrow> strmap" where
  "cloneStringMap m = mlookup m"

definition newControllerRef :: "string \<Rightarrow> ObjMeta \<Rightarrow> OwnerReference" where
  "newControllerRef kind m =
     \<lparr>orAPIVersion = ''cluster.x-k8s.io/v1beta1'', orKind = kind, orName = mname m, orUID = muid m,
      orController = Some True, orBlockOwnerDeletion = Some True\<rparr>"

definition emptyMSStatus :: MachineSetStatus where
  "emptyMSStatus = \<lparr>msstSelector = [], msstReplicas = 0, msstFullyLabeledReplicas = 0, msstReadyReplicas = 0,
     msstAvailableReplicas = 0, msstObservedGeneration = 0, msstFailureReason = None,
     msstFailureMessage = None, msstConditions = []\<rparr>"

text \<open>Name, UID, finalizers, unique identifier, replicas and machine template spec of the MachineSet.\<close>

definition desiredParts :: "mdEnv \<Rightarrow> string \<Rightarrow> MachineDeployment \<Rightarrow> MachineSet option \<Rightarrow> MachineSet list \<Rightarrow>
    (string \<times> string \<times> string list \<times> string \<times> int \<times> MachineSpec) res" where
  "desiredParts E rnd deployment existingMS oldMSs =
     (case existingMS of
        None \<Rightarrow>
          (case computeHash E (MachineTemplateDeepCopyRolloutFields (mdeps E) (mdsTemplate (mdSpec deployment))) of
             Inl e \<Rightarrow> Inl (Wrap ''failed to compute desired MachineSet: failed to compute machine template hash'' e)
           | Inr templateHash \<Rightarrow>
               let (name, randomSuffix) = computeNewMachineSetName rnd (mdName deployment @ ''-'') in
               (case NewMSNewReplicas (mdeps E) deployment (map Some oldMSs) 0 of
                  Inl e \<Rightarrow> Inl (Wrap ''failed to compute desired MachineSet'' e)
                | Inr replicas \<Rightarrow>
                    Inr (name, [], [], FormatInt templateHash @ ''-'' @ randomSuffix, replicas,
                         tSpec (mdsTemplate (mdSpec deployment)))))
      | Some ms \<Rightarrow>
          (case mlookup (mlabels (msMeta ms)) MachineDeploymentUniqueLabel of
             None \<Rightarrow> Inl (Err ''failed to compute desired MachineSet: failed to get unique identifier'')
           | Some v \<Rightarrow>
               bindR (deref ''existingMS.Spec.Replicas'' (msReplicas ms)) (\<lambda>replicas.
                 Inr (msName ms, msUID ms, mfinalizers (msMeta ms), v, replicas, tSpec (mssTemplate (msSpec ms))))))"

definition computeDesiredMachineSet ::
  "mdEnv \<Rightarrow> string \<Rightarrow> MachineDeployment \<Rightarrow> MachineSet option \<Rightarrow> MachineSet list \<Rightarrow> MachineSet res" where
  "computeDesiredMachineSet E rnd deployment existingMS oldMSs =
     bindR (desiredParts E rnd deployment existingMS oldMSs)
       (\<lambda>(name, uid, finalizers, uniqueIdentifierLabelValue, replicas, machineTemplateSpec).
         let template = mdsTemplate (mdSpec deployment);
             labelled = CloneAndAddLabel (tLabels template) MachineDeploymentUniqueLabel uniqueIdentifierLabelValue
         in bindR (case ComputeMachineSetAnnotations (mdeps E) deployment oldMSs existingMS of
                     Inl e \<Rightarrow> Inl (Wrap ''failed to compute desired MachineSet: failed to compute annotations'' e)
                   | Inr a \<Rightarrow> Inr a)
           (\<lambda>anns.
             Inr \<lparr>msMeta = emptyMeta
                    \<lparr>mname := name, mnamespace := mnamespace (mdMeta deployment), muid := uid,
                     mfinalizers := finalizers,
                     mownerReferences := [newControllerRef ''MachineDeployment'' (mdMeta deployment)],
                     mlabels := setAnn MachineDeploymentNameLabel (mdName deployment) labelled,
                     mannotations := Some anns\<rparr>,
                  msSpec =
                    \<lparr>mssClusterName = mdsClusterName (mdSpec deployment), mssReplicas = Some replicas,
                     mssMinReadySeconds = (case mdsMinReadySeconds (mdSpec deployment) of None \<Rightarrow> 0 | Some v \<Rightarrow> v),
                     mssDeletePolicy =
                       (case mdsStrategy (mdSpec deployment) of
                          None \<Rightarrow> []
                        | Some sg \<Rightarrow> (case sgRollingUpdate sg of
                             None \<Rightarrow> []
                           | Some ru \<Rightarrow> (case ruDeletePolicy ru of None \<Rightarrow> [] | Some pl \<Rightarrow> pl))),
                     mssSelector = CloneSelectorAndAddLabel (mdsSelector (mdSpec deployment))
                       MachineDeploymentUniqueLabel uniqueIdentifierLabelValue,
                     mssTemplate =
                       \<lparr>tLabels = labelled,
                        tAnnotations = Some (cloneStringMap (tAnnotations template)),
                        tSpec = machineTemplateSpec
                          \<lparr>spNodeDrainTimeout := spNodeDrainTimeout (tSpec template),
                           spNodeDeletionTimeout := spNodeDeletionTimeout (tSpec template),
                           spNodeVolumeDetachTimeout := spNodeVolumeDetachTimeout (tSpec template)\<rparr>\<rparr>\<rparr>,
                  msStatus = emptyMSStatus\<rparr>))"

text \<open>The object a server-side apply was called on holds the server's answer afterwards.\<close>

definition updateMachineSet :: "mdEnv \<Rightarrow> ptr \<Rightarrow> ptr list \<Rightarrow> (mdState, ptr) comp" where
  "updateMachineSet E p oldMSs =
     bindE (getsE (\<lambda>s. (heap s, mdObj s, calls s))) (\<lambda>(h, deployment, cs).
       case computeDesiredMachineSet E (randSuffix E cs) deployment (Some (h p)) (map h oldMSs) of
         Inl e \<Rightarrow> failE (Wrap ''failed to update MachineSet'' e)
       | Inr desired \<Rightarrow>
           bindE (wrapE ''failed to update MachineSet'' (invoke E (SSAPatchMachineSet (Some (h p)) desired))) (\<lambda>_.
             allocMS (ssaResponse E cs desired)))"

text \<open>\<open>wait.PollUntilContextTimeout\<close> with an immediate first attempt, at most \<open>pollTicks\<close> attempts.\<close>

fun pollGet :: "mdEnv \<Rightarrow> string \<Rightarrow> nat \<Rightarrow> err list \<Rightarrow> (mdState, unit) comp" where
  "pollGet E name 0 pollErrors = failE (Wrap ''failed to get the MachineSet after creation'' (Aggregate pollErrors))"
| "pollGet E name (Suc k) pollErrors =
     bindE (attemptE (invoke E (GetMachineSet name))) (\<lambda>r.
       case r of
         Inr _ \<Rightarrow> returnE ()
       | Inl e \<Rightarrow> pollGet E name k (pollErrors @ [e]))"

definition createMachineSetAndWait :: "mdEnv \<Rightarrow> ptr list \<Rightarrow> (mdState, ptr) comp" where
  "createMachineSetAndWait E oldMSs =
     bindE (getsE (\<lambda>s. (heap s, mdObj s, calls s))) (\<lambda>(h, deployment, cs).
       case computeDesiredMachineSet E (randSuffix E cs) deployment None (map h oldMSs) of
         Inl e \<Rightarrow> failE (Wrap ''failed to create new MachineSet'' e)
       | Inr desired \<Rightarrow>
           bindE (wrapE ''failed to create new MachineSet'' (invoke E (SSAPatchMachineSet None desired))) (\<lambda>_.
           bindE (allocMS (ssaResponse E cs desired)) (\<lambda>q.
           bindE (pollGet E (msName desired) (pollTicks E) []) (\<lambda>_. returnE q))))"

definition setRevision :: "ptr \<Rightarrow> (mdState, unit) comp" where
  "setRevision q = modifyE (\<lambda>s. s\<lparr>mdObj :=
     fst (SetDeploymentRevision (mdObj s) (mget (msAnnotations (heap s q)) RevisionAnnotation))\<rparr>)"

definition getNewMachineSet :: "mdEnv \<Rightarrow> ptr list \<Rightarrow> ptr list \<Rightarrow> bool \<Rightarrow> time \<Rightarrow> (mdState, ptr option) comp" where
  "getNewMachineSet E msList oldMSs createIfNotExists reconciliationTime =
     bindE (getsE (\<lambda>s. FindNewMachineSet (mdeps E) (heap s) (mdObj s) msList reconciliationTime)) (\<lambda>r.
     bindE (liftE r) (\<lambda>(matchingMS, createReason, _).
       case matchingMS of
         Some p \<Rightarrow> bindE (updateMachineSet E p oldMSs) (\<lambda>q.
                    bindE (setRevision q) (\<lambda>_. returnE (Some q)))
       | None \<Rightarrow>
           if \<not> createIfNotExists then returnE None
           else bindE (createMachineSetAndWait E oldMSs) (\<lambda>q.
                bindE (setRevision q) (\<lambda>_. returnE (Some q)))))"

definition getAllMachineSetsAndSyncRevision ::
  "mdEnv \<Rightarrow> ptr list \<Rightarrow> bool \<Rightarrow> (mdState, ptr option \<times> ptr list) comp" where
  "getAllMachineSetsAndSyncRevision E msList createIfNotExisted =
     bindE (getsE (\<lambda>s. nowAt E (calls s))) (\<lambda>reconciliationTime.
     bindE (getsE (\<lambda>s. FindOldMachineSets (mdeps E) (heap s) (mdObj s) msList reconciliationTime)) (\<lambda>r.
     bindE (liftE r) (\<lambda>(allOldMSs, sortedList).
     bindE (getNewMachineSet E sortedList allOldMSs createIfNotExisted reconciliationTime) (\<lambda>newMS.
       returnE (newMS, allOldMSs)))))"

section \<open>Proportional scaling\<close>

text \<open>
  The loop that estimates a size per MachineSet: the result is the map \<open>nameToSize\<close> and the
  replicas added so far. Reading a missing name gives zero.
\<close>

definition nts_get :: "(string \<rightharpoonup> int) \<Rightarrow> string \<Rightarrow> int" where
  "nts_get m k = (case m k of None \<Rightarrow> 0 | Some v \<Rightarrow> v)"

fun proportionLoop :: "mdDeps \<Rightarrow> MachineDeployment \<Rightarrow> int \<Rightarrow> MachineSet list \<Rightarrow> (string \<rightharpoonup> int) \<Rightarrow> int \<Rightarrow>
    ((string \<rightharpoonup> int) \<times> int) res" where
  "proportionLoop D d toAdd [] nts added = Inr (nts, added)"
| "proportionLoop D d toAdd (ms # mss) nts added =
     (case msReplicas ms of
        None \<Rightarrow> proportionLoop D d toAdd mss nts added
      | Some sz \<Rightarrow>
          if toAdd \<noteq> 0 then
            bindR (GetProportion D (Some ms) d toAdd added) (\<lambda>proportion.
              proportionLoop D d toAdd mss (nts(msName ms \<mapsto> wrap32 (sz + proportion)))
                (wrap32 (added + proportion)))
          else proportionLoop D d toAdd mss (nts(msName ms \<mapsto> sz)) added)"

text \<open>The leftover goes to the first MachineSet, whose size is then kept from going below zero.\<close>

definition addLeftover :: "int \<Rightarrow> int \<Rightarrow> string \<Rightarrow> (string \<rightharpoonup> int) \<Rightarrow> (string \<rightharpoonup> int)" where
  "addLeftover toAdd added name nts =
     (if toAdd \<noteq> 0 then
        let v = wrap32 (nts_get nts name + wrap32 (toAdd - added)) in nts(name \<mapsto> (if v < 0 then 0 else v))
      else nts)"

fun scaleAll :: "mdEnv \<Rightarrow> (string \<rightharpoonup> int) \<Rightarrow> ptr list \<Rightarrow> (mdState, unit) comp" where
  "scaleAll E nts [] = returnE ()"
| "scaleAll E nts (p # ps) =
     bindE (getsE (\<lambda>s. msName (heap s p))) (\<lambda>name.
     bindE (scaleMachineSet E p (nts_get nts name)) (\<lambda>_. scaleAll E nts ps))"

fun scaleToZero :: "mdEnv \<Rightarrow> ptr list \<Rightarrow> (mdState, unit) comp" where
  "scaleToZero E [] = returnE ()"
| "scaleToZero E (p # ps) = bindE (scaleMachineSet E p 0) (\<lambda>_. scaleToZero E ps)"

definition proportionalScale :: "mdEnv \<Rightarrow> ptr option \<Rightarrow> ptr list \<Rightarrow> (mdState, unit) comp" where
  "proportionalScale E newMS oldMSs =
     bindE (getsE (\<lambda>s. (heap s, mdObj s))) (\<lambda>(h, deployment).
       let allMSs = FilterActiveMachineSets h (map Some oldMSs @ [newMS]) in
       bindE (liftE (GetReplicaCountForMachineSets (map (\<lambda>p. Some (h p)) allMSs))) (\<lambda>totalMSReplicas.
       bindE (liftE (replicasOf deployment)) (\<lambda>n.
       bindE (liftE (if n > 0 then maxReplicas (mdeps E) deployment else Inr 0)) (\<lambda>allowedSize.
         let toAdd = wrap32 (allowedSize - totalMSReplicas);
             sortedMSs = (if toAdd > 0 then sortPtrs MachineSetsBySizeNewer h allMSs
                          else if toAdd < 0 then sortPtrs MachineSetsBySizeOlder h allMSs
                          else allMSs)
         in bindE (liftE (proportionLoop (mdeps E) deployment toAdd (map h sortedMSs) Map.empty 0)) (\<lambda>(nts, added).
              scaleAll E (case sortedMSs of [] \<Rightarrow> nts | p # _ \<Rightarrow> addLeftover toAdd added (msName (h p)) nts) sortedMSs)))))"

definition scale :: "mdEnv \<Rightarrow> ptr option \<Rightarrow> ptr list \<Rightarrow> (mdState, ptr list) comp" where
  "scale E newMS oldMSs =
     bindE (getsE (\<lambda>s. (heap s, mdObj s))) (\<lambda>(h, deployment).
       unless_nil (mdReplicas deployment) ''spec replicas for deployment is nil'' (\<lambda>n.
         let (activeOrLatest, oldMSs') = FindOneActiveOrLatest h newMS oldMSs in
         case activeOrLatest of
           Some p \<Rightarrow>
             unless_nil (msReplicas (h p)) ''spec replicas for machine set is nil'' (\<lambda>r.
               if r = n then returnE oldMSs'
               else bindE (scaleMachineSet E p n) (\<lambda>_. returnE oldMSs'))
         | None \<Rightarrow>
             bindE (liftE (IsSaturated deployment (map_option h newMS))) (\<lambda>saturated.
               if saturated then
                 bindE (scaleToZero E (FilterActiveMachineSets h (map Some oldMSs'))) (\<lambda>_. returnE oldMSs')
               else
                 bindE (liftE (IsRollingUpdate deployment)) (\<lambda>rolling.
                   if rolling then bindE (proportionalScale E newMS oldMSs') (\<lambda>_. returnE oldMSs')
                   else returnE oldMSs'))))"

definition sync :: "mdEnv \<Rightarrow> ptr list \<Rightarrow> (mdState, unit) comp" where
  "sync E msList =
     bindE (getAllMachineSetsAndSyncRevision E msList False) (\<lambda>(newMS, oldMSs).
     bindE (scale E newMS oldMSs) (\<lambda>oldMSs'.
       syncDeploymentStatus E (map Some oldMSs' @ [newMS]) newMS))"

section \<open>Cleaning up old MachineSets\<close>

fun deleteLoop :: "mdEnv \<Rightarrow> ptr list \<Rightarrow> nat \<Rightarrow> nat \<Rightarrow> (mdState, unit) comp" where
  "deleteLoop E cleanable i 0 = returnE ()"
| "deleteLoop E cleanable i (Suc k) =
     (if i \<ge> length cleanable then failE (Panic ''index out of range'')
      else
        bindE (getsE (\<lambda>s. heap s (cleanable ! i))) (\<lambda>ms.
          unless_nil (msReplicas ms) ''spec replicas for machine set is nil'' (\<lambda>r.
            if msstReplicas (msStatus ms) \<noteq> 0 \<or> r \<noteq> 0 \<or>
               mgeneration (msMeta ms) > msstObservedGeneration (msStatus ms) \<or>
               \<not> timeIsZero (mdeletionTimestamp (msMeta ms))
            then deleteLoop E cleanable (i + 1) k
            else
              bindE (attemptE (invoke E (DeleteMachineSet ms))) (\<lambda>r.
                case r of
                  Inl e \<Rightarrow> if isNotFound e then deleteLoop E cleanable (i + 1) k else failE e
                | Inr _ \<Rightarrow> deleteLoop E cleanable (i + 1) k))))"

definition cleanupDeployment :: "mdEnv \<Rightarrow> ptr list \<Rightarrow> (mdState, unit) comp" where
  "cleanupDeployment E oldMSs =
     bindE (getsE (\<lambda>s. (heap s, mdObj s))) (\<lambda>(h, deployment).
       case mdsRevisionHistoryLimit (mdSpec deployment) of
         None \<Rightarrow> returnE ()
       | Some limit \<Rightarrow>
           let cleanable = filter (\<lambda>p. timeIsZero (mdeletionTimestamp (msMeta (h p)))) oldMSs;
               diff = wrap32 (wrap32 (int (length cleanable)) - limit)
           in if diff \<le> 0 then returnE ()
              else deleteLoop E (sortPtrs MachineSetsByCreationTimestamp h cleanable) 0 (nat diff))"

definition completeAndCleanup :: "mdEnv \<Rightarrow> ptr list \<Rightarrow> (mdState, unit) comp" where
  "completeAndCleanup E oldMSs =
     bindE (getsE mdObj) (\<lambda>md.
     bindE (liftE (DeploymentComplete md (mdStatus md))) (\<lambda>complete.
       if complete then cleanupDeployment E oldMSs else returnE ()))"

section \<open>The rollout strategies\<close>

definition rolloutRolling :: "mdEnv \<Rightarrow> ptr list \<Rightarrow> (mdState, unit) comp" where
  "rolloutRolling E msList =
     bindE (getAllMachineSetsAndSyncRevision E msList True) (\<lambda>(newMSp, oldMSs).
       case newMSp of
         None \<Rightarrow> returnE ()
       | Some newMS \<Rightarrow>
           let allMSs = map Some oldMSs @ [Some newMS] in
           bindE (reconcileNewMachineSet E allMSs newMS) (\<lambda>_.
           bindE (syncDeploymentStatus E allMSs (Some newMS)) (\<lambda>_.
           bindE (reconcileOldMachineSets E allMSs oldMSs newMS) (\<lambda>_.
           bindE (syncDeploymentStatus E allMSs (Some newMS)) (\<lambda>_.
             completeAndCleanup E oldMSs)))))"

definition reconcileNewMachineSetOnDelete :: "mdEnv \<Rightarrow> ptr option list \<Rightarrow> ptr \<Rightarrow> (mdState, unit) comp" where
  "reconcileNewMachineSetOnDelete E allMSs newMS =
     bindE (getsE (\<lambda>s. heap s newMS)) (\<lambda>ms.
     bindE (case mlookup (msAnnotations ms) DisableMachineCreateAnnotation of
              None \<Rightarrow> returnE ()
            | Some _ \<Rightarrow>
                bindE (invoke E (NewPatchHelper (msName ms))) (\<lambda>_.
                  let ms' = ms\<lparr>msMeta := (msMeta ms)\<lparr>mannotations :=
                              map_option (\<lambda>f. f(DisableMachineCreateAnnotation := None)) (msAnnotations ms)\<rparr>\<rparr>
                  in bindE (setMS newMS ms') (\<lambda>_. invoke E (PatchMachineSet ms ms'))))
       (\<lambda>_. reconcileNewMachineSet E allMSs newMS))"

text \<open>First loop: old MachineSets may not create machines any more and shrink to what is not deleting.\<close>

definition disableCreate :: "mdEnv \<Rightarrow> ptr \<Rightarrow> (mdState, unit) comp" where
  "disableCreate E p =
     bindE (getsE (\<lambda>s. heap s p)) (\<lambda>ms0.
       let ms = ms0\<lparr>msMeta := (msMeta ms0)\<lparr>mannotations :=
                   Some (case msAnnotations ms0 of None \<Rightarrow> Map.empty | Some f \<Rightarrow> f)\<rparr>\<rparr> in
       bindE (setMS p ms) (\<lambda>_.
         case mlookup (msAnnotations ms) DisableMachineCreateAnnotation of
           Some _ \<Rightarrow> returnE ()
         | None \<Rightarrow>
             bindE (invoke E (NewPatchHelper (msName ms))) (\<lambda>_.
               let ms' = ms\<lparr>msMeta := (msMeta ms)\<lparr>mannotations :=
                           setAnn DisableMachineCreateAnnotation ''true'' (msAnnotations ms)\<rparr>\<rparr>
               in bindE (setMS p ms') (\<lambda>_. invoke E (PatchMachineSet ms ms')))))"

fun onDeleteFirstLoop :: "mdEnv \<Rightarrow> ptr list \<Rightarrow> int \<Rightarrow> (mdState, int) comp" where
  "onDeleteFirstLoop E [] scaleDownAmount = returnE scaleDownAmount"
| "onDeleteFirstLoop E (p # ps) scaleDownAmount =
     bindE (getsE (\<lambda>s. msReplicas (heap s p))) (\<lambda>ro.
       case ro of
         None \<Rightarrow> onDeleteFirstLoop E ps scaleDownAmount
       | Some replicas \<Rightarrow>
         if replicas \<le> 0 then onDeleteFirstLoop E ps scaleDownAmount
         else
           bindE (disableCreate E p) (\<lambda>_.
           bindE (getsE (\<lambda>s. (heap s p, calls s))) (\<lambda>(ms, cs).
             case LabelSelectorAsMap E (mssSelector (msSpec ms)) of
               Inl _ \<Rightarrow> onDeleteFirstLoop E ps scaleDownAmount
             | Inr selectorMap \<Rightarrow>
                 bindE (wrapE ''failed to list machines'' (invoke E (ListMachines (mnamespace (msMeta ms)) selectorMap))) (\<lambda>_.
                   let machines = listedMachines E cs;
                       totalMachineCount = wrap32 (int (length machines));
                       updatedReplicaCount = wrap32 (totalMachineCount - GetDeletingMachineCount machines);
                       deleted = wrap32 (replicas - updatedReplicaCount)
                   in if updatedReplicaCount < 0 then failE (Err ''negative updated replica count'')
                      else
                        bindE (scaleMachineSet E p updatedReplicaCount) (\<lambda>_.
                          onDeleteFirstLoop E ps (wrap32 (scaleDownAmount - deleted)))))))"

fun onDeleteSecondLoop :: "mdEnv \<Rightarrow> ptr list \<Rightarrow> int \<Rightarrow> (mdState, unit) comp" where
  "onDeleteSecondLoop E [] scaleDownAmount = returnE ()"
| "onDeleteSecondLoop E (p # ps) scaleDownAmount =
     (if scaleDownAmount \<le> 0 then returnE ()
      else
        bindE (getsE (\<lambda>s. msReplicas (heap s p))) (\<lambda>ro.
          case ro of
            None \<Rightarrow> onDeleteSecondLoop E ps scaleDownAmount
          | Some r \<Rightarrow>
              if r \<le> 0 then onDeleteSecondLoop E ps scaleDownAmount
              else if r \<ge> scaleDownAmount then
                bindE (scaleMachineSet E p (wrap32 (r - scaleDownAmount))) (\<lambda>_. onDeleteSecondLoop E ps 0)
              else
                bindE (scaleMachineSet E p 0) (\<lambda>_. onDeleteSecondLoop E ps (wrap32 (scaleDownAmount - r)))))"

definition reconcileOldMachineSetsOnDelete :: "mdEnv \<Rightarrow> ptr list \<Rightarrow> ptr option list \<Rightarrow> (mdState, unit) comp" where
  "reconcileOldMachineSetsOnDelete E oldMSs allMSs =
     bindE (getsE (\<lambda>s. (heap s, mdObj s))) (\<lambda>(h, deployment).
       unless_nil (mdReplicas deployment) ''spec replicas for MachineDeployment is nil'' (\<lambda>n.
         bindE (liftE (GetReplicaCountForMachineSets (derefAll h allMSs))) (\<lambda>totalReplicas.
         bindE (onDeleteFirstLoop E oldMSs (wrap32 (totalReplicas - n))) (\<lambda>scaleDownAmount.
           onDeleteSecondLoop E oldMSs scaleDownAmount))))"

definition rolloutOnDelete :: "mdEnv \<Rightarrow> ptr list \<Rightarrow> (mdState, unit) comp" where
  "rolloutOnDelete E msList =
     bindE (getAllMachineSetsAndSyncRevision E msList True) (\<lambda>(newMSp, oldMSs).
       case newMSp of
         None \<Rightarrow> returnE ()
       | Some newMS \<Rightarrow>
           let allMSs = map Some oldMSs @ [Some newMS] in
           bindE (reconcileNewMachineSetOnDelete E allMSs newMS) (\<lambda>_.
           bindE (syncDeploymentStatus E allMSs (Some newMS)) (\<lambda>_.
           bindE (reconcileOldMachineSetsOnDelete E oldMSs allMSs) (\<lambda>_.
           bindE (syncDeploymentStatus E allMSs (Some newMS)) (\<lambda>_.
             completeAndCleanup E oldMSs)))))"

section \<open>What scaling changes\<close>

lemma invoke_state: "invoke E c s = (r, s') \<Longrightarrow> s' = s\<lparr>calls := calls s @ [c]\<rparr>"
  by (auto simp: invoke_def split: option.splits)

lemma withReplicas_simps [simp]:
  "msReplicas (withReplicas n ms) = Some n" "msStatus (withReplicas n ms) = msStatus ms"
  "msMeta (withReplicas n ms) = msMeta ms"
  by (simp_all add: withReplicas_def)

lemma repl_Some: "msReplicas ms = Some n \<Longrightarrow> repl ms = n"
  by (simp add: repl_def)

text \<open>
  Scaling touches one MachineSet: its replicas become the requested number (or stay, if the call
  failed early) and its annotations change; identity, status and everything else stay.
\<close>

definition sameIdentity :: "MachineSet \<Rightarrow> MachineSet \<Rightarrow> bool" where
  "sameIdentity a b \<longleftrightarrow> msStatus a = msStatus b \<and> msName a = msName b \<and> msUID a = msUID b \<and> msCreated a = msCreated b"

lemma sameIdentity_refl [simp]: "sameIdentity a a"
  by (simp add: sameIdentity_def)

lemma sameIdentity_trans: "sameIdentity a b \<Longrightarrow> sameIdentity b c \<Longrightarrow> sameIdentity a c"
  by (simp add: sameIdentity_def)

lemma scaleMachineSet_effect:
  assumes "scaleMachineSet E p k s = (r, s')"
  shows "mdObj s' = mdObj s" "nextPtr s' = nextPtr s" "\<And>q. q \<noteq> p \<Longrightarrow> heap s' q = heap s q"
    "sameIdentity (heap s' p) (heap s p)"
    "msReplicas (heap s' p) = msReplicas (heap s p) \<or> msReplicas (heap s' p) = Some k"
    "r = Inr () \<Longrightarrow> msReplicas (heap s' p) = Some k"
proof -
  have "mdObj s' = mdObj s \<and> nextPtr s' = nextPtr s \<and> (\<forall>q. q \<noteq> p \<longrightarrow> heap s' q = heap s q) \<and>
    sameIdentity (heap s' p) (heap s p) \<and>
    (msReplicas (heap s' p) = msReplicas (heap s p) \<or> msReplicas (heap s' p) = Some k) \<and>
    (r = Inr () \<longrightarrow> msReplicas (heap s' p) = Some k)"
    using assms
    by (auto simp: scaleMachineSet_def Let_def bindE_def setMS_def sameIdentity_def dest!: invoke_state
        split: option.splits sum.splits if_splits prod.splits)
  then show "mdObj s' = mdObj s" "nextPtr s' = nextPtr s" "\<And>q. q \<noteq> p \<Longrightarrow> heap s' q = heap s q"
    "sameIdentity (heap s' p) (heap s p)"
    "msReplicas (heap s' p) = msReplicas (heap s p) \<or> msReplicas (heap s' p) = Some k"
    "r = Inr () \<Longrightarrow> msReplicas (heap s' p) = Some k"
    by auto
qed

text \<open>
  The effect of a loop over old MachineSets: only they change, and only by shrinking to a
  non-negative size.
\<close>

definition shrunk :: "store \<Rightarrow> store \<Rightarrow> ptr set \<Rightarrow> bool" where
  "shrunk h h' P \<longleftrightarrow> (\<forall>q. q \<notin> P \<longrightarrow> h' q = h q) \<and> (\<forall>q. sameIdentity (h' q) (h q)) \<and>
     (\<forall>q \<in> P. okMS (h' q) \<and> repl (h' q) \<le> repl (h q))"

lemma okMS_same: "okMS b \<Longrightarrow> sameIdentity a b \<Longrightarrow> msReplicas a = Some n \<Longrightarrow> 0 \<le> n \<Longrightarrow> okMS a"
  by (simp add: okMS_def sameIdentity_def repl_def)

lemma shrunk_refl: "\<forall>q \<in> P. okMS (h q) \<Longrightarrow> shrunk h h P"
  by (simp add: shrunk_def)

lemma shrunk_trans: "shrunk h h1 P \<Longrightarrow> shrunk h1 h2 P \<Longrightarrow> shrunk h h2 P"
  unfolding shrunk_def by (metis order_trans sameIdentity_trans)

lemma shrunk_insert:
  assumes "shrunk h1 h2 P" and "p \<notin> P" and "\<And>q. q \<noteq> p \<Longrightarrow> h1 q = h q"
    and "sameIdentity (h1 p) (h p)" and "okMS (h1 p)" and "repl (h1 p) \<le> repl (h p)"
  shows "shrunk h h2 (insert p P)"
proof -
  have "h2 p = h1 p" using assms(1,2) by (simp add: shrunk_def)
  moreover have "sameIdentity (h2 q) (h q)" for q
    using assms(1,3,4) calculation unfolding shrunk_def by (cases "q = p") (simp, metis)
  moreover have "okMS (h2 q) \<and> repl (h2 q) \<le> repl (h q)" if "q \<in> P" for q
    using that assms(1-3) unfolding shrunk_def by metis
  ultimately show ?thesis
    using assms unfolding shrunk_def by auto
qed

lemma scale_shrunk:
  assumes "scaleMachineSet E p k s = (r, s')" and "okMS (heap s p)" and "0 \<le> k" and "k \<le> repl (heap s p)"
  shows "shrunk (heap s) (heap s') {p}" and "k \<le> repl (heap s' p)"
    and "r = Inr () \<Longrightarrow> repl (heap s' p) = k" and "mdObj s' = mdObj s"
proof -
  note e = scaleMachineSet_effect [OF assms(1)]
  have d: "msReplicas (heap s p) = Some (repl (heap s p))"
    using okMS_deref [OF assms(2)] .
  consider "msReplicas (heap s' p) = Some (repl (heap s p))" | "msReplicas (heap s' p) = Some k"
    using e(5) d by auto
  then have "okMS (heap s' p) \<and> repl (heap s' p) \<le> repl (heap s p) \<and> k \<le> repl (heap s' p)"
  proof cases
    case 1
    then show ?thesis
      using okMS_same [OF assms(2) e(4) 1] assms(2,4) by (simp add: okMS_nonneg repl_Some)
  next
    case 2
    then show ?thesis
      using okMS_same [OF assms(2) e(4) 2 assms(3)] assms(4) by (simp add: repl_Some)
  qed
  then show "shrunk (heap s) (heap s') {p}" "k \<le> repl (heap s' p)"
    using e(3,4) unfolding shrunk_def by (metis insertCI sameIdentity_refl singletonD)+
  show "r = Inr () \<Longrightarrow> repl (heap s' p) = k" using e(6) repl_Some by blast
  show "mdObj s' = mdObj s" by (rule e(1))
qed

lemma shrunk_step:
  assumes "shrunk h h1 {p}" and "p \<notin> P" and "shrunk h1 h2 P"
  shows "shrunk h h2 (insert p P)" "h2 p = h1 p" "\<And>q. q \<in> P \<Longrightarrow> h1 q = h q"
proof -
  have p: "okMS (h1 p)" "repl (h1 p) \<le> repl (h p)" "sameIdentity (h1 p) (h p)" "\<And>q. q \<noteq> p \<Longrightarrow> h1 q = h q"
    using assms(1) by (auto simp: shrunk_def)
  then show "shrunk h h2 (insert p P)"
    using shrunk_insert [OF assms(3,2)] by blast
  show "h2 p = h1 p" using assms(2,3) by (simp add: shrunk_def)
  show "\<And>q. q \<in> P \<Longrightarrow> h1 q = h q" using p(4) assms(2) by metis
qed

text \<open>A run that scales one MachineSet and then goes on, or stops there with the error.\<close>

lemma scale_then:
  assumes "bindE (scaleMachineSet E p k) (\<lambda>_. rest) s = (r, s')"
    and "okMS (heap s p)" and "0 \<le> k" and "k \<le> repl (heap s p)"
  obtains s1 where "shrunk (heap s) (heap s1) {p}" "k \<le> repl (heap s1 p)" "mdObj s1 = mdObj s"
    "s' = s1 \<or> rest s1 = (r, s')"
  using assms(1)
proof (cases rule: bindE_cases)
  case (fail e)
  with scale_shrunk [OF fail(1) assms(2-4)] that [of s'] show ?thesis by auto
next
  case (cont x s1)
  with scale_shrunk [OF cont(1) assms(2-4)] that [of s1] show ?thesis by auto
qed

text \<open>What the loops assume of the MachineSets they scale: proper counts, no scale-down under way.\<close>

definition settled :: "MachineSet \<Rightarrow> bool" where
  "settled ms \<longleftrightarrow> okMS ms \<and> msAvailable ms \<le> repl ms \<and> repl ms < 2 ^ 31"

lemma shrunk_keep:
  "shrunk h h' P \<Longrightarrow> p \<in> P \<Longrightarrow> msAvailable (h' p) = msAvailable (h p)"
  by (auto simp: shrunk_def sameIdentity_def)

lemma settled_shrunk_id: "\<forall>q \<in> P. settled (h q) \<Longrightarrow> shrunk h h P"
  by (simp add: shrunk_def settled_def)

lemma cleanupLoop_shrunk:
  assumes "cleanupLoop E m ps t s = (r, s')" and "distinct ps"
    and "\<forall>p \<in> set ps. settled (heap s p)" and "0 \<le> t" and "m < 2 ^ 31"
  shows "shrunk (heap s) (heap s') (set ps) \<and> mdObj s' = mdObj s \<and>
    (\<forall>p \<in> set ps. msAvailable (heap s p) \<le> repl (heap s' p))"
  using assms
proof (induction ps arbitrary: s t)
  case (Cons p ps)
  let ?ms = "heap s p"
  have ok: "okMS ?ms" "msAvailable ?ms \<le> repl ?ms" "repl ?ms < 2 ^ 31" "0 \<le> msAvailable ?ms"
    using Cons.prems(3) by (auto simp: okMS_nonneg settled_def)
  have d: "msReplicas ?ms = Some (repl ?ms)" using okMS_deref [OF ok(1)] .
  have pn: "p \<notin> set ps" "distinct ps" using Cons.prems(2) by auto
  have go: ?case if h1: "shrunk (heap s) (heap s1) {p}" "msAvailable ?ms \<le> repl (heap s1 p)" "mdObj s1 = mdObj s"
    and h2: "s' = s1 \<or> cleanupLoop E m ps t1 s1 = (r, s')" and "0 \<le> t1" for s1 t1
  proof -
    have same: "\<And>q. q \<in> set ps \<Longrightarrow> heap s1 q = heap s q"
      using h1(1) pn(1) by (auto simp: shrunk_def)
    have ih: "shrunk (heap s1) (heap s') (set ps)" "mdObj s' = mdObj s1"
        "\<forall>q \<in> set ps. msAvailable (heap s1 q) \<le> repl (heap s' q)"
      using h2 Cons.IH [of t1 s1] pn Cons.prems(3,5) same \<open>0 \<le> t1\<close>
      by (auto simp: settled_shrunk_id settled_def)
    from shrunk_step [OF h1(1) pn(1) ih(1)] show ?thesis
      using ih(2,3) h1(2,3) same by auto
  qed
  have self: "shrunk (heap s) (heap s) {p}" using ok(1) by (simp add: shrunk_def)
  show ?case
  proof (cases "t \<ge> m \<or> repl ?ms = 0 \<or> repl ?ms = msAvailable ?ms")
    case True
    then have "s' = s \<or> cleanupLoop E m ps t s = (r, s')"
      using Cons.prems(1) d by (auto simp: Let_def split: if_splits)
    then show ?thesis using go [OF self] ok(2) Cons.prems(4) by blast
  next
    case False
    define c where "c = min (m - t) (repl ?ms - msAvailable ?ms)"
    have in32s: "in32 (m - t)" "in32 (repl ?ms - msAvailable ?ms)" "in32 (repl ?ms - c)" "in32 (t + c)"
      and c: "0 < c" "msAvailable ?ms \<le> repl ?ms - c" "0 \<le> t + c" "repl ?ms - c \<le> repl ?ms"
      using ok False Cons.prems(4,5) by (auto simp: in32_def c_def min_def)
    have run: "bindE (scaleMachineSet E p (repl ?ms - c)) (\<lambda>_. cleanupLoop E m ps (t + c)) s = (r, s')"
      using Cons.prems(1) d False in32s c by (simp add: Let_def c_def [symmetric])
    have "0 \<le> repl ?ms - c" using c ok by simp
    from run ok(1) this c(4) obtain s1 where "shrunk (heap s) (heap s1) {p}" "repl ?ms - c \<le> repl (heap s1 p)"
      "mdObj s1 = mdObj s" "s' = s1 \<or> cleanupLoop E m ps (t + c) s1 = (r, s')"
      by (rule scale_then)
    then show ?thesis using go c(2,3) by force
  qed
qed (simp add: shrunk_def)

lemma scaleDownLoop_bound:
  assumes "scaleDownLoop E T ps t s = (r, s')" and "distinct ps"
    and "\<forall>p \<in> set ps. okMS (heap s p) \<and> repl (heap s p) < 2 ^ 31" and "0 \<le> t" and "t \<le> T" and "T < 2 ^ 31"
  shows "shrunk (heap s) (heap s') (set ps) \<and> mdObj s' = mdObj s \<and>
    (\<Sum>p \<leftarrow> ps. repl (heap s p) - repl (heap s' p)) \<le> T - t"
  using assms
proof (induction ps arbitrary: s t)
  case (Cons p ps)
  let ?ms = "heap s p"
  have ok: "okMS ?ms" "repl ?ms < 2 ^ 31" "0 \<le> repl ?ms"
    using Cons.prems(3) by (auto simp: okMS_nonneg)
  have d: "msReplicas ?ms = Some (repl ?ms)" using okMS_deref [OF ok(1)] .
  have pn: "p \<notin> set ps" "distinct ps" using Cons.prems(2) by auto
  have go: ?case if h1: "shrunk (heap s) (heap s1) {p}" "repl ?ms - c \<le> repl (heap s1 p)" "mdObj s1 = mdObj s"
    and h2: "s' = s1 \<or> scaleDownLoop E T ps (t + c) s1 = (r, s')" and c: "0 \<le> c" "t + c \<le> T" for s1 c
  proof -
    have same: "\<And>q. q \<in> set ps \<Longrightarrow> heap s1 q = heap s q"
      using h1(1) pn(1) by (auto simp: shrunk_def)
    have ih: "shrunk (heap s1) (heap s') (set ps)" "mdObj s' = mdObj s1"
        "(\<Sum>q \<leftarrow> ps. repl (heap s1 q) - repl (heap s' q)) \<le> T - (t + c)"
      using h2 Cons.IH [of "t + c" s1] pn Cons.prems(3,4,6) same c by (auto simp: shrunk_refl)
    have "(\<Sum>q \<leftarrow> ps. repl (heap s q) - repl (heap s' q)) = (\<Sum>q \<leftarrow> ps. repl (heap s1 q) - repl (heap s' q))"
      using same by (intro arg_cong [where f = sum_list] map_cong) auto
    with shrunk_step [OF h1(1) pn(1) ih(1)] show ?thesis
      using ih(2,3) h1(2,3) by auto
  qed
  have self: "shrunk (heap s) (heap s) {p}" using ok(1) by (simp add: shrunk_def)
  show ?case
  proof (cases "t \<ge> T \<or> repl ?ms = 0")
    case True
    then have "s' = s \<or> scaleDownLoop E T ps (t + 0) s = (r, s')"
      using Cons.prems(1) d by (auto simp: Let_def split: if_splits)
    then show ?thesis using go [OF self, of 0] Cons.prems(5) by simp
  next
    case False
    define c where "c = min (repl ?ms) (T - t)"
    have in32s: "in32 (T - t)" "in32 (repl ?ms - c)" "in32 (t + c)"
      and c: "0 \<le> c" "t + c \<le> T" "repl ?ms - c \<le> repl ?ms" "0 \<le> repl ?ms - c"
      using ok False Cons.prems(4-6) by (auto simp: in32_def c_def min_def)
    have run: "bindE (scaleMachineSet E p (repl ?ms - c)) (\<lambda>_. scaleDownLoop E T ps (t + c)) s = (r, s')"
      using Cons.prems(1) d False in32s c by (simp add: Let_def c_def [symmetric])
    from run ok(1) c(4,3) obtain s1 where "shrunk (heap s) (heap s1) {p}" "repl ?ms - c \<le> repl (heap s1 p)"
      "mdObj s1 = mdObj s" "s' = s1 \<or> scaleDownLoop E T ps (t + c) s1 = (r, s')"
      by (rule scale_then)
    then show ?thesis using go c(1,2) by blast
  qed
qed (simp add: shrunk_def)

section \<open>Availability during a rolling update\<close>

text \<open>
  The machines of a MachineSet that stay available whatever happens next: it deletes unavailable
  machines first, so no fewer than the smaller of its available machines and its replicas.
\<close>

definition kept :: "MachineSet \<Rightarrow> int" where
  "kept ms = min (msAvailable ms) (repl ms)"

lemma kept_loss:
  assumes "\<forall>p \<in> set ps. msAvailable (h p) \<le> repl (h1 p)"
    and "\<forall>p \<in> set ps. msAvailable (h2 p) = msAvailable (h p)"
    and "\<forall>p \<in> set ps. repl (h2 p) \<le> repl (h1 p)"
  shows "(\<Sum>p \<leftarrow> ps. msAvailable (h p)) - (\<Sum>p \<leftarrow> ps. repl (h1 p) - repl (h2 p)) \<le> (\<Sum>p \<leftarrow> ps. kept (h2 p))"
  using assms by (induction ps) (auto simp: kept_def min_def)

lemma sum_kept_settled: "\<forall>p \<in> set ps. settled (h p) \<Longrightarrow> (\<Sum>p \<leftarrow> ps. kept (h p)) = (\<Sum>p \<leftarrow> ps. msAvailable (h p))"
  by (induction ps) (auto simp: kept_def settled_def min_def)

lemma derefAll_Some [simp]: "derefAll h (map Some ps) = map Some (map h ps)"
  "derefAll h (map Some ps @ [Some q]) = map Some (map h (ps @ [q]))"
  by (simp_all add: derefAll_def)

lemma settled_sums:
  assumes "\<forall>p \<in> set ps. settled (h p)"
  shows "0 \<le> (\<Sum>p \<leftarrow> ps. msAvailable (h p))" "(\<Sum>p \<leftarrow> ps. msAvailable (h p)) \<le> (\<Sum>p \<leftarrow> ps. repl (h p))"
  using assms by (auto intro!: sum_list_nonneg sum_list_mono simp: settled_def okMS_nonneg)

lemma scaleDown_keeps_available:
  assumes "scaleDownOldMachineSetsForRollingUpdate E (map Some ps @ [Some nw]) ps s = (r, s')"
    and "rollingParams (mdeps E) (mdObj s) n sg u" and "MaxUnavailable (mdeps E) (mdObj s) = Inr mu"
    and "distinct ps" and "nw \<notin> set ps" and "\<forall>p \<in> set ps. settled (heap s p)" and "okMS (heap s nw)"
    and "(\<Sum>p \<leftarrow> ps. repl (heap s p)) + msAvailable (heap s nw) < 2 ^ 31"
  shows "shrunk (heap s) (heap s') (set ps) \<and> mdObj s' = mdObj s \<and>
    min ((\<Sum>p \<leftarrow> ps. msAvailable (heap s p)) + msAvailable (heap s nw)) (n - mu)
      \<le> (\<Sum>p \<leftarrow> ps. kept (heap s' p)) + msAvailable (heap s nw)"
proof -
  let ?A = "(\<Sum>p \<leftarrow> ps. msAvailable (heap s p)) + msAvailable (heap s nw)"
  have n: "mdReplicas (mdObj s) = Some n" "0 \<le> n" "n < 2 ^ 31" and mu: "0 \<le> mu" "mu \<le> n"
    using assms(2,3) MaxUnavailable_bounds [OF assms(2)] by (auto simp: rollingParams_def)
  have nn: "0 \<le> msAvailable (heap s nw)" using assms(7) by (rule okMS_nonneg)
  note sums = settled_sums [OF assms(6)]
  have A: "0 \<le> ?A" "?A < 2 ^ 31" using sums nn assms(8) by auto
  have av: "GetAvailableReplicaCountForMachineSets (map Some (map (heap s) (ps @ [nw]))) = Inr ?A"
    using GetAvailable_exact [of "map (heap s) (ps @ [nw])"] assms(6,7) A
    by (auto simp: settled_def comp_def)
  have in32s: "in32 (n - mu)" "in32 (?A - (n - mu))" using n mu A by (auto simp: in32_def)
  show ?thesis
  proof (cases "?A \<le> n - mu")
    case True
    then have "s' = s"
      using assms(1) n(1) assms(3) av in32s
      by (simp add: scaleDownOldMachineSetsForRollingUpdate_def Let_def del: map_append)
    then show ?thesis
      using assms(6) sum_kept_settled [OF assms(6)] by (auto simp: shrunk_def settled_def)
  next
    case False
    let ?T = "?A - (n - mu)" and ?so = "sortPtrs MachineSetsByCreationTimestamp (heap s) ps"
    have "scaleDownLoop E ?T ?so 0 s = (r, s')"
      using assms(1) n(1) assms(3) av in32s False
      by (simp add: scaleDownOldMachineSetsForRollingUpdate_def Let_def del: map_append)
    from scaleDownLoop_bound [OF this] assms(4,6) A n mu False
    have sh: "shrunk (heap s) (heap s') (set ps)" "mdObj s' = mdObj s"
      and loss: "(\<Sum>p \<leftarrow> ?so. repl (heap s p) - repl (heap s' p)) \<le> ?T"
      by (auto simp: settled_def)
    have "(\<Sum>p \<leftarrow> ?so. repl (heap s p) - repl (heap s' p)) = (\<Sum>p \<leftarrow> ps. repl (heap s p) - repl (heap s' p))"
      by (simp only: sum_mset_sum_list [symmetric] mset_map sortPtrs_simps)
    moreover have "(\<Sum>p \<leftarrow> ps. msAvailable (heap s p)) - (\<Sum>p \<leftarrow> ps. repl (heap s p) - repl (heap s' p)) \<le>
        (\<Sum>p \<leftarrow> ps. kept (heap s' p))"
      using assms(6) sh(1) by (intro kept_loss) (auto simp: settled_def shrunk_def sameIdentity_def)
    ultimately show ?thesis
      using sh loss by auto
  qed
qed

lemma sum_list_mset_cong: "mset xs = mset ys \<Longrightarrow> (\<Sum>x \<leftarrow> xs. f x) = (\<Sum>x \<leftarrow> ys. f x :: int)"
  by (metis mset_map sum_mset_sum_list)

lemma cleanup_settled:
  assumes "shrunk (heap s) (heap s1) P" and "\<forall>p \<in> P. settled (heap s p)"
    and "\<forall>p \<in> P. msAvailable (heap s p) \<le> repl (heap s1 p)"
  shows "\<forall>p \<in> P. settled (heap s1 p)"
  using assms by (fastforce simp: shrunk_def settled_def sameIdentity_def)

lemma cleanupUnhealthy_keeps:
  assumes "cleanupUnhealthyReplicas E ps m s = (r, s')" and "distinct ps"
    and "\<forall>p \<in> set ps. settled (heap s p)" and "m < 2 ^ 31"
  shows "shrunk (heap s) (heap s') (set ps) \<and> mdObj s' = mdObj s \<and> (\<forall>p \<in> set ps. settled (heap s' p)) \<and>
    (\<forall>ps' k. r = Inr (ps', k) \<longrightarrow> mset ps' = mset ps)"
proof -
  let ?so = "sortPtrs MachineSetsByCreationTimestamp (heap s) ps"
  obtain r1 where loop: "cleanupLoop E m ?so 0 s = (r1, s')"
    and r: "\<forall>ps' k. r = Inr (ps', k) \<longrightarrow> ps' = ?so"
    using assms(1) by (auto simp: cleanupUnhealthyReplicas_def bindE_def split: prod.splits sum.splits)
  from cleanupLoop_shrunk [OF loop] assms
  have c: "shrunk (heap s) (heap s') (set ps)" "mdObj s' = mdObj s"
    "\<forall>p \<in> set ps. msAvailable (heap s p) \<le> repl (heap s' p)" by auto
  then show ?thesis
    using cleanup_settled [OF c(1) assms(3) c(3)] r by auto
qed

lemma reconcileOld_keeps_available:
  assumes "reconcileOldMachineSets E (map Some ps @ [Some nw]) ps nw s = (r, s')"
    and "rollingParams (mdeps E) (mdObj s) n sg u" and "MaxUnavailable (mdeps E) (mdObj s) = Inr mu"
    and "distinct ps" and "nw \<notin> set ps" and "\<forall>p \<in> set ps. settled (heap s p)" and "okMS (heap s nw)"
    and "(\<Sum>p \<leftarrow> ps. repl (heap s p)) + repl (heap s nw) + msAvailable (heap s nw) < 2 ^ 31"
  shows "shrunk (heap s) (heap s') (set ps) \<and> mdObj s' = mdObj s \<and>
    min ((\<Sum>p \<leftarrow> ps. msAvailable (heap s p)) + msAvailable (heap s nw)) (n - mu)
      \<le> (\<Sum>p \<leftarrow> ps. kept (heap s' p)) + msAvailable (heap s nw)"
proof -
  have n: "mdReplicas (mdObj s) = Some n" "0 \<le> n" "n < 2 ^ 31" and mu: "0 \<le> mu" "mu \<le> n"
    using assms(2,3) MaxUnavailable_bounds [OF assms(2)] by (auto simp: rollingParams_def)
  have nw: "0 \<le> repl (heap s nw)" "0 \<le> msAvailable (heap s nw)" "msReplicas (heap s nw) = Some (repl (heap s nw))"
    using assms(7) okMS_deref by (auto simp: okMS_nonneg)
  have id: ?thesis if "s' = s"
    using that assms(6) sum_kept_settled [OF assms(6)] by (auto simp: shrunk_def settled_def)
  define m where "m = (\<Sum>p \<leftarrow> ps @ [nw]. repl (heap s p)) - (n - mu) - (repl (heap s nw) - msAvailable (heap s nw))"
  note sums = settled_sums [OF assms(6)]
  have in32s: "in32 (n - mu)" "in32 ((\<Sum>p \<leftarrow> ps @ [nw]. repl (heap s p)) - (n - mu))"
      "in32 (repl (heap s nw) - msAvailable (heap s nw))" "in32 m" and m: "m < 2 ^ 31"
    using n mu nw sums assms(8) by (auto simp: in32_def m_def)
  have cnt: "GetReplicaCountForMachineSets (map Some (map (heap s) ps)) = Inr (\<Sum>p \<leftarrow> ps. repl (heap s p))"
      "GetReplicaCountForMachineSets (map Some (map (heap s) (ps @ [nw]))) = Inr (\<Sum>p \<leftarrow> ps @ [nw]. repl (heap s p))"
    using GetReplicaCount_exact [of "map (heap s) ps"] GetReplicaCount_exact [of "map (heap s) (ps @ [nw])"]
      assms(6,7,8) nw by (auto simp: settled_def comp_def)
  show ?thesis
  proof (cases "(\<Sum>p \<leftarrow> ps. repl (heap s p)) = 0 \<or> m \<le> 0")
    case True
    then have "s' = s"
      using assms(1) n(1) nw(3) assms(3) cnt in32s
      by (auto simp: reconcileOldMachineSets_def Let_def m_def [symmetric] simp del: map_append split: if_splits)
    then show ?thesis by (rule id)
  next
    case False
    then have "bindE (cleanupUnhealthyReplicas E ps m) (\<lambda>(ps', c).
        bindE (scaleDownOldMachineSetsForRollingUpdate E (map Some ps' @ [Some nw]) ps') (\<lambda>_. returnE ())) s = (r, s')"
      using assms(1) n(1) nw(3) assms(3) cnt in32s
      by (auto simp: reconcileOldMachineSets_def Let_def m_def [symmetric] simp del: map_append split: if_splits)
    then show ?thesis
    proof (cases rule: bindE_cases)
      case (fail e)
      have c: "shrunk (heap s) (heap s') (set ps)" "mdObj s' = mdObj s" "\<forall>p \<in> set ps. settled (heap s' p)"
        using cleanupUnhealthy_keeps [OF fail(1) assms(4,6) m] by auto
      have "(\<Sum>p \<leftarrow> ps. kept (heap s' p)) = (\<Sum>p \<leftarrow> ps. msAvailable (heap s p))"
        using sum_kept_settled [OF c(3)] shrunk_keep [OF c(1)] by (metis (no_types, lifting) map_eq_conv)
      with c show ?thesis by simp
    next
      case (cont x s1)
      obtain ps' k where x: "x = (ps', k)" by fastforce
      have c: "shrunk (heap s) (heap s1) (set ps)" "mdObj s1 = mdObj s" "\<forall>p \<in> set ps. settled (heap s1 p)"
          "mset ps' = mset ps"
        using cleanupUnhealthy_keeps [OF cont(1) assms(4,6) m] x by auto
      then have ps': "set ps' = set ps" "distinct ps'"
        using assms(4) mset_eq_setD mset_eq_imp_distinct_iff by blast+
      have nw1: "heap s1 nw = heap s nw" using c(1) assms(5) by (simp add: shrunk_def)
      have av: "(\<Sum>p \<leftarrow> ps'. msAvailable (heap s1 p)) = (\<Sum>p \<leftarrow> ps. msAvailable (heap s p))"
        using sum_list_mset_cong [OF c(4)] shrunk_keep [OF c(1)] by (metis (no_types, lifting) map_eq_conv)
      have "(\<Sum>p \<leftarrow> ps'. repl (heap s1 p)) \<le> (\<Sum>p \<leftarrow> ps. repl (heap s p))"
        using c(1) by (subst sum_list_mset_cong [OF c(4)]) (auto intro!: sum_list_mono simp: shrunk_def)
      with assms(8) nw have bound: "(\<Sum>p \<leftarrow> ps'. repl (heap s1 p)) + msAvailable (heap s1 nw) < 2 ^ 31"
        by (simp add: nw1)
      obtain r2 where "scaleDownOldMachineSetsForRollingUpdate E (map Some ps' @ [Some nw]) ps' s1 = (r2, s')"
        using cont(2) by (auto simp: x bindE_def split: prod.splits sum.splits)
      from scaleDown_keeps_available [OF this, of n sg u mu] assms(2,3,5,7) c(2,3) ps' bound
      have f: "shrunk (heap s1) (heap s') (set ps)" "mdObj s' = mdObj s"
        "min ((\<Sum>p \<leftarrow> ps. msAvailable (heap s p)) + msAvailable (heap s nw)) (n - mu)
          \<le> (\<Sum>p \<leftarrow> ps'. kept (heap s' p)) + msAvailable (heap s nw)"
        by (auto simp: nw1 av)
      then show ?thesis
        using shrunk_trans [OF c(1) f(1)] sum_list_mset_cong [OF c(4), of "\<lambda>p. kept (heap s' p)"] by simp
    qed
  qed
qed

text \<open>The steps that leave the MachineSets and the deployment's specification alone.\<close>

definition sameSpecs :: "mdState \<Rightarrow> mdState \<Rightarrow> bool" where
  "sameSpecs s s' \<longleftrightarrow> heap s' = heap s \<and> mdSpec (mdObj s') = mdSpec (mdObj s)"

interpretation same_specs: state_relation sameSpecs
  by unfold_locales (auto simp: sameSpecs_def)

lemma invoke_sameSpecs: "keeps sameSpecs (invoke E c)"
  by (auto simp: keeps_def sameSpecs_def dest: invoke_state)

lemma setMD_sameSpecs: "(\<And>d. mdSpec (f d) = mdSpec d) \<Longrightarrow> keeps sameSpecs (setMD f)"
  unfolding setMD_def by (rule same_specs.keeps_modifyE) (simp add: sameSpecs_def)

lemma syncDeploymentStatus_sameSpecs: "keeps sameSpecs (syncDeploymentStatus E ps q)"
  unfolding syncDeploymentStatus_def
  by (intro same_specs.keeps_rules setMD_sameSpecs) (simp_all add: setMachineDeploymentConditions_def)

lemma deleteLoop_sameSpecs: "keeps sameSpecs (deleteLoop E cs i k)"
proof (induction k arbitrary: i)
  case (Suc k)
  show ?case
    unfolding deleteLoop.simps by (intro same_specs.keeps_rules invoke_sameSpecs Suc)
qed (simp add: same_specs.keeps_pure)

lemma completeAndCleanup_sameSpecs: "keeps sameSpecs (completeAndCleanup E ps)"
  unfolding completeAndCleanup_def cleanupDeployment_def
  by (intro same_specs.keeps_rules deleteLoop_sameSpecs)

lemma rollingParams_spec: "mdSpec d = mdSpec d' \<Longrightarrow> rollingParams D d n s u = rollingParams D d' n s u"
  by (simp add: rollingParams_def)

lemma MaxUnavailable_spec:
  assumes "mdSpec d = mdSpec d'"
  shows "MaxUnavailable D d = MaxUnavailable D d'"
  unfolding MaxUnavailable_def IsRollingUpdate_def strategyOf_def replicasOf_def fenceposts_def rollingOf_def assms
  by (rule refl)

lemma settled_footprint: "settled ms \<Longrightarrow> msAvailable ms \<le> footprint ms \<and> repl ms \<le> footprint ms \<and> 0 \<le> footprint ms"
  by (auto simp: settled_def footprint_def okMS_def)

text \<open>The new MachineSet after its step: still proper, not shrunk below the deployment's size, within the surge.\<close>

lemma reconcileNew_effect:
  assumes "reconcileNewMachineSet E (map Some ps @ [Some nw]) nw s = (r, s')"
    and "rollingParams (mdeps E) (mdObj s) n sg u"
    and "\<forall>p \<in> set (ps @ [nw]). settled (heap s p)" and "(\<Sum>p \<leftarrow> ps @ [nw]. footprint (heap s p)) < 2 ^ 31"
  shows "mdObj s' = mdObj s" "\<And>q. q \<noteq> nw \<Longrightarrow> heap s' q = heap s q" "sameIdentity (heap s' nw) (heap s nw)"
    "okMS (heap s' nw)" "msAvailable (heap s nw) \<le> repl (heap s' nw) \<or> n \<le> repl (heap s' nw)"
    "repl (heap s' nw) \<le> max (repl (heap s nw)) n"
    "repl (heap s nw) < repl (heap s' nw) \<longrightarrow>
      (\<Sum>p \<leftarrow> ps @ [nw]. footprint (heap s p)) + (repl (heap s' nw) - repl (heap s nw)) \<le> n + sg"
proof -
  let ?r = "repl (heap s nw)"
  have n: "mdReplicas (mdObj s) = Some n" "0 \<le> n" using assms(2) by (auto simp: rollingParams_def)
  have nw: "okMS (heap s nw)" "msAvailable (heap s nw) \<le> ?r" "0 \<le> ?r" "msReplicas (heap s nw) = Some ?r"
    using assms(3) okMS_deref by (auto simp: settled_def okMS_nonneg)
  obtain k where k: "s' = s \<or> scaleMachineSet E nw k s = (r, s')"
    and kb: "0 \<le> k" "n \<le> k \<or> ?r \<le> k" "k \<le> max ?r n"
      "?r < k \<longrightarrow> (\<Sum>p \<leftarrow> ps @ [nw]. footprint (heap s p)) + (k - ?r) \<le> n + sg"
  proof (cases "?r < n")
    case True
    obtain r' where r': "NewMSNewReplicas (mdeps E) (mdObj s) (map Some (map (heap s) (ps @ [nw]))) ?r = Inr r'"
      "?r \<le> r'" "r' \<le> n" "?r < r' \<longrightarrow> (\<Sum>p \<leftarrow> ps @ [nw]. footprint (heap s p)) + (r' - ?r) \<le> n + sg"
      using NewMSNewReplicas_within [OF assms(2), of "map (heap s) (ps @ [nw])" ?r] assms(3,4) nw True
      by (auto simp: settled_def comp_def)
    then have "scaleMachineSet E nw r' s = (r, s')"
      using assms(1) n nw(4) True by (simp add: reconcileNewMachineSet_def del: map_append)
    with r' nw(3) that [of r'] show ?thesis by auto
  next
    case False
    then have "s' = s \<or> scaleMachineSet E nw n s = (r, s')"
      using assms(1) n nw(4) by (auto simp: reconcileNewMachineSet_def split: if_splits)
    with False n(2) that [of n] show ?thesis by auto
  qed
  have e: "mdObj s' = mdObj s \<and> (\<forall>q. q \<noteq> nw \<longrightarrow> heap s' q = heap s q) \<and> sameIdentity (heap s' nw) (heap s nw) \<and>
      (msReplicas (heap s' nw) = Some ?r \<or> msReplicas (heap s' nw) = Some k)"
    using k scaleMachineSet_effect [of E nw k s r s'] nw(4) by auto
  then have "okMS (heap s' nw) \<and> (repl (heap s' nw) = ?r \<or> repl (heap s' nw) = k)"
    using okMS_same [OF nw(1)] nw(3) kb(1) repl_Some by metis
  with e kb nw(2) show "mdObj s' = mdObj s" "\<And>q. q \<noteq> nw \<Longrightarrow> heap s' q = heap s q" "sameIdentity (heap s' nw) (heap s nw)"
    "okMS (heap s' nw)" "msAvailable (heap s nw) \<le> repl (heap s' nw) \<or> n \<le> repl (heap s' nw)"
    "repl (heap s' nw) \<le> max ?r n"
    "?r < repl (heap s' nw) \<longrightarrow>
      (\<Sum>p \<leftarrow> ps @ [nw]. footprint (heap s p)) + (repl (heap s' nw) - ?r) \<le> n + sg"
    by auto
qed

text \<open>The new MachineSet is a fresh object; the old ones are those of the list that do not match.\<close>

lemma invoke_nextPtr: "invoke E c s = (r, s') \<Longrightarrow> nextPtr s' = nextPtr s"
  by (auto dest: invoke_state)

lemma updateMachineSet_fresh: "updateMachineSet E p ps s = (Inr q, s') \<Longrightarrow> q = nextPtr s"
  by (auto simp: updateMachineSet_def wrapE_def allocMS_def bindE_def dest!: invoke_nextPtr
      split: sum.splits prod.splits)

lemma createMachineSet_fresh: "createMachineSetAndWait E ps s = (Inr q, s') \<Longrightarrow> q = nextPtr s"
  by (auto simp: createMachineSetAndWait_def wrapE_def allocMS_def bindE_def dest!: invoke_nextPtr
      split: sum.splits prod.splits)

lemma getNewMachineSet_fresh: "getNewMachineSet E ml ps b t s = (Inr (Some q), s') \<Longrightarrow> q = nextPtr s"
  by (auto simp: getNewMachineSet_def setRevision_def bindE_def
      dest!: updateMachineSet_fresh createMachineSet_fresh
      split: sum.splits prod.splits option.splits if_splits)

lemma FindOld_subset:
  assumes "FindOldMachineSets D h d ps t = Inr (olds, so)"
  shows "set olds \<subseteq> set ps" "distinct ps \<Longrightarrow> distinct olds"
proof -
  obtain r why where f: "FindNewMachineSet D h d ps t = Inr (r, why, so)"
    using assms by (auto simp: FindOldMachineSets_def bindR_eq_Inr)
  then have "mset so = mset ps" by (rule FindNew_sorted)
  moreover have "olds = filter (\<lambda>p. \<not> (case r of None \<Rightarrow> False | Some n \<Rightarrow> msUID (h p) = msUID (h n))) so"
    using assms f by (auto simp: FindOldMachineSets_def)
  ultimately show "set olds \<subseteq> set ps" "distinct ps \<Longrightarrow> distinct olds"
    using mset_eq_setD [of so ps] mset_eq_imp_distinct_iff [of so ps] by auto
qed

lemma getAll_fresh:
  assumes "getAllMachineSetsAndSyncRevision E ml b s = (Inr (Some nw, olds), s')"
    and "distinct ml" and "\<forall>p \<in> set ml. p < nextPtr s"
  shows "distinct olds" "nw \<notin> set olds"
proof -
  obtain so where f: "FindOldMachineSets (mdeps E) (heap s) (mdObj s) ml (nowAt E (calls s)) = Inr (olds, so)"
    and "nw = nextPtr s"
    using assms(1)
    by (auto simp: getAllMachineSetsAndSyncRevision_def bindE_def dest!: getNewMachineSet_fresh
        split: sum.splits prod.splits)
  with FindOld_subset [OF f] assms(2,3) show "distinct olds" "nw \<notin> set olds" by auto
qed

lemma footprint_shrunk: "shrunk h h' (set ps) \<Longrightarrow> (\<Sum>p \<leftarrow> ps. footprint (h' p)) \<le> (\<Sum>p \<leftarrow> ps. footprint (h p))"
proof (rule sum_list_mono)
  fix p assume "shrunk h h' (set ps)" "p \<in> set ps"
  then have "repl (h' p) \<le> repl (h p)" "msStatus (h' p) = msStatus (h p)"
    by (auto simp: shrunk_def sameIdentity_def)
  then show "footprint (h' p) \<le> footprint (h p)"
    by (simp add: footprint_def max.coboundedI1 max.coboundedI2)
qed

text \<open>The part of a rollout after the new MachineSet is known, as one step on the MachineSets.\<close>

definition scaleSteps :: "mdEnv \<Rightarrow> ptr list \<Rightarrow> ptr \<Rightarrow> (mdState, unit) comp" where
  "scaleSteps E olds nw =
     bindE (reconcileNewMachineSet E (map Some olds @ [Some nw]) nw) (\<lambda>_.
     bindE (syncDeploymentStatus E (map Some olds @ [Some nw]) (Some nw)) (\<lambda>_.
     bindE (reconcileOldMachineSets E (map Some olds @ [Some nw]) olds nw) (\<lambda>_.
     bindE (syncDeploymentStatus E (map Some olds @ [Some nw]) (Some nw)) (\<lambda>_.
       completeAndCleanup E olds))))"

lemma scaleSteps_phases:
  assumes "scaleSteps E olds nw s = (r, s')"
  obtains r1 s1 where "reconcileNewMachineSet E (map Some olds @ [Some nw]) nw s = (r1, s1)"
    and "sameSpecs s1 s' \<or>
      (\<exists>s2 r3 s3. sameSpecs s1 s2 \<and> reconcileOldMachineSets E (map Some olds @ [Some nw]) olds nw s2 = (r3, s3) \<and> sameSpecs s3 s')"
proof -
  note sync = keepsD [OF syncDeploymentStatus_sameSpecs] and fin = keepsD [OF completeAndCleanup_sameSpecs]
    and tr = same_specs.rel_trans and rf = same_specs.rel_refl
  obtain r1 s1 where a: "reconcileNewMachineSet E (map Some olds @ [Some nw]) nw s = (r1, s1)"
    by fastforce
  show ?thesis
  proof (rule that [OF a])
    from assms [unfolded scaleSteps_def]
    show "sameSpecs s1 s' \<or> (\<exists>s2 r3 s3. sameSpecs s1 s2 \<and>
      reconcileOldMachineSets E (map Some olds @ [Some nw]) olds nw s2 = (r3, s3) \<and> sameSpecs s3 s')"
    proof (cases rule: bindE_cases)
      case (fail e)
      then show ?thesis using a rf by simp
    next
      case (cont x t1)
      from cont(2) show ?thesis
      proof (cases rule: bindE_cases)
        case (fail e)
        then show ?thesis using a cont(1) sync [OF fail(1)] by simp
      next
        case c2: (cont y t2)
        have 12: "sameSpecs s1 t2" using a cont(1) sync [OF c2(1)] by simp
        from c2(2) show ?thesis
        proof (cases rule: bindE_cases)
          case (fail e)
          then show ?thesis using 12 rf by blast
        next
          case c3: (cont z t3)
          from c3(2) have "sameSpecs t3 s'"
            by (cases rule: bindE_cases) (use sync fin tr in blast)+
          then show ?thesis using 12 c3(1) by blast
        qed
      qed
    qed
  qed
qed

lemma scaleSteps_safe:
  assumes "scaleSteps E olds nw s = (r, s')"
    and "rollingParams (mdeps E) (mdObj s) n sg u" and "MaxUnavailable (mdeps E) (mdObj s) = Inr mu"
    and "distinct olds" and "nw \<notin> set olds" and "\<forall>p \<in> set (olds @ [nw]). settled (heap s p)"
    and "2 * (\<Sum>p \<leftarrow> olds @ [nw]. footprint (heap s p)) + n < 2 ^ 31"
  shows "min (\<Sum>p \<leftarrow> olds @ [nw]. msAvailable (heap s p)) (n - mu) \<le> (\<Sum>p \<leftarrow> olds @ [nw]. kept (heap s' p))"
    and "(\<Sum>p \<leftarrow> olds @ [nw]. footprint (heap s' p)) \<le> max (\<Sum>p \<leftarrow> olds @ [nw]. footprint (heap s p)) (n + sg)"
proof -
  let ?F = "\<Sum>p \<leftarrow> olds @ [nw]. footprint (heap s p)"
  have n: "0 \<le> n" and mu: "0 \<le> mu" using assms(2,3) MaxUnavailable_bounds [OF assms(2)] by (auto simp: rollingParams_def)
  have ol: "\<forall>p \<in> set olds. settled (heap s p)" and snw: "settled (heap s nw)" using assms(6) by auto
  have fp: "0 \<le> (\<Sum>p \<leftarrow> olds. footprint (heap s p))" "0 \<le> footprint (heap s nw)"
      "(\<Sum>p \<leftarrow> olds. repl (heap s p)) \<le> (\<Sum>p \<leftarrow> olds. footprint (heap s p))"
    using ol snw settled_footprint by (auto intro!: sum_list_nonneg sum_list_mono)
  then have F: "?F < 2 ^ 31" using assms(7) n by simp
  obtain r1 s1 where r1: "reconcileNewMachineSet E (map Some olds @ [Some nw]) nw s = (r1, s1)"
    and rest: "sameSpecs s1 s' \<or> (\<exists>s2 r3 s3. sameSpecs s1 s2 \<and>
      reconcileOldMachineSets E (map Some olds @ [Some nw]) olds nw s2 = (r3, s3) \<and> sameSpecs s3 s')"
    using scaleSteps_phases [OF assms(1)] .
  note new = reconcileNew_effect [OF r1 assms(2,6) F]
  have same1: "\<forall>p \<in> set olds. heap s1 p = heap s p" using new(2) assms(5) by metis
  have av1: "msAvailable (heap s1 nw) = msAvailable (heap s nw)" "msStatus (heap s1 nw) = msStatus (heap s nw)"
    using new(3) by (auto simp: sameIdentity_def)
  have ol1: "\<forall>p \<in> set olds. settled (heap s1 p)" using ol same1 by simp
  have eqf: "(\<Sum>p \<leftarrow> olds. f (heap s1 p)) = (\<Sum>p \<leftarrow> olds. f (heap s p))" for f :: "MachineSet \<Rightarrow> int"
    using same1 by (intro arg_cong [where f = sum_list] map_cong) auto
  note eq = eqf [of "\<lambda>ms. msAvailable ms"] eqf [of repl] eqf [of kept] eqf [of footprint]
  have lim: "(\<Sum>p \<leftarrow> olds. repl (heap s1 p)) + repl (heap s1 nw) + msAvailable (heap s1 nw) < 2 ^ 31"
    using new(6) settled_footprint [OF snw] fp assms(7) n by (simp add: eq av1 max_def split: if_splits)
  have keptnw: "kept (heap s1 nw) = msAvailable (heap s nw) \<or> n \<le> kept (heap s1 nw)"
    using new(5) av1 by (auto simp: kept_def min_def)
  have old: "shrunk (heap s1) (heap s') (set olds) \<and>
      min ((\<Sum>p \<leftarrow> olds. msAvailable (heap s p)) + msAvailable (heap s nw)) (n - mu)
        \<le> (\<Sum>p \<leftarrow> olds. kept (heap s' p)) + msAvailable (heap s nw)"
    using rest
  proof
    assume "sameSpecs s1 s'"
    then show ?thesis
      using sum_kept_settled [OF ol1] settled_shrunk_id [OF ol1] by (simp add: sameSpecs_def eq)
  next
    assume "\<exists>s2 r3 s3. sameSpecs s1 s2 \<and>
      reconcileOldMachineSets E (map Some olds @ [Some nw]) olds nw s2 = (r3, s3) \<and> sameSpecs s3 s'"
    then obtain s2 r3 s3 where h: "heap s2 = heap s1" "mdSpec (mdObj s2) = mdSpec (mdObj s)" "heap s' = heap s3"
        and run: "reconcileOldMachineSets E (map Some olds @ [Some nw]) olds nw s2 = (r3, s3)"
      using new(1) by (auto simp: sameSpecs_def)
    have "rollingParams (mdeps E) (mdObj s2) n sg u" "MaxUnavailable (mdeps E) (mdObj s2) = Inr mu"
      using assms(2,3) rollingParams_spec [OF h(2)] MaxUnavailable_spec [OF h(2)] by simp_all
    from reconcileOld_keeps_available [OF run this assms(4,5)] ol1 new(4) lim
    show ?thesis by (simp add: h eq av1)
  qed
  have nwsame: "heap s' nw = heap s1 nw" using old assms(5) by (simp add: shrunk_def)
  have "0 \<le> (\<Sum>p \<leftarrow> olds. kept (heap s' p))"
    using old by (auto intro!: sum_list_nonneg simp: shrunk_def kept_def okMS_nonneg)
  then show "min (\<Sum>p \<leftarrow> olds @ [nw]. msAvailable (heap s p)) (n - mu) \<le> (\<Sum>p \<leftarrow> olds @ [nw]. kept (heap s' p))"
    using old keptnw nwsame mu by auto
  have "(\<Sum>p \<leftarrow> olds. footprint (heap s' p)) \<le> (\<Sum>p \<leftarrow> olds. footprint (heap s p))"
    using footprint_shrunk [of "heap s1" "heap s'" olds] old by (simp add: eq)
  moreover have "footprint (heap s1 nw) \<le> footprint (heap s nw) + max 0 (repl (heap s1 nw) - repl (heap s nw))"
    by (auto simp: footprint_def av1(2))
  ultimately show "(\<Sum>p \<leftarrow> olds @ [nw]. footprint (heap s' p)) \<le> max ?F (n + sg)"
    using new(7) nwsame by auto
qed

lemma rolloutRolling_steps:
  "getAllMachineSetsAndSyncRevision E ml True s = (Inr (Some nw, olds), s1) \<Longrightarrow>
    rolloutRolling E ml s = scaleSteps E olds nw s1"
  by (simp add: rolloutRolling_def scaleSteps_def bindE_run(2) Let_def)


text \<open>A concrete environment and reconciliation: one old MachineSet of three, a server that accepts everything.\<close>

definition sampleEnv :: mdEnv where
  "sampleEnv = \<lparr>mdeps = sampleDeps, outcome = (\<lambda>_ _. None), ssaResponse = (\<lambda>_ _. sampleMS ''new'' 1 0 2),
     listedMachines = (\<lambda>_. []), nowAt = (\<lambda>_. 9), computeHash = (\<lambda>_. Inr 1), randSuffix = (\<lambda>_. ''abcde''),
     LabelSelectorAsMap = (\<lambda>_. Inr Map.empty), selectorString = (\<lambda>_. Inr []), pollTicks = 1\<rparr>"

definition sampleOld :: MachineSet where
  "sampleOld = (sampleMS ''old'' 3 3 1)\<lparr>msSpec := (msSpec (sampleMS ''old'' 3 3 1))\<lparr>mssTemplate :=
     sampleTemplate\<lparr>tSpec := (tSpec sampleTemplate)\<lparr>spVersion := Some ''v0''\<rparr>\<rparr>\<rparr>\<rparr>"

definition sampleState :: mdState where
  "sampleState = \<lparr>heap = (\<lambda>_. sampleOld), nextPtr = 1, mdObj = sampleMD 3 1 0, calls = []\<rparr>"

lemma sampleOld_simps [simp]:
  "repl sampleOld = 3" "msAvailable sampleOld = 3" "footprint sampleOld = 3" "okMS sampleOld" "settled sampleOld"
  "msReplicas sampleOld = Some 3" "msstReplicas (msStatus sampleOld) = 3" "msAnnotations sampleOld = None"
  by (simp_all add: sampleOld_def sampleMS_def repl_def footprint_def okMS_def settled_def emptyMeta_def)

lemma sampleOld_differs: "EqualMachineTemplate sampleDeps (mssTemplate (msSpec sampleOld)) (mdsTemplate (mdSpec (sampleMD 3 1 0))) =
    Inr (False, ''version'')"
  by (simp add: EqualMachineTemplate_def compare_Diff_def sampleDeps_def sampleOld_def sampleMS_def sampleMD_def
      sampleTemplate_def MachineTemplateDeepCopyRolloutFields_def TrimSpace_def ReplaceTab_def isSpace_def)

lemma sample_desired:
  "\<exists>d. computeDesiredMachineSet sampleEnv ''abcde'' (sampleMD 3 1 0) None [sampleOld] = Inr d"
proof -
  note r = rolling_simps [OF rollingParams_sample [of 3 1 0]]
  have "NewMSNewReplicas sampleDeps (sampleMD 3 1 0) [Some sampleOld] 0 = Inr 1"
    using NewMSNewReplicas_within [OF rollingParams_sample [of 3 1 0], of "[sampleOld]" 0] by auto
  then show ?thesis
    using r(1,4) by (simp add: computeDesiredMachineSet_def desiredParts_def ComputeMachineSetAnnotations_def
        newRevisionFor_def sampleEnv_def Let_def split: prod.splits)
qed

lemma sample_getAll:
  "\<exists>s1. getAllMachineSetsAndSyncRevision sampleEnv [0] True sampleState = (Inr (Some 1, [0]), s1) \<and>
     heap s1 0 = sampleOld \<and> heap s1 1 = sampleMS ''new'' 1 0 2 \<and> mdSpec (mdObj s1) = mdSpec (sampleMD 3 1 0)"
proof -
  obtain d where d: "computeDesiredMachineSet sampleEnv ''abcde'' (sampleMD 3 1 0) None [sampleOld] = Inr d"
    using sample_desired by blast
  have f: "\<exists>why. FindNewMachineSet sampleDeps (\<lambda>_. sampleOld) (sampleMD 3 1 0) [0] 9 = Inr (None, why, [0])"
    using sampleOld_differs by (simp add: FindNewMachineSet_def sortPtrs_def sort_Sort_def)
  have "randSuffix sampleEnv cs = ''abcde''" "mdeps sampleEnv = sampleDeps" "nowAt sampleEnv cs = 9"
    "ssaResponse sampleEnv cs x = sampleMS ''new'' 1 0 2" "pollTicks sampleEnv = 1"
    "outcome sampleEnv cs c = None" for cs c x
    by (simp_all add: sampleEnv_def)
  with d f show ?thesis
    by (auto simp: getAllMachineSetsAndSyncRevision_def FindOldMachineSets_def getNewMachineSet_def
        createMachineSetAndWait_def sampleState_def wrapE_def invoke_def allocMS_def setRevision_def
        SetDeploymentRevision_def Let_def bindE_def attemptE_def)
qed


end
