(* ===== verification/MachineDeploymentScaling.thy ===== *)
theory MachineDeploymentScaling
  imports MachineDeploymentSync "HOL-Library.Sublist"
begin

text \<open>
  Further results on the MachineDeployment controller's operations of \<open>MachineDeploymentSync\<close>:
  proportional scaling hands out the whole difference, the clean-up of old MachineSets deletes only
  empty, fully observed ones beyond the history limit, and the OnDelete strategy scales down no more
  than what is above the deployment's size. The last section shows what a rolling update does when
  the status of a MachineSet lags behind its specification.
\<close>

section \<open>Proportional scaling keeps the total\<close>

text \<open>The estimate for a MachineSet leaves it a size between zero and \<open>B\<close> above its own.\<close>

definition fractionWithin :: "mdDeps \<Rightarrow> MachineDeployment \<Rightarrow> int \<Rightarrow> MachineSet \<Rightarrow> bool" where
  "fractionWithin D d B ms \<longleftrightarrow> okMS ms \<and> 0 < repl ms \<and>
     (case getMachineSetFraction D ms d of Inl _ \<Rightarrow> False | Inr f \<Rightarrow> - repl ms \<le> f \<and> f \<le> B)"

lemma GetProportion_step:
  assumes "fractionWithin D d B ms" and "toAdd \<noteq> 0" and "in32 (toAdd - added)" and "0 \<le> B"
    and "0 < toAdd \<Longrightarrow> added \<le> toAdd" and "toAdd < 0 \<Longrightarrow> toAdd \<le> added"
  shows "\<exists>p. GetProportion D (Some ms) d toAdd added = Inr p \<and> - repl ms \<le> p \<and>
    (0 < toAdd \<longrightarrow> added + p \<le> toAdd) \<and> (toAdd < 0 \<longrightarrow> toAdd \<le> added + p \<and> p \<le> B)"
proof -
  obtain f where f: "getMachineSetFraction D ms d = Inr f" "- repl ms \<le> f" "f \<le> B"
    and ms: "msReplicas ms = Some (repl ms)" "0 < repl ms"
    using assms(1) okMS_deref by (auto simp: fractionWithin_def split: sum.splits)
  show ?thesis
  proof (cases "toAdd = added")
    case True
    with ms assms(4) show ?thesis by (simp add: GetProportion_def)
  next
    case False
    have "GetProportion D (Some ms) d toAdd added =
        Inr (if toAdd > 0 then min f (toAdd - added) else max f (toAdd - added))"
      using False ms f(1) assms(2,3) by (simp add: GetProportion_def)
    with f ms assms(2,4-6) show ?thesis by (auto simp: min_def max_def)
  qed
qed

definition namesTotal :: "(string \<rightharpoonup> int) \<Rightarrow> MachineSet list \<Rightarrow> int" where
  "namesTotal nts mss = (\<Sum>ms \<leftarrow> mss. nts_get nts (msName ms))"

lemma namesTotal_upd: "nm \<notin> (\<lambda>ms. msName ms) ` set mss \<Longrightarrow> namesTotal (nts(nm \<mapsto> v)) mss = namesTotal nts mss"
  unfolding namesTotal_def by (intro arg_cong [where f = sum_list] map_cong) (auto simp: nts_get_def)

lemma proportionLoop_total:
  assumes "proportionLoop D d toAdd mss nts added = Inr (nts', added')"
    and "toAdd \<noteq> 0" and "distinct (map (\<lambda>ms. msName ms) mss)" and "\<forall>ms \<in> set mss. fractionWithin D d B ms" and "0 \<le> B"
    and "0 < toAdd \<Longrightarrow> added \<le> toAdd \<and> (\<Sum>ms \<leftarrow> mss. repl ms) - added \<le> W"
    and "toAdd < 0 \<Longrightarrow> toAdd \<le> added \<and> added + int (length mss) * B \<le> W"
    and "\<bar>toAdd\<bar> + W + (\<Sum>ms \<leftarrow> mss. repl ms) < 2 ^ 31" and "0 \<le> W"
  shows "namesTotal nts' mss = (\<Sum>ms \<leftarrow> mss. repl ms) + (added' - added) \<and>
    (\<forall>ms \<in> set mss. 0 \<le> nts_get nts' (msName ms) \<and> nts_get nts' (msName ms) < 2 ^ 31) \<and>
    (\<forall>k. k \<notin> (\<lambda>ms. msName ms) ` set mss \<longrightarrow> nts' k = nts k) \<and>
    (0 < toAdd \<longrightarrow> added' \<le> toAdd \<and> - added' \<le> W) \<and> (toAdd < 0 \<longrightarrow> toAdd \<le> added' \<and> added' \<le> W)"
  using assms(1,3-8)
proof (induction mss arbitrary: nts added)
  case Nil
  then show ?case using assms(2) by (auto simp: namesTotal_def)
next
  case (Cons ms mss)
  have fw: "fractionWithin D d B ms" "0 < repl ms" "msReplicas ms = Some (repl ms)"
    using Cons.prems(3) okMS_deref by (auto simp: fractionWithin_def)
  have rest0: "0 \<le> (\<Sum>x \<leftarrow> mss. repl x)"
    using Cons.prems(3) by (auto intro!: sum_list_nonneg simp: fractionWithin_def less_imp_le)
  obtain L where L: "L = int (length mss) * B" "0 \<le> L" using Cons.prems(4) by simp
  have neg: "toAdd < 0 \<Longrightarrow> toAdd \<le> added \<and> added + (B + L) \<le> W"
    using Cons.prems(6) L(1) by (simp add: algebra_simps)
  have in32a: "in32 (toAdd - added)"
    using Cons.prems(5,7) neg assms(2) fw(2) rest0 L(2) Cons.prems(4) by (cases "0 < toAdd") (auto simp: in32_def)
  obtain p where p: "GetProportion D (Some ms) d toAdd added = Inr p" "- repl ms \<le> p"
      "0 < toAdd \<longrightarrow> added + p \<le> toAdd" "toAdd < 0 \<longrightarrow> toAdd \<le> added + p \<and> p \<le> B"
    using GetProportion_step [OF fw(1) assms(2) in32a Cons.prems(4)] Cons.prems(5,6) by blast
  have in32s: "in32 (repl ms + p)" "in32 (added + p)" and ub: "repl ms + p < 2 ^ 31"
  proof -
    have "repl ms + p < 2 ^ 31 \<and> - (2 ^ 31) \<le> added + p \<and> added + p < 2 ^ 31"
    proof (cases "0 < toAdd")
      case True
      then show ?thesis using p(2,3) Cons.prems(5,7) assms(9) fw(2) rest0 by simp
    next
      case False
      with assms(2) have "toAdd < 0" by simp
      then show ?thesis using p(2,4) Cons.prems(4,7) assms(9) neg fw(2) rest0 L(2) by simp
    qed
    with p(2) show "in32 (repl ms + p)" "in32 (added + p)" "repl ms + p < 2 ^ 31" by (simp_all add: in32_def)
  qed
  let ?nts = "nts(msName ms \<mapsto> repl ms + p)"
  have step: "proportionLoop D d toAdd mss ?nts (added + p) = Inr (nts', added')"
    using Cons.prems(1) fw(3) assms(2) p(1) in32s by simp
  have pos': "added + p \<le> toAdd \<and> (\<Sum>x \<leftarrow> mss. repl x) - (added + p) \<le> W" if "0 < toAdd"
    using that p(2,3) Cons.prems(5) by simp
  have neg': "toAdd \<le> added + p \<and> added + p + int (length mss) * B \<le> W" if "toAdd < 0"
    using that p(4) neg L(1) by simp
  have tot': "\<bar>toAdd\<bar> + W + (\<Sum>x \<leftarrow> mss. repl x) < 2 ^ 31"
    using Cons.prems(7) fw(2) by simp
  have ih: "namesTotal nts' mss = (\<Sum>x \<leftarrow> mss. repl x) + (added' - (added + p))"
      "\<forall>x \<in> set mss. 0 \<le> nts_get nts' (msName x) \<and> nts_get nts' (msName x) < 2 ^ 31"
      "\<forall>k. k \<notin> (\<lambda>x. msName x) ` set mss \<longrightarrow> nts' k = ?nts k"
      "(0 < toAdd \<longrightarrow> added' \<le> toAdd \<and> - added' \<le> W) \<and> (toAdd < 0 \<longrightarrow> toAdd \<le> added' \<and> added' \<le> W)"
    using Cons.IH [OF step _ _ Cons.prems(4) pos' neg' tot'] Cons.prems(2,3) by simp_all
  have nm: "msName ms \<notin> (\<lambda>x. msName x) ` set mss" using Cons.prems(2) by simp
  have "nts' (msName ms) = ?nts (msName ms)" by (rule ih(3) [rule_format, OF nm])
  then have own: "nts_get nts' (msName ms) = repl ms + p" by (simp add: nts_get_def)
  have other: "nts' k = nts k" if "k \<notin> (\<lambda>x. msName x) ` set (ms # mss)" for k
    using ih(3) [rule_format, of k] that by simp
  have sum: "namesTotal nts' (ms # mss) = (\<Sum>x \<leftarrow> ms # mss. repl x) + (added' - added)"
    using ih(1) own by (simp add: namesTotal_def)
  have sizes: "\<forall>x \<in> set (ms # mss). 0 \<le> nts_get nts' (msName x) \<and> nts_get nts' (msName x) < 2 ^ 31"
    using ih(2) own p(2) ub by simp
  have others: "\<forall>k. k \<notin> (\<lambda>x. msName x) ` set (ms # mss) \<longrightarrow> nts' k = nts k"
    by (intro allI impI other)
  from sum sizes others ih(4) show ?case by (rule conjI [OF _ conjI [OF _ conjI]])
qed

lemma proportionLoop_none:
  assumes "proportionLoop D d 0 mss nts added = Inr (nts', added')" and "distinct (map (\<lambda>ms. msName ms) mss)"
    and "\<forall>ms \<in> set mss. okMS ms"
  shows "(\<forall>ms \<in> set mss. nts_get nts' (msName ms) = repl ms) \<and>
    (\<forall>k. k \<notin> (\<lambda>ms. msName ms) ` set mss \<longrightarrow> nts' k = nts k)"
  using assms
proof (induction mss arbitrary: nts)
  case Nil
  then show ?case by simp
next
  case (Cons ms mss)
  have "proportionLoop D d 0 mss (nts(msName ms \<mapsto> repl ms)) added = Inr (nts', added')"
    using Cons.prems(1,3) okMS_deref [of ms] by simp
  from Cons.IH [OF this] Cons.prems(2,3)
  have ih: "\<forall>x \<in> set mss. nts_get nts' (msName x) = repl x"
    "\<And>k. k \<notin> (\<lambda>x. msName x) ` set mss \<Longrightarrow> nts' k = (nts(msName ms \<mapsto> repl ms)) k" by simp_all
  have "nts' (msName ms) = Some (repl ms)" using ih(2) [of "msName ms"] Cons.prems(2) by simp
  then have own: "nts_get nts' (msName ms) = repl ms" by (simp add: nts_get_def)
  have "nts' k = nts k" if "k \<notin> (\<lambda>x. msName x) ` set (ms # mss)" for k using ih(2) [of k] that by simp
  with ih(1) own show ?case by simp
qed

text \<open>Handing out the leftover makes up the whole amount, unless the first MachineSet would go below zero.\<close>

lemma addLeftover_total:
  assumes "distinct (map (\<lambda>ms. msName ms) (ms # mss))" and "toAdd \<noteq> 0"
    and "namesTotal nts (ms # mss) = S + added"
    and "\<forall>x \<in> set (ms # mss). 0 \<le> nts_get nts (msName x) \<and> nts_get nts (msName x) < 2 ^ 31"
    and "(0 < toAdd \<longrightarrow> added \<le> toAdd \<and> - added \<le> W) \<and> (toAdd < 0 \<longrightarrow> toAdd \<le> added \<and> added \<le> W)"
    and "\<bar>toAdd\<bar> + W + S < 2 ^ 31" and "0 \<le> W" and "0 \<le> S"
  defines "nts' \<equiv> addLeftover toAdd added (msName ms) nts"
  shows "(\<forall>x \<in> set (ms # mss). 0 \<le> nts_get nts' (msName x)) \<and>
    (namesTotal nts' (ms # mss) = S + toAdd \<or>
     S + toAdd < namesTotal nts' (ms # mss) \<and> nts_get nts' (msName ms) = 0)"
proof -
  let ?a = "nts_get nts (msName ms)"
  have rest: "namesTotal nts mss = S + added - ?a" using assms(3) by (simp add: namesTotal_def)
  moreover have "0 \<le> namesTotal nts mss"
    using assms(4) by (auto simp: namesTotal_def intro!: sum_list_nonneg)
  ultimately have a: "?a \<le> S + added" "0 \<le> ?a" "?a < 2 ^ 31" using assms(4) by simp_all
  have r: "in32 (toAdd - added) \<and> in32 (?a + (toAdd - added))"
  proof (cases "0 < toAdd")
    case True
    with a assms(5-8) show ?thesis by (simp add: in32_def)
  next
    case False
    with assms(2) have "toAdd < 0" by simp
    with a assms(5-8) show ?thesis by (simp add: in32_def)
  qed
  define v where "v = max 0 (?a + (toAdd - added))"
  have nts': "nts' = nts(msName ms \<mapsto> v)"
    using r assms(2) by (auto simp: nts'_def addLeftover_def v_def Let_def)
  have nm: "msName ms \<notin> (\<lambda>x. msName x) ` set mss" using assms(1) by simp
  have own: "nts_get nts' (msName ms) = v" by (simp add: nts' nts_get_def)
  have other: "nts_get nts' (msName x) = nts_get nts (msName x)" if "x \<in> set mss" for x
  proof -
    have "msName x \<noteq> msName ms" using nm that by (metis imageI)
    then show ?thesis by (simp add: nts' nts_get_def)
  qed
  have "namesTotal nts' mss = namesTotal nts mss" unfolding nts' using nm by (rule namesTotal_upd)
  then have "namesTotal nts' (ms # mss) = v + (S + added - ?a)" using own rest by (simp add: namesTotal_def)
  moreover have "0 \<le> v" by (simp add: v_def)
  ultimately show ?thesis using own other assms(4) by (auto simp: v_def max_def)
qed

lemma scaleAll_effect:
  assumes "scaleAll E nts ps s = (Inr (), s')" and "distinct ps"
  shows "(\<forall>p \<in> set ps. msReplicas (heap s' p) = Some (nts_get nts (msName (heap s p)))) \<and>
    (\<forall>q. q \<notin> set ps \<longrightarrow> heap s' q = heap s q)"
  using assms
proof (induction ps arbitrary: s)
  case Nil
  then show ?case by simp
next
  case (Cons p ps)
  obtain s1 where s1: "scaleMachineSet E p (nts_get nts (msName (heap s p))) s = (Inr (), s1)"
      "scaleAll E nts ps s1 = (Inr (), s')"
    using Cons.prems(1) by (auto elim: bindE_Inr)
  note eff = scaleMachineSet_effect [OF s1(1)]
  from Cons.IH [OF s1(2)] Cons.prems(2)
  have ih: "\<forall>q \<in> set ps. msReplicas (heap s' q) = Some (nts_get nts (msName (heap s1 q)))"
    "\<And>q. q \<notin> set ps \<Longrightarrow> heap s' q = heap s1 q" and p: "p \<notin> set ps" by auto
  have "heap s1 q = heap s q" if "q \<in> set ps" for q using eff(3) p that by metis
  with ih eff(3,6) p show ?case by auto
qed

lemma distinct_map_mset: "distinct (map f xs) \<Longrightarrow> mset xs = mset ys \<Longrightarrow> distinct (map f ys)"
  by (metis mset_eq_imp_distinct_iff mset_map)

lemma namesTotal_heap:
  assumes "\<forall>p \<in> set ps. msReplicas (heap s' p) = Some (nts_get nts (msName (heap s p)))"
  shows "(\<Sum>p \<leftarrow> ps. repl (heap s' p)) = namesTotal nts (map (heap s) ps)"
  using assms by (induction ps) (simp_all add: namesTotal_def repl_def)

text \<open>The sizes the loop and the leftover compute, for an amount to add within the bounds.\<close>

lemma proportional_sizes:
  assumes loop: "proportionLoop D d (m - S) (ms # mss) Map.empty 0 = Inr (nts, added)"
    and names: "distinct (map (\<lambda>ms. msName ms) (ms # mss))"
    and frac: "\<forall>x \<in> set (ms # mss). fractionWithin D d B x" and B: "0 \<le> B"
    and S: "S = (\<Sum>x \<leftarrow> ms # mss. repl x)" and m: "0 \<le> m"
    and room: "m + 3 * S + int (length (ms # mss)) * B < 2 ^ 31"
  defines "nts' \<equiv> addLeftover (m - S) added (msName ms) nts"
  shows "(\<forall>x \<in> set (ms # mss). 0 \<le> nts_get nts' (msName x)) \<and>
    (namesTotal nts' (ms # mss) = m \<or> m < namesTotal nts' (ms # mss) \<and> nts_get nts' (msName ms) = 0)"
proof -
  have ok: "\<forall>x \<in> set (ms # mss). okMS x \<and> 0 \<le> repl x"
    using frac by (auto simp: fractionWithin_def less_imp_le)
  then have S0: "0 \<le> S" unfolding S by (intro sum_list_nonneg) auto
  obtain L where L: "L = int (length (ms # mss)) * B" "0 \<le> L" using B by simp
  show ?thesis
  proof (cases "m - S = 0")
    case True
    have eq: "\<forall>x \<in> set (ms # mss). nts_get nts (msName x) = repl x"
      using proportionLoop_none [of D d "ms # mss"] loop names ok unfolding True by blast
    then have "namesTotal nts (ms # mss) = S"
      unfolding S namesTotal_def by (intro arg_cong [where f = sum_list] map_cong) auto
    with eq ok True show ?thesis by (simp add: nts'_def addLeftover_def)
  next
    case False
    have pos: "0 \<le> m - S \<and> (\<Sum>x \<leftarrow> ms # mss. repl x) - 0 \<le> S + L" if "0 < m - S"
      using that L(2) S by simp
    have neg: "m - S \<le> 0 \<and> 0 + int (length (ms # mss)) * B \<le> S + L" if "m - S < 0"
      using that S0 L(1) by simp
    have tot: "\<bar>m - S\<bar> + (S + L) + (\<Sum>x \<leftarrow> ms # mss. repl x) < 2 ^ 31"
      using room S0 m unfolding S [symmetric] L(1) [symmetric] by simp
    have W: "0 \<le> S + L" using S0 L(2) by simp
    note r = proportionLoop_total [OF loop False names frac B pos neg tot W, folded S]
    from addLeftover_total [OF names False _ _ _ _ W S0, of nts added] r tot [folded S]
    show ?thesis unfolding nts'_def by simp
  qed
qed


text \<open>Two MachineSets of four in a deployment that goes from eight to ten machines with a surge of two.\<close>

definition scaleState :: mdState where
  "scaleState = \<lparr>heap = (\<lambda>p. if p = 0 then sampleMS ''a'' 4 4 1 else sampleMS ''b'' 4 4 2), nextPtr = 2,
     mdObj = (sampleMD 10 2 0)\<lparr>mdStatus := (mdStatus (sampleMD 10 2 0))\<lparr>mdstReplicas := 8\<rparr>\<rparr>, calls = []\<rparr>"

lemma scaleState_params: "rollingParams sampleDeps (mdObj scaleState) 10 2 0"
  by (simp add: rollingParams_def scaleState_def sampleMD_def sampleDeps_def)

lemma scaleState_fraction:
  "getMachineSetFraction sampleDeps (sampleMS nm 4 4 c) (mdObj scaleState) = Inr 2"
proof -
  have quot: "RoundQuot sampleDeps 48 8 = 6" by (simp add: sampleDeps_def)
  have "mdstReplicas (mdStatus (mdObj scaleState)) = 8" by (simp add: scaleState_def)
  then show ?thesis
    by (simp add: getMachineSetFraction_def rolling_simps [OF scaleState_params] getMaxReplicasAnnotation_def
        getIntFromAnnotation_def Let_def sampleMS_def emptyMeta_def wrap32_def quot)
qed

lemma scaleState_run: "\<exists>s'. proportionalScale sampleEnv (Some 1) [0] scaleState = (Inr (), s')"
proof -
  have act: "FilterActiveMachineSets (heap scaleState) (map Some [0] @ [Some 1]) = [0, 1]"
    by (simp add: FilterActiveMachineSets_def FilterMachineSets_def isActive_def scaleState_def)
  have srt: "sortPtrs MachineSetsBySizeNewer (heap scaleState) [0, 1] = [1, 0]"
    by (simp add: sortPtrs_def sort_Sort_def MachineSetsBySizeNewer_def scaleState_def)
  have cnt: "GetReplicaCountForMachineSets (map (\<lambda>p. Some (heap scaleState p)) [0, 1]) = Inr 8"
    by (simp add: GetReplicaCountForMachineSets_def scaleState_def wrap32_def)
  have h: "heap scaleState 0 = sampleMS ''a'' 4 4 1" "heap scaleState (Suc 0) = sampleMS ''b'' 4 4 2"
    by (simp_all add: scaleState_def)
  have pr: "GetProportion sampleDeps (Some (sampleMS nm 4 4 c)) (mdObj scaleState) 4 a = Inr 2" if "a \<in> {0, 2}" for nm c a
    using that by (auto simp: GetProportion_def scaleState_fraction wrap32_def)
  have loop: "proportionLoop sampleDeps (mdObj scaleState) 4 (map (heap scaleState) [1, 0]) Map.empty 0 =
      Inr ([''b'' \<mapsto> 6, ''a'' \<mapsto> 6], 4)"
    by (simp add: h pr wrap32_def)
  have n: "mdReplicas (mdObj scaleState) = Some 10" by (simp add: scaleState_def sampleMD_def)
  have env: "mdeps sampleEnv = sampleDeps" "outcome sampleEnv cs c = None" for cs c by (simp_all add: sampleEnv_def)
  have sc: "\<exists>s'. scaleMachineSet sampleEnv p k s = (Inr (), s') \<and> mdObj s' = mdObj s \<and>
      (\<forall>q. q \<noteq> p \<longrightarrow> heap s' q = heap s q)"
    if "mdObj s = mdObj scaleState" "msReplicas (heap s p) = Some 4" for s p k
    using that by (auto simp: scaleMachineSet_def n env rolling_simps [OF scaleState_params] invoke_def setMS_def Let_def bindE_def)
  have "\<exists>s'. scaleAll sampleEnv nts [1, 0] scaleState = (Inr (), s')" for nts
  proof -
    let ?k = "\<lambda>p. nts_get nts (msName (heap scaleState p))"
    obtain s1 where s1: "scaleMachineSet sampleEnv 1 (?k 1) scaleState = (Inr (), s1)"
        "mdObj s1 = mdObj scaleState" "heap s1 0 = heap scaleState 0"
      using sc [of scaleState 1 "?k 1"] h by auto
    obtain s2 where "scaleMachineSet sampleEnv 0 (?k 0) s1 = (Inr (), s2)"
      using sc [of s1 0 "?k 0"] s1 h by auto
    with s1 show ?thesis by (simp add: bindE_run)
  qed
  moreover have "wrap32 (10 + 2 - 8) = 4" "((0::int) < 10) = True" "((0::int) < 4) = True" by (simp_all add: wrap32_def)
  ultimately show ?thesis
    by (simp only: env proportionalScale_def Let_def bindE_getsE bindE_liftE prod.case sum.case act cnt
        rolling_simps [OF scaleState_params] if_True srt loop)
qed


section \<open>Cleaning up old MachineSets\<close>

definition deletable :: "MachineSet \<Rightarrow> bool" where
  "deletable ms \<longleftrightarrow> msReplicas ms = Some 0 \<and> msstReplicas (msStatus ms) = 0 \<and>
     mgeneration (msMeta ms) \<le> msstObservedGeneration (msStatus ms) \<and> timeIsZero (mdeletionTimestamp (msMeta ms))"

lemma deleteLoop_calls:
  assumes "deleteLoop E ps i k s = (r, s')"
  shows "heap s' = heap s \<and> mdObj s' = mdObj s \<and>
    (\<exists>j. let ds = filter (\<lambda>p. deletable (heap s p)) (take k (drop i ps)) in
       calls s' = calls s @ map (\<lambda>p. DeleteMachineSet (heap s p)) (take j ds) \<and>
       (r = Inr () \<longrightarrow> take j ds = ds)) \<and>
    (i + k \<le> length ps \<longrightarrow> (\<forall>w. r = Inl (Panic w) \<longrightarrow> (\<exists>cs p. outcome E cs (DeleteMachineSet (heap s p)) = Some (Panic w))))"
  using assms
proof (induction k arbitrary: i s)
  case 0
  then show ?case by auto
next
  case (Suc k)
  show ?case
  proof (cases "i < length ps")
    case False
    with Suc.prems show ?thesis by auto
  next
    case True
    let ?ms = "heap s (ps ! i)"
    have seg: "take (Suc k) (drop i ps) = (ps ! i) # take k (drop (Suc i) ps)"
      using True by (simp add: Cons_nth_drop_Suc [symmetric])
    show ?thesis
    proof (cases "msReplicas ?ms")
      case None
      with Suc.prems True show ?thesis by (auto simp: Let_def intro: exI [of _ 0])
    next
      case (Some n)
      show ?thesis
      proof (cases "deletable ?ms")
        case False
        then have "deleteLoop E ps (i + 1) k s = (r, s')"
          using Suc.prems True Some by (auto simp: deletable_def split: if_splits)
        from Suc.IH [OF this] False seg show ?thesis by simp
      next
        case del: True
        let ?s1 = "s\<lparr>calls := calls s @ [DeleteMachineSet ?ms]\<rparr>"
        have step: "(case outcome E (calls s) (DeleteMachineSet ?ms) of
            None \<Rightarrow> deleteLoop E ps (i + 1) k ?s1
          | Some e \<Rightarrow> if isNotFound e then deleteLoop E ps (i + 1) k ?s1 else (Inl e, ?s1)) = (r, s')"
          using Suc.prems True Some del
          by (auto simp: deletable_def invoke_def split: option.splits if_splits)
        show ?thesis
        proof (cases "deleteLoop E ps (i + 1) k ?s1 = (r, s')")
          case True
          from Suc.IH [OF True] obtain j where
            "heap s' = heap s" "mdObj s' = mdObj s"
            "let ds = filter (\<lambda>p. deletable (heap s p)) (take k (drop (i + 1) ps)) in
               calls s' = calls s @ [DeleteMachineSet ?ms] @ map (\<lambda>p. DeleteMachineSet (heap s p)) (take j ds) \<and>
               (r = Inr () \<longrightarrow> take j ds = ds)"
            "i + 1 + k \<le> length ps \<longrightarrow> (\<forall>w. r = Inl (Panic w) \<longrightarrow>
               (\<exists>cs p. outcome E cs (DeleteMachineSet (heap s p)) = Some (Panic w)))"
            by (auto simp: Let_def)
          then show ?thesis using del seg by (auto simp: Let_def intro!: exI [of _ "Suc j"])
        next
          case False
          then obtain e where e: "outcome E (calls s) (DeleteMachineSet ?ms) = Some e" "r = Inl e" "s' = ?s1"
            using step by (auto split: option.splits if_splits)
          then show ?thesis using del seg by (auto simp: Let_def intro!: exI [of _ "Suc 0"]) blast
        qed
      qed
    qed
  qed
qed

lemma wrap32_length: "int n < 2 ^ 31 \<Longrightarrow> wrap32 (int n) = int n"
  by (simp add: in32_def)

text \<open>
  (C25) Cleaning up keeps the history and deletes nothing that is in use: the MachineSets it asks the
  server to delete are, in order of creation, those of the oldest beyond the history limit that are
  not being deleted, want and report no machines, and whose specification has been observed. All of
  them when it succeeds, an initial part of them when a call fails; never one of the newest \<open>limit\<close>
  MachineSets. It changes nothing else and, for a limit that is not negative, does not panic.
\<close>

theorem cleanupDeployment_safe:
  assumes "cleanupDeployment E oldMSs s = (r, s')"
    and "mdsRevisionHistoryLimit (mdSpec (mdObj s)) = Some limit" and "0 \<le> limit"
    and "int (length oldMSs) < 2 ^ 31" and "limit < 2 ^ 31"
    and "\<forall>cs c w. outcome E cs c \<noteq> Some (Panic w)"
  shows "let alive = filter (\<lambda>p. timeIsZero (mdeletionTimestamp (msMeta (heap s p)))) oldMSs;
      oldest = take (length alive - nat limit) (sortPtrs MachineSetsByCreationTimestamp (heap s) alive);
      todo = filter (\<lambda>p. deletable (heap s p)) oldest
    in heap s' = heap s \<and> mdObj s' = mdObj s \<and>
      (\<exists>j. calls s' = calls s @ map (\<lambda>p. DeleteMachineSet (heap s p)) (take j todo) \<and>
           (r = Inr () \<longrightarrow> take j todo = todo)) \<and>
      (\<forall>w. r \<noteq> Inl (Panic w))"
proof -
  define alive where "alive = filter (\<lambda>p. timeIsZero (mdeletionTimestamp (msMeta (heap s p)))) oldMSs"
  have len: "int (length alive) < 2 ^ 31"
    using assms(4) length_filter_le [of _ oldMSs] unfolding alive_def by (meson of_nat_mono order_le_less_trans)
  have w: "wrap32 (wrap32 (int (length alive)) - limit) = int (length alive) - limit"
    using len assms(3,5) by (subst wrap32_length) (auto simp: in32_def)
  define so where "so = sortPtrs MachineSetsByCreationTimestamp (heap s) alive"
  have run: "(if int (length alive) \<le> limit then (Inr (), s)
      else deleteLoop E so 0 (nat (int (length alive) - limit)) s) = (r, s')"
    using assms(1,2) w by (auto simp: cleanupDeployment_def Let_def alive_def so_def)
  show ?thesis
  proof (cases "int (length alive) \<le> limit")
    case True
    then have none: "length alive - nat limit = 0" by linarith
    have res: "r = Inr ()" "s' = s" using run True by simp_all
    show ?thesis unfolding res Let_def alive_def [symmetric] none by simp
  next
    case False
    then have k: "nat (int (length alive) - limit) = length alive - nat limit" using assms(3) by linarith
    have dl: "deleteLoop E so 0 (length alive - nat limit) s = (r, s')" using run False k by simp
    have "length so = length alive" by (simp add: so_def)
    with deleteLoop_calls [OF dl] assms(6) show ?thesis
      by (auto simp: Let_def alive_def [symmetric] so_def [symmetric])
  qed
qed

lemma deleteLoop_overrun:
  assumes "\<forall>cs c. outcome E cs c = None" and "\<forall>p \<in> set ps. msReplicas (heap s p) \<noteq> None"
    and "length ps < i + k" and "i \<le> length ps"
  shows "\<exists>s'. deleteLoop E ps i k s = (Inl (Panic ''index out of range''), s')"
  using assms(2-4)
proof (induction k arbitrary: i s)
  case 0
  then show ?case by simp
next
  case (Suc k)
  show ?case
  proof (cases "i < length ps")
    case False
    with Suc.prems show ?thesis by auto
  next
    case True
    then obtain n where n: "msReplicas (heap s (ps ! i)) = Some n" using Suc.prems(1) by (metis nth_mem option.exhaust)
    have next_i: "length ps < (i + 1) + k" "i + 1 \<le> length ps" using Suc.prems True by simp_all
    let ?s1 = "s\<lparr>calls := calls s @ [DeleteMachineSet (heap s (ps ! i))]\<rparr>"
    from Suc.IH [of s, OF Suc.prems(1) next_i] Suc.IH [of ?s1, OF _ next_i] Suc.prems(1)
    show ?thesis using True n assms(1) by (simp add: invoke_def)
  qed
qed

text \<open>
  Nothing keeps the history limit from being negative, and then cleaning up ends in an index out
  of range: the loop runs past the MachineSets it has, after it has tried to delete all of them.
\<close>

theorem cleanupDeployment_negative_limit:
  assumes "mdsRevisionHistoryLimit (mdSpec (mdObj s)) = Some limit" and "- (2 ^ 30) < limit" and "limit < 0"
    and "int (length oldMSs) < 2 ^ 30"
    and "\<forall>p \<in> set oldMSs. msReplicas (heap s p) \<noteq> None" and "\<forall>cs c. outcome E cs c = None"
  shows "\<exists>s'. cleanupDeployment E oldMSs s = (Inl (Panic ''index out of range''), s')"
proof -
  define alive where "alive = filter (\<lambda>p. timeIsZero (mdeletionTimestamp (msMeta (heap s p)))) oldMSs"
  have len: "int (length alive) < 2 ^ 30"
    using assms(4) length_filter_le [of _ oldMSs] unfolding alive_def by (meson of_nat_mono order_le_less_trans)
  have w: "wrap32 (wrap32 (int (length alive)) - limit) = int (length alive) - limit"
    using len assms(2,3) by (subst wrap32_length) (auto simp: in32_def)
  define so where "so = sortPtrs MachineSetsByCreationTimestamp (heap s) alive"
  have eq: "cleanupDeployment E oldMSs s = deleteLoop E so 0 (nat (int (length alive) - limit)) s"
    using assms(1,3) w by (simp add: cleanupDeployment_def Let_def alive_def so_def)
  have "set so \<subseteq> set oldMSs" by (auto simp: so_def alive_def)
  then have "\<forall>p \<in> set so. msReplicas (heap s p) \<noteq> None" using assms(5) by blast
  moreover have "length so < 0 + nat (int (length alive) - limit)" using assms(3) by (simp add: so_def)
  ultimately show ?thesis unfolding eq using deleteLoop_overrun [OF assms(6)] by blast
qed

definition cleanupState :: "int \<Rightarrow> mdState" where
  "cleanupState limit = \<lparr>heap = (\<lambda>p. if p = 0 then sampleMS ''a'' 0 0 1 else sampleMS ''b'' 0 0 2), nextPtr = 2,
     mdObj = (sampleMD 3 1 0)\<lparr>mdSpec := (mdSpec (sampleMD 3 1 0))\<lparr>mdsRevisionHistoryLimit := Some limit\<rparr>\<rparr>, calls = []\<rparr>"

lemma cleanupState_simps [simp]:
  "mdsRevisionHistoryLimit (mdSpec (mdObj (cleanupState l))) = Some l" "calls (cleanupState l) = []"
  "heap (cleanupState l) 0 = sampleMS ''a'' 0 0 1" "heap (cleanupState l) (Suc 0) = sampleMS ''b'' 0 0 2"
  "outcome sampleEnv cs c = None" "deletable (sampleMS nm 0 0 t)"
  "mdeletionTimestamp (msMeta (sampleMS nm n m t)) = None" "mgeneration (msMeta (sampleMS nm n m t)) = 0"
  "msstObservedGeneration (msStatus (sampleMS nm n m t)) = 0"
  by (simp_all add: cleanupState_def sampleEnv_def deletable_def sampleMS_def emptyMeta_def timeIsZero_def)

theorem cleanupDeployment_safe_witness:
  "\<exists>s'. cleanupDeployment sampleEnv [1, 0] (cleanupState 1) = (Inr (), s') \<and>
     calls s' = [DeleteMachineSet (sampleMS ''a'' 0 0 1)]"
proof -
  have so: "sortPtrs MachineSetsByCreationTimestamp (heap (cleanupState 1)) [Suc 0, 0] = [0, Suc 0]"
    by (simp add: sortPtrs_def sort_Sort_def MachineSetsByCreationTimestamp_def)
  obtain r s' where run: "cleanupDeployment sampleEnv [1, 0] (cleanupState 1) = (r, s')" by fastforce
  have ok: "r = Inr ()"
    using run by (simp add: cleanupDeployment_def so timeIsZero_def wrap32_def Let_def invoke_def)
  show ?thesis
    using cleanupDeployment_safe [OF run, of 1] run ok so by (auto simp: Let_def timeIsZero_def take_Cons')
qed

theorem cleanupDeployment_negative_limit_witness:
  "\<exists>s'. cleanupDeployment sampleEnv [0, 1] (cleanupState (- 1)) = (Inl (Panic ''index out of range''), s')"
  by (rule cleanupDeployment_negative_limit [of _ "- 1"]) simp_all

section \<open>Scaling down with the OnDelete strategy\<close>

text \<open>
  With the OnDelete strategy, when the deployment has more machines than it should, the old
  MachineSets together lose exactly the surplus, or all their machines when the surplus is larger;
  none goes below zero, and MachineSets outside the list are left alone.
\<close>

theorem onDelete_scaleDown_exact:
  assumes "onDeleteSecondLoop E ps amount s = (Inr (), s')" and "distinct ps"
    and "\<forall>p \<in> set ps. okMS (heap s p) \<and> repl (heap s p) < 2 ^ 31" and "0 \<le> amount" and "amount < 2 ^ 31"
  shows "(\<Sum>p \<leftarrow> ps. repl (heap s' p)) = max 0 ((\<Sum>p \<leftarrow> ps. repl (heap s p)) - amount) \<and>
    (\<forall>p \<in> set ps. 0 \<le> repl (heap s' p)) \<and> (\<forall>q. q \<notin> set ps \<longrightarrow> heap s' q = heap s q)"
  using assms
proof (induction ps arbitrary: s amount)
  case Nil
  then show ?case by simp
next
  case (Cons p ps)
  have ok: "msReplicas (heap s p) = Some (repl (heap s p))" "0 \<le> repl (heap s p)" "repl (heap s p) < 2 ^ 31"
    using Cons.prems(3) okMS_deref okMS_nonneg by auto
  have sum0: "0 \<le> (\<Sum>q \<leftarrow> ps. repl (heap s q))"
    using Cons.prems(3) okMS_nonneg by (auto intro!: sum_list_nonneg)
  have nn: "\<forall>q \<in> set (p # ps). 0 \<le> repl (heap s q)" using Cons.prems(3) okMS_nonneg by blast
  show ?case
  proof (cases "amount = 0")
    case True
    with Cons.prems(1) nn sum0 ok show ?thesis by auto
  next
    case False
    let ?r = "repl (heap s p)"
    let ?amount = "if ?r \<ge> amount then 0 else amount - ?r"
    show ?thesis
    proof (cases "?r = 0")
      case True
      then have "onDeleteSecondLoop E ps amount s = (Inr (), s')" using Cons.prems(1,4) ok False by simp
      from Cons.IH [OF this] Cons.prems True show ?thesis by auto
    next
      case pos: False
      obtain s1 where s1: "scaleMachineSet E p (if ?r \<ge> amount then ?r - amount else 0) s = (Inr (), s1)"
          "onDeleteSecondLoop E ps ?amount s1 = (Inr (), s')"
      proof (cases "?r \<ge> amount")
        case True
        then have "wrap32 (?r - amount) = ?r - amount" using ok Cons.prems(4) by (intro wrap32_id) (simp add: in32_def)
        then show ?thesis using that Cons.prems(1,4) ok pos False True by (auto elim!: bindE_Inr)
      next
        case lt: False
        then have "wrap32 (amount - ?r) = amount - ?r" using ok Cons.prems(5) by (intro wrap32_id) (simp add: in32_def)
        then show ?thesis using that Cons.prems(1,4) ok pos False lt by (auto elim!: bindE_Inr)
      qed
      note eff = scaleMachineSet_effect [OF s1(1)]
      have same: "heap s1 q = heap s q" if "q \<in> set ps" for q
        using eff(3) [of q] that Cons.prems(2) by auto
      have new: "repl (heap s1 p) = (if ?r \<ge> amount then ?r - amount else 0)" using eff(6) by (simp add: repl_def)
      have "heap s' p = heap s1 p" "(\<Sum>q \<leftarrow> ps. repl (heap s' q)) = max 0 ((\<Sum>q \<leftarrow> ps. repl (heap s q)) - ?amount)"
        "\<forall>q \<in> set ps. 0 \<le> repl (heap s' q)" "\<forall>q. q \<notin> set ps \<longrightarrow> heap s' q = heap s1 q"
        using Cons.IH [OF s1(2)] Cons.prems(2-5) same ok
        by (auto cong: map_cong)
      then show ?thesis using new ok eff(3) sum0 by (auto simp: max_def)
    qed
  qed
qed

theorem onDelete_scaleDown_exact_witness:
  "\<exists>s'. onDeleteSecondLoop sampleEnv [0, 1] 5 scaleState = (Inr (), s') \<and>
     (\<Sum>p \<leftarrow> [0, 1]. repl (heap s' p)) = 3"
proof -
  have n: "mdReplicas (mdObj scaleState) = Some 10" by (simp add: scaleState_def sampleMD_def)
  have env: "mdeps sampleEnv = sampleDeps" by (simp add: sampleEnv_def)
  have h: "heap scaleState 0 = sampleMS ''a'' 4 4 1" "heap scaleState (Suc 0) = sampleMS ''b'' 4 4 2"
    by (simp_all add: scaleState_def)
  have ann: "ReplicasAnnotationsNeedUpdate (sampleMS nm r a c) x y" for nm r a c x y
    by (simp add: ReplicasAnnotationsNeedUpdate_def sampleMS_def emptyMeta_def)
  obtain s' where run: "onDeleteSecondLoop sampleEnv [0, 1] 5 scaleState = (Inr (), s')"
    by (auto simp: scaleMachineSet_def n env h ann rolling_simps [OF scaleState_params] invoke_def setMS_def Let_def
        bindE_def wrap32_def)
  from onDelete_scaleDown_exact [OF this] run show ?thesis by (simp add: h)
qed

section \<open>A rolling update on a status that lags behind\<close>

text \<open>
  Three MachineSets of a deployment of three machines, with a surge of one and no unavailability
  allowed: an old one already scaled to zero whose three machines are still reported available, an
  old one of two and the new one of two.
\<close>

definition lagOld :: MachineSet where
  "lagOld = (sampleMS ''o1'' 0 3 1)\<lparr>msStatus := (msStatus (sampleMS ''o1'' 0 3 1))\<lparr>msstReplicas := 3\<rparr>\<rparr>"

lemma lagOld_simps [simp]:
  "repl lagOld = 0" "msAvailable lagOld = 3" "msReplicas lagOld = Some 0" "msName lagOld = ''o1''" "msCreated lagOld = 1"
  by (simp_all add: lagOld_def repl_def sampleMS_def emptyMeta_def)

definition lagState :: mdState where
  "lagState = \<lparr>heap = (\<lambda>p. if p = 0 then lagOld else if p = 1 then sampleMS ''o2'' 2 2 2
      else sampleMS ''new'' 2 2 3), nextPtr = 3, mdObj = sampleMD 3 1 0, calls = []\<rparr>"


end
