(* ===== verification/ClusterUtil.thy ===== *)
theory ClusterUtil
  imports ApiTypes
begin

text \<open>
  The Cluster object and the helpers every controller shares
  (\<open>src/cluster-api/util/util.go\<close>, \<open>src/cluster-api/util/annotations/helpers.go\<close>,
  \<open>src/cluster-api/util/labels/helpers.go\<close>): owner references, results, version skew, merged maps,
  the annotations that pause or exclude objects. Parsing of API versions is done by a library and is
  the parameter \<open>parseGV\<close>, which returns the group of an API version.
\<close>

section \<open>The Cluster object\<close>

record APIEndpoint =
  epHost :: string
  epPort :: int

definition endpointIsZero :: "APIEndpoint \<Rightarrow> bool" where
  "endpointIsZero v \<longleftrightarrow> epHost v = [] \<and> epPort v = 0"

definition endpointIsValid :: "APIEndpoint \<Rightarrow> bool" where
  "endpointIsValid v \<longleftrightarrow> epHost v \<noteq> [] \<and> epPort v \<noteq> 0"

record FailureDomainSpec =
  fdControlPlane :: bool
  fdAttributes :: "strmap option"

text \<open>A Go map that the code iterates over: its entries in the order of the iteration.\<close>

type_synonym FailureDomains = "(string \<times> FailureDomainSpec) list"

definition FilterControlPlane :: "FailureDomains \<Rightarrow> FailureDomains" where
  "FilterControlPlane fds = filter (\<lambda>(_, spec). fdControlPlane spec) fds"

definition GetIDs :: "FailureDomains \<Rightarrow> string list" where
  "GetIDs fds = map fst fds"

record Topology =
  tpClass :: string
  tpVersion :: string

record ClusterSpec =
  clPaused :: bool
  clControlPlaneEndpoint :: APIEndpoint
  clControlPlaneRef :: "ObjectReference option"
  clInfrastructureRef :: "ObjectReference option"
  clTopology :: "Topology option"

record ClusterStatus =
  clFailureDomains :: FailureDomains
  clFailureReason :: "string option"
  clFailureMessage :: "string option"
  clPhase :: string
  clInfrastructureReady :: bool
  clControlPlaneReady :: bool
  clConditions :: "Condition list"
  clObservedGeneration :: int

record Cluster =
  clMeta :: ObjMeta
  clSpec :: ClusterSpec
  clStatus :: ClusterStatus

definition setClusterConditions :: "Condition list \<Rightarrow> Cluster \<Rightarrow> Cluster" where
  "setClusterConditions cs c = c\<lparr>clStatus := (clStatus c)\<lparr>clConditions := cs\<rparr>\<rparr>"

interpretation cluster_conditions: condition_object "\<lambda>c. clConditions (clStatus c)" setClusterConditions
  by unfold_locales (simp_all add: setClusterConditions_def)

section \<open>Owner references\<close>

definition referSameObject :: "(string \<Rightarrow> string res) \<Rightarrow> OwnerReference \<Rightarrow> OwnerReference \<Rightarrow> bool" where
  "referSameObject parseGV a b =
     (case parseGV (orAPIVersion a) of
        Inl _ \<Rightarrow> False
      | Inr aG \<Rightarrow> (case parseGV (orAPIVersion b) of
                     Inl _ \<Rightarrow> False
                   | Inr bG \<Rightarrow> aG = bG \<and> orKind a = orKind b \<and> orName a = orName b))"

text \<open>The object a reference may point to: its group, kind and name.\<close>

definition refersTo :: "(string \<Rightarrow> string res) \<Rightarrow> OwnerReference \<Rightarrow> string \<Rightarrow> string \<Rightarrow> string \<Rightarrow> bool" where
  "refersTo parseGV ref objGroup objKind objName =
     (case parseGV (orAPIVersion ref) of
        Inl _ \<Rightarrow> False
      | Inr g \<Rightarrow> g = objGroup \<and> orKind ref = objKind \<and> orName ref = objName)"

fun indexFrom :: "nat \<Rightarrow> (OwnerReference \<Rightarrow> bool) \<Rightarrow> OwnerReference list \<Rightarrow> int" where
  "indexFrom i P [] = - 1"
| "indexFrom i P (r # rs) = (if P r then int i else indexFrom (Suc i) P rs)"

definition indexOwnerRef :: "(string \<Rightarrow> string res) \<Rightarrow> OwnerReference list \<Rightarrow> OwnerReference \<Rightarrow> int" where
  "indexOwnerRef parseGV refs ref = indexFrom 0 (\<lambda>r. referSameObject parseGV r ref) refs"

definition HasOwnerRef :: "(string \<Rightarrow> string res) \<Rightarrow> OwnerReference list \<Rightarrow> OwnerReference \<Rightarrow> bool" where
  "HasOwnerRef parseGV refs ref \<longleftrightarrow> indexOwnerRef parseGV refs ref > - 1"

definition EnsureOwnerRef :: "(string \<Rightarrow> string res) \<Rightarrow> OwnerReference list \<Rightarrow> OwnerReference \<Rightarrow> OwnerReference list" where
  "EnsureOwnerRef parseGV refs ref =
     (let idx = indexOwnerRef parseGV refs ref in
      if idx = - 1 then refs @ [ref] else refs[nat idx := ref])"

definition ReplaceOwnerRef :: "OwnerReference list \<Rightarrow> string \<Rightarrow> OwnerReference \<Rightarrow> OwnerReference list" where
  "ReplaceOwnerRef refs sourceUID target =
     (let fi = indexFrom 0 (\<lambda>r. orUID r = sourceUID) refs in
      if fi < 0 then refs @ [target] else refs[nat fi := target])"

definition RemoveOwnerRef :: "(string \<Rightarrow> string res) \<Rightarrow> OwnerReference list \<Rightarrow> OwnerReference \<Rightarrow> OwnerReference list" where
  "RemoveOwnerRef parseGV refs inputRef =
     (let index = indexOwnerRef parseGV refs inputRef in
      if index \<noteq> - 1 then take (nat index) refs @ drop (nat index + 1) refs else refs)"

definition IsOwnedByObject :: "(string \<Rightarrow> string res) \<Rightarrow> ObjMeta \<Rightarrow> string \<Rightarrow> string \<Rightarrow> string \<Rightarrow> bool" where
  "IsOwnedByObject parseGV obj g k n \<longleftrightarrow> (\<exists>ref \<in> set (mownerReferences obj). refersTo parseGV ref g k n)"

text \<open>\<open>metav1.GetControllerOfNoCopy\<close>: the first reference with the controller flag set.\<close>

definition GetControllerOf :: "ObjMeta \<Rightarrow> OwnerReference option" where
  "GetControllerOf obj = find (\<lambda>r. orController r = Some True) (mownerReferences obj)"

text \<open>\<open>metav1.IsControlledBy\<close>: the controller reference has the owner's UID.\<close>

definition metaIsControlledBy :: "ObjMeta \<Rightarrow> string \<Rightarrow> bool" where
  "metaIsControlledBy obj ownerUID =
     (case GetControllerOf obj of None \<Rightarrow> False | Some r \<Rightarrow> orUID r = ownerUID)"

definition IsControlledBy :: "(string \<Rightarrow> string res) \<Rightarrow> ObjMeta \<Rightarrow> string \<Rightarrow> string \<Rightarrow> string \<Rightarrow> bool" where
  "IsControlledBy parseGV obj g k n =
     (case GetControllerOf obj of None \<Rightarrow> False | Some r \<Rightarrow> refersTo parseGV r g k n)"

fun hasOwnerLoop :: "(string \<Rightarrow> string res) \<Rightarrow> string \<Rightarrow> string list \<Rightarrow> OwnerReference list \<Rightarrow> bool" where
  "hasOwnerLoop parseGV g kinds [] = False"
| "hasOwnerLoop parseGV g kinds (mr # mrs) =
     (case parseGV (orAPIVersion mr) of
        Inl _ \<Rightarrow> False
      | Inr mg \<Rightarrow> if mg = g \<and> orKind mr \<in> set kinds then True else hasOwnerLoop parseGV g kinds mrs)"

definition HasOwner :: "(string \<Rightarrow> string res) \<Rightarrow> OwnerReference list \<Rightarrow> string \<Rightarrow> string list \<Rightarrow> bool" where
  "HasOwner parseGV refList apiVersion kinds =
     (case parseGV apiVersion of Inl _ \<Rightarrow> False | Inr g \<Rightarrow> hasOwnerLoop parseGV g kinds refList)"

section \<open>Results, versions and maps\<close>

record ctrlResult =
  Requeue :: bool
  RequeueAfter :: int

abbreviation "emptyResult \<equiv> \<lparr>Requeue = False, RequeueAfter = 0\<rparr>"

definition resultIsZero :: "ctrlResult \<Rightarrow> bool" where
  "resultIsZero r \<longleftrightarrow> r = emptyResult"

definition LowestNonZeroResult :: "ctrlResult \<Rightarrow> ctrlResult \<Rightarrow> ctrlResult" where
  "LowestNonZeroResult i j =
     (if resultIsZero i then j
      else if resultIsZero j then i
      else if Requeue i then i
      else if Requeue j then j
      else if RequeueAfter i < RequeueAfter j then i
      else j)"

definition LowestNonZeroInt32 :: "int \<Rightarrow> int \<Rightarrow> int" where
  "LowestNonZeroInt32 i j = (if i = 0 then j else if j = 0 then i else if i < j then i else j)"

record semver =
  Major :: nat
  Minor :: nat
  Patch :: nat
  Pre :: "string list"
  Build :: "string list"

definition IsSupportedVersionSkew :: "semver \<Rightarrow> semver \<Rightarrow> bool" where
  "IsSupportedVersionSkew a b =
     (if Major a \<noteq> Major b then False
      else if Minor a > Minor b then Minor a - Minor b = 1
      else Minor b - Minor a \<le> 1)"

text \<open>The maps are added from the last to the first, so the first one that has a key decides.\<close>

definition MergeMap :: "strmap option list \<Rightarrow> strmap option" where
  "MergeMap maps =
     (let m = foldr (\<lambda>mp acc. case mp of None \<Rightarrow> acc | Some f \<Rightarrow> acc ++ f) maps Map.empty
      in if m = Map.empty then None else Some m)"

section \<open>Annotations and labels\<close>

definition PausedAnnotation :: string where "PausedAnnotation = ''cluster.x-k8s.io/paused''"
definition ManagedByAnnotation :: string where "ManagedByAnnotation = ''cluster.x-k8s.io/managed-by''"
definition MachineSkipRemediationAnnotation :: string where
  "MachineSkipRemediationAnnotation = ''cluster.x-k8s.io/skip-remediation''"
definition RemediateMachineAnnotation :: string where
  "RemediateMachineAnnotation = ''cluster.x-k8s.io/remediate-machine''"
definition ReplicasManagedByAnnotation :: string where
  "ReplicasManagedByAnnotation = ''cluster.x-k8s.io/replicas-managed-by''"
definition MachineControlPlaneLabel :: string where "MachineControlPlaneLabel = ''cluster.x-k8s.io/control-plane''"
definition MachinePoolNameLabel :: string where "MachinePoolNameLabel = ''cluster.x-k8s.io/pool-name''"
definition MachineSetNameLabel :: string where "MachineSetNameLabel = ''cluster.x-k8s.io/set-name''"
definition ClusterTopologyOwnedLabel :: string where "ClusterTopologyOwnedLabel = ''topology.cluster.x-k8s.io/owned''"
definition WatchLabel :: string where "WatchLabel = ''cluster.x-k8s.io/watch-filter''"

definition hasAnnotation :: "ObjMeta \<Rightarrow> string \<Rightarrow> bool" where
  "hasAnnotation obj annotation =
     (case mannotations obj of None \<Rightarrow> False | Some f \<Rightarrow> f annotation \<noteq> None)"

definition hasTruthyAnnotationValue :: "ObjMeta \<Rightarrow> string \<Rightarrow> bool" where
  "hasTruthyAnnotationValue obj annotation =
     (case mannotations obj of None \<Rightarrow> False
      | Some f \<Rightarrow> (case f annotation of Some val \<Rightarrow> val \<noteq> ''false'' | None \<Rightarrow> False))"

definition HasPaused :: "ObjMeta \<Rightarrow> bool" where "HasPaused obj = hasAnnotation obj PausedAnnotation"
definition IsExternallyManaged :: "ObjMeta \<Rightarrow> bool" where "IsExternallyManaged obj = hasAnnotation obj ManagedByAnnotation"
definition HasSkipRemediation :: "ObjMeta \<Rightarrow> bool" where
  "HasSkipRemediation obj = hasAnnotation obj MachineSkipRemediationAnnotation"
definition HasRemediateMachine :: "ObjMeta \<Rightarrow> bool" where
  "HasRemediateMachine obj = hasAnnotation obj RemediateMachineAnnotation"
definition ReplicasManagedByExternalAutoscaler :: "ObjMeta \<Rightarrow> bool" where
  "ReplicasManagedByExternalAutoscaler obj = hasTruthyAnnotationValue obj ReplicasManagedByAnnotation"

definition IsPaused :: "Cluster \<Rightarrow> ObjMeta \<Rightarrow> bool" where
  "IsPaused cluster obj = (if clPaused (clSpec cluster) then True else HasPaused obj)"

text \<open>The desired annotations in the order of the map's iteration; the flag says whether any changed.\<close>

fun addLoop :: "(string \<times> string) list \<Rightarrow> strmap \<Rightarrow> bool \<Rightarrow> strmap \<times> bool" where
  "addLoop [] anns changed = (anns, changed)"
| "addLoop ((k, v) # kvs) anns changed =
     (if anns k = None \<or> anns k \<noteq> Some v then addLoop kvs (anns(k \<mapsto> v)) True else addLoop kvs anns changed)"

definition AddAnnotations :: "ObjMeta \<Rightarrow> (string \<times> string) list \<Rightarrow> ObjMeta \<times> bool" where
  "AddAnnotations obj desired =
     (if length desired = 0 then (obj, False)
      else let (anns, changed) = addLoop desired (case mannotations obj of None \<Rightarrow> Map.empty | Some f \<Rightarrow> f) False
           in (obj\<lparr>mannotations := Some anns\<rparr>, changed))"

definition IsControlPlaneMachine :: "Machine \<Rightarrow> bool" where
  "IsControlPlaneMachine m \<longleftrightarrow> mlookup (mlabels (mchMeta m)) MachineControlPlaneLabel \<noteq> None"

definition IsTopologyOwned :: "ObjMeta \<Rightarrow> bool" where
  "IsTopologyOwned obj \<longleftrightarrow> mlookup (mlabels obj) ClusterTopologyOwnedLabel \<noteq> None"

definition IsMachinePoolOwned :: "ObjMeta \<Rightarrow> bool" where
  "IsMachinePoolOwned obj =
     (if mlookup (mlabels obj) MachinePoolNameLabel \<noteq> None then True
      else \<exists>r \<in> set (mownerReferences obj). orKind r = ''MachinePool'')"

definition HasWatchLabel :: "ObjMeta \<Rightarrow> string \<Rightarrow> bool" where
  "HasWatchLabel obj labelValue =
     (case mlookup (mlabels obj) WatchLabel of None \<Rightarrow> False | Some v \<Rightarrow> v = labelValue)"

text \<open>Condition types and reasons of \<open>src/cluster-api/api/v1beta1/condition_consts.go\<close>.\<close>

abbreviation "DeletingReason \<equiv> ''Deleting''"
abbreviation "InfrastructureReadyCondition \<equiv> ''InfrastructureReady''"
abbreviation "BootstrapReadyCondition \<equiv> ''BootstrapReady''"
abbreviation "ControlPlaneInitializedCondition \<equiv> ''ControlPlaneInitialized''"
abbreviation "MachineHealthCheckSucceededCondition \<equiv> ''HealthCheckSucceeded''"
abbreviation "MachineOwnerRemediatedCondition \<equiv> ''OwnerRemediated''"
abbreviation "MachineNodeHealthyCondition \<equiv> ''NodeHealthy''"
abbreviation "WaitingForRemediationReason \<equiv> ''WaitingForRemediation''"
abbreviation "RemediationFailedReason \<equiv> ''RemediationFailed''"
abbreviation "RemediationInProgressReason \<equiv> ''RemediationInProgress''"
abbreviation "MachineHasFailureReason \<equiv> ''MachineHasFailure''"
abbreviation "HasRemediateMachineAnnotationReason \<equiv> ''HasRemediateMachineAnnotation''"
abbreviation "NodeStartupTimeoutReason \<equiv> ''NodeStartupTimeout''"
abbreviation "UnhealthyNodeConditionReason \<equiv> ''UnhealthyNode''"
abbreviation "NodeNotFoundReason \<equiv> ''NodeNotFound''"
abbreviation "RemediationAllowedCondition \<equiv> ''RemediationAllowed''"
abbreviation "TooManyUnhealthyReason \<equiv> ''TooManyUnhealthy''"
abbreviation "MachinesCreatedCondition \<equiv> ''MachinesCreated''"
abbreviation "MachinesReadyCondition \<equiv> ''MachinesReady''"
abbreviation "PreflightCheckFailedReason \<equiv> ''PreflightCheckFailed''"
abbreviation "BootstrapTemplateCloningFailedReason \<equiv> ''BootstrapTemplateCloningFailed''"
abbreviation "InfrastructureTemplateCloningFailedReason \<equiv> ''InfrastructureTemplateCloningFailed''"
abbreviation "MachineCreationFailedReason \<equiv> ''MachineCreationFailed''"
abbreviation "ResizedCondition \<equiv> ''Resized''"
abbreviation "ScalingUpReason \<equiv> ''ScalingUp''"
abbreviation "ScalingDownReason \<equiv> ''ScalingDown''"

section \<open>What the owner-reference operations keep\<close>

lemma indexFrom_cases:
  obtains (absent) "\<forall>r \<in> set rs. \<not> P r" "\<And>i. indexFrom i P rs = - 1"
  | (present) xs r ys where "rs = xs @ r # ys" "\<forall>x \<in> set xs. \<not> P x" "P r" "\<And>i. indexFrom i P rs = int (i + length xs)"
proof (induction rs arbitrary: thesis)
  case Nil
  then show ?case by simp
next
  case (Cons r rs)
  show ?case
  proof (cases "P r")
    case True
    then show ?thesis using Cons.prems(2) [of "[]" r rs] by simp
  next
    case False
    show ?thesis
    proof (rule Cons.IH)
      assume "\<forall>x \<in> set rs. \<not> P x" "\<And>i. indexFrom i P rs = - 1"
      then show thesis using Cons.prems(1) False by simp
    next
      fix xs x ys assume "rs = xs @ x # ys" "\<forall>x \<in> set xs. \<not> P x" "P x" "\<And>i. indexFrom i P rs = int (i + length xs)"
      then show thesis using Cons.prems(2) [of "r # xs" x ys] False by simp
    qed
  qed
qed

lemma referSameObject_sym: "referSameObject p a b = referSameObject p b a"
  by (auto simp: referSameObject_def split: sum.splits)

lemma referSameObject_trans: "referSameObject p a b \<Longrightarrow> referSameObject p b c \<Longrightarrow> referSameObject p a c"
  by (auto simp: referSameObject_def split: sum.splits)

lemma referSameObject_refl: "p (orAPIVersion a) = Inr g \<Longrightarrow> referSameObject p a a"
  by (simp add: referSameObject_def)

text \<open>No two references of the list point to the same object.\<close>

definition uniqueRefs :: "(string \<Rightarrow> string res) \<Rightarrow> OwnerReference list \<Rightarrow> bool" where
  "uniqueRefs p refs \<longleftrightarrow> sorted_wrt (\<lambda>a b. \<not> referSameObject p a b) refs"

lemma HasOwnerRef_iff: "HasOwnerRef p refs ref \<longleftrightarrow> (\<exists>r \<in> set refs. referSameObject p r ref)"
  by (rule indexFrom_cases [of refs "\<lambda>r. referSameObject p r ref"])
    (auto simp: HasOwnerRef_def indexOwnerRef_def)

lemma EnsureOwnerRef_cases:
  obtains (absent) "\<forall>r \<in> set refs. \<not> referSameObject p r ref" "EnsureOwnerRef p refs ref = refs @ [ref]"
      "RemoveOwnerRef p refs ref = refs"
  | (present) xs r ys where "refs = xs @ r # ys" "\<forall>x \<in> set xs. \<not> referSameObject p x ref" "referSameObject p r ref"
      "EnsureOwnerRef p refs ref = xs @ ref # ys" "RemoveOwnerRef p refs ref = xs @ ys"
proof (rule indexFrom_cases [of refs "\<lambda>r. referSameObject p r ref"])
  assume "\<forall>r \<in> set refs. \<not> referSameObject p r ref" "\<And>i. indexFrom i (\<lambda>r. referSameObject p r ref) refs = - 1"
  then show thesis using absent by (simp add: EnsureOwnerRef_def RemoveOwnerRef_def indexOwnerRef_def)
next
  fix xs r ys assume "refs = xs @ r # ys" "\<forall>x \<in> set xs. \<not> referSameObject p x ref" "referSameObject p r ref"
    "\<And>i. indexFrom i (\<lambda>r. referSameObject p r ref) refs = int (i + length xs)"
  then show thesis
    using present [of xs r ys] by (simp add: EnsureOwnerRef_def RemoveOwnerRef_def indexOwnerRef_def)
qed

text \<open>
  (C37) Owner references stay a set keyed by group, kind and name: ensuring a reference keeps one entry
  per object, makes the reference itself an entry, touches no entry of another object and is
  idempotent; removing it afterwards gives what removing it before would have given, and then no
  entry for the object is left.
\<close>

theorem ownerRefs_keyed:
  assumes "uniqueRefs parseGV refs" and "parseGV (orAPIVersion ref) = Inr g"
  defines "refs' \<equiv> EnsureOwnerRef parseGV refs ref"
  shows "uniqueRefs parseGV refs' \<and> ref \<in> set refs' \<and> HasOwnerRef parseGV refs' ref \<and>
    (\<forall>r. \<not> referSameObject parseGV r ref \<longrightarrow> (r \<in> set refs' \<longleftrightarrow> r \<in> set refs)) \<and>
    EnsureOwnerRef parseGV refs' ref = refs' \<and>
    RemoveOwnerRef parseGV refs' ref = RemoveOwnerRef parseGV refs ref \<and>
    \<not> HasOwnerRef parseGV (RemoveOwnerRef parseGV refs ref) ref"
proof -
  have self: "referSameObject parseGV ref ref" using assms(2) by (rule referSameObject_refl)
  have idem: "EnsureOwnerRef parseGV (xs @ ref # ys) ref = xs @ ref # ys \<and>
      RemoveOwnerRef parseGV (xs @ ref # ys) ref = xs @ ys"
    if "\<forall>x \<in> set xs. \<not> referSameObject parseGV x ref" for xs ys
  proof (rule EnsureOwnerRef_cases [of "xs @ ref # ys" parseGV ref])
    assume "\<forall>r \<in> set (xs @ ref # ys). \<not> referSameObject parseGV r ref"
    then show ?thesis using self by simp
  next
    fix as r bs assume *: "xs @ ref # ys = as @ r # bs" "\<forall>x \<in> set as. \<not> referSameObject parseGV x ref"
      "referSameObject parseGV r ref" "EnsureOwnerRef parseGV (xs @ ref # ys) ref = as @ ref # bs"
      "RemoveOwnerRef parseGV (xs @ ref # ys) ref = as @ bs"
    have "as = xs \<and> r = ref \<and> bs = ys"
      using *(1-3) that self by (auto simp: append_eq_append_conv2 append_eq_Cons_conv Cons_eq_append_conv)
    with * show ?thesis by simp
  qed
  show ?thesis
  proof (rule EnsureOwnerRef_cases [of refs parseGV ref])
    assume a: "\<forall>r \<in> set refs. \<not> referSameObject parseGV r ref"
      "EnsureOwnerRef parseGV refs ref = refs @ [ref]" "RemoveOwnerRef parseGV refs ref = refs"
    then show ?thesis
      using assms(1) self idem [of refs "[]"] by (auto simp: refs'_def HasOwnerRef_iff uniqueRefs_def sorted_wrt_append)
  next
    fix xs r ys assume a: "refs = xs @ r # ys" "\<forall>x \<in> set xs. \<not> referSameObject parseGV x ref"
      "referSameObject parseGV r ref" "EnsureOwnerRef parseGV refs ref = xs @ ref # ys"
      "RemoveOwnerRef parseGV refs ref = xs @ ys"
    have ys: "\<not> referSameObject parseGV y ref" if "y \<in> set ys" for y
    proof
      assume "referSameObject parseGV y ref"
      then have "referSameObject parseGV r y" using a(3) referSameObject_trans referSameObject_sym by metis
      with assms(1) a(1) that show False by (auto simp: uniqueRefs_def sorted_wrt_append)
    qed
    have "uniqueRefs parseGV (xs @ ref # ys)"
      using assms(1) a(1,2) ys referSameObject_sym [of parseGV ref] by (auto simp: uniqueRefs_def sorted_wrt_append)
    with a self ys idem [OF a(2)] show ?thesis by (auto simp: refs'_def HasOwnerRef_iff)
  qed
qed

theorem ownerRefs_keyed_witness:
  "let r1 = \<lparr>orAPIVersion = ''g/v1'', orKind = ''K'', orName = ''a'', orUID = ''1'', orController = None,
        orBlockOwnerDeletion = None\<rparr>; r2 = r1\<lparr>orAPIVersion := ''g/v2'', orUID := ''2''\<rparr>
   in EnsureOwnerRef (\<lambda>v. Inr (hd (Split (CHR ''/'') v))) [r1] r2 = [r2] \<and>
      uniqueRefs (\<lambda>v. Inr (hd (Split (CHR ''/'') v))) [r2]"
proof -
  let ?p = "\<lambda>v. Inr (hd (Split (CHR ''/'') v)) :: string res"
  let ?r1 = "\<lparr>orAPIVersion = ''g/v1'', orKind = ''K'', orName = ''a'', orUID = ''1'', orController = None,
        orBlockOwnerDeletion = None\<rparr>"
  let ?r2 = "?r1\<lparr>orAPIVersion := ''g/v2'', orUID := ''2''\<rparr>"
  have "EnsureOwnerRef ?p [?r1] ?r2 = [?r2]"
    by (simp add: EnsureOwnerRef_def indexOwnerRef_def referSameObject_def)
  moreover have "uniqueRefs ?p [?r1]" by (simp add: uniqueRefs_def)
  ultimately show ?thesis
    using ownerRefs_keyed [of ?p "[?r1]" ?r2 "''g''"] by simp
qed

end
