(* ===== verification/VersionUtil.thy ===== *)
theory VersionUtil
  imports ClusterUtil "HOL-Library.Word"
begin

text \<open>
  Versions and label values: \<open>src/cluster-api/util/version/version.go\<close> and
  \<open>src/cluster-api/util/labels/format/helpers.go\<close>. The regular expression of Kubernetes versions is
  written out as a scanner; the semantic-version comparison of the library is the parameter
  \<open>semverCompare\<close>, the label validation of the API machinery is the parameter \<open>labelErrors\<close>. The
  FNV-1a hash and the base64 encoding of the standard library are modelled.
\<close>

unbundle bit_operations_syntax

section \<open>Parsing\<close>

text \<open>The group \<open>(0|[1-9][0-9]*)\<close>: a zero, or a number without leading zero, as long as possible.\<close>

definition scanNumber :: "string \<Rightarrow> (string \<times> string) option" where
  "scanNumber s =
     (case s of
        [] \<Rightarrow> None
      | c # cs \<Rightarrow>
          if c = CHR ''0'' then Some ([c], cs)
          else if is_digit c then Some (c # takeWhile is_digit cs, dropWhile is_digit cs)
          else None)"

definition suffixChar :: "char \<Rightarrow> bool" where
  "suffixChar c \<longleftrightarrow> is_digit c \<or> (65 \<le> (of_char c :: nat) \<and> (of_char c :: nat) \<le> 90) \<or>
     (97 \<le> (of_char c :: nat) \<and> (of_char c :: nat) \<le> 122) \<or> c \<in> {CHR ''-'', CHR ''_'', CHR ''.'', CHR ''+''}"

definition scanDot :: "string \<Rightarrow> string option" where
  "scanDot s = (case s of [] \<Rightarrow> None | c # cs \<Rightarrow> if c = CHR ''.'' then Some cs else None)"

definition scanPrefix :: "bool \<Rightarrow> string \<Rightarrow> string option" where
  "scanPrefix tolerant s =
     (case s of
        c # cs \<Rightarrow> if c = CHR ''v'' then Some cs else if tolerant then Some s else None
      | [] \<Rightarrow> if tolerant then Some [] else None)"

text \<open>The three numbers \<open>FindStringSubmatch\<close> finds, or none if the version does not match.\<close>

definition kubeSemver :: "bool \<Rightarrow> string \<Rightarrow> (string \<times> string \<times> string) option" where
  "kubeSemver tolerant version =
     Option.bind (scanPrefix tolerant version) (\<lambda>s0.
     Option.bind (scanNumber s0) (\<lambda>(major, s1).
     Option.bind (scanDot s1) (\<lambda>s2.
     Option.bind (scanNumber s2) (\<lambda>(minor, s3).
     Option.bind (scanDot s3) (\<lambda>s4.
     Option.bind (scanNumber s4) (\<lambda>(patch, s5).
       if list_all suffixChar s5 then Some (major, minor, patch) else None))))))"

definition wrapR :: "string \<Rightarrow> 'a res \<Rightarrow> 'a res" where
  "wrapR msg r = (case r of Inl e \<Rightarrow> Inl (Wrap msg e) | Inr x \<Rightarrow> Inr x)"

definition parseMajorMinorPatch :: "string \<Rightarrow> bool \<Rightarrow> semver res" where
  "parseMajorMinorPatch version tolerant =
     (case kubeSemver tolerant version of
        None \<Rightarrow> Inl (Err ''failed to parse major.minor.patch'')
      | Some (g1, g2, g3) \<Rightarrow>
          bindR (wrapR ''failed to parse major version'' (ParseUint 64 g1)) (\<lambda>major.
          bindR (wrapR ''failed to parse minor version'' (ParseUint 64 g2)) (\<lambda>minor.
          bindR (wrapR ''failed to parse patch version'' (ParseUint 64 g3)) (\<lambda>patch.
            Inr \<lparr>Major = major, Minor = minor, Patch = patch, Pre = [], Build = []\<rparr>))))"

definition ParseMajorMinorPatch :: "string \<Rightarrow> semver res" where
  "ParseMajorMinorPatch version = parseMajorMinorPatch version False"

definition ParseMajorMinorPatchTolerant :: "string \<Rightarrow> semver res" where
  "ParseMajorMinorPatchTolerant version = parseMajorMinorPatch version True"

section \<open>Comparing\<close>

definition containsOnly :: "string \<Rightarrow> string \<Rightarrow> bool" where
  "containsOnly s st = list_all (\<lambda>c. c \<in> set st) s"

record buildIdentifier =
  IdentifierInt :: nat
  IdentifierStr :: string
  IsNum :: bool

text \<open>The value \<open>strconv.ParseUint\<close> returns on digits, its error ignored: the maximum if out of range.\<close>

definition parseUintValue :: "string \<Rightarrow> nat" where
  "parseUintValue s = (case parse_digits 0 s of None \<Rightarrow> 0 | Some n \<Rightarrow> min n (2 ^ 64 - 1))"

definition newBuildIdentifier :: "string \<Rightarrow> buildIdentifier" where
  "newBuildIdentifier s =
     (if containsOnly s ''01234567890''
      then \<lparr>IdentifierInt = parseUintValue s, IdentifierStr = [], IsNum = True\<rparr>
      else \<lparr>IdentifierInt = 0, IdentifierStr = s, IsNum = False\<rparr>)"

definition newBuildIdentifiers :: "string list \<Rightarrow> buildIdentifier list" where
  "newBuildIdentifiers ids = map newBuildIdentifier ids"

definition compareIdentifier :: "buildIdentifier \<Rightarrow> buildIdentifier \<Rightarrow> int" where
  "compareIdentifier v w =
     (if IsNum v \<and> \<not> IsNum w then - 1
      else if \<not> IsNum v \<and> IsNum w then 1
      else if IsNum v \<and> IsNum w then
        (if IdentifierInt v < IdentifierInt w then - 1
         else if IdentifierInt v = IdentifierInt w then 0 else 1)
      else if IdentifierStr v = IdentifierStr w then 0 else 2)"

fun compareIdentifiers :: "buildIdentifier list \<Rightarrow> buildIdentifier list \<Rightarrow> int" where
  "compareIdentifiers [] [] = 0"
| "compareIdentifiers [] (w # ws) = - 1"
| "compareIdentifiers (v # vs) [] = 1"
| "compareIdentifiers (v # vs) (w # ws) =
     (let c = compareIdentifier v w in if c \<noteq> 0 then c else compareIdentifiers vs ws)"

datatype CompareOption = WithBuildTags | WithoutPreReleases

definition Compare :: "(semver \<Rightarrow> semver \<Rightarrow> int) \<Rightarrow> semver \<Rightarrow> semver \<Rightarrow> CompareOption list \<Rightarrow> int" where
  "Compare semverCompare a b options =
     (let dropPre = (\<lambda>v. if WithoutPreReleases \<in> set options then v\<lparr>Pre := []\<rparr> else v);
          a = dropPre a; b = dropPre b
      in if WithBuildTags \<in> set options then
           (if semverCompare a b \<noteq> 0 then semverCompare a b
            else compareIdentifiers (newBuildIdentifiers (Build a)) (newBuildIdentifiers (Build b)))
         else semverCompare a b)"

section \<open>Label values\<close>

definition fnv32a :: "string \<Rightarrow> 32 word" where
  "fnv32a s = foldl (\<lambda>h c. (h XOR word_of_nat (of_char c)) * 16777619) 2166136261 s"

definition bigEndian :: "32 word \<Rightarrow> nat list" where
  "bigEndian w = (let n = unat w in [n div 2 ^ 24, n div 2 ^ 16 mod 256, n div 2 ^ 8 mod 256, n mod 256])"

definition urlAlphabet :: string where
  "urlAlphabet = ''ABCDEFGHIJKLMNOPQRSTUVWXYZabcdefghijklmnopqrstuvwxyz0123456789-_''"

fun base64 :: "nat list \<Rightarrow> string" where
  "base64 [] = []"
| "base64 [a] = [urlAlphabet ! (a div 4), urlAlphabet ! (a mod 4 * 16)]"
| "base64 [a, b] = [urlAlphabet ! (a div 4), urlAlphabet ! (a mod 4 * 16 + b div 16), urlAlphabet ! (b mod 16 * 4)]"
| "base64 (a # b # c # bs) =
     [urlAlphabet ! (a div 4), urlAlphabet ! (a mod 4 * 16 + b div 16),
      urlAlphabet ! (b mod 16 * 4 + c div 64), urlAlphabet ! (c mod 64)] @ base64 bs"

definition MustFormatValue :: "(string \<Rightarrow> string list) \<Rightarrow> string \<Rightarrow> string" where
  "MustFormatValue labelErrors str =
     (if length (labelErrors str) = 0 then str
      else ''hash_'' @ base64 (bigEndian (fnv32a str)) @ ''_z'')"

definition MustEqualValue :: "(string \<Rightarrow> string list) \<Rightarrow> string \<Rightarrow> string \<Rightarrow> bool" where
  "MustEqualValue labelErrors str labelValue \<longleftrightarrow> labelValue = MustFormatValue labelErrors str"

section \<open>Parsing and printing\<close>

text \<open>The strings the number group accepts are exactly the printed numbers.\<close>

lemma digit_cases:
  assumes "is_digit c"
  shows "digit_val c < 10" "digit_char (digit_val c) = c"
proof -
  have "48 \<le> (of_char c :: nat)" "(of_char c :: nat) \<le> 57" using assms by (simp_all add: is_digit_def)
  then show "digit_val c < 10" "digit_char (digit_val c) = c" by (simp_all add: digit_val_def digit_char_def)
qed

lemma digit_char_0 [simp]: "digit_char 0 = CHR ''0''"
  by code_simp

lemma parse_digits_list_all: "parse_digits acc cs = Some n \<Longrightarrow> list_all is_digit cs"
  by (induction cs arbitrary: acc) (auto split: if_splits)

lemma parse_digits_ex: "list_all is_digit cs \<Longrightarrow> \<exists>n. parse_digits acc cs = Some n"
  by (induction cs arbitrary: acc) auto

lemma format_parse_digits:
  assumes "list_all is_digit cs" and "is_digit c" and "c \<noteq> CHR ''0''" and "parse_digits 0 (c # cs) = Some n"
  shows "format_nat n = c # cs"
  using assms(1,4)
proof (induction cs arbitrary: n rule: rev_induct)
  case Nil
  have "digit_val c \<noteq> 0" using assms(3) digit_cases(2) [OF assms(2)] by (metis digit_char_0)
  with Nil assms(2) digit_cases [OF assms(2)] show ?case by (simp add: format_nat.simps [of n])
next
  case (snoc d cs)
  obtain m where m: "parse_digits 0 (c # cs) = Some m" using parse_digits_ex snoc.prems(1) assms(2)
    by (metis list_all_append list.pred_inject(2))
  have d: "is_digit d" using snoc.prems(1) by simp
  have n: "n = m * 10 + digit_val d"
    using snoc.prems(2) m d parse_digits_append [of 0 "c # cs" "[d]"] by simp
  have ih: "format_nat m = c # cs" using snoc.IH m snoc.prems(1) by simp
  have "0 < m"
  proof (rule ccontr)
    assume "\<not> 0 < m"
    then have "format_nat m = ''0''" by (simp add: format_nat.simps)
    with ih assms(3) show False by simp
  qed
  then have "n div 10 = m" "n mod 10 = digit_val d" "\<not> n < 10" using n digit_cases(1) [OF d] by simp_all
  with digit_cases(2) [OF d] ih show ?case by (simp add: format_nat.simps [of n])
qed

lemma format_nat_hd: "format_nat n = c # cs \<Longrightarrow> is_digit c \<and> list_all is_digit cs \<and> (c = CHR ''0'' \<longrightarrow> cs = [] \<and> n = 0)"
proof (induction n arbitrary: c cs rule: format_nat.induct)
  case (1 n)
  show ?case
  proof (cases "n < 10")
    case True
    then have c: "c = digit_char n" "cs = []" using 1(2) by (simp_all add: format_nat.simps [of n])
    have "n = 0" if "digit_char n = CHR ''0''"
      using of_char_digit_char [OF True] that by simp
    with c True show ?thesis by simp
  next
    case False
    obtain d ds where d: "format_nat (n div 10) = d # ds" using format_nat_nonempty by (metis neq_Nil_conv)
    have ih: "is_digit d" "list_all is_digit ds" "d \<noteq> CHR ''0''" using 1(1) [OF False d] False by auto
    have "c # cs = (d # ds) @ [digit_char (n mod 10)]"
      using 1(2) False d by (simp add: format_nat.simps [of n])
    with ih show ?thesis by auto
  qed
qed

lemma scanNumber_iff:
  "scanNumber s = Some (g, rest) \<longleftrightarrow>
    (\<exists>n. g = format_nat n \<and> s = g @ rest \<and> (n = 0 \<or> rest = [] \<or> \<not> is_digit (hd rest)))"
proof
  assume scan: "scanNumber s = Some (g, rest)"
  then obtain c cs where s: "s = c # cs" by (cases s) (auto simp: scanNumber_def)
  show "\<exists>n. g = format_nat n \<and> s = g @ rest \<and> (n = 0 \<or> rest = [] \<or> \<not> is_digit (hd rest))"
  proof (cases "c = CHR ''0''")
    case True
    then have "g = format_nat 0" "s = g @ rest" using scan s by (auto simp: scanNumber_def format_nat.simps)
    then show ?thesis by blast
  next
    case False
    then have c: "is_digit c" "g = c # takeWhile is_digit cs" "rest = dropWhile is_digit cs"
      using scan s by (auto simp: scanNumber_def split: if_splits)
    have all: "list_all is_digit (takeWhile is_digit cs)" by (auto simp: list_all_iff dest: set_takeWhileD)
    obtain n where n: "parse_digits 0 g = Some n" using parse_digits_ex [of g 0] c(1,2) all by auto
    have "g = format_nat n" using format_parse_digits [OF all c(1) False] n c(2) by simp
    moreover have "s = g @ rest" using s c by simp
    moreover have "rest = [] \<or> \<not> is_digit (hd rest)" using hd_dropWhile [of is_digit cs] c(3) by auto
    ultimately show ?thesis by blast
  qed
next
  assume "\<exists>n. g = format_nat n \<and> s = g @ rest \<and> (n = 0 \<or> rest = [] \<or> \<not> is_digit (hd rest))"
  then obtain n where n: "g = format_nat n" "s = g @ rest" "n = 0 \<or> rest = [] \<or> \<not> is_digit (hd rest)" by blast
  obtain c cs where g: "g = c # cs" using n(1) format_nat_nonempty by (metis neq_Nil_conv)
  note h = format_nat_hd [of n c cs, folded n(1), OF g]
  show "scanNumber s = Some (g, rest)"
  proof (cases "c = CHR ''0''")
    case True
    with h n(2) g show ?thesis by (simp add: scanNumber_def)
  next
    case False
    have "format_nat 0 = ''0''" by (simp add: format_nat.simps)
    then have "n \<noteq> 0" using n(1) g False by (metis list.inject)
    with n have tail: "rest = [] \<or> \<not> is_digit (hd rest)" by simp
    have "takeWhile is_digit (cs @ rest) = cs" "dropWhile is_digit (cs @ rest) = rest"
      using h tail by (cases rest; simp add: list_all_iff takeWhile_append dropWhile_append)+
    with False h n(2) g show ?thesis by (simp add: scanNumber_def)
  qed
qed

lemma scanDot_iff: "scanDot s = Some t \<longleftrightarrow> s = CHR ''.'' # t"
  by (auto simp: scanDot_def split: list.splits if_splits)

lemma dot_not_digit: "\<not> is_digit (CHR ''.'')"
  by (simp add: is_digit_def)

definition printVersion :: "semver \<Rightarrow> string" where
  "printVersion v = format_nat (Major v) @ ''.'' @ format_nat (Minor v) @ ''.'' @ format_nat (Patch v)"

text \<open>What may follow the patch number: allowed characters, and no digit unless the patch is zero.\<close>

definition properSuffix :: "nat \<Rightarrow> string \<Rightarrow> bool" where
  "properSuffix patch suffix \<longleftrightarrow> list_all suffixChar suffix \<and> (patch = 0 \<or> suffix = [] \<or> \<not> is_digit (hd suffix))"

lemma kubeSemver_iff:
  "kubeSemver False s = Some (g1, g2, g3) \<longleftrightarrow>
    (\<exists>a b c suffix. g1 = format_nat a \<and> g2 = format_nat b \<and> g3 = format_nat c \<and> properSuffix c suffix \<and>
       s = ''v'' @ format_nat a @ ''.'' @ format_nat b @ ''.'' @ format_nat c @ suffix)"
proof -
  have "kubeSemver False s = Some (g1, g2, g3) \<longleftrightarrow>
    (\<exists>s0 s1 s2 s3 s4 s5. s = CHR ''v'' # s0 \<and> scanNumber s0 = Some (g1, s1) \<and> s1 = CHR ''.'' # s2 \<and>
       scanNumber s2 = Some (g2, s3) \<and> s3 = CHR ''.'' # s4 \<and> scanNumber s4 = Some (g3, s5) \<and> list_all suffixChar s5)"
    by (auto simp: kubeSemver_def scanPrefix_def bind_eq_Some_conv scanDot_iff split: list.splits if_splits) blast
  also have "\<dots> \<longleftrightarrow> (\<exists>a b c suffix. g1 = format_nat a \<and> g2 = format_nat b \<and> g3 = format_nat c \<and> properSuffix c suffix \<and>
       s = ''v'' @ format_nat a @ ''.'' @ format_nat b @ ''.'' @ format_nat c @ suffix)"
    by (fastforce simp: scanNumber_iff dot_not_digit properSuffix_def)
  finally show ?thesis .
qed

text \<open>
  Parsing a Kubernetes version is the inverse of printing one: a string parses to a version
  exactly when it is \<open>v\<close>, the three numbers of the version without leading zeros and separated by
  dots, each below \<open>2^64\<close>, and a suffix of allowed characters, which is dropped.
\<close>

theorem ParseMajorMinorPatch_iff:
  "ParseMajorMinorPatch s = Inr v \<longleftrightarrow>
    (\<exists>suffix. s = ''v'' @ printVersion v @ suffix \<and> properSuffix (Patch v) suffix) \<and>
    Major v < 2 ^ 64 \<and> Minor v < 2 ^ 64 \<and> Patch v < 2 ^ 64 \<and> Pre v = [] \<and> Build v = []"
proof -
  have u: "ParseUint 64 (format_nat n) = Inr m \<longleftrightarrow> m = n \<and> n < 2 ^ 64" for n m
    by (auto simp: ParseUint_def format_nat_nonempty parse_format_nat)
  have w: "wrapR msg r = Inr x \<longleftrightarrow> r = Inr x" for msg r and x :: nat
    by (simp add: wrapR_def split: sum.splits)
  have "ParseMajorMinorPatch s = Inr v \<longleftrightarrow>
      (\<exists>g1 g2 g3. kubeSemver False s = Some (g1, g2, g3) \<and> ParseUint 64 g1 = Inr (Major v) \<and>
         ParseUint 64 g2 = Inr (Minor v) \<and> ParseUint 64 g3 = Inr (Patch v) \<and> Pre v = [] \<and> Build v = [])"
    by (cases v) (auto simp: ParseMajorMinorPatch_def parseMajorMinorPatch_def bindR_eq_Inr w split: option.splits)
  also have "\<dots> \<longleftrightarrow> (\<exists>suffix. s = ''v'' @ printVersion v @ suffix \<and> properSuffix (Patch v) suffix) \<and>
      Major v < 2 ^ 64 \<and> Minor v < 2 ^ 64 \<and> Patch v < 2 ^ 64 \<and> Pre v = [] \<and> Build v = []"
  proof
    assume "\<exists>g1 g2 g3. kubeSemver False s = Some (g1, g2, g3) \<and> ParseUint 64 g1 = Inr (Major v) \<and>
         ParseUint 64 g2 = Inr (Minor v) \<and> ParseUint 64 g3 = Inr (Patch v) \<and> Pre v = [] \<and> Build v = []"
    then show "(\<exists>suffix. s = ''v'' @ printVersion v @ suffix \<and> properSuffix (Patch v) suffix) \<and>
      Major v < 2 ^ 64 \<and> Minor v < 2 ^ 64 \<and> Patch v < 2 ^ 64 \<and> Pre v = [] \<and> Build v = []"
      unfolding kubeSemver_iff printVersion_def by (auto simp: u)
  next
    assume a: "(\<exists>suffix. s = ''v'' @ printVersion v @ suffix \<and> properSuffix (Patch v) suffix) \<and>
      Major v < 2 ^ 64 \<and> Minor v < 2 ^ 64 \<and> Patch v < 2 ^ 64 \<and> Pre v = [] \<and> Build v = []"
    then have "kubeSemver False s = Some (format_nat (Major v), format_nat (Minor v), format_nat (Patch v))"
      unfolding kubeSemver_iff printVersion_def by auto
    with a u show "\<exists>g1 g2 g3. kubeSemver False s = Some (g1, g2, g3) \<and> ParseUint 64 g1 = Inr (Major v) \<and>
         ParseUint 64 g2 = Inr (Minor v) \<and> ParseUint 64 g3 = Inr (Patch v) \<and> Pre v = [] \<and> Build v = []" by blast
  qed
  finally show ?thesis .
qed

section \<open>The order of versions\<close>

lemma compareIdentifier_range: "compareIdentifier v w \<in> {- 1, 0, 1, 2}"
  by (simp add: compareIdentifier_def)

lemma compareIdentifier_swap:
  "compareIdentifier v w = (if compareIdentifier w v = 2 then 2 else - compareIdentifier w v)"
  by (auto simp: compareIdentifier_def)

lemma compareIdentifier_equiv: "compareIdentifier v w = 0 \<Longrightarrow> compareIdentifier v u = compareIdentifier w u"
  by (auto simp: compareIdentifier_def split: if_splits)

lemma compareIdentifier_trans: "compareIdentifier v w = - 1 \<Longrightarrow> compareIdentifier w u = - 1 \<Longrightarrow> compareIdentifier v u = - 1"
  by (auto simp: compareIdentifier_def split: if_splits)

lemma compareIdentifiers_range: "compareIdentifiers vs ws \<in> {- 1, 0, 1, 2}"
  by (induction vs ws rule: compareIdentifiers.induct) (use compareIdentifier_range in \<open>auto simp: Let_def\<close>)

lemma compareIdentifiers_swap:
  "compareIdentifiers vs ws = (if compareIdentifiers ws vs = 2 then 2 else - compareIdentifiers ws vs)"
proof (induction vs ws rule: compareIdentifiers.induct)
  case (4 v vs w ws)
  then show ?case using compareIdentifier_swap [of v w] by (auto simp: Let_def)
qed simp_all

lemma compareIdentifiers_refl: "compareIdentifiers vs vs = 0"
  by (induction vs) (auto simp: compareIdentifier_def)

lemma compareIdentifiers_equiv:
  "compareIdentifiers vs ws = 0 \<Longrightarrow> compareIdentifiers vs us = compareIdentifiers ws us"
proof (induction vs ws arbitrary: us rule: compareIdentifiers.induct)
  case (4 v vs w ws)
  then have z: "compareIdentifier v w = 0" "compareIdentifiers vs ws = 0" by (auto simp: Let_def split: if_splits)
  show ?case
  proof (cases us)
    case (Cons u us')
    with 4(1) z compareIdentifier_equiv [OF z(1)] show ?thesis by (simp add: Let_def)
  qed simp
qed simp_all

lemma compareIdentifiers_trans:
  "compareIdentifiers vs ws = - 1 \<Longrightarrow> compareIdentifiers ws us = - 1 \<Longrightarrow> compareIdentifiers vs us = - 1"
proof (induction vs ws arbitrary: us rule: compareIdentifiers.induct)
  case (2 w ws)
  then show ?case by (cases us) simp_all
next
  case (4 v vs w ws)
  from 4(3) obtain u us' where u: "us = u # us'" by (cases us) simp_all
  have vw: "compareIdentifier v w = - 1 \<or> compareIdentifier v w = 0 \<and> compareIdentifiers vs ws = - 1"
    using 4(2) by (auto simp: Let_def split: if_splits)
  have wu: "compareIdentifier w u = - 1 \<or> compareIdentifier w u = 0 \<and> compareIdentifiers ws us' = - 1"
    using 4(3) u by (auto simp: Let_def split: if_splits)
  have right: "compareIdentifier v u = compareIdentifier v w" if "compareIdentifier w u = 0"
    using compareIdentifier_equiv [OF that, of v] compareIdentifier_swap [of v w] compareIdentifier_swap [of v u] by simp
  have "compareIdentifier v u = - 1 \<or> compareIdentifier v u = 0 \<and> compareIdentifiers vs us' = - 1"
    using vw
  proof
    assume "compareIdentifier v w = - 1"
    then show ?thesis using wu right compareIdentifier_trans by metis
  next
    assume l: "compareIdentifier v w = 0 \<and> compareIdentifiers vs ws = - 1"
    then have "compareIdentifier v u = compareIdentifier w u" using compareIdentifier_equiv by blast
    with wu l 4(1) [of "0" us'] show ?thesis by auto
  qed
  then show ?case using u by (auto simp: Let_def)
qed simp_all

text \<open>
  What the semantic-version library documents of its comparison: the result is -1, 0 or 1, swapping
  the arguments negates it, and the order is transitive.
\<close>

definition semverOrder :: "(semver \<Rightarrow> semver \<Rightarrow> int) \<Rightarrow> bool" where
  "semverOrder c \<longleftrightarrow> (\<forall>a b. c a b \<in> {- 1, 0, 1}) \<and> (\<forall>a b. c a b = - c b a) \<and>
     (\<forall>a b d. c a b \<le> 0 \<longrightarrow> c b d \<le> 0 \<longrightarrow> c a d \<le> 0)"

text \<open>
  Comparing versions with their build tags is a partial order: the answer is one of -1, 0, 1 and 2;
  swapping the versions negates it, except that incomparable (2) stays incomparable; a version
  equals itself; and less-than is transitive.
\<close>

theorem Compare_partial_order:
  assumes "semverOrder c"
  shows "Compare c a b opts \<in> {- 1, 0, 1, 2} \<and>
    Compare c a b opts = (if Compare c b a opts = 2 then 2 else - Compare c b a opts) \<and>
    Compare c a a opts = 0 \<and>
    (Compare c a b opts = - 1 \<longrightarrow> Compare c b d opts = - 1 \<longrightarrow> Compare c a d opts = - 1)"
proof -
  have r: "c x y \<in> {- 1, 0, 1}" and sw: "c x y = - c y x" and tr: "c x y \<le> 0 \<Longrightarrow> c y z \<le> 0 \<Longrightarrow> c x z \<le> 0" for x y z
    using assms unfolding semverOrder_def by blast+
  have r': "c x y = - 1 \<or> c x y = 0 \<or> c x y = 1" for x y using r [of x y] by simp
  have self: "c x x = 0" for x using sw [of x x] by simp
  have lt: "c x z = - 1" if "c x y = - 1" "c y z \<le> 0" for x y z
  proof (rule ccontr)
    assume "c x z \<noteq> - 1"
    moreover have "c x z \<le> 0" using tr [of x y z] that by simp
    ultimately have "c z x \<le> 0" using r' [of x z] sw [of z x] by auto
    then have "c y x \<le> 0" using tr [of y z x] that(2) by simp
    with that(1) sw [of y x] show False by simp
  qed
  have lt': "c x z = - 1" if "c x y \<le> 0" "c y z = - 1" for x y z
  proof -
    have "c z y = 1" using sw [of z y] that(2) by simp
    have "c x z \<le> 0" using tr [of x y z] that by simp
    moreover have "c x z \<noteq> 0"
    proof
      assume "c x z = 0"
      then have "c z x \<le> 0" using sw [of z x] by simp
      then have "c z y \<le> 0" using tr [of z x y] that(1) by simp
      with \<open>c z y = 1\<close> show False by simp
    qed
    ultimately show ?thesis using r' [of x z] by auto
  qed
  define D where "D = (\<lambda>v :: semver. if WithoutPreReleases \<in> set opts then v\<lparr>Pre := []\<rparr> else v)"
  define I where "I = (\<lambda>v. newBuildIdentifiers (Build (D v)))"
  define k where "k = (\<lambda>x y. compareIdentifiers (I x) (I y))"
  have cmp: "Compare c x y opts = (if WithBuildTags \<in> set opts \<and> c (D x) (D y) = 0 then k x y else c (D x) (D y))" for x y
    by (simp add: Compare_def Let_def D_def I_def k_def)
  have k: "k x y \<in> {- 1, 0, 1, 2}" "k x y = (if k y x = 2 then 2 else - k y x)" "k x x = 0" for x y
    unfolding k_def using compareIdentifiers_range compareIdentifiers_swap [of "I x" "I y"] compareIdentifiers_refl
    by (auto split: if_splits)
  have kt: "k x y = - 1 \<Longrightarrow> k y z = - 1 \<Longrightarrow> k x z = - 1" for x y z
    unfolding k_def by (rule compareIdentifiers_trans)
  show ?thesis
  proof (intro conjI impI)
    show "Compare c a b opts \<in> {- 1, 0, 1, 2}" using r [of "D a" "D b"] k(1) [of a b] by (auto simp: cmp)
    show "Compare c a b opts = (if Compare c b a opts = 2 then 2 else - Compare c b a opts)"
      using sw [of "D a" "D b"] r' [of "D b" "D a"] k(2) [of a b] by (auto simp: cmp)
    show "Compare c a a opts = 0" by (simp add: cmp self k(3))
    assume "Compare c a b opts = - 1" "Compare c b d opts = - 1"
    then show "Compare c a d opts = - 1"
      using lt [of "D a" "D b" "D d"] lt' [of "D a" "D b" "D d"] kt [of a b d] tr [of "D a" "D b" "D d"]
        tr [of "D d" "D b" "D a"] sw [of "D d" "D a"] sw [of "D d" "D b"] sw [of "D b" "D a"]
      by (auto simp: cmp split: if_splits)
  qed
qed

text \<open>A comparison by the three numbers, as an instance of the documented order.\<close>

definition sampleCompare :: "semver \<Rightarrow> semver \<Rightarrow> int" where
  "sampleCompare a b = sgn (int (Minor a) - int (Minor b))"

lemma sampleCompare_order: "semverOrder sampleCompare"
  by (auto simp: semverOrder_def sampleCompare_def sgn_if)

theorem Compare_partial_order_witness:
  "let v = \<lparr>Major = 1, Minor = 2, Patch = 3, Pre = [], Build = [''abc'']\<rparr>; w = v\<lparr>Build := [''abd'']\<rparr>
   in semverOrder sampleCompare \<and> Compare sampleCompare v w [WithBuildTags] = 2 \<and>
      Compare sampleCompare w v [WithBuildTags] = 2"
  using Compare_partial_order [OF sampleCompare_order,
      of "\<lparr>Major = 1, Minor = 2, Patch = 3, Pre = [], Build = [''abd'']\<rparr>"
         "\<lparr>Major = 1, Minor = 2, Patch = 3, Pre = [], Build = [''abc'']\<rparr>" "[WithBuildTags]"] sampleCompare_order
  by (simp add: Compare_def sampleCompare_def newBuildIdentifiers_def newBuildIdentifier_def containsOnly_def
      compareIdentifier_def)

section \<open>Label values are valid\<close>

text \<open>
  The syntax of label values the API machinery documents: at most 63 characters, alphanumeric ones,
  \<open>-\<close>, \<open>_\<close> and \<open>.\<close>, with an alphanumeric character at both ends, or empty.
\<close>

definition alphaNum :: "char \<Rightarrow> bool" where
  "alphaNum c \<longleftrightarrow> is_digit c \<or> (65 \<le> (of_char c :: nat) \<and> (of_char c :: nat) \<le> 90) \<or>
     (97 \<le> (of_char c :: nat) \<and> (of_char c :: nat) \<le> 122)"

definition labelChar :: "char \<Rightarrow> bool" where
  "labelChar c \<longleftrightarrow> alphaNum c \<or> c \<in> {CHR ''-'', CHR ''_'', CHR ''.''}"

definition labelSyntax :: "string \<Rightarrow> bool" where
  "labelSyntax s \<longleftrightarrow> s = [] \<or> length s \<le> 63 \<and> list_all labelChar s \<and> alphaNum (hd s) \<and> alphaNum (last s)"

lemma urlAlphabet_labelChar: "list_all labelChar urlAlphabet" "length urlAlphabet = 64"
  by code_simp+

lemma urlAlphabet_nth: "i < 64 \<Longrightarrow> labelChar (urlAlphabet ! i)"
  using urlAlphabet_labelChar by (simp add: list_all_length)

lemma base64_labelChar: "\<forall>b \<in> set bs. b < 256 \<Longrightarrow> list_all labelChar (base64 bs)"
proof (induction bs rule: base64.induct)
  case (4 a b c bs)
  have "a div 4 < 64" "a mod 4 * 16 + b div 16 < 64" "b mod 16 * 4 + c div 64 < 64" using 4(2) by auto
  with 4 show ?case by (simp add: urlAlphabet_nth)
next
  case (3 a b)
  have "a div 4 < 64" "a mod 4 * 16 + b div 16 < 64" "b mod 16 * 4 < 64" using 3 by auto
  then show ?case by (simp add: urlAlphabet_nth)
next
  case (2 a)
  have "a div 4 < 64" "a mod 4 * 16 < 64" using 2 by auto
  then show ?case by (simp add: urlAlphabet_nth)
qed simp

lemma bigEndian_bytes: "\<forall>b \<in> set (bigEndian w). b < 256"
proof -
  have "unat w < 2 ^ 32" using unsigned_less [of w] by simp
  then have "unat w div 2 ^ 24 < 256" by (simp add: less_mult_imp_div_less)
  then show "\<forall>b \<in> set (bigEndian w). b < 256" by (simp add: bigEndian_def Let_def)
qed

lemma base64_bigEndian_length: "length (base64 (bigEndian w)) = 6"
  by (simp add: bigEndian_def Let_def)

text \<open>
  (C38) Whatever the name of an object, the value formatted for a label is valid: a valid name is kept, any
  other is replaced by a hash whose alphabet, length and end characters are those of a label value;
  formatting twice changes nothing.
\<close>

theorem MustFormatValue_valid:
  assumes "\<forall>s. (labelErrors s = []) = labelSyntax s"
  shows "labelErrors (MustFormatValue labelErrors str) = [] \<and>
    (labelErrors str = [] \<longrightarrow> MustFormatValue labelErrors str = str) \<and>
    MustFormatValue labelErrors (MustFormatValue labelErrors str) = MustFormatValue labelErrors str"
proof -
  let ?h = "base64 (bigEndian (fnv32a str))"
  have fixed: "list_all labelChar (''hash_'' :: string)" "list_all labelChar (''_z'' :: string)"
    "alphaNum (CHR ''h'')" "alphaNum (CHR ''z'')" by code_simp+
  have "list_all labelChar ?h" "length ?h = 6"
    using base64_labelChar [OF bigEndian_bytes] base64_bigEndian_length by simp_all
  then have "labelSyntax (''hash_'' @ ?h @ ''_z'')" using fixed by (simp add: labelSyntax_def)
  then show ?thesis using assms by (auto simp: MustFormatValue_def)
qed

theorem MustFormatValue_valid_witness:
  "(\<forall>s. ((if labelSyntax s then [] else [''invalid'']) = []) = labelSyntax s) \<and>
   labelSyntax (MustFormatValue (\<lambda>s. if labelSyntax s then [] else [''invalid'']) ''a b'')"
  using MustFormatValue_valid [of "\<lambda>s. if labelSyntax s then [] else [''invalid'']" "''a b''"]
  by (auto split: if_splits)

end
