(* ===== verification/Contract.thy ===== *)
theory Contract
  imports VersionUtil
begin

text \<open>
  The Cluster API contract for control plane objects, read from unstructured objects
  (\<open>src/cluster-api/internal/contract/types.go\<close>, \<open>controlplane.go\<close>). An unstructured object is an
  abstract value; the library's nested-field accessors are parameters (\<open>unstructuredLib\<close>): an error,
  or whether the field exists and its value. Version parsing and comparison of the semantic-version
  library are parameters as well.
\<close>

section \<open>Paths\<close>

type_synonym Path = "string list"

definition IsParentOf :: "Path \<Rightarrow> Path \<Rightarrow> bool" where
  "IsParentOf p other = (if length p \<ge> length other then False else list_all2 (=) p (take (length p) other))"

definition pathEqual :: "Path \<Rightarrow> Path \<Rightarrow> bool" where
  "pathEqual p other = (if length p \<noteq> length other then False else list_all2 (=) p other)"

definition Overlaps :: "Path \<Rightarrow> Path \<Rightarrow> bool" where
  "Overlaps p other \<longleftrightarrow> pathEqual other p \<or> IsParentOf other p \<or> IsParentOf p other"

section \<open>Typed accessors\<close>

record 'u unstructuredLib =
  NestedInt64 :: "'u \<Rightarrow> Path \<Rightarrow> int option res"
  NestedBool :: "'u \<Rightarrow> Path \<Rightarrow> bool option res"
  NestedString :: "'u \<Rightarrow> Path \<Rightarrow> string option res"
  ParseTolerant :: "string \<Rightarrow> semver res"
  semverCompare :: "semver \<Rightarrow> semver \<Rightarrow> int"

definition ErrFieldNotFound :: err where
  "ErrFieldNotFound = Err ''field not found''"

text \<open>\<open>errors.Is(err, ErrFieldNotFound)\<close>: the error or one it wraps.\<close>

fun isFieldNotFound :: "err \<Rightarrow> bool" where
  "isFieldNotFound (Wrap m e) = isFieldNotFound e"
| "isFieldNotFound e = (e = ErrFieldNotFound)"

definition getPath :: "('u \<Rightarrow> Path \<Rightarrow> 'a option res) \<Rightarrow> Path \<Rightarrow> 'u \<Rightarrow> 'a res" where
  "getPath nested path obj =
     (case nested obj path of
        Inl e \<Rightarrow> Inl (Wrap (''failed to get .'' @ Join ''.'' path @ '' from object'') e)
      | Inr None \<Rightarrow> Inl (Wrap (''path .'' @ Join ''.'' path) ErrFieldNotFound)
      | Inr (Some v) \<Rightarrow> Inr v)"

definition Int64_Get :: "'u unstructuredLib \<Rightarrow> Path \<Rightarrow> 'u \<Rightarrow> int res" where
  "Int64_Get L path obj = getPath (NestedInt64 L) path obj"

definition Bool_Get :: "'u unstructuredLib \<Rightarrow> Path \<Rightarrow> 'u \<Rightarrow> bool res" where
  "Bool_Get L path obj = getPath (NestedBool L) path obj"

definition String_Get :: "'u unstructuredLib \<Rightarrow> Path \<Rightarrow> 'u \<Rightarrow> string res" where
  "String_Get L path obj = getPath (NestedString L) path obj"

definition cpVersionPath :: Path where "cpVersionPath = [''spec'', ''version'']"
definition cpStatusVersionPath :: Path where "cpStatusVersionPath = [''status'', ''version'']"
definition cpReplicasPath :: Path where "cpReplicasPath = [''spec'', ''replicas'']"
definition cpStatusReplicasPath :: Path where "cpStatusReplicasPath = [''status'', ''replicas'']"
definition cpUpdatedReplicasPath :: Path where "cpUpdatedReplicasPath = [''status'', ''updatedReplicas'']"
definition cpReadyReplicasPath :: Path where "cpReadyReplicasPath = [''status'', ''readyReplicas'']"
definition cpUnavailableReplicasPath :: Path where
  "cpUnavailableReplicasPath = [''status'', ''unavailableReplicas'']"

section \<open>The state of a control plane\<close>

definition IsProvisioning :: "'u unstructuredLib \<Rightarrow> 'u \<Rightarrow> bool res" where
  "IsProvisioning L obj =
     (case String_Get L cpStatusVersionPath obj of
        Inl e \<Rightarrow> if isFieldNotFound e then Inr True else Inl (Wrap ''failed to get control plane status version'' e)
      | Inr statusVersion \<Rightarrow> if statusVersion = [] then Inr True else Inr False)"

definition IsUpgrading :: "'u unstructuredLib \<Rightarrow> 'u \<Rightarrow> bool res" where
  "IsUpgrading L obj =
     bindR (wrapR ''failed to get control plane spec version'' (String_Get L cpVersionPath obj)) (\<lambda>specVersion.
     bindR (wrapR ''failed to parse control plane spec version'' (ParseTolerant L specVersion)) (\<lambda>specV.
       case String_Get L cpStatusVersionPath obj of
         Inl e \<Rightarrow> if isFieldNotFound e then Inr False else Inl (Wrap ''failed to get control plane status version'' e)
       | Inr statusVersion \<Rightarrow>
           bindR (wrapR ''failed to parse control plane status version'' (ParseTolerant L statusVersion)) (\<lambda>statusV.
             Inr (Compare (semverCompare L) specV statusV [WithBuildTags] \<ge> 1))))"

text \<open>A status field that is not there means the control plane is scaling.\<close>

definition orScaling :: "string \<Rightarrow> int res \<Rightarrow> (int \<Rightarrow> bool res) \<Rightarrow> bool res" where
  "orScaling what r k =
     (case r of
        Inl e \<Rightarrow> if isFieldNotFound e then Inr True else Inl (Wrap what e)
      | Inr v \<Rightarrow> k v)"

definition IsScaling :: "'u unstructuredLib \<Rightarrow> 'u \<Rightarrow> bool res" where
  "IsScaling L obj =
     bindR (wrapR ''failed to get control plane spec replicas'' (Int64_Get L cpReplicasPath obj)) (\<lambda>desiredReplicas.
     orScaling ''failed to get control plane status replicas'' (Int64_Get L cpStatusReplicasPath obj) (\<lambda>statusReplicas.
     orScaling ''failed to get control plane status updatedReplicas'' (Int64_Get L cpUpdatedReplicasPath obj) (\<lambda>updatedReplicas.
     orScaling ''failed to get control plane status readyReplicas'' (Int64_Get L cpReadyReplicasPath obj) (\<lambda>readyReplicas.
     bindR (case Int64_Get L cpUnavailableReplicasPath obj of
              Inl e \<Rightarrow> if \<not> isFieldNotFound e then Inl (Wrap ''failed to get control plane status unavailableReplicas'' e)
                       else Inr 0
            | Inr v \<Rightarrow> Inr v) (\<lambda>unavailableReplicas.
       Inr (statusReplicas \<noteq> desiredReplicas \<or> updatedReplicas \<noteq> desiredReplicas \<or>
            readyReplicas \<noteq> desiredReplicas \<or> unavailableReplicas > 0))))))"

section \<open>Facts\<close>

lemma IsParentOf_iff: "IsParentOf p q \<longleftrightarrow> (\<exists>k rest. q = p @ k # rest)"
proof
  assume "IsParentOf p q"
  then have "length p < length q" "p = take (length p) q"
    by (auto simp: IsParentOf_def list_all2_eq [symmetric] split: if_splits)
  then show "\<exists>k rest. q = p @ k # rest"
    by (metis append_take_drop_id Cons_nth_drop_Suc)
next
  assume "\<exists>k rest. q = p @ k # rest"
  then show "IsParentOf p q" by (auto simp: IsParentOf_def list_all2_eq [symmetric])
qed

lemma pathEqual_iff: "pathEqual p q \<longleftrightarrow> p = q"
  by (auto simp: pathEqual_def list_all2_eq [symmetric])

text \<open>Two paths overlap exactly when one is a prefix of the other, whichever is asked first.\<close>

lemma Overlaps_iff: "Overlaps p q \<longleftrightarrow> (\<exists>r. q = p @ r) \<or> (\<exists>r. p = q @ r)"
  unfolding Overlaps_def IsParentOf_iff pathEqual_iff by (metis append_Nil2 neq_Nil_conv)

lemma String_Get_Inr: "String_Get L path obj = Inr v \<longleftrightarrow> NestedString L obj path = Inr (Some v)"
  by (auto simp: String_Get_def getPath_def split: sum.splits option.splits)

lemma Int64_Get_Inr: "Int64_Get L path obj = Inr v \<longleftrightarrow> NestedInt64 L obj path = Inr (Some v)"
  by (auto simp: Int64_Get_def getPath_def split: sum.splits option.splits)

text \<open>
  A control plane that is reported as not scaling is at its size in every respect: the replicas
  in its specification and the current, updated and ready replicas in its status are the same
  number, and no replica is reported unavailable. Conversely, such a control plane is not scaling.
\<close>

theorem IsScaling_False_iff:
  "IsScaling L obj = Inr False \<longleftrightarrow>
    (\<exists>n. NestedInt64 L obj cpReplicasPath = Inr (Some n) \<and> NestedInt64 L obj cpStatusReplicasPath = Inr (Some n) \<and>
       NestedInt64 L obj cpUpdatedReplicasPath = Inr (Some n) \<and> NestedInt64 L obj cpReadyReplicasPath = Inr (Some n) \<and>
       (case Int64_Get L cpUnavailableReplicasPath obj of Inl e \<Rightarrow> isFieldNotFound e | Inr u \<Rightarrow> u \<le> 0))"
proof -
  have os: "orScaling w r k = Inr False \<longleftrightarrow> (\<exists>v. r = Inr v \<and> k v = Inr False)" for w r k
    by (auto simp: orScaling_def split: sum.splits)
  have w: "wrapR msg r = Inr x \<longleftrightarrow> r = Inr x" for msg r and x :: int
    by (simp add: wrapR_def split: sum.splits)
  show ?thesis
  proof -
    define u where "u = Int64_Get L cpUnavailableReplicasPath obj"
    show ?thesis
      unfolding IsScaling_def bindR_eq_Inr os w u_def [symmetric]
      by (cases u) (auto simp: bindR_eq_Inr Int64_Get_Inr split: if_splits)
  qed
qed

end
