(* ===== verification/External.thy ===== *)
theory External
  imports ClusterUtil
begin

text \<open>
  Objects of other providers and nodes: \<open>src/cluster-api/controllers/external/util.go\<close> (cloning a
  template, references, failures, readiness) and \<open>src/cluster-api/controllers/noderefutil/util.go\<close>.
  An external object is its type, its metadata, the template it holds under \<open>spec.template\<close>, if any,
  and the fields of its status the code reads, each as the library's accessor returns it.
\<close>

section \<open>External objects\<close>

record extTemplate =
  tmAPIVersion :: string
  tmKind :: string
  tmLabels :: "strmap option"
  tmAnnotations :: "strmap option"
  tmOwnerReferences :: "OwnerReference list"

record ext =
  xAPIVersion :: string
  xKind :: string
  xMeta :: ObjMeta
  xTemplate :: "extTemplate option res"
  xReady :: "bool option res"
  xInitialized :: "bool option res"
  xFailureReason :: "string option res"
  xFailureMessage :: "string option res"

definition TemplateSuffix :: string where "TemplateSuffix = ''Template''"
definition TemplateClonedFromNameAnnotation :: string where
  "TemplateClonedFromNameAnnotation = ''cluster.x-k8s.io/cloned-from-name''"
definition TemplateClonedFromGroupKindAnnotation :: string where
  "TemplateClonedFromGroupKindAnnotation = ''cluster.x-k8s.io/cloned-from-groupkind''"

definition HasSuffix :: "string \<Rightarrow> string \<Rightarrow> bool" where
  "HasSuffix s suffix \<longleftrightarrow> length suffix \<le> length s \<and> drop (length s - length suffix) s = suffix"

definition TrimSuffix :: "string \<Rightarrow> string \<Rightarrow> string" where
  "TrimSuffix s suffix = (if HasSuffix s suffix then take (length s - length suffix) s else s)"

definition HasPrefix :: "string \<Rightarrow> string \<Rightarrow> bool" where
  "HasPrefix s pre \<longleftrightarrow> take (length pre) s = pre"

text \<open>The keys of a map that is copied over another: the copied one wins.\<close>

definition overlay :: "strmap option \<Rightarrow> strmap option \<Rightarrow> strmap" where
  "overlay base over = (case base of None \<Rightarrow> Map.empty | Some f \<Rightarrow> f) ++ (case over of None \<Rightarrow> Map.empty | Some f \<Rightarrow> f)"

record GenerateTemplateInput =
  giTemplate :: ext
  giTemplateRef :: ObjectReference
  giNamespace :: string
  giName :: string
  giClusterName :: string
  giOwnerRef :: "OwnerReference option"
  giLabels :: "strmap option"
  giAnnotations :: "strmap option"

text \<open>
  \<open>groupKind\<close> is the library's rendering of the group and kind of a reference, \<open>genName\<close> its name
  generator, from the base name.
\<close>

definition GenerateTemplate :: "(ObjectReference \<Rightarrow> string) \<Rightarrow> (string \<Rightarrow> string) \<Rightarrow> GenerateTemplateInput \<Rightarrow> ext res" where
  "GenerateTemplate groupKind genName inp =
     (case xTemplate (giTemplate inp) of
        Inl _ \<Rightarrow> Inl (Err ''missing Spec.Template'')
      | Inr None \<Rightarrow> Inl (Err ''missing Spec.Template'')
      | Inr (Some template) \<Rightarrow>
          let name = (if giName inp = [] then genName (mname (xMeta (giTemplate inp)) @ ''-'') else giName inp);
              anns = (overlay (tmAnnotations template) (giAnnotations inp))
                       (TemplateClonedFromNameAnnotation \<mapsto> refName (giTemplateRef inp),
                        TemplateClonedFromGroupKindAnnotation \<mapsto> groupKind (giTemplateRef inp));
              labels = (overlay (tmLabels template) (giLabels inp))(ClusterNameLabel \<mapsto> giClusterName inp);
              owners = (case giOwnerRef inp of None \<Rightarrow> tmOwnerReferences template | Some r \<Rightarrow> [r])
          in Inr \<lparr>xAPIVersion = (if tmAPIVersion template = [] then xAPIVersion (giTemplate inp) else tmAPIVersion template),
                  xKind = (if tmKind template = [] then TrimSuffix (xKind (giTemplate inp)) TemplateSuffix else tmKind template),
                  xMeta = emptyMeta\<lparr>mname := name, mnamespace := giNamespace inp, mlabels := Some labels,
                            mannotations := Some anns, mownerReferences := owners\<rparr>,
                  xTemplate = Inr None, xReady = Inr None, xInitialized = Inr None,
                  xFailureReason = Inr None, xFailureMessage = Inr None\<rparr>)"

definition GetObjectReference :: "ext \<Rightarrow> ObjectReference" where
  "GetObjectReference obj = \<lparr>refKind = xKind obj, refNamespace = mnamespace (xMeta obj), refName = mname (xMeta obj),
     refUID = muid (xMeta obj), refAPIVersion = xAPIVersion obj\<rparr>"

definition FailuresFrom :: "ext \<Rightarrow> (string \<times> string) res" where
  "FailuresFrom obj =
     (case xFailureReason obj of
        Inl e \<Rightarrow> Inl (Wrap ''failed to determine failureReason'' e)
      | Inr r \<Rightarrow>
          (case xFailureMessage obj of
             Inl e \<Rightarrow> Inl (Wrap ''failed to determine failureMessage'' e)
           | Inr m \<Rightarrow> Inr (case r of None \<Rightarrow> [] | Some x \<Rightarrow> x, case m of None \<Rightarrow> [] | Some x \<Rightarrow> x)))"

definition IsReady :: "ext \<Rightarrow> bool res" where
  "IsReady obj =
     (case xReady obj of
        Inl e \<Rightarrow> Inl (Wrap ''failed to determine readiness'' e)
      | Inr v \<Rightarrow> Inr (v = Some True))"

definition IsInitialized :: "ext \<Rightarrow> bool res" where
  "IsInitialized obj =
     (case xInitialized obj of
        Inl e \<Rightarrow> Inl (Wrap ''failed to determine initialized'' e)
      | Inr v \<Rightarrow> Inr (v = Some True))"

section \<open>Nodes\<close>

record NodeCondition =
  ncType :: string
  ncStatus :: string
  ncLastTransitionTime :: time

record Node =
  nodeMeta :: ObjMeta
  nodeProviderID :: string
  nodeConditions :: "NodeCondition list"
  nodeTaints :: "(string \<times> string) list"

abbreviation "NodeReady \<equiv> ''Ready''"

definition GetReadyCondition :: "Node \<Rightarrow> NodeCondition option" where
  "GetReadyCondition node = find (\<lambda>c. ncType c = NodeReady) (nodeConditions node)"

definition IsNodeReady :: "Node option \<Rightarrow> bool" where
  "IsNodeReady node =
     (case node of None \<Rightarrow> False
      | Some n \<Rightarrow> (case find (\<lambda>c. ncType c = NodeReady) (nodeConditions n) of
                     Some c \<Rightarrow> ncStatus c = ConditionTrue | None \<Rightarrow> False))"

definition IsNodeUnreachable :: "Node option \<Rightarrow> bool" where
  "IsNodeUnreachable node =
     (case node of None \<Rightarrow> False
      | Some n \<Rightarrow> (case find (\<lambda>c. ncType c = NodeReady) (nodeConditions n) of
                     Some c \<Rightarrow> ncStatus c = ConditionUnknown | None \<Rightarrow> False))"

definition IsNodeAvailable :: "Node option \<Rightarrow> int \<Rightarrow> time \<Rightarrow> bool" where
  "IsNodeAvailable node minReadySeconds now =
     (if \<not> IsNodeReady node then False
      else if minReadySeconds = 0 then True
      else case node of
        None \<Rightarrow> False
      | Some n \<Rightarrow> (case GetReadyCondition n of
                     None \<Rightarrow> False
                   | Some c \<Rightarrow> ncLastTransitionTime c \<noteq> 0 \<and> ncLastTransitionTime c + minReadySeconds < now))"

section \<open>Facts\<close>

lemma TrimSuffix_append [simp]: "TrimSuffix (s @ suffix) suffix = s"
  by (simp add: TrimSuffix_def HasSuffix_def)

lemma HasSuffix_iff: "HasSuffix s suffix \<longleftrightarrow> (\<exists>p. s = p @ suffix)"
  by (auto simp: HasSuffix_def) (metis append_take_drop_id)

lemma HasPrefix_iff: "HasPrefix s pre \<longleftrightarrow> (\<exists>r. s = pre @ r)"
  by (auto simp: HasPrefix_def) (metis append_take_drop_id)

text \<open>An available node is a ready one that has been ready for longer than the minimum.\<close>

lemma IsNodeAvailable_ready: "IsNodeAvailable node m now \<Longrightarrow> IsNodeReady node"
  by (simp add: IsNodeAvailable_def split: if_splits)

lemma IsNodeAvailable_later: "IsNodeAvailable node m now \<Longrightarrow> now \<le> now' \<Longrightarrow> IsNodeAvailable node m now'"
  by (auto simp: IsNodeAvailable_def split: if_splits option.splits)

text \<open>
  An object cloned from a template belongs to its cluster and its owner and can be traced back:
  it has the name and namespace asked for, the cluster's name in the cluster label whatever labels
  the template or the caller give, exactly the owner given, the template's name among its
  annotations, no identity of its own, and the kind of the template without the suffix.
\<close>

theorem GenerateTemplate_spec:
  assumes "GenerateTemplate groupKind genName inp = Inr obj" and "giName inp \<noteq> []"
  shows "mname (xMeta obj) = giName inp \<and> mnamespace (xMeta obj) = giNamespace inp \<and> muid (xMeta obj) = [] \<and>
    mfinalizers (xMeta obj) = [] \<and> mlookup (mlabels (xMeta obj)) ClusterNameLabel = Some (giClusterName inp) \<and>
    mlookup (mannotations (xMeta obj)) TemplateClonedFromNameAnnotation = Some (refName (giTemplateRef inp)) \<and>
    (\<forall>k v. k \<noteq> ClusterNameLabel \<longrightarrow> mlookup (giLabels inp) k = Some v \<longrightarrow> mlookup (mlabels (xMeta obj)) k = Some v) \<and>
    (\<forall>r. giOwnerRef inp = Some r \<longrightarrow> mownerReferences (xMeta obj) = [r]) \<and>
    (\<exists>template. xTemplate (giTemplate inp) = Inr (Some template) \<and>
       (tmKind template = [] \<longrightarrow> xKind obj = TrimSuffix (xKind (giTemplate inp)) TemplateSuffix))"
proof -
  obtain template where t: "xTemplate (giTemplate inp) = Inr (Some template)"
    using assms(1) by (auto simp: GenerateTemplate_def split: sum.splits option.splits)
  have "TemplateClonedFromNameAnnotation \<noteq> TemplateClonedFromGroupKindAnnotation"
    by (simp add: TemplateClonedFromNameAnnotation_def TemplateClonedFromGroupKindAnnotation_def)
  with assms t show ?thesis
    by (auto simp: GenerateTemplate_def Let_def mlookup_def overlay_def emptyMeta_def map_add_def
        split: option.splits)
qed

theorem GenerateTemplate_spec_witness:
  "let tmpl = \<lparr>xAPIVersion = ''infra/v1'', xKind = ''KubevirtMachineTemplate'', xMeta = emptyMeta\<lparr>mname := ''t''\<rparr>,
         xTemplate = Inr (Some \<lparr>tmAPIVersion = [], tmKind = [], tmLabels = None, tmAnnotations = None, tmOwnerReferences = []\<rparr>),
         xReady = Inr None, xInitialized = Inr None, xFailureReason = Inr None, xFailureMessage = Inr None\<rparr>;
       inp = \<lparr>giTemplate = tmpl, giTemplateRef = \<lparr>refKind = ''KubevirtMachineTemplate'', refNamespace = ''ns'', refName = ''t'',
         refUID = [], refAPIVersion = ''infra/v1''\<rparr>, giNamespace = ''ns'', giName = ''m'', giClusterName = ''c'',
         giOwnerRef = None, giLabels = None, giAnnotations = None\<rparr>
   in \<exists>obj. GenerateTemplate (\<lambda>r. refKind r) id inp = Inr obj \<and> xKind obj = ''KubevirtMachine'' \<and>
        mlookup (mlabels (xMeta obj)) ClusterNameLabel = Some ''c''"
proof -
  let ?tmpl = "\<lparr>xAPIVersion = ''infra/v1'', xKind = ''KubevirtMachineTemplate'', xMeta = emptyMeta\<lparr>mname := ''t''\<rparr>,
         xTemplate = Inr (Some \<lparr>tmAPIVersion = [], tmKind = [], tmLabels = None, tmAnnotations = None, tmOwnerReferences = []\<rparr>),
         xReady = Inr None, xInitialized = Inr None, xFailureReason = Inr None, xFailureMessage = Inr None\<rparr>"
  let ?inp = "\<lparr>giTemplate = ?tmpl, giTemplateRef = \<lparr>refKind = ''KubevirtMachineTemplate'', refNamespace = ''ns'', refName = ''t'',
         refUID = [], refAPIVersion = ''infra/v1''\<rparr>, giNamespace = ''ns'', giName = ''m'', giClusterName = ''c'',
         giOwnerRef = None, giLabels = None, giAnnotations = None\<rparr>"
  obtain obj where obj: "GenerateTemplate (\<lambda>r. refKind r) id ?inp = Inr obj" by (simp add: GenerateTemplate_def Let_def)
  have "TrimSuffix ''KubevirtMachineTemplate'' TemplateSuffix = ''KubevirtMachine''"
    by (simp add: TrimSuffix_def HasSuffix_def TemplateSuffix_def)
  with GenerateTemplate_spec [OF obj] obj show ?thesis by simp
qed

text \<open>A template of the infrastructure provider.\<close>

definition sampleExt :: ext where
  "sampleExt = \<lparr>xAPIVersion = ''infra/v1'', xKind = ''KubevirtMachineTemplate'', xMeta = emptyMeta\<lparr>mname := ''t''\<rparr>,
     xTemplate = Inr (Some \<lparr>tmAPIVersion = [], tmKind = [], tmLabels = None, tmAnnotations = None, tmOwnerReferences = []\<rparr>),
     xReady = Inr None, xInitialized = Inr None, xFailureReason = Inr None, xFailureMessage = Inr None\<rparr>"

end
