(* ===== verification/MachineSetPolicy.thy ===== *)
theory MachineSetPolicy
  imports Contract External MdUtil Complex_Main
begin

text \<open>
  What the MachineSet controller decides before it acts: which machines a scale-down deletes
  (\<open>src/cluster-api/internal/controllers/machineset/machineset_delete_policy.go\<close>), whether machines
  may be created or remediated (\<open>machineset_preflight.go\<close>), and what a machine of the set should
  look like (the pure functions of \<open>machineset_controller.go\<close>). Priorities are \<open>float64\<close> in the
  code: here they are reals, and \<open>fl\<close> is the rounding of the machine, applied after each operation
  that is not exact. The random policy uses no rounding.
\<close>

section \<open>Delete priorities\<close>

type_synonym deletePriority = real

definition mustDelete :: deletePriority where "mustDelete = 100"
definition shouldDelete :: deletePriority where "shouldDelete = 75"
definition betterDelete :: deletePriority where "betterDelete = 50"
definition couldDelete :: deletePriority where "couldDelete = 20"
definition mustNotDelete :: deletePriority where "mustNotDelete = 0"
definition secondsPerTenDays :: real where "secondsPerTenDays = 864000"

lemmas priorities = mustDelete_def shouldDelete_def betterDelete_def couldDelete_def mustNotDelete_def

definition isMachineHealthy :: "Machine \<Rightarrow> bool" where
  "isMachineHealthy machine =
     (if stNodeRef (mchStatus machine) = None then False
      else if stFailureReason (mchStatus machine) \<noteq> None \<or> stFailureMessage (mchStatus machine) \<noteq> None then False
      else if (case Get (mchConditions machine) MachineNodeHealthyCondition of
                 None \<Rightarrow> False | Some c \<Rightarrow> cstatus c = ConditionFalse) then False
      else if (case Get (mchConditions machine) MachineHealthCheckSucceededCondition of
                 None \<Rightarrow> False | Some c \<Rightarrow> cstatus c = ConditionFalse) then False
      else True)"

abbreviation isDeleting :: "Machine \<Rightarrow> bool" where
  "isDeleting m \<equiv> \<not> timeIsZero (mdeletionTimestamp (mchMeta m))"

abbreviation markedForDelete :: "Machine \<Rightarrow> bool" where
  "markedForDelete m \<equiv> mlookup (mannotations (mchMeta m)) DeleteMachineAnnotation \<noteq> None"

text \<open>
  \<open>Time.Sub\<close> in nanoseconds, which saturates, and \<open>Duration.Seconds\<close>. Floating-point values are
  reals, and \<open>fl\<close> rounds the exact result of an operation to the nearest \<open>float64\<close>.
\<close>

definition timeSub :: "int \<Rightarrow> int \<Rightarrow> int" where
  "timeSub t u = max (- (2 ^ 63)) (min (2 ^ 63 - 1) (t - u))"

definition durationSeconds :: "(real \<Rightarrow> real) \<Rightarrow> int \<Rightarrow> real" where
  "durationSeconds fl d =
     fl (real_of_int (sgn d * (\<bar>d\<bar> div 1000000000)) + fl (real_of_int (sgn d * (\<bar>d\<bar> mod 1000000000)) / 1000000000))"

definition oldestDeletePriority :: "(real \<Rightarrow> real) \<Rightarrow> int \<Rightarrow> Machine \<Rightarrow> deletePriority" where
  "oldestDeletePriority fl now machine =
     (if isDeleting machine then mustDelete
      else if markedForDelete machine then shouldDelete
      else if \<not> isMachineHealthy machine then betterDelete
      else if mcreationTimestamp (mchMeta machine) = 0 then mustNotDelete
      else
        let d = durationSeconds fl (timeSub now (1000000000 * mcreationTimestamp (mchMeta machine))) in
        if d < 0 then mustNotDelete
        else fl (betterDelete * fl (1 - fl (exp (fl (- d / secondsPerTenDays))))))"

definition newestDeletePriority :: "(real \<Rightarrow> real) \<Rightarrow> int \<Rightarrow> Machine \<Rightarrow> deletePriority" where
  "newestDeletePriority fl now machine =
     (if isDeleting machine then mustDelete
      else if markedForDelete machine then shouldDelete
      else if \<not> isMachineHealthy machine then betterDelete
      else fl (betterDelete - oldestDeletePriority fl now machine))"

definition randomDeletePolicy :: "Machine \<Rightarrow> deletePriority" where
  "randomDeletePolicy machine =
     (if isDeleting machine then mustDelete
      else if markedForDelete machine then betterDelete
      else if \<not> isMachineHealthy machine then betterDelete
      else couldDelete)"

definition sortableLess :: "(Machine \<Rightarrow> deletePriority) \<Rightarrow> Machine \<Rightarrow> Machine \<Rightarrow> bool" where
  "sortableLess priority a b =
     (if priority a = priority b then mchName a < mchName b else priority b < priority a)"

text \<open>The machines to delete, and the slice as the in-place sort leaves it.\<close>

definition getMachinesToDeletePrioritized ::
  "Machine list \<Rightarrow> int \<Rightarrow> (Machine \<Rightarrow> deletePriority) \<Rightarrow> Machine list \<times> Machine list" where
  "getMachinesToDeletePrioritized filteredMachines diff priority =
     (if diff \<ge> int (length filteredMachines) then (filteredMachines, filteredMachines)
      else if diff \<le> 0 then ([], filteredMachines)
      else let sortedMachines = sort_Sort (sortableLess priority) filteredMachines
           in (take (nat diff) sortedMachines, sortedMachines))"

definition getDeletePriorityFunc :: "(real \<Rightarrow> real) \<Rightarrow> int \<Rightarrow> MachineSet \<Rightarrow> (Machine \<Rightarrow> deletePriority) res" where
  "getDeletePriorityFunc fl now ms =
     (let msdp = mssDeletePolicy (msSpec ms) in
      if msdp = ''Random'' then Inr randomDeletePolicy
      else if msdp = ''Newest'' then Inr (newestDeletePriority fl now)
      else if msdp = ''Oldest'' then Inr (oldestDeletePriority fl now)
      else if msdp = [] then Inr randomDeletePolicy
      else Inl (Err ''Unsupported delete policy''))"

section \<open>Preflight checks\<close>

definition MachineSetSkipPreflightChecksAnnotation :: string where
  "MachineSetSkipPreflightChecksAnnotation = ''machineset.cluster.x-k8s.io/skip-preflight-checks''"
abbreviation "MachineSetPreflightCheckAll \<equiv> ''All''"
abbreviation "MachineSetPreflightCheckKubeadmVersionSkew \<equiv> ''KubeadmVersionSkew''"
abbreviation "MachineSetPreflightCheckKubernetesVersionSkew \<equiv> ''KubernetesVersionSkew''"
abbreviation "MachineSetPreflightCheckControlPlaneIsStable \<equiv> ''ControlPlaneIsStable''"

text \<open>What the checks ask of code that is not part of the repository, and of the feature gate.\<close>

record 'u preflightDeps =
  pfEnabled :: bool
  pfLib :: "'u unstructuredLib"
  pfGroup :: "string \<Rightarrow> string res"

definition skippedPreflightChecks :: "MachineSet option \<Rightarrow> string set" where
  "skippedPreflightChecks msp =
     (case msp of
        None \<Rightarrow> {}
      | Some ms \<Rightarrow>
          let skip = mget (msAnnotations ms) MachineSetSkipPreflightChecksAnnotation in
          if skip = [] then {} else TrimSpace ` set (Split (CHR '','') skip))"

definition controlPlaneStablePreflightCheck :: "'u unstructuredLib \<Rightarrow> 'u \<Rightarrow> string option res" where
  "controlPlaneStablePreflightCheck L controlPlane =
     bindR (wrapR ''failed to check if ControlPlane is provisioning'' (IsProvisioning L controlPlane)) (\<lambda>isProvisioning.
       if isProvisioning then Inr (Some ''ControlPlane is provisioning (ControlPlaneIsStable preflight failed)'')
       else bindR (wrapR ''failed to check if the ControlPlane is upgrading'' (IsUpgrading L controlPlane)) (\<lambda>isUpgrading.
         if isUpgrading then Inr (Some ''ControlPlane is upgrading (ControlPlaneIsStable preflight failed)'')
         else Inr None))"

definition minVerKubernetesKubeletVersionSkewThree :: semver where
  "minVerKubernetesKubeletVersionSkewThree = \<lparr>Major = 1, Minor = 28, Patch = 0, Pre = [], Build = []\<rparr>"

text \<open>The minor versions are \<open>uint64\<close>: the subtraction wraps.\<close>

definition kubernetesVersionPreflightCheck :: "'u unstructuredLib \<Rightarrow> semver \<Rightarrow> semver \<Rightarrow> string option" where
  "kubernetesVersionPreflightCheck L cpSemver msSemver =
     (if Minor msSemver > Minor cpSemver then Some ''MachineSet version is higher than ControlPlane version''
      else
        let minorSkew = (if semverCompare L cpSemver minVerKubernetesKubeletVersionSkewThree < 0 then 2 else 3) in
        if int (Minor msSemver) < (int (Minor cpSemver) - minorSkew) mod 2 ^ 64
        then Some ''MachineSet version is too many minor versions older than the ControlPlane version''
        else None)"

definition kubeadmVersionPreflightCheck :: "(string \<Rightarrow> string res) \<Rightarrow> semver \<Rightarrow> semver \<Rightarrow> MachineSet \<Rightarrow> string option res" where
  "kubeadmVersionPreflightCheck parseGV cpSemver msSemver ms =
     (case bConfigRef (spBootstrap (tSpec (mssTemplate (msSpec ms)))) of
        None \<Rightarrow> Inr None
      | Some bootstrapConfigRef \<Rightarrow>
          bindR (wrapR ''failed to parse bootstrap configRef APIVersion'' (parseGV (refAPIVersion bootstrapConfigRef))) (\<lambda>g.
            let kubeadmBootstrapProviderUsed =
                  (refKind bootstrapConfigRef = ''KubeadmConfigTemplate'' \<and> g = ''bootstrap.cluster.x-k8s.io'')
            in if kubeadmBootstrapProviderUsed \<and> Minor cpSemver \<noteq> Minor msSemver
               then Inr (Some ''kubeadm only supports joining with the same major+minor version as the control plane'')
               else Inr None))"

definition preflightFailedRequeueAfter :: int where "preflightFailedRequeueAfter = 15"

text \<open>The outcome of a check: its error goes to one list, its message to the other.\<close>

definition collect :: "string option res \<Rightarrow> err list \<times> string list \<Rightarrow> err list \<times> string list" where
  "collect r acc =
     (case r of
        Inl e \<Rightarrow> (fst acc @ [e], snd acc)
      | Inr None \<Rightarrow> acc
      | Inr (Some m) \<Rightarrow> (fst acc, snd acc @ [m]))"

text \<open>The checks, once the control plane object is known: a result to return and a message, or an error.\<close>

definition preflightOn :: "'u preflightDeps \<Rightarrow> 'u \<Rightarrow> MachineSet \<Rightarrow> (ctrlResult \<times> string) res" where
  "preflightOn D controlPlane ms =
     (let L = pfLib D; skipped = skippedPreflightChecks (Some ms) in
      case String_Get L cpVersionPath controlPlane of
        Inl e \<Rightarrow> if isFieldNotFound e then Inr (emptyResult, [])
                 else Inl (Wrap ''failed to get the version of ControlPlane'' e)
      | Inr cpVersion \<Rightarrow>
          bindR (wrapR ''failed to parse version of ControlPlane'' (ParseTolerant L cpVersion)) (\<lambda>cpSemver.
            let acc0 = (if MachineSetPreflightCheckControlPlaneIsStable \<notin> skipped
                        then collect (controlPlaneStablePreflightCheck L controlPlane) ([], []) else ([], []))
            in bindR (case spVersion (tSpec (mssTemplate (msSpec ms))) of
                        None \<Rightarrow> Inr acc0
                      | Some msVersion \<Rightarrow>
                          bindR (wrapR ''failed to parse version of MachineSet'' (ParseTolerant L msVersion)) (\<lambda>msSemver.
                            let acc1 = (if MachineSetPreflightCheckKubernetesVersionSkew \<notin> skipped
                                        then collect (Inr (kubernetesVersionPreflightCheck L cpSemver msSemver)) acc0 else acc0);
                                acc2 = (if MachineSetPreflightCheckKubeadmVersionSkew \<notin> skipped
                                        then collect (kubeadmVersionPreflightCheck (pfGroup D) cpSemver msSemver ms) acc1 else acc1)
                            in Inr acc2))
               (\<lambda>(errList, msgs).
                  if length errList > 0 then Inl (Wrap ''failed to perform preflight checks'' (Aggregate errList))
                  else if length msgs > 0 then Inr (\<lparr>Requeue = False, RequeueAfter = preflightFailedRequeueAfter\<rparr>, Join ''; '' msgs)
                  else Inr (emptyResult, []))))"

text \<open>
  The checks with their early returns; \<open>getControlPlane\<close> is the read of the control plane object, whose
  failure is an error.
\<close>

definition runPreflightChecks ::
  "'u preflightDeps \<Rightarrow> (ObjectReference \<Rightarrow> 'u res) \<Rightarrow> Cluster \<Rightarrow> MachineSet \<Rightarrow> (ctrlResult \<times> string) res" where
  "runPreflightChecks D getControlPlane cluster ms =
     (if \<not> pfEnabled D then Inr (emptyResult, [])
      else if MachineSetPreflightCheckAll \<in> skippedPreflightChecks (Some ms) then Inr (emptyResult, [])
      else case clControlPlaneRef (clSpec cluster) of
        None \<Rightarrow> Inr (emptyResult, [])
      | Some ref \<Rightarrow>
          (case getControlPlane ref of
             Inl e \<Rightarrow> Inl (Wrap ''failed to get ControlPlane'' e)
           | Inr controlPlane \<Rightarrow> preflightOn D controlPlane ms))"

section \<open>The machines of a set\<close>

definition machineLabelsFromMachineSet :: "(string \<Rightarrow> string list) \<Rightarrow> MachineSet \<Rightarrow> strmap" where
  "machineLabelsFromMachineSet labelErrors ms =
     (let copied = (case tLabels (mssTemplate (msSpec ms)) of None \<Rightarrow> Map.empty | Some f \<Rightarrow> f);
          labelled = copied(MachineSetNameLabel \<mapsto> MustFormatValue labelErrors (msName ms))
      in (case mlookup (mlabels (msMeta ms)) MachineDeploymentNameLabel of
            None \<Rightarrow> labelled | Some deployment \<Rightarrow> labelled(MachineDeploymentNameLabel \<mapsto> deployment)))"

definition machineAnnotationsFromMachineSet :: "MachineSet \<Rightarrow> strmap" where
  "machineAnnotationsFromMachineSet ms =
     (case tAnnotations (mssTemplate (msSpec ms)) of None \<Rightarrow> Map.empty | Some f \<Rightarrow> f)"

definition MachineFinalizer :: string where "MachineFinalizer = ''machine.cluster.x-k8s.io''"

definition machineSetControllerRef :: "MachineSet \<Rightarrow> OwnerReference" where
  "machineSetControllerRef ms =
     \<lparr>orAPIVersion = ''cluster.x-k8s.io/v1beta1'', orKind = ''MachineSet'', orName = msName ms, orUID = msUID ms,
      orController = Some True, orBlockOwnerDeletion = Some True\<rparr>"

abbreviation "emptyRef \<equiv> \<lparr>refKind = [], refNamespace = [], refName = [], refUID = [], refAPIVersion = []\<rparr>"

definition emptyMachineStatus :: MachineStatus where
  "emptyMachineStatus = \<lparr>stNodeRef = None, stNodeInfo = None, stLastUpdated = None, stFailureReason = None,
     stFailureMessage = None, stAddresses = [], stPhase = [], stCertificatesExpiryDate = None,
     stBootstrapReady = False, stInfrastructureReady = False, stObservedGeneration = 0, stConditions = []\<rparr>"

text \<open>\<open>genName\<close> is the library's name generator, from the base name.\<close>

definition computeDesiredMachine ::
  "(string \<Rightarrow> string list) \<Rightarrow> (string \<Rightarrow> string) \<Rightarrow> MachineSet \<Rightarrow> Machine option \<Rightarrow> Machine" where
  "computeDesiredMachine labelErrors genName ms existing =
     (let template = tSpec (mssTemplate (msSpec ms));
          spec = template\<lparr>spClusterName := mssClusterName (msSpec ms), spInfrastructureRef := emptyRef,
                    spBootstrap := (spBootstrap template)\<lparr>bConfigRef := None\<rparr>\<rparr>;
          base = emptyMeta\<lparr>mname := genName (msName ms @ ''-''), mnamespace := mnamespace (msMeta ms),
                   mownerReferences := [machineSetControllerRef ms], mfinalizers := [MachineFinalizer]\<rparr>;
          (md, sp) = (case existing of
             None \<Rightarrow> (base, spec)
           | Some m \<Rightarrow>
               (base\<lparr>mname := mchName m, muid := muid (mchMeta m),
                     mfinalizers := (if MachineFinalizer \<notin> set (mfinalizers (mchMeta m))
                                     then mfinalizers (mchMeta m) @ [MachineFinalizer] else mfinalizers (mchMeta m))\<rparr>,
                spec\<lparr>spBootstrap := (spBootstrap spec)\<lparr>bConfigRef := bConfigRef (spBootstrap (mchSpec m))\<rparr>,
                     spInfrastructureRef := spInfrastructureRef (mchSpec m)\<rparr>))
      in \<lparr>mchMeta = md\<lparr>mlabels := Some (machineLabelsFromMachineSet labelErrors ms),
                       mannotations := Some (machineAnnotationsFromMachineSet ms)\<rparr>,
          mchSpec = sp\<lparr>spNodeDrainTimeout := spNodeDrainTimeout template,
                       spNodeDeletionTimeout := spNodeDeletionTimeout template,
                       spNodeVolumeDetachTimeout := spNodeVolumeDetachTimeout template\<rparr>,
          mchStatus = emptyMachineStatus\<rparr>)"

definition shouldExcludeMachine :: "MachineSet \<Rightarrow> Machine \<Rightarrow> bool" where
  "shouldExcludeMachine ms machine =
     (if GetControllerOf (mchMeta machine) \<noteq> None \<and> \<not> metaIsControlledBy (mchMeta machine) (msUID ms) then True else False)"

definition isDeploymentChild :: "MachineSet \<Rightarrow> bool" where
  "isDeploymentChild ms \<longleftrightarrow> mlookup (mlabels (msMeta ms)) MachineDeploymentNameLabel \<noteq> None"

definition shouldAdopt :: "(string \<Rightarrow> string res) \<Rightarrow> MachineSet \<Rightarrow> bool" where
  "shouldAdopt parseGV ms =
     (if HasOwner parseGV (mownerReferences (msMeta ms)) ''cluster.x-k8s.io/v1beta1'' [''MachineDeployment'', ''Cluster'']
      then False else \<not> isDeploymentChild ms)"

section \<open>What a scale-down deletes\<close>

interpretation by_priority: strict_total "sortableLess priority" "\<lambda>m. (priority m, mchName m)" for priority
  by unfold_locales (auto simp: sortableLess_def split: if_splits)

text \<open>
  What is used of \<open>float64\<close> rounding: it is monotone and exact on the numbers 0, 1 and 50.
\<close>

definition roundingOk :: "(real \<Rightarrow> real) \<Rightarrow> bool" where
  "roundingOk fl \<longleftrightarrow> mono fl \<and> fl 0 = 0 \<and> fl 1 = 1 \<and> fl 50 = 50"

lemma oldest_bounds:
  assumes "roundingOk fl" and "\<not> isDeleting m" and "\<not> markedForDelete m"
  shows "0 \<le> oldestDeletePriority fl now m \<and> oldestDeletePriority fl now m \<le> 50"
proof -
  have mono: "x \<le> y \<Longrightarrow> fl x \<le> fl y" for x y using assms(1) by (simp add: roundingOk_def monoD)
  have ex: "fl 0 = 0" "fl 1 = 1" "fl 50 = 50" using assms(1) by (simp_all add: roundingOk_def)
  have "0 \<le> fl (50 * fl (1 - fl (exp (fl (- d / secondsPerTenDays))))) \<and>
      fl (50 * fl (1 - fl (exp (fl (- d / secondsPerTenDays))))) \<le> 50" if "0 \<le> d" for d
  proof -
    let ?e = "fl (exp (fl (- d / secondsPerTenDays)))"
    have "fl (- d / secondsPerTenDays) \<le> 0"
      using mono [of "- d / secondsPerTenDays" 0] that ex by (simp add: secondsPerTenDays_def)
    then have e: "0 \<le> ?e" "?e \<le> 1" using mono [of 0 "exp (fl (- d / secondsPerTenDays))"]
        mono [of "exp (fl (- d / secondsPerTenDays))" 1] ex by simp_all
    then have "0 \<le> fl (1 - ?e)" "fl (1 - ?e) \<le> 1" using mono [of 0 "1 - ?e"] mono [of "1 - ?e" 1] ex by simp_all
    then show ?thesis using mono [of 0 "50 * fl (1 - ?e)"] mono [of "50 * fl (1 - ?e)" 50] ex by simp
  qed
  then show ?thesis using assms(2,3) by (simp add: oldestDeletePriority_def priorities Let_def)
qed

lemma newest_bounds:
  assumes "roundingOk fl" and "\<not> isDeleting m" and "\<not> markedForDelete m"
  shows "0 \<le> newestDeletePriority fl now m \<and> newestDeletePriority fl now m \<le> 50"
proof -
  have "x \<le> y \<Longrightarrow> fl x \<le> fl y" for x y using assms(1) by (simp add: roundingOk_def monoD)
  from this [of 0 "50 - oldestDeletePriority fl now m"] this [of "50 - oldestDeletePriority fl now m" 50]
  show ?thesis
    using oldest_bounds [OF assms] assms by (auto simp: newestDeletePriority_def priorities roundingOk_def)
qed

lemma getDeletePriorityFunc_cases:
  assumes "getDeletePriorityFunc fl now ms = Inr pri"
  obtains "pri = randomDeletePolicy" "mssDeletePolicy (msSpec ms) \<in> {[], ''Random''}"
  | "pri = newestDeletePriority fl now" "mssDeletePolicy (msSpec ms) = ''Newest''"
  | "pri = oldestDeletePriority fl now" "mssDeletePolicy (msSpec ms) = ''Oldest''"
  using assms by (auto simp: getDeletePriorityFunc_def Let_def split: if_splits)

text \<open>The classes of machines in the order the policies delete them.\<close>

lemma priority_classes:
  assumes "getDeletePriorityFunc fl now ms = Inr pri" and "roundingOk fl"
  shows "isDeleting m \<Longrightarrow> pri m = 100"
    and "\<not> isDeleting m \<Longrightarrow> pri m < 100"
    and "mssDeletePolicy (msSpec ms) \<in> {''Newest'', ''Oldest''} \<Longrightarrow> \<not> isDeleting m \<Longrightarrow> markedForDelete m \<Longrightarrow> pri m = 75"
    and "\<not> isDeleting m \<Longrightarrow> \<not> markedForDelete m \<Longrightarrow> pri m \<le> 50"
    and "\<not> isDeleting m \<Longrightarrow> \<not> isMachineHealthy m \<Longrightarrow> 50 \<le> pri m"
    and "mssDeletePolicy (msSpec ms) \<in> {[], ''Random''} \<Longrightarrow> \<not> isDeleting m \<Longrightarrow> \<not> markedForDelete m \<Longrightarrow>
      isMachineHealthy m \<Longrightarrow> pri m = 20"
proof -
  note b = oldest_bounds [OF assms(2), of m now] newest_bounds [OF assms(2), of m now]
  note d = oldestDeletePriority_def newestDeletePriority_def randomDeletePolicy_def priorities
  note c = getDeletePriorityFunc_cases [OF assms(1)]
  show "isDeleting m \<Longrightarrow> pri m = 100" by (rule c) (simp_all add: d)
  show "\<not> isDeleting m \<Longrightarrow> pri m < 100"
    by (rule c; cases "markedForDelete m"; use b in \<open>simp add: randomDeletePolicy_def priorities\<close>)
      (simp_all add: d)
  show "mssDeletePolicy (msSpec ms) \<in> {''Newest'', ''Oldest''} \<Longrightarrow> \<not> isDeleting m \<Longrightarrow> markedForDelete m \<Longrightarrow> pri m = 75"
    by (rule c) (auto simp: d)
  show "\<not> isDeleting m \<Longrightarrow> \<not> markedForDelete m \<Longrightarrow> pri m \<le> 50"
    by (rule c; use b in \<open>simp add: randomDeletePolicy_def priorities\<close>)
  show "\<not> isDeleting m \<Longrightarrow> \<not> isMachineHealthy m \<Longrightarrow> 50 \<le> pri m" by (rule c) (simp_all add: d)
  show "mssDeletePolicy (msSpec ms) \<in> {[], ''Random''} \<Longrightarrow> \<not> isDeleting m \<Longrightarrow> \<not> markedForDelete m \<Longrightarrow>
      isMachineHealthy m \<Longrightarrow> pri m = 20"
    by (rule c) (auto simp: d)
qed

lemma getMachinesToDelete_cases:
  assumes "getMachinesToDeletePrioritized machines diff pri = (del, order)" and "0 \<le> diff"
  obtains (all) "del = machines" "order = machines" "int (length machines) \<le> diff"
  | (none) "del = []" "order = machines" "diff = 0" "0 < length machines"
  | (some) "del = take (nat diff) (sort_Sort (sortableLess pri) machines)"
      "order = sort_Sort (sortableLess pri) machines" "0 < diff" "diff < int (length machines)"
proof (cases "int (length machines) \<le> diff")
  case True
  with assms(1) show thesis by (intro all) (auto simp: getMachinesToDeletePrioritized_def)
next
  case False
  show thesis
  proof (cases "diff = 0")
    case True
    with assms(1) False show thesis by (intro none) (simp_all add: getMachinesToDeletePrioritized_def)
  next
    case nz: False
    with assms False show thesis by (intro some) (auto simp: getMachinesToDeletePrioritized_def Let_def)
  qed
qed

lemma getMachinesToDelete_split:
  assumes "getMachinesToDeletePrioritized machines diff pri = (del, order)" and "0 \<le> diff"
  shows "length del = min (nat diff) (length machines)" and "mset order = mset machines"
    and "mset machines = mset del + (mset machines - mset del)"
    and "d \<in> set del \<Longrightarrow> k \<in># mset machines - mset del \<Longrightarrow> \<not> sortableLess pri k d"
proof -
  note c = getMachinesToDelete_cases [OF assms]
  have sp: "mset machines = mset (take n s) + mset (drop n s)" if "s = sort_Sort (sortableLess pri) machines" for n s
    using that by (metis append_take_drop_id mset_append mset_sort_Sort)
  show "length del = min (nat diff) (length machines)" by (rule c) simp_all
  show "mset order = mset machines" by (rule c) simp_all
  show "mset machines = mset del + (mset machines - mset del)"
    by (rule c) (simp_all, metis add_diff_cancel_left' sp)
  show "\<not> sortableLess pri k d" if d: "d \<in> set del" and k: "k \<in># mset machines - mset del"
  proof (rule c)
    assume s: "del = take (nat diff) (sort_Sort (sortableLess pri) machines)"
    define so where "so = sort_Sort (sortableLess pri) machines"
    have "sorted_wrt (\<lambda>a b. \<not> sortableLess pri b a) so" unfolding so_def by (rule by_priority.sort_sorted)
    then have "sorted_wrt (\<lambda>a b. \<not> sortableLess pri b a) (take (nat diff) so @ drop (nat diff) so)" by simp
    moreover have "mset machines - mset del = mset (drop (nat diff) so)"
      using sp [OF so_def, of "nat diff"] s so_def by simp
    ultimately show ?thesis using d k s unfolding so_def [symmetric] sorted_wrt_append by simp
  qed (use d k in simp_all)
qed


text \<open>A machine with a node and nothing reported against it, for the examples.\<close>

definition sampleMachine :: "string \<Rightarrow> time \<Rightarrow> Machine" where
  "sampleMachine name created =
     \<lparr>mchMeta = emptyMeta\<lparr>mname := name, muid := name, mcreationTimestamp := created\<rparr>,
      mchSpec = tSpec sampleTemplate, mchStatus = emptyMachineStatus\<lparr>stNodeRef := Some emptyRef\<rparr>\<rparr>"

definition noNode :: "Machine \<Rightarrow> Machine" where
  "noNode m = m\<lparr>mchStatus := (mchStatus m)\<lparr>stNodeRef := None\<rparr>\<rparr>"

lemma sampleMachine_simps [simp]:
  "mchName (sampleMachine n c) = n" "mname (mchMeta (noNode (sampleMachine n c))) = n"
  "timeIsZero (mdeletionTimestamp (mchMeta (sampleMachine n c)))" "mlookup (mannotations (mchMeta (sampleMachine n c))) a = None"
  "timeIsZero (mdeletionTimestamp (mchMeta (noNode m))) = timeIsZero (mdeletionTimestamp (mchMeta m))"
  "mannotations (mchMeta (noNode m)) = mannotations (mchMeta m)"
  "isMachineHealthy (sampleMachine n c)" "\<not> isMachineHealthy (noNode (sampleMachine n c))"
  "mcreationTimestamp (mchMeta (sampleMachine n c)) = c"
  by (simp_all add: sampleMachine_def noNode_def emptyMeta_def timeIsZero_def isMachineHealthy_def
      emptyMachineStatus_def Get_def)


text \<open>
  With the Newest policy a healthy machine whose creation timestamp is not in the past gets the very
  priority of an unhealthy one, so that the unhealthy machine is kept and the healthy one deleted
  when the names happen to be in that order.
\<close>

theorem newest_tie:
  assumes "roundingOk fl" and "now \<le> 1000000000 * mcreationTimestamp (mchMeta h)"
    and "isMachineHealthy h" and "\<not> isDeleting h" and "\<not> markedForDelete h"
    and "\<not> isMachineHealthy u" and "\<not> isDeleting u" and "\<not> markedForDelete u" and "mchName h < mchName u"
  shows "fst (getMachinesToDeletePrioritized [u, h] 1 (newestDeletePriority fl now)) = [h]"
proof -
  have ex: "fl 0 = 0" "fl 1 = 1" "fl 50 = 50" and mono: "\<And>x y. x \<le> y \<Longrightarrow> fl x \<le> fl y"
    using assms(1) by (simp_all add: roundingOk_def monoD)
  define d where "d = timeSub now (1000000000 * mcreationTimestamp (mchMeta h))"
  have "d \<le> 0" using assms(2) by (simp add: d_def timeSub_def)
  then have "real_of_int (sgn d * (\<bar>d\<bar> div 1000000000)) \<le> 0" "real_of_int (sgn d * (\<bar>d\<bar> mod 1000000000)) \<le> 0"
    by (auto simp: sgn_if pos_imp_zdiv_nonneg_iff)
  then have "durationSeconds fl d \<le> 0"
    using mono [of "real_of_int (sgn d * (\<bar>d\<bar> mod 1000000000)) / 1000000000" 0] mono ex
    unfolding durationSeconds_def by (metis add_nonpos_nonpos divide_nonpos_pos zero_less_numeral)
  then have old: "oldestDeletePriority fl now h = 0"
    using assms(3-5) ex by (cases "durationSeconds fl d = 0")
      (simp_all add: oldestDeletePriority_def priorities Let_def d_def [symmetric])
  then have "newestDeletePriority fl now h = 50" "newestDeletePriority fl now u = 50"
    using assms ex by (simp_all add: newestDeletePriority_def priorities)
  moreover have "\<not> mchName u < mchName h" using assms(9) by simp
  ultimately show ?thesis
    using assms(9) by (simp add: getMachinesToDeletePrioritized_def sort_Sort_def sortableLess_def)
qed

theorem newest_tie_witness:
  "fst (getMachinesToDeletePrioritized [noNode (sampleMachine ''b'' 5), sampleMachine ''a'' 5] 1 (newestDeletePriority id 5000000000))
    = [sampleMachine ''a'' 5]"
  by (rule newest_tie) (simp_all add: roundingOk_def mono_def)

section \<open>When a set may create machines\<close>

lemma controlPlaneStable_None:
  "controlPlaneStablePreflightCheck L cp = Inr None \<longleftrightarrow> IsProvisioning L cp = Inr False \<and> IsUpgrading L cp = Inr False"
  by (cases "IsProvisioning L cp"; cases "IsUpgrading L cp")
    (auto simp: controlPlaneStablePreflightCheck_def wrapR_def)

definition minorSkew :: "'u unstructuredLib \<Rightarrow> semver \<Rightarrow> nat" where
  "minorSkew L cp = (if semverCompare L cp minVerKubernetesKubeletVersionSkewThree < 0 then 2 else 3)"

lemma skew_None:
  assumes "minorSkew L cp \<le> Minor cp" and "Minor cp < 2 ^ 64"
  shows "kubernetesVersionPreflightCheck L cp ms = None \<longleftrightarrow> Minor ms \<le> Minor cp \<and> Minor cp \<le> Minor ms + minorSkew L cp"
proof -
  have "(int (Minor cp) - int (minorSkew L cp)) mod 2 ^ 64 = int (Minor cp) - int (minorSkew L cp)"
    using assms by (intro mod_pos_pos_trivial) auto
  then show ?thesis
    by (auto simp: kubernetesVersionPreflightCheck_def minorSkew_def Let_def split: if_splits)
qed

text \<open>Whether the set joins its machines with kubeadm: then the reference must be readable.\<close>

definition kubeadmJoinOk :: "(string \<Rightarrow> string res) \<Rightarrow> semver \<Rightarrow> semver \<Rightarrow> MachineSet \<Rightarrow> bool" where
  "kubeadmJoinOk parseGV cp mv ms =
     (case bConfigRef (spBootstrap (tSpec (mssTemplate (msSpec ms)))) of
        None \<Rightarrow> True
      | Some ref \<Rightarrow>
          (case parseGV (refAPIVersion ref) of
             Inl e \<Rightarrow> False
           | Inr g \<Rightarrow> refKind ref = ''KubeadmConfigTemplate'' \<and> g = ''bootstrap.cluster.x-k8s.io'' \<longrightarrow> Minor cp = Minor mv))"

lemma kubeadm_None: "kubeadmVersionPreflightCheck parseGV cp mv ms = Inr None \<longleftrightarrow> kubeadmJoinOk parseGV cp mv ms"
  by (auto simp: kubeadmVersionPreflightCheck_def kubeadmJoinOk_def wrapR_def Let_def split: option.splits sum.splits)

lemma collect_Nil: "collect r acc = ([], []) \<longleftrightarrow> r = Inr None \<and> acc = ([], [])"
  by (cases acc) (auto simp: collect_def split: sum.splits option.splits)

lemma preflight_verdict:
  "(case acc of (errList, msgs) \<Rightarrow>
      if length errList > 0 then Inl (Wrap ''failed to perform preflight checks'' (Aggregate errList))
      else if length msgs > 0 then Inr (\<lparr>Requeue = False, RequeueAfter = preflightFailedRequeueAfter\<rparr>, Join ''; '' msgs)
      else Inr (emptyResult, [])) = Inr (emptyResult, m) \<longleftrightarrow> acc = ([], []) \<and> m = []"
  by (cases acc) (auto simp: preflightFailedRequeueAfter_def)


text \<open>A control plane object with every version field set to its own value, and a library that reads it.\<close>

definition sampleLib :: "string unstructuredLib" where
  "sampleLib = \<lparr>NestedInt64 = \<lambda>_ _. Inr None, NestedBool = \<lambda>_ _. Inr None, NestedString = \<lambda>u _. Inr (Some u),
     ParseTolerant = \<lambda>v. Inr \<lparr>Major = 1, Minor = length v, Patch = 0, Pre = [], Build = []\<rparr>,
     semverCompare = \<lambda>a b. int (Minor a) - int (Minor b)\<rparr>"

definition samplePreflight :: "string preflightDeps" where
  "samplePreflight = \<lparr>pfEnabled = True, pfLib = sampleLib, pfGroup = \<lambda>s. Inr s\<rparr>"

definition sampleCluster :: Cluster where
  "sampleCluster = \<lparr>clMeta = emptyMeta\<lparr>mname := ''c''\<rparr>,
     clSpec = \<lparr>clPaused = False, clControlPlaneEndpoint = \<lparr>epHost = [], epPort = 0\<rparr>, clControlPlaneRef = Some emptyRef,
       clInfrastructureRef = None, clTopology = None\<rparr>,
     clStatus = \<lparr>clFailureDomains = [], clFailureReason = None, clFailureMessage = None, clPhase = [],
       clInfrastructureReady = True, clControlPlaneReady = True, clConditions = [], clObservedGeneration = 0\<rparr>\<rparr>"


text \<open>
  The skew check subtracts minor versions as \<open>uint64\<close>: for a control plane whose minor version is
  below the allowed skew it wraps, and the check rejects every set, also one of the same version.
\<close>

theorem skew_wraps:
  assumes "Minor cp < minorSkew L cp" and "Minor ms \<le> Minor cp"
  shows "kubernetesVersionPreflightCheck L cp ms \<noteq> None"
proof -
  let ?d = "int (Minor cp) - int (minorSkew L cp)"
  have "minorSkew L cp \<le> 3" by (simp add: minorSkew_def)
  then have d: "- 3 \<le> ?d" "?d < 0" using assms(1) by linarith+
  have "(?d + 2 ^ 64) mod 2 ^ 64 = ?d + 2 ^ 64" by (rule mod_pos_pos_trivial) (use d in simp_all)
  then have "?d mod 2 ^ 64 = ?d + 2 ^ 64" by simp
  moreover have "int (Minor ms) < ?d + 2 ^ 64" using assms(2) d(1) \<open>minorSkew L cp \<le> 3\<close> assms(1) by simp
  ultimately show ?thesis
    using assms(2) by (auto simp: kubernetesVersionPreflightCheck_def minorSkew_def Let_def split: if_splits)
qed

theorem skew_wraps_witness:
  "kubernetesVersionPreflightCheck sampleLib
     \<lparr>Major = 1, Minor = 1, Patch = 0, Pre = [], Build = []\<rparr> \<lparr>Major = 1, Minor = 1, Patch = 0, Pre = [], Build = []\<rparr> \<noteq> None"
  by (rule skew_wraps) (simp_all add: minorSkew_def)

section \<open>The machine a set wants\<close>

text \<open>
  The desired machine of an existing one keeps its name, its UID, its finalizers and its references to
  the bootstrap and infrastructure objects; desired machines always carry the machine finalizer and
  the set's name label, and are controlled by the set, which therefore counts them as its own.
  Computing the desired machine again, from the one computed, changes nothing.
\<close>

theorem computeDesiredMachine_stable:
  "let d = computeDesiredMachine labelErrors genName ms existing in
   computeDesiredMachine labelErrors genName' ms (Some d) = d \<and>
   metaIsControlledBy (mchMeta d) (msUID ms) \<and> \<not> shouldExcludeMachine ms d \<and>
   MachineFinalizer \<in> set (mfinalizers (mchMeta d)) \<and>
   mlookup (mlabels (mchMeta d)) MachineSetNameLabel = Some (MustFormatValue labelErrors (msName ms)) \<and>
   (case existing of None \<Rightarrow> mchName d = genName (msName ms @ ''-'')
    | Some m \<Rightarrow> mchName d = mchName m \<and> muid (mchMeta d) = muid (mchMeta m) \<and>
        set (mfinalizers (mchMeta m)) \<subseteq> set (mfinalizers (mchMeta d)) \<and>
        spInfrastructureRef (mchSpec d) = spInfrastructureRef (mchSpec m) \<and>
        bConfigRef (spBootstrap (mchSpec d)) = bConfigRef (spBootstrap (mchSpec m)))"
  by (cases existing)
    (auto simp: computeDesiredMachine_def Let_def metaIsControlledBy_def shouldExcludeMachine_def GetControllerOf_def
      machineSetControllerRef_def machineLabelsFromMachineSet_def isDeploymentChild_def emptyMeta_def mlookup_def
      MachineSetNameLabel_def MachineDeploymentNameLabel_def split: option.splits)

end
