(* ===== verification/MachineSetController.thy ===== *)
theory MachineSetController
  imports MachineSetPolicy
begin

text \<open>
  The reconciliation of a MachineSet
  (\<open>src/cluster-api/internal/controllers/machineset/machineset_controller.go\<close>): adoption, remediation of
  unhealthy machines, in-place propagation, scaling and status.

  The state of a run is the MachineSet the code changes in place, the machines it holds pointers
  to, and the API calls made so far. What the API server, the workload cluster, the clock and the
  name generator answer is the environment \<open>msEnv\<close>, whose answers may depend on every call made
  before. The helpers for patches and server-side apply, with their caches, are single calls
  of the environment. Log lines and events are not modelled.
\<close>

section \<open>State and environment\<close>

datatype msCall =
    HelperFor string
  | PatchMachine Machine Machine
  | AdoptMachine Machine Machine
  | CleanMachineFields string
  | ApplyMachine "Machine option" Machine
  | ReadExternal ObjectReference string
  | DropFields ext
  | ApplyExternal ext strmap strmap
  | CreateExternal ext
  | DeleteExternal ObjectReference
  | PatchExternalOwners ext ext
  | DeleteMachine Machine
  | PatchMachineStatus Machine Machine
  | ReadMachine string string
  | ReadMachines string strmap
  | ReadDeployment string string
  | ReadClient string
  | ReadNode string
  | ReadControlPlane ObjectReference
  | UpdateContract ObjectReference
  | ReadMachineSet string
  | ReadOwners string
  | ReadCluster string string
  | PatchSet MachineSet MachineSet
  | ReadMachineSets string

record msState =
  msObj :: MachineSet
  mheap :: "ptr \<Rightarrow> Machine"
  mnext :: ptr
  trace :: "msCall list"

record 'u msEnv =
  eOutcome :: "msCall list \<Rightarrow> msCall \<Rightarrow> err option"
  eExternal :: "msCall list \<Rightarrow> ObjectReference \<Rightarrow> ext"
  eCreated :: "msCall list \<Rightarrow> ext \<Rightarrow> ext"
  eApplied :: "msCall list \<Rightarrow> Machine \<Rightarrow> Machine"
  eAdopted :: "msCall list \<Rightarrow> Machine \<Rightarrow> Machine"
  eStatusPatched :: "msCall list \<Rightarrow> Machine \<Rightarrow> Machine"
  eMachine :: "msCall list \<Rightarrow> Machine"
  eMachines :: "msCall list \<Rightarrow> Machine list"
  eDeployment :: "msCall list \<Rightarrow> MachineDeployment"
  eNode :: "msCall list \<Rightarrow> Node"
  eControlPlane :: "msCall list \<Rightarrow> 'u"
  eContract :: "msCall list \<Rightarrow> ObjectReference \<Rightarrow> ObjectReference"
  eSetRead :: "msCall list \<Rightarrow> MachineSet"
  eSetsRead :: "msCall list \<Rightarrow> MachineSet list"
  eCluster :: "msCall list \<Rightarrow> Cluster"
  ePatchedSet :: "msCall list \<Rightarrow> MachineSet \<Rightarrow> MachineSet"
  eName :: "msCall list \<Rightarrow> string \<Rightarrow> string"
  eNow :: "msCall list \<Rightarrow> int"
  eOrder :: "msCall list \<Rightarrow> Machine list \<Rightarrow> Machine list"
  ePreflight :: "'u preflightDeps"
  eGetScaled :: "IntOrString \<Rightarrow> int \<Rightarrow> bool \<Rightarrow> int res"
  eFl :: "real \<Rightarrow> real"
  eLabelErrors :: "string \<Rightarrow> string list"
  eGroupKind :: "ObjectReference \<Rightarrow> string"
  eErrText :: "err \<Rightarrow> string"
  eSelectorMap :: "LabelSelector \<Rightarrow> strmap res"
  eSelectorString :: "LabelSelector \<Rightarrow> string res"
  eMatches :: "strmap option \<Rightarrow> strmap option \<Rightarrow> bool"
  eSelectorMatches :: "LabelSelector \<Rightarrow> (bool \<times> (strmap option \<Rightarrow> bool)) res"
  eClusterLocked :: "err \<Rightarrow> bool"
  eDeprecatedNaming :: bool
  eTicks :: nat

text \<open>The clock in seconds, the resolution of a stored timestamp; \<open>eNow\<close> is in nanoseconds.\<close>

definition nowSec :: "'u msEnv \<Rightarrow> msCall list \<Rightarrow> time" where
  "nowSec E cs = eNow E cs div 1000000000"

text \<open>One API call: it is recorded, and fails if the server says so.\<close>

definition call :: "'u msEnv \<Rightarrow> msCall \<Rightarrow> (msState, unit) comp" where
  "call E c s =
     (case eOutcome E (trace s) c of
        None \<Rightarrow> (Inr (), s\<lparr>trace := trace s @ [c]\<rparr>)
      | Some e \<Rightarrow> (Inl e, s\<lparr>trace := trace s @ [c]\<rparr>))"

text \<open>A read: the call, then what the environment answers to it.\<close>

definition readE :: "'u msEnv \<Rightarrow> msCall \<Rightarrow> (msCall list \<Rightarrow> 'a) \<Rightarrow> (msState, 'a) comp" where
  "readE E c answer = bindE (getsE trace) (\<lambda>cs. bindE (call E c) (\<lambda>_. returnE (answer (cs @ [c]))))"

definition setMachine :: "ptr \<Rightarrow> Machine \<Rightarrow> (msState, unit) comp" where
  "setMachine p m = modifyE (\<lambda>s. s\<lparr>mheap := (mheap s)(p := m)\<rparr>)"

definition allocMachine :: "Machine \<Rightarrow> (msState, ptr) comp" where
  "allocMachine m s = (Inr (mnext s), s\<lparr>mheap := (mheap s)(mnext s := m), mnext := mnext s + 1\<rparr>)"

definition changeSet :: "(MachineSet \<Rightarrow> MachineSet) \<Rightarrow> (msState, unit) comp" where
  "changeSet f = modifyE (\<lambda>s. s\<lparr>msObj := f (msObj s)\<rparr>)"

definition changeConditions :: "'u msEnv \<Rightarrow> (time \<Rightarrow> Condition list \<Rightarrow> Condition list) \<Rightarrow> (msState, unit) comp" where
  "changeConditions E f =
     modifyE (\<lambda>s. s\<lparr>msObj := setMachineSetConditions
        (f (nowSec E (trace s)) (msstConditions (msStatus (msObj s)))) (msObj s)\<rparr>)"

section \<open>External objects\<close>

definition getExternal :: "'u msEnv \<Rightarrow> ObjectReference \<Rightarrow> string \<Rightarrow> (msState, ext) comp" where
  "getExternal E ref namespace =
     wrapE ''failed to retrieve external object'' (readE E (ReadExternal ref namespace) (\<lambda>cs. eExternal E cs ref))"

text \<open>The input of a clone: reference, namespace, name, cluster name, labels, annotations and owner.\<close>

record CreateFromTemplateInput =
  ciTemplateRef :: ObjectReference
  ciNamespace :: string
  ciName :: string
  ciClusterName :: string
  ciOwnerRef :: "OwnerReference option"
  ciLabels :: "strmap option"
  ciAnnotations :: "strmap option"

definition CreateFromTemplate :: "'u msEnv \<Rightarrow> CreateFromTemplateInput \<Rightarrow> (msState, ObjectReference) comp" where
  "CreateFromTemplate E inp =
     bindE (getExternal E (ciTemplateRef inp) (ciNamespace inp)) (\<lambda>from.
     bindE (getsE trace) (\<lambda>cs.
     bindE (liftE (GenerateTemplate (eGroupKind E) (eName E cs)
              \<lparr>giTemplate = from, giTemplateRef = ciTemplateRef inp, giNamespace = ciNamespace inp,
               giName = ciName inp, giClusterName = ciClusterName inp, giOwnerRef = ciOwnerRef inp,
               giLabels = ciLabels inp, giAnnotations = ciAnnotations inp\<rparr>)) (\<lambda>to.
     bindE (readE E (CreateExternal to) (\<lambda>cs'. eCreated E cs' to)) (\<lambda>created.
       returnE (GetObjectReference created)))))"

definition updateExternalObject :: "'u msEnv \<Rightarrow> ext \<Rightarrow> (msState, unit) comp" where
  "updateExternalObject E obj =
     bindE (getsE msObj) (\<lambda>ms.
       wrapE ''failed to update'' (call E (ApplyExternal obj
         (machineLabelsFromMachineSet (eLabelErrors E) ms) (machineAnnotationsFromMachineSet ms))))"

section \<open>The owner\<close>

definition getOwnerMachineDeployment :: "'u msEnv \<Rightarrow> (msState, MachineDeployment) comp" where
  "getOwnerMachineDeployment E =
     bindE (getsE msObj) (\<lambda>ms.
       let deployment = mget (mlabels (msMeta ms)) MachineDeploymentNameLabel in
       if deployment = [] then failE (Err ''no owner MachineDeployment found for MachineSet'')
       else wrapE ''failed to retrieve owner MachineDeployment for MachineSet''
              (readE E (ReadDeployment (mnamespace (msMeta ms)) deployment) (eDeployment E)))"

definition currentRevision :: "MachineDeployment \<Rightarrow> MachineSet \<Rightarrow> bool" where
  "currentRevision owner ms \<longleftrightarrow>
     mget (mannotations (mdMeta owner)) RevisionAnnotation = mget (msAnnotations ms) RevisionAnnotation"

definition adoptOrphan :: "'u msEnv \<Rightarrow> ptr \<Rightarrow> (msState, unit) comp" where
  "adoptOrphan E p =
     bindE (getsE (\<lambda>s. (msObj s, mheap s p))) (\<lambda>(ms, machine).
       let machine' = machine\<lparr>mchMeta := (mchMeta machine)\<lparr>mownerReferences :=
             EnsureOwnerRef (pfGroup (ePreflight E)) (mownerReferences (mchMeta machine)) (machineSetControllerRef ms)\<rparr>\<rparr> in
       bindE (setMachine p machine') (\<lambda>_.
       bindE (readE E (AdoptMachine machine machine') (\<lambda>cs. eAdopted E cs machine')) (\<lambda>answer. setMachine p answer)))"

section \<open>Preflight checks with their read of the control plane\<close>

definition preflightReads :: "'u preflightDeps \<Rightarrow> Cluster \<Rightarrow> MachineSet \<Rightarrow> ObjectReference option" where
  "preflightReads D cluster ms =
     (if \<not> pfEnabled D \<or> MachineSetPreflightCheckAll \<in> skippedPreflightChecks (Some ms) then None
      else clControlPlaneRef (clSpec cluster))"

definition preflight :: "'u msEnv \<Rightarrow> Cluster \<Rightarrow> (msState, ctrlResult \<times> string) comp" where
  "preflight E cluster =
     bindE (getsE msObj) (\<lambda>ms.
     bindE (case preflightReads (ePreflight E) cluster ms of
              None \<Rightarrow> returnE (\<lambda>_. Inl (Err ''not read''))
            | Some ref \<Rightarrow>
                bindE (attemptE (readE E (ReadControlPlane ref) (eControlPlane E))) (\<lambda>r. returnE (\<lambda>_. r))) (\<lambda>answer.
       liftE (runPreflightChecks (ePreflight E) answer cluster ms)))"

section \<open>Remediation of unhealthy machines\<close>

text \<open>How many machines may be in remediation at once; nothing for a set that is not the current revision.\<close>

definition remediationLimit :: "'u msEnv \<Rightarrow> ptr list \<Rightarrow> (msState, int option) comp" where
  "remediationLimit E filteredMachines =
     bindE (getsE msObj) (\<lambda>ms.
       if \<not> isDeploymentChild ms then returnE (Some (int (length filteredMachines)))
       else
         bindE (getOwnerMachineDeployment E) (\<lambda>owner.
           if \<not> currentRevision owner ms then returnE None
           else
             (case mdsStrategy (mdSpec owner) of
                None \<Rightarrow> returnE (Some (int (length filteredMachines)))
              | Some strategy \<Rightarrow>
                  (case sgRemediationMaxInFlight strategy of
                     Some (Some maxInFlight) \<Rightarrow>
                       let replicas = (case mdReplicas owner of None \<Rightarrow> 1 | Some n \<Rightarrow> n) in
                       bindE (wrapE ''failed to calculate maxInFlight to remediate machines''
                                (liftE (eGetScaled E maxInFlight replicas True))) (\<lambda>n. returnE (Some n))
                   | _ \<Rightarrow> returnE (Some (int (length filteredMachines)))))))"

text \<open>Machines still being remediated use up the limit; the others the owner was asked to remediate are listed.\<close>

fun unhealthyLoop :: "(ptr \<Rightarrow> Machine) \<Rightarrow> ptr list \<Rightarrow> int \<Rightarrow> ptr list \<Rightarrow> int \<times> ptr list" where
  "unhealthyLoop h [] maxInFlight machinesToRemediate = (maxInFlight, machinesToRemediate)"
| "unhealthyLoop h (p # ps) maxInFlight machinesToRemediate =
     (if isDeleting (h p) then
        unhealthyLoop h ps
          (if IsTrue (mchConditions (h p)) MachineOwnerRemediatedCondition then maxInFlight - 1 else maxInFlight)
          machinesToRemediate
      else if IsFalse (mchConditions (h p)) MachineOwnerRemediatedCondition
      then unhealthyLoop h ps maxInFlight (machinesToRemediate @ [p])
      else unhealthyLoop h ps maxInFlight machinesToRemediate)"

definition newerFirst :: "(ptr \<Rightarrow> Machine) \<Rightarrow> ptr \<Rightarrow> ptr \<Rightarrow> bool" where
  "newerFirst h p q \<longleftrightarrow> mcreationTimestamp (mchMeta (h p)) > mcreationTimestamp (mchMeta (h q))"

fun waitLoop :: "'u msEnv \<Rightarrow> string \<Rightarrow> ptr list \<Rightarrow> err list \<Rightarrow> (msState, err list) comp" where
  "waitLoop E message [] errs = returnE errs"
| "waitLoop E message (p # ps) errs =
     bindE (getsE (\<lambda>s. (mheap s p, nowSec E (trace s)))) (\<lambda>(m, now).
     bindE (attemptE (call E (HelperFor (mchName m)))) (\<lambda>r.
       case r of
         Inl e \<Rightarrow> waitLoop E message ps (errs @ [e])
       | Inr _ \<Rightarrow>
           let m' = setMachineConditions (MarkFalse now (mchConditions m) MachineOwnerRemediatedCondition
                      WaitingForRemediationReason ConditionSeverityWarning message []) m in
           bindE (setMachine p m') (\<lambda>_.
           bindE (attemptE (call E (PatchMachine m m'))) (\<lambda>r'.
             waitLoop E message ps (case r' of Inl e \<Rightarrow> errs @ [e] | Inr _ \<Rightarrow> errs)))))"

fun remediateLoop :: "'u msEnv \<Rightarrow> ptr list \<Rightarrow> err list \<Rightarrow> (msState, err list) comp" where
  "remediateLoop E [] errs = returnE errs"
| "remediateLoop E (p # ps) errs =
     bindE (getsE (\<lambda>s. (mheap s p, nowSec E (trace s)))) (\<lambda>(m, now).
     bindE (attemptE (call E (DeleteMachine m))) (\<lambda>r.
       if (case r of Inl e \<Rightarrow> \<not> isNotFound e | Inr _ \<Rightarrow> False)
       then remediateLoop E ps (case r of Inl e \<Rightarrow> errs @ [Wrap ''failed to delete Machine'' e] | Inr _ \<Rightarrow> errs)
       else
         let m' = setMachineConditions (MarkTrue now (mchConditions m) MachineOwnerRemediatedCondition) m in
         bindE (setMachine p m') (\<lambda>_.
         bindE (attemptE (readE E (PatchMachineStatus m m') (\<lambda>cs. eStatusPatched E cs m'))) (\<lambda>r'.
           case r' of
             Inl e \<Rightarrow> remediateLoop E ps (if isNotFound e then errs else errs @ [Wrap ''failed to update status of Machine'' e])
           | Inr answer \<Rightarrow> bindE (setMachine p answer) (\<lambda>_. remediateLoop E ps errs)))))"

definition reconcileUnhealthyMachines :: "'u msEnv \<Rightarrow> Cluster \<Rightarrow> ptr list \<Rightarrow> (msState, ctrlResult) comp" where
  "reconcileUnhealthyMachines E cluster filteredMachines =
     bindE (remediationLimit E filteredMachines) (\<lambda>limit.
       case limit of
         None \<Rightarrow> returnE emptyResult
       | Some maxInFlight0 \<Rightarrow>
           bindE (getsE mheap) (\<lambda>h.
             let (maxInFlight, unhealthy) = unhealthyLoop h filteredMachines maxInFlight0 [] in
             if unhealthy = [] then returnE emptyResult
             else if maxInFlight \<le> 0 then returnE emptyResult
             else
               let newest = sort_Sort (newerFirst h) unhealthy;
                   machinesToRemediate = (if int (length newest) > maxInFlight then take (nat maxInFlight) newest else newest)
               in bindE (attemptE (preflight E cluster)) (\<lambda>r.
                    let (result, message, failed) =
                      (case r of
                         Inl e \<Rightarrow> (emptyResult, eErrText E e, True)
                       | Inr (res, msg) \<Rightarrow> (res, msg, \<not> resultIsZero res))
                    in if failed then
                         bindE (waitLoop E message machinesToRemediate []) (\<lambda>errs.
                           if length errs > 0 then failE (Wrap ''failed to patch unhealthy Machines'' (Aggregate errs))
                           else returnE result)
                       else
                         bindE (remediateLoop E machinesToRemediate []) (\<lambda>errs.
                           if length errs > 0 then failE (Wrap ''failed to delete unhealthy Machines'' (Aggregate errs))
                           else returnE emptyResult))))"

section \<open>In-place propagation\<close>

definition syncExternal :: "'u msEnv \<Rightarrow> ObjectReference \<Rightarrow> string \<Rightarrow> string \<Rightarrow> (msState, unit) comp" where
  "syncExternal E ref namespace what =
     bindE (wrapE (''failed to get '' @ what) (getExternal E ref namespace)) (\<lambda>obj.
     bindE (wrapE (''failed to adjust the managedFields of '' @ what) (call E (DropFields obj))) (\<lambda>_.
       wrapE (''failed to update '' @ what) (updateExternalObject E obj)))"

fun syncMachines :: "'u msEnv \<Rightarrow> ptr list \<Rightarrow> (msState, ptr list) comp" where
  "syncMachines E [] = returnE []"
| "syncMachines E (p # ps) =
     bindE (getsE (\<lambda>s. (msObj s, mheap s p, trace s))) (\<lambda>(ms, m, cs).
       let template = tSpec (mssTemplate (msSpec ms)) in
       if isDeleting m then
         bindE (wrapE ''failed to generate patch for Machine'' (call E (HelperFor (mchName m)))) (\<lambda>_.
           let m' = m\<lparr>mchSpec := (mchSpec m)\<lparr>spNodeDrainTimeout := spNodeDrainTimeout template,
                       spNodeDeletionTimeout := spNodeDeletionTimeout template,
                       spNodeVolumeDetachTimeout := spNodeVolumeDetachTimeout template\<rparr>\<rparr> in
         bindE (setMachine p m') (\<lambda>_.
         bindE (wrapE ''failed to update Machine'' (call E (PatchMachine m m'))) (\<lambda>_.
         bindE (syncMachines E ps) (\<lambda>qs. returnE (p # qs)))))
       else
         bindE (wrapE ''failed to adjust the managedFields of the Machine'' (call E (CleanMachineFields (mchName m)))) (\<lambda>_.
         let desired = computeDesiredMachine (eLabelErrors E) (eName E cs) ms (Some m) in
         bindE (wrapE ''failed to update Machine''
                  (readE E (ApplyMachine (Some m) desired) (\<lambda>cs'. eApplied E cs' desired))) (\<lambda>updated.
         bindE (allocMachine updated) (\<lambda>q.
         bindE (syncExternal E (spInfrastructureRef (mchSpec updated)) (mnamespace (mchMeta updated)) ''InfrastructureMachine'') (\<lambda>_.
         bindE (case bConfigRef (spBootstrap (mchSpec updated)) of
                  None \<Rightarrow> returnE ()
                | Some ref \<Rightarrow> syncExternal E ref (mnamespace (mchMeta updated)) ''BootstrapConfig'') (\<lambda>_.
         bindE (syncMachines E ps) (\<lambda>qs. returnE (q # qs))))))))"

section \<open>Scaling\<close>

text \<open>\<open>wait.PollUntilContextTimeout\<close> with an immediate first attempt, at most \<open>k\<close> attempts.\<close>

fun pollUntil :: "nat \<Rightarrow> (msState, bool) comp \<Rightarrow> (msState, unit) comp" where
  "pollUntil 0 condition = failE (Err ''context deadline exceeded'')"
| "pollUntil (Suc k) condition = bindE condition (\<lambda>ok. if ok then returnE () else pollUntil k condition)"

fun waitForMachineCreation :: "'u msEnv \<Rightarrow> Machine list \<Rightarrow> (msState, unit) comp" where
  "waitForMachineCreation E [] = returnE ()"
| "waitForMachineCreation E (machine # rest) =
     bindE (wrapE ''failed waiting for machine object to be created''
       (pollUntil (eTicks E)
          (bindE (attemptE (call E (ReadMachine (mnamespace (mchMeta machine)) (mchName machine)))) (\<lambda>r.
             case r of
               Inl e \<Rightarrow> if isNotFound e then returnE False else failE e
             | Inr _ \<Rightarrow> returnE True)))) (\<lambda>_.
       waitForMachineCreation E rest)"

fun waitForMachineDeletion :: "'u msEnv \<Rightarrow> Machine list \<Rightarrow> (msState, unit) comp" where
  "waitForMachineDeletion E [] = returnE ()"
| "waitForMachineDeletion E (machine # rest) =
     bindE (wrapE ''failed waiting for machine object to be deleted''
       (pollUntil (eTicks E)
          (bindE (attemptE (readE E (ReadMachine (mnamespace (mchMeta machine)) (mchName machine)) (eMachine E))) (\<lambda>r.
             case r of
               Inl e \<Rightarrow> if isNotFound e then returnE True else failE e
             | Inr m \<Rightarrow> returnE (isDeleting m))))) (\<lambda>_.
       waitForMachineDeletion E rest)"

definition markNotCreated :: "'u msEnv \<Rightarrow> string \<Rightarrow> string \<Rightarrow> (msState, unit) comp" where
  "markNotCreated E reason message =
     changeConditions E (\<lambda>now cs. MarkFalse now cs MachinesCreatedCondition reason ConditionSeverityError message [])"

definition cloneFor :: "'u msEnv \<Rightarrow> Machine \<Rightarrow> ObjectReference \<Rightarrow> string \<Rightarrow> string \<Rightarrow> (msState, ObjectReference) comp" where
  "cloneFor E machine ref name reason =
     bindE (getsE msObj) (\<lambda>ms.
     bindE (attemptE (CreateFromTemplate E
        \<lparr>ciTemplateRef = ref, ciNamespace = mnamespace (mchMeta machine), ciName = name,
         ciClusterName = spClusterName (mchSpec machine),
         ciOwnerRef = Some \<lparr>orAPIVersion = ''cluster.x-k8s.io/v1beta1'', orKind = ''MachineSet'', orName = msName ms,
           orUID = msUID ms, orController = None, orBlockOwnerDeletion = None\<rparr>,
         ciLabels = mlabels (mchMeta machine), ciAnnotations = mannotations (mchMeta machine)\<rparr>)) (\<lambda>r.
       case r of
         Inr created \<Rightarrow> returnE created
       | Inl e \<Rightarrow> bindE (markNotCreated E reason (eErrText E e)) (\<lambda>_.
                     failE (Wrap ''failed to clone while creating a machine'' e))))"

text \<open>The machine itself: if it cannot be created, its clones are to be deleted again.\<close>

definition applyOrCleanUp ::
  "'u msEnv \<Rightarrow> Machine \<Rightarrow> ObjectReference \<Rightarrow> ObjectReference option \<Rightarrow> (msState, Machine res) comp" where
  "applyOrCleanUp E machine infraRef bootstrapRef =
     bindE (attemptE (readE E (ApplyMachine None machine) (\<lambda>cs. eApplied E cs machine))) (\<lambda>r.
       case r of
         Inr created \<Rightarrow> returnE (Inr created)
       | Inl e \<Rightarrow>
           bindE (markNotCreated E MachineCreationFailedReason (eErrText E e)) (\<lambda>_.
           bindE (attemptE (call E (DeleteExternal infraRef))) (\<lambda>_.
           bindE (case bootstrapRef of None \<Rightarrow> returnE (Inr ()) | Some b \<Rightarrow> attemptE (call E (DeleteExternal b))) (\<lambda>_.
             returnE (Inl e)))))"

text \<open>One machine: a failed clone ends the run, a failed creation is an error value.\<close>

definition createOne :: "'u msEnv \<Rightarrow> (msState, Machine res) comp" where
  "createOne E =
     bindE (getsE (\<lambda>s. (msObj s, trace s))) (\<lambda>(ms, cs).
       let machine = computeDesiredMachine (eLabelErrors E) (eName E cs) ms None;
           template = tSpec (mssTemplate (msSpec ms))
       in bindE (case bConfigRef (spBootstrap template) of
                   None \<Rightarrow> returnE None
                 | Some ref \<Rightarrow> bindE (cloneFor E machine ref (mchName machine) BootstrapTemplateCloningFailedReason)
                                (\<lambda>r. returnE (Some r))) (\<lambda>bootstrapRef.
          bindE (getsE trace) (\<lambda>cs1.
            let infraName = (if eDeprecatedNaming E then eName E cs1 (refName (spInfrastructureRef template) @ ''-'')
                             else mchName machine) in
          bindE (cloneFor E machine (spInfrastructureRef template) infraName InfrastructureTemplateCloningFailedReason) (\<lambda>infraRef.
            applyOrCleanUp E
              (machine\<lparr>mchSpec := (mchSpec machine)
                 \<lparr>spBootstrap := (case bootstrapRef of None \<Rightarrow> spBootstrap (mchSpec machine)
                      | Some r \<Rightarrow> (spBootstrap (mchSpec machine))\<lparr>bConfigRef := Some r\<rparr>),
                  spInfrastructureRef := infraRef\<rparr>\<rparr>)
              infraRef bootstrapRef))))"

fun createLoop :: "'u msEnv \<Rightarrow> nat \<Rightarrow> Machine list \<Rightarrow> err list \<Rightarrow> (msState, Machine list \<times> err list) comp" where
  "createLoop E 0 machineList errs = returnE (machineList, errs)"
| "createLoop E (Suc k) machineList errs =
     bindE (createOne E) (\<lambda>r.
       case r of
         Inl e \<Rightarrow> createLoop E k machineList (errs @ [e])
       | Inr machine \<Rightarrow> createLoop E k (machineList @ [machine]) errs)"

fun deleteLoop :: "'u msEnv \<Rightarrow> Machine list \<Rightarrow> err list \<Rightarrow> (msState, err list) comp" where
  "deleteLoop E [] errs = returnE errs"
| "deleteLoop E (machine # rest) errs =
     (if timeIsZero (mdeletionTimestamp (mchMeta machine))
      then bindE (attemptE (call E (DeleteMachine machine))) (\<lambda>r.
             deleteLoop E rest (case r of Inl e \<Rightarrow> errs @ [e] | Inr _ \<Rightarrow> errs))
      else deleteLoop E rest errs)"

definition syncReplicas :: "'u msEnv \<Rightarrow> Cluster \<Rightarrow> ptr list \<Rightarrow> (msState, ctrlResult) comp" where
  "syncReplicas E cluster machines =
     bindE (getsE (\<lambda>s. (msObj s, map (mheap s) machines, trace s))) (\<lambda>(ms, objs, cs).
       case msReplicas ms of
         None \<Rightarrow> failE (Err ''the Replicas field in Spec for machineset is nil, this should not be allowed'')
       | Some replicas \<Rightarrow>
           let diff = int (length machines) - replicas in
           if diff < 0 then
             if mlookup (msAnnotations ms) DisableMachineCreateAnnotation \<noteq> None then returnE emptyResult
             else
               bindE (attemptE (preflight E cluster)) (\<lambda>r.
                 case r of
                   Inl e \<Rightarrow> bindE (markNotCreated E PreflightCheckFailedReason (eErrText E e)) (\<lambda>_. failE e)
                 | Inr (result, message) \<Rightarrow>
                     if \<not> resultIsZero result
                     then bindE (markNotCreated E PreflightCheckFailedReason message) (\<lambda>_. returnE result)
                     else
                       bindE (createLoop E (nat (- diff)) [] []) (\<lambda>(machineList, errs).
                         if length errs > 0 then failE (Aggregate errs)
                         else bindE (waitForMachineCreation E machineList) (\<lambda>_. returnE emptyResult)))
           else if diff > 0 then
             bindE (liftE (getDeletePriorityFunc (eFl E) (eNow E cs) ms)) (\<lambda>priority.
               let machinesToDelete = fst (getMachinesToDeletePrioritized objs diff priority) in
             bindE (deleteLoop E machinesToDelete []) (\<lambda>errs.
               if length errs > 0 then failE (Aggregate errs)
               else bindE (waitForMachineDeletion E machinesToDelete) (\<lambda>_. returnE emptyResult)))
           else returnE emptyResult)"

section \<open>Status\<close>

definition getMachineNode :: "'u msEnv \<Rightarrow> Cluster \<Rightarrow> Machine \<Rightarrow> (msState, Node) comp" where
  "getMachineNode E cluster machine =
     bindE (call E (ReadClient (mname (clMeta cluster)))) (\<lambda>_.
     bindE (liftE (deref ''machine.Status.NodeRef'' (stNodeRef (mchStatus machine)))) (\<lambda>ref.
       wrapE ''error retrieving node'' (readE E (ReadNode (refName ref)) (eNode E))))"

text \<open>Fully labelled, ready and available machines.\<close>

fun countLoop :: "'u msEnv \<Rightarrow> Cluster \<Rightarrow> MachineSet \<Rightarrow> Machine list \<Rightarrow> int \<times> int \<times> int \<Rightarrow> (msState, int \<times> int \<times> int) comp" where
  "countLoop E cluster ms [] counts = returnE counts"
| "countLoop E cluster ms (machine # rest) (labeled, ready, available) =
     (let labeled' = (if eMatches E (tLabels (mssTemplate (msSpec ms))) (mlabels (mchMeta machine)) then labeled + 1 else labeled) in
      if stNodeRef (mchStatus machine) = None then countLoop E cluster ms rest (labeled', ready, available)
      else
        bindE (attemptE (getMachineNode E cluster machine)) (\<lambda>r.
          if (case r of Inl _ \<Rightarrow> timeIsZero (mdeletionTimestamp (mchMeta machine)) | Inr _ \<Rightarrow> False)
          then countLoop E cluster ms rest (labeled', ready, available)
          else
            let node = (case r of Inl _ \<Rightarrow> None | Inr n \<Rightarrow> Some n) in
            if IsNodeReady node then
              bindE (getsE (\<lambda>s. nowSec E (trace s))) (\<lambda>now.
                countLoop E cluster ms rest
                  (labeled', ready + 1,
                   if IsNodeAvailable node (mssMinReadySeconds (msSpec ms)) now then available + 1 else available))
            else countLoop E cluster ms rest (labeled', ready, available)))"

text \<open>The status and the conditions, from the counts.\<close>

definition storeStatus :: "string \<Rightarrow> int \<Rightarrow> int \<times> int \<times> int \<Rightarrow> MachineSet \<Rightarrow> MachineSet" where
  "storeStatus selector newReplicas counts ms =
     (case counts of (labeled, ready, available) \<Rightarrow>
      let newStatus = (msStatus ms)\<lparr>msstSelector := selector, msstReplicas := newReplicas,
            msstFullyLabeledReplicas := wrap32 labeled, msstReadyReplicas := wrap32 ready,
            msstAvailableReplicas := wrap32 available\<rparr>
      in if msstReplicas (msStatus ms) \<noteq> msstReplicas newStatus \<or>
            msstFullyLabeledReplicas (msStatus ms) \<noteq> msstFullyLabeledReplicas newStatus \<or>
            msstReadyReplicas (msStatus ms) \<noteq> msstReadyReplicas newStatus \<or>
            msstAvailableReplicas (msStatus ms) \<noteq> msstAvailableReplicas newStatus \<or>
            mgeneration (msMeta ms) \<noteq> msstObservedGeneration (msStatus ms)
         then ms\<lparr>msStatus := newStatus\<lparr>msstObservedGeneration := mgeneration (msMeta ms)\<rparr>\<rparr>
         else ms)"

definition markResized :: "'u msEnv \<Rightarrow> int \<Rightarrow> int \<Rightarrow> int \<Rightarrow> (msState, unit) comp" where
  "markResized E desiredReplicas newReplicas newReady =
     (if newReplicas < desiredReplicas then
        changeConditions E (\<lambda>now cs. MarkFalse now cs ResizedCondition ScalingUpReason ConditionSeverityWarning
          ''Scaling up MachineSet to %d replicas (actual %d)'' [FormatInt desiredReplicas, FormatInt newReplicas])
      else if newReplicas > desiredReplicas then
        bindE (changeConditions E (\<lambda>now cs. MarkFalse now cs ResizedCondition ScalingDownReason ConditionSeverityWarning
          ''Scaling down MachineSet to %d replicas (actual %d)'' [FormatInt desiredReplicas, FormatInt newReplicas])) (\<lambda>_.
        changeConditions E (\<lambda>now cs. MarkTrue now cs MachinesCreatedCondition))
      else
        bindE (if newReady = newReplicas
               then changeConditions E (\<lambda>now cs. MarkTrue now cs ResizedCondition) else returnE ()) (\<lambda>_.
        changeConditions E (\<lambda>now cs. MarkTrue now cs MachinesCreatedCondition)))"

definition updateStatus :: "'u msEnv \<Rightarrow> Cluster \<Rightarrow> ptr list \<Rightarrow> (msState, unit) comp" where
  "updateStatus E cluster filteredMachines =
     bindE (getsE (\<lambda>s. (msObj s, map (mheap s) filteredMachines))) (\<lambda>(ms, machines).
     bindE (wrapE ''failed to update status for MachineSet'' (liftE (eSelectorString E (mssSelector (msSpec ms))))) (\<lambda>selector.
     bindE (liftE (deref ''ms.Spec.Replicas'' (msReplicas ms))) (\<lambda>desiredReplicas.
     bindE (countLoop E cluster ms machines (0, 0, 0)) (\<lambda>counts.
       let newReplicas = wrap32 (int (length machines)) in
     bindE (changeSet (storeStatus selector newReplicas counts)) (\<lambda>_.
     bindE (markResized E desiredReplicas newReplicas (wrap32 (fst (snd counts)))) (\<lambda>_.
     bindE (getsE (\<lambda>s. eOrder E (trace s) machines)) (\<lambda>order.
       changeConditions E (\<lambda>now cs. SetAggregate now cs MachinesReadyCondition
         (map (\<lambda>m. \<lparr>gkind = ''Machine'', gname = mchName m, gconditions = mchConditions m\<rparr>) order) [AddSourceRef]))))))))"

section \<open>References to templates\<close>

definition clusterOwnerRef :: "Cluster \<Rightarrow> OwnerReference" where
  "clusterOwnerRef cluster =
     \<lparr>orAPIVersion = ''cluster.x-k8s.io/v1beta1'', orKind = ''Cluster'', orName = mname (clMeta cluster),
      orUID = muid (clMeta cluster), orController = None, orBlockOwnerDeletion = None\<rparr>"

text \<open>The reference is updated in place: its new value is returned.\<close>

definition reconcileExternalTemplateReference ::
  "'u msEnv \<Rightarrow> Cluster \<Rightarrow> ObjectReference \<Rightarrow> (ObjectReference \<Rightarrow> (msState, unit) comp) \<Rightarrow> (msState, unit) comp" where
  "reconcileExternalTemplateReference E cluster ref store =
     (if \<not> HasSuffix (refKind ref) TemplateSuffix then returnE ()
      else
        bindE (readE E (UpdateContract ref) (\<lambda>cs. eContract E cs ref)) (\<lambda>ref'.
        bindE (store ref') (\<lambda>_.
        bindE (attemptE (getExternal E ref' (mnamespace (clMeta cluster)))) (\<lambda>r.
          case r of
            Inl e \<Rightarrow>
              if \<not> isNotFound e then failE e
              else
                bindE (getsE msObj) (\<lambda>ms.
                  if \<not> isDeploymentChild ms then failE e
                  else
                    bindE (getOwnerMachineDeployment E) (\<lambda>owner.
                      if \<not> currentRevision owner ms then returnE () else failE e))
          | Inr obj \<Rightarrow>
              bindE (call E (HelperFor (mname (xMeta obj)))) (\<lambda>_.
                let obj' = obj\<lparr>xMeta := (xMeta obj)\<lparr>mownerReferences :=
                      EnsureOwnerRef (pfGroup (ePreflight E)) (mownerReferences (xMeta obj)) (clusterOwnerRef cluster)\<rparr>\<rparr> in
                call E (PatchExternalOwners obj obj'))))))"

section \<open>Reconcile\<close>

definition setKey :: "string \<Rightarrow> string \<Rightarrow> strmap option \<Rightarrow> strmap option" where
  "setKey k v m = Some ((case m of None \<Rightarrow> Map.empty | Some f \<Rightarrow> f)(k \<mapsto> v))"

text \<open>Adoption: the machines the set may count as its own.\<close>

fun adoptLoop :: "'u msEnv \<Rightarrow> ptr list \<Rightarrow> (msState, ptr list) comp" where
  "adoptLoop E [] = returnE []"
| "adoptLoop E (p # ps) =
     bindE (getsE (\<lambda>s. (msObj s, mheap s p))) (\<lambda>(ms, machine).
       if shouldExcludeMachine ms machine then adoptLoop E ps
       else
         bindE (if GetControllerOf (mchMeta machine) = None then attemptE (adoptOrphan E p) else returnE (Inr ())) (\<lambda>r.
           case r of
             Inl _ \<Rightarrow> adoptLoop E ps
           | Inr _ \<Rightarrow> bindE (adoptLoop E ps) (\<lambda>qs. returnE (p # qs))))"

fun allocMachines :: "Machine list \<Rightarrow> (msState, ptr list) comp" where
  "allocMachines [] = returnE []"
| "allocMachines (m # ms) = bindE (allocMachine m) (\<lambda>p. bindE (allocMachines ms) (\<lambda>ps. returnE (p # ps)))"

definition labelSet :: "'u msEnv \<Rightarrow> Cluster \<Rightarrow> MachineSet \<Rightarrow> MachineSet" where
  "labelSet E cluster ms =
     (let ms1 = ms\<lparr>msMeta := (msMeta ms)\<lparr>mlabels := setKey ClusterNameLabel (mssClusterName (msSpec ms)) (mlabels (msMeta ms))\<rparr>\<rparr>
      in if shouldAdopt (pfGroup (ePreflight E)) ms1
         then ms1\<lparr>msMeta := (msMeta ms1)\<lparr>mownerReferences :=
                EnsureOwnerRef (pfGroup (ePreflight E)) (mownerReferences (msMeta ms1)) (clusterOwnerRef cluster)\<rparr>\<rparr>
         else ms1)"

definition storeInfraRef :: "ObjectReference \<Rightarrow> MachineSet \<Rightarrow> MachineSet" where
  "storeInfraRef ref ms = ms\<lparr>msSpec := (msSpec ms)\<lparr>mssTemplate := (mssTemplate (msSpec ms))
     \<lparr>tSpec := (tSpec (mssTemplate (msSpec ms)))\<lparr>spInfrastructureRef := ref\<rparr>\<rparr>\<rparr>\<rparr>"

definition storeConfigRef :: "ObjectReference \<Rightarrow> MachineSet \<Rightarrow> MachineSet" where
  "storeConfigRef ref ms = ms\<lparr>msSpec := (msSpec ms)\<lparr>mssTemplate := (mssTemplate (msSpec ms))
     \<lparr>tSpec := (tSpec (mssTemplate (msSpec ms)))\<lparr>spBootstrap := (spBootstrap (tSpec (mssTemplate (msSpec ms))))
        \<lparr>bConfigRef := Some ref\<rparr>\<rparr>\<rparr>\<rparr>\<rparr>"

definition selectCluster :: "MachineSet \<Rightarrow> MachineSet" where
  "selectCluster ms =
     (let name = mssClusterName (msSpec ms); sel = mssSelector (msSpec ms); tmpl = mssTemplate (msSpec ms) in
      ms\<lparr>msSpec := (msSpec ms)
        \<lparr>mssSelector := sel\<lparr>lsMatchLabels := setKey ClusterNameLabel name (lsMatchLabels sel)\<rparr>,
         mssTemplate := tmpl\<lparr>tLabels := setKey ClusterNameLabel name (tLabels tmpl)\<rparr>\<rparr>\<rparr>)"

text \<open>The set made ready, its machines read, adopted and returned.\<close>

definition gatherMachines :: "'u msEnv \<Rightarrow> Cluster \<Rightarrow> (msState, ptr list) comp" where
  "gatherMachines E cluster =
     bindE (changeSet (labelSet E cluster)) (\<lambda>_.
     bindE (getsE msObj) (\<lambda>ms.
     bindE (reconcileExternalTemplateReference E cluster (spInfrastructureRef (tSpec (mssTemplate (msSpec ms))))
              (\<lambda>ref. changeSet (storeInfraRef ref))) (\<lambda>_.
     bindE (case bConfigRef (spBootstrap (tSpec (mssTemplate (msSpec ms)))) of
              None \<Rightarrow> returnE ()
            | Some ref \<Rightarrow> reconcileExternalTemplateReference E cluster ref (\<lambda>ref'. changeSet (storeConfigRef ref'))) (\<lambda>_.
     bindE (changeSet selectCluster) (\<lambda>_.
     bindE (getsE msObj) (\<lambda>ms'.
     bindE (wrapE ''failed to convert MachineSet label selector to a map''
              (liftE (eSelectorMap E (mssSelector (msSpec ms'))))) (\<lambda>selectorMap.
     bindE (wrapE ''failed to list machines'' (readE E (ReadMachines (mnamespace (msMeta ms')) selectorMap) (eMachines E))) (\<lambda>items.
     bindE (allocMachines items) (\<lambda>ps. adoptLoop E ps)))))))))"

text \<open>When the reconciliation is to run again.\<close>

definition resyncAfter :: "MachineSet \<Rightarrow> ctrlResult \<Rightarrow> ctrlResult" where
  "resyncAfter ms result =
     (let replicas = (case msReplicas ms of None \<Rightarrow> 0 | Some n \<Rightarrow> n) in
      if mssMinReadySeconds (msSpec ms) > 0 \<and> msstReadyReplicas (msStatus ms) = replicas \<and>
         msstAvailableReplicas (msStatus ms) \<noteq> replicas
      then LowestNonZeroResult result \<lparr>Requeue = False, RequeueAfter = mssMinReadySeconds (msSpec ms)\<rparr>
      else if msstReadyReplicas (msStatus ms) \<noteq> replicas
      then LowestNonZeroResult result \<lparr>Requeue = False, RequeueAfter = 15\<rparr>
      else result)"

definition reconcile :: "'u msEnv \<Rightarrow> Cluster \<Rightarrow> (msState, ctrlResult) comp" where
  "reconcile E cluster =
     bindE (gatherMachines E cluster) (\<lambda>filteredMachines.
     bindE (wrapE ''failed to reconcile unhealthy machines'' (reconcileUnhealthyMachines E cluster filteredMachines)) (\<lambda>r1.
       let result1 = LowestNonZeroResult emptyResult r1 in
     bindE (wrapE ''failed to update Machines'' (syncMachines E filteredMachines)) (\<lambda>machines.
     bindE (attemptE (syncReplicas E cluster machines)) (\<lambda>r2.
       let result2 = (case r2 of Inl _ \<Rightarrow> result1 | Inr r \<Rightarrow> LowestNonZeroResult result1 r);
           syncErr = (case r2 of Inl e \<Rightarrow> Some e | Inr _ \<Rightarrow> None) in
     bindE (attemptE (updateStatus E cluster machines)) (\<lambda>r3.
       case r3 of
         Inl e \<Rightarrow> if isPanic e then failE e
                  else failE (Wrap ''failed to update MachineSet's Status''
                         (Aggregate (e # (case syncErr of None \<Rightarrow> [] | Some se \<Rightarrow> [se]))))
       | Inr _ \<Rightarrow>
           (case syncErr of
              Some se \<Rightarrow> failE (Wrap ''failed to sync MachineSet replicas'' se)
            | None \<Rightarrow> bindE (getsE msObj) (\<lambda>ms. returnE (resyncAfter ms result2))))))))"

definition patchMachineSet :: "'u msEnv \<Rightarrow> MachineSet \<Rightarrow> (msState, unit) comp" where
  "patchMachineSet E original =
     bindE (modifyE (\<lambda>s. s\<lparr>msObj := setMachineSetConditions
        (SetSummary (nowSec E (trace s))
           \<lparr>gkind = ''MachineSet'', gname = msName (msObj s), gconditions = msstConditions (msStatus (msObj s))\<rparr>
           [WithConditions [MachinesCreatedCondition, ResizedCondition, MachinesReadyCondition]]) (msObj s)\<rparr>)) (\<lambda>_.
     bindE (getsE msObj) (\<lambda>ms. call E (PatchSet original ms)))"

text \<open>The deferred patch runs after every outcome; after a panic the panic goes on.\<close>

definition Reconcile :: "'u msEnv \<Rightarrow> string \<Rightarrow> (msState, ctrlResult) comp" where
  "Reconcile E name =
     bindE (attemptE (readE E (ReadMachineSet name) (eSetRead E))) (\<lambda>r.
       case r of
         Inl e \<Rightarrow> if isNotFound e then returnE emptyResult else failE e
       | Inr ms \<Rightarrow>
           bindE (changeSet (\<lambda>_. ms)) (\<lambda>_.
           bindE (call E (ReadOwners name)) (\<lambda>_.
           bindE (readE E (ReadCluster (mnamespace (msMeta ms)) (mssClusterName (msSpec ms))) (eCluster E)) (\<lambda>cluster.
             if IsPaused cluster (msMeta ms) then returnE emptyResult
             else
               bindE (call E (HelperFor name)) (\<lambda>_.
               bindE (if \<not> timeIsZero (mdeletionTimestamp (msMeta ms)) then returnE (Inr emptyResult)
                      else bindE (attemptE (reconcile E cluster)) (\<lambda>r1.
                             case r1 of
                               Inl e \<Rightarrow> if \<not> isPanic e \<and> eClusterLocked E e then returnE (Inr \<lparr>Requeue = False, RequeueAfter = 60\<rparr>)
                                        else returnE (Inl e)
                             | Inr res \<Rightarrow> returnE (Inr res))) (\<lambda>outcome.
               bindE (attemptE (patchMachineSet E ms)) (\<lambda>p.
                 case (outcome, p) of
                   (Inr res, Inr _) \<Rightarrow> returnE res
                 | (Inr res, Inl e) \<Rightarrow> failE (Aggregate [e])
                 | (Inl e, Inr _) \<Rightarrow> failE e
                 | (Inl e, Inl e') \<Rightarrow> if isPanic e then failE e else failE (Aggregate [e, e']))))))))"

section \<open>Watches\<close>

definition HasMatchingLabels :: "'u msEnv \<Rightarrow> LabelSelector \<Rightarrow> strmap option \<Rightarrow> bool" where
  "HasMatchingLabels E matchSelector matchLabels =
     (case eSelectorMatches E matchSelector of
        Inl _ \<Rightarrow> False
      | Inr (isEmpty, selects) \<Rightarrow> if isEmpty then False else if \<not> selects matchLabels then False else True)"

definition getMachineSetsForMachine :: "'u msEnv \<Rightarrow> Machine \<Rightarrow> (msState, MachineSet list) comp" where
  "getMachineSetsForMachine E m =
     (if mlookup (mlabels (mchMeta m)) = Map.empty then failE (Err ''machine has no labels, this is unexpected'')
      else
        bindE (wrapE ''failed to list MachineSets'' (readE E (ReadMachineSets (mnamespace (mchMeta m))) (eSetsRead E))) (\<lambda>items.
          returnE (filter (\<lambda>ms. HasMatchingLabels E (mssSelector (msSpec ms)) (mlabels (mchMeta m))) items)))"

definition MachineToMachineSets :: "'u msEnv \<Rightarrow> Machine \<Rightarrow> (msState, (string \<times> string) list) comp" where
  "MachineToMachineSets E m =
     (if list_ex (\<lambda>ref. orController ref = Some True) (mownerReferences (mchMeta m)) then returnE []
      else
        bindE (attemptE (getMachineSetsForMachine E m)) (\<lambda>r.
          case r of
            Inl _ \<Rightarrow> returnE []
          | Inr mss \<Rightarrow> returnE (map (\<lambda>ms. (mnamespace (msMeta ms), msName ms)) mss)))"

section \<open>What a run calls\<close>

text \<open>The calls of a run are of given kinds, and the size asked for stays as it is.\<close>

definition onlyCalls :: "msCall set \<Rightarrow> msState \<Rightarrow> msState \<Rightarrow> bool" where
  "onlyCalls A s s' \<longleftrightarrow> (\<exists>new. trace s' = trace s @ new \<and> set new \<subseteq> A) \<and>
     msReplicas (msObj s') = msReplicas (msObj s)"

interpretation only_calls: state_relation "onlyCalls A" for A
proof
  fix s t v :: msState
  show "onlyCalls A s s" by (simp add: onlyCalls_def)
  assume a: "onlyCalls A s t" "onlyCalls A t v"
  then obtain n1 n2 where "trace t = trace s @ n1" "set n1 \<subseteq> A" "trace v = trace t @ n2" "set n2 \<subseteq> A"
    by (auto simp: onlyCalls_def)
  with a show "onlyCalls A s v" unfolding onlyCalls_def by (intro conjI exI [of _ "n1 @ n2"]) auto
qed

lemma only_call: "c \<in> A \<Longrightarrow> keeps (onlyCalls A) (call E c)"
  by (auto simp: keeps_def call_def onlyCalls_def split: option.splits)

lemma only_changes:
  "keeps (onlyCalls A) (setMachine p m)" "keeps (onlyCalls A) (allocMachine m)" "keeps (onlyCalls A) (changeConditions E f)"
  by (auto simp: keeps_def setMachine_def allocMachine_def changeConditions_def onlyCalls_def setMachineSetConditions_def)

lemma only_changeSet: "(\<And>m. msReplicas (f m) = msReplicas m) \<Longrightarrow> keeps (onlyCalls A) (changeSet f)"
  by (auto simp: keeps_def changeSet_def onlyCalls_def)

lemma only_readE: "c \<in> A \<Longrightarrow> keeps (onlyCalls A) (readE E c f)"
  unfolding readE_def by (intro only_calls.keeps_rules only_call)

lemmas only_rules = only_calls.keeps_rules only_call only_readE only_changes

definition externalCalls :: "msCall set" where
  "externalCalls = {c. (\<exists>r n. c = ReadExternal r n) \<or> (\<exists>x. c = CreateExternal x)}"

lemma only_CreateFromTemplate: "keeps (onlyCalls externalCalls) (CreateFromTemplate E inp)"
  unfolding CreateFromTemplate_def getExternal_def by (intro only_rules) (auto simp: externalCalls_def)

lemma only_markNotCreated: "keeps (onlyCalls A) (markNotCreated E r m)"
  unfolding markNotCreated_def by (intro only_rules)

lemma only_cloneFor: "keeps (onlyCalls externalCalls) (cloneFor E m r n w)"
  unfolding cloneFor_def by (intro only_rules only_CreateFromTemplate only_markNotCreated)

lemma only_mono: "keeps (onlyCalls A) m \<Longrightarrow> A \<subseteq> B \<Longrightarrow> keeps (onlyCalls B) m"
  unfolding keeps_def onlyCalls_def by blast

lemma only_preflight: "keeps (onlyCalls (range ReadControlPlane)) (preflight E cluster)"
  unfolding preflight_def by (intro only_rules) auto

lemma only_pollUntil: "keeps (onlyCalls A) c \<Longrightarrow> keeps (onlyCalls A) (pollUntil k c)"
  by (induction k; unfold pollUntil.simps; intro only_rules; assumption?)

definition pollCalls :: "msCall set" where
  "pollCalls = {c. \<exists>ns n. c = ReadMachine ns n}"

lemma only_waitForMachineCreation: "keeps (onlyCalls pollCalls) (waitForMachineCreation E ms)"
  by (induction ms; unfold waitForMachineCreation.simps; (intro only_rules only_pollUntil; assumption?)) (auto simp: pollCalls_def)

lemma only_waitForMachineDeletion: "keeps (onlyCalls pollCalls) (waitForMachineDeletion E ms)"
  by (induction ms; unfold waitForMachineDeletion.simps; (intro only_rules only_pollUntil; assumption?)) (auto simp: pollCalls_def)

section \<open>Scaling creates and deletes exactly the difference\<close>

fun isCreate :: "msCall \<Rightarrow> bool" where
  "isCreate (ApplyMachine None m) = True"
| "isCreate _ = False"

definition creates :: "msCall list \<Rightarrow> nat" where
  "creates cs = length (filter isCreate cs)"

fun deleted :: "msCall list \<Rightarrow> Machine list" where
  "deleted [] = []"
| "deleted (DeleteMachine m # cs) = m # deleted cs"
| "deleted (_ # cs) = deleted cs"

lemma deleted_append [simp]: "deleted (cs @ ds) = deleted cs @ deleted ds"
  by (induction cs rule: deleted.induct) auto

lemma creates_simps [simp]: "creates [] = 0" "creates (cs @ ds) = creates cs + creates ds"
  "creates (c # cs) = (if isCreate c then 1 else 0) + creates cs"
  by (simp_all add: creates_def)

lemma no_creates: "(\<And>c. c \<in> A \<Longrightarrow> \<not> isCreate c) \<Longrightarrow> set cs \<subseteq> A \<Longrightarrow> creates cs = 0"
  by (auto simp: creates_def filter_empty_conv)

lemma no_deletes: "(\<And>m. DeleteMachine m \<notin> A) \<Longrightarrow> set cs \<subseteq> A \<Longrightarrow> deleted cs = []"
  by (induction cs rule: deleted.induct) auto

definition deleteExternals :: "msCall set" where
  "deleteExternals = range DeleteExternal"

lemma call_run: "call E c s = (r, s') \<Longrightarrow> trace s' = trace s @ [c] \<and> (isl r \<longleftrightarrow> eOutcome E (trace s) c \<noteq> None) \<and>
    msObj s' = msObj s \<and> mheap s' = mheap s"
  by (auto simp: call_def split: option.splits)

lemma readE_run: "readE E c f s = (r, s') \<Longrightarrow> trace s' = trace s @ [c] \<and> (isl r \<longleftrightarrow> eOutcome E (trace s) c \<noteq> None) \<and>
    msObj s' = msObj s \<and> mheap s' = mheap s"
  by (auto simp: readE_def bindE_def call_def split: option.splits)

lemma changes_run: "markNotCreated E r m s = (x, s') \<Longrightarrow> trace s' = trace s \<and> x = Inr ()"
  by (auto simp: markNotCreated_def changeConditions_def)

text \<open>The creation of a machine is one call; when it fails both clones are to be deleted.\<close>

lemma applyOrCleanUp_run:
  assumes "applyOrCleanUp E m infra boot s = (r, s')"
  shows "\<exists>post x. r = Inr x \<and> trace s' = trace s @ ApplyMachine None m # post \<and> set post \<subseteq> deleteExternals \<and>
    (isl x \<longleftrightarrow> eOutcome E (trace s) (ApplyMachine None m) \<noteq> None) \<and>
    (isl x \<longrightarrow> DeleteExternal infra \<in> set post \<and> (\<forall>b. boot = Some b \<longrightarrow> DeleteExternal b \<in> set post))"
proof -
  obtain q s1 where q: "readE E (ApplyMachine None m) (\<lambda>cs. eApplied E cs m) s = (q, s1)" by fastforce
  note run = readE_run [OF q]
  show ?thesis
  proof (cases q)
    case (Inr c)
    with assms q run show ?thesis by (auto simp: applyOrCleanUp_def)
  next
    case (Inl e)
    obtain s2 where s2: "markNotCreated E MachineCreationFailedReason (eErrText E e) s1 = (Inr (), s2)" "trace s2 = trace s1"
      using changes_run by (metis surj_pair)
    obtain x3 s3 where s3: "call E (DeleteExternal infra) s2 = (x3, s3)" by fastforce
    note t3 = call_run [OF s3]
    show ?thesis
    proof (cases boot)
      case None
      with assms q Inl s2 s3 t3 run show ?thesis
        by (auto simp: applyOrCleanUp_def bindE_def [of "markNotCreated _ _ _"] deleteExternals_def)
    next
      case (Some b)
      obtain x4 s4 where s4: "call E (DeleteExternal b) s3 = (x4, s4)" by fastforce
      with assms q Inl s2 s3 t3 run Some call_run [OF s4] show ?thesis
        by (auto simp: applyOrCleanUp_def bindE_def [of "markNotCreated _ _ _"] deleteExternals_def)
    qed
  qed
qed

definition cleansUp :: "msCall \<Rightarrow> msCall list \<Rightarrow> bool" where
  "cleansUp c later =
     (case c of
        ApplyMachine None m \<Rightarrow> DeleteExternal (spInfrastructureRef (mchSpec m)) \<in> set later \<and>
          (\<forall>b. bConfigRef (spBootstrap (mchSpec m)) = Some b \<longrightarrow> DeleteExternal b \<in> set later)
      | _ \<Rightarrow> True)"

lemma externalCalls_props: "c \<in> externalCalls \<Longrightarrow> \<not> isCreate c" "DeleteMachine m \<notin> externalCalls"
  "ApplyMachine x m \<notin> externalCalls" "ApplyMachine x m \<notin> deleteExternals"
  "c \<in> deleteExternals \<Longrightarrow> \<not> isCreate c" "DeleteMachine m \<notin> deleteExternals"
  by (auto simp: externalCalls_def deleteExternals_def)

lemma createOne_run:
  assumes "createOne E s = (r, s')"
  shows "\<exists>pre post. trace s' = trace s @ pre @ post \<and> set pre \<subseteq> externalCalls \<and>
    (case r of
       Inl _ \<Rightarrow> post = []
     | Inr x \<Rightarrow> (\<exists>m later. post = ApplyMachine None m # later \<and> set later \<subseteq> deleteExternals \<and>
         (isl x \<longleftrightarrow> eOutcome E (trace s @ pre) (ApplyMachine None m) \<noteq> None) \<and>
         (isl x \<longrightarrow> cleansUp (ApplyMachine None m) later)))"
proof -
  define machine where "machine = computeDesiredMachine (eLabelErrors E) (eName E (trace s)) (msObj s) None"
  have noRef: "bConfigRef (spBootstrap (mchSpec machine)) = None"
    by (simp add: machine_def computeDesiredMachine_def Let_def)
  let ?boot = "case bConfigRef (spBootstrap (tSpec (mssTemplate (msSpec (msObj s))))) of
      None \<Rightarrow> returnE None
    | Some ref \<Rightarrow> bindE (cloneFor E machine ref (mchName machine) BootstrapTemplateCloningFailedReason) (\<lambda>r. returnE (Some r))"
  have only: "keeps (onlyCalls externalCalls) ?boot" by (intro only_rules only_cloneFor)
  note run = assms [unfolded createOne_def bindE_getsE prod.case Let_def, folded machine_def]
  from run show ?thesis
  proof (cases rule: bindE_cases)
    case (fail e)
    with keepsD [OF only fail(1)] show ?thesis by (auto simp: onlyCalls_def)
  next
    case (cont b s1)
    obtain n1 where n1: "trace s1 = trace s @ n1" "set n1 \<subseteq> externalCalls"
      using keepsD [OF only cont(1)] by (auto simp: onlyCalls_def)
    from cont(2) [unfolded bindE_getsE] show ?thesis
    proof (cases rule: bindE_cases)
      case (fail e)
      with keepsD [OF only_cloneFor fail(1)] n1 show ?thesis by (fastforce simp: onlyCalls_def)
    next
      case (cont infra s2)
      obtain n2 where n2: "trace s2 = trace s1 @ n2" "set n2 \<subseteq> externalCalls"
        using keepsD [OF only_cloneFor cont(1)] by (auto simp: onlyCalls_def)
      let ?m = "machine\<lparr>mchSpec := (mchSpec machine)
          \<lparr>spBootstrap := (case b of None \<Rightarrow> spBootstrap (mchSpec machine)
               | Some r \<Rightarrow> (spBootstrap (mchSpec machine))\<lparr>bConfigRef := Some r\<rparr>), spInfrastructureRef := infra\<rparr>\<rparr>"
      obtain post x where post: "r = Inr x" "trace s' = trace s2 @ ApplyMachine None ?m # post" "set post \<subseteq> deleteExternals"
        "isl x \<longleftrightarrow> eOutcome E (trace s2) (ApplyMachine None ?m) \<noteq> None"
        "isl x \<longrightarrow> DeleteExternal infra \<in> set post \<and> (\<forall>bo. b = Some bo \<longrightarrow> DeleteExternal bo \<in> set post)"
        using applyOrCleanUp_run [OF cont(2)] by blast
      moreover have "isl x \<longrightarrow> cleansUp (ApplyMachine None ?m) post"
        using post(5) noRef by (cases b) (simp_all add: cleansUp_def)
      ultimately show ?thesis using n1 n2
        by (intro exI [of _ "n1 @ n2"] exI [of _ "ApplyMachine None ?m # post"]) simp
    qed
  qed
qed

text \<open>Every creation that fails is followed by the deletion of its clones.\<close>

fun cleaned :: "'u msEnv \<Rightarrow> msCall list \<Rightarrow> msCall list \<Rightarrow> bool" where
  "cleaned E before [] = True"
| "cleaned E before (c # cs) =
     ((isCreate c \<and> eOutcome E before c \<noteq> None \<longrightarrow> cleansUp c cs) \<and> cleaned E (before @ [c]) cs)"

lemma cleansUp_append: "cleansUp c cs \<Longrightarrow> cleansUp c (cs @ ds)"
  by (auto simp: cleansUp_def split: msCall.splits option.splits)

lemma cleaned_append: "cleaned E b cs \<Longrightarrow> cleaned E (b @ cs) ds \<Longrightarrow> cleaned E b (cs @ ds)"
  by (induction cs arbitrary: b) (auto intro: cleansUp_append)

lemma cleaned_noCreates: "(\<And>c. c \<in> A \<Longrightarrow> \<not> isCreate c) \<Longrightarrow> set cs \<subseteq> A \<Longrightarrow> cleaned E b cs"
  by (induction cs arbitrary: b) auto

lemma createOne_counts:
  assumes "createOne E s = (r, s')"
  shows "\<exists>new. trace s' = trace s @ new \<and> deleted new = [] \<and> creates new = (if isl r then 0 else 1) \<and> cleaned E (trace s) new"
proof -
  from createOne_run [OF assms] obtain pre post where p: "trace s' = trace s @ pre @ post" "set pre \<subseteq> externalCalls"
    and c: "case r of Inl _ \<Rightarrow> post = []
     | Inr x \<Rightarrow> (\<exists>m later. post = ApplyMachine None m # later \<and> set later \<subseteq> deleteExternals \<and>
         (isl x \<longleftrightarrow> eOutcome E (trace s @ pre) (ApplyMachine None m) \<noteq> None) \<and>
         (isl x \<longrightarrow> cleansUp (ApplyMachine None m) later))" by blast
  note pre = no_creates [OF externalCalls_props(1) p(2)] no_deletes [OF externalCalls_props(2) p(2)]
    cleaned_noCreates [OF externalCalls_props(1) p(2)]
  show ?thesis
  proof (cases r)
    case (Inl e)
    with c p pre show ?thesis by auto
  next
    case (Inr x)
    then obtain m later where l: "post = ApplyMachine None m # later" "set later \<subseteq> deleteExternals"
      "eOutcome E (trace s @ pre) (ApplyMachine None m) \<noteq> None \<longrightarrow> cleansUp (ApplyMachine None m) later"
      using c by auto
    note post = no_creates [OF externalCalls_props(5) l(2)] no_deletes [OF externalCalls_props(6) l(2)]
      cleaned_noCreates [OF externalCalls_props(5) l(2)]
    have "cleaned E (trace s) (pre @ post)"
      unfolding l(1) by (rule cleaned_append) (use pre post l(3) in simp_all)
    with pre post l(1) p(1) Inr show ?thesis by (intro exI [of _ "pre @ post"]) simp
  qed
qed

lemma createLoop_run:
  assumes "createLoop E k ml errs s = (r, s')"
  shows "\<exists>new. trace s' = trace s @ new \<and> deleted new = [] \<and> creates new \<le> k \<and> cleaned E (trace s) new \<and>
    (\<forall>x. r = Inr x \<longrightarrow> creates new = k \<and> length (fst x) + length (snd x) = length ml + length errs + k)"
  using assms
proof (induction k arbitrary: ml errs s)
  case 0
  then show ?case by auto
next
  case (Suc k)
  from Suc.prems [unfolded createLoop.simps] show ?case
  proof (cases rule: bindE_cases)
    case (fail e)
    with createOne_counts [OF fail(1)] show ?thesis by fastforce
  next
    case (cont x s1)
    obtain n1 where n1: "trace s1 = trace s @ n1" "deleted n1 = []" "creates n1 = 1" "cleaned E (trace s) n1"
      using createOne_counts [OF cont(1)] by auto
    let ?ml = "case x of Inl e \<Rightarrow> ml | Inr m \<Rightarrow> ml @ [m]" and ?errs = "case x of Inl e \<Rightarrow> errs @ [e] | Inr m \<Rightarrow> errs"
    have "createLoop E k ?ml ?errs s1 = (r, s')" using cont(2) by (cases x) simp_all
    from Suc.IH [OF this] obtain n2 where n2: "trace s' = trace s1 @ n2" "deleted n2 = []" "creates n2 \<le> k"
      "cleaned E (trace s1) n2"
      "\<forall>x. r = Inr x \<longrightarrow> creates n2 = k \<and> length (fst x) + length (snd x) = length ?ml + length ?errs + k" by blast
    have "length ?ml + length ?errs = length ml + length errs + 1" by (cases x) simp_all
    with n1 n2 show ?thesis by (intro exI [of _ "n1 @ n2"]) (auto intro: cleaned_append)
  qed
qed

lemma only_obtain:
  assumes "keeps (onlyCalls A) m" and "m s = (r, s')"
  obtains new where "trace s' = trace s @ new" and "set new \<subseteq> A"
  using keepsD [OF assms] by (auto simp: onlyCalls_def)

lemma readCalls_props:
  "c \<in> range ReadControlPlane \<Longrightarrow> \<not> isCreate c" "DeleteMachine m \<notin> range ReadControlPlane"
  "c \<in> pollCalls \<Longrightarrow> \<not> isCreate c" "DeleteMachine m \<notin> pollCalls"
  by (auto simp: pollCalls_def)

text \<open>What holds of every set of calls without a creation or deletion of a machine.\<close>

lemma quiet:
  assumes "set cs \<subseteq> range ReadControlPlane \<or> set cs \<subseteq> pollCalls"
  shows "creates cs = 0" "deleted cs = []" "cleaned E b cs"
  using assms
    no_creates [of "range ReadControlPlane" cs] no_creates [of pollCalls cs]
    no_deletes [of "range ReadControlPlane" cs] no_deletes [of pollCalls cs]
    cleaned_noCreates [of "range ReadControlPlane" cs] cleaned_noCreates [of pollCalls cs] readCalls_props
  by blast+

lemma createPart_run:
  assumes "bindE (createLoop E k [] []) (\<lambda>(machineList, errs).
      if length errs > 0 then failE (Aggregate errs)
      else bindE (waitForMachineCreation E machineList) (\<lambda>_. returnE emptyResult)) s = (r, s')"
  shows "\<exists>new. trace s' = trace s @ new \<and> deleted new = [] \<and> creates new \<le> k \<and> cleaned E (trace s) new \<and>
    (\<not> isl r \<longrightarrow> creates new = k)"
  using assms
proof (cases rule: bindE_cases)
  case (fail e)
  with createLoop_run [OF fail(1)] show ?thesis by auto
next
  case (cont x s1)
  obtain n1 where n1: "trace s1 = trace s @ n1" "deleted n1 = []" "creates n1 = k" "cleaned E (trace s) n1"
    using createLoop_run [OF cont(1)] by auto
  have "keeps (onlyCalls pollCalls) (case x of (machineList, errs) \<Rightarrow>
      if length errs > 0 then failE (Aggregate errs)
      else bindE (waitForMachineCreation E machineList) (\<lambda>_. returnE emptyResult))"
    by (intro only_rules only_waitForMachineCreation)
  from keepsD [OF this cont(2)] obtain n2 where n2: "trace s' = trace s1 @ n2" "set n2 \<subseteq> pollCalls"
    by (auto simp: onlyCalls_def)
  with n1 quiet [of n2] show ?thesis by (intro exI [of _ "n1 @ n2"]) (auto intro: cleaned_append)
qed


lemma deleteLoop_run:
  assumes "deleteLoop E ms errs s = (r, s')"
  shows "\<exists>new. trace s' = trace s @ new \<and> creates new = 0 \<and> deleted new = filter (\<lambda>m. \<not> isDeleting m) ms \<and>
    msObj s' = msObj s"
  using assms
proof (induction ms arbitrary: errs s)
  case (Cons m ms)
  show ?case
  proof (cases "isDeleting m")
    case True
    with Cons show ?thesis by simp
  next
    case False
    obtain x s1 where c: "call E (DeleteMachine m) s = (x, s1)" by fastforce
    with Cons.prems False have "deleteLoop E ms (case x of Inl e \<Rightarrow> errs @ [e] | Inr _ \<Rightarrow> errs) s1 = (r, s')" by simp
    from Cons.IH [OF this] obtain new where "trace s' = trace s1 @ new" "creates new = 0"
      "deleted new = filter (\<lambda>m. \<not> isDeleting m) ms" "msObj s' = msObj s1" by blast
    with call_run [OF c] False show ?thesis by (intro exI [of _ "DeleteMachine m # new"]) auto
  qed
qed simp

text \<open>
  (C33) Scaling down, whatever the API server answers: no machine is created, and the machines asked to be
  deleted are exactly those the policy selects for the surplus and that are not being deleted yet, in
  that order, each once; with an unknown policy nothing is called and the call fails.
\<close>

theorem syncReplicas_scaleDown:
  assumes "msReplicas (msObj s) = Some n" and "n < int (length machines)"
    and "syncReplicas E cluster machines s = (r, s')"
  shows "case getDeletePriorityFunc (eFl E) (eNow E (trace s)) (msObj s) of
      Inl e \<Rightarrow> r = Inl e \<and> s' = s
    | Inr pri \<Rightarrow> (\<exists>new. trace s' = trace s @ new \<and> creates new = 0 \<and>
        deleted new = filter (\<lambda>m. \<not> isDeleting m)
          (fst (getMachinesToDeletePrioritized (map (mheap s) machines) (int (length machines) - n) pri)))"
proof (cases "getDeletePriorityFunc (eFl E) (eNow E (trace s)) (msObj s)")
  case (Inl e)
  with assms show ?thesis by (simp add: syncReplicas_def)
next
  case (Inr pri)
  let ?sel = "fst (getMachinesToDeletePrioritized (map (mheap s) machines) (int (length machines) - n) pri)"
  have "bindE (deleteLoop E ?sel []) (\<lambda>errs. if length errs > 0 then failE (Aggregate errs)
      else bindE (waitForMachineDeletion E ?sel) (\<lambda>_. returnE emptyResult)) s = (r, s')"
    using assms Inr by (simp add: syncReplicas_def Let_def del: length_greater_0_conv)
  then obtain new where "trace s' = trace s @ new \<and> creates new = 0 \<and> deleted new = filter (\<lambda>m. \<not> isDeleting m) ?sel"
  proof (cases rule: bindE_cases)
    case (fail e)
    then show thesis using deleteLoop_run [OF fail(1)] that by blast
  next
    case (cont errs s1)
    obtain n1 where n1: "trace s1 = trace s @ n1" "creates n1 = 0" "deleted n1 = filter (\<lambda>m. \<not> isDeleting m) ?sel"
      using deleteLoop_run [OF cont(1)] by blast
    have "keeps (onlyCalls pollCalls) (if length errs > 0 then failE (Aggregate errs)
        else bindE (waitForMachineDeletion E ?sel) (\<lambda>_. returnE emptyResult))"
      by (intro only_rules only_waitForMachineDeletion)
    from keepsD [OF this cont(2)] obtain n2 where "trace s' = trace s1 @ n2" "set n2 \<subseteq> pollCalls"
      by (auto simp: onlyCalls_def)
    with n1 quiet [of n2] that [of "n1 @ n2"] show thesis by simp
  qed
  with Inr show ?thesis by auto
qed

lemma cloneFor_creates:
  assumes "cloneFor E m ref name reason s = (Inr b, s1)"
  shows "\<exists>c x. trace s1 = trace s @ [c, CreateExternal x]"
proof -
  obtain inp where "CreateFromTemplate E inp s = (Inr b, s1)"
    using assms by (auto simp: cloneFor_def markNotCreated_def changeConditions_def split: prod.splits sum.splits)
  then show ?thesis
    by (auto simp: CreateFromTemplate_def getExternal_def readE_def call_def bindE_def wrapE_def
        split: option.splits sum.splits prod.splits)
qed

lemma only_applyOrCleanUp: "keeps (onlyCalls UNIV) (applyOrCleanUp E m i b)"
  unfolding applyOrCleanUp_def by (intro only_rules only_markNotCreated) simp_all

text \<open>
  When the infrastructure object cannot be cloned after the bootstrap object was, the scale-up ends
  with the error: the bootstrap object was created and no deletion is called, so that it stays behind,
  one more at every retry.
\<close>

theorem createOne_leaks_bootstrap:
  assumes "bConfigRef (spBootstrap (tSpec (mssTemplate (msSpec (msObj s))))) = Some ref"
    and "machine = computeDesiredMachine (eLabelErrors E) (eName E (trace s)) (msObj s) None"
    and "cloneFor E machine ref (mchName machine) BootstrapTemplateCloningFailedReason s = (Inr bootstrap, s1)"
    and "createOne E s = (Inl e, s')"
  shows "\<exists>new x. trace s' = trace s @ new \<and> CreateExternal x \<in> set new \<and> (\<forall>y. DeleteExternal y \<notin> set new)"
proof -
  obtain c x where n1: "trace s1 = trace s @ [c, CreateExternal x]" using cloneFor_creates [OF assms(3)] by blast
  have "\<exists>n2. trace s' = trace s1 @ n2"
    using assms(4) [unfolded createOne_def bindE_getsE prod.case Let_def, folded assms(2), unfolded assms(1) option.case]
  proof (cases rule: bindE_cases)
    case (cont y t)
    then have "t = s1" using assms(3) by (auto simp: bindE_def)
    have "keeps (onlyCalls UNIV) (bindE (cloneFor E machine rf nm w) (\<lambda>infraRef. applyOrCleanUp E (g infraRef) infraRef y))"
      for rf nm w g by (intro only_rules only_applyOrCleanUp only_mono [OF only_cloneFor]) simp_all
    from keepsD [OF this cont(2)] \<open>t = s1\<close> show ?thesis by (auto simp: onlyCalls_def)
  qed (use assms(3) in \<open>simp add: bindE_def\<close>)
  with n1 createOne_run [OF assms(4)] show ?thesis by (fastforce simp: externalCalls_def)
qed

section \<open>Remediation stays within its limit\<close>

definition sameMachines :: "msState \<Rightarrow> msState \<Rightarrow> bool" where
  "sameMachines s s' \<longleftrightarrow> mheap s' = mheap s"

interpretation same_machines: state_relation sameMachines
  by unfold_locales (simp_all add: sameMachines_def)

lemma same_call: "keeps sameMachines (call E c)"
  by (auto simp: keeps_def call_def sameMachines_def split: option.splits)

lemma same_readE: "keeps sameMachines (readE E c f)"
  unfolding readE_def by (intro same_machines.keeps_rules same_call)

lemmas same_rules = same_machines.keeps_rules same_call same_readE

definition ownerReads :: "msCall set" where
  "ownerReads = {c. \<exists>ns n. c = ReadDeployment ns n}"

lemma ownerReads_props: "c \<in> ownerReads \<Longrightarrow> \<not> isCreate c" "DeleteMachine m \<notin> ownerReads"
  by (auto simp: ownerReads_def)

lemma only_getOwner: "keeps (onlyCalls ownerReads) (getOwnerMachineDeployment E)"
  unfolding getOwnerMachineDeployment_def by (intro only_rules) (auto simp: ownerReads_def)

lemma remediationLimit_keeps:
  "keeps (onlyCalls ownerReads) (remediationLimit E ps)" "keeps sameMachines (remediationLimit E ps)"
  unfolding remediationLimit_def
  by (intro only_rules only_getOwner; simp) (unfold getOwnerMachineDeployment_def, intro same_rules)

lemma same_preflight: "keeps sameMachines (preflight E cluster)"
  unfolding preflight_def by (intro same_rules)

definition inFlight :: "Machine \<Rightarrow> bool" where
  "inFlight m \<longleftrightarrow> isDeleting m \<and> IsTrue (mchConditions m) MachineOwnerRemediatedCondition"

definition remediable :: "Machine \<Rightarrow> bool" where
  "remediable m \<longleftrightarrow> \<not> isDeleting m \<and> IsFalse (mchConditions m) MachineOwnerRemediatedCondition"

lemma unhealthyLoop_eq:
  "unhealthyLoop h ps k acc = (k - int (length (filter (\<lambda>p. inFlight (h p)) ps)), acc @ filter (\<lambda>p. remediable (h p)) ps)"
  by (induction ps arbitrary: k acc) (auto simp: inFlight_def remediable_def)

lemma waitLoop_run:
  assumes "waitLoop E t ps errs s = (r, s')"
  shows "\<exists>new. trace s' = trace s @ new \<and> creates new = 0 \<and> deleted new = [] \<and> \<not> isl r"
  using assms
proof (induction ps arbitrary: errs s)
  case (Cons p ps)
  obtain x s1 where c: "call E (HelperFor (mchName (mheap s p))) s = (x, s1)" by fastforce
  note c1 = call_run [OF c]
  show ?case
  proof (cases x)
    case (Inl e)
    with Cons.prems c have "waitLoop E t ps (errs @ [e]) s1 = (r, s')" by simp
    from Cons.IH [OF this] c1 show ?thesis by fastforce
  next
    case (Inr u)
    let ?m = "setMachineConditions (MarkFalse (nowSec E (trace s)) (mchConditions (mheap s p)) MachineOwnerRemediatedCondition
                WaitingForRemediationReason ConditionSeverityWarning t []) (mheap s p)"
    obtain y s2 where d: "call E (PatchMachine (mheap s p) ?m) (s1\<lparr>mheap := (mheap s1)(p := ?m)\<rparr>) = (y, s2)" by fastforce
    with Cons.prems c Inr have "waitLoop E t ps (case y of Inl e \<Rightarrow> errs @ [e] | Inr _ \<Rightarrow> errs) s2 = (r, s')"
      by (simp add: setMachine_def Let_def)
    from Cons.IH [OF this] c1 call_run [OF d] show ?thesis by fastforce
  qed
qed auto

lemma remediateLoop_run:
  assumes "remediateLoop E ps errs s = (r, s')" and "distinct ps"
  shows "\<exists>new. trace s' = trace s @ new \<and> creates new = 0 \<and> deleted new = map (mheap s) ps \<and> \<not> isl r"
  using assms
proof (induction ps arbitrary: errs s)
  case (Cons p ps)
  let ?m = "mheap s p"
  let ?m' = "setMachineConditions (MarkTrue (nowSec E (trace s)) (mchConditions ?m) MachineOwnerRemediatedCondition) ?m"
  have rest: ?case if "remediateLoop E ps es t = (r, s')" "trace t = trace s @ DeleteMachine ?m # n"
    "creates n = 0" "deleted n = []" "\<And>q. q \<noteq> p \<Longrightarrow> mheap t q = mheap s q" for es t n
  proof -
    from Cons.IH [OF that(1)] Cons.prems(2) obtain new where "trace s' = trace t @ new" "creates new = 0"
      "deleted new = map (mheap t) ps" "\<not> isl r" by auto
    moreover have "map (mheap t) ps = map (mheap s) ps" using that(5) Cons.prems(2) by (metis distinct.simps(2) map_cong)
    ultimately show ?thesis using that(2-4) by (intro exI [of _ "DeleteMachine ?m # n @ new"]) simp
  qed
  obtain x s1 where c: "call E (DeleteMachine ?m) s = (x, s1)" by fastforce
  note c1 = call_run [OF c]
  show ?case
  proof (cases "case x of Inl e \<Rightarrow> \<not> isNotFound e | Inr _ \<Rightarrow> False")
    case True
    then obtain e where x: "x = Inl e" "\<not> isNotFound e" by (cases x) auto
    with Cons.prems c have "remediateLoop E ps (errs @ [Wrap ''failed to delete Machine'' e]) s1 = (r, s')" by simp
    from rest [OF this, of "[]"] c1 show ?thesis by simp
  next
    case False
    let ?s2 = "s1\<lparr>mheap := (mheap s1)(p := ?m')\<rparr>"
    obtain y s3 where d: "readE E (PatchMachineStatus ?m ?m') (\<lambda>cs. eStatusPatched E cs ?m') ?s2 = (y, s3)" by fastforce
    note d1 = readE_run [OF d]
    show ?thesis
    proof (cases y)
      case (Inl e)
      with Cons.prems c d False have "remediateLoop E ps (if isNotFound e then errs
          else errs @ [Wrap ''failed to update status of Machine'' e]) s3 = (r, s')"
        by (simp add: setMachine_def Let_def)
      from rest [OF this, of "[PatchMachineStatus ?m ?m']"] c1 d1 show ?thesis by simp
    next
      case (Inr a)
      with Cons.prems c d False have "remediateLoop E ps errs (s3\<lparr>mheap := (mheap s3)(p := a)\<rparr>) = (r, s')"
        by (simp add: setMachine_def Let_def)
      from rest [OF this, of "[PatchMachineStatus ?m ?m']"] c1 d1 show ?thesis by simp
    qed
  qed
qed auto

interpretation newest_first: strict_weak "newerFirst h" for h
  by unfold_locales (auto simp: newerFirst_def)

text \<open>The choice: the newest machines, as many as the limit leaves.\<close>

definition remediationChoice :: "(ptr \<Rightarrow> Machine) \<Rightarrow> ptr list \<Rightarrow> int \<Rightarrow> ptr list" where
  "remediationChoice h ps k =
     (let newest = sort_Sort (newerFirst h) (filter (\<lambda>p. remediable (h p)) ps)
      in if int (length newest) > k then take (nat k) newest else newest)"

lemma remediationChoice_props:
  assumes "0 \<le> k" and "distinct ps"
  shows "distinct (remediationChoice h ps k)" "int (length (remediationChoice h ps k)) \<le> k"
    "p \<in> set (remediationChoice h ps k) \<Longrightarrow> p \<in> set ps \<and> remediable (h p)"
    "p \<in> set (remediationChoice h ps k) \<Longrightarrow> q \<in> set ps \<Longrightarrow> remediable (h q) \<Longrightarrow> q \<notin> set (remediationChoice h ps k) \<Longrightarrow>
      mcreationTimestamp (mchMeta (h q)) \<le> mcreationTimestamp (mchMeta (h p))"
proof -
  define so where "so = sort_Sort (newerFirst h) (filter (\<lambda>p. remediable (h p)) ps)"
  have so: "distinct so" "set so = {p \<in> set ps. remediable (h p)}" using assms(2) by (auto simp: so_def)
  have ch: "remediationChoice h ps k = (if int (length so) > k then take (nat k) so else so)"
    by (simp add: remediationChoice_def so_def Let_def)
  show "distinct (remediationChoice h ps k)" using so(1) by (simp add: ch)
  show "int (length (remediationChoice h ps k)) \<le> k" using assms(1) by (simp add: ch)
  show "p \<in> set (remediationChoice h ps k) \<Longrightarrow> p \<in> set ps \<and> remediable (h p)"
    using so(2) in_set_takeD [of p "nat k" so] by (auto simp: ch split: if_splits)
  assume a: "p \<in> set (remediationChoice h ps k)" "q \<in> set ps" "remediable (h q)" "q \<notin> set (remediationChoice h ps k)"
  then have q: "q \<in> set (drop (nat k) so)" "p \<in> set (take (nat k) so)"
    using so(2) by (auto simp: ch split: if_splits) (metis UnE append_take_drop_id mem_Collect_eq set_append)
  have "sorted_wrt (\<lambda>a b. \<not> newerFirst h b a) so" unfolding so_def by (rule newest_first.sort_sorted)
  then have "sorted_wrt (\<lambda>a b. \<not> newerFirst h b a) (take (nat k) so @ drop (nat k) so)" by simp
  with q show "mcreationTimestamp (mchMeta (h q)) \<le> mcreationTimestamp (mchMeta (h p))"
    unfolding sorted_wrt_append by (auto simp: newerFirst_def not_less)
qed

text \<open>What is done with the chosen machines once the preflight checks have answered.\<close>

lemma remediationVerdict_run:
  assumes "(case (case q of Inl e \<Rightarrow> (emptyResult, eErrText E e, True) | Inr (res, msg) \<Rightarrow> (res, msg, \<not> resultIsZero res))
      of (result, message, failed) \<Rightarrow> if failed then bindE (waitLoop E message ch []) (\<lambda>errs.
           if length errs > 0 then failE (Wrap ''failed to patch unhealthy Machines'' (Aggregate errs)) else returnE result)
         else bindE (remediateLoop E ch []) (\<lambda>errs.
           if length errs > 0 then failE (Wrap ''failed to delete unhealthy Machines'' (Aggregate errs))
           else returnE emptyResult)) s = (r, s')"
    and "distinct ch"
  shows "\<exists>new. trace s' = trace s @ new \<and> creates new = 0 \<and>
    (deleted new = [] \<or> (\<exists>msg. q = Inr (emptyResult, msg)) \<and> deleted new = map (mheap s) ch)"
proof (cases "\<exists>msg. q = Inr (emptyResult, msg)")
  case True
  with assms(1) obtain e where
    "bindE (remediateLoop E ch []) (\<lambda>errs. if length errs > 0 then failE (e errs) else returnE emptyResult) s = (r, s')"
    by (auto simp: resultIsZero_def simp del: length_greater_0_conv)
  then have "\<exists>new. trace s' = trace s @ new \<and> creates new = 0 \<and> deleted new = map (mheap s) ch"
    by (rule bindE_cases) (use remediateLoop_run [OF _ assms(2)] in \<open>fastforce split: if_splits\<close>)+
  with True show ?thesis by blast
next
  case False
  then obtain t res e where
    "bindE (waitLoop E t ch []) (\<lambda>errs. if length errs > 0 then failE (e errs) else returnE res) s = (r, s')"
    using assms(1) by (cases q) (auto simp: resultIsZero_def simp del: length_greater_0_conv split: if_splits)
  then have "\<exists>new. trace s' = trace s @ new \<and> creates new = 0 \<and> deleted new = []"
    by (rule bindE_cases) (use waitLoop_run in \<open>fastforce split: if_splits\<close>)+
  then show ?thesis by blast
qed

text \<open>Every run of the remediation: nothing deleted, or the choice within the limit after passed checks.\<close>

lemma reconcileUnhealthy_run:
  assumes "reconcileUnhealthyMachines E cluster ps s = (r, s')" and "distinct ps"
  shows "\<exists>new. trace s' = trace s @ new \<and> creates new = 0 \<and>
    (deleted new = [] \<or>
     (\<exists>limit s1 msg. remediationLimit E ps s = (Inr (Some limit), s1) \<and>
        fst (preflight E cluster s1) = Inr (emptyResult, msg) \<and>
        0 < limit - int (length (filter (\<lambda>p. inFlight (mheap s p)) ps)) \<and>
        deleted new = map (mheap s)
          (remediationChoice (mheap s) ps (limit - int (length (filter (\<lambda>p. inFlight (mheap s p)) ps))))))"
proof -
  have lim: "set n \<subseteq> ownerReads \<Longrightarrow> creates n = 0 \<and> deleted n = []" for n
    by (metis ownerReads_props no_creates no_deletes)
  from assms(1) [unfolded reconcileUnhealthyMachines_def] show ?thesis
  proof (cases rule: bindE_cases)
    case (fail e)
    with keepsD [OF remediationLimit_keeps(1) fail(1)] lim show ?thesis by (fastforce simp: onlyCalls_def)
  next
    case (cont limit s1)
    obtain n1 where n1: "trace s1 = trace s @ n1" "creates n1 = 0" "deleted n1 = []"
      using keepsD [OF remediationLimit_keeps(1) cont(1)] lim by (fastforce simp: onlyCalls_def)
    have h1: "mheap s1 = mheap s" using keepsD [OF remediationLimit_keeps(2) cont(1)] by (simp add: sameMachines_def)
    show ?thesis
    proof (cases limit)
      case None
      with cont n1 show ?thesis by auto
    next
      case (Some k0)
      define k where "k = k0 - int (length (filter (\<lambda>p. inFlight (mheap s p)) ps))"
      define ch where "ch = remediationChoice (mheap s) ps k"
      obtain q s2 where q: "preflight E cluster s1 = (q, s2)" by fastforce
      obtain n2 where n2: "trace s2 = trace s1 @ n2" "set n2 \<subseteq> range ReadControlPlane"
        using only_preflight q by (rule only_obtain)
      have h2: "mheap s2 = mheap s" using keepsD [OF same_preflight q] h1 by (simp add: sameMachines_def)
      note c2 = cont(2) [unfolded Some option.case bindE_getsE unhealthyLoop_eq h1 Let_def prod.case append_Nil, folded k_def]
      show ?thesis
      proof (cases "filter (\<lambda>p. remediable (mheap s p)) ps = [] \<or> k \<le> 0")
        case True
        have "s' = s1" using c2 True by (auto split: if_splits)
        with n1 show ?thesis by auto
      next
        case False
        then have f: "\<not> filter (\<lambda>p. remediable (mheap s p)) ps = []" "\<not> k \<le> 0" by simp_all
        have d: "distinct ch" using remediationChoice_props(1) assms(2) f(2) ch_def by force
        obtain n3 where n3: "trace s' = trace s2 @ n3" "creates n3 = 0"
          "deleted n3 = [] \<or> (\<exists>msg. q = Inr (emptyResult, msg)) \<and> deleted n3 = map (mheap s) ch"
          using remediationVerdict_run [OF c2 [unfolded if_not_P [OF f(1)] if_not_P [OF f(2)] bindE_attemptE q prod.case,
            folded remediationChoice_def [unfolded Let_def], folded ch_def] d] h2 by auto
        with n1 n2 quiet [of n2] cont(1) Some q f show ?thesis
          by (intro exI [of _ "n1 @ n2 @ n3"]) (auto simp: k_def ch_def)
      qed
    qed
  qed
qed


section \<open>Status and resynchronisation\<close>

lemma only_preflight_any: "keeps (onlyCalls UNIV) (preflight E cluster)"
  by (rule only_mono [OF only_preflight]) simp

lemma only_remediation: "keeps (onlyCalls UNIV) (waitLoop E t ps errs)" "keeps (onlyCalls UNIV) (remediateLoop E ps errs)"
  by (induction ps arbitrary: errs; unfold waitLoop.simps remediateLoop.simps; (intro only_rules; (assumption | simp)?))+

lemma only_unhealthy: "keeps (onlyCalls UNIV) (reconcileUnhealthyMachines E cluster ps)"
  unfolding reconcileUnhealthyMachines_def
  by (intro only_rules only_mono [OF remediationLimit_keeps(1)] only_preflight_any only_remediation) simp

lemma only_syncExternal: "keeps (onlyCalls UNIV) (syncExternal E ref ns w)"
  unfolding syncExternal_def getExternal_def updateExternalObject_def by (intro only_rules) simp_all

lemma only_syncMachines: "keeps (onlyCalls UNIV) (syncMachines E ps)"
  by (induction ps; unfold syncMachines.simps; (intro only_rules only_syncExternal; (assumption | simp)?))

lemma only_createLoop: "keeps (onlyCalls UNIV) (createLoop E k ml errs)"
proof (induction k arbitrary: ml errs)
  case (Suc k)
  have "keeps (onlyCalls UNIV) (createOne E)"
    unfolding createOne_def by (intro only_rules only_applyOrCleanUp only_mono [OF only_cloneFor]) simp_all
  with Suc show ?case unfolding createLoop.simps by (intro only_rules)
qed (unfold createLoop.simps, intro only_rules)

lemma only_deleteLoop: "keeps (onlyCalls UNIV) (deleteLoop E ms errs)"
  by (induction ms arbitrary: errs; unfold deleteLoop.simps; (intro only_rules; (assumption | simp)?))

lemma only_syncReplicas: "keeps (onlyCalls UNIV) (syncReplicas E cluster ps)"
  unfolding syncReplicas_def
  by (intro only_rules only_preflight_any only_markNotCreated only_createLoop only_deleteLoop
      only_mono [OF only_waitForMachineCreation] only_mono [OF only_waitForMachineDeletion]) simp_all

lemma only_gather: "keeps (onlyCalls UNIV) (gatherMachines E cluster)"
proof -
  have adopt: "keeps (onlyCalls UNIV) (adoptLoop E ps)" for ps
    by (induction ps; unfold adoptLoop.simps adoptOrphan_def; (intro only_rules; (assumption | simp)?))
  have alloc: "keeps (onlyCalls UNIV) (allocMachines items)" for items
    by (induction items; unfold allocMachines.simps; (intro only_rules; (assumption | simp)?))
  have ref: "keeps (onlyCalls UNIV) (reconcileExternalTemplateReference E cluster ref store)"
    if "\<And>r. keeps (onlyCalls UNIV) (store r)" for ref store
    unfolding reconcileExternalTemplateReference_def getExternal_def
    by (intro only_rules only_mono [OF only_getOwner] that) simp_all
  have set_: "keeps (onlyCalls UNIV) (changeSet (labelSet E cluster))" "keeps (onlyCalls UNIV) (changeSet selectCluster)"
    "keeps (onlyCalls UNIV) (changeSet (storeInfraRef r))" "keeps (onlyCalls UNIV) (changeSet (storeConfigRef r))" for r
    by (intro only_changeSet; simp add: labelSet_def selectCluster_def storeInfraRef_def storeConfigRef_def Let_def)+
  show ?thesis unfolding gatherMachines_def by (intro only_rules adopt alloc ref set_) simp
qed

text \<open>The counts: never negative, available machines are ready ones, ready ones are machines.\<close>

lemma countLoop_run:
  assumes "countLoop E cluster ms machines (l, k, a) s = (x, s')"
  shows "\<exists>l' k' a'. x = Inr (l', k', a') \<and> l \<le> l' \<and> l' \<le> l + int (length machines) \<and> k \<le> k' \<and> k' \<le> k + int (length machines) \<and>
    a \<le> a' \<and> a' - a \<le> k' - k \<and> msObj s' = msObj s"
  using assms
proof (induction machines arbitrary: l k a s)
  case (Cons m machines)
  define l1 where "l1 = (if eMatches E (tLabels (mssTemplate (msSpec ms))) (mlabels (mchMeta m)) then l + 1 else l)"
  have l1: "l \<le> l1" "l1 \<le> l + 1" by (simp_all add: l1_def)
  have rest: ?case if "countLoop E cluster ms machines (l1, k1, a1) t = (x, s')" "k \<le> k1" "k1 \<le> k + 1" "a \<le> a1"
    "a1 - a \<le> k1 - k" "msObj t = msObj s" for k1 a1 t
    using Cons.IH [OF that(1)] l1 that(2-6) by force
  show ?case
  proof (cases "stNodeRef (mchStatus m) = None")
    case True
    with Cons.prems have "countLoop E cluster ms machines (l1, k, a) s = (x, s')" by (simp add: l1_def Let_def)
    from rest [OF this] show ?thesis by simp
  next
    case False
    obtain q t where q: "getMachineNode E cluster m s = (q, t)" by fastforce
    have t: "msObj t = msObj s"
      using q by (auto simp: getMachineNode_def bindE_def call_def readE_def wrapE_def split: option.splits sum.splits prod.splits)
    show ?thesis
    proof (cases "(case q of Inl _ \<Rightarrow> timeIsZero (mdeletionTimestamp (mchMeta m)) | Inr _ \<Rightarrow> False) \<or>
        \<not> IsNodeReady (case q of Inl _ \<Rightarrow> None | Inr n \<Rightarrow> Some n)")
      case True
      with Cons.prems False q have "countLoop E cluster ms machines (l1, k, a) t = (x, s')"
        by (auto simp: l1_def [symmetric] Let_def split: if_splits)
      from rest [OF this] t show ?thesis by simp
    next
      case ready: False
      then obtain a1 where "countLoop E cluster ms machines (l1, k + 1, a1) t = (x, s')" "a1 = a \<or> a1 = a + 1"
        using Cons.prems False q by (auto simp: l1_def [symmetric] Let_def split: if_splits)
      with rest [of "k + 1" a1 t] t show ?thesis by auto
    qed
  qed
qed auto

definition countsOf :: "MachineSet \<Rightarrow> int \<times> int \<times> int \<times> int \<times> int" where
  "countsOf ms = (let st = msStatus ms in (msstReplicas st, msstFullyLabeledReplicas st, msstReadyReplicas st,
     msstAvailableReplicas st, msstObservedGeneration st))"

definition sameCounts :: "msState \<Rightarrow> msState \<Rightarrow> bool" where
  "sameCounts s s' \<longleftrightarrow> countsOf (msObj s') = countsOf (msObj s)"

interpretation same_counts: state_relation sameCounts
  by unfold_locales (simp_all add: sameCounts_def)

lemma sameCounts_change: "keeps sameCounts (changeConditions E f)"
  by (auto simp: keeps_def changeConditions_def sameCounts_def countsOf_def setMachineSetConditions_def Let_def)

lemma sameCounts_markResized: "keeps sameCounts (markResized E d n k)"
  unfolding markResized_def by (intro same_counts.keeps_rules sameCounts_change)

lemma storeStatus_counts:
  "countsOf (storeStatus sel n (l, k, a) ms) = (n, wrap32 l, wrap32 k, wrap32 a, mgeneration (msMeta ms))"
  by (auto simp: storeStatus_def countsOf_def Let_def)

lemma updateStatus_run:
  assumes "updateStatus E cluster ps s = (Inr (), s')"
  obtains l k a where "0 \<le> l" "l \<le> int (length ps)" "0 \<le> a" "a \<le> k" "k \<le> int (length ps)"
    "countsOf (msObj s') = (wrap32 (int (length ps)), wrap32 l, wrap32 k, wrap32 a, mgeneration (msMeta (msObj s)))"
proof -
  obtain sel n where e: "eSelectorString E (mssSelector (msSpec (msObj s))) = Inr sel" "msReplicas (msObj s) = Some n"
    using assms by (auto simp: updateStatus_def wrapE_def bindE_def deref_eq_Inr split: sum.splits option.splits prod.splits)
  let ?rest = "\<lambda>c. bindE (markResized E n (wrap32 (int (length ps))) (wrap32 (fst (snd c)))) (\<lambda>_.
     bindE (getsE (\<lambda>t. eOrder E (trace t) (map (mheap s) ps))) (\<lambda>order.
       changeConditions E (\<lambda>now cs. SetAggregate now cs MachinesReadyCondition
         (map (\<lambda>m. \<lparr>gkind = ''Machine'', gname = mchName m, gconditions = mchConditions m\<rparr>) order) [AddSourceRef])))"
  have rest: "keeps sameCounts (?rest c)" for c
    by (intro same_counts.keeps_rules sameCounts_markResized sameCounts_change)
  obtain x s1 where c: "countLoop E cluster (msObj s) (map (mheap s) ps) (0, 0, 0) s = (x, s1)" by fastforce
  from countLoop_run [OF c] obtain l k a where x: "x = Inr (l, k, a)" "0 \<le> l" "l \<le> int (length ps)" "0 \<le> k"
    "k \<le> int (length ps)" "0 \<le> a" "a \<le> k" "msObj s1 = msObj s" by auto
  let ?s2 = "s1\<lparr>msObj := storeStatus sel (wrap32 (int (length ps))) (l, k, a) (msObj s1)\<rparr>"
  have "?rest (l, k, a) ?s2 = (Inr (), s')"
    using assms e c x(1) by (simp add: updateStatus_def wrapE_def bindE_def [of "wrapE _ _"] bindE_def [of "countLoop _ _ _ _ _"]
        changeSet_def Let_def)
  from keepsD [OF rest this] have "countsOf (msObj s') = countsOf (msObj ?s2)" by (simp only: sameCounts_def)
  with storeStatus_counts x(8) have
    "countsOf (msObj s') = (wrap32 (int (length ps)), wrap32 l, wrap32 k, wrap32 a, mgeneration (msMeta (msObj s)))" by simp
  with x that show thesis by blast
qed

lemma only_updateStatus: "keeps (onlyCalls UNIV) (updateStatus E cluster ps)"
proof -
  have count: "keeps (onlyCalls UNIV) (countLoop E cluster ms machines c)" for ms machines c
    by (induction machines arbitrary: c; case_tac c; simp only: countLoop.simps getMachineNode_def;
        (intro only_rules; (assumption | simp)?))
  show ?thesis
    unfolding updateStatus_def markResized_def
    by (intro only_rules count only_changeSet) (auto simp: storeStatus_def Let_def)
qed

text \<open>A successful reconciliation ends with the status of the set and the resynchronisation computed from it.\<close>

lemma reconcile_run:
  assumes "reconcile E cluster s = (Inr res, s')"
  obtains qs t result where "updateStatus E cluster qs t = (Inr (), s')" and "msReplicas (msObj t) = msReplicas (msObj s)"
    and "res = resyncAfter (msObj s') result"
proof -
  note keep = keepsD [OF only_gather] keepsD [OF only_unhealthy] keepsD [OF only_syncMachines] keepsD [OF only_syncReplicas]
  from assms [unfolded reconcile_def] obtain ps s1 where g: "gatherMachines E cluster s = (Inr ps, s1)"
    and r1: "bindE (wrapE ''failed to reconcile unhealthy machines'' (reconcileUnhealthyMachines E cluster ps)) (\<lambda>r1.
       let result1 = LowestNonZeroResult emptyResult r1 in
     bindE (wrapE ''failed to update Machines'' (syncMachines E ps)) (\<lambda>machines.
     bindE (attemptE (syncReplicas E cluster machines)) (\<lambda>r2.
       let result2 = (case r2 of Inl _ \<Rightarrow> result1 | Inr r \<Rightarrow> LowestNonZeroResult result1 r);
           syncErr = (case r2 of Inl e \<Rightarrow> Some e | Inr _ \<Rightarrow> None) in
     bindE (attemptE (updateStatus E cluster machines)) (\<lambda>r3.
       case r3 of
         Inl e \<Rightarrow> if isPanic e then failE e
                  else failE (Wrap ''failed to update MachineSet's Status''
                         (Aggregate (e # (case syncErr of None \<Rightarrow> [] | Some se \<Rightarrow> [se]))))
       | Inr _ \<Rightarrow>
           (case syncErr of
              Some se \<Rightarrow> failE (Wrap ''failed to sync MachineSet replicas'' se)
            | None \<Rightarrow> bindE (getsE msObj) (\<lambda>ms. returnE (resyncAfter ms result2))))))) s1 = (Inr res, s')"
    by (rule bindE_Inr)
  obtain x1 s2 where u: "reconcileUnhealthyMachines E cluster ps s1 = (Inr x1, s2)"
    using r1 by (cases "reconcileUnhealthyMachines E cluster ps s1"; cases "fst (reconcileUnhealthyMachines E cluster ps s1)")
      (auto simp: bindE_def wrapE_def)
  obtain qs s3 where m: "syncMachines E ps s2 = (Inr qs, s3)"
    using r1 u by (cases "syncMachines E ps s2"; cases "fst (syncMachines E ps s2)") (auto simp: bindE_def wrapE_def Let_def)
  obtain x2 t where y: "syncReplicas E cluster qs s3 = (x2, t)" by fastforce
  obtain x3 t' where z: "updateStatus E cluster qs t = (x3, t')" by fastforce
  note run = r1 [unfolded bindE_def [of "wrapE _ _"] wrapE_def u m y z prod.case sum.case Let_def bindE_attemptE]
  obtain result where "x3 = Inr ()" "t' = s'" "res = resyncAfter (msObj s') result"
    using run by (cases x3; cases x2) (auto split: if_splits)
  moreover have "msReplicas (msObj t) = msReplicas (msObj s)"
    using keep(1) [OF g] keep(2) [OF u] keep(3) [OF m] keep(4) [OF y] by (simp add: onlyCalls_def)
  ultimately show thesis using z that by simp
qed


text \<open>
  A set without a size is refused with an error by the scaling, but the status is updated all the same
  and dereferences the missing size: the reconciliation panics.
\<close>

theorem reconcile_nil_replicas:
  assumes "msReplicas (msObj s) = None" and "gatherMachines E cluster s = (Inr ps, s1)"
    and "reconcileUnhealthyMachines E cluster ps s1 = (Inr r1, s2)" and "syncMachines E ps s2 = (Inr qs, s3)"
    and "eSelectorString E (mssSelector (msSpec (msObj s3))) = Inr sel"
  shows "\<exists>e s'. reconcile E cluster s = (Inl e, s') \<and> isPanic e"
proof -
  have n: "msReplicas (msObj s3) = None"
    using keepsD [OF only_gather assms(2)] keepsD [OF only_unhealthy assms(3)] keepsD [OF only_syncMachines assms(4)] assms(1)
    by (simp add: onlyCalls_def)
  have y: "\<exists>e. syncReplicas E cluster qs s3 = (Inl e, s3)" using n by (simp add: syncReplicas_def)
  have z: "updateStatus E cluster qs s3 = (Inl (Panic ''ms.Spec.Replicas''), s3)"
    using n assms(5) by (simp add: updateStatus_def wrapE_def bindE_def)
  from y show ?thesis
    by (auto simp: reconcile_def bindE_def assms(2-4) wrapE_def attemptE_def z Let_def)
qed

section \<open>Examples\<close>

text \<open>An environment that grants every call but those of a given kind; clones keep what they are asked to be.\<close>

definition sampleMsEnv :: "(msCall \<Rightarrow> bool) \<Rightarrow> string msEnv" where
  "sampleMsEnv refused = \<lparr>
     eOutcome = \<lambda>_ c. if refused c then Some (Err ''refused'') else None,
     eExternal = \<lambda>_ _. sampleExt, eCreated = \<lambda>_ x. x, eApplied = \<lambda>_ m. m, eAdopted = \<lambda>_ m. m,
     eStatusPatched = \<lambda>_ m. m, eMachine = \<lambda>_. sampleMachine ''m'' 1, eMachines = \<lambda>_. [],
     eDeployment = \<lambda>_. sampleMD 1 1 0, eNode = \<lambda>_. \<lparr>nodeMeta = emptyMeta, nodeProviderID = [], nodeConditions = [], nodeTaints = []\<rparr>,
     eControlPlane = \<lambda>_. ''v1.2'', eContract = \<lambda>_ r. r, eSetRead = \<lambda>_. sampleMS ''ms'' 1 0 0, eSetsRead = \<lambda>_. [],
     eCluster = \<lambda>_. sampleCluster, ePatchedSet = \<lambda>_ m. m, eName = \<lambda>_ b. b @ ''x'', eNow = \<lambda>_. 5000000000,
     eOrder = \<lambda>_ ms. ms, ePreflight = samplePreflight, eGetScaled = \<lambda>_ n _. Inr n, eFl = id, eLabelErrors = \<lambda>_. [],
     eGroupKind = refKind, eErrText = \<lambda>_. ''error'', eSelectorMap = \<lambda>_. Inr Map.empty, eSelectorString = \<lambda>_. Inr [],
     eMatches = \<lambda>_ _. True, eSelectorMatches = \<lambda>_. Inr (False, \<lambda>_. True), eClusterLocked = \<lambda>_. False,
     eDeprecatedNaming = False, eTicks = 3\<rparr>"

definition startState :: "MachineSet \<Rightarrow> Machine list \<Rightarrow> msState" where
  "startState ms machines = \<lparr>msObj = ms, mheap = \<lambda>p. machines ! p, mnext = length machines, trace = []\<rparr>"


theorem syncReplicas_scaleDown_witness:
  "deleted (trace (snd (syncReplicas (sampleMsEnv (\<lambda>_. False)) sampleCluster [0]
      (startState (sampleMS ''ms'' 0 0 0) [sampleMachine ''a'' 1])))) = [sampleMachine ''a'' 1]"
proof -
  let ?s = "startState (sampleMS ''ms'' 0 0 0) [sampleMachine ''a'' 1]" and ?E = "sampleMsEnv (\<lambda>_. False)"
  have "getDeletePriorityFunc (eFl ?E) (eNow ?E (trace ?s)) (msObj ?s) = Inr randomDeletePolicy"
    by (simp add: getDeletePriorityFunc_def startState_def sampleMS_def)
  with syncReplicas_scaleDown [of ?s 0 "[0]" ?E sampleCluster "fst (syncReplicas ?E sampleCluster [0] ?s)"
      "snd (syncReplicas ?E sampleCluster [0] ?s)"]
  show ?thesis
    by (auto simp: startState_def getMachinesToDeletePrioritized_def sampleMS_def)
qed

definition bootstrapRef :: ObjectReference where
  "bootstrapRef = emptyRef\<lparr>refKind := ''KubeadmConfigTemplate'', refName := ''b''\<rparr>"

definition bootstrapSet :: MachineSet where
  "bootstrapSet = storeConfigRef bootstrapRef (sampleMS ''ms'' 1 0 0)"

lemma getExternal_run:
  "getExternal E r ns s = (case eOutcome E (trace s) (ReadExternal r ns) of
      None \<Rightarrow> (Inr (eExternal E (trace s @ [ReadExternal r ns]) r), s\<lparr>trace := trace s @ [ReadExternal r ns]\<rparr>)
    | Some e \<Rightarrow> (Inl (Wrap ''failed to retrieve external object'' e), s\<lparr>trace := trace s @ [ReadExternal r ns]\<rparr>))"
  by (simp add: getExternal_def wrapE_def readE_def call_def bindE_def split: option.splits)

lemma CreateFromTemplate_fails:
  assumes "eOutcome E (trace s) (ReadExternal (ciTemplateRef inp) (ciNamespace inp)) = Some e"
  shows "isl (fst (CreateFromTemplate E inp s))"
  unfolding CreateFromTemplate_def by (simp add: bindE_def [of "getExternal _ _ _"] getExternal_run assms)

lemma CreateFromTemplate_works:
  assumes "\<And>c. c \<in> {ReadExternal (ciTemplateRef inp) (ciNamespace inp)} \<union> range CreateExternal \<Longrightarrow> eOutcome E (cs c) c = None"
    and "\<And>cs cs' c. eOutcome E cs c = eOutcome E cs' c" and "\<And>cs r. xTemplate (eExternal E cs r) = Inr (Some t)"
  shows "\<not> isl (fst (CreateFromTemplate E inp s))"
proof -
  have "eOutcome E x (ReadExternal (ciTemplateRef inp) (ciNamespace inp)) = None" "eOutcome E x (CreateExternal y) = None" for x y
    using assms(1,2) by (metis UnI1 singletonI) (metis assms(1,2) UnI2 rangeI)
  moreover have "\<exists>y. GenerateTemplate g n (i\<lparr>giTemplate := eExternal E x r\<rparr>) = Inr y" for g n i x r
    by (simp add: GenerateTemplate_def assms(3) Let_def)
  ultimately show ?thesis
    unfolding CreateFromTemplate_def
    by (auto simp: bindE_def [of "getExternal _ _ _"] getExternal_run readE_def call_def bindE_def GenerateTemplate_def assms(3) Let_def)
qed

lemma cloneFor_isl:
  "isl (fst (cloneFor E m r n w s)) \<longleftrightarrow> isl (fst (CreateFromTemplate E
        \<lparr>ciTemplateRef = r, ciNamespace = mnamespace (mchMeta m), ciName = n, ciClusterName = spClusterName (mchSpec m),
         ciOwnerRef = Some \<lparr>orAPIVersion = ''cluster.x-k8s.io/v1beta1'', orKind = ''MachineSet'', orName = msName (msObj s),
           orUID = msUID (msObj s), orController = None, orBlockOwnerDeletion = None\<rparr>,
         ciLabels = mlabels (mchMeta m), ciAnnotations = mannotations (mchMeta m)\<rparr> s))"
  by (auto simp: cloneFor_def markNotCreated_def changeConditions_def split: prod.splits sum.splits)

lemma createOne_isl:
  assumes "\<And>n s. isl (fst (cloneFor E (computeDesiredMachine (eLabelErrors E) (eName E (trace s0)) (msObj s0) None)
      (spInfrastructureRef (tSpec (mssTemplate (msSpec (msObj s0))))) n InfrastructureTemplateCloningFailedReason s))"
  shows "isl (fst (createOne E s0))"
proof -
  obtain r s' where r: "createOne E s0 = (r, s')" by fastforce
  from r [unfolded createOne_def bindE_getsE prod.case Let_def] have "isl r"
  proof (cases rule: bindE_cases)
    case (cont b s1)
    from cont(2) [unfolded bindE_getsE] show ?thesis
      by (rule bindE_cases) (use assms [of _ s1] in \<open>auto, metis fst_conv isl_def sum.distinct(1)\<close>)
  qed simp
  with r show ?thesis by simp
qed

definition leakEnv :: "string msEnv" where
  "leakEnv = sampleMsEnv (\<lambda>c. case c of ReadExternal r ns \<Rightarrow> refKind r = ''K'' | _ \<Rightarrow> False)"

lemma leakEnv_simps:
  "eOutcome leakEnv cs (ReadExternal r ns) = (if refKind r = ''K'' then Some (Err ''refused'') else None)"
  "eOutcome leakEnv cs (CreateExternal x) = None" "eOutcome leakEnv cs c = eOutcome leakEnv cs' c"
  "xTemplate (eExternal leakEnv cs r) = Inr (Some \<lparr>tmAPIVersion = [], tmKind = [], tmLabels = None, tmAnnotations = None, tmOwnerReferences = []\<rparr>)"
  by (simp_all add: leakEnv_def sampleMsEnv_def sampleExt_def)

lemma bootstrapSet_refs:
  "bConfigRef (spBootstrap (tSpec (mssTemplate (msSpec bootstrapSet)))) = Some bootstrapRef"
  "refKind (spInfrastructureRef (tSpec (mssTemplate (msSpec bootstrapSet)))) = ''K''" "refKind bootstrapRef \<noteq> ''K''"
  by (simp_all add: bootstrapSet_def storeConfigRef_def sampleMS_def sampleTemplate_def bootstrapRef_def)

theorem createOne_leaks_bootstrap_witness:
  "\<exists>new x. trace (snd (createOne leakEnv (startState bootstrapSet []))) = new \<and> CreateExternal x \<in> set new \<and>
     (\<forall>y. DeleteExternal y \<notin> set new)"
proof -
  define s where "s = startState bootstrapSet []"
  define m where "m = computeDesiredMachine (eLabelErrors leakEnv) (eName leakEnv (trace s)) (msObj s) None"
  have s: "msObj s = bootstrapSet" "trace s = []" by (simp_all add: s_def startState_def)
  have refs: "bConfigRef (spBootstrap (tSpec (mssTemplate (msSpec (msObj s))))) = Some bootstrapRef"
    using bootstrapSet_refs(1) s(1) by simp
  have "\<not> isl (fst (cloneFor leakEnv m bootstrapRef (mchName m) BootstrapTemplateCloningFailedReason s))"
    unfolding cloneFor_isl by (rule CreateFromTemplate_works [OF _ leakEnv_simps(3,4)])
      (use bootstrapSet_refs(3) in \<open>auto simp: leakEnv_simps(1,2)\<close>)
  then obtain b s1 where b: "cloneFor leakEnv m bootstrapRef (mchName m) BootstrapTemplateCloningFailedReason s = (Inr b, s1)"
    by (metis eq_fst_iff isl_def sum.exhaust_sel)
  have "isl (fst (createOne leakEnv s))"
    by (rule createOne_isl, unfold cloneFor_isl, rule CreateFromTemplate_fails)
      (simp add: s(1) bootstrapSet_refs(2) leakEnv_simps(1))
  then obtain e s' where r: "createOne leakEnv s = (Inl e, s')" by (metis eq_fst_iff isl_def)
  from createOne_leaks_bootstrap [OF refs m_def b r] show ?thesis unfolding s_def [symmetric] by (simp add: r s(2))
qed


text \<open>A set without machines, in an environment that grants every call.\<close>

lemma gather_nothing:
  assumes "isDeploymentChild ms = False" and "refKind (spInfrastructureRef (tSpec (mssTemplate (msSpec ms)))) = ''K''"
    and "bConfigRef (spBootstrap (tSpec (mssTemplate (msSpec ms)))) = None"
  shows "\<exists>s1. gatherMachines (sampleMsEnv (\<lambda>_. False)) cluster (startState ms []) = (Inr [], s1) \<and>
    mlookup (mlabels (msMeta (msObj s1))) MachineDeploymentNameLabel = None \<and> msAnnotations (msObj s1) = msAnnotations ms"
proof -
  let ?E = "sampleMsEnv (\<lambda>_. False)"
  have env: "eOutcome ?E cs c = None" "eSelectorMap ?E l = Inr Map.empty" "eMachines ?E cs = []" for cs c l
    by (simp_all add: sampleMsEnv_def)
  define ms1 where "ms1 = labelSet ?E cluster ms"
  have ms1: "tSpec (mssTemplate (msSpec ms1)) = tSpec (mssTemplate (msSpec ms))"
    "mlookup (mlabels (msMeta ms1)) MachineDeploymentNameLabel = None" "msAnnotations ms1 = msAnnotations ms"
    using assms(1) by (auto simp: ms1_def labelSet_def Let_def setKey_def mlookup_def isDeploymentChild_def label_names
        split: option.splits)
  have "\<not> HasSuffix ''K'' TemplateSuffix" by (simp add: HasSuffix_def TemplateSuffix_def)
  then show ?thesis
    using ms1 assms(2,3)
    by (simp add: gatherMachines_def changeSet_def startState_def ms1_def [symmetric] reconcileExternalTemplateReference_def
        readE_def call_def bindE_def wrapE_def env selectCluster_def Let_def)
qed

definition emptyRun :: "MachineSet \<Rightarrow> ctrlResult res \<times> msState" where
  "emptyRun ms = reconcile (sampleMsEnv (\<lambda>_. False)) sampleCluster (startState ms [])"

lemma unhealthy_nothing:
  assumes "mlookup (mlabels (msMeta (msObj s))) MachineDeploymentNameLabel = None"
  shows "reconcileUnhealthyMachines E cluster [] s = (Inr emptyResult, s)"
proof -
  have "remediationLimit E [] s = (Inr (Some 0), s)" using assms by (simp add: remediationLimit_def isDeploymentChild_def)
  then show ?thesis by (simp add: reconcileUnhealthyMachines_def bindE_def [of "remediationLimit _ _"])
qed

theorem reconcile_nil_replicas_witness:
  "\<exists>e s'. emptyRun (sampleMS ''ms'' 0 0 0\<lparr>msSpec := (msSpec (sampleMS ''ms'' 0 0 0))\<lparr>mssReplicas := None\<rparr>\<rparr>) = (Inl e, s') \<and> isPanic e"
proof -
  let ?ms = "sampleMS ''ms'' 0 0 0\<lparr>msSpec := (msSpec (sampleMS ''ms'' 0 0 0))\<lparr>mssReplicas := None\<rparr>\<rparr>"
  obtain s1 where g: "gatherMachines (sampleMsEnv (\<lambda>_. False)) sampleCluster (startState ?ms []) = (Inr [], s1)"
    "mlookup (mlabels (msMeta (msObj s1))) MachineDeploymentNameLabel = None"
    using gather_nothing [of ?ms sampleCluster]
    by (auto simp: sampleMS_def sampleTemplate_def isDeploymentChild_def emptyMeta_def)
  show ?thesis
    unfolding emptyRun_def
    by (rule reconcile_nil_replicas [OF _ g(1) unhealthy_nothing [OF g(2)]])
      (simp_all add: startState_def sampleMsEnv_def)
qed

definition frozenSet :: MachineSet where
  "frozenSet = sampleMS ''ms'' 1 0 0\<lparr>msMeta := (msMeta (sampleMS ''ms'' 1 0 0))
     \<lparr>mannotations := Some [DisableMachineCreateAnnotation \<mapsto> ''true'']\<rparr>\<rparr>"


end
