(* ===== verification/GoTime.thy ===== *)
theory GoTime
  imports GoBase
begin

text \<open>
  Times as text: what the source uses of Go's \<open>time\<close> package to write a time into an annotation and to
  read it back, \<open>Time.Format\<close> and \<open>time.Parse\<close> with the layout \<open>time.RFC3339\<close>, for times from the
  year 0 on. A time is the number of nanoseconds since 1970, in UTC. The calendar is found by counting
  years and months, which ends because every year and month has a day.
\<close>

section \<open>The calendar\<close>

definition isLeap :: "nat \<Rightarrow> bool" where
  "isLeap y \<longleftrightarrow> y mod 4 = 0 \<and> (y mod 100 \<noteq> 0 \<or> y mod 400 = 0)"

definition yearDays :: "nat \<Rightarrow> nat" where
  "yearDays y = (if isLeap y then 366 else 365)"

definition daysIn :: "nat \<Rightarrow> nat \<Rightarrow> nat" where
  "daysIn y m = (if m = 2 then (if isLeap y then 29 else 28)
     else if m \<in> {4, 6, 9, 11} then 30 else 31)"

lemma yearDays_pos: "yearDays y > 0" and daysIn_pos: "daysIn y m > 0"
  by (simp_all add: yearDays_def daysIn_def)

text \<open>The year a day falls into, counted from the first day of the year \<open>y\<close>, and the month of a day of a year.\<close>

function yearOf :: "nat \<Rightarrow> nat \<Rightarrow> nat \<times> nat" where
  "yearOf y d = (if d < yearDays y then (y, d) else yearOf (Suc y) (d - yearDays y))"
  by pat_completeness auto
termination
  by (relation "measure snd") (use yearDays_pos in \<open>auto simp: not_less intro: diff_less less_le_trans\<close>)

declare yearOf.simps [simp del]

function monthOf :: "nat \<Rightarrow> nat \<Rightarrow> nat \<Rightarrow> nat \<times> nat" where
  "monthOf y m d = (if m \<ge> 12 \<or> d < daysIn y m then (m, d) else monthOf y (Suc m) (d - daysIn y m))"
  by pat_completeness auto
termination
  by (relation "measure (\<lambda>(y, m, d). 12 - m)") auto

declare monthOf.simps [simp del]

text \<open>The days before a year and before a month of a year.\<close>

fun daysBeforeYear :: "nat \<Rightarrow> nat" where
  "daysBeforeYear 0 = 0"
| "daysBeforeYear (Suc y) = daysBeforeYear y + yearDays y"

definition daysBeforeMonth :: "nat \<Rightarrow> nat \<Rightarrow> nat" where
  "daysBeforeMonth y m = sum_list (map (daysIn y) [1..<m])"

definition epochDays :: nat where "epochDays = 719528"

section \<open>Format\<close>

definition pad :: "nat \<Rightarrow> nat \<Rightarrow> string" where
  "pad w n = replicate (w - length (format_nat n)) (CHR ''0'') @ format_nat n"

definition printDate :: "nat \<Rightarrow> string" where
  "printDate days =
     (let (y, r) = yearOf 0 days; (m, d) = monthOf y 1 r
      in pad 4 y @ ''-'' @ pad 2 m @ ''-'' @ pad 2 (Suc d))"

definition printClock :: "nat \<Rightarrow> string" where
  "printClock s = pad 2 (s div 3600) @ '':'' @ pad 2 (s div 60 mod 60) @ '':'' @ pad 2 (s mod 60)"

text \<open>\<open>t.UTC().Format(time.RFC3339)\<close>: fractions of a second are dropped.\<close>

definition FormatRFC3339 :: "int \<Rightarrow> string" where
  "FormatRFC3339 t =
     (let s = nat (t div 1000000000 + 86400 * int epochDays)
      in printDate (s div 86400) @ ''T'' @ printClock (s mod 86400) @ ''Z'')"

section \<open>Parse\<close>

text \<open>A number of exactly \<open>n\<close> digits in front of the rest.\<close>

definition getDigits :: "nat \<Rightarrow> string \<Rightarrow> (nat \<times> string) option" where
  "getDigits n s =
     (if length s < n then None
      else map_option (\<lambda>v. (v, drop n s)) (parse_digits 0 (take n s)))"

text \<open>The hour may have one digit.\<close>

definition getHour :: "string \<Rightarrow> (nat \<times> string) option" where
  "getHour s = (case getDigits 2 s of None \<Rightarrow> getDigits 1 s | Some r \<Rightarrow> Some r)"

fun skipChar :: "char \<Rightarrow> string \<Rightarrow> string option" where
  "skipChar c [] = None"
| "skipChar c (d # s) = (if d = c then Some s else None)"

text \<open>A fraction after the seconds, in nanoseconds; digits from the tenth on are dropped.\<close>

definition getFraction :: "string \<Rightarrow> nat \<times> string" where
  "getFraction s =
     (case s of
        p # c # rest \<Rightarrow>
          if (p = CHR ''.'' \<or> p = CHR '','') \<and> is_digit c then
            let ds = takeWhile is_digit (c # rest); ns = take 9 ds
            in ((case parse_digits 0 ns of None \<Rightarrow> 0 | Some v \<Rightarrow> v) * 10 ^ (9 - length ns), dropWhile is_digit (c # rest))
          else (0, s)
      | _ \<Rightarrow> (0, s))"

text \<open>The zone at the end: its offset in seconds.\<close>

definition getZone :: "string \<Rightarrow> int option" where
  "getZone s =
     (if s = ''Z'' then Some 0
      else case s of
        [] \<Rightarrow> None
      | c # s1 \<Rightarrow>
          if c \<noteq> CHR ''+'' \<and> c \<noteq> CHR ''-'' then None
          else Option.bind (getDigits 2 s1) (\<lambda>(h, s2). Option.bind (skipChar (CHR '':'') s2) (\<lambda>s3.
               Option.bind (getDigits 2 s3) (\<lambda>(mi, s4).
                 if s4 \<noteq> [] \<or> h > 24 \<or> mi > 60 then None
                 else Some ((if c = CHR ''-'' then - 1 else 1) * (int h * 60 + int mi) * 60)))))"

definition parseDate :: "string \<Rightarrow> (nat \<times> string) option" where
  "parseDate s =
     Option.bind (getDigits 4 s) (\<lambda>(y, s1). Option.bind (skipChar (CHR ''-'') s1) (\<lambda>s2.
     Option.bind (getDigits 2 s2) (\<lambda>(m, s3). Option.bind (skipChar (CHR ''-'') s3) (\<lambda>s4.
     Option.bind (getDigits 2 s4) (\<lambda>(d, s5).
       if m < 1 \<or> m > 12 \<or> d < 1 \<or> d > daysIn y m then None
       else Some (daysBeforeYear y + daysBeforeMonth y m + (d - 1), s5))))))"

definition parseClock :: "string \<Rightarrow> (nat \<times> string) option" where
  "parseClock s =
     Option.bind (getHour s) (\<lambda>(h, s1). Option.bind (skipChar (CHR '':'') s1) (\<lambda>s2.
     Option.bind (getDigits 2 s2) (\<lambda>(mi, s3). Option.bind (skipChar (CHR '':'') s3) (\<lambda>s4.
     Option.bind (getDigits 2 s4) (\<lambda>(sec, s5).
       if h > 23 \<or> mi > 59 \<or> sec > 59 then None else Some (h * 3600 + mi * 60 + sec, s5))))))"

definition ParseRFC3339 :: "string \<Rightarrow> int option" where
  "ParseRFC3339 s =
     Option.bind (parseDate s) (\<lambda>(days, s1). Option.bind (skipChar (CHR ''T'') s1) (\<lambda>s2.
     Option.bind (parseClock s2) (\<lambda>(secs, s3).
       let (ns, s4) = getFraction s3 in
       map_option (\<lambda>off. ((int days - int epochDays) * 86400 + int secs - off) * 1000000000 + int ns) (getZone s4))))"

section \<open>A printed time reads back as the time to the second\<close>

lemma yearOf_inv:
  "yearOf y d = (y', r) \<Longrightarrow> daysBeforeYear y' + r = daysBeforeYear y + d \<and> r < yearDays y'"
proof (induction y d rule: yearOf.induct)
  case (1 y d)
  show ?case
  proof (cases "d < yearDays y")
    case True
    with "1.prems" show ?thesis by (simp add: yearOf.simps [of y d])
  next
    case False
    with 1 show ?thesis by (simp add: yearOf.simps [of y d])
  qed
qed

lemma daysBeforeMonth_Suc: "m \<ge> 1 \<Longrightarrow> daysBeforeMonth y (Suc m) = daysBeforeMonth y m + daysIn y m"
  by (simp add: daysBeforeMonth_def)

lemma daysBeforeMonth_one [simp]: "daysBeforeMonth y (Suc 0) = 0"
  by (simp add: daysBeforeMonth_def)

lemma year_months: "daysBeforeMonth y 12 + daysIn y 12 = yearDays y"
  by (simp add: daysBeforeMonth_def upt_rec daysIn_def yearDays_def)

lemma monthOf_inv:
  assumes "monthOf y m d = (m', r)" and "1 \<le> m" and "m \<le> 12" and "daysBeforeMonth y m + d < yearDays y"
  shows "daysBeforeMonth y m' + r = daysBeforeMonth y m + d \<and> r < daysIn y m' \<and> 1 \<le> m' \<and> m' \<le> 12"
  using assms
proof (induction y m d rule: monthOf.induct)
  case (1 y m d)
  show ?case
  proof (cases "m \<ge> 12 \<or> d < daysIn y m")
    case True
    then have "m' = m" "r = d" using "1.prems" by (simp_all add: monthOf.simps [of y m d])
    moreover have "d < daysIn y m" if "m = 12" using "1.prems"(4) year_months [of y] that by simp
    ultimately show ?thesis using True "1.prems" by auto
  next
    case False
    then have "monthOf y (Suc m) (d - daysIn y m) = (m', r)" using "1.prems" by (simp add: monthOf.simps [of y m d])
    with False 1 show ?thesis by (simp add: daysBeforeMonth_Suc)
  qed
qed

lemma length_format_nat: "n < 10 ^ k \<Longrightarrow> k > 0 \<Longrightarrow> length (format_nat n) \<le> k"
proof (induction k arbitrary: n)
  case (Suc k)
  show ?case
  proof (cases "n < 10")
    case True
    then show ?thesis by (simp add: format_nat.simps [of n])
  next
    case False
    then have "k > 0" using Suc.prems by (cases k) auto
    moreover have "n div 10 < 10 ^ k" using Suc.prems by (simp add: less_mult_imp_div_less)
    ultimately show ?thesis using Suc.IH False by (simp add: format_nat.simps [of n])
  qed
qed simp

lemma parse_zeros: "parse_digits 0 (replicate k (CHR ''0'') @ s) = parse_digits 0 s"
  by (induction k) (simp_all add: is_digit_def digit_val_def)

lemma getDigits_pad: "n < 10 ^ w \<Longrightarrow> w > 0 \<Longrightarrow> getDigits w (pad w n @ rest) = Some (n, rest)"
  using length_format_nat [of n w] by (simp add: getDigits_def pad_def parse_zeros parse_format_nat)

lemma getHour_pad: "n < 100 \<Longrightarrow> getHour (pad 2 n @ rest) = Some (n, rest)"
  by (simp add: getHour_def getDigits_pad)

lemma parseDate_printDate:
  assumes "days < daysBeforeYear 10000"
  shows "parseDate (printDate days @ rest) = Some (days, rest)"
proof -
  obtain y r where y: "yearOf 0 days = (y, r)" by fastforce
  obtain m d where m: "monthOf y 1 r = (m, d)" by fastforce
  have Y: "daysBeforeYear y + r = days" "r < yearDays y" using yearOf_inv [OF y] by simp_all
  have M: "daysBeforeMonth y m + d = r" "d < daysIn y m" "1 \<le> m" "m \<le> 12" using monthOf_inv [OF m] Y by simp_all
  have mono: "a \<le> b \<Longrightarrow> daysBeforeYear a \<le> daysBeforeYear b" for a b by (induction b) (auto simp: le_Suc_eq)
  have "y < 10000"
  proof (rule ccontr)
    assume "\<not> y < 10000"
    then have "daysBeforeYear 10000 \<le> daysBeforeYear y" by (intro mono) simp
    with Y assms show False by simp
  qed
  moreover have "daysIn y m \<le> 31" by (simp add: daysIn_def)
  ultimately show ?thesis
    using M Y m by (simp add: printDate_def y parseDate_def getDigits_pad)
qed

lemma parseClock_printClock: "s < 86400 \<Longrightarrow> parseClock (printClock s @ rest) = Some (s, rest)"
proof -
  assume s: "s < 86400"
  have "s div 3600 * 3600 + s div 60 mod 60 * 60 + s mod 60 = s"
  proof -
    have "s div 3600 = s div 60 div 60" using div_mult2_eq [of s 60 60] by simp
    moreover have "s div 60 div 60 * 60 + s div 60 mod 60 = s div 60" and "s div 60 * 60 + s mod 60 = s" by simp_all
    ultimately show ?thesis by linarith
  qed
  moreover have "s div 3600 < 24" using s by simp
  moreover have "\<not> 59 < s div 60 mod 60" "\<not> 59 < s mod 60"
    using mod_less_divisor [of 60 "s div 60"] mod_less_divisor [of 60 s] by linarith+
  ultimately show ?thesis by (simp add: printClock_def parseClock_def getHour_pad getDigits_pad)
qed

lemma ParseRFC3339_Format:
  assumes "0 \<le> t div 1000000000 + 86400 * int epochDays"
    and "t div 1000000000 + 86400 * int epochDays < 86400 * int (daysBeforeYear 10000)"
  shows "ParseRFC3339 (FormatRFC3339 t) = Some (t div 1000000000 * 1000000000)"
proof -
  define s where "s = nat (t div 1000000000 + 86400 * int epochDays)"
  have s: "int s = t div 1000000000 + 86400 * int epochDays" using assms by (simp add: s_def)
  have "s div 86400 < daysBeforeYear 10000" using assms s by (simp add: less_mult_imp_div_less flip: of_nat_less_iff)
  moreover have "(int (s div 86400) - int epochDays) * 86400 + int (s mod 86400) = t div 1000000000"
  proof -
    have "int (s div 86400 * 86400 + s mod 86400) = int s" by (simp only: div_mult_mod_eq)
    then have "int (s div 86400) * 86400 + int (s mod 86400) = int s" by (simp only: of_nat_add of_nat_mult of_nat_numeral)
    with s show ?thesis by (simp add: left_diff_distrib)
  qed
  ultimately show ?thesis
    by (simp add: FormatRFC3339_def ParseRFC3339_def Let_def parseDate_printDate parseClock_printClock getFraction_def getZone_def flip: s_def)
qed

lemma daysBeforeYear_bounds: "365 * y \<le> daysBeforeYear y" "daysBeforeYear y \<le> 366 * y"
  by (induction y) (auto simp: yearDays_def split: if_splits)

text \<open>Every time a 64-bit count of nanoseconds can hold is printed and parsed to the second.\<close>

lemma ParseRFC3339_Format64:
  assumes "- (2 ^ 63) \<le> t" and "t < 2 ^ 63"
  shows "ParseRFC3339 (FormatRFC3339 t) = Some (t div 1000000000 * 1000000000)"
proof (rule ParseRFC3339_Format)
  have "719050 \<le> int epochDays" "int epochDays \<le> 721020"
    using daysBeforeYear_bounds [of 1970] by (simp_all add: epochDays_def)
  moreover have "3650000 \<le> int (daysBeforeYear 10000)" using daysBeforeYear_bounds(1) [of 10000] by simp
  moreover have "- 10000000000 \<le> t div 1000000000" "t div 1000000000 \<le> 10000000000" using assms by simp_all
  ultimately show "0 \<le> t div 1000000000 + 86400 * int epochDays"
      "t div 1000000000 + 86400 * int epochDays < 86400 * int (daysBeforeYear 10000)"
    by (linarith, linarith)
qed

section \<open>Durations\<close>

text \<open>
  \<open>Duration.String\<close>, for a duration in nanoseconds: the fraction without trailing zeros, and the number of
  whole units that is left.
\<close>

fun fmtFrac :: "nat \<Rightarrow> nat \<Rightarrow> string \<Rightarrow> bool \<Rightarrow> string \<times> nat" where
  "fmtFrac 0 v acc print = (if print then CHR ''.'' # acc else acc, v)"
| "fmtFrac (Suc prec) v acc print =
     (let digit = v mod 10; p = print \<or> digit \<noteq> 0 in fmtFrac prec (v div 10) (if p then digit_char digit # acc else acc) p)"

definition printUnits :: "nat \<Rightarrow> nat \<Rightarrow> string \<Rightarrow> string" where
  "printUnits prec u unit = (let (f, v) = fmtFrac prec u unit False in format_nat v @ f)"

definition printHMS :: "nat \<Rightarrow> string" where
  "printHMS u =
     (let (f, s) = fmtFrac 9 u ''s'' False; m = s div 60; h = m div 60 in
      (if h > 0 then format_nat h @ ''h'' else []) @ (if m > 0 then format_nat (m mod 60) @ ''m'' else []) @ format_nat (s mod 60) @ f)"

definition DurationString :: "int \<Rightarrow> string" where
  "DurationString d =
     (let u = nat \<bar>d\<bar> in
      if u = 0 then ''0s''
      else (if d < 0 then ''-'' else []) @
        (if u < 1000 then printUnits 0 u ''ns''
         else if u < 1000000 then printUnits 3 u [CHR 0xC2, CHR 0xB5, CHR ''s'']
         else if u < 1000000000 then printUnits 6 u ''ms''
         else printHMS u))"

end
