(* ===== verification/MachineHealthCheck.thy ===== *)
theory MachineHealthCheck
  imports MachineSetController GoTime
begin

text \<open>
  The MachineHealthCheck controller: \<open>machinehealthcheck_controller.go\<close> and \<open>machinehealthcheck_targets.go\<close> in
  \<open>src/cluster-api/internal/controllers/machinehealthcheck\<close>. It decides which machines need remediation, stops
  when too many do, and hands the others over: to their owner by a condition, or to an external
  controller by an object made from a template.

  Durations, the clock and the requeue nextTimes of this controller are in nanoseconds, the times of
  conditions and objects in seconds. Durations are taken to be far below the 292 years at which 64 bits
  end. Log lines and events are not modelled.
\<close>

section \<open>Objects\<close>

record UnhealthyCondition =
  ucType :: string
  ucStatus :: string
  ucTimeout :: int

record MachineHealthCheckSpec =
  mhsClusterName :: string
  mhsSelector :: LabelSelector
  mhsUnhealthyConditions :: "UnhealthyCondition list"
  mhsMaxUnhealthy :: "IntOrString option"
  mhsUnhealthyRange :: "string option"
  mhsNodeStartupTimeout :: "int option"
  mhsRemediationTemplate :: "ObjectReference option"

record MachineHealthCheckStatus =
  mhtExpectedMachines :: int
  mhtCurrentHealthy :: int
  mhtRemediationsAllowed :: int
  mhtObservedGeneration :: int
  mhtTargets :: "string list"
  mhtConditions :: "Condition list"

record MHC =
  mhcMeta :: ObjMeta
  mhcSpec :: MachineHealthCheckSpec
  mhcStatus :: MachineHealthCheckStatus

abbreviation "mhcName m \<equiv> mname (mhcMeta m)"
abbreviation "mhcConditions m \<equiv> mhtConditions (mhcStatus m)"

definition setMhcConditions :: "Condition list \<Rightarrow> MHC \<Rightarrow> MHC" where
  "setMhcConditions cs m = m\<lparr>mhcStatus := (mhcStatus m)\<lparr>mhtConditions := cs\<rparr>\<rparr>"

interpretation mhc_conditions: condition_object "\<lambda>m. mhcConditions m" setMhcConditions
  by unfold_locales (simp_all add: setMhcConditions_def)

abbreviation "second \<equiv> (1000000000 :: int)"
abbreviation "DefaultNodeStartupTimeout \<equiv> 600 * second"

abbreviation "ExternalRemediationTemplateAvailableCondition \<equiv> ''ExternalRemediationTemplateAvailable''"
abbreviation "ExternalRemediationTemplateNotFoundReason \<equiv> ''ExternalRemediationTemplateNotFound''"
abbreviation "ExternalRemediationRequestAvailableCondition \<equiv> ''ExternalRemediationRequestAvailable''"
abbreviation "ExternalRemediationRequestCreationFailedReason \<equiv> ''ExternalRemediationRequestCreationFailed''"

section \<open>Targets\<close>

text \<open>The machine as the patch helper has seen it stands beside the machine.\<close>

record healthCheckTarget =
  htMachine :: Machine
  htOriginal :: Machine
  htNode :: "Node option"
  htNodeMissing :: bool

definition markTarget :: "time \<Rightarrow> string \<Rightarrow> string \<Rightarrow> string list \<Rightarrow> healthCheckTarget \<Rightarrow> healthCheckTarget" where
  "markTarget now reason fm args t =
     t\<lparr>htMachine := setMachineConditions (MarkFalse now (mchConditions (htMachine t)) MachineHealthCheckSucceededCondition reason
       ConditionSeverityWarning fm args) (htMachine t)\<rparr>"

definition getNodeCondition :: "Node \<Rightarrow> string \<Rightarrow> NodeCondition option" where
  "getNodeCondition node conditionType = find (\<lambda>c. ncType c = conditionType) (nodeConditions node)"

definition minDuration :: "int list \<Rightarrow> int" where
  "minDuration durations = (case durations of [] \<Rightarrow> 0 | d # ds \<Rightarrow> foldl (\<lambda>m nc. if nc < m then nc else m) d ds)"

definition shouldSkipRemediation :: "Machine \<Rightarrow> bool" where
  "shouldSkipRemediation m = (if HasPaused (mchMeta m) then True else HasSkipRemediation (mchMeta m))"

text \<open>The latest of the times from which on the machine could have got a node, in seconds.\<close>

definition laterIf :: "Condition list \<Rightarrow> string \<Rightarrow> time \<Rightarrow> time" where
  "laterIf cs t comparison =
     (case GetLastTransitionTime cs t of
        None \<Rightarrow> comparison
      | Some x \<Rightarrow> if IsTrue cs t \<and> x > comparison then x else comparison)"

definition comparisonTime :: "Cluster \<Rightarrow> Machine \<Rightarrow> time" where
  "comparisonTime cluster m =
     laterIf (mchConditions m) InfrastructureReadyCondition
       (laterIf (clConditions (clStatus cluster)) InfrastructureReadyCondition
         (laterIf (clConditions (clStatus cluster)) ControlPlaneInitializedCondition (mcreationTimestamp (mchMeta m))))"

text \<open>The loop over the conditions: the first that lasts too long, or the times until the others would.\<close>

fun unhealthyConditionLoop :: "int \<Rightarrow> Node \<Rightarrow> UnhealthyCondition list \<Rightarrow> int list \<Rightarrow> UnhealthyCondition + int list" where
  "unhealthyConditionLoop now node [] nextTimes = Inr nextTimes"
| "unhealthyConditionLoop now node (c # cs) nextTimes =
     (case getNodeCondition node (ucType c) of
        None \<Rightarrow> unhealthyConditionLoop now node cs nextTimes
      | Some nc \<Rightarrow>
          if ncStatus nc \<noteq> ucStatus c then unhealthyConditionLoop now node cs nextTimes
          else if ncLastTransitionTime nc * second + ucTimeout c < now then Inl c
          else
            let nextCheck = ucTimeout c - (now - ncLastTransitionTime nc * second) + second in
            unhealthyConditionLoop now node cs (if nextCheck > 0 then nextTimes @ [nextCheck] else nextTimes))"

definition needsRemediation :: "int \<Rightarrow> Cluster \<Rightarrow> MHC \<Rightarrow> int \<Rightarrow> healthCheckTarget \<Rightarrow> bool \<times> int \<times> healthCheckTarget" where
  "needsRemediation now cluster mhc timeoutForMachineToHaveNode t =
     (let m = htMachine t; mark = markTarget (now div second) in
      if HasRemediateMachine (mchMeta m) then
        (True, 0, mark HasRemediateMachineAnnotationReason ''Marked for remediation via remediate-machine annotation'' [] t)
      else case stFailureReason (mchStatus m) of
        Some r \<Rightarrow> (True, 0, mark MachineHasFailureReason ''FailureReason: %v'' [r] t)
      | None \<Rightarrow>
      (case stFailureMessage (mchStatus m) of
        Some msg \<Rightarrow> (True, 0, mark MachineHasFailureReason ''FailureMessage: %v'' [msg] t)
      | None \<Rightarrow>
      if htNodeMissing t then (True, 0, mark NodeNotFoundReason [] [] t)
      else if \<not> IsTrue (clConditions (clStatus cluster)) ControlPlaneInitializedCondition \<and> \<not> IsControlPlaneMachine m then (False, 0, t)
      else if \<not> IsTrue (clConditions (clStatus cluster)) InfrastructureReadyCondition then (False, 0, t)
      else case htNode t of
        None \<Rightarrow>
          if timeoutForMachineToHaveNode = 0 then (False, 0, t)
          else
            let start = comparisonTime cluster m * second in
            if start + timeoutForMachineToHaveNode < now then
              (True, 0, mark NodeStartupTimeoutReason ''Node failed to report startup in %s'' [DurationString timeoutForMachineToHaveNode] t)
            else (False, timeoutForMachineToHaveNode - (now - start) + second, t)
      | Some node \<Rightarrow>
          (case unhealthyConditionLoop now node (mhsUnhealthyConditions (mhcSpec mhc)) [] of
             Inl c \<Rightarrow>
               (True, 0, mark UnhealthyNodeConditionReason ''Condition %s on node is reporting status %s for more than %s''
                 [ucType c, ucStatus c, DurationString (ucTimeout c)] t)
           | Inr nextTimes \<Rightarrow> (False, minDuration nextTimes, t))))"

text \<open>
  All targets in turn, the clock read for each: the healthy ones, the unhealthy ones, and the times
  until others may become unhealthy.
\<close>

fun healthCheckTargets ::
  "(nat \<Rightarrow> int) \<Rightarrow> Cluster \<Rightarrow> MHC \<Rightarrow> int \<Rightarrow> nat \<Rightarrow> healthCheckTarget list \<Rightarrow>
   healthCheckTarget list \<times> healthCheckTarget list \<times> int list" where
  "healthCheckTargets clock cluster mhc timeout i [] = ([], [], [])"
| "healthCheckTargets clock cluster mhc timeout i (t # ts) =
     (let (healthy, unhealthy, nextTimes) = healthCheckTargets clock cluster mhc timeout (Suc i) ts;
          (needs, nextCheck, t') = needsRemediation (clock i) cluster mhc timeout t
      in if needs then (healthy, t' # unhealthy, nextTimes)
         else if nextCheck > 0 then (healthy, unhealthy, nextCheck # nextTimes)
         else if timeIsZero (mdeletionTimestamp (mchMeta (htMachine t'))) \<and> htNode t' \<noteq> None then
           (t'\<lparr>htMachine := setMachineConditions (MarkTrue (clock i div second) (mchConditions (htMachine t')) MachineHealthCheckSucceededCondition)
               (htMachine t')\<rparr> # healthy, unhealthy, nextTimes)
         else (healthy, unhealthy, nextTimes))"

section \<open>Whether remediation is allowed\<close>

text \<open>The text between the brackets is cut out by position, and the parts by index.\<close>

definition getUnhealthyRange :: "string \<Rightarrow> (int \<times> int) res" where
  "getUnhealthyRange unhealthyRange =
     (if length unhealthyRange < 2 then Inl (Panic ''slice bounds out of range'')
      else
        let parts = Split (CHR ''-'') (take (length unhealthyRange - 2) (drop 1 unhealthyRange)) in
        bindR (ParseUint 32 (parts ! 0)) (\<lambda>mn.
        if length parts < 2 then Inl (Panic ''index out of range'')
        else bindR (ParseUint 32 (parts ! 1)) (\<lambda>mx.
          if mx < mn then Inl (Err ''max value cannot be less than min value for unhealthyRange'')
          else Inr (int mn, int mx))))"

definition unhealthyMachineCount :: "MHC \<Rightarrow> int" where
  "unhealthyMachineCount mhc = wrap32 (mhtExpectedMachines (mhcStatus mhc) - mhtCurrentHealthy (mhcStatus mhc))"

text \<open>\<open>scaled\<close> is \<open>intstr.GetScaledValueFromIntOrPercent\<close>.\<close>

definition getMaxUnhealthy :: "(IntOrString \<Rightarrow> int \<Rightarrow> bool \<Rightarrow> int res) \<Rightarrow> MHC \<Rightarrow> int res" where
  "getMaxUnhealthy scaled mhc =
     (case mhsMaxUnhealthy (mhcSpec mhc) of
        None \<Rightarrow> Inl (Err ''spec.maxUnhealthy must be set'')
      | Some v \<Rightarrow> scaled v (mhtExpectedMachines (mhcStatus mhc)) False)"

definition isAllowedRemediation :: "(IntOrString \<Rightarrow> int \<Rightarrow> bool \<Rightarrow> int res) \<Rightarrow> MHC \<Rightarrow> (bool \<times> int) res" where
  "isAllowedRemediation scaled mhc =
     (case mhsUnhealthyRange (mhcSpec mhc) of
        Some unhealthyRange \<Rightarrow>
          bindR (getUnhealthyRange unhealthyRange) (\<lambda>(mn, mx).
            let count = unhealthyMachineCount mhc in Inr (count \<ge> mn \<and> count \<le> mx, wrap32 (mx - count)))
      | None \<Rightarrow>
          bindR (getMaxUnhealthy scaled mhc) (\<lambda>mx.
            let count = unhealthyMachineCount mhc in Inr (count \<le> mx, wrap32 (mx - count))))"

section \<open>State and environment\<close>

datatype hCall =
    HReadMHC string string
  | HReadCluster string string
  | HHelper string
  | HGetClient string string
  | HWatchNodes string string
  | HListMachines string LabelSelector
  | HReadNode string
  | HPatchMachine Machine Machine
  | HReadExternal ObjectReference string
  | HCreate ext
  | HDelete ext
  | HPatchMHC MHC MHC bool
  | HListMHCs string string
  | HListByNode string

text \<open>The health check, which the code changes in place, and the calls made so far.\<close>

record hState =
  hMHC :: MHC
  hTrace :: "hCall list"

text \<open>
  \<open>hNow cs i\<close> is the \<open>i\<close>-th reading of the clock after the calls \<open>cs\<close>; \<open>hSelects\<close> is a label selector made
  into a predicate, with whether it is empty.
\<close>

record hEnv =
  hOutcome :: "hCall list \<Rightarrow> hCall \<Rightarrow> err option"
  hReadMHC :: "hCall list \<Rightarrow> MHC"
  hReadCluster :: "hCall list \<Rightarrow> Cluster"
  hMachines :: "hCall list \<Rightarrow> Machine list"
  hNode :: "hCall list \<Rightarrow> Node"
  hExternal :: "hCall list \<Rightarrow> ObjectReference \<Rightarrow> ext"
  hMHCs :: "hCall list \<Rightarrow> MHC list"
  hNow :: "hCall list \<Rightarrow> nat \<Rightarrow> int"
  hName :: "hCall list \<Rightarrow> string \<Rightarrow> string"
  hTracker :: bool
  hScaled :: "IntOrString \<Rightarrow> int \<Rightarrow> bool \<Rightarrow> int res"
  hSelects :: "LabelSelector \<Rightarrow> (bool \<times> (strmap option \<Rightarrow> bool)) res"
  hGroup :: "string \<Rightarrow> string res"
  hGroupKind :: "ObjectReference \<Rightarrow> string"
  hErrText :: "err \<Rightarrow> string"
  hClusterLocked :: "err \<Rightarrow> bool"

definition hcall :: "hEnv \<Rightarrow> hCall \<Rightarrow> (hState, unit) comp" where
  "hcall E c s =
     (case hOutcome E (hTrace s) c of
        None \<Rightarrow> (Inr (), s\<lparr>hTrace := hTrace s @ [c]\<rparr>)
      | Some e \<Rightarrow> (Inl e, s\<lparr>hTrace := hTrace s @ [c]\<rparr>))"

definition hread :: "hEnv \<Rightarrow> hCall \<Rightarrow> (hCall list \<Rightarrow> 'a) \<Rightarrow> (hState, 'a) comp" where
  "hread E c answer = bindE (getsE hTrace) (\<lambda>cs. bindE (hcall E c) (\<lambda>_. returnE (answer (cs @ [c]))))"

definition changeMHC :: "(MHC \<Rightarrow> MHC) \<Rightarrow> (hState, unit) comp" where
  "changeMHC f = modifyE (\<lambda>s. s\<lparr>hMHC := f (hMHC s)\<rparr>)"

definition markMHC :: "hEnv \<Rightarrow> (time \<Rightarrow> Condition list \<Rightarrow> Condition list) \<Rightarrow> (hState, unit) comp" where
  "markMHC E f =
     modifyE (\<lambda>s. s\<lparr>hMHC := setMhcConditions (f (hNow E (hTrace s) 0 div second) (mhcConditions (hMHC s))) (hMHC s)\<rparr>)"

section \<open>Fetching the targets\<close>

definition getMachinesFromMHC :: "hEnv \<Rightarrow> MHC \<Rightarrow> (hState, Machine list) comp" where
  "getMachinesFromMHC E mhc =
     (let selector = CloneSelectorAndAddLabel (mhsSelector (mhcSpec mhc)) ClusterNameLabel (mhsClusterName (mhcSpec mhc)) in
      bindE (wrapE ''failed to build selector'' (liftE (hSelects E selector))) (\<lambda>_.
        wrapE ''failed to list machines'' (hread E (HListMachines (mnamespace (mhcMeta mhc)) selector) (hMachines E))))"

definition getNodeFromMachine :: "hEnv \<Rightarrow> Machine \<Rightarrow> (hState, Node option) comp" where
  "getNodeFromMachine E m =
     (case stNodeRef (mchStatus m) of
        None \<Rightarrow> returnE None
      | Some ref \<Rightarrow> bindE (hread E (HReadNode (refName ref)) (hNode E)) (\<lambda>n. returnE (Some n)))"

text \<open>One target; without a client for the workload cluster it has no node and none is missing.\<close>

definition targetFor :: "hEnv \<Rightarrow> bool \<Rightarrow> Machine \<Rightarrow> (hState, healthCheckTarget) comp" where
  "targetFor E clusterClient m =
     (let target = \<lparr>htMachine = m, htOriginal = m, htNode = None, htNodeMissing = False\<rparr> in
      bindE (hcall E (HHelper (mchName m))) (\<lambda>_.
        if \<not> clusterClient then returnE target
        else
          bindE (attemptE (getNodeFromMachine E m)) (\<lambda>r.
            case r of
              Inl e \<Rightarrow> if \<not> isNotFound e then failE (Wrap ''error getting node'' e) else returnE (target\<lparr>htNodeMissing := True\<rparr>)
            | Inr node \<Rightarrow> returnE (target\<lparr>htNode := node\<rparr>))))"

fun targetLoop :: "hEnv \<Rightarrow> bool \<Rightarrow> Machine list \<Rightarrow> (hState, healthCheckTarget list) comp" where
  "targetLoop E clusterClient [] = returnE []"
| "targetLoop E clusterClient (m # ms) =
     (if shouldSkipRemediation m then targetLoop E clusterClient ms
      else bindE (targetFor E clusterClient m) (\<lambda>t. bindE (targetLoop E clusterClient ms) (\<lambda>ts. returnE (t # ts))))"

definition getTargetsFromMHC :: "hEnv \<Rightarrow> bool \<Rightarrow> MHC \<Rightarrow> (hState, healthCheckTarget list) comp" where
  "getTargetsFromMHC E clusterClient mhc =
     bindE (wrapE ''error getting machines from MachineHealthCheck'' (getMachinesFromMHC E mhc)) (\<lambda>machines.
       if length machines = 0 then returnE [] else targetLoop E clusterClient machines)"

section \<open>Acting on the targets\<close>

definition hGetExternal :: "hEnv \<Rightarrow> ObjectReference \<Rightarrow> string \<Rightarrow> (hState, ext) comp" where
  "hGetExternal E ref namespace =
     wrapE ''failed to retrieve external object'' (hread E (HReadExternal ref namespace) (\<lambda>cs. hExternal E cs ref))"

definition getExternalRemediationRequest :: "hEnv \<Rightarrow> MHC \<Rightarrow> ObjectReference \<Rightarrow> string \<Rightarrow> (hState, ext) comp" where
  "getExternalRemediationRequest E m template machineName =
     wrapE ''failed to retrieve external remediation request object''
       (hGetExternal E \<lparr>refKind = TrimSuffix (refKind template) TemplateSuffix, refNamespace = [], refName = machineName,
          refUID = [], refAPIVersion = refAPIVersion template\<rparr> (mnamespace (mhcMeta m)))"

definition externalRemediationRequestExists :: "hEnv \<Rightarrow> MHC \<Rightarrow> ObjectReference \<Rightarrow> string \<Rightarrow> (hState, bool) comp" where
  "externalRemediationRequestExists E m template machineName =
     bindE (attemptE (getExternalRemediationRequest E m template machineName)) (\<lambda>r.
       returnE (case r of Inl _ \<Rightarrow> False | Inr _ \<Rightarrow> True))"

text \<open>The patch of one target; the error, if any, joins the list.\<close>

definition patchTarget :: "hEnv \<Rightarrow> string \<Rightarrow> healthCheckTarget \<Rightarrow> err list \<Rightarrow> (hState, err list) comp" where
  "patchTarget E msg t errList =
     bindE (attemptE (hcall E (HPatchMachine (htOriginal t) (htMachine t)))) (\<lambda>r.
       returnE (case r of Inl e \<Rightarrow> errList @ [Wrap msg e] | Inr _ \<Rightarrow> errList))"

text \<open>The request object made from the template; the error that ends the loop, if any.\<close>

definition createRequest :: "hEnv \<Rightarrow> ObjectReference \<Rightarrow> Condition option \<Rightarrow> Machine \<Rightarrow> (hState, err option) comp" where
  "createRequest E template condition machine =
     bindE (attemptE (hGetExternal E template (mnamespace (mchMeta machine)))) (\<lambda>r.
       case r of
         Inl e \<Rightarrow>
           bindE (markMHC E (\<lambda>now cs. MarkFalse now cs ExternalRemediationTemplateAvailableCondition
             ExternalRemediationTemplateNotFoundReason ConditionSeverityError (hErrText E e) [])) (\<lambda>_.
           returnE (Some (Wrap ''error retrieving remediation template'' e)))
       | Inr from \<Rightarrow>
           bindE (getsE hTrace) (\<lambda>cs.
           case GenerateTemplate (hGroupKind E) (hName E cs)
                  \<lparr>giTemplate = from, giTemplateRef = template, giNamespace = mnamespace (mchMeta machine), giName = [],
                   giClusterName = spClusterName (mchSpec machine),
                   giOwnerRef = Some \<lparr>orAPIVersion = ''cluster.x-k8s.io/v1beta1'', orKind = ''Machine'', orName = mchName machine,
                     orUID = muid (mchMeta machine), orController = None, orBlockOwnerDeletion = None\<rparr>,
                   giLabels = None, giAnnotations = None\<rparr> of
             Inl e \<Rightarrow> returnE (Some (Wrap ''failed to create template for remediation request'' e))
           | Inr to \<Rightarrow>
               bindE (liftE (deref ''condition.Reason'' condition)) (\<lambda>_.
               bindE (attemptE (hcall E (HCreate (to\<lparr>xMeta := (xMeta to)\<lparr>mname := mchName machine\<rparr>\<rparr>)))) (\<lambda>r'.
                 case r' of
                   Inl e \<Rightarrow>
                     bindE (markMHC E (\<lambda>now cs. MarkFalse now cs ExternalRemediationRequestAvailableCondition
                       ExternalRemediationRequestCreationFailedReason ConditionSeverityError (hErrText E e) [])) (\<lambda>_.
                     returnE (Some (Wrap ''error creating remediation request'' e)))
                 | Inr _ \<Rightarrow> returnE None))))"

text \<open>The owner is asked to remediate, unless it is already at work.\<close>

definition askOwner :: "time \<Rightarrow> Machine \<Rightarrow> Machine" where
  "askOwner now m =
     (if \<not> Has (mchConditions m) MachineOwnerRemediatedCondition \<or> IsTrue (mchConditions m) MachineOwnerRemediatedCondition
      then setMachineConditions (MarkFalse now (mchConditions m) MachineOwnerRemediatedCondition WaitingForRemediationReason
             ConditionSeverityWarning [] []) m
      else m)"

fun patchUnhealthyTargets :: "hEnv \<Rightarrow> Cluster \<Rightarrow> healthCheckTarget list \<Rightarrow> err list \<Rightarrow> (hState, err list) comp" where
  "patchUnhealthyTargets E cluster [] errList = returnE errList"
| "patchUnhealthyTargets E cluster (t # ts) errList =
     bindE (getsE (\<lambda>s. (hMHC s, hNow E (hTrace s) 0 div second))) (\<lambda>(m, now).
       let condition = Get (mchConditions (htMachine t)) MachineHealthCheckSucceededCondition;
           patch = (\<lambda>t'. bindE (patchTarget E ''failed to patch unhealthy machine status for machine'' t' errList)
                     (patchUnhealthyTargets E cluster ts))
       in if IsPaused cluster (mchMeta (htMachine t)) then bindE (liftE (deref ''condition.Reason'' condition)) (\<lambda>_. patch t)
          else case mhsRemediationTemplate (mhcSpec m) of
            Some template \<Rightarrow>
              bindE (externalRemediationRequestExists E m template (mchName (htMachine t))) (\<lambda>present.
                if present then returnE errList
                else bindE (createRequest E template condition (htMachine t)) (\<lambda>r.
                  case r of Some e \<Rightarrow> returnE (errList @ [e]) | None \<Rightarrow> patch t))
          | None \<Rightarrow>
              bindE (liftE (deref ''condition.Reason'' condition)) (\<lambda>_. patch (t\<lparr>htMachine := askOwner now (htMachine t)\<rparr>)))"

fun patchHealthyTargets :: "hEnv \<Rightarrow> healthCheckTarget list \<Rightarrow> err list \<Rightarrow> (hState, err list) comp" where
  "patchHealthyTargets E [] errList = returnE errList"
| "patchHealthyTargets E (t # ts) errList =
     bindE (getsE hMHC) (\<lambda>m.
       let patch = (\<lambda>errs. bindE (patchTarget E ''failed to patch healthy machine status for machine'' t errs)
                     (patchHealthyTargets E ts))
       in case mhsRemediationTemplate (mhcSpec m) of
            None \<Rightarrow> patch errList
          | Some template \<Rightarrow>
              bindE (attemptE (getExternalRemediationRequest E m template (mchName (htMachine t)))) (\<lambda>r.
                case r of
                  Inl e \<Rightarrow> patchHealthyTargets E ts
                    (if \<not> isNotFound e then errList @ [Wrap ''failed to fetch remediation request for machine'' e] else errList)
                | Inr obj \<Rightarrow>
                    if mdeletionTimestamp (xMeta obj) = None then
                      bindE (attemptE (hcall E (HDelete obj))) (\<lambda>r'.
                        case r' of
                          Inl e \<Rightarrow> if \<not> isNotFound e then patchHealthyTargets E ts (errList @ [Wrap ''failed to delete for Machine'' e])
                                   else patch errList
                        | Inr _ \<Rightarrow> patch errList)
                    else patch errList))"

fun patchAll :: "hEnv \<Rightarrow> healthCheckTarget list \<Rightarrow> err list \<Rightarrow> (hState, err list) comp" where
  "patchAll E [] errList = returnE errList"
| "patchAll E (t # ts) errList =
     bindE (patchTarget E ''failed to patch machine status for machine'' t errList) (patchAll E ts)"

section \<open>Reconcile\<close>

text \<open>The client for the workload cluster, once its control plane is initialized.\<close>

definition watchClusterNodes :: "hEnv \<Rightarrow> Cluster \<Rightarrow> (hState, unit) comp" where
  "watchClusterNodes E cluster =
     (if \<not> hTracker E then returnE ()
      else hcall E (HWatchNodes (mnamespace (clMeta cluster)) (mname (clMeta cluster))))"

definition remoteClient :: "hEnv \<Rightarrow> Cluster \<Rightarrow> (hState, bool) comp" where
  "remoteClient E cluster =
     (if IsTrue (clConditions (clStatus cluster)) ControlPlaneInitializedCondition then
        if \<not> hTracker E then failE (Panic ''r.Tracker'')
        else
          bindE (hcall E (HGetClient (mnamespace (clMeta cluster)) (mname (clMeta cluster)))) (\<lambda>_.
          bindE (watchClusterNodes E cluster) (\<lambda>_. returnE True))
      else returnE False)"

definition intOrStringPrint :: "IntOrString option \<Rightarrow> string" where
  "intOrStringPrint v = (case v of None \<Rightarrow> ''<nil>'' | Some (IntVal n) \<Rightarrow> FormatInt n | Some (StrVal x) \<Rightarrow> x)"

definition restrictedMessage :: "MHC \<Rightarrow> nat \<Rightarrow> nat \<Rightarrow> string" where
  "restrictedMessage m totalTargets unhealthy =
     (case mhsUnhealthyRange (mhcSpec m) of
        None \<Rightarrow> Sprintf ''Remediation is not allowed, the number of not started or unhealthy machines exceeds maxUnhealthy (total: %v, unhealthy: %v, maxUnhealthy: %v)''
                  [format_nat totalTargets, format_nat unhealthy, intOrStringPrint (mhsMaxUnhealthy (mhcSpec m))]
      | Some r \<Rightarrow> Sprintf ''Remediation is not allowed, the number of not started or unhealthy machines does not fall within the range (total: %v, unhealthy: %v, unhealthyRange: %v)''
                  [format_nat totalTargets, format_nat unhealthy, r])"

definition storeTargets :: "healthCheckTarget list \<Rightarrow> MHC \<Rightarrow> MHC" where
  "storeTargets targets m = m\<lparr>mhcStatus := (mhcStatus m)\<lparr>mhtExpectedMachines := wrap32 (int (length targets)),
     mhtTargets := sort_Sort (<) (map (\<lambda>t. mchName (htMachine t)) targets)\<rparr>\<rparr>"

definition storeHealthy :: "int \<Rightarrow> MHC \<Rightarrow> MHC" where
  "storeHealthy n m = m\<lparr>mhcStatus := (mhcStatus m)\<lparr>mhtCurrentHealthy := n\<rparr>\<rparr>"

definition storeAllowed :: "int \<Rightarrow> MHC \<Rightarrow> MHC" where
  "storeAllowed n m = m\<lparr>mhcStatus := (mhcStatus m)\<lparr>mhtRemediationsAllowed := n\<rparr>\<rparr>"

definition ownByCluster :: "hEnv \<Rightarrow> Cluster \<Rightarrow> MHC \<Rightarrow> MHC" where
  "ownByCluster E cluster m = m\<lparr>mhcMeta := (mhcMeta m)\<lparr>mownerReferences :=
     EnsureOwnerRef (hGroup E) (mownerReferences (mhcMeta m)) (clusterOwnerRef cluster)\<rparr>\<rparr>"

text \<open>Too many are unhealthy: the conditions of the machines are stored, nothing is remediated.\<close>

definition restrictRemediation ::
  "hEnv \<Rightarrow> healthCheckTarget list \<Rightarrow> healthCheckTarget list \<Rightarrow> healthCheckTarget list \<Rightarrow> (hState, ctrlResult) comp" where
  "restrictRemediation E targets healthy unhealthy =
     bindE (getsE (\<lambda>s. restrictedMessage (hMHC s) (length targets) (length unhealthy))) (\<lambda>message.
     bindE (changeMHC (storeAllowed 0)) (\<lambda>_.
     bindE (markMHC E (\<lambda>now cs. Set now cs (Some (mkCondition RemediationAllowedCondition ConditionFalse TooManyUnhealthyReason
              ConditionSeverityWarning message)))) (\<lambda>_.
     bindE (patchAll E (healthy @ unhealthy) []) (\<lambda>errList.
       if length errList > 0 then failE (Aggregate errList) else returnE \<lparr>Requeue = True, RequeueAfter = 0\<rparr>))))"

definition allowRemediation ::
  "hEnv \<Rightarrow> Cluster \<Rightarrow> int \<Rightarrow> healthCheckTarget list \<Rightarrow> healthCheckTarget list \<Rightarrow> int list \<Rightarrow> (hState, ctrlResult) comp" where
  "allowRemediation E cluster remediationCount healthy unhealthy nextTimes =
     bindE (changeMHC (storeAllowed remediationCount)) (\<lambda>_.
     bindE (markMHC E (\<lambda>now cs. MarkTrue now cs RemediationAllowedCondition)) (\<lambda>_.
     bindE (patchUnhealthyTargets E cluster unhealthy []) (\<lambda>errList.
     bindE (patchHealthyTargets E healthy []) (\<lambda>errList'.
       if length (errList @ errList') > 0 then failE (Aggregate (errList @ errList'))
       else if minDuration nextTimes > 0 then returnE \<lparr>Requeue = False, RequeueAfter = minDuration nextTimes\<rparr>
       else returnE emptyResult))))"

definition startupTimeout :: "MHC \<Rightarrow> int" where
  "startupTimeout m = (case mhsNodeStartupTimeout (mhcSpec m) of None \<Rightarrow> DefaultNodeStartupTimeout | Some d \<Rightarrow> d)"

definition checkHealth ::
  "hEnv \<Rightarrow> Cluster \<Rightarrow> (hState, healthCheckTarget list \<times> healthCheckTarget list \<times> healthCheckTarget list \<times> int list) comp" where
  "checkHealth E cluster =
     bindE (changeMHC (ownByCluster E cluster)) (\<lambda>_.
     bindE (remoteClient E cluster) (\<lambda>remote.
     bindE (getsE hMHC) (\<lambda>m.
     bindE (getTargetsFromMHC E remote m) (\<lambda>targets.
     bindE (changeMHC (storeTargets targets)) (\<lambda>_.
     bindE (getsE (\<lambda>s. healthCheckTargets (hNow E (hTrace s)) cluster (hMHC s) (startupTimeout (hMHC s)) 0 targets)) (\<lambda>(healthy, unhealthy, nextTimes).
     bindE (changeMHC (storeHealthy (wrap32 (int (length healthy))))) (\<lambda>_.
       returnE (targets, healthy, unhealthy, nextTimes))))))))"

definition mhcReconcile :: "hEnv \<Rightarrow> Cluster \<Rightarrow> (hState, ctrlResult) comp" where
  "mhcReconcile E cluster =
     bindE (checkHealth E cluster) (\<lambda>(targets, healthy, unhealthy, nextTimes).
     bindE (getsE hMHC) (\<lambda>m.
     bindE (wrapE ''error checking if remediation is allowed'' (liftE (isAllowedRemediation (hScaled E) m))) (\<lambda>(remediationAllowed, remediationCount).
       if \<not> remediationAllowed then restrictRemediation E targets healthy unhealthy
       else allowRemediation E cluster remediationCount healthy unhealthy nextTimes)))"

definition labelMHC :: "MHC \<Rightarrow> MHC" where
  "labelMHC m = m\<lparr>mhcMeta := (mhcMeta m)\<lparr>mlabels := setKey ClusterNameLabel (mhsClusterName (mhcSpec m)) (mlabels (mhcMeta m))\<rparr>\<rparr>"

text \<open>The deferred patch runs after every outcome; after a panic the panic goes on, and the error to return is still nil.\<close>

definition finishMHC :: "hEnv \<Rightarrow> MHC \<Rightarrow> ctrlResult res \<Rightarrow> (hState, ctrlResult) comp" where
  "finishMHC E original outcome =
     bindE (getsE hMHC) (\<lambda>m.
     bindE (attemptE (hcall E (HPatchMHC original m (case outcome of Inl e \<Rightarrow> isPanic e | Inr _ \<Rightarrow> True)))) (\<lambda>p.
       case (outcome, p) of
         (Inr res, Inr _) \<Rightarrow> returnE res
       | (Inr res, Inl e) \<Rightarrow> failE (Aggregate [e])
       | (Inl e, Inr _) \<Rightarrow> failE e
       | (Inl e, Inl e') \<Rightarrow> if isPanic e then failE e else failE (Aggregate [e, e'])))"

definition mhcReconcileRequest :: "hEnv \<Rightarrow> string \<Rightarrow> string \<Rightarrow> (hState, ctrlResult) comp" where
  "mhcReconcileRequest E namespace name =
     bindE (attemptE (hread E (HReadMHC namespace name) (hReadMHC E))) (\<lambda>r.
       case r of
         Inl e \<Rightarrow> if isNotFound e then returnE emptyResult else failE e
       | Inr m \<Rightarrow>
           bindE (changeMHC (\<lambda>_. m)) (\<lambda>_.
           bindE (wrapE ''failed to get Cluster'' (hread E (HReadCluster (mnamespace (mhcMeta m)) (mhsClusterName (mhcSpec m))) (hReadCluster E))) (\<lambda>cluster.
             if IsPaused cluster (mhcMeta m) then returnE emptyResult
             else
               bindE (hcall E (HHelper (mhcName m))) (\<lambda>_.
               bindE (changeMHC labelMHC) (\<lambda>_.
               bindE (attemptE (mhcReconcile E cluster)) (\<lambda>r1.
                 finishMHC E m (case r1 of
                   Inl e \<Rightarrow> if \<not> isPanic e \<and> hClusterLocked E e then Inr \<lparr>Requeue = False, RequeueAfter = 60 * second\<rparr> else Inl e
                 | Inr res \<Rightarrow> Inr res)))))))"

section \<open>Watches\<close>

definition mhcKey :: "MHC \<Rightarrow> string \<times> string" where
  "mhcKey m = (mnamespace (mhcMeta m), mhcName m)"

definition clusterToMachineHealthCheck :: "hEnv \<Rightarrow> Cluster \<Rightarrow> (hState, (string \<times> string) list) comp" where
  "clusterToMachineHealthCheck E c =
     bindE (attemptE (hread E (HListMHCs (mnamespace (clMeta c)) (mname (clMeta c))) (hMHCs E))) (\<lambda>r.
       case r of Inl _ \<Rightarrow> returnE [] | Inr items \<Rightarrow> returnE (map mhcKey items))"

definition hMatchingLabels :: "hEnv \<Rightarrow> LabelSelector \<Rightarrow> strmap option \<Rightarrow> bool" where
  "hMatchingLabels E matchSelector matchLabels =
     (case hSelects E matchSelector of
        Inl _ \<Rightarrow> False
      | Inr (isEmpty, selects) \<Rightarrow> if isEmpty then False else if \<not> selects matchLabels then False else True)"

definition machineToMachineHealthCheck :: "hEnv \<Rightarrow> Machine \<Rightarrow> (hState, (string \<times> string) list) comp" where
  "machineToMachineHealthCheck E m =
     bindE (attemptE (hread E (HListMHCs (mnamespace (mchMeta m)) (spClusterName (mchSpec m))) (hMHCs E))) (\<lambda>r.
       case r of
         Inl _ \<Rightarrow> returnE []
       | Inr items \<Rightarrow> returnE (map mhcKey (filter (\<lambda>mhc. hMatchingLabels E (mhsSelector (mhcSpec mhc)) (mlabels (mchMeta m))) items)))"

definition getMachineFromNode :: "hEnv \<Rightarrow> string \<Rightarrow> (hState, Machine) comp" where
  "getMachineFromNode E nodeName =
     bindE (wrapE ''failed getting machine list'' (hread E (HListByNode nodeName) (hMachines E))) (\<lambda>machines.
       let items = filter (\<lambda>m. case stNodeRef (mchStatus m) of None \<Rightarrow> False | Some ref \<Rightarrow> refName ref = nodeName) machines in
       case items of [m] \<Rightarrow> returnE m | _ \<Rightarrow> failE (Err ''expecting one machine for node''))"

definition nodeToMachineHealthCheck :: "hEnv \<Rightarrow> Node \<Rightarrow> (hState, (string \<times> string) list) comp" where
  "nodeToMachineHealthCheck E node =
     bindE (attemptE (getMachineFromNode E (mname (nodeMeta node)))) (\<lambda>r.
       case r of Inl _ \<Rightarrow> returnE [] | Inr m \<Rightarrow> machineToMachineHealthCheck E m)"

section \<open>Webhook\<close>

definition mhcDefault :: "MHC \<Rightarrow> MHC" where
  "mhcDefault m =
     (let m1 = labelMHC m; sp = mhcSpec m1 in
      m1\<lparr>mhcSpec := sp
        \<lparr>mhsMaxUnhealthy := (case mhsMaxUnhealthy sp of None \<Rightarrow> Some (StrVal ''100%'') | Some v \<Rightarrow> Some v),
         mhsNodeStartupTimeout := (case mhsNodeStartupTimeout sp of None \<Rightarrow> Some DefaultNodeStartupTimeout | Some d \<Rightarrow> Some d),
         mhsRemediationTemplate := (case mhsRemediationTemplate sp of
             None \<Rightarrow> None
           | Some r \<Rightarrow> Some (if refNamespace r = [] then r\<lparr>refNamespace := mnamespace (mhcMeta m1)\<rparr> else r))\<rparr>\<rparr>)"

text \<open>The fields that are invalid, with the reason; the least timeout is 30 seconds.\<close>

definition validateCommonFields :: "(IntOrString \<Rightarrow> int \<Rightarrow> bool \<Rightarrow> int res) \<Rightarrow> MHC \<Rightarrow> (string \<times> string) list" where
  "validateCommonFields scaled m =
     (case mhsNodeStartupTimeout (mhcSpec m) of
        None \<Rightarrow> []
      | Some d \<Rightarrow> if d \<noteq> 0 \<and> d < 30 * second then [(''nodeStartupTimeout'', ''must be at least 30s'')] else []) @
     (case mhsMaxUnhealthy (mhcSpec m) of
        None \<Rightarrow> []
      | Some v \<Rightarrow> (case scaled v 0 False of Inl _ \<Rightarrow> [(''maxUnhealthy'', ''must be either an int or a percentage'')] | Inr _ \<Rightarrow> [])) @
     (case mhsRemediationTemplate (mhcSpec m) of
        None \<Rightarrow> []
      | Some r \<Rightarrow> if refNamespace r \<noteq> mnamespace (mhcMeta m) then [(''remediationTemplate.namespace'', ''must match metadata.namespace'')] else [])"

definition mhcValidate ::
  "(LabelSelector \<Rightarrow> (bool \<times> (strmap option \<Rightarrow> bool)) res) \<Rightarrow> (IntOrString \<Rightarrow> int \<Rightarrow> bool \<Rightarrow> int res) \<Rightarrow> MHC option \<Rightarrow> MHC \<Rightarrow> (string \<times> string) list" where
  "mhcValidate selects scaled oldMHC newMHC =
     (case selects (mhsSelector (mhcSpec newMHC)) of
        Inl _ \<Rightarrow> [(''selector'', ''invalid'')]
      | Inr (isEmpty, _) \<Rightarrow> if isEmpty then [(''selector'', ''selector must not be empty'')] else []) @
     (case mlookup (lsMatchLabels (mhsSelector (mhcSpec newMHC))) ClusterNameLabel of
        Some clusterName \<Rightarrow> if clusterName \<noteq> mhsClusterName (mhcSpec newMHC)
          then [(''selector'', ''cannot specify a cluster selector other than the one specified by ClusterName'')] else []
      | None \<Rightarrow> []) @
     (case oldMHC of
        Some old \<Rightarrow> if mhsClusterName (mhcSpec old) \<noteq> mhsClusterName (mhcSpec newMHC) then [(''clusterName'', ''field is immutable'')] else []
      | None \<Rightarrow> []) @
     validateCommonFields scaled newMHC"

section \<open>When a target needs remediation\<close>

text \<open>What makes a machine unhealthy at any time, and from which moment on time alone does.\<close>

definition brokenTarget :: "healthCheckTarget \<Rightarrow> bool" where
  "brokenTarget t \<longleftrightarrow> HasRemediateMachine (mchMeta (htMachine t)) \<or> stFailureReason (mchStatus (htMachine t)) \<noteq> None \<or>
     stFailureMessage (mchStatus (htMachine t)) \<noteq> None \<or> htNodeMissing t"

definition evaluatedTarget :: "Cluster \<Rightarrow> healthCheckTarget \<Rightarrow> bool" where
  "evaluatedTarget cluster t \<longleftrightarrow> IsTrue (clConditions (clStatus cluster)) InfrastructureReadyCondition \<and>
     (IsTrue (clConditions (clStatus cluster)) ControlPlaneInitializedCondition \<or> IsControlPlaneMachine (htMachine t))"

definition conditionDeadline :: "Node \<Rightarrow> UnhealthyCondition \<Rightarrow> int option" where
  "conditionDeadline node c =
     (case getNodeCondition node (ucType c) of
        None \<Rightarrow> None
      | Some nc \<Rightarrow> if ncStatus nc = ucStatus c then Some (ncLastTransitionTime nc * second + ucTimeout c) else None)"

definition deadlines :: "Cluster \<Rightarrow> MHC \<Rightarrow> int \<Rightarrow> healthCheckTarget \<Rightarrow> int list" where
  "deadlines cluster mhc timeout t =
     (if \<not> evaluatedTarget cluster t then []
      else case htNode t of
        None \<Rightarrow> if timeout = 0 then [] else [comparisonTime cluster (htMachine t) * second + timeout]
      | Some node \<Rightarrow> List.map_filter (conditionDeadline node) (mhsUnhealthyConditions (mhcSpec mhc)))"

lemma conditionLoop_Inl:
  "(\<exists>c. unhealthyConditionLoop now node cs acc = Inl c) \<longleftrightarrow> (\<exists>d \<in> set (List.map_filter (conditionDeadline node) cs). d < now)"
  by (induction cs arbitrary: acc)
    (auto simp: conditionDeadline_def List.map_filter_simps Let_def split: option.splits)

lemma conditionLoop_Inr:
  "unhealthyConditionLoop now node cs acc = Inr ds \<Longrightarrow>
    ds = acc @ map (\<lambda>d. d - now + second) (List.map_filter (conditionDeadline node) cs)"
  by (induction cs arbitrary: acc)
    (auto simp: conditionDeadline_def List.map_filter_simps Let_def algebra_simps split: option.splits if_splits,
     fastforce)

lemma foldl_min: "foldl (\<lambda>m nc. if nc < m then nc else m) (d :: int) ds = Min (set (d # ds))"
proof (induction ds arbitrary: d)
  case (Cons a ds)
  have "(if a < d then a else d) = min d a" by auto
  with Cons.IH [of "min d a"] show ?case by (cases "ds = []") (simp_all add: min.assoc)
qed simp

lemma minDuration_Min: "minDuration ds = (if ds = [] then 0 else Min (set ds))"
  by (cases ds) (simp_all add: minDuration_def foldl_min del: List.set_simps)

lemma needsRemediation_iff:
  "fst (needsRemediation now cluster mhc timeout t) \<longleftrightarrow> brokenTarget t \<or> (\<exists>d \<in> set (deadlines cluster mhc timeout t). d < now)"
proof (cases "brokenTarget t")
  case True
  then show ?thesis by (auto simp: needsRemediation_def brokenTarget_def Let_def split: option.splits)
next
  case False
  show ?thesis
  proof (cases "\<not> evaluatedTarget cluster t \<or> htNode t = None")
    case True
    with False show ?thesis
      by (auto simp: needsRemediation_def brokenTarget_def deadlines_def evaluatedTarget_def Let_def split: option.splits)
  next
    case ev: False
    then obtain node where "htNode t = Some node" by auto
    with ev False show ?thesis
      using conditionLoop_Inl [of now node "mhsUnhealthyConditions (mhcSpec mhc)" "[]"]
      by (auto simp: needsRemediation_def brokenTarget_def deadlines_def evaluatedTarget_def Let_def split: option.splits sum.splits)
  qed
qed

lemma needsRemediation_next:
  assumes "needsRemediation now cluster mhc timeout t = (False, d, t')"
  shows "t' = t \<and> d = (if deadlines cluster mhc timeout t = [] then 0
    else Min (set (deadlines cluster mhc timeout t)) - now + second)"
proof -
  have nb: "\<not> brokenTarget t" and nd: "\<forall>d \<in> set (deadlines cluster mhc timeout t). \<not> d < now"
    using needsRemediation_iff [of now cluster mhc timeout t] assms by auto
  show ?thesis
  proof (cases "\<not> evaluatedTarget cluster t \<or> htNode t = None")
    case True
    with nb assms show ?thesis
      by (auto simp: needsRemediation_def brokenTarget_def deadlines_def evaluatedTarget_def Let_def split: option.splits if_splits)
  next
    case False
    then obtain node where node: "htNode t = Some node" by auto
    define ds where "ds = List.map_filter (conditionDeadline node) (mhsUnhealthyConditions (mhcSpec mhc))"
    have dl: "deadlines cluster mhc timeout t = ds" using False node by (simp add: deadlines_def ds_def)
    obtain nx where nx: "unhealthyConditionLoop now node (mhsUnhealthyConditions (mhcSpec mhc)) [] = Inr nx"
      using nd conditionLoop_Inl [of now node _ "[]"] unfolding dl ds_def
      by (cases "unhealthyConditionLoop now node (mhsUnhealthyConditions (mhcSpec mhc)) []") (metis, auto)
    have "nx = map (\<lambda>d. d - now + second) ds" using conditionLoop_Inr [OF nx] by (simp add: ds_def)
    moreover have "(False, d, t') = (False, minDuration nx, t)"
      using nb False node nx assms
      by (auto simp: needsRemediation_def brokenTarget_def evaluatedTarget_def Let_def split: option.splits)
    moreover have "ds \<noteq> [] \<Longrightarrow> Min ((\<lambda>d. d - now + second) ` set ds) = Min (set ds) - now + second"
      using mono_Min_commute [of "\<lambda>d. d - now + second" "set ds"] by (simp add: mono_def)
    ultimately show ?thesis by (simp add: dl minDuration_Min)
  qed
qed

text \<open>
  (C15) The next check comes neither late nor needlessly early: if a target that is well now is to be
  checked again after \<open>d\<close>, then, as long as nothing but the clock changes, it stays well until one second
  before that and is found unhealthy from then on; if no check is asked for, it stays well for ever.
\<close>

theorem next_check_exact:
  assumes "needsRemediation now cluster mhc timeout t = (False, d, t')" and "now \<le> later"
  shows "fst (needsRemediation later cluster mhc timeout t) \<longleftrightarrow> 0 < d \<and> now + d - second < later"
proof -
  let ?D = "deadlines cluster mhc timeout t"
  have nb: "\<not> brokenTarget t" and nd: "\<forall>d \<in> set ?D. now \<le> d"
    using needsRemediation_iff [of now cluster mhc timeout t] assms(1) by auto
  have d: "d = (if ?D = [] then 0 else Min (set ?D) - now + second)"
    using needsRemediation_next [OF assms(1)] by simp
  show ?thesis
  proof (cases "?D = []")
    case True
    with d nb show ?thesis by (simp add: needsRemediation_iff)
  next
    case False
    then have "now \<le> Min (set ?D)" using nd by simp
    moreover have "fst (needsRemediation later cluster mhc timeout t) \<longleftrightarrow> Min (set ?D) < later"
      using False nb by (simp add: needsRemediation_iff Min_less_iff)
    moreover have "d = Min (set ?D) - now + second" using d False by simp
    ultimately show ?thesis by auto
  qed
qed

section \<open>What a run calls\<close>

interpretation hcalls: state_relation "allowed hTrace ok" for ok :: "hCall list \<Rightarrow> hCall \<Rightarrow> bool"
  by unfold_locales (auto intro: allowed_trans)

lemma calls_hcall: "(\<And>h. ok h c) \<Longrightarrow> keeps (allowed hTrace ok) (hcall E c)"
  by (auto simp: keeps_def hcall_def allowed_def split: option.splits)

lemma calls_hread: "(\<And>h. ok h c) \<Longrightarrow> keeps (allowed hTrace ok) (hread E c f)"
  unfolding hread_def by (intro hcalls.keeps_rules calls_hcall)

lemma calls_changes: "keeps (allowed hTrace ok) (changeMHC f)" "keeps (allowed hTrace ok) (markMHC E g)"
  by (simp_all add: keeps_def changeMHC_def markMHC_def allowed_def)

lemmas hc_rules = hcalls.keeps_rules calls_hcall calls_hread calls_changes

text \<open>Calls that read, watch or prepare.\<close>

fun quietCall :: "hCall \<Rightarrow> bool" where
  "quietCall (HPatchMachine _ _) = False"
| "quietCall (HCreate _) = False"
| "quietCall (HDelete _) = False"
| "quietCall (HPatchMHC _ _ _) = False"
| "quietCall _ = True"

lemma quiet_targetLoop: "keeps (allowed hTrace (\<lambda>_. quietCall)) (targetLoop E clusterClient ms)"
proof (induction ms)
  case (Cons m ms)
  show ?case unfolding targetLoop.simps targetFor_def getNodeFromMachine_def Let_def by (intro hc_rules Cons.IH; simp)
qed (auto simp: keeps_def)

lemma quiet_checkHealth: "keeps (allowed hTrace (\<lambda>_. quietCall)) (checkHealth E cluster)"
  unfolding checkHealth_def remoteClient_def watchClusterNodes_def getTargetsFromMHC_def getMachinesFromMHC_def
  by (intro hc_rules quiet_targetLoop; simp)

text \<open>From the moment the decision is made, the calls are of a given kind, and what it was based on stays as it is.\<close>

definition acts :: "(hCall \<Rightarrow> bool) \<Rightarrow> hState \<Rightarrow> hState \<Rightarrow> bool" where
  "acts ok s s' \<longleftrightarrow> allowed hTrace (\<lambda>_. ok) s s' \<and> mhcSpec (hMHC s') = mhcSpec (hMHC s) \<and>
     mhtExpectedMachines (mhcStatus (hMHC s')) = mhtExpectedMachines (mhcStatus (hMHC s)) \<and>
     mhtCurrentHealthy (mhcStatus (hMHC s')) = mhtCurrentHealthy (mhcStatus (hMHC s)) \<and>
     mhtRemediationsAllowed (mhcStatus (hMHC s')) = mhtRemediationsAllowed (mhcStatus (hMHC s))"

interpretation hacts: state_relation "acts ok" for ok
  by unfold_locales (auto simp: acts_def intro: allowed_trans)

lemma acts_hcall: "ok c \<Longrightarrow> keeps (acts ok) (hcall E c)"
  by (auto simp: keeps_def hcall_def acts_def allowed_def split: option.splits)

lemma acts_hread: "ok c \<Longrightarrow> keeps (acts ok) (hread E c f)"
  unfolding hread_def by (intro hacts.keeps_rules acts_hcall)

lemma acts_markMHC: "keeps (acts ok) (markMHC E g)"
  by (simp add: keeps_def markMHC_def acts_def setMhcConditions_def allowed_def)

lemmas acts_rules = hacts.keeps_rules acts_hcall acts_hread acts_markMHC

text \<open>The calls made for a target, by what has been found.\<close>

fun requestFor :: "healthCheckTarget \<Rightarrow> hCall \<Rightarrow> bool" where
  "requestFor t (HCreate x) = (mname (xMeta x) = mchName (htMachine t))"
| "requestFor t _ = False"

fun patchFor :: "healthCheckTarget \<Rightarrow> hCall \<Rightarrow> bool" where
  "patchFor t (HPatchMachine old new) = (old = htOriginal t \<and> new = htMachine t)"
| "patchFor t _ = False"

fun askFor :: "healthCheckTarget \<Rightarrow> hCall \<Rightarrow> bool" where
  "askFor t (HPatchMachine old new) = (old = htOriginal t \<and> (\<exists>now. new = askOwner now (htMachine t)))"
| "askFor t _ = False"

fun isDelete :: "hCall \<Rightarrow> bool" where
  "isDelete (HDelete _) = True"
| "isDelete _ = False"

definition unhealthyCall :: "Cluster \<Rightarrow> healthCheckTarget list \<Rightarrow> hCall \<Rightarrow> bool" where
  "unhealthyCall cluster ts c \<longleftrightarrow> quietCall c \<or>
     (\<exists>t \<in> set ts. patchFor t c \<or> \<not> IsPaused cluster (mchMeta (htMachine t)) \<and> (askFor t c \<or> requestFor t c))"

definition healthyCall :: "healthCheckTarget list \<Rightarrow> hCall \<Rightarrow> bool" where
  "healthyCall ts c \<longleftrightarrow> quietCall c \<or> isDelete c \<or> (\<exists>t \<in> set ts. patchFor t c)"

lemma acts_mono: "(\<And>c. ok c \<Longrightarrow> ok' c) \<Longrightarrow> keeps (acts ok) m \<Longrightarrow> keeps (acts ok') m"
  unfolding keeps_def acts_def by (meson allowed_mono)

lemma acts_patchTarget: "ok (HPatchMachine (htOriginal t) (htMachine t)) \<Longrightarrow> keeps (acts ok) (patchTarget E msg t errList)"
  unfolding patchTarget_def by (intro acts_rules)

lemma acts_patchAll: "keeps (acts (\<lambda>c. \<exists>t \<in> set ts. patchFor t c)) (patchAll E ts errList)"
proof (induction ts arbitrary: errList)
  case (Cons t ts)
  have "keeps (acts (\<lambda>c. \<exists>t \<in> set (t # ts). patchFor t c)) (patchAll E ts es)" for es
    by (rule acts_mono [OF _ Cons.IH]) auto
  then show ?case by (auto intro!: acts_rules acts_patchTarget)
qed (simp add: hacts.keeps_rules)

lemma acts_createRequest:
  "(\<And>c. quietCall c \<Longrightarrow> ok c) \<Longrightarrow> (\<And>x. mname (xMeta x) = mchName m \<Longrightarrow> ok (HCreate x)) \<Longrightarrow>
    keeps (acts ok) (createRequest E template condition m)"
  unfolding createRequest_def hGetExternal_def by (intro acts_rules; simp)

lemma acts_getRequest:
  "(\<And>c. quietCall c \<Longrightarrow> ok c) \<Longrightarrow> keeps (acts ok) (getExternalRemediationRequest E m template n)"
  unfolding getExternalRemediationRequest_def hGetExternal_def by (intro acts_rules) simp

lemma acts_patchUnhealthyTargets: "keeps (acts (unhealthyCall cluster ts)) (patchUnhealthyTargets E cluster ts errList)"
proof (induction ts arbitrary: errList)
  case (Cons t ts)
  let ?ok = "unhealthyCall cluster (t # ts)"
  have rest: "keeps (acts ?ok) (patchUnhealthyTargets E cluster ts es)" for es
    by (rule acts_mono [OF _ Cons.IH]) (auto simp: unhealthyCall_def)
  have q: "quietCall c \<Longrightarrow> ?ok c" for c by (simp add: unhealthyCall_def)
  have p: "?ok (HPatchMachine (htOriginal t) (htMachine t))" by (simp add: unhealthyCall_def)
  have a: "\<not> IsPaused cluster (mchMeta (htMachine t)) \<Longrightarrow> ?ok (HPatchMachine (htOriginal t) (askOwner now (htMachine t)))" for now
    by (auto simp: unhealthyCall_def)
  have c: "\<not> IsPaused cluster (mchMeta (htMachine t)) \<Longrightarrow> mname (xMeta x) = mchName (htMachine t) \<Longrightarrow> ?ok (HCreate x)" for x
    by (auto simp: unhealthyCall_def)
  show ?case
    unfolding patchUnhealthyTargets.simps externalRemediationRequestExists_def Let_def
    by (intro acts_rules rest acts_patchTarget acts_getRequest acts_createRequest; simp add: q p a c)
qed (simp add: hacts.keeps_rules)

lemma acts_patchHealthyTargets: "keeps (acts (healthyCall ts)) (patchHealthyTargets E ts errList)"
proof (induction ts arbitrary: errList)
  case (Cons t ts)
  let ?ok = "healthyCall (t # ts)"
  have rest: "keeps (acts ?ok) (patchHealthyTargets E ts es)" for es
    by (rule acts_mono [OF _ Cons.IH]) (auto simp: healthyCall_def)
  have q: "quietCall c \<Longrightarrow> ?ok c" "isDelete c \<Longrightarrow> ?ok c" for c by (simp_all add: healthyCall_def)
  have p: "?ok (HPatchMachine (htOriginal t) (htMachine t))" by (simp add: healthyCall_def)
  show ?case
    unfolding patchHealthyTargets.simps Let_def by (intro acts_rules rest acts_patchTarget acts_getRequest; simp add: q p)
qed (simp add: hacts.keeps_rules)

section \<open>What has been found of a target\<close>

text \<open>
  Between the machine as it was read and as it is patched only the conditions differ, and of them, before
  the owner is asked, only the one that holds the verdict.
\<close>

definition checkedTarget :: "bool \<Rightarrow> healthCheckTarget \<Rightarrow> bool" where
  "checkedTarget healthy t \<longleftrightarrow> mchMeta (htMachine t) = mchMeta (htOriginal t) \<and> mchSpec (htMachine t) = mchSpec (htOriginal t) \<and>
     wfConditions (mchConditions (htMachine t)) \<and>
     (\<forall>u. u \<noteq> MachineHealthCheckSucceededCondition \<longrightarrow> Get (mchConditions (htMachine t)) u = Get (mchConditions (htOriginal t)) u) \<and>
     (if healthy then IsTrue (mchConditions (htMachine t)) MachineHealthCheckSucceededCondition
      else IsFalse (mchConditions (htMachine t)) MachineHealthCheckSucceededCondition)"

definition freshTarget :: "healthCheckTarget \<Rightarrow> bool" where
  "freshTarget t \<longleftrightarrow> htMachine t = htOriginal t \<and> wfConditions (mchConditions (htOriginal t))"

lemma setMachineConditions_simps [simp]:
  "mchMeta (setMachineConditions cs m) = mchMeta m" "mchSpec (setMachineConditions cs m) = mchSpec m"
  "mchConditions (setMachineConditions cs m) = cs"
  by (simp_all add: setMachineConditions_def)

lemma Get_MarkFalse:
  "wfConditions cs \<Longrightarrow> u \<noteq> ty \<Longrightarrow> Get (MarkFalse now cs ty r sev fm args) u = Get cs u"
  "wfConditions cs \<Longrightarrow> IsFalse (MarkFalse now cs ty r sev fm args) ty"
  "wfConditions cs \<Longrightarrow> GetReason (MarkFalse now cs ty r sev fm args) ty = r"
  "wfConditions cs \<Longrightarrow> wfConditions (MarkFalse now cs ty r sev fm args)"
  using getter_object.mark_frame [of "\<lparr>gkind = [], gname = [], gconditions = cs\<rparr>"]
    getter_object.mark_false [of "\<lparr>gkind = [], gname = [], gconditions = cs\<rparr>"]
    getter_object.mark_wf [of "\<lparr>gkind = [], gname = [], gconditions = cs\<rparr>"] by simp_all

lemma Get_MarkTrue:
  "wfConditions cs \<Longrightarrow> u \<noteq> ty \<Longrightarrow> Get (MarkTrue now cs ty) u = Get cs u"
  "wfConditions cs \<Longrightarrow> IsTrue (MarkTrue now cs ty) ty"
  "wfConditions cs \<Longrightarrow> wfConditions (MarkTrue now cs ty)"
  using getter_object.mark_frame [of "\<lparr>gkind = [], gname = [], gconditions = cs\<rparr>"]
    getter_object.mark_true [of "\<lparr>gkind = [], gname = [], gconditions = cs\<rparr>"]
    getter_object.mark_wf [of "\<lparr>gkind = [], gname = [], gconditions = cs\<rparr>"] by simp_all

lemma checked_mark: "freshTarget t \<Longrightarrow> checkedTarget False (markTarget now r fm args t)"
  by (simp add: checkedTarget_def freshTarget_def markTarget_def Get_MarkFalse)

lemma needsRemediation_marks:
  assumes "needsRemediation now cluster mhc timeout t = (True, d, t')"
  shows "\<exists>now r fm args. t' = markTarget now r fm args t"
  using assms
  by (auto simp: needsRemediation_def Let_def split: option.splits if_splits sum.splits)

lemma healthCheckTargets_checked:
  assumes "healthCheckTargets clock cluster mhc timeout i ts = (healthy, unhealthy, nextTimes)" and "\<forall>t \<in> set ts. freshTarget t"
  shows "(\<forall>t \<in> set healthy. checkedTarget True t) \<and> (\<forall>t \<in> set unhealthy. checkedTarget False t) \<and>
    length healthy + length unhealthy + length nextTimes \<le> length ts"
  using assms
proof (induction ts arbitrary: i healthy unhealthy nextTimes)
  case (Cons t ts)
  obtain h u x where rest: "healthCheckTargets clock cluster mhc timeout (Suc i) ts = (h, u, x)" by (metis prod_cases3)
  obtain b d t' where n: "needsRemediation (clock i) cluster mhc timeout t = (b, d, t')" by (metis prod_cases3)
  have IH: "(\<forall>t \<in> set h. checkedTarget True t) \<and> (\<forall>t \<in> set u. checkedTarget False t) \<and> length h + length u + length x \<le> length ts"
    using Cons.IH [OF rest] Cons.prems(2) by simp
  have f: "freshTarget t" using Cons.prems(2) by simp
  show ?case
  proof (cases b)
    case True
    with n needsRemediation_marks [of "clock i" cluster mhc timeout t d t'] checked_mark [OF f]
    have "checkedTarget False t'" by auto
    with IH True rest n Cons.prems(1) show ?thesis by auto
  next
    case False
    with n needsRemediation_next [of "clock i" cluster mhc timeout t d t'] have "t' = t" by simp
    moreover have "checkedTarget True (t\<lparr>htMachine := setMachineConditions
        (MarkTrue now (mchConditions (htMachine t)) MachineHealthCheckSucceededCondition) (htMachine t)\<rparr>)" for now
      using f by (simp add: checkedTarget_def freshTarget_def Get_MarkTrue)
    ultimately show ?thesis using IH False rest n Cons.prems(1) by (auto split: if_splits)
  qed
qed simp

lemma targetLoop_fresh:
  assumes "targetLoop E clusterClient ms s = (Inr ts, s')" and "\<forall>m \<in> set ms. wfConditions (mchConditions m)"
  shows "(\<forall>t \<in> set ts. freshTarget t \<and> htOriginal t \<in> set ms \<and> \<not> shouldSkipRemediation (htOriginal t))"
  using assms
proof (induction ms arbitrary: s ts)
  case (Cons m ms)
  show ?case
  proof (cases "shouldSkipRemediation m")
    case True
    with Cons.IH [of s ts] Cons.prems show ?thesis by auto
  next
    case False
    with Cons.prems(1) obtain t s1 ts' where t: "targetFor E clusterClient m s = (Inr t, s1)"
      and ts': "targetLoop E clusterClient ms s1 = (Inr ts', s')" and ts: "ts = t # ts'"
      by (auto elim!: bindE_Inr)
    have "htMachine t = m \<and> htOriginal t = m"
      using t by (auto simp: targetFor_def Let_def elim!: bindE_Inr split: if_splits sum.splits prod.splits)
    with Cons.IH [OF ts'] Cons.prems(2) ts False show ?thesis by (auto simp: freshTarget_def)
  qed
qed simp

text \<open>The machines the API server lists have at most one condition of each type.\<close>

definition wellFormedMachines :: "hEnv \<Rightarrow> bool" where
  "wellFormedMachines E \<longleftrightarrow> (\<forall>cs. \<forall>m \<in> set (hMachines E cs). wfConditions (mchConditions m))"

lemma hread_Inr: "hread E c f s = (Inr x, s') \<Longrightarrow> x = f (hTrace s @ [c])"
  by (auto simp: hread_def hcall_def bindE_def split: option.splits)

lemma checkHealth_checked:
  assumes "checkHealth E cluster s = (Inr (targets, healthy, unhealthy, nextTimes), s')" and "wellFormedMachines E"
  shows "(\<forall>t \<in> set healthy. checkedTarget True t) \<and> (\<forall>t \<in> set unhealthy. checkedTarget False t) \<and>
    length healthy + length unhealthy + length nextTimes \<le> length targets \<and>
    mhtExpectedMachines (mhcStatus (hMHC s')) = wrap32 (int (length targets)) \<and>
    mhtCurrentHealthy (mhcStatus (hMHC s')) = wrap32 (int (length healthy))"
proof -
  obtain remote m s1 s2 where tg: "getTargetsFromMHC E remote m s1 = (Inr targets, s2)"
    and hc: "healthCheckTargets (hNow E (hTrace s2)) cluster (storeTargets targets (hMHC s2))
        (startupTimeout (storeTargets targets (hMHC s2))) 0 targets = (healthy, unhealthy, nextTimes)"
    and st: "hMHC s' = storeHealthy (wrap32 (int (length healthy))) (storeTargets targets (hMHC s2))"
    using assms(1) by (auto simp: checkHealth_def changeMHC_def elim!: bindE_Inr split: prod.splits)
  have "\<forall>t \<in> set targets. freshTarget t"
  proof -
    obtain machines s3 where "getMachinesFromMHC E m s1 = (Inr machines, s3)"
      and l: "(if length machines = 0 then returnE [] else targetLoop E remote machines) s3 = (Inr targets, s2)"
      using tg by (auto simp: getTargetsFromMHC_def wrapE_Inr elim!: bindE_Inr)
    then have "\<exists>cs. machines = hMachines E cs"
      by (auto simp: getMachinesFromMHC_def Let_def wrapE_Inr elim!: bindE_Inr) (metis hread_Inr)
    with assms(2) have "\<forall>m \<in> set machines. wfConditions (mchConditions m)" by (auto simp: wellFormedMachines_def)
    with l targetLoop_fresh show ?thesis by (fastforce split: if_splits)
  qed
  with healthCheckTargets_checked [OF hc] st show ?thesis by (simp add: storeHealthy_def storeTargets_def)
qed

section \<open>The calls of a reconciliation\<close>

lemma allowed_calls: "allowed hTrace (\<lambda>_. P) s s' \<Longrightarrow> hTrace s' = hTrace s @ cs \<Longrightarrow> c \<in> set cs \<Longrightarrow> P c"
  by (auto simp: allowed_def okFrom_set)

lemma isAllowedRemediation_cong:
  assumes "mhcSpec m' = mhcSpec m" and "mhtExpectedMachines (mhcStatus m') = mhtExpectedMachines (mhcStatus m)"
    and "mhtCurrentHealthy (mhcStatus m') = mhtCurrentHealthy (mhcStatus m)"
  shows "isAllowedRemediation scaled m' = isAllowedRemediation scaled m"
proof -
  have "unhealthyMachineCount m' = unhealthyMachineCount m" "getMaxUnhealthy scaled m' = getMaxUnhealthy scaled m"
    using assms by (simp_all add: unhealthyMachineCount_def getMaxUnhealthy_def cong: option.case_cong)
  with assms(1) show ?thesis by (simp add: isAllowedRemediation_def cong: option.case_cong)
qed

definition decided :: "int \<Rightarrow> hState \<Rightarrow> hState" where
  "decided n s = s\<lparr>hMHC := storeAllowed n (hMHC s)\<rparr>"

lemma allowRemediation_run:
  assumes "allowRemediation E cluster n healthy unhealthy nextTimes s = (r, s')"
  shows "acts (\<lambda>c. healthyCall healthy c \<or> unhealthyCall cluster unhealthy c) (decided n s) s'"
proof -
  let ?ok = "\<lambda>c. healthyCall healthy c \<or> unhealthyCall cluster unhealthy c"
  have u: "keeps (acts ?ok) (patchUnhealthyTargets E cluster unhealthy errs)" for errs
    by (rule acts_mono [OF _ acts_patchUnhealthyTargets]) simp
  have h: "keeps (acts ?ok) (patchHealthyTargets E healthy errs)" for errs
    by (rule acts_mono [OF _ acts_patchHealthyTargets]) simp
  have "keeps (acts ?ok) (bindE (markMHC E (\<lambda>now cs. MarkTrue now cs RemediationAllowedCondition)) (\<lambda>_.
     bindE (patchUnhealthyTargets E cluster unhealthy []) (\<lambda>errList.
     bindE (patchHealthyTargets E healthy []) (\<lambda>errList'.
       if length (errList @ errList') > 0 then failE (Aggregate (errList @ errList'))
       else if minDuration nextTimes > 0 then returnE \<lparr>Requeue = False, RequeueAfter = minDuration nextTimes\<rparr>
       else returnE emptyResult))))"
    by (intro acts_rules u h)
  from keepsD [OF this] assms show ?thesis by (simp add: allowRemediation_def changeMHC_def decided_def)
qed

lemma restrictRemediation_run:
  assumes "restrictRemediation E targets healthy unhealthy s = (r, s')"
  shows "acts (\<lambda>c. \<exists>t \<in> set (healthy @ unhealthy). patchFor t c) (decided 0 s) s'"
proof -
  have "keeps (acts (\<lambda>c. \<exists>t \<in> set (healthy @ unhealthy). patchFor t c))
    (bindE (markMHC E g) (\<lambda>_. bindE (patchAll E (healthy @ unhealthy) []) (\<lambda>errList.
       if length errList > 0 then failE (Aggregate errList) else returnE \<lparr>Requeue = True, RequeueAfter = 0\<rparr>)))" for g
    by (intro acts_rules acts_patchAll)
  from keepsD [OF this] assms show ?thesis by (simp add: restrictRemediation_def changeMHC_def decided_def)
qed

text \<open>Every call that changes something is made for a target, after the decision on what to do.\<close>

lemma mhcReconcile_calls:
  assumes run: "mhcReconcile E cluster s = (r, s')" and tr: "hTrace s' = hTrace s @ cs" and c: "c \<in> set cs" "\<not> quietCall c"
  obtains targets healthy unhealthy nextTimes s1 where
    "checkHealth E cluster s = (Inr (targets, healthy, unhealthy, nextTimes), s1)"
    and "(\<exists>t \<in> set (healthy @ unhealthy). patchFor t c) \<or>
      (\<exists>n. isAllowedRemediation (hScaled E) (hMHC s') = Inr (True, n) \<and> mhtRemediationsAllowed (mhcStatus (hMHC s')) = n \<and>
        (healthyCall healthy c \<or> unhealthyCall cluster unhealthy c))"
proof (cases rule: bindE_cases [OF run [unfolded mhcReconcile_def]])
  case (1 e)
  with keepsD [OF quiet_checkHealth] allowed_calls [OF _ tr c(1)] c(2) show ?thesis by blast
next
  case (2 x s1)
  obtain targets healthy unhealthy nextTimes where x: "x = (targets, healthy, unhealthy, nextTimes)" by (metis prod_cases4)
  have q: "allowed hTrace (\<lambda>_. quietCall) s s1" using keepsD [OF quiet_checkHealth 2(1)] .
  then obtain cs1 where cs1: "hTrace s1 = hTrace s @ cs1" by (auto simp: allowed_def)
  have later: "P c" if "allowed hTrace (\<lambda>_. P) (s1\<lparr>hMHC := m\<rparr>) s'" for P m
  proof -
    from that obtain cs2 where cs2: "hTrace s' = hTrace s1 @ cs2" by (auto simp: allowed_def)
    with cs1 tr have "cs = cs1 @ cs2" by simp
    with c allowed_calls [OF q cs1] have "c \<in> set cs2" by auto
    with allowed_calls [OF that, of cs2 c] cs2 show ?thesis by simp
  qed
  show ?thesis
  proof (cases "isAllowedRemediation (hScaled E) (hMHC s1)")
    case (Inl e)
    with 2(2) x have "s' = s1" by (simp add: wrapE_def bindE_def)
    with q allowed_calls [OF _ tr c(1)] c(2) show ?thesis by blast
  next
    case (Inr bn)
    obtain b n where bn: "bn = (b, n)" by fastforce
    have rest: "(if \<not> b then restrictRemediation E targets healthy unhealthy
        else allowRemediation E cluster n healthy unhealthy nextTimes) s1 = (r, s')"
      using 2(2) x Inr bn by (simp add: wrapE_def bindE_def)
    show ?thesis
    proof (cases b)
      case False
      with rest restrictRemediation_run have "acts (\<lambda>c. \<exists>t \<in> set (healthy @ unhealthy). patchFor t c) (decided 0 s1) s'" by simp
      with later have "\<exists>t \<in> set (healthy @ unhealthy). patchFor t c" unfolding acts_def decided_def by blast
      with that 2(1) x show ?thesis by blast
    next
      case True
      with rest have a: "acts (\<lambda>c. healthyCall healthy c \<or> unhealthyCall cluster unhealthy c) (decided n s1) s'"
        by (simp add: allowRemediation_run)
      with later have "healthyCall healthy c \<or> unhealthyCall cluster unhealthy c" unfolding acts_def decided_def by blast
      moreover have "isAllowedRemediation (hScaled E) (hMHC s') = isAllowedRemediation (hScaled E) (hMHC s1)"
        using a by (intro isAllowedRemediation_cong) (simp_all add: acts_def decided_def storeAllowed_def)
      moreover have "mhtRemediationsAllowed (mhcStatus (hMHC s')) = n" using a by (simp add: acts_def decided_def storeAllowed_def)
      ultimately show ?thesis using 2(1) x Inr bn True by (intro that [of targets healthy unhealthy nextTimes s1]) simp_all
    qed
  qed
qed

section \<open>Asking the owner\<close>

abbreviation "ownerCondition m \<equiv> Get (mchConditions m) MachineOwnerRemediatedCondition"

lemma askOwner_frame:
  assumes "wfConditions (mchConditions m)"
  shows "mchMeta (askOwner now m) = mchMeta m \<and> mchSpec (askOwner now m) = mchSpec m \<and>
    (\<forall>u. u \<noteq> MachineOwnerRemediatedCondition \<longrightarrow> Get (mchConditions (askOwner now m)) u = Get (mchConditions m) u)"
  using assms by (simp add: askOwner_def Get_MarkFalse)

lemma askOwner_asks:
  assumes "wfConditions (mchConditions m)" and "ownerCondition (askOwner now m) \<noteq> ownerCondition m"
  shows "(\<not> Has (mchConditions m) MachineOwnerRemediatedCondition \<or> IsTrue (mchConditions m) MachineOwnerRemediatedCondition) \<and>
    IsFalse (mchConditions (askOwner now m)) MachineOwnerRemediatedCondition \<and>
    GetReason (mchConditions (askOwner now m)) MachineOwnerRemediatedCondition = WaitingForRemediationReason"
  using assms by (auto simp: askOwner_def Get_MarkFalse split: if_splits)

lemma IsTrue_cong: "Get cs t = Get cs' t \<Longrightarrow> IsTrue cs t = IsTrue cs' t \<and> IsFalse cs t = IsFalse cs' t \<and> Has cs t = Has cs' t"
  by (simp add: IsTrue_def IsFalse_def Has_def)

text \<open>What a patch of a machine may do, given the cluster; a machine that is asked for is unhealthy and its owner is idle.\<close>

definition askedOf :: "Cluster \<Rightarrow> Machine \<Rightarrow> Machine \<Rightarrow> bool" where
  "askedOf cluster old new \<longleftrightarrow>
     (\<not> Has (mchConditions old) MachineOwnerRemediatedCondition \<or> IsTrue (mchConditions old) MachineOwnerRemediatedCondition) \<and>
     \<not> IsPaused cluster (mchMeta old) \<and>
     IsFalse (mchConditions new) MachineHealthCheckSucceededCondition \<and>
     IsFalse (mchConditions new) MachineOwnerRemediatedCondition \<and>
     GetReason (mchConditions new) MachineOwnerRemediatedCondition = WaitingForRemediationReason"

definition patchFrame :: "Machine \<Rightarrow> Machine \<Rightarrow> bool" where
  "patchFrame old new \<longleftrightarrow> mchMeta new = mchMeta old \<and> mchSpec new = mchSpec old \<and>
     (\<forall>u. u \<noteq> MachineHealthCheckSucceededCondition \<longrightarrow> u \<noteq> MachineOwnerRemediatedCondition \<longrightarrow>
        Get (mchConditions new) u = Get (mchConditions old) u)"

lemma patchFor_frame:
  assumes "patchFor t (HPatchMachine old new)" and "checkedTarget b t"
  shows "patchFrame old new \<and> ownerCondition new = ownerCondition old"
  using assms by (simp add: checkedTarget_def patchFrame_def)

lemma askFor_frame:
  assumes "askFor t (HPatchMachine old new)" and t: "checkedTarget False t" and "\<not> IsPaused cluster (mchMeta (htMachine t))"
  shows "patchFrame old new \<and> (ownerCondition new \<noteq> ownerCondition old \<longrightarrow> askedOf cluster old new)"
proof -
  obtain now where new: "new = askOwner now (htMachine t)" and old: "old = htOriginal t" using assms(1) by auto
  have wf: "wfConditions (mchConditions (htMachine t))" using t by (simp add: checkedTarget_def)
  have same: "ownerCondition (htMachine t) = ownerCondition old" using t old by (simp add: checkedTarget_def)
  have "IsFalse (mchConditions new) MachineHealthCheckSucceededCondition"
    using t new askOwner_frame [OF wf] IsTrue_cong [of "mchConditions new"] by (simp add: checkedTarget_def)
  with askOwner_asks [OF wf] same IsTrue_cong [OF same] assms(3) new old t have "ownerCondition new \<noteq> ownerCondition old \<longrightarrow> askedOf cluster old new"
    by (simp add: askedOf_def checkedTarget_def)
  with askOwner_frame [OF wf, of now] t new old show ?thesis by (simp add: patchFrame_def checkedTarget_def)
qed

lemma mhcReconcile_patches:
  assumes run: "mhcReconcile E cluster s = (r, s')" and tr: "hTrace s' = hTrace s @ cs"
    and c: "HPatchMachine old new \<in> set cs" and wf: "wellFormedMachines E"
  shows "patchFrame old new \<and> (ownerCondition new = ownerCondition old \<or> askedOf cluster old new \<and>
    (\<exists>n. isAllowedRemediation (hScaled E) (hMHC s') = Inr (True, n) \<and> mhtRemediationsAllowed (mhcStatus (hMHC s')) = n))"
proof -
  have nq: "\<not> quietCall (HPatchMachine old new)" by simp
  from mhcReconcile_calls [OF run tr c nq] obtain targets healthy unhealthy nextTimes s1 where
    ch: "checkHealth E cluster s = (Inr (targets, healthy, unhealthy, nextTimes), s1)"
    and calls: "(\<exists>t \<in> set (healthy @ unhealthy). patchFor t (HPatchMachine old new)) \<or>
      (\<exists>n. isAllowedRemediation (hScaled E) (hMHC s') = Inr (True, n) \<and> mhtRemediationsAllowed (mhcStatus (hMHC s')) = n \<and>
        (healthyCall healthy (HPatchMachine old new) \<or> unhealthyCall cluster unhealthy (HPatchMachine old new)))" by metis
  have checked: "\<forall>t \<in> set healthy. checkedTarget True t" "\<forall>t \<in> set unhealthy. checkedTarget False t"
    using checkHealth_checked [OF ch wf] by simp_all
  show ?thesis
  proof (cases "\<exists>t \<in> set (healthy @ unhealthy). patchFor t (HPatchMachine old new)")
    case True
    then show ?thesis using checked patchFor_frame by (metis Un_iff set_append)
  next
    case False
    with calls obtain n t where "isAllowedRemediation (hScaled E) (hMHC s') = Inr (True, n)"
      "mhtRemediationsAllowed (mhcStatus (hMHC s')) = n" "t \<in> set unhealthy" "askFor t (HPatchMachine old new)"
      "\<not> IsPaused cluster (mchMeta (htMachine t))"
      by (auto simp: healthyCall_def unhealthyCall_def)
    with checked askFor_frame show ?thesis by blast
  qed
qed

section \<open>Panics\<close>

text \<open>Up to the decision the specification stays as it was read.\<close>

abbreviation "sameSpec s s' \<equiv> mhcSpec (hMHC s') = mhcSpec (hMHC s)"

interpretation hspec: state_relation sameSpec
  by unfold_locales simp_all

lemma spec_hcall: "keeps sameSpec (hcall E c)"
  by (auto simp: keeps_def hcall_def split: option.splits)

lemma spec_hread: "keeps sameSpec (hread E c f)"
  unfolding hread_def by (intro hspec.keeps_rules spec_hcall)

lemma spec_changes:
  "keeps sameSpec (changeMHC (ownByCluster E cluster))" "keeps sameSpec (changeMHC (storeTargets ts))" "keeps sameSpec (changeMHC (storeHealthy n))"
  by (simp_all add: keeps_def changeMHC_def ownByCluster_def storeTargets_def storeHealthy_def)

lemmas spec_rules = hspec.keeps_rules spec_hcall spec_hread spec_changes

lemma spec_targetLoop: "keeps sameSpec (targetLoop E clusterClient ms)"
proof (induction ms)
  case (Cons m ms)
  show ?case unfolding targetLoop.simps targetFor_def getNodeFromMachine_def Let_def by (intro spec_rules Cons.IH)
qed (auto simp: keeps_def)

lemma spec_checkHealth: "keeps sameSpec (checkHealth E cluster)"
  unfolding checkHealth_def remoteClient_def watchClusterNodes_def getTargetsFromMHC_def getMachinesFromMHC_def Let_def
  by (intro spec_rules spec_targetLoop)

definition calm :: "('s, 'a) comp \<Rightarrow> bool" where
  "calm m \<longleftrightarrow> (\<forall>s e s'. m s = (Inl e, s') \<longrightarrow> \<not> isPanic e)"

lemma calm_pure: "calm (returnE x)" "calm (getsE f)" "calm (modifyE h)" "\<not> isPanic e \<Longrightarrow> calm (failE e)" "calm (attemptE m)"
  by (simp_all add: calm_def attemptE_def split: prod.splits)

lemma calm_liftE: "(\<And>e. r = Inl e \<Longrightarrow> \<not> isPanic e) \<Longrightarrow> calm (liftE r)"
  by (simp add: calm_def)

lemma calm_bindE: "calm m \<Longrightarrow> (\<And>x. calm (f x)) \<Longrightarrow> calm (bindE m f)"
  unfolding calm_def by (metis bindE_cases sum.inject(1))

lemma calm_attempt:
  "calm m \<Longrightarrow> (\<And>e. \<not> isPanic e \<Longrightarrow> calm (f (Inl e))) \<Longrightarrow> (\<And>x. calm (f (Inr x))) \<Longrightarrow> calm (bindE (attemptE m) f)"
  unfolding calm_def by (auto split: prod.splits) (metis obj_sumE)

lemma calm_wrapE: "calm m \<Longrightarrow> calm (wrapE w m)"
  by (fastforce simp: calm_def wrapE_def split: prod.splits sum.splits)

lemma calm_if: "(b \<Longrightarrow> calm m) \<Longrightarrow> (\<not> b \<Longrightarrow> calm m') \<Longrightarrow> calm (if b then m else m')"
  by simp

lemma calm_option: "(x = None \<Longrightarrow> calm m) \<Longrightarrow> (\<And>v. x = Some v \<Longrightarrow> calm (f v)) \<Longrightarrow> calm (case x of None \<Rightarrow> m | Some v \<Rightarrow> f v)"
  by (cases x) simp_all

lemma calm_sum: "(\<And>e. x = Inl e \<Longrightarrow> calm (g e)) \<Longrightarrow> (\<And>v. x = Inr v \<Longrightarrow> calm (f v)) \<Longrightarrow> calm (case x of Inl e \<Rightarrow> g e | Inr v \<Rightarrow> f v)"
  by (cases x) simp_all

lemma calm_prod: "(\<And>a b. x = (a, b) \<Longrightarrow> calm (f a b)) \<Longrightarrow> calm (case x of (a, b) \<Rightarrow> f a b)"
  by (cases x) simp

lemma calm_changes: "calm (changeMHC f)" "calm (markMHC E g)"
  by (simp_all add: calm_def changeMHC_def markMHC_def)

text \<open>The server and the libraries answer with errors, they do not panic.\<close>

definition answers :: "hEnv \<Rightarrow> bool" where
  "answers E \<longleftrightarrow> (\<forall>cs c e. hOutcome E cs c = Some e \<longrightarrow> \<not> isPanic e) \<and>
     (\<forall>v n up e. hScaled E v n up = Inl e \<longrightarrow> \<not> isPanic e) \<and> (\<forall>sel e. hSelects E sel = Inl e \<longrightarrow> \<not> isPanic e)"

lemma calm_hcall: "answers E \<Longrightarrow> calm (hcall E c)"
  by (auto simp: calm_def hcall_def answers_def split: option.splits)

lemma calm_hread: "answers E \<Longrightarrow> calm (hread E c f)"
  unfolding hread_def by (intro calm_bindE calm_pure calm_hcall)

lemmas calm_rules = calm_bindE calm_wrapE calm_if calm_option calm_sum calm_prod calm_pure calm_changes calm_hcall calm_hread

lemma calm_targetLoop:
  assumes "answers E"
  shows "calm (targetLoop E clusterClient ms)"
proof (induction ms)
  case (Cons m ms)
  have "calm (getNodeFromMachine E m)" unfolding getNodeFromMachine_def by (intro calm_rules assms)
  then have "calm (targetFor E clusterClient m)"
    unfolding targetFor_def Let_def by (intro calm_bindE calm_hcall calm_if calm_attempt assms) (auto intro!: calm_pure)
  then show ?case unfolding targetLoop.simps by (intro calm_rules Cons.IH)
qed (auto simp: calm_def)

lemma calm_checkHealth:
  assumes "answers E" and "hTracker E"
  shows "calm (checkHealth E cluster)"
proof -
  have "calm (liftE (hSelects E sel))" for sel using assms(1) by (auto simp: answers_def intro: calm_liftE)
  then show ?thesis
    unfolding checkHealth_def remoteClient_def watchClusterNodes_def getTargetsFromMHC_def getMachinesFromMHC_def Let_def
    by (intro calm_rules calm_targetLoop assms; simp add: assms)
qed

lemma calm_patchAll: "calm (patchAll E ts errList)"
proof (induction ts arbitrary: errList)
  case (Cons t ts)
  show ?case unfolding patchAll.simps patchTarget_def by (intro calm_rules Cons.IH)
qed (simp add: calm_def)

lemma calm_patchHealthyTargets: "calm (patchHealthyTargets E ts errList)"
proof (induction ts arbitrary: errList)
  case (Cons t ts)
  show ?case unfolding patchHealthyTargets.simps patchTarget_def Let_def by (intro calm_rules Cons.IH)
qed (simp add: calm_def)

lemma calm_patchUnhealthyTargets:
  "\<forall>t \<in> set ts. checkedTarget False t \<Longrightarrow> calm (patchUnhealthyTargets E cluster ts errList)"
proof (induction ts arbitrary: errList)
  case (Cons t ts)
  then obtain co where co: "Get (mchConditions (htMachine t)) MachineHealthCheckSucceededCondition = Some co"
    by (auto simp: checkedTarget_def IsFalse_def split: option.splits)
  have d: "calm (liftE (deref w (Get (mchConditions (htMachine t)) MachineHealthCheckSucceededCondition)))" for w
    by (rule calm_liftE) (simp add: co)
  show ?case
    unfolding patchUnhealthyTargets.simps patchTarget_def externalRemediationRequestExists_def createRequest_def Let_def
    by (intro calm_rules d Cons.IH) (use Cons.prems in simp)+
qed (simp add: calm_def)

text \<open>The field's pattern: two numbers in brackets, with a dash between them.\<close>

definition rangeSyntax :: "string \<Rightarrow> bool" where
  "rangeSyntax x \<longleftrightarrow> (\<exists>a b. x = CHR ''['' # a @ CHR ''-'' # b @ '']'' \<and> a \<noteq> [] \<and> b \<noteq> [] \<and> list_all is_digit a \<and> list_all is_digit b)"

lemma getUnhealthyRange_parts:
  assumes "list_all is_digit a" and "list_all is_digit b"
  shows "getUnhealthyRange (CHR ''['' # a @ CHR ''-'' # b @ '']'') =
    bindR (ParseUint 32 a) (\<lambda>mn. bindR (ParseUint 32 b) (\<lambda>mx.
      if mx < mn then Inl (Err ''max value cannot be less than min value for unhealthyRange'') else Inr (int mn, int mx)))"
proof -
  have "CHR ''-'' \<notin> set a" "CHR ''-'' \<notin> set b" using assms not_digit_sign by (auto simp: list_all_iff)
  then have "Split (CHR ''-'') (a @ CHR ''-'' # b) = [a, b]" by (simp add: Split_append_sep Split_no_sep)
  then show ?thesis by (simp add: getUnhealthyRange_def)
qed

lemma ParseUint_calm: "ParseUint k x = Inl e \<Longrightarrow> \<not> isPanic e"
  by (auto simp: ParseUint_def split: if_splits option.splits)

lemma isAllowedRemediation_calm:
  assumes "answers E" and "\<forall>x. mhsUnhealthyRange (mhcSpec m) = Some x \<longrightarrow> rangeSyntax x"
    and "isAllowedRemediation (hScaled E) m = Inl e"
  shows "\<not> isPanic e"
proof (cases "mhsUnhealthyRange (mhcSpec m)")
  case None
  with assms show ?thesis
    by (auto simp: isAllowedRemediation_def getMaxUnhealthy_def bindR_def answers_def Let_def split: option.splits sum.splits)
next
  case (Some x)
  with assms(2) obtain a b where "x = CHR ''['' # a @ CHR ''-'' # b @ '']''" "list_all is_digit a" "list_all is_digit b"
    by (auto simp: rangeSyntax_def)
  with assms(3) Some show ?thesis
    using ParseUint_calm by (auto simp: isAllowedRemediation_def getUnhealthyRange_parts bindR_def Let_def split: sum.splits if_splits)
qed

section \<open>A sample\<close>

text \<open>One machine that has failed, and a health check that allows one unhealthy machine.\<close>

definition mhcSampleMachine :: Machine where
  "mhcSampleMachine = (sampleMachine ''m'' 0)\<lparr>mchStatus := emptyMachineStatus\<lparr>stFailureReason := Some ''CreateError''\<rparr>\<rparr>"

definition mhcSample :: "IntOrString \<Rightarrow> MHC" where
  "mhcSample v = \<lparr>mhcMeta = emptyMeta\<lparr>mname := ''mhc''\<rparr>,
     mhcSpec = \<lparr>mhsClusterName = ''c'', mhsSelector = \<lparr>lsMatchLabels = None, lsMatchExpressions = None\<rparr>, mhsUnhealthyConditions = [],
       mhsMaxUnhealthy = Some v, mhsUnhealthyRange = None, mhsNodeStartupTimeout = None, mhsRemediationTemplate = None\<rparr>,
     mhcStatus = \<lparr>mhtExpectedMachines = 0, mhtCurrentHealthy = 0, mhtRemediationsAllowed = 0, mhtObservedGeneration = 0,
       mhtTargets = [], mhtConditions = []\<rparr>\<rparr>"

definition mhcSampleEnv :: hEnv where
  "mhcSampleEnv = \<lparr>hOutcome = \<lambda>_ _. None, hReadMHC = \<lambda>_. mhcSample (IntVal 1), hReadCluster = \<lambda>_. sampleCluster,
     hMachines = \<lambda>_. [mhcSampleMachine], hNode = \<lambda>_. \<lparr>nodeMeta = emptyMeta, nodeProviderID = [], nodeConditions = [], nodeTaints = []\<rparr>,
     hExternal = \<lambda>_ _. sampleExt, hMHCs = \<lambda>_. [], hNow = \<lambda>_ _. 100 * second, hName = \<lambda>_ x. x, hTracker = True,
     hScaled = \<lambda>v _ _. (case v of IntVal n \<Rightarrow> Inr n | StrVal _ \<Rightarrow> Inl (Err ''not a number'')), hSelects = \<lambda>_. Inr (False, \<lambda>_. True),
     hGroup = \<lambda>x. Inr x, hGroupKind = \<lambda>_. [], hErrText = \<lambda>_. [], hClusterLocked = \<lambda>_. False\<rparr>"

definition mhcSampleState :: hState where
  "mhcSampleState = \<lparr>hMHC = mhcSample (IntVal 1), hTrace = []\<rparr>"

lemma mhcSampleEnv_simps [simp]:
  "hOutcome mhcSampleEnv h c = None" "hMachines mhcSampleEnv h = [mhcSampleMachine]" "hNow mhcSampleEnv h i = 100 * second"
  "hTracker mhcSampleEnv" "hScaled mhcSampleEnv (IntVal n) k up = Inr n" "hSelects mhcSampleEnv sel = Inr (False, \<lambda>_. True)"
  "answers mhcSampleEnv" "wellFormedMachines mhcSampleEnv"
  by (auto simp: mhcSampleEnv_def answers_def wellFormedMachines_def mhcSampleMachine_def emptyMachineStatus_def wfConditions_def
      split: IntOrString.splits)

lemma mhcSample_simps [simp]:
  "IsTrue (clConditions (clStatus sampleCluster)) t = False" "IsPaused sampleCluster (mchMeta mhcSampleMachine) = False"
  "mchConditions mhcSampleMachine = []" "shouldSkipRemediation mhcSampleMachine = False" "mchName mhcSampleMachine = ''m''"
  "HasRemediateMachine (mchMeta mhcSampleMachine) = False" "stFailureReason (mchStatus mhcSampleMachine) = Some ''CreateError''"
  by (simp_all add: sampleCluster_def IsTrue_def Get_def mhcSampleMachine_def sampleMachine_def emptyMachineStatus_def IsPaused_def
      HasPaused_def HasSkipRemediation_def HasRemediateMachine_def hasAnnotation_def emptyMeta_def shouldSkipRemediation_def)

definition mhcSampleTarget :: healthCheckTarget where
  "mhcSampleTarget = markTarget 100 MachineHasFailureReason ''FailureReason: %v'' [''CreateError'']
     \<lparr>htMachine = mhcSampleMachine, htOriginal = mhcSampleMachine, htNode = None, htNodeMissing = False\<rparr>"

lemma sample_checkHealth:
  "\<exists>m cs. checkHealth mhcSampleEnv sampleCluster mhcSampleState =
     (Inr ([\<lparr>htMachine = mhcSampleMachine, htOriginal = mhcSampleMachine, htNode = None, htNodeMissing = False\<rparr>], [], [mhcSampleTarget], []),
      \<lparr>hMHC = m, hTrace = cs\<rparr>) \<and> mhcSpec m = mhcSpec (mhcSample (IntVal 1)) \<and>
     mhtExpectedMachines (mhcStatus m) = 1 \<and> mhtCurrentHealthy (mhcStatus m) = 0"
  by (simp add: checkHealth_def changeMHC_def remoteClient_def getTargetsFromMHC_def getMachinesFromMHC_def targetFor_def Let_def
      wrapE_def bindE_def hread_def hcall_def mhcSampleState_def needsRemediation_def mhcSampleTarget_def storeTargets_def
      storeHealthy_def ownByCluster_def wrap32_def)

lemma sample_asked:
  "htOriginal mhcSampleTarget = mhcSampleMachine" "checkedTarget False mhcSampleTarget"
  "mchMeta (htMachine mhcSampleTarget) = mchMeta mhcSampleMachine"
  "ownerCondition (askOwner now (htMachine mhcSampleTarget)) \<noteq> ownerCondition mhcSampleMachine"
proof -
  show a: "htOriginal mhcSampleTarget = mhcSampleMachine" "mchMeta (htMachine mhcSampleTarget) = mchMeta mhcSampleMachine"
    by (simp_all add: mhcSampleTarget_def markTarget_def)
  show c: "checkedTarget False mhcSampleTarget" unfolding mhcSampleTarget_def
    by (rule checked_mark) (simp add: freshTarget_def wfConditions_def)
  have "ownerCondition (htMachine mhcSampleTarget) = None" using c a by (simp add: checkedTarget_def Get_def)
  moreover have "wfConditions (mchConditions (htMachine mhcSampleTarget))" using c by (simp add: checkedTarget_def)
  ultimately have "IsFalse (mchConditions (askOwner now (htMachine mhcSampleTarget))) MachineOwnerRemediatedCondition"
    by (simp add: askOwner_def Has_def Get_MarkFalse)
  then show "ownerCondition (askOwner now (htMachine mhcSampleTarget)) \<noteq> ownerCondition mhcSampleMachine"
    by (auto simp: IsFalse_def Get_def split: option.splits)
qed

lemma sample_run:
  "\<exists>s' cs new. mhcReconcile mhcSampleEnv sampleCluster mhcSampleState = (Inr emptyResult, s') \<and>
     hTrace s' = hTrace mhcSampleState @ cs \<and> HPatchMachine mhcSampleMachine new \<in> set cs \<and>
     ownerCondition new \<noteq> ownerCondition mhcSampleMachine"
proof -
  obtain m cs where ch: "checkHealth mhcSampleEnv sampleCluster mhcSampleState =
     (Inr ([\<lparr>htMachine = mhcSampleMachine, htOriginal = mhcSampleMachine, htNode = None, htNodeMissing = False\<rparr>], [], [mhcSampleTarget], []),
      \<lparr>hMHC = m, hTrace = cs\<rparr>)" and m: "mhcSpec m = mhcSpec (mhcSample (IntVal 1))"
     "mhtExpectedMachines (mhcStatus m) = 1" "mhtCurrentHealthy (mhcStatus m) = 0"
    using sample_checkHealth by blast
  have spec: "mhsUnhealthyRange (mhcSpec m) = None" "mhsMaxUnhealthy (mhcSpec m) = Some (IntVal 1)" "mhsRemediationTemplate (mhcSpec m) = None"
    using m(1) by (simp_all add: mhcSample_def)
  obtain co where co: "Get (mchConditions (htMachine mhcSampleTarget)) MachineHealthCheckSucceededCondition = Some co"
    using sample_asked(2) by (auto simp: checkedTarget_def IsFalse_def split: option.splits)
  have al: "isAllowedRemediation (hScaled mhcSampleEnv) m = Inr (True, 0)"
    using m spec by (simp add: isAllowedRemediation_def getMaxUnhealthy_def unhealthyMachineCount_def wrap32_def)
  let ?new = "askOwner 100 (htMachine mhcSampleTarget)"
  have "\<exists>s'. mhcReconcile mhcSampleEnv sampleCluster mhcSampleState = (Inr emptyResult, s') \<and>
      hTrace s' = cs @ [HPatchMachine mhcSampleMachine ?new]"
    using spec co
    by (simp add: mhcReconcile_def ch al wrapE_def allowRemediation_def changeMHC_def
        markMHC_def storeAllowed_def setMhcConditions_def patchTarget_def hcall_def sample_asked minDuration_def bindE_def attemptE_def)
  with sample_asked(4) [of 100] show ?thesis by (fastforce simp: mhcSampleState_def)
qed

section \<open>Properties\<close>

text \<open>A machine is handed over for remediation: to an external controller by a request, or to its owner by a condition.\<close>

fun startsRemediation :: "hCall \<Rightarrow> bool" where
  "startsRemediation (HCreate _) = True"
| "startsRemediation (HPatchMachine old new) = (ownerCondition new \<noteq> ownerCondition old)"
| "startsRemediation _ = False"



theorem next_check_exact_witness:
  "let cluster = sampleCluster\<lparr>clStatus := (clStatus sampleCluster)\<lparr>clConditions :=
         [TrueCondition InfrastructureReadyCondition, TrueCondition ControlPlaneInitializedCondition]\<rparr>\<rparr>;
       m = noNode (sampleMachine ''m'' 0);
       t = \<lparr>htMachine = m, htOriginal = m, htNode = None, htNodeMissing = False\<rparr>
   in needsRemediation (100 * second) cluster (mhcSample (IntVal 1)) (600 * second) t = (False, 501 * second, t) \<and>
      fst (needsRemediation (601 * second) cluster (mhcSample (IntVal 1)) (600 * second) t) \<and>
      \<not> fst (needsRemediation (600 * second) cluster (mhcSample (IntVal 1)) (600 * second) t)"
proof -
  let ?c = "sampleCluster\<lparr>clStatus := (clStatus sampleCluster)\<lparr>clConditions :=
    [TrueCondition InfrastructureReadyCondition, TrueCondition ControlPlaneInitializedCondition]\<rparr>\<rparr>"
  let ?m = "noNode (sampleMachine ''m'' 0)"
  let ?t = "\<lparr>htMachine = ?m, htOriginal = ?m, htNode = None, htNodeMissing = False\<rparr>"
  have n: "needsRemediation (100 * second) ?c (mhcSample (IntVal 1)) (600 * second) ?t = (False, 501 * second, ?t)"
    by (simp add: needsRemediation_def Let_def noNode_def sampleMachine_def emptyMachineStatus_def HasRemediateMachine_def
        hasAnnotation_def emptyMeta_def IsTrue_def Get_def TrueCondition_def mkCondition_def comparisonTime_def laterIf_def
        GetLastTransitionTime_def)
  show ?thesis unfolding Let_def
    using n next_check_exact [OF n, of "601 * second"] next_check_exact [OF n, of "600 * second"] by simp
qed

text \<open>
  (C17) A range that is written as two numbers in brackets is read back as these numbers, for all numbers of 32
  bits in the right order, so that the limit that is checked is the one that was asked for.
\<close>

theorem unhealthy_range_roundtrip:
  assumes "mn \<le> mx" and "mx < 2 ^ 32"
  shows "getUnhealthyRange (CHR ''['' # format_nat mn @ CHR ''-'' # format_nat mx @ '']'') = Inr (int mn, int mx)"
proof -
  have "list_all is_digit (format_nat k)" for k by (simp add: list_all_iff format_nat_digits)
  with assms show ?thesis by (simp add: getUnhealthyRange_parts ParseUint_format_nat)
qed

theorem unhealthy_range_roundtrip_witness: "getUnhealthyRange ''[2-5]'' = Inr (2, 5)"
proof -
  have "digit_char 2 = CHR ''2''" "digit_char 5 = CHR ''5''" by code_simp+
  then have "format_nat 2 = ''2''" "format_nat 5 = ''5''" by (simp_all add: format_nat.simps)
  then show ?thesis using unhealthy_range_roundtrip [of 2 5] by simp
qed

text \<open>
  (C16) The reconciliation does not panic, whatever the state of the machines and whatever fails: the condition
  it dereferences has always been set, and a range of the form the field allows is cut
  and split safely.
\<close>

theorem mhc_no_panic:
  assumes run: "mhcReconcile E cluster s = (Inl e, s')" and "answers E" and "hTracker E" and "wellFormedMachines E"
    and range: "\<forall>x. mhsUnhealthyRange (mhcSpec (hMHC s)) = Some x \<longrightarrow> rangeSyntax x"
  shows "\<not> isPanic e"
proof (cases rule: bindE_cases [OF run [unfolded mhcReconcile_def]])
  case (1 e')
  with calm_checkHealth [OF assms(2,3)] show ?thesis by (auto simp: calm_def)
next
  case (2 x s1)
  obtain targets healthy unhealthy nextTimes where x: "x = (targets, healthy, unhealthy, nextTimes)" by (metis prod_cases4)
  have spec: "mhcSpec (hMHC s1) = mhcSpec (hMHC s)" using keepsD [OF spec_checkHealth 2(1)] .
  have "\<forall>t \<in> set unhealthy. checkedTarget False t" using checkHealth_checked [OF 2(1) [unfolded x] assms(4)] by simp
  then have "calm (allowRemediation E cluster n healthy unhealthy nextTimes)" for n
    unfolding allowRemediation_def by (intro calm_rules calm_patchUnhealthyTargets calm_patchHealthyTargets) simp_all
  moreover have "calm (restrictRemediation E targets healthy unhealthy)"
    unfolding restrictRemediation_def by (intro calm_rules calm_patchAll) simp_all
  moreover have "calm (wrapE w (liftE (isAllowedRemediation (hScaled E) (hMHC s1))) :: (hState, bool \<times> int) comp)" for w
    using isAllowedRemediation_calm [OF assms(2), of "hMHC s1"] range spec by (intro calm_wrapE calm_liftE) auto
  ultimately have "calm (bindE (wrapE ''error checking if remediation is allowed'' (liftE (isAllowedRemediation (hScaled E) (hMHC s1))))
      (\<lambda>(b, n). if \<not> b then restrictRemediation E targets healthy unhealthy
        else allowRemediation E cluster n healthy unhealthy nextTimes))"
    by (intro calm_bindE calm_prod calm_if)
  with 2(2) x show ?thesis by (auto simp: calm_def)
qed

theorem mhc_no_panic_witness:
  "let s = \<lparr>hMHC = mhcSample (StrVal ''many''), hTrace = []\<rparr> in
   \<exists>e s'. mhcReconcile mhcSampleEnv sampleCluster s = (Inl e, s') \<and> \<not> isPanic e"
proof -
  let ?s = "\<lparr>hMHC = mhcSample (StrVal ''many''), hTrace = []\<rparr>"
  have "\<exists>e s'. mhcReconcile mhcSampleEnv sampleCluster ?s = (Inl e, s')"
    by (simp add: mhcReconcile_def checkHealth_def changeMHC_def remoteClient_def getTargetsFromMHC_def getMachinesFromMHC_def
      targetFor_def Let_def wrapE_def bindE_def hread_def hcall_def needsRemediation_def storeTargets_def
      storeHealthy_def ownByCluster_def wrap32_def isAllowedRemediation_def getMaxUnhealthy_def mhcSample_def mhcSampleEnv_def [THEN arg_cong [of _ _ hScaled]])
  then obtain e s' where run: "mhcReconcile mhcSampleEnv sampleCluster ?s = (Inl e, s')" by blast
  from mhc_no_panic [OF run] run show ?thesis by (auto simp: mhcSample_def)
qed

end
