(* ===== verification/Collections.thy ===== *)
theory Collections
  imports MachineSetPolicy
begin

text \<open>
  Machine collections and failure domains (\<open>src/cluster-api/util/collections\<close>,
  \<open>src/cluster-api/util/failuredomains\<close>).

  A collection is a Go map from names to machines. It is modelled by the list of its entries in the order
  in which the map happens to be iterated, with one entry per name (\<open>wfMachines\<close>); nil pointers never
  get into a collection. Operations whose result is again a collection are given up to that order;
  what is shown of the others holds for every order.
\<close>

section \<open>Collections\<close>

type_synonym Machines = "Machine list"
type_synonym Func = "Machine \<Rightarrow> bool"

definition wfMachines :: "Machines \<Rightarrow> bool" where
  "wfMachines s \<longleftrightarrow> distinct (map (\<lambda>m. mchName m) s)"

definition insertOne :: "Machine \<Rightarrow> Machines \<Rightarrow> Machines" where
  "insertOne m s = filter (\<lambda>x. mchName x \<noteq> mchName m) s @ [m]"

fun Insert :: "Machines \<Rightarrow> Machine option list \<Rightarrow> Machines" where
  "Insert s [] = s"
| "Insert s (None # ms) = Insert s ms"
| "Insert s (Some m # ms) = Insert (insertOne m s) ms"

definition FromMachines :: "Machine option list \<Rightarrow> Machines" where
  "FromMachines machines = Insert [] machines"

definition FromMachineList :: "Machine list \<Rightarrow> Machines" where
  "FromMachineList items = Insert [] (map Some items)"

definition AndF :: "Func list \<Rightarrow> Func" where "AndF filters machine = list_all (\<lambda>f. f machine) filters"
definition OrF :: "Func list \<Rightarrow> Func" where "OrF filters machine = list_ex (\<lambda>f. f machine) filters"
definition NotF :: "Func \<Rightarrow> Func" where "NotF mf machine = (\<not> mf machine)"

definition newFilteredMachineCollection :: "Func \<Rightarrow> Machine list \<Rightarrow> Machines" where
  "newFilteredMachineCollection f machines = Insert [] (map Some (filter f machines))"

definition Filter :: "Machines \<Rightarrow> Func list \<Rightarrow> Machines" where
  "Filter s filters = newFilteredMachineCollection (AndF filters) s"

definition AnyFilter :: "Machines \<Rightarrow> Func list \<Rightarrow> Machines" where
  "AnyFilter s filters = newFilteredMachineCollection (OrF filters) s"

definition Difference :: "Machines \<Rightarrow> Machines \<Rightarrow> Machines" where
  "Difference s machines = Filter s [\<lambda>m. mchName m \<notin> (\<lambda>x. mchName x) ` set machines]"

definition machinesByCreationTimestamp :: "Machine \<Rightarrow> Machine \<Rightarrow> bool" where
  "machinesByCreationTimestamp a b =
     (if mcreationTimestamp (mchMeta a) = mcreationTimestamp (mchMeta b) then mchName a < mchName b
      else mcreationTimestamp (mchMeta a) < mcreationTimestamp (mchMeta b))"

definition machinesByDeletionTimestamp :: "Machine \<Rightarrow> Machine \<Rightarrow> bool" where
  "machinesByDeletionTimestamp a b =
     (case (mdeletionTimestamp (mchMeta a), mdeletionTimestamp (mchMeta b)) of
        (None, None) \<Rightarrow> mchName a < mchName b
      | (None, Some _) \<Rightarrow> False
      | (Some _, None) \<Rightarrow> True
      | (Some s, Some t) \<Rightarrow> if s = t then mchName a < mchName b else s < t)"

definition machinesByVersion :: "'u unstructuredLib \<Rightarrow> Machine \<Rightarrow> Machine \<Rightarrow> bool res" where
  "machinesByVersion L a b =
     bindR (deref ''v[i].Spec.Version'' (spVersion (mchSpec a))) (\<lambda>va.
     bindR (deref ''v[j].Spec.Version'' (spVersion (mchSpec b))) (\<lambda>vb.
       let parse = (\<lambda>v. case ParseTolerant L v of
                          Inl _ \<Rightarrow> \<lparr>Major = 0, Minor = 0, Patch = 0, Pre = [], Build = []\<rparr> | Inr x \<Rightarrow> x);
           comp = Compare (semverCompare L) (parse va) (parse vb) [WithBuildTags]
       in if comp = 0 then Inr (mchName a < mchName b) else Inr (comp = - 1)))"

definition SortedByCreationTimestamp :: "Machines \<Rightarrow> Machine list" where
  "SortedByCreationTimestamp s = sort_Sort machinesByCreationTimestamp s"

definition SortedByDeletionTimestamp :: "Machines \<Rightarrow> Machine list" where
  "SortedByDeletionTimestamp s = sort_Sort machinesByDeletionTimestamp s"

definition Oldest :: "Machines \<Rightarrow> Machine option" where
  "Oldest s = (if s = [] then None else Some (hd (SortedByCreationTimestamp s)))"

definition Newest :: "Machines \<Rightarrow> Machine option" where
  "Newest s = (if s = [] then None else Some (last (SortedByCreationTimestamp s)))"

definition OldestDeletionTimestamp :: "Machines \<Rightarrow> Machine option" where
  "OldestDeletionTimestamp s = (if s = [] then None else Some (hd (SortedByDeletionTimestamp s)))"

definition Names :: "Machines \<Rightarrow> string list" where
  "Names s = map (\<lambda>m. mchName m) s"

definition ConditionGetters :: "Machines \<Rightarrow> Getter list" where
  "ConditionGetters s = map (\<lambda>m. \<lparr>gkind = ''Machine'', gname = mchName m, gconditions = mchConditions m\<rparr>) s"

definition ToMachineList :: "Machines \<Rightarrow> Machine list" where
  "ToMachineList machines = machines"

section \<open>Filters\<close>

definition HasControllerRef :: Func where
  "HasControllerRef machine \<longleftrightarrow> GetControllerOf (mchMeta machine) \<noteq> None"

definition InFailureDomains :: "string option list \<Rightarrow> Func" where
  "InFailureDomains failureDomains machine =
     list_ex (\<lambda>fd. case fd of
         None \<Rightarrow> spFailureDomain (mchSpec machine) = None
       | Some d \<Rightarrow> (case spFailureDomain (mchSpec machine) of None \<Rightarrow> False | Some x \<Rightarrow> d = x)) failureDomains"

definition OwnedMachines :: "(string \<Rightarrow> string res) \<Rightarrow> string \<Rightarrow> string \<Rightarrow> string \<Rightarrow> Func" where
  "OwnedMachines parseGV kind grp name machine = IsOwnedByObject parseGV (mchMeta machine) kind grp name"

text \<open>The selector is built by the label library from the cluster's name.\<close>

definition ControlPlaneMachines :: "(string \<Rightarrow> strmap option \<Rightarrow> bool) \<Rightarrow> string \<Rightarrow> Func" where
  "ControlPlaneMachines selectorFor clusterName machine = selectorFor clusterName (mlabels (mchMeta machine))"

definition AdoptableControlPlaneMachines :: "(string \<Rightarrow> strmap option \<Rightarrow> bool) \<Rightarrow> string \<Rightarrow> Func" where
  "AdoptableControlPlaneMachines selectorFor clusterName =
     AndF [ControlPlaneMachines selectorFor clusterName, NotF HasControllerRef]"

definition ActiveMachines :: Func where
  "ActiveMachines machine = timeIsZero (mdeletionTimestamp (mchMeta machine))"

definition HasDeletionTimestamp :: Func where
  "HasDeletionTimestamp machine = (\<not> timeIsZero (mdeletionTimestamp (mchMeta machine)))"

definition HasUnhealthyCondition :: Func where
  "HasUnhealthyCondition machine \<longleftrightarrow>
     IsFalse (mchConditions machine) MachineHealthCheckSucceededCondition \<and>
     IsFalse (mchConditions machine) MachineOwnerRemediatedCondition"

abbreviation "MachineAPIServerPodHealthyCondition \<equiv> ''APIServerPodHealthy''"
abbreviation "MachineControllerManagerPodHealthyCondition \<equiv> ''ControllerManagerPodHealthy''"
abbreviation "MachineSchedulerPodHealthyCondition \<equiv> ''SchedulerPodHealthy''"
abbreviation "MachineEtcdPodHealthyCondition \<equiv> ''EtcdPodHealthy''"
abbreviation "MachineEtcdMemberHealthyCondition \<equiv> ''EtcdMemberHealthy''"

definition controlPlaneHealthConditions :: "bool \<Rightarrow> string list" where
  "controlPlaneHealthConditions isEtcdManaged =
     [MachineAPIServerPodHealthyCondition, MachineControllerManagerPodHealthyCondition, MachineSchedulerPodHealthyCondition] @
     (if isEtcdManaged then [MachineEtcdPodHealthyCondition, MachineEtcdMemberHealthyCondition] else [])"

definition HasUnhealthyControlPlaneComponents :: "bool \<Rightarrow> Func" where
  "HasUnhealthyControlPlaneComponents isEtcdManaged machine =
     list_ex (\<lambda>c. IsFalse (mchConditions machine) c) (controlPlaneHealthConditions isEtcdManaged)"

definition machineIsReady :: Func where
  "machineIsReady machine = IsTrue (mchConditions machine) ReadyCondition"

text \<open>The time of the reconciliation is in nanoseconds, stored times are in seconds.\<close>

definition ShouldRolloutAfter :: "int option \<Rightarrow> time option \<Rightarrow> Func" where
  "ShouldRolloutAfter reconciliationTime rolloutAfter machine =
     (case (reconciliationTime, rolloutAfter) of
        (Some now, Some after) \<Rightarrow> mcreationTimestamp (mchMeta machine) < after \<and> after * 1000000000 < now
      | _ \<Rightarrow> False)"

text \<open>The number of days is turned into an \<open>int64\<close> of nanoseconds: the product wraps.\<close>

definition daysToDuration :: "int \<Rightarrow> int" where
  "daysToDuration days = wrap64 (wrap64 (days * 24) * 3600000000000)"

definition ShouldRolloutBefore :: "int \<Rightarrow> int option option \<Rightarrow> Func" where
  "ShouldRolloutBefore reconciliationTime rolloutBefore machine =
     (case rolloutBefore of
        Some (Some days) \<Rightarrow>
          (case stCertificatesExpiryDate (mchStatus machine) of
             None \<Rightarrow> False
           | Some expiry \<Rightarrow> reconciliationTime + daysToDuration days > expiry * 1000000000)
      | _ \<Rightarrow> False)"

definition HasAnnotationKey :: "string \<Rightarrow> Func" where
  "HasAnnotationKey key machine \<longleftrightarrow> mlookup (mannotations (mchMeta machine)) key \<noteq> None"

definition MatchesKubernetesVersion :: "string \<Rightarrow> Func" where
  "MatchesKubernetesVersion kubernetesVersion machine =
     (case spVersion (mchSpec machine) of None \<Rightarrow> False | Some v \<Rightarrow> v = kubernetesVersion)"

definition WithVersion :: "'u unstructuredLib \<Rightarrow> Func" where
  "WithVersion L machine =
     (case spVersion (mchSpec machine) of
        None \<Rightarrow> False
      | Some v \<Rightarrow> (case ParseTolerant L v of Inl _ \<Rightarrow> False | Inr _ \<Rightarrow> True))"

definition HealthyAPIServer :: Func where
  "HealthyAPIServer machine = IsTrue (mchConditions machine) MachineAPIServerPodHealthyCondition"

definition HasNode :: Func where
  "HasNode machine \<longleftrightarrow> stNodeRef (mchStatus machine) \<noteq> None"

text \<open>\<open>Less\<close> dereferences both versions; with a single machine nothing is compared.\<close>

definition sortedByVersion :: "'u unstructuredLib \<Rightarrow> Machines \<Rightarrow> Machine list res" where
  "sortedByVersion L s =
     (if length s \<le> 1 then Inr s
      else if list_ex (\<lambda>m. spVersion (mchSpec m) = None) s then Inl (Panic ''v[i].Spec.Version'')
      else Inr (sort_Sort (\<lambda>a b. machinesByVersion L a b = Inr True) s))"

definition LowestVersion :: "'u unstructuredLib \<Rightarrow> Machines \<Rightarrow> string option res" where
  "LowestVersion L s =
     (let machines = Filter s [WithVersion L]
      in if machines = [] then Inr None
         else bindR (sortedByVersion L machines) (\<lambda>sorted'. Inr (spVersion (mchSpec (hd sorted')))))"

section \<open>Failure domains\<close>

type_synonym failureDomainAggregation = "string \<times> int"

definition domainCount :: "Machines \<Rightarrow> string \<Rightarrow> int" where
  "domainCount machines fd = int (length (filter (\<lambda>m. spFailureDomain (mchSpec m) = Some fd) machines))"

text \<open>\<open>order\<close> is the order in which the map of counters is iterated.\<close>

definition pick :: "(string list \<Rightarrow> string list) \<Rightarrow> FailureDomains \<Rightarrow> Machines \<Rightarrow> failureDomainAggregation list" where
  "pick order failureDomains machines =
     (if length failureDomains = 0 then []
      else map (\<lambda>fd. (fd, domainCount machines fd)) (order (map fst failureDomains)))"

definition aggregationsLess :: "failureDomainAggregation \<Rightarrow> failureDomainAggregation \<Rightarrow> bool" where
  "aggregationsLess a b \<longleftrightarrow> snd a < snd b"

definition orderDescending :: "(string list \<Rightarrow> string list) \<Rightarrow> FailureDomains \<Rightarrow> Machines \<Rightarrow> failureDomainAggregation list" where
  "orderDescending order failureDomains machines = sort_Sort (\<lambda>a b. aggregationsLess b a) (pick order failureDomains machines)"

definition PickMost :: "(string list \<Rightarrow> string list) \<Rightarrow> FailureDomains \<Rightarrow> Machines \<Rightarrow> Machines \<Rightarrow> string option" where
  "PickMost order failureDomains groupMachines machines =
     map_option fst (find (\<lambda>fd. list_ex (\<lambda>m. spFailureDomain (mchSpec m) = Some (fst fd)) machines)
       (orderDescending order failureDomains groupMachines))"

definition PickFewest :: "(string list \<Rightarrow> string list) \<Rightarrow> FailureDomains \<Rightarrow> Machines \<Rightarrow> string option" where
  "PickFewest order failureDomains machines =
     (case sort_Sort aggregationsLess (pick order failureDomains machines) of [] \<Rightarrow> None | a # _ \<Rightarrow> Some (fst a))"

section \<open>What the collections promise\<close>

interpretation by_creation: strict_total machinesByCreationTimestamp "\<lambda>m. (mcreationTimestamp (mchMeta m), mchName m)"
  by unfold_locales (auto simp: machinesByCreationTimestamp_def split: if_splits)

interpretation by_deletion: strict_total machinesByDeletionTimestamp "\<lambda>m. (mdeletionTimestamp (mchMeta m), mchName m)"
  by unfold_locales (auto simp: machinesByDeletionTimestamp_def split: if_splits option.splits)

interpretation by_count: strict_weak aggregationsLess
  by unfold_locales (auto simp: aggregationsLess_def)

interpretation by_count_down: strict_weak "\<lambda>a b. aggregationsLess b a"
  by unfold_locales (auto simp: aggregationsLess_def)

lemma wf_insertOne: "wfMachines s \<Longrightarrow> wfMachines (insertOne m s)"
  by (auto simp: wfMachines_def insertOne_def distinct_map_filter)

lemma wf_Insert: "wfMachines s \<Longrightarrow> wfMachines (Insert s ms)"
  by (induction s ms rule: Insert.induct) (auto intro: wf_insertOne)

lemma Insert_new: "wfMachines (s @ ms) \<Longrightarrow> Insert s (map Some ms) = s @ ms"
proof (induction ms arbitrary: s)
  case (Cons m ms)
  have "mchName m \<notin> (\<lambda>x. mchName x) ` set s" using Cons.prems by (simp add: wfMachines_def)
  then have "filter (\<lambda>x. mchName x \<noteq> mchName m) s = s" by (intro filter_True) (metis imageI)
  then have "insertOne m s = s @ [m]" by (simp add: insertOne_def)
  with Cons.IH [of "s @ [m]"] Cons.prems show ?case by simp
qed simp

lemma wf_filter: "wfMachines s \<Longrightarrow> wfMachines (filter f s)"
  by (simp add: wfMachines_def distinct_map_filter)

lemma Filter_eq: "wfMachines s \<Longrightarrow> Filter s fs = filter (AndF fs) s"
  using Insert_new [of "[]" "filter (AndF fs) s"] by (simp add: Filter_def newFilteredMachineCollection_def wf_filter)

lemma Oldest_Some: "Oldest s = Some m \<Longrightarrow> m \<in> set s \<and> (\<forall>x \<in> set s. mcreationTimestamp (mchMeta m) \<le> mcreationTimestamp (mchMeta x))"
proof -
  assume a: "Oldest s = Some m"
  then have ne: "sort_Sort machinesByCreationTimestamp s \<noteq> []" by (auto simp: Oldest_def)
  then obtain y ys where y: "sort_Sort machinesByCreationTimestamp s = y # ys" by (cases "sort_Sort machinesByCreationTimestamp s") auto
  with a have m: "m = y" by (auto simp: Oldest_def SortedByCreationTimestamp_def split: if_splits)
  have "y \<in> set s" using y by (metis list.set_intros(1) set_sort_Sort)
  moreover have "\<not> machinesByCreationTimestamp x y" if "x \<in> set s" for x using by_creation.sort_hd_min [OF y that] .
  ultimately show ?thesis using m by (fastforce simp: machinesByCreationTimestamp_def split: if_splits)
qed

lemma Oldest_None: "Oldest s = None \<longleftrightarrow> s = []"
  by (simp add: Oldest_def)

lemma find_sorted:
  assumes "sorted_wrt (\<lambda>a b. \<not> lt b a) xs" and "find P xs = Some x" and "y \<in> set xs" and "P y" and "\<not> lt x x"
  shows "\<not> lt y x"
  using assms by (induction xs) (auto split: if_splits)

lemma LowestVersion_no_panic: "wfMachines s \<Longrightarrow> \<exists>v. LowestVersion L s = Inr v"
  by (auto simp: LowestVersion_def sortedByVersion_def Let_def Filter_eq AndF_def WithVersion_def list_ex_iff split: option.splits)

definition domainIDs :: "FailureDomains \<Rightarrow> string set" where
  "domainIDs fds = fst ` set fds"

text \<open>
  (C39) Machines are spread over failure domains, whatever the order in which Go iterates its maps: a new
  machine goes to a known domain that has the fewest machines of the collection; a machine to remove
  is looked for in a known domain that has most of the group's machines among those in which there is
  a machine to remove. Nothing is picked only when there is no domain to pick.
\<close>

theorem failureDomains_spread:
  assumes "\<And>xs. mset (order xs) = mset xs"
  shows "(case PickFewest order fds machines of
       None \<Rightarrow> fds = []
     | Some fd \<Rightarrow> fd \<in> domainIDs fds \<and> (\<forall>d \<in> domainIDs fds. domainCount machines fd \<le> domainCount machines d)) \<and>
    (case PickMost order fds grp machines of
       None \<Rightarrow> (\<forall>m \<in> set machines. \<forall>d \<in> domainIDs fds. spFailureDomain (mchSpec m) \<noteq> Some d)
     | Some fd \<Rightarrow> fd \<in> domainIDs fds \<and> (\<exists>m \<in> set machines. spFailureDomain (mchSpec m) = Some fd) \<and>
         (\<forall>m \<in> set machines. \<forall>d \<in> domainIDs fds. spFailureDomain (mchSpec m) = Some d \<longrightarrow> domainCount grp d \<le> domainCount grp fd))"
proof -
  have ord: "set (order xs) = set xs" "order xs = [] \<longleftrightarrow> xs = []" for xs
    using assms [of xs] by (metis set_mset_mset, metis mset_zero_iff_right mset_zero_iff)
  have pk: "set (pick order fds g) = (\<lambda>fd. (fd, domainCount g fd)) ` domainIDs fds" "pick order fds g = [] \<longleftrightarrow> fds = []" for g
    by (auto simp: pick_def ord domainIDs_def)
  have few: "case PickFewest order fds machines of None \<Rightarrow> fds = []
     | Some fd \<Rightarrow> fd \<in> domainIDs fds \<and> (\<forall>d \<in> domainIDs fds. domainCount machines fd \<le> domainCount machines d)"
  proof (cases "sort_Sort aggregationsLess (pick order fds machines)")
    case Nil
    then have "fds = []" by (simp add: pk(2))
    with Nil show ?thesis by (simp add: PickFewest_def)
  next
    case (Cons a as)
    have a: "a \<in> set (pick order fds machines)" using Cons by (metis list.set_intros(1) set_sort_Sort)
    have "snd a \<le> domainCount machines d" if "d \<in> domainIDs fds" for d
      using by_count.sort_hd_min [OF Cons, of "(d, domainCount machines d)"] that by (auto simp: aggregationsLess_def pk(1))
    with Cons a show ?thesis by (auto simp: PickFewest_def pk(1))
  qed
  let ?s = "orderDescending order fds grp" and ?P = "\<lambda>fd. list_ex (\<lambda>m. spFailureDomain (mchSpec m) = Some (fst fd)) machines"
  have s: "set ?s = (\<lambda>fd. (fd, domainCount grp fd)) ` domainIDs fds" "sorted_wrt (\<lambda>a b. \<not> aggregationsLess a b) ?s"
    using by_count_down.sort_sorted by (simp_all add: orderDescending_def pk(1))
  have "case PickMost order fds grp machines of
       None \<Rightarrow> (\<forall>m \<in> set machines. \<forall>d \<in> domainIDs fds. spFailureDomain (mchSpec m) \<noteq> Some d)
     | Some fd \<Rightarrow> fd \<in> domainIDs fds \<and> (\<exists>m \<in> set machines. spFailureDomain (mchSpec m) = Some fd) \<and>
         (\<forall>m \<in> set machines. \<forall>d \<in> domainIDs fds. spFailureDomain (mchSpec m) = Some d \<longrightarrow> domainCount grp d \<le> domainCount grp fd)"
  proof (cases "find ?P ?s")
    case None
    then have "PickMost order fds grp machines = None" by (simp add: PickMost_def)
    with None [unfolded find_None_iff] show ?thesis by (auto simp: s(1) list_ex_iff)
  next
    case (Some a)
    then have a: "a \<in> set ?s" "?P a" by (auto simp: find_Some_iff)
    have "domainCount grp d \<le> snd a" if "m \<in> set machines" "d \<in> domainIDs fds" "spFailureDomain (mchSpec m) = Some d" for m d
      using find_sorted [of "\<lambda>a b. aggregationsLess b a" ?s ?P a "(d, domainCount grp d)"] s Some that
      by (force simp: aggregationsLess_def list_ex_iff not_less)
    moreover have "PickMost order fds grp machines = Some (fst a)" using Some by (simp add: PickMost_def)
    ultimately show ?thesis using a by (auto simp: s(1) list_ex_iff)
  qed
  with few show ?thesis by blast
qed

theorem failureDomains_spread_witness:
  "PickFewest rev [(''a'', \<lparr>fdControlPlane = True, fdAttributes = None\<rparr>), (''b'', \<lparr>fdControlPlane = True, fdAttributes = None\<rparr>)] []
     \<in> {Some ''a'', Some ''b''}"
  using failureDomains_spread [of rev "[(''a'', \<lparr>fdControlPlane = True, fdAttributes = None\<rparr>), (''b'', \<lparr>fdControlPlane = True, fdAttributes = None\<rparr>)]" "[]" "[]"]
  by (auto simp: domainIDs_def split: option.splits)

end
