(* ===== verification/KcpControlPlane.thy ===== *)
theory KcpControlPlane
  imports Collections
begin

text \<open>
  The KubeadmControlPlane object and the decisions taken on it without any API call:
  \<open>src/cluster-api/controlplane/kubeadm/internal/control_plane.go\<close> and \<open>filters.go\<close>, over the types of
  \<open>src/cluster-api/controlplane/kubeadm/api/v1beta1\<close> and \<open>src/cluster-api/bootstrap/kubeadm/api/v1beta1\<close>.

  Parts of the kubeadm configuration that the code only copies and compares as a whole are their
  serialised text. JSON decoding, the structural diff and the rendering of a group and kind are
  parameters (\<open>cpDeps\<close>).
\<close>

section \<open>The kubeadm configuration\<close>

record NodeRegistrationOptions =
  nrName :: string
  nrCRISocket :: string
  nrTaints :: "string list option"
  nrKubeletExtraArgs :: "strmap option"
  nrIgnorePreflightErrors :: "string list option"
  nrImagePullPolicy :: string
  nrImagePullSerial :: "bool option"

definition emptyNodeRegistration :: NodeRegistrationOptions where
  "emptyNodeRegistration = \<lparr>nrName = [], nrCRISocket = [], nrTaints = None, nrKubeletExtraArgs = None,
     nrIgnorePreflightErrors = None, nrImagePullPolicy = [], nrImagePullSerial = None\<rparr>"

record KubeConfigAuthExec =
  exCommand :: string
  exArgs :: "string list option"
  exEnv :: "(string \<times> string) list option"
  exAPIVersion :: string
  exProvideClusterInfo :: bool

record FileDiscoveryKubeConfig =
  fkCluster :: "string option"
  fkAuthProvider :: "string option"
  fkExec :: "KubeConfigAuthExec option"

record FileDiscovery =
  fdKubeConfigPath :: string
  fdKubeConfig :: "FileDiscoveryKubeConfig option"

record Discovery =
  dsBootstrapToken :: "string option"
  dsFile :: "FileDiscovery option"
  dsTLSBootstrapToken :: string
  dsTimeout :: "int option"

definition emptyDiscovery :: Discovery where
  "emptyDiscovery = \<lparr>dsBootstrapToken = None, dsFile = None, dsTLSBootstrapToken = [], dsTimeout = None\<rparr>"

record LocalAPIEndpoint =
  laAdvertiseAddress :: string
  laBindPort :: int

record TypeMeta =
  tmetaKind :: string
  tmetaAPIVersion :: string

record InitConfiguration =
  icTypeMeta :: TypeMeta
  icBootstrapTokens :: "string list option"
  icNodeRegistration :: NodeRegistrationOptions
  icLocalAPIEndpoint :: LocalAPIEndpoint
  icSkipPhases :: "string list option"
  icPatches :: "string option"

record JoinConfiguration =
  jcTypeMeta :: TypeMeta
  jcNodeRegistration :: NodeRegistrationOptions
  jcCACertPath :: string
  jcDiscovery :: Discovery
  jcControlPlane :: "LocalAPIEndpoint option"
  jcSkipPhases :: "string list option"
  jcPatches :: "string option"

record ClusterConfiguration =
  ccTypeMeta :: TypeMeta
  ccEtcdLocal :: "string option"
  ccEtcdExternal :: "string option"
  ccNetworking :: string
  ccKubernetesVersion :: string
  ccControlPlaneEndpoint :: string
  ccAPIServer :: string
  ccControllerManager :: string
  ccScheduler :: string
  ccDNS :: "string \<times> string"
  ccCertificatesDir :: string
  ccImageRepository :: string
  ccFeatureGates :: "(string \<rightharpoonup> bool) option"
  ccClusterName :: string

definition emptyClusterConfiguration :: ClusterConfiguration where
  "emptyClusterConfiguration = \<lparr>ccTypeMeta = \<lparr>tmetaKind = [], tmetaAPIVersion = []\<rparr>, ccEtcdLocal = None, ccEtcdExternal = None,
     ccNetworking = [], ccKubernetesVersion = [], ccControlPlaneEndpoint = [], ccAPIServer = [], ccControllerManager = [],
     ccScheduler = [], ccDNS = ([], []), ccCertificatesDir = [], ccImageRepository = [], ccFeatureGates = None,
     ccClusterName = []\<rparr>"

record KubeadmConfigSpec =
  kcClusterConfiguration :: "ClusterConfiguration option"
  kcInitConfiguration :: "InitConfiguration option"
  kcJoinConfiguration :: "JoinConfiguration option"
  kcFiles :: "string list option"
  kcDiskSetup :: "string option"
  kcMounts :: "string list option"
  kcPreKubeadmCommands :: "string list option"
  kcPostKubeadmCommands :: "string list option"
  kcUsers :: "string list option"
  kcNTP :: "string option"
  kcFormat :: string
  kcVerbosity :: "int option"
  kcUseExperimentalRetryJoin :: bool
  kcIgnition :: "string option"

record KubeadmConfig =
  kcfgMeta :: ObjMeta
  kcfgSpec :: KubeadmConfigSpec
  kcfgDataSecretName :: "string option"

definition defaultPullPolicy :: "NodeRegistrationOptions \<Rightarrow> NodeRegistrationOptions" where
  "defaultPullPolicy n = (if nrImagePullPolicy n = [] then n\<lparr>nrImagePullPolicy := ''IfNotPresent''\<rparr> else n)"

definition defaultExec :: "Discovery \<Rightarrow> Discovery" where
  "defaultExec d =
     d\<lparr>dsFile := map_option (\<lambda>f. f\<lparr>fdKubeConfig := map_option (\<lambda>kfg. kfg\<lparr>fkExec := map_option (\<lambda>ex.
         if exAPIVersion ex = [] then ex\<lparr>exAPIVersion := ''client.authentication.k8s.io/v1''\<rparr> else ex) (fkExec kfg)\<rparr>)
         (fdKubeConfig f)\<rparr>) (dsFile d)\<rparr>"

definition defaultInit :: "InitConfiguration \<Rightarrow> InitConfiguration" where
  "defaultInit i = i\<lparr>icNodeRegistration := defaultPullPolicy (icNodeRegistration i)\<rparr>"

definition defaultJoin :: "JoinConfiguration \<Rightarrow> JoinConfiguration" where
  "defaultJoin j = j\<lparr>jcNodeRegistration := defaultPullPolicy (jcNodeRegistration j), jcDiscovery := defaultExec (jcDiscovery j)\<rparr>"

definition KubeadmConfigSpec_Default :: "KubeadmConfigSpec \<Rightarrow> KubeadmConfigSpec" where
  "KubeadmConfigSpec_Default c =
     c\<lparr>kcFormat := (if kcFormat c = [] then ''cloud-config'' else kcFormat c),
       kcInitConfiguration := map_option defaultInit (kcInitConfiguration c),
       kcJoinConfiguration := map_option defaultJoin (kcJoinConfiguration c)\<rparr>"

section \<open>KubeadmControlPlane\<close>

record KubeadmControlPlaneMachineTemplate =
  ktLabels :: "strmap option"
  ktAnnotations :: "strmap option"
  ktInfrastructureRef :: ObjectReference
  ktNodeDrainTimeout :: "int option"
  ktNodeVolumeDetachTimeout :: "int option"
  ktNodeDeletionTimeout :: "int option"

record RolloutStrategy =
  rsType :: string
  rsRollingUpdate :: "IntOrString option option"

record RemediationStrategy =
  rmMaxRetry :: "int option"
  rmRetryPeriod :: int
  rmMinHealthyPeriod :: "int option"

record KubeadmControlPlaneSpec =
  ksReplicas :: "int option"
  ksVersion :: string
  ksMachineTemplate :: KubeadmControlPlaneMachineTemplate
  ksKubeadmConfigSpec :: KubeadmConfigSpec
  ksRolloutBefore :: "int option option"
  ksRolloutAfter :: "time option"
  ksRolloutStrategy :: "RolloutStrategy option"
  ksRemediationStrategy :: "RemediationStrategy option"

text \<open>Times of a remediation are kept in nanoseconds.\<close>

record LastRemediationStatus =
  lrMachine :: string
  lrTimestamp :: int
  lrRetryCount :: int

record KubeadmControlPlaneStatus =
  kstSelector :: string
  kstReplicas :: int
  kstVersion :: "string option"
  kstUpdatedReplicas :: int
  kstReadyReplicas :: int
  kstUnavailableReplicas :: int
  kstInitialized :: bool
  kstReady :: bool
  kstFailureReason :: string
  kstFailureMessage :: "string option"
  kstObservedGeneration :: int
  kstConditions :: "Condition list"
  kstLastRemediation :: "LastRemediationStatus option"

record KubeadmControlPlane =
  kcpMeta :: ObjMeta
  kcpSpec :: KubeadmControlPlaneSpec
  kcpStatus :: KubeadmControlPlaneStatus

abbreviation "kcpConditions kcp \<equiv> kstConditions (kcpStatus kcp)"

definition setKcpConditions :: "Condition list \<Rightarrow> KubeadmControlPlane \<Rightarrow> KubeadmControlPlane" where
  "setKcpConditions cs k = k\<lparr>kcpStatus := (kcpStatus k)\<lparr>kstConditions := cs\<rparr>\<rparr>"

interpretation kcp_conditions: condition_object "\<lambda>k. kstConditions (kcpStatus k)" setKcpConditions
  by unfold_locales (simp_all add: setKcpConditions_def)

definition KubeadmClusterConfigurationAnnotation :: string where
  "KubeadmClusterConfigurationAnnotation = ''controlplane.cluster.x-k8s.io/kubeadm-cluster-configuration''"
definition RemediationInProgressAnnotation :: string where
  "RemediationInProgressAnnotation = ''controlplane.cluster.x-k8s.io/remediation-in-progress''"
definition RemediationForAnnotation :: string where
  "RemediationForAnnotation = ''controlplane.cluster.x-k8s.io/remediation-for''"
definition PreTerminateDeleteHookAnnotationPrefix :: string where
  "PreTerminateDeleteHookAnnotationPrefix = ''pre-terminate.delete.hook.machine.cluster.x-k8s.io''"
definition PreTerminateHookCleanupAnnotation :: string where
  "PreTerminateHookCleanupAnnotation = PreTerminateDeleteHookAnnotationPrefix @ ''/kcp-cleanup''"
definition DefaultMinHealthyPeriod :: int where "DefaultMinHealthyPeriod = 3600000000000"

abbreviation "RollingUpdateStrategyType \<equiv> ''RollingUpdate''"
abbreviation "kubeadmControlPlaneKind \<equiv> ''KubeadmControlPlane''"

section \<open>ControlPlane\<close>

text \<open>
  What a reconciliation works on. The machines, the kubeadm configurations and the infrastructure
  objects are read once at its start; \<open>cpHelpers\<close> are the patch helpers, each the copy of the machine it
  was made from; \<open>cpWorkload\<close> says whether the client of the workload cluster has been made already.
\<close>

record ControlPlane =
  cpKCP :: KubeadmControlPlane
  cpCluster :: Cluster
  cpMachines :: Machines
  cpHelpers :: "string \<rightharpoonup> Machine"
  cpTime :: int
  cpConfigs :: "string \<rightharpoonup> KubeadmConfig"
  cpInfra :: "string \<rightharpoonup> ext"
  cpWorkload :: bool

text \<open>
  \<open>cdDecodeCluster\<close> is \<open>json.Unmarshal\<close> of a cluster configuration (nothing for \<open>null\<close>), the diffs are
  \<open>cmp.Diff\<close> (\<open>Inl\<close> when it panics), \<open>cdDomainOrder\<close> the order in which a map of failure domains is
  iterated.
\<close>

record 'u cpDeps =
  cdLib :: "'u unstructuredLib"
  cdDiffCluster :: "ClusterConfiguration \<Rightarrow> ClusterConfiguration \<Rightarrow> string res"
  cdDiffConfig :: "KubeadmConfigSpec \<Rightarrow> KubeadmConfigSpec \<Rightarrow> string res"
  cdDecodeCluster :: "string \<Rightarrow> ClusterConfiguration option res"
  cdGroupKind :: "ObjectReference \<Rightarrow> string"
  cdDomainOrder :: "string list \<Rightarrow> string list"

section \<open>Whether a machine is up to date\<close>

text \<open>\<open>compare.Diff\<close> on any type, from the library's diff.\<close>

definition compareDiff :: "('a \<Rightarrow> 'a \<Rightarrow> string res) \<Rightarrow> 'a \<Rightarrow> 'a \<Rightarrow> (bool \<times> string) res" where
  "compareDiff cmp x y =
     (case cmp x y of
        Inl e \<Rightarrow> Inl (Wrap ''error diffing objects'' e)
      | Inr diff \<Rightarrow>
          let diff' = (if diff \<noteq> [] then TrimSpace (ReplaceTab (ReplaceNBSP diff)) else diff)
          in Inr (diff' = [], diff'))"

text \<open>\<open>%q\<close> of a string of printable ASCII characters.\<close>

definition quoted :: "string \<Rightarrow> string" where
  "quoted s = [CHR 0x22] @ concat (map (\<lambda>c. if c = CHR 0x22 \<or> c = CHR 0x5C then [CHR 0x5C, c] else [c]) s) @ [CHR 0x22]"

definition getAdjustedKcpConfig :: "KubeadmControlPlane \<Rightarrow> KubeadmConfig \<Rightarrow> KubeadmConfigSpec" where
  "getAdjustedKcpConfig kcp machineConfig =
     (let kcpConfig = ksKubeadmConfigSpec (kcpSpec kcp);
          kcpConfig = (if kcJoinConfiguration (kcfgSpec machineConfig) = None
                       then kcpConfig\<lparr>kcJoinConfiguration := None\<rparr> else kcpConfig)
      in if kcInitConfiguration (kcfgSpec machineConfig) = None
         then kcpConfig\<lparr>kcInitConfiguration := None\<rparr> else kcpConfig)"

text \<open>Fields of the two join configurations that are not compared, when both exist.\<close>

definition cleanupJoin :: "JoinConfiguration \<Rightarrow> JoinConfiguration \<Rightarrow> JoinConfiguration" where
  "cleanupJoin kcpJoin join =
     join\<lparr>jcDiscovery := emptyDiscovery,
          jcControlPlane := (if jcControlPlane kcpJoin = None then None else jcControlPlane join),
          jcNodeRegistration := (if jcNodeRegistration kcpJoin = emptyNodeRegistration then emptyNodeRegistration
                                 else jcNodeRegistration join),
          jcTypeMeta := jcTypeMeta kcpJoin\<rparr>"

definition cleanupConfigFields :: "KubeadmConfigSpec \<Rightarrow> KubeadmConfigSpec \<Rightarrow> KubeadmConfigSpec \<times> KubeadmConfigSpec" where
  "cleanupConfigFields kcpConfig machineConfig =
     (let join = (case (kcJoinConfiguration kcpConfig, kcJoinConfiguration machineConfig) of
                    (None, _) \<Rightarrow> None
                  | (Some _, None) \<Rightarrow> None
                  | (Some k, Some m) \<Rightarrow> Some (cleanupJoin k m));
          init = (case (kcInitConfiguration kcpConfig, kcInitConfiguration machineConfig) of
                    (Some k, Some m) \<Rightarrow> Some (m\<lparr>icTypeMeta := icTypeMeta k\<rparr>)
                  | (_, m) \<Rightarrow> m)
      in (kcpConfig\<lparr>kcClusterConfiguration := None,
            kcJoinConfiguration := map_option (\<lambda>j. j\<lparr>jcDiscovery := emptyDiscovery\<rparr>) (kcJoinConfiguration kcpConfig)\<rparr>,
          machineConfig\<lparr>kcClusterConfiguration := None, kcJoinConfiguration := join, kcInitConfiguration := init\<rparr>))"

text \<open>
  The comparison changes the machine's configuration in place, in the collection the reconciliation
  holds: the result carries the configuration it leaves behind.
\<close>

definition matchInitOrJoinConfiguration ::
  "'u cpDeps \<Rightarrow> KubeadmConfig \<Rightarrow> KubeadmControlPlane \<Rightarrow> (bool \<times> string) res \<times> KubeadmConfig" where
  "matchInitOrJoinConfiguration D machineConfig kcp =
     (let kcpConfig = KubeadmConfigSpec_Default (getAdjustedKcpConfig kcp machineConfig);
          (kcpConfig, spec) = cleanupConfigFields kcpConfig (KubeadmConfigSpec_Default (kcfgSpec machineConfig))
      in (wrapR ''failed to match InitConfiguration or JoinConfiguration'' (compareDiff (cdDiffConfig D) spec kcpConfig),
          machineConfig\<lparr>kcfgSpec := spec\<rparr>))"

definition matchClusterConfiguration :: "'u cpDeps \<Rightarrow> KubeadmControlPlane \<Rightarrow> Machine \<Rightarrow> (bool \<times> string) res" where
  "matchClusterConfiguration D kcp machine =
     (case mlookup (mannotations (mchMeta machine)) KubeadmClusterConfigurationAnnotation of
        None \<Rightarrow> Inr (True, [])
      | Some text \<Rightarrow>
          (case cdDecodeCluster D text of
             Inl _ \<Rightarrow> Inr (False, [])
           | Inr decoded \<Rightarrow>
               let machineClusterConfig = (case decoded of None \<Rightarrow> emptyClusterConfiguration | Some c \<Rightarrow> c);
                   kcpClusterConfig = (case kcClusterConfiguration (ksKubeadmConfigSpec (kcpSpec kcp)) of
                                         None \<Rightarrow> emptyClusterConfiguration | Some c \<Rightarrow> c)
               in wrapR ''failed to match ClusterConfiguration''
                    (compareDiff (cdDiffCluster D) (machineClusterConfig\<lparr>ccDNS := ccDNS kcpClusterConfig\<rparr>) kcpClusterConfig)))"

type_synonym configs = "string \<rightharpoonup> KubeadmConfig"

definition matchesKubeadmBootstrapConfig ::
  "'u cpDeps \<Rightarrow> configs \<Rightarrow> KubeadmControlPlane \<Rightarrow> Machine \<Rightarrow> (string \<times> bool) res \<times> configs" where
  "matchesKubeadmBootstrapConfig D machineConfigs kcp machine =
     (case wrapR ''failed to match KubeadmConfig'' (matchClusterConfiguration D kcp machine) of
        Inl e \<Rightarrow> (Inl e, machineConfigs)
      | Inr (match, diff) \<Rightarrow>
          if \<not> match then (Inr (''Machine KubeadmConfig ClusterConfiguration is outdated: diff: '' @ diff, False), machineConfigs)
          else if bConfigRef (spBootstrap (mchSpec machine)) = None then (Inr ([], True), machineConfigs)
          else
            (case machineConfigs (mchName machine) of
               None \<Rightarrow> (Inr ([], True), machineConfigs)
             | Some machineConfig \<Rightarrow>
                 let (r, machineConfig') = matchInitOrJoinConfiguration D machineConfig kcp;
                     machineConfigs' = machineConfigs(mchName machine \<mapsto> machineConfig')
                 in (case wrapR ''failed to match KubeadmConfig'' r of
                       Inl e \<Rightarrow> (Inl e, machineConfigs')
                     | Inr (match', diff') \<Rightarrow>
                         if \<not> match'
                         then (Inr (''Machine KubeadmConfig InitConfiguration or JoinConfiguration are outdated: diff: '' @ diff', False), machineConfigs')
                         else (Inr ([], True), machineConfigs'))))"

definition matchesTemplateClonedFrom :: "'u cpDeps \<Rightarrow> (string \<rightharpoonup> ext) \<Rightarrow> KubeadmControlPlane \<Rightarrow> Machine \<Rightarrow> string \<times> bool" where
  "matchesTemplateClonedFrom D infraConfigs kcp machine =
     (case infraConfigs (mchName machine) of
        None \<Rightarrow> ([], True)
      | Some infraObj \<Rightarrow>
          let anns = mannotations (xMeta infraObj); ref = ktInfrastructureRef (ksMachineTemplate (kcpSpec kcp)) in
          (case (mlookup anns TemplateClonedFromNameAnnotation, mlookup anns TemplateClonedFromGroupKindAnnotation) of
             (Some clonedFromName, Some clonedFromGroupKind) \<Rightarrow>
               if clonedFromName \<noteq> refName ref \<or> clonedFromGroupKind \<noteq> cdGroupKind D ref
               then (Sprintf ''Infrastructure template on KCP rotated from %s %s to %s %s''
                       [clonedFromGroupKind, clonedFromName, cdGroupKind D ref, refName ref], False)
               else ([], True)
           | _ \<Rightarrow> ([], True)))"

definition matchesMachineSpec ::
  "'u cpDeps \<Rightarrow> (string \<rightharpoonup> ext) \<Rightarrow> configs \<Rightarrow> KubeadmControlPlane \<Rightarrow> Machine \<Rightarrow> (string \<times> bool) res \<times> configs" where
  "matchesMachineSpec D infraConfigs machineConfigs kcp machine =
     (let versionReasons = (if \<not> MatchesKubernetesVersion (ksVersion (kcpSpec kcp)) machine
            then [Sprintf ''Machine version %q is not equal to KCP version %q''
                    [quoted (case spVersion (mchSpec machine) of None \<Rightarrow> [] | Some v \<Rightarrow> v), quoted (ksVersion (kcpSpec kcp))]]
            else []);
          (r, machineConfigs') = matchesKubeadmBootstrapConfig D machineConfigs kcp machine
      in (case r of
            Inl e \<Rightarrow> (Inl (Wrap ''failed to match Machine spec'' e), machineConfigs')
          | Inr (reason, match) \<Rightarrow>
              let (reason', match') = matchesTemplateClonedFrom D infraConfigs kcp machine;
                  mismatchReasons = versionReasons @ (if \<not> match then [reason] else []) @ (if \<not> match' then [reason'] else [])
              in (Inr (if length mismatchReasons > 0 then (Join '','' mismatchReasons, False) else ([], True)), machineConfigs')))"

definition NeedsRollout ::
  "'u cpDeps \<Rightarrow> int \<Rightarrow> (string \<rightharpoonup> ext) \<Rightarrow> configs \<Rightarrow> KubeadmControlPlane \<Rightarrow> Machine \<Rightarrow> (string \<times> bool) res \<times> configs" where
  "NeedsRollout D reconciliationTime infraConfigs machineConfigs kcp machine =
     (let before = (if ShouldRolloutBefore reconciliationTime (ksRolloutBefore (kcpSpec kcp)) machine
                    then [''certificates will expire soon, rolloutBefore expired''] else []);
          after = (if ShouldRolloutAfter (Some reconciliationTime) (ksRolloutAfter (kcpSpec kcp)) machine
                   then [''rolloutAfter expired''] else []);
          (r, machineConfigs') = matchesMachineSpec D infraConfigs machineConfigs kcp machine
      in (case r of
            Inl e \<Rightarrow> (Inl (Wrap ''failed to determine if Machine needs rollout'' e), machineConfigs')
          | Inr (mismatchReason, match) \<Rightarrow>
              let rolloutReasons = before @ after @ (if \<not> match then [mismatchReason] else [])
              in (Inr (if length rolloutReasons > 0
                       then (Sprintf ''Machine %s needs rollout: %s'' [mchName machine, Join '','' rolloutReasons], True)
                       else ([], False)), machineConfigs')))"

text \<open>Both loops stop at the first error; the configurations compared so far stay changed.\<close>

fun rolloutLoop ::
  "'u cpDeps \<Rightarrow> ControlPlane \<Rightarrow> Machines \<Rightarrow> configs \<Rightarrow> Machines \<Rightarrow> Machines \<Rightarrow> (Machines \<times> Machines) res \<times> configs" where
  "rolloutLoop D c [] cfgs outdated upToDate = (Inr (outdated, upToDate), cfgs)"
| "rolloutLoop D c (m # ms) cfgs outdated upToDate =
     (case NeedsRollout D (cpTime c) (cpInfra c) cfgs (cpKCP c) m of
        (Inl e, cfgs') \<Rightarrow> (Inl e, cfgs')
      | (Inr (reason, needsRollout), cfgs') \<Rightarrow>
          if needsRollout then rolloutLoop D c ms cfgs' (insertOne m outdated) upToDate
          else rolloutLoop D c ms cfgs' outdated (insertOne m upToDate))"

definition MachinesNeedingRollout :: "'u cpDeps \<Rightarrow> ControlPlane \<Rightarrow> Machines res \<times> configs" where
  "MachinesNeedingRollout D c =
     (case rolloutLoop D c (Filter (cpMachines c) [NotF HasDeletionTimestamp]) (cpConfigs c) [] [] of
        (Inl e, cfgs) \<Rightarrow> (Inl e, cfgs)
      | (Inr (outdated, _), cfgs) \<Rightarrow> (Inr outdated, cfgs))"

definition UpToDateMachines :: "'u cpDeps \<Rightarrow> ControlPlane \<Rightarrow> Machines res \<times> configs" where
  "UpToDateMachines D c =
     (case rolloutLoop D c (cpMachines c) (cpConfigs c) [] [] of
        (Inl e, cfgs) \<Rightarrow> (Inl e, cfgs)
      | (Inr (_, upToDate), cfgs) \<Rightarrow> (Inr upToDate, cfgs))"

section \<open>Choosing machines and failure domains\<close>

definition controlPlaneDomains :: "ControlPlane \<Rightarrow> FailureDomains" where
  "controlPlaneDomains c = FilterControlPlane (clFailureDomains (clStatus (cpCluster c)))"

definition MachineWithDeleteAnnotation :: "Machines \<Rightarrow> Machines" where
  "MachineWithDeleteAnnotation machines = Filter machines [HasAnnotationKey DeleteMachineAnnotation]"

definition FailureDomainWithMostMachines :: "'u cpDeps \<Rightarrow> ControlPlane \<Rightarrow> Machines \<Rightarrow> string option" where
  "FailureDomainWithMostMachines D c machines =
     (let notInFailureDomains = Filter machines [NotF (InFailureDomains (map Some (GetIDs (controlPlaneDomains c))))]
      in case Oldest notInFailureDomains of
           Some m \<Rightarrow> spFailureDomain (mchSpec m)
         | None \<Rightarrow> PickMost (cdDomainOrder D) (controlPlaneDomains c) (cpMachines c) machines)"

definition MachineInFailureDomainWithMostMachines :: "'u cpDeps \<Rightarrow> ControlPlane \<Rightarrow> Machines \<Rightarrow> Machine res" where
  "MachineInFailureDomainWithMostMachines D c machines =
     (case Oldest (Filter machines [InFailureDomains [FailureDomainWithMostMachines D c machines]]) of
        None \<Rightarrow> Inl (Err ''failed to pick control plane Machine to mark for deletion'')
      | Some m \<Rightarrow> Inr m)"

definition NextFailureDomainForScaleUp :: "'u cpDeps \<Rightarrow> ControlPlane \<Rightarrow> string option res \<times> configs" where
  "NextFailureDomainForScaleUp D c =
     (if length (controlPlaneDomains c) = 0 then (Inr None, cpConfigs c)
      else case UpToDateMachines D c of
        (Inl e, cfgs) \<Rightarrow> (Inl (Wrap ''failed to determine next failure domain for scale up'' e), cfgs)
      | (Inr upToDate, cfgs) \<Rightarrow> (Inr (PickFewest (cdDomainOrder D) (controlPlaneDomains c) upToDate), cfgs))"

definition InitialControlPlaneConfig :: "ControlPlane \<Rightarrow> KubeadmConfigSpec" where
  "InitialControlPlaneConfig c = (ksKubeadmConfigSpec (kcpSpec (cpKCP c)))\<lparr>kcJoinConfiguration := None\<rparr>"

definition JoinControlPlaneConfig :: "ControlPlane \<Rightarrow> KubeadmConfigSpec" where
  "JoinControlPlaneConfig c = (ksKubeadmConfigSpec (kcpSpec (cpKCP c)))\<lparr>kcInitConfiguration := None\<rparr>"

definition HasDeletingMachine :: "ControlPlane \<Rightarrow> bool" where
  "HasDeletingMachine c \<longleftrightarrow> length (Filter (cpMachines c) [HasDeletionTimestamp]) > 0"

definition DeletingMachines :: "ControlPlane \<Rightarrow> Machines" where
  "DeletingMachines c = Filter (cpMachines c) [HasDeletionTimestamp]"

definition IsEtcdManaged :: "ControlPlane \<Rightarrow> bool" where
  "IsEtcdManaged c =
     (case kcClusterConfiguration (ksKubeadmConfigSpec (kcpSpec (cpKCP c))) of
        None \<Rightarrow> True
      | Some cc \<Rightarrow> ccEtcdExternal cc = None)"

definition UnhealthyMachinesWithUnhealthyControlPlaneComponents :: "ControlPlane \<Rightarrow> Machines \<Rightarrow> Machines" where
  "UnhealthyMachinesWithUnhealthyControlPlaneComponents c machines =
     Filter machines [HasUnhealthyControlPlaneComponents (IsEtcdManaged c)]"

definition UnhealthyMachinesByMachineHealthCheck :: "ControlPlane \<Rightarrow> Machines" where
  "UnhealthyMachinesByMachineHealthCheck c = Filter (cpMachines c) [HasUnhealthyCondition]"

definition HealthyMachinesByMachineHealthCheck :: "ControlPlane \<Rightarrow> Machines" where
  "HealthyMachinesByMachineHealthCheck c = Filter (cpMachines c) [NotF HasUnhealthyCondition]"

definition HasUnhealthyMachineByMachineHealthCheck :: "ControlPlane \<Rightarrow> bool" where
  "HasUnhealthyMachineByMachineHealthCheck c \<longleftrightarrow> length (UnhealthyMachinesByMachineHealthCheck c) > 0"

definition HasHealthyMachineStillProvisioning :: "ControlPlane \<Rightarrow> bool" where
  "HasHealthyMachineStillProvisioning c \<longleftrightarrow> length (Filter (HealthyMachinesByMachineHealthCheck c) [NotF HasNode]) > 0"

definition SetPatchHelpers :: "(string \<rightharpoonup> Machine) \<Rightarrow> ControlPlane \<Rightarrow> ControlPlane" where
  "SetPatchHelpers patchHelpers c = c\<lparr>cpHelpers := cpHelpers c ++ patchHelpers\<rparr>"

section \<open>Facts\<close>

lemma defaultPullPolicy_idem [simp]: "defaultPullPolicy (defaultPullPolicy n) = defaultPullPolicy n"
  by (simp add: defaultPullPolicy_def)

lemma nrImagePullPolicy_default: "nrImagePullPolicy (defaultPullPolicy n) \<noteq> []"
  by (simp add: defaultPullPolicy_def)

lemma defaultPullPolicy_not_empty [simp]: "defaultPullPolicy n \<noteq> emptyNodeRegistration"
  using nrImagePullPolicy_default [of n] by (auto simp: emptyNodeRegistration_def)

lemma defaultExec_empty [simp]: "defaultExec emptyDiscovery = emptyDiscovery"
  by (simp add: defaultExec_def emptyDiscovery_def)

lemma cleanupJoin_idem [simp]: "cleanupJoin k (cleanupJoin k j) = cleanupJoin k j"
  by (simp add: cleanupJoin_def)

lemma defaultJoin_cleanup [simp]:
  "defaultJoin (cleanupJoin (defaultJoin k) (defaultJoin j)) = cleanupJoin (defaultJoin k) (defaultJoin j)"
  by (simp add: cleanupJoin_def defaultJoin_def)

lemma defaultInit_idem [simp]: "defaultInit (defaultInit i\<lparr>icTypeMeta := t\<rparr>) = defaultInit i\<lparr>icTypeMeta := t\<rparr>"
  "defaultInit (defaultInit i) = defaultInit i"
  by (simp_all add: defaultInit_def)

text \<open>The two configurations that are compared, from those of the control plane and of the machine.\<close>

definition comparedConfigs :: "KubeadmControlPlane \<Rightarrow> KubeadmConfig \<Rightarrow> KubeadmConfigSpec \<times> KubeadmConfigSpec" where
  "comparedConfigs kcp cfg =
     cleanupConfigFields (KubeadmConfigSpec_Default (getAdjustedKcpConfig kcp cfg)) (KubeadmConfigSpec_Default (kcfgSpec cfg))"

lemma matchInitOrJoinConfiguration_eq:
  "matchInitOrJoinConfiguration D cfg kcp =
    (wrapR ''failed to match InitConfiguration or JoinConfiguration''
       (compareDiff (cdDiffConfig D) (snd (comparedConfigs kcp cfg)) (fst (comparedConfigs kcp cfg))),
     cfg\<lparr>kcfgSpec := snd (comparedConfigs kcp cfg)\<rparr>)"
  by (simp add: matchInitOrJoinConfiguration_def comparedConfigs_def Let_def split: prod.splits)

lemma comparedConfigs_again:
  "comparedConfigs kcp (cfg\<lparr>kcfgSpec := snd (comparedConfigs kcp cfg)\<rparr>) = comparedConfigs kcp cfg"
proof -
  let ?k = "ksKubeadmConfigSpec (kcpSpec kcp)" and ?m = "kcfgSpec cfg"
  show ?thesis
    by (cases "kcJoinConfiguration ?m"; cases "kcJoinConfiguration ?k"; cases "kcInitConfiguration ?m"; cases "kcInitConfiguration ?k";
        simp add: comparedConfigs_def cleanupConfigFields_def getAdjustedKcpConfig_def KubeadmConfigSpec_Default_def Let_def)
qed

text \<open>
  What the comparison leaves of the machine's configuration compares like the original and is not
  changed by a second comparison.
\<close>

lemma matchInitOrJoinConfiguration_again:
  assumes "matchInitOrJoinConfiguration D cfg kcp = (r, cfg')"
  shows "matchInitOrJoinConfiguration D cfg' kcp = (r, cfg')"
  using assms by (auto simp: matchInitOrJoinConfiguration_eq comparedConfigs_again)

text \<open>Two collections of configurations whose entries compare alike.\<close>

definition compareAlike :: "'u cpDeps \<Rightarrow> KubeadmControlPlane \<Rightarrow> configs \<Rightarrow> configs \<Rightarrow> bool" where
  "compareAlike D kcp a b \<longleftrightarrow>
     (\<forall>n. map_option (\<lambda>c. fst (matchInitOrJoinConfiguration D c kcp)) (a n) =
          map_option (\<lambda>c. fst (matchInitOrJoinConfiguration D c kcp)) (b n))"

lemma bootstrap_alike:
  assumes "compareAlike D kcp a b"
  shows "fst (matchesKubeadmBootstrapConfig D a kcp m) = fst (matchesKubeadmBootstrapConfig D b kcp m)"
proof -
  have "map_option (\<lambda>c. fst (matchInitOrJoinConfiguration D c kcp)) (a (mchName m)) =
      map_option (\<lambda>c. fst (matchInitOrJoinConfiguration D c kcp)) (b (mchName m))"
    using assms by (simp add: compareAlike_def)
  then show ?thesis
    by (cases "a (mchName m)"; cases "b (mchName m)")
      (auto simp: matchesKubeadmBootstrapConfig_def Let_def split: sum.splits prod.splits)
qed

lemma bootstrap_leaves_alike: "compareAlike D kcp (snd (matchesKubeadmBootstrapConfig D a kcp m)) a"
proof -
  have "fst (matchInitOrJoinConfiguration D (snd (matchInitOrJoinConfiguration D c kcp)) kcp) =
      fst (matchInitOrJoinConfiguration D c kcp)" for c
    using matchInitOrJoinConfiguration_again [of D c kcp] by (metis prod.collapse)
  moreover have "snd (matchesKubeadmBootstrapConfig D a kcp m) = a \<or> (\<exists>c. a (mchName m) = Some c \<and>
      snd (matchesKubeadmBootstrapConfig D a kcp m) = a(mchName m \<mapsto> snd (matchInitOrJoinConfiguration D c kcp)))"
    by (auto simp: matchesKubeadmBootstrapConfig_def Let_def split: sum.splits prod.splits option.splits)
  ultimately show ?thesis by (auto simp: compareAlike_def)
qed

lemma NeedsRollout_configs:
  "snd (NeedsRollout D t infra a kcp m) = snd (matchesKubeadmBootstrapConfig D a kcp m)"
  by (simp add: NeedsRollout_def matchesMachineSpec_def Let_def split: sum.splits prod.splits)

lemma NeedsRollout_alike:
  assumes "compareAlike D kcp a b"
  shows "fst (NeedsRollout D t infra a kcp m) = fst (NeedsRollout D t infra b kcp m)"
proof -
  obtain r ca cb where "matchesKubeadmBootstrapConfig D a kcp m = (r, ca)" "matchesKubeadmBootstrapConfig D b kcp m = (r, cb)"
    using bootstrap_alike [OF assms, of m] by (metis prod.collapse)
  then have "fst (matchesMachineSpec D infra a kcp m) = fst (matchesMachineSpec D infra b kcp m)"
    by (cases r) (simp_all add: matchesMachineSpec_def Let_def case_prod_beta)
  then obtain r' ca' cb' where "matchesMachineSpec D infra a kcp m = (r', ca')" "matchesMachineSpec D infra b kcp m = (r', cb')"
    by (metis prod.collapse)
  then show ?thesis by (cases r') (simp_all add: NeedsRollout_def Let_def case_prod_beta)
qed

text \<open>
  (C40) Deciding whether a machine needs a rollout strips fields from the kubeadm configuration the
  reconciliation holds, in place. No later decision of the same reconciliation depends on it: whether
  any machine, the same or another, needs a rollout, and why, is the same before and after.
\<close>

theorem rollout_decisions_stable:
  "fst (NeedsRollout D t infra (snd (NeedsRollout D t infra cfgs kcp m)) kcp m') = fst (NeedsRollout D t infra cfgs kcp m')"
  using NeedsRollout_alike [OF bootstrap_leaves_alike] by (simp add: NeedsRollout_configs)

text \<open>A diff library that reports exactly the differences, in a text that is not blank.\<close>

definition diffOk :: "('a \<Rightarrow> 'a \<Rightarrow> string res) \<Rightarrow> bool" where
  "diffOk cmp \<longleftrightarrow> (\<forall>x y. \<exists>b d. compareDiff cmp x y = Inr (b, d) \<and> b = (x = y))"

text \<open>
  A machine whose join configuration registers its node with other options than the defaults is
  found outdated also when the control plane's own join configuration leaves the registration empty.
  The clean-up that is meant to ignore the machine's registration in that case runs after the
  defaults have been filled in, when the registration is no longer empty, and never applies.
\<close>

theorem empty_registration_rolls_out:
  assumes "diffOk (cdDiffConfig D)"
    and "kcJoinConfiguration (ksKubeadmConfigSpec (kcpSpec kcp)) = Some k" and "jcNodeRegistration k = emptyNodeRegistration"
    and "kcJoinConfiguration (kcfgSpec cfg) = Some j"
    and "defaultPullPolicy (jcNodeRegistration j) \<noteq> defaultPullPolicy emptyNodeRegistration"
  shows "\<exists>diff. fst (matchInitOrJoinConfiguration D cfg kcp) = Inr (False, diff)"
proof -
  let ?c = "comparedConfigs kcp cfg"
  have "kcJoinConfiguration (snd ?c) = Some (cleanupJoin (defaultJoin k) (defaultJoin j))"
    using assms(2,4)
    by (cases "kcInitConfiguration (kcfgSpec cfg)")
      (simp_all add: comparedConfigs_def cleanupConfigFields_def getAdjustedKcpConfig_def KubeadmConfigSpec_Default_def Let_def)
  moreover have "kcJoinConfiguration (fst ?c) = Some (defaultJoin k\<lparr>jcDiscovery := emptyDiscovery\<rparr>)"
    using assms(2,4)
    by (cases "kcInitConfiguration (kcfgSpec cfg)")
      (simp_all add: comparedConfigs_def cleanupConfigFields_def getAdjustedKcpConfig_def KubeadmConfigSpec_Default_def Let_def)
  moreover have "cleanupJoin (defaultJoin k) (defaultJoin j) \<noteq> defaultJoin k\<lparr>jcDiscovery := emptyDiscovery\<rparr>"
  proof
    assume "cleanupJoin (defaultJoin k) (defaultJoin j) = defaultJoin k\<lparr>jcDiscovery := emptyDiscovery\<rparr>"
    then have "jcNodeRegistration (cleanupJoin (defaultJoin k) (defaultJoin j)) = jcNodeRegistration (defaultJoin k)" by simp
    with assms(3,5) show False by (simp add: cleanupJoin_def defaultJoin_def)
  qed
  ultimately have "kcJoinConfiguration (snd ?c) \<noteq> kcJoinConfiguration (fst ?c)" by simp
  then have "snd ?c \<noteq> fst ?c" by metis
  moreover obtain b d where "compareDiff (cdDiffConfig D) (snd ?c) (fst ?c) = Inr (b, d)" "b = (snd ?c = fst ?c)"
    using assms(1) unfolding diffOk_def by blast
  ultimately have "compareDiff (cdDiffConfig D) (snd ?c) (fst ?c) = Inr (False, d)" by simp
  then show ?thesis by (simp add: matchInitOrJoinConfiguration_eq wrapR_def)
qed

definition sampleDeps :: "string cpDeps" where
  "sampleDeps = \<lparr>cdLib = sampleLib, cdDiffCluster = \<lambda>a b. Inr (if a = b then [] else ''diff''),
     cdDiffConfig = \<lambda>a b. Inr (if a = b then [] else ''diff''), cdDecodeCluster = \<lambda>_. Inr None,
     cdGroupKind = \<lambda>r. refKind r, cdDomainOrder = id\<rparr>"

definition sampleJoin :: JoinConfiguration where
  "sampleJoin = \<lparr>jcTypeMeta = \<lparr>tmetaKind = [], tmetaAPIVersion = []\<rparr>, jcNodeRegistration = emptyNodeRegistration, jcCACertPath = [],
     jcDiscovery = emptyDiscovery, jcControlPlane = None, jcSkipPhases = None, jcPatches = None\<rparr>"

definition sampleConfigSpec :: KubeadmConfigSpec where
  "sampleConfigSpec = \<lparr>kcClusterConfiguration = None, kcInitConfiguration = None, kcJoinConfiguration = Some sampleJoin,
     kcFiles = None, kcDiskSetup = None, kcMounts = None, kcPreKubeadmCommands = None, kcPostKubeadmCommands = None,
     kcUsers = None, kcNTP = None, kcFormat = [], kcVerbosity = None, kcUseExperimentalRetryJoin = False, kcIgnition = None\<rparr>"

definition sampleKCP :: KubeadmControlPlane where
  "sampleKCP = \<lparr>kcpMeta = emptyMeta\<lparr>mname := ''kcp''\<rparr>,
     kcpSpec = \<lparr>ksReplicas = Some 3, ksVersion = ''v1.30'',
       ksMachineTemplate = \<lparr>ktLabels = None, ktAnnotations = None, ktInfrastructureRef = emptyRef, ktNodeDrainTimeout = None,
         ktNodeVolumeDetachTimeout = None, ktNodeDeletionTimeout = None\<rparr>,
       ksKubeadmConfigSpec = sampleConfigSpec, ksRolloutBefore = None, ksRolloutAfter = None, ksRolloutStrategy = None,
       ksRemediationStrategy = None\<rparr>,
     kcpStatus = \<lparr>kstSelector = [], kstReplicas = 3, kstVersion = None, kstUpdatedReplicas = 3, kstReadyReplicas = 3,
       kstUnavailableReplicas = 0, kstInitialized = True, kstReady = True, kstFailureReason = [], kstFailureMessage = None,
       kstObservedGeneration = 0, kstConditions = [], kstLastRemediation = None\<rparr>\<rparr>"

definition sampleNamedConfig :: KubeadmConfig where
  "sampleNamedConfig = \<lparr>kcfgMeta = emptyMeta, kcfgSpec = sampleConfigSpec\<lparr>kcJoinConfiguration :=
     Some (sampleJoin\<lparr>jcNodeRegistration := emptyNodeRegistration\<lparr>nrName := ''test''\<rparr>\<rparr>)\<rparr>, kcfgDataSecretName = None\<rparr>"

lemma diffOk_sample: "diffOk (cdDiffConfig sampleDeps)"
  by (simp add: diffOk_def sampleDeps_def compareDiff_def TrimSpace_def ReplaceTab_def isSpace_def)

theorem empty_registration_rolls_out_witness:
  "\<exists>diff. fst (matchInitOrJoinConfiguration sampleDeps sampleNamedConfig sampleKCP) = Inr (False, diff)"
proof (rule empty_registration_rolls_out [OF diffOk_sample, where k = sampleJoin and
      j = "sampleJoin\<lparr>jcNodeRegistration := emptyNodeRegistration\<lparr>nrName := ''test''\<rparr>\<rparr>"])
qed (simp_all add: sampleKCP_def sampleConfigSpec_def sampleJoin_def sampleNamedConfig_def emptyNodeRegistration_def defaultPullPolicy_def)

end
