(* ===== verification/KcpEtcd.thy ===== *)
theory KcpEtcd
  imports KcpControlPlane
begin

text \<open>
  The state and the environment of a reconciliation of a KubeadmControlPlane, and the operations on the
  etcd cluster of the workload cluster
  (\<open>src/cluster-api/controlplane/kubeadm/internal/workload_cluster_etcd.go\<close>, \<open>workload_cluster.go\<close>,
  \<open>etcd/util/util.go\<close>).

  A run keeps the control plane object it works on and the list of API calls it has made. What the
  management cluster, the workload cluster, etcd, the clock and the name generator answer is the
  environment \<open>kEnv\<close>, whose answers may depend on every call made before. Patch helpers, server-side
  apply and the operations on the workload cluster that have nothing to do with machines or etcd
  are single calls.
\<close>

section \<open>Calls, state and environment\<close>

text \<open>Operations on the workload cluster that the controller only triggers.\<close>

datatype workloadOp =
    ReconcileKubeletRBACRole semver
  | ReconcileKubeletRBACBinding semver
  | AllowBootstrapTokensToGetNodes
  | AllowClusterAdminPermissions semver
  | UpdateClusterConfiguration semver "(ClusterConfiguration \<Rightarrow> ClusterConfiguration) list"
  | UpdateKubeletConfigMap semver
  | UpdateKubeProxyImageInfo semver
  | UpdateCoreDNS semver

record Secret =
  scMeta :: ObjMeta
  scType :: string

text \<open>What the controller reads of a static pod.\<close>

record ContainerStatus =
  csLastExitCode :: "int option"
  csWaiting :: "string option"
  csTerminated :: "string option"

record Pod =
  podPhase :: string
  podConditions :: "(string \<times> string) list"
  podContainers :: "ContainerStatus list"

datatype kCall =
    KHelper string
  | KPatchMachine Machine Machine
  | KWorkload string string
  | KListNodes string
  | KReadConfigMap
  | KEtcdFirst "string list"
  | KEtcdLeader "string list"
  | KEtcdMembers
  | KMoveLeader nat
  | KRemoveMember nat
  | KRemoveEndpoint string
  | KWorkloadOp workloadOp
  | KDeleteMachine Machine
  | KCleanFields string
  | KApplyMachine "Machine option" Machine
  | KDropExternal ext
  | KDropConfig KubeadmConfig
  | KApplyExternal string ObjMeta strmap "strmap option"
  | KReadExternal ObjectReference string
  | KReadConfig string string
  | KCreateExternal ext
  | KCreateConfig KubeadmConfig
  | KDeleteObject ObjectReference
  | KUpdateContract ObjectReference
  | KPatchExternalOwners ext ext
  | KLookupCertificates OwnerReference
  | KReadKubeconfig
  | KCreateKubeconfig string OwnerReference
  | KRegenerateKubeconfig Secret
  | KListSecrets string
  | KPatchSecret Secret Secret
  | KUpdateSecret Secret
  | KReadPod string
  | KExpiry string KubeadmConfig
  | KPatchConfig KubeadmConfig KubeadmConfig
  | KListMachines bool
  | KListPools
  | KReadKCP
  | KReadOwners string
  | KPatchKCP KubeadmControlPlane KubeadmControlPlane bool

record kState =
  kCP :: ControlPlane
  kTrace :: "kCall list"

record EtcdMember =
  emClusterID :: nat
  emID :: nat
  emName :: string
  emAlarms :: "int list"

record 'u kEnv =
  kDeps :: "'u cpDeps"
  kOutcome :: "kCall list \<Rightarrow> kCall \<Rightarrow> err option"
  kNow :: "kCall list \<Rightarrow> int"
  kNodes :: "kCall list \<Rightarrow> Node list"
  kLeaderID :: "kCall list \<Rightarrow> nat"
  kMembers :: "kCall list \<Rightarrow> EtcdMember list"
  kName :: "kCall list \<Rightarrow> string \<Rightarrow> string"
  kExternal :: "kCall list \<Rightarrow> ext"
  kConfig :: "kCall list \<Rightarrow> KubeadmConfig"
  kCreatedExternal :: "kCall list \<Rightarrow> ext \<Rightarrow> ext"
  kCreatedConfig :: "kCall list \<Rightarrow> KubeadmConfig \<Rightarrow> KubeadmConfig"
  kApplied :: "kCall list \<Rightarrow> Machine \<Rightarrow> Machine"
  kPatched :: "kCall list \<Rightarrow> Machine \<Rightarrow> Machine"
  kCleaned :: "kCall list \<Rightarrow> Machine \<Rightarrow> Machine"
  kDroppedExternal :: "kCall list \<Rightarrow> ext \<Rightarrow> ext"
  kDroppedConfig :: "kCall list \<Rightarrow> KubeadmConfig \<Rightarrow> KubeadmConfig"
  kContract :: "kCall list \<Rightarrow> ObjectReference \<Rightarrow> ObjectReference"
  kEtcdErrors :: "kCall list \<Rightarrow> string list"
  kPod :: "kCall list \<Rightarrow> Pod"
  kSecret :: "kCall list \<Rightarrow> Secret"
  kSecrets :: "kCall list \<Rightarrow> Secret list"
  kCertificateSecrets :: "kCall list \<Rightarrow> Secret option list"
  kNeedsRotation :: "Secret \<Rightarrow> bool res"
  kCertificateMissing :: "err \<Rightarrow> bool"
  kExpiryDate :: "kCall list \<Rightarrow> string"
  kMachinesRead :: "kCall list \<Rightarrow> Machine list"
  kPoolCount :: "kCall list \<Rightarrow> nat"
  kKcpRead :: "kCall list \<Rightarrow> KubeadmControlPlane"
  kOwner :: "kCall list \<Rightarrow> Cluster option"
  kEncodeRemediation :: "string \<Rightarrow> int \<Rightarrow> int \<Rightarrow> string res"
  kDecodeRemediation :: "string \<Rightarrow> (string \<times> int \<times> int) res"
  kEncodeCluster :: "ClusterConfiguration option \<Rightarrow> string res"
  kGroup :: "string \<Rightarrow> string res"
  kSetController :: "KubeadmControlPlane \<Rightarrow> ObjMeta \<Rightarrow> ObjMeta res"
  kSelectorFor :: "string \<Rightarrow> strmap option \<Rightarrow> bool"
  kSelectorString :: "string \<Rightarrow> string"
  kLabelErrors :: "string \<Rightarrow> string list"
  kSemverString :: "semver \<Rightarrow> string"
  kDurationString :: "int \<Rightarrow> string"
  kIntValue :: "IntOrString \<Rightarrow> int"
  kErrText :: "err \<Rightarrow> string"
  kClusterLocked :: "err \<Rightarrow> bool"
  kConnectionError :: "err \<Rightarrow> bool"
  kMachinePools :: bool
  kDeprecatedNaming :: bool

abbreviation "kLib E \<equiv> cdLib (kDeps E)"

definition kNowSec :: "'u kEnv \<Rightarrow> kCall list \<Rightarrow> time" where
  "kNowSec E cs = kNow E cs div 1000000000"

text \<open>One call: it is recorded, and fails if the server says so.\<close>

definition kcall :: "'u kEnv \<Rightarrow> kCall \<Rightarrow> (kState, unit) comp" where
  "kcall E c s =
     (case kOutcome E (kTrace s) c of
        None \<Rightarrow> (Inr (), s\<lparr>kTrace := kTrace s @ [c]\<rparr>)
      | Some e \<Rightarrow> (Inl e, s\<lparr>kTrace := kTrace s @ [c]\<rparr>))"

definition kread :: "'u kEnv \<Rightarrow> kCall \<Rightarrow> (kCall list \<Rightarrow> 'a) \<Rightarrow> (kState, 'a) comp" where
  "kread E c answer = bindE (kcall E c) (\<lambda>_. getsE (\<lambda>s. answer (kTrace s)))"

definition changeCP :: "(ControlPlane \<Rightarrow> ControlPlane) \<Rightarrow> (kState, unit) comp" where
  "changeCP f = modifyE (\<lambda>s. s\<lparr>kCP := f (kCP s)\<rparr>)"

definition changeKCP :: "(KubeadmControlPlane \<Rightarrow> KubeadmControlPlane) \<Rightarrow> (kState, unit) comp" where
  "changeKCP f = changeCP (\<lambda>c. c\<lparr>cpKCP := f (cpKCP c)\<rparr>)"

text \<open>The conditions of the control plane object and of one machine, changed at the current time.\<close>

definition markKCP :: "'u kEnv \<Rightarrow> (time \<Rightarrow> Condition list \<Rightarrow> Condition list) \<Rightarrow> (kState, unit) comp" where
  "markKCP E f = bindE (getsE (\<lambda>s. kNowSec E (kTrace s))) (\<lambda>now.
     changeKCP (\<lambda>k. setKcpConditions (f now (kcpConditions k)) k))"

text \<open>Machines of a collection are pointers: a change through one is seen through every collection.\<close>

definition putMachine :: "Machine \<Rightarrow> Machines \<Rightarrow> Machines" where
  "putMachine m ms = map (\<lambda>x. if mchName x = mchName m then m else x) ms"

definition storeMachine :: "Machine \<Rightarrow> (kState, unit) comp" where
  "storeMachine m = changeCP (\<lambda>c. c\<lparr>cpMachines := putMachine m (cpMachines c)\<rparr>)"

definition currentMachine :: "string \<Rightarrow> kState \<Rightarrow> Machine option" where
  "currentMachine name s = find (\<lambda>x. mchName x = name) (cpMachines (kCP s))"

text \<open>A condition of a machine, changed through the pointer the collection holds.\<close>

definition markMachine :: "'u kEnv \<Rightarrow> string \<Rightarrow> (time \<Rightarrow> Condition list \<Rightarrow> Condition list) \<Rightarrow> (kState, unit) comp" where
  "markMachine E name f =
     bindE (getsE (\<lambda>s. (currentMachine name s, kNowSec E (kTrace s)))) (\<lambda>(m, now).
       case m of None \<Rightarrow> returnE () | Some x \<Rightarrow> storeMachine (setMachineConditions (f now (mchConditions x)) x))"

section \<open>The workload cluster\<close>

definition GetWorkloadCluster :: "'u kEnv \<Rightarrow> (kState, unit) comp" where
  "GetWorkloadCluster E =
     bindE (getsE kCP) (\<lambda>c.
       if cpWorkload c then returnE ()
       else bindE (kcall E (KWorkload (mnamespace (clMeta (cpCluster c))) (mname (clMeta (cpCluster c))))) (\<lambda>_.
            changeCP (\<lambda>c. c\<lparr>cpWorkload := True\<rparr>)))"

definition labelNodeRoleOldControlPlane :: string where
  "labelNodeRoleOldControlPlane = ''node-role.kubernetes.io/master''"
definition labelNodeRoleControlPlane :: string where
  "labelNodeRoleControlPlane = ''node-role.kubernetes.io/control-plane''"

text \<open>Nodes listed for several labels are taken once.\<close>

fun addNodes :: "Node list \<Rightarrow> Node list \<Rightarrow> Node list" where
  "addNodes acc [] = acc"
| "addNodes acc (n # ns) =
     (if mname (nodeMeta n) \<in> (\<lambda>x. mname (nodeMeta x)) ` set acc then addNodes acc ns else addNodes (acc @ [n]) ns)"

fun listNodes :: "'u kEnv \<Rightarrow> string list \<Rightarrow> Node list \<Rightarrow> (kState, Node list) comp" where
  "listNodes E [] acc = returnE acc"
| "listNodes E (label # labels) acc =
     bindE (kread E (KListNodes label) (kNodes E)) (\<lambda>nodes. listNodes E labels (addNodes acc nodes))"

definition getControlPlaneNodes :: "'u kEnv \<Rightarrow> (kState, Node list) comp" where
  "getControlPlaneNodes E = listNodes E [labelNodeRoleOldControlPlane, labelNodeRoleControlPlane] []"

abbreviation "nodeNames nodes \<equiv> map (\<lambda>n. mname (nodeMeta n)) nodes"

definition minKubernetesVersionWithoutClusterStatus :: semver where
  "minKubernetesVersionWithoutClusterStatus = \<lparr>Major = 1, Minor = 22, Patch = 0, Pre = [], Build = []\<rparr>"

definition RemoveNodeFromKubeadmConfigMap :: "'u kEnv \<Rightarrow> string \<Rightarrow> semver \<Rightarrow> (kState, unit) comp" where
  "RemoveNodeFromKubeadmConfigMap E name v =
     (if Compare (semverCompare (kLib E)) v minKubernetesVersionWithoutClusterStatus [WithoutPreReleases] \<ge> 0 then returnE ()
      else kcall E (KRemoveEndpoint name))"

definition RemoveMachineFromKubeadmConfigMap :: "'u kEnv \<Rightarrow> Machine \<Rightarrow> semver \<Rightarrow> (kState, unit) comp" where
  "RemoveMachineFromKubeadmConfigMap E machine v =
     (case stNodeRef (mchStatus machine) of
        None \<Rightarrow> returnE ()
      | Some ref \<Rightarrow> RemoveNodeFromKubeadmConfigMap E (refName ref) v)"

record workloadStatus =
  wsNodes :: int
  wsReadyNodes :: int
  wsHasKubeadmConfig :: bool

fun countNodes :: "Node list \<Rightarrow> int \<times> int \<Rightarrow> int \<times> int" where
  "countNodes [] acc = acc"
| "countNodes (n # ns) (total', ready) =
     countNodes ns (wrap32 (total' + 1), if IsNodeReady (Some n) then wrap32 (ready + 1) else ready)"

definition workloadClusterStatus :: "'u kEnv \<Rightarrow> (kState, workloadStatus) comp" where
  "workloadClusterStatus E =
     bindE (getControlPlaneNodes E) (\<lambda>nodes.
     bindE (attemptE (kcall E KReadConfigMap)) (\<lambda>r.
       let (n, ready) = countNodes nodes (0, 0)
       in returnE \<lparr>wsNodes = n, wsReadyNodes = ready, wsHasKubeadmConfig = (case r of Inl _ \<Rightarrow> False | Inr _ \<Rightarrow> True)\<rparr>))"

section \<open>etcd\<close>

definition MemberForName :: "EtcdMember list \<Rightarrow> string \<Rightarrow> EtcdMember option" where
  "MemberForName members name = find (\<lambda>m. emName m = name) members"

definition ErrControlPlaneMinNodes :: err where
  "ErrControlPlaneMinNodes = Err ''cluster has fewer than 2 control plane nodes; removing an etcd member is not supported''"

definition removeMemberForNode :: "'u kEnv \<Rightarrow> string \<Rightarrow> (kState, unit) comp" where
  "removeMemberForNode E name =
     bindE (getControlPlaneNodes E) (\<lambda>nodes.
       if length nodes < 2 then failE ErrControlPlaneMinNodes
       else
         bindE (wrapE ''failed to create etcd client'' (kcall E (KEtcdFirst (filter (\<lambda>n. n \<noteq> name) (nodeNames nodes))))) (\<lambda>_.
         bindE (wrapE ''failed to list etcd members using etcd client'' (kread E KEtcdMembers (kMembers E))) (\<lambda>members.
           case MemberForName members name of
             None \<Rightarrow> returnE ()
           | Some member \<Rightarrow> wrapE ''failed to remove member from etcd'' (kcall E (KRemoveMember (emID member))))))"

definition RemoveEtcdMemberForMachine :: "'u kEnv \<Rightarrow> Machine \<Rightarrow> (kState, unit) comp" where
  "RemoveEtcdMemberForMachine E machine =
     (case stNodeRef (mchStatus machine) of
        None \<Rightarrow> returnE ()
      | Some ref \<Rightarrow> removeMemberForNode E (refName ref))"

definition ForwardEtcdLeadership :: "'u kEnv \<Rightarrow> Machine \<Rightarrow> Machine option \<Rightarrow> (kState, unit) comp" where
  "ForwardEtcdLeadership E machine leaderCandidate =
     (case stNodeRef (mchStatus machine) of
        None \<Rightarrow> returnE ()
      | Some ref \<Rightarrow>
          (case leaderCandidate of
             None \<Rightarrow> failE (Err ''leader candidate cannot be nil'')
           | Some candidate \<Rightarrow>
               (case stNodeRef (mchStatus candidate) of
                  None \<Rightarrow> failE (Err ''leader has no node reference'')
                | Some candidateRef \<Rightarrow>
                    bindE (wrapE ''failed to list control plane nodes'' (getControlPlaneNodes E)) (\<lambda>nodes.
                    bindE (wrapE ''failed to create etcd client'' (kread E (KEtcdLeader (nodeNames nodes)) (kLeaderID E))) (\<lambda>leaderID.
                    bindE (wrapE ''failed to list etcd members using etcd client'' (kread E KEtcdMembers (kMembers E))) (\<lambda>members.
                      case MemberForName members (refName ref) of
                        None \<Rightarrow> returnE ()
                      | Some currentMember \<Rightarrow>
                          if emID currentMember \<noteq> leaderID then returnE ()
                          else
                            (case MemberForName members (refName candidateRef) of
                               None \<Rightarrow> failE (Err ''failed to get etcd member from node'')
                             | Some nextLeader \<Rightarrow>
                                 wrapE ''failed to move leader'' (kcall E (KMoveLeader (emID nextLeader))))))))))"

definition EtcdMembers :: "'u kEnv \<Rightarrow> (kState, string list) comp" where
  "EtcdMembers E =
     bindE (wrapE ''failed to list control plane nodes'' (getControlPlaneNodes E)) (\<lambda>nodes.
     bindE (wrapE ''failed to create etcd client'' (kcall E (KEtcdLeader (nodeNames nodes)))) (\<lambda>_.
     bindE (wrapE ''failed to list etcd members using etcd client'' (kread E KEtcdMembers (kMembers E))) (\<lambda>members.
       returnE (map emName members))))"

text \<open>
  The members that have no node are removed with best effort: the errors are collected. A member
  that has just been added has no name yet and is left alone.
\<close>

fun memberLoop ::
  "'u kEnv \<Rightarrow> string list \<Rightarrow> semver \<Rightarrow> EtcdMember list \<Rightarrow> string list \<Rightarrow> err list \<Rightarrow> (kState, string list \<times> err list) comp" where
  "memberLoop E names v [] removed errs = returnE (removed, errs)"
| "memberLoop E names v (m # ms) removed errs =
     (if emName m = [] then memberLoop E names v ms removed errs
      else if emName m \<in> set names then memberLoop E names v ms removed errs
      else
        bindE (attemptE (removeMemberForNode E (emName m))) (\<lambda>r.
        bindE (attemptE (RemoveNodeFromKubeadmConfigMap E (emName m) v)) (\<lambda>r'.
          memberLoop E names v ms (removed @ [emName m])
            (errs @ (case r of Inl e \<Rightarrow> [e] | Inr _ \<Rightarrow> []) @ (case r' of Inl e \<Rightarrow> [e] | Inr _ \<Rightarrow> [])))))"

definition reconcileEtcdMember :: "'u kEnv \<Rightarrow> string list \<Rightarrow> string \<Rightarrow> semver \<Rightarrow> (kState, string list \<times> err list) comp" where
  "reconcileEtcdMember E names nodeName v =
     bindE (attemptE (kcall E (KEtcdFirst [nodeName]))) (\<lambda>r.
       case r of
         Inl _ \<Rightarrow> returnE ([], [])
       | Inr _ \<Rightarrow>
           bindE (attemptE (kread E KEtcdMembers (kMembers E))) (\<lambda>r'.
             case r' of
               Inl _ \<Rightarrow> returnE ([], [])
             | Inr members \<Rightarrow> memberLoop E names v members [] []))"

fun etcdMembersLoop ::
  "'u kEnv \<Rightarrow> string list \<Rightarrow> semver \<Rightarrow> string list \<Rightarrow> string list \<Rightarrow> err list \<Rightarrow> (kState, string list \<times> err list) comp" where
  "etcdMembersLoop E names v [] removed errs = returnE (removed, errs)"
| "etcdMembersLoop E names v (n # ns) removed errs =
     bindE (reconcileEtcdMember E names n v) (\<lambda>(r, es). etcdMembersLoop E names v ns (removed @ r) (errs @ es))"

definition ReconcileEtcdMembers :: "'u kEnv \<Rightarrow> string list \<Rightarrow> semver \<Rightarrow> (kState, string list) comp" where
  "ReconcileEtcdMembers E names v =
     bindE (etcdMembersLoop E names v names [] []) (\<lambda>(removed, errs).
       if length errs > 0 then failE (Aggregate errs) else returnE removed)"

section \<open>What the operations call\<close>

interpretation kcalls: state_relation "allowed kTrace ok" for ok
  by unfold_locales (auto intro: allowed_trans)

lemma kcall_cases:
  assumes "kcall E c s = (r, s')"
  obtains e where "kOutcome E (kTrace s) c = Some e" "r = Inl e" "s' = s\<lparr>kTrace := kTrace s @ [c]\<rparr>"
  | "kOutcome E (kTrace s) c = None" "r = Inr ()" "s' = s\<lparr>kTrace := kTrace s @ [c]\<rparr>"
  using assms by (auto simp: kcall_def split: option.splits)

lemma kcall_state: "kcall E c s = (r, s') \<Longrightarrow> s' = s\<lparr>kTrace := kTrace s @ [c]\<rparr>"
  by (auto elim: kcall_cases)

lemma kcall_keeps: "(\<And>h. ok h c) \<Longrightarrow> keeps (allowed kTrace ok) (kcall E c)"
  by (auto simp: keeps_def allowed_def dest!: kcall_state)

lemma kread_keeps: "(\<And>h. ok h c) \<Longrightarrow> keeps (allowed kTrace ok) (kread E c answer)"
  unfolding kread_def by (intro kcalls.keeps_rules kcall_keeps)

lemma changeCP_keeps: "keeps (allowed kTrace ok) (changeCP f)"
  unfolding changeCP_def by (rule kcalls.keeps_modifyE) (simp add: allowed_def)

lemma changeKCP_keeps: "keeps (allowed kTrace ok) (changeKCP f)"
  unfolding changeKCP_def by (rule changeCP_keeps)

lemma storeMachine_keeps: "keeps (allowed kTrace ok) (storeMachine m)"
  unfolding storeMachine_def by (rule changeCP_keeps)

lemma markKCP_keeps: "keeps (allowed kTrace ok) (markKCP E f)"
  unfolding markKCP_def by (intro kcalls.keeps_rules changeKCP_keeps)

lemmas kc_rules = kcalls.keeps_rules kcall_keeps kread_keeps changeCP_keeps changeKCP_keeps storeMachine_keeps markKCP_keeps

lemma kread_Inr:
  assumes "kread E c answer s = (Inr x, s')"
  shows "s' = s\<lparr>kTrace := kTrace s @ [c]\<rparr>" and "x = answer (kTrace s @ [c])"
  using assms by (auto simp: kread_def kcall_def bindE_def split: option.splits)

text \<open>What the calls alone leave unchanged: the machines, and the specification and status of the control plane.\<close>

definition sameBasis :: "kState \<Rightarrow> kState \<Rightarrow> bool" where
  "sameBasis s s' \<longleftrightarrow> cpMachines (kCP s') = cpMachines (kCP s) \<and> kcpSpec (cpKCP (kCP s')) = kcpSpec (cpKCP (kCP s)) \<and>
     kcpStatus (cpKCP (kCP s')) = kcpStatus (cpKCP (kCP s))"

interpretation basis: state_relation sameBasis
  by unfold_locales (simp_all add: sameBasis_def)

lemma kcall_basis: "keeps sameBasis (kcall E c)"
  by (auto simp: keeps_def sameBasis_def dest!: kcall_state)

lemma kread_basis: "keeps sameBasis (kread E c answer)"
  unfolding kread_def by (intro basis.keeps_rules kcall_basis)

lemma GetWorkloadCluster_basis: "keeps sameBasis (GetWorkloadCluster E)"
  unfolding GetWorkloadCluster_def changeCP_def
  by (intro basis.keeps_rules basis.keeps_modifyE kcall_basis) (simp add: sameBasis_def)

lemma getControlPlaneNodes_basis: "keeps sameBasis (getControlPlaneNodes E)"
  unfolding getControlPlaneNodes_def listNodes.simps by (intro basis.keeps_rules kread_basis)

lemmas basis_rules = basis.keeps_rules kcall_basis kread_basis GetWorkloadCluster_basis getControlPlaneNodes_basis

lemma ForwardEtcdLeadership_basis: "keeps sameBasis (ForwardEtcdLeadership E m candidate)"
  unfolding ForwardEtcdLeadership_def by (intro basis_rules)

lemma EtcdMembers_basis: "keeps sameBasis (EtcdMembers E)"
  unfolding EtcdMembers_def by (intro basis_rules)

lemma RemoveMachineFromKubeadmConfigMap_basis: "keeps sameBasis (RemoveMachineFromKubeadmConfigMap E m v)"
  unfolding RemoveMachineFromKubeadmConfigMap_def RemoveNodeFromKubeadmConfigMap_def by (intro basis_rules)

text \<open>The calls that change the set of machines or of etcd members.\<close>

fun changesMachines :: "kCall \<Rightarrow> bool" where
  "changesMachines (KRemoveMember _) = True"
| "changesMachines (KDeleteMachine _) = True"
| "changesMachines (KApplyMachine None _) = True"
| "changesMachines _ = False"

abbreviation "quiet \<equiv> allowed kTrace (\<lambda>_ c. \<not> changesMachines c)"

lemma quiet_iff: "quiet s s' \<longleftrightarrow> (\<exists>cs. kTrace s' = kTrace s @ cs \<and> filter changesMachines cs = [])"
  by (simp add: allowed_def okFrom_set filter_empty_conv)

lemma GetWorkloadCluster_quiet: "keeps quiet (GetWorkloadCluster E)"
  unfolding GetWorkloadCluster_def by (intro kc_rules) simp

lemma getControlPlaneNodes_quiet: "keeps quiet (getControlPlaneNodes E)"
  unfolding getControlPlaneNodes_def listNodes.simps by (intro kc_rules) simp_all

lemma ForwardEtcdLeadership_quiet: "keeps quiet (ForwardEtcdLeadership E m candidate)"
  unfolding ForwardEtcdLeadership_def by (intro kc_rules getControlPlaneNodes_quiet) simp_all

lemma EtcdMembers_quiet: "keeps quiet (EtcdMembers E)"
  unfolding EtcdMembers_def by (intro kc_rules getControlPlaneNodes_quiet) simp_all

lemma RemoveMachineFromKubeadmConfigMap_quiet: "keeps quiet (RemoveMachineFromKubeadmConfigMap E m v)"
  unfolding RemoveMachineFromKubeadmConfigMap_def RemoveNodeFromKubeadmConfigMap_def by (intro kc_rules) simp

lemma markMachine_quiet: "keeps quiet (markMachine E n f)"
  unfolding markMachine_def by (intro kc_rules)

text \<open>The nodes of the control plane, from the answers to the two listings.\<close>

definition nodesAfter :: "'u kEnv \<Rightarrow> kCall list \<Rightarrow> Node list" where
  "nodesAfter E h = addNodes (addNodes [] (kNodes E (h @ [KListNodes labelNodeRoleOldControlPlane])))
     (kNodes E (h @ [KListNodes labelNodeRoleOldControlPlane, KListNodes labelNodeRoleControlPlane]))"

abbreviation "nodeListings \<equiv> [KListNodes labelNodeRoleOldControlPlane, KListNodes labelNodeRoleControlPlane]"

lemma getControlPlaneNodes_Inr:
  assumes "getControlPlaneNodes E s = (Inr nodes, s')"
  shows "s' = s\<lparr>kTrace := kTrace s @ nodeListings\<rparr>" and "nodes = nodesAfter E (kTrace s)"
proof -
  obtain n1 s1 where 1: "kread E (KListNodes labelNodeRoleOldControlPlane) (kNodes E) s = (Inr n1, s1)"
    and r: "listNodes E [labelNodeRoleControlPlane] (addNodes [] n1) s1 = (Inr nodes, s')"
    using assms by (auto simp: getControlPlaneNodes_def elim: bindE_Inr)
  obtain n2 s2 where 2: "kread E (KListNodes labelNodeRoleControlPlane) (kNodes E) s1 = (Inr n2, s2)"
    and e: "nodes = addNodes (addNodes [] n1) n2" "s' = s2"
    using r by (auto elim: bindE_Inr)
  show "s' = s\<lparr>kTrace := kTrace s @ nodeListings\<rparr>" and "nodes = nodesAfter E (kTrace s)"
    using kread_Inr [OF 1] kread_Inr [OF 2] e by (simp_all add: nodesAfter_def)
qed

lemma getControlPlaneNodes_keeps: "(\<And>h l. ok h (KListNodes l)) \<Longrightarrow> keeps (allowed kTrace ok) (getControlPlaneNodes E)"
  unfolding getControlPlaneNodes_def listNodes.simps by (intro kc_rules)

text \<open>The calls that change the set of machines or of etcd members, or the etcd leader.\<close>

fun critical :: "kCall \<Rightarrow> bool" where
  "critical (KRemoveMember _) = True"
| "critical (KMoveLeader _) = True"
| "critical (KDeleteMachine _) = True"
| "critical (KApplyMachine _ _) = True"
| "critical _ = False"

text \<open>
  When a member may be removed: the call follows directly on a listing of the nodes that found at
  least two, a connection to etcd through a node other than the member's, and a listing of the
  members in which the member has a name that is none of the given ones.
\<close>

definition removalAllowed :: "'u kEnv \<Rightarrow> string set \<Rightarrow> kCall list \<Rightarrow> kCall \<Rightarrow> bool" where
  "removalAllowed E names h c =
     (case c of
        KRemoveMember id' \<Rightarrow>
          (\<exists>h0 m. h = h0 @ nodeListings @ [KEtcdFirst (filter (\<lambda>n. n \<noteq> emName m) (nodeNames (nodesAfter E h0))), KEtcdMembers] \<and>
             2 \<le> length (nodesAfter E h0) \<and> MemberForName (kMembers E h) (emName m) = Some m \<and> emID m = id' \<and>
             emName m \<noteq> [] \<and> emName m \<notin> names)
      | KDeleteMachine _ \<Rightarrow> False
      | KMoveLeader _ \<Rightarrow> False
      | _ \<Rightarrow> True)"

lemma removalAllowed_other: "\<not> critical c \<Longrightarrow> removalAllowed E names h c"
  by (cases c) (simp_all add: removalAllowed_def)

lemma kcallAt: "ok (kTrace s) c \<Longrightarrow> keepsAt (allowed kTrace ok) (kcall E c) s"
  by (auto simp: keepsAt_def allowed_def dest!: kcall_state)

lemma removeMemberForNode_allowed:
  assumes "name \<noteq> []" and "name \<notin> names"
  shows "keeps (allowed kTrace (removalAllowed E names)) (removeMemberForNode E name)"
proof (rule keepsI, unfold removeMemberForNode_def, rule kcalls.keepsAt_bindE)
  fix s
  show "keepsAt (allowed kTrace (removalAllowed E names)) (getControlPlaneNodes E) s"
    by (intro keeps_at getControlPlaneNodes_keeps removalAllowed_other) simp_all
next
  fix s nodes s1
  assume "getControlPlaneNodes E s = (Inr nodes, s1)"
  note n = getControlPlaneNodes_Inr [OF this]
  let ?R = "allowed kTrace (removalAllowed E names)"
  have other: "keepsAt ?R (wrapE w (kcall E (KEtcdFirst ns))) t" "keepsAt ?R (wrapE w (kread E KEtcdMembers a)) t" for w ns a t
    by (intro keeps_at kc_rules removalAllowed_other; simp)+
  have last: "keepsAt ?R (case MemberForName members name of None \<Rightarrow> returnE ()
      | Some member \<Rightarrow> wrapE w (kcall E (KRemoveMember (emID member)))) s3"
    if "\<not> length nodes < 2"
      and s2: "wrapE w1 (kcall E (KEtcdFirst (filter (\<lambda>n. n \<noteq> name) (nodeNames nodes)))) s1 = (Inr u, s2)"
      and s3: "wrapE w2 (kread E KEtcdMembers (kMembers E)) s2 = (Inr members, s3)" for w w1 w2 u s2 s3 members
  proof (cases "MemberForName members name")
    case None
    then show ?thesis by (simp add: keepsAt_def)
  next
    case (Some member)
    then have nm: "emName member = name" by (auto simp: MemberForName_def find_Some_iff)
    note m = kread_Inr [OF s3 [unfolded wrapE_Inr]]
    have "removalAllowed E names (kTrace s3) (KRemoveMember (emID member))"
      unfolding removalAllowed_def kCall.case
    proof (intro exI [of _ "kTrace s"] exI [of _ member] conjI)
      show "kTrace s3 = kTrace s @ nodeListings @ [KEtcdFirst (filter (\<lambda>n. n \<noteq> emName member) (nodeNames (nodesAfter E (kTrace s)))), KEtcdMembers]"
        using m(1) kcall_state [OF s2 [unfolded wrapE_Inr]] n nm by simp
      show "MemberForName (kMembers E (kTrace s3)) (emName member) = Some member" using Some m nm by simp
    qed (use that(1) n nm assms in auto)
    with Some show ?thesis by (simp add: kcalls.keepsAt_wrapE kcallAt)
  qed
  show "keepsAt ?R (if length nodes < 2 then failE ErrControlPlaneMinNodes
         else bindE (wrapE ''failed to create etcd client'' (kcall E (KEtcdFirst (filter (\<lambda>n. n \<noteq> name) (nodeNames nodes))))) (\<lambda>_.
         bindE (wrapE ''failed to list etcd members using etcd client'' (kread E KEtcdMembers (kMembers E))) (\<lambda>members.
           case MemberForName members name of
             None \<Rightarrow> returnE ()
           | Some member \<Rightarrow> wrapE ''failed to remove member from etcd'' (kcall E (KRemoveMember (emID member)))))) s1"
    by (cases "length nodes < 2") (auto simp: keepsAt_def [of _ "failE _"] intro!: kcalls.keepsAt_bindE other last)
qed

lemma RemoveNodeFromKubeadmConfigMap_allowed:
  "keeps (allowed kTrace (removalAllowed E names)) (RemoveNodeFromKubeadmConfigMap E name v)"
  unfolding RemoveNodeFromKubeadmConfigMap_def by (intro kc_rules removalAllowed_other) simp

lemma memberLoop_allowed: "keeps (allowed kTrace (removalAllowed E (set names))) (memberLoop E names v ms removed errs)"
proof (induction ms arbitrary: removed errs)
  case Nil
  then show ?case unfolding memberLoop.simps by (rule kcalls.keeps_pure)
next
  case (Cons m ms)
  show ?case
    unfolding memberLoop.simps
    by (intro kc_rules removeMemberForNode_allowed RemoveNodeFromKubeadmConfigMap_allowed Cons.IH; assumption)
qed

lemma reconcileEtcdMember_allowed:
  "keeps (allowed kTrace (removalAllowed E (set names))) (reconcileEtcdMember E names n v)"
  unfolding reconcileEtcdMember_def by (intro kc_rules memberLoop_allowed removalAllowed_other) simp_all

lemma etcdMembersLoop_allowed:
  "keeps (allowed kTrace (removalAllowed E (set names))) (etcdMembersLoop E names v ns removed errs)"
proof (induction ns arbitrary: removed errs)
  case Nil
  then show ?case unfolding etcdMembersLoop.simps by (rule kcalls.keeps_pure)
next
  case (Cons n ns)
  show ?case unfolding etcdMembersLoop.simps by (intro kc_rules reconcileEtcdMember_allowed Cons.IH)
qed

text \<open>
  (C6) Reconciling the etcd members with the nodes only ever removes members that belong to no node: each
  removal follows directly on a listing of at least two control plane nodes, goes through another
  node than the member's own, and names a member just listed by etcd whose name is not empty and is
  not among the nodes of the machines. No machine is deleted and leadership is not moved,
  however the calls end.
\<close>

theorem ReconcileEtcdMembers_safe:
  "allowed kTrace (removalAllowed E (set names)) s (snd (ReconcileEtcdMembers E names v s))"
proof -
  have "keeps (allowed kTrace (removalAllowed E (set names))) (ReconcileEtcdMembers E names v)"
    unfolding ReconcileEtcdMembers_def by (intro kc_rules etcdMembersLoop_allowed)
  then show ?thesis by (metis keepsD prod.collapse)
qed

end
