(* ===== verification/KcpConditions.thy ===== *)
theory KcpConditions
  imports KcpEtcd
begin

text \<open>
  The health of the control plane components and of the etcd members, as conditions on the machines and
  on the control plane object
  (\<open>src/cluster-api/controlplane/kubeadm/internal/workload_cluster_conditions.go\<close>).

  Nothing here fails: what cannot be inspected is reported as unknown. Changes go through the machines
  the control plane holds, one condition at a time.
\<close>

section \<open>Names\<close>

abbreviation "EtcdClusterHealthyCondition \<equiv> ''EtcdClusterHealthy''"
abbreviation "ControlPlaneComponentsHealthyCondition \<equiv> ''ControlPlaneComponentsHealthy''"
abbreviation "ControlPlaneComponentsUnhealthyReason \<equiv> ''ControlPlaneComponentsUnhealthy''"
abbreviation "ControlPlaneComponentsUnknownReason \<equiv> ''ControlPlaneComponentsUnknown''"
abbreviation "ControlPlaneComponentsInspectionFailedReason \<equiv> ''ControlPlaneComponentsInspectionFailed''"
abbreviation "PodProvisioningReason \<equiv> ''PodProvisioning''"
abbreviation "PodMissingReason \<equiv> ''PodMissing''"
abbreviation "PodFailedReason \<equiv> ''PodFailed''"
abbreviation "PodInspectionFailedReason \<equiv> ''PodInspectionFailed''"
abbreviation "EtcdClusterInspectionFailedReason \<equiv> ''EtcdClusterInspectionFailed''"
abbreviation "EtcdClusterUnknownReason \<equiv> ''EtcdClusterUnknown''"
abbreviation "EtcdClusterUnhealthyReason \<equiv> ''EtcdClusterUnhealthy''"
abbreviation "EtcdMemberInspectionFailedReason \<equiv> ''MemberInspectionFailed''"
abbreviation "EtcdMemberUnhealthyReason \<equiv> ''EtcdMemberUnhealthy''"

text \<open>A list of strings as \<open>%s\<close> prints it.\<close>

definition printStrings :: "string list \<Rightarrow> string" where
  "printStrings xs = ''['' @ Join '' '' xs @ '']''"

section \<open>Marks\<close>

text \<open>One of the three marks a condition may get.\<close>

datatype mark =
    MTrue
  | MFalse string string string "string list"
  | MUnknown string string "string list"

fun applyMark :: "mark \<Rightarrow> string \<Rightarrow> time \<Rightarrow> Condition list \<Rightarrow> Condition list" where
  "applyMark MTrue t now cs = MarkTrue now cs t"
| "applyMark (MFalse reason severity fm args) t now cs = MarkFalse now cs t reason severity fm args"
| "applyMark (MUnknown reason fm args) t now cs = MarkUnknown now cs t reason fm args"

definition markAs :: "'u kEnv \<Rightarrow> string \<Rightarrow> string \<Rightarrow> mark \<Rightarrow> (kState, unit) comp" where
  "markAs E name t k = markMachine E name (applyMark k t)"

text \<open>Several conditions of one machine, and of several machines.\<close>

fun markAll :: "'u kEnv \<Rightarrow> string \<Rightarrow> string list \<Rightarrow> mark \<Rightarrow> (kState, unit) comp" where
  "markAll E name [] k = returnE ()"
| "markAll E name (t # ts) k = bindE (markAs E name t k) (\<lambda>_. markAll E name ts k)"

fun markMachines :: "'u kEnv \<Rightarrow> string list \<Rightarrow> string list \<Rightarrow> mark \<Rightarrow> (kState, unit) comp" where
  "markMachines E [] ts k = returnE ()"
| "markMachines E (n # ns) ts k = bindE (markAll E n ts k) (\<lambda>_. markMachines E ns ts k)"

definition markControlPlane :: "'u kEnv \<Rightarrow> string \<Rightarrow> mark \<Rightarrow> (kState, unit) comp" where
  "markControlPlane E t k = markKCP E (\<lambda>now cs. applyMark k t now cs)"

definition machineNames :: "kState \<Rightarrow> string list" where
  "machineNames s = map (\<lambda>m. mchName m) (cpMachines (kCP s))"

section \<open>Aggregation\<close>

text \<open>The names of the machines one of whose conditions satisfies a predicate, in order.\<close>

definition machinesWith :: "Machines \<Rightarrow> string list \<Rightarrow> (Condition \<Rightarrow> bool) \<Rightarrow> string list" where
  "machinesWith ms ts P = sort (remdups (map (\<lambda>m. mchName m)
     (filter (\<lambda>m. list_ex (\<lambda>t. case Get (mchConditions m) t of None \<Rightarrow> False | Some c \<Rightarrow> P c) ts) ms)))"

definition falseWith :: "string \<Rightarrow> Condition \<Rightarrow> bool" where
  "falseWith severity c \<longleftrightarrow> cstatus c = ConditionFalse \<and> cseverity c = severity"

text \<open>The mark for the control plane, if there is any.\<close>

definition aggregateMark :: "Machines \<Rightarrow> string list \<Rightarrow> string list \<Rightarrow> string \<Rightarrow> string \<Rightarrow> string \<Rightarrow> mark option" where
  "aggregateMark machines machineConditions kcpErrors unhealthyReason unknownReason note =
     (let withErrors = machinesWith machines machineConditions (falseWith ConditionSeverityError);
          withWarnings = machinesWith machines machineConditions (falseWith ConditionSeverityWarning);
          withInfo = machinesWith machines machineConditions (falseWith ConditionSeverityInfo);
          withTrue = machinesWith machines machineConditions (\<lambda>c. cstatus c = ConditionTrue);
          withUnknown = machinesWith machines machineConditions (\<lambda>c. cstatus c = ConditionUnknown);
          errors = kcpErrors @ (if withErrors = [] then []
            else [''Following machines are reporting '' @ note @ '' errors: '' @ Join '', '' withErrors])
      in if errors \<noteq> [] then Some (MFalse unhealthyReason ConditionSeverityError (Join ''; '' errors) [])
         else if withWarnings \<noteq> [] then
           Some (MFalse unhealthyReason ConditionSeverityWarning ''Following machines are reporting %s warnings: %s'' [note, Join '', '' withWarnings])
         else if withInfo \<noteq> [] then
           Some (MFalse unhealthyReason ConditionSeverityInfo ''Following machines are reporting %s info: %s'' [note, Join '', '' withInfo])
         else if withTrue \<noteq> [] then Some MTrue
         else if withUnknown \<noteq> [] then
           Some (MUnknown unknownReason ''Following machines are reporting unknown %s status: %s'' [note, Join '', '' withUnknown])
         else None)"

definition aggregateFromMachinesToKCP ::
  "'u kEnv \<Rightarrow> string list \<Rightarrow> string list \<Rightarrow> string \<Rightarrow> string \<Rightarrow> string \<Rightarrow> string \<Rightarrow> (kState, unit) comp" where
  "aggregateFromMachinesToKCP E machineConditions kcpErrors condition unhealthyReason unknownReason note =
     bindE (getsE (\<lambda>s. cpMachines (kCP s))) (\<lambda>machines.
       case aggregateMark machines machineConditions kcpErrors unhealthyReason unknownReason note of
         None \<Rightarrow> returnE ()
       | Some k \<Rightarrow> markControlPlane E condition k)"

definition hasProvisioningMachine :: "Machines \<Rightarrow> bool" where
  "hasProvisioningMachine machines \<longleftrightarrow> list_ex (\<lambda>m. stNodeRef (mchStatus m) = None) machines"

definition onNode :: "string \<Rightarrow> Machine \<Rightarrow> bool" where
  "onNode node m \<longleftrightarrow> map_option refName (stNodeRef (mchStatus m)) = Some node"

definition nodeWithoutMachine :: "string \<Rightarrow> string" where
  "nodeWithoutMachine node = ''Control plane node '' @ node @ '' does not have a corresponding machine''"

section \<open>Static pods\<close>

definition allMachinePodConditions :: "ControlPlane \<Rightarrow> string list" where
  "allMachinePodConditions c =
     [MachineAPIServerPodHealthyCondition, MachineControllerManagerPodHealthyCondition, MachineSchedulerPodHealthyCondition] @
     (if IsEtcdManaged c then [MachineEtcdPodHealthyCondition] else [])"

definition nodeHasUnreachableTaint :: "Node \<Rightarrow> bool" where
  "nodeHasUnreachableTaint node \<longleftrightarrow>
     list_ex (\<lambda>(key, effect). key = ''node.kubernetes.io/unreachable'' \<and> effect = ''NoExecute'') (nodeTaints node)"

definition nodeReadyUnknown :: "Node \<Rightarrow> bool" where
  "nodeReadyUnknown node =
     (case find (\<lambda>c. ncType c = NodeReady) (nodeConditions node) of
        None \<Rightarrow> False | Some c \<Rightarrow> ncStatus c = ConditionUnknown)"

definition podCondition :: "Pod \<Rightarrow> string \<Rightarrow> string" where
  "podCondition pod condition = (case map_of (podConditions pod) condition of None \<Rightarrow> ConditionUnknown | Some st \<Rightarrow> st)"

definition staticPodName :: "string \<Rightarrow> string \<Rightarrow> string" where
  "staticPodName component nodeName = component @ ''-'' @ nodeName"

fun waitingMessages :: "ContainerStatus list \<Rightarrow> string list" where
  "waitingMessages [] = []"
| "waitingMessages (c # cs) = (case csWaiting c of None \<Rightarrow> [] | Some reason \<Rightarrow> [reason]) @ waitingMessages cs"

fun terminatedMessages :: "ContainerStatus list \<Rightarrow> string list" where
  "terminatedMessages [] = []"
| "terminatedMessages (c # cs) = (case csTerminated c of None \<Rightarrow> [] | Some reason \<Rightarrow> [reason]) @ terminatedMessages cs"

definition terminatedWithError :: "ContainerStatus list \<Rightarrow> bool" where
  "terminatedWithError cs \<longleftrightarrow> list_ex (\<lambda>c. case csLastExitCode c of None \<Rightarrow> False | Some code \<Rightarrow> code \<noteq> 0) cs"

text \<open>What the state of a pod says about its component; nothing for a phase that is not known.\<close>

definition podMark :: "Pod \<Rightarrow> mark option" where
  "podMark pod =
     (if podPhase pod = ''Pending'' then
        Some (if podCondition pod ''PodScheduled'' \<noteq> ConditionTrue
              then MFalse PodProvisioningReason ConditionSeverityInfo ''Waiting to be scheduled'' []
              else if podCondition pod ''Initialized'' \<noteq> ConditionTrue
              then MFalse PodProvisioningReason ConditionSeverityInfo ''Running init containers'' []
              else MFalse PodProvisioningReason ConditionSeverityInfo [] [])
      else if podPhase pod = ''Running'' then
        Some (if podCondition pod ''Ready'' = ConditionTrue then MTrue
              else
                let waiting = waitingMessages (podContainers pod); terminated = terminatedMessages (podContainers pod) in
                if waiting \<noteq> [] then
                  (if terminatedWithError (podContainers pod)
                   then MFalse PodFailedReason ConditionSeverityError (Join '', '' waiting) []
                   else MFalse PodProvisioningReason ConditionSeverityInfo (Join '', '' waiting) [])
                else if terminated \<noteq> [] then MFalse PodFailedReason ConditionSeverityError (Join '', '' terminated) []
                else MFalse PodProvisioningReason ConditionSeverityInfo ''Waiting for startup or readiness probes'' [])
      else if podPhase pod = ''Succeeded'' \<or> podPhase pod = ''Failed'' then
        Some (MFalse PodFailedReason ConditionSeverityError ''All the containers have been terminated'' [])
      else if podPhase pod = ''Unknown'' then
        Some (MUnknown PodInspectionFailedReason ''Pod is reporting unknown status'' [])
      else None)"

definition updateStaticPodCondition :: "'u kEnv \<Rightarrow> string \<Rightarrow> Node \<Rightarrow> string \<Rightarrow> string \<Rightarrow> (kState, unit) comp" where
  "updateStaticPodCondition E machine node component staticPodCondition =
     (if nodeReadyUnknown node
      then markAs E machine staticPodCondition
        (MUnknown PodInspectionFailedReason ''Node Ready condition is unknown, pod data might be stale'' [])
      else
        let pod = staticPodName component (mname (nodeMeta node)) in
        bindE (attemptE (kread E (KReadPod pod) (kPod E))) (\<lambda>r.
          case r of
            Inl e \<Rightarrow>
              markAs E machine staticPodCondition
                (if isNotFound e then MFalse PodMissingReason ConditionSeverityError ''Pod %s is missing'' [pod]
                 else MUnknown PodInspectionFailedReason ''Failed to get pod status'' [])
          | Inr p \<Rightarrow>
              (case podMark p of None \<Rightarrow> returnE () | Some k \<Rightarrow> markAs E machine staticPodCondition k)))"

fun updateStaticPods :: "'u kEnv \<Rightarrow> string \<Rightarrow> Node \<Rightarrow> (string \<times> string) list \<Rightarrow> (kState, unit) comp" where
  "updateStaticPods E machine node [] = returnE ()"
| "updateStaticPods E machine node ((component, t) # rest) =
     bindE (updateStaticPodCondition E machine node component t) (\<lambda>_. updateStaticPods E machine node rest)"

definition componentsOf :: "ControlPlane \<Rightarrow> (string \<times> string) list" where
  "componentsOf c =
     [(''kube-apiserver'', MachineAPIServerPodHealthyCondition),
      (''kube-controller-manager'', MachineControllerManagerPodHealthyCondition),
      (''kube-scheduler'', MachineSchedulerPodHealthyCondition)] @
     (if IsEtcdManaged c then [(''etcd'', MachineEtcdPodHealthyCondition)] else [])"

text \<open>The loop over the nodes; it collects the errors that belong to no machine.\<close>

fun staticPodNodes :: "'u kEnv \<Rightarrow> Node list \<Rightarrow> string list \<Rightarrow> (kState, string list) comp" where
  "staticPodNodes E [] kcpErrors = returnE kcpErrors"
| "staticPodNodes E (node # nodes) kcpErrors =
     bindE (getsE kCP) (\<lambda>c.
       case find (onNode (mname (nodeMeta node))) (cpMachines c) of
         None \<Rightarrow>
           staticPodNodes E nodes
             (if hasProvisioningMachine (cpMachines c) then kcpErrors else kcpErrors @ [nodeWithoutMachine (mname (nodeMeta node))])
       | Some machine \<Rightarrow>
           bindE (if \<not> timeIsZero (mdeletionTimestamp (mchMeta machine))
                  then markAll E (mchName machine) (allMachinePodConditions c) (MFalse DeletingReason ConditionSeverityInfo [] [])
                  else if nodeHasUnreachableTaint node
                  then markAll E (mchName machine) (allMachinePodConditions c) (MUnknown PodInspectionFailedReason ''Node is unreachable'' [])
                  else updateStaticPods E (mchName machine) node (componentsOf c)) (\<lambda>_.
             staticPodNodes E nodes kcpErrors))"

definition UpdateStaticPodConditions :: "'u kEnv \<Rightarrow> (kState, unit) comp" where
  "UpdateStaticPodConditions E =
     bindE (getsE kCP) (\<lambda>c.
     bindE (attemptE (getControlPlaneNodes E)) (\<lambda>r.
       case r of
         Inl e \<Rightarrow>
           bindE (markMachines E (map (\<lambda>m. mchName m) (cpMachines c)) (allMachinePodConditions c)
             (MUnknown PodInspectionFailedReason ''Failed to get the node which is hosting this component: %v'' [kErrText E e])) (\<lambda>_.
           markControlPlane E ControlPlaneComponentsHealthyCondition
             (MUnknown ControlPlaneComponentsInspectionFailedReason ''Failed to list nodes which are hosting control plane components: %v'' [kErrText E e]))
       | Inr nodes \<Rightarrow>
           bindE (staticPodNodes E nodes []) (\<lambda>kcpErrors.
           bindE (markMachines E
               (map (\<lambda>m. mchName m) (filter (\<lambda>m. stNodeRef (mchStatus m) \<noteq> None \<and> \<not> list_ex (\<lambda>n. onNode n m) (nodeNames nodes)) (cpMachines c)))
               (allMachinePodConditions c) (MFalse PodFailedReason ConditionSeverityError ''Missing node'' [])) (\<lambda>_.
             aggregateFromMachinesToKCP E (allMachinePodConditions c) kcpErrors ControlPlaneComponentsHealthyCondition
               ControlPlaneComponentsUnhealthyReason ControlPlaneComponentsUnknownReason ''control plane''))))"

section \<open>Etcd members\<close>

abbreviation "EtcdHealthy \<equiv> MachineEtcdMemberHealthyCondition"

definition MemberNames :: "EtcdMember list \<Rightarrow> string list" where
  "MemberNames members = map emName members"

definition MemberEqual :: "EtcdMember list \<Rightarrow> EtcdMember list \<Rightarrow> bool" where
  "MemberEqual members1 members2 \<longleftrightarrow> set (MemberNames members1) = set (MemberNames members2)"

definition AlarmTypeName :: "int \<Rightarrow> string" where
  "AlarmTypeName a = (if a = 0 then ''NONE'' else if a = 1 then ''NOSPACE'' else if a = 2 then ''CORRUPT'' else [])"

text \<open>The members an endpoint knows; when it cannot be asked, the machine gets the reason and there are none.\<close>

definition getCurrentEtcdMembers :: "'u kEnv \<Rightarrow> string \<Rightarrow> string \<Rightarrow> (kState, EtcdMember list option) comp" where
  "getCurrentEtcdMembers E machine nodeName =
     bindE (attemptE (kread E (KEtcdFirst [nodeName]) (kEtcdErrors E))) (\<lambda>r.
       case r of
         Inl e \<Rightarrow>
           bindE (markAs E machine EtcdHealthy (MUnknown EtcdMemberInspectionFailedReason
             ''Failed to connect to the etcd pod on the %s node: %s'' [nodeName, kErrText E e])) (\<lambda>_. returnE None)
       | Inr errs \<Rightarrow>
           if length errs > 0 then
             bindE (markAs E machine EtcdHealthy (MFalse EtcdMemberUnhealthyReason ConditionSeverityError
               ''Etcd member status reports errors: %s'' [Join '', '' errs])) (\<lambda>_. returnE None)
           else
             bindE (attemptE (kread E KEtcdMembers (kMembers E))) (\<lambda>r'.
               case r' of
                 Inl _ \<Rightarrow>
                   bindE (markAs E machine EtcdHealthy (MFalse EtcdMemberUnhealthyReason ConditionSeverityError
                     ''Failed get answer from the etcd member on the %s node'' [nodeName])) (\<lambda>_. returnE None)
               | Inr members \<Rightarrow> returnE (Some members)))"

text \<open>
  The verdict on the member of a node, given the members and the cluster that the nodes before it have
  reported, with what it reports itself; and the cluster to compare the following ones with.
\<close>

definition memberMark ::
  "string \<Rightarrow> EtcdMember list \<Rightarrow> nat option \<Rightarrow> EtcdMember list \<Rightarrow> mark \<times> nat option" where
  "memberMark node members clusterID current =
     (if \<not> MemberEqual members current then
        (MFalse EtcdMemberUnhealthyReason ConditionSeverityError
           ''etcd member reports the cluster is composed by members %s, but all previously seen etcd members are reporting %s''
           [printStrings (MemberNames current), printStrings (MemberNames members)], clusterID)
      else
        case MemberForName current node of
          None \<Rightarrow>
            (MFalse EtcdMemberUnhealthyReason ConditionSeverityError
               ''etcd member reports the cluster is composed by members %s, but the member itself (%s) is not included''
               [printStrings (MemberNames current), node], clusterID)
        | Some member \<Rightarrow>
            let alarms = map AlarmTypeName (filter (\<lambda>a. a \<noteq> 0) (emAlarms member)) in
            if alarms \<noteq> [] then
              (MFalse EtcdMemberUnhealthyReason ConditionSeverityError ''Etcd member reports alarms: %s'' [Join '', '' alarms], clusterID)
            else
              let cid = (case clusterID of None \<Rightarrow> emClusterID member | Some x \<Rightarrow> x) in
              if cid \<noteq> emClusterID member then
                (MFalse EtcdMemberUnhealthyReason ConditionSeverityError
                   ''etcd member has cluster ID %d, but all previously seen etcd members have cluster ID %d''
                   [FormatInt (int (emClusterID member)), FormatInt (int cid)], Some cid)
              else (MTrue, Some cid))"

text \<open>
  The loop over the nodes, with the errors that belong to no machine, the members that are the baseline,
  and the cluster. The last machine that refers to the node counts.
\<close>

fun etcdNodes ::
  "'u kEnv \<Rightarrow> string list \<Rightarrow> string list \<Rightarrow> EtcdMember list option \<Rightarrow> nat option \<Rightarrow> (kState, string list \<times> EtcdMember list option) comp" where
  "etcdNodes E [] kcpErrors members clusterID = returnE (kcpErrors, members)"
| "etcdNodes E (node # nodes) kcpErrors members clusterID =
     bindE (getsE kCP) (\<lambda>c.
       case find (onNode node) (rev (cpMachines c)) of
         None \<Rightarrow>
           etcdNodes E nodes (if hasProvisioningMachine (cpMachines c) then kcpErrors else kcpErrors @ [nodeWithoutMachine node]) members clusterID
       | Some machine \<Rightarrow>
           if \<not> timeIsZero (mdeletionTimestamp (mchMeta machine)) then
             bindE (markAs E (mchName machine) EtcdHealthy (MFalse DeletingReason ConditionSeverityInfo [] [])) (\<lambda>_.
               etcdNodes E nodes kcpErrors members clusterID)
           else
             bindE (getCurrentEtcdMembers E (mchName machine) node) (\<lambda>current.
               case current of
                 None \<Rightarrow> etcdNodes E nodes kcpErrors members clusterID
               | Some currentMembers \<Rightarrow>
                   let base = (case members of None \<Rightarrow> currentMembers | Some ms \<Rightarrow> ms);
                       (k, clusterID') = memberMark node base clusterID currentMembers
                   in bindE (markAs E (mchName machine) EtcdHealthy k) (\<lambda>_.
                        etcdNodes E nodes kcpErrors (Some base) clusterID')))"

definition memberWithoutMachine :: "EtcdMember \<Rightarrow> string" where
  "memberWithoutMachine member =
     ''etcd member '' @ (if emName member = [] then FormatInt (int (emID member)) @ '' (Name not yet assigned)'' else emName member) @
     '' does not have a corresponding machine''"

definition compareMachinesAndMembers ::
  "'u kEnv \<Rightarrow> EtcdMember list option \<Rightarrow> string list \<Rightarrow> (kState, string list) comp" where
  "compareMachinesAndMembers E members kcpErrors =
     (case members of
        None \<Rightarrow> returnE kcpErrors
      | Some ms \<Rightarrow>
          bindE (getsE (\<lambda>s. cpMachines (kCP s))) (\<lambda>machines.
          bindE (markMachines E
              (map (\<lambda>m. mchName m) (filter (\<lambda>m. stNodeRef (mchStatus m) \<noteq> None \<and> \<not> list_ex (\<lambda>x. onNode (emName x) m) ms) machines))
              [EtcdHealthy] (MFalse EtcdMemberUnhealthyReason ConditionSeverityError ''Missing etcd member'' [])) (\<lambda>_.
            returnE (kcpErrors @ map memberWithoutMachine (filter (\<lambda>x. \<not> list_ex (onNode (emName x)) machines) ms)))))"

definition updateExternalEtcdConditions :: "'u kEnv \<Rightarrow> (kState, unit) comp" where
  "updateExternalEtcdConditions E = markControlPlane E EtcdClusterHealthyCondition MTrue"

definition updateManagedEtcdConditions :: "'u kEnv \<Rightarrow> (kState, unit) comp" where
  "updateManagedEtcdConditions E =
     bindE (attemptE (getControlPlaneNodes E)) (\<lambda>r.
       case r of
         Inl _ \<Rightarrow>
           bindE (markControlPlane E EtcdClusterHealthyCondition
             (MUnknown EtcdClusterInspectionFailedReason ''Failed to list nodes which are hosting the etcd members'' [])) (\<lambda>_.
           bindE (getsE machineNames) (\<lambda>names.
             markMachines E names [EtcdHealthy]
               (MUnknown EtcdMemberInspectionFailedReason ''Failed to get the node which is hosting the etcd member'' [])))
       | Inr nodes \<Rightarrow>
           bindE (etcdNodes E (nodeNames nodes) [] None None) (\<lambda>(kcpErrors, members).
           bindE (compareMachinesAndMembers E members kcpErrors) (\<lambda>kcpErrors.
             aggregateFromMachinesToKCP E [EtcdHealthy] kcpErrors EtcdClusterHealthyCondition
               EtcdClusterUnhealthyReason EtcdClusterUnknownReason ''etcd member'')))"

definition UpdateEtcdConditions :: "'u kEnv \<Rightarrow> (kState, unit) comp" where
  "UpdateEtcdConditions E =
     bindE (getsE kCP) (\<lambda>c.
       if IsEtcdManaged c then updateManagedEtcdConditions E else updateExternalEtcdConditions E)"

end
