(* ===== verification/KcpScale.thy ===== *)
theory KcpScale
  imports KcpEtcd
begin

text \<open>
  Creating and removing control plane machines
  (\<open>src/cluster-api/controlplane/kubeadm/internal/controllers/helpers.go\<close>, \<open>scale.go\<close>, \<open>upgrade.go\<close>): the desired
  machine, cloning its infrastructure and bootstrap configuration with the clean-up after a failure,
  the preflight checks, the choice of the machine to remove, scaling in both directions and
  the rolling upgrade.
\<close>

section \<open>Versions of kubeadm\<close>

abbreviation "mkVersion a b c \<equiv> \<lparr>Major = a, Minor = b, Patch = c, Pre = [], Build = []\<rparr>"

definition semverLT :: "'u kEnv \<Rightarrow> semver \<Rightarrow> semver \<Rightarrow> bool" where
  "semverLT E a b \<longleftrightarrow> semverCompare (kLib E) a b = - 1"

definition semverLTE :: "'u kEnv \<Rightarrow> semver \<Rightarrow> semver \<Rightarrow> bool" where
  "semverLTE E a b \<longleftrightarrow> semverCompare (kLib E) a b \<noteq> 1"

definition GetDefaultRegistry :: "'u kEnv \<Rightarrow> semver \<Rightarrow> string" where
  "GetDefaultRegistry E v =
     (if semverLTE E v (mkVersion 1 22 16) then ''k8s.gcr.io''
      else if semverCompare (kLib E) v (mkVersion 1 22 17) \<noteq> - 1 \<and> semverLT E v (mkVersion 1 23 0) then ''registry.k8s.io''
      else if semverCompare (kLib E) v (mkVersion 1 23 0) \<noteq> - 1 \<and> semverLTE E v (mkVersion 1 23 14) then ''k8s.gcr.io''
      else if semverCompare (kLib E) v (mkVersion 1 23 15) \<noteq> - 1 \<and> semverLT E v (mkVersion 1 24 0) then ''registry.k8s.io''
      else if semverCompare (kLib E) v (mkVersion 1 24 0) \<noteq> - 1 \<and> semverLTE E v (mkVersion 1 24 8) then ''k8s.gcr.io''
      else ''registry.k8s.io'')"

definition ImageRepositoryFromClusterConfig :: "'u kEnv \<Rightarrow> ClusterConfiguration option \<Rightarrow> semver \<Rightarrow> string" where
  "ImageRepositoryFromClusterConfig E clusterConfig v =
     (case clusterConfig of
        Some cc \<Rightarrow>
          if ccImageRepository cc \<noteq> [] then ccImageRepository cc
          else if semverCompare (kLib E) v (mkVersion 1 22 0) \<noteq> - 1 \<and> semverLT E v (mkVersion 1 26 0) then GetDefaultRegistry E v
          else []
      | None \<Rightarrow>
          if semverCompare (kLib E) v (mkVersion 1 22 0) \<noteq> - 1 \<and> semverLT E v (mkVersion 1 26 0) then GetDefaultRegistry E v
          else [])"

definition ControlPlaneKubeletLocalMode :: string where
  "ControlPlaneKubeletLocalMode = ''ControlPlaneKubeletLocalMode''"

definition DefaultFeatureGates :: "'u kEnv \<Rightarrow> KubeadmConfigSpec \<Rightarrow> semver \<Rightarrow> KubeadmConfigSpec" where
  "DefaultFeatureGates E spec v =
     (if semverLT E v (mkVersion 1 31 0) then spec
      else
        let cc = (case kcClusterConfiguration spec of None \<Rightarrow> emptyClusterConfiguration | Some c \<Rightarrow> c);
            gates = (case ccFeatureGates cc of None \<Rightarrow> Map.empty | Some g \<Rightarrow> g);
            gates' = (if gates ControlPlaneKubeletLocalMode = None then gates(ControlPlaneKubeletLocalMode \<mapsto> True) else gates)
        in spec\<lparr>kcClusterConfiguration := Some (cc\<lparr>ccFeatureGates := Some gates'\<rparr>)\<rparr>)"

section \<open>The desired machine\<close>

definition MachineControlPlaneNameLabel :: string where
  "MachineControlPlaneNameLabel = ''cluster.x-k8s.io/control-plane-name''"

definition ControlPlaneMachineLabelsForCluster :: "'u kEnv \<Rightarrow> KubeadmControlPlane \<Rightarrow> string \<Rightarrow> strmap" where
  "ControlPlaneMachineLabelsForCluster E kcp clusterName =
     (case ktLabels (ksMachineTemplate (kcpSpec kcp)) of None \<Rightarrow> Map.empty | Some f \<Rightarrow> f)
       (ClusterNameLabel \<mapsto> clusterName, MachineControlPlaneLabel \<mapsto> [],
        MachineControlPlaneNameLabel \<mapsto> MustFormatValue (kLabelErrors E) (mname (kcpMeta kcp)))"

definition kcpOwnerRef :: "KubeadmControlPlane \<Rightarrow> OwnerReference" where
  "kcpOwnerRef kcp = \<lparr>orAPIVersion = ''controlplane.cluster.x-k8s.io/v1beta1'', orKind = kubeadmControlPlaneKind,
     orName = mname (kcpMeta kcp), orUID = muid (kcpMeta kcp), orController = None, orBlockOwnerDeletion = None\<rparr>"

text \<open>\<open>metav1.NewControllerRef\<close>.\<close>

definition kcpControllerRef :: "KubeadmControlPlane \<Rightarrow> OwnerReference" where
  "kcpControllerRef kcp = (kcpOwnerRef kcp)\<lparr>orController := Some True, orBlockOwnerDeletion := Some True\<rparr>"

definition copyAnnotation :: "strmap option \<Rightarrow> string \<Rightarrow> string \<Rightarrow> strmap \<Rightarrow> strmap" where
  "copyAnnotation anns key key' m = (case mlookup anns key of None \<Rightarrow> m | Some v \<Rightarrow> m(key' \<mapsto> v))"

definition kcpComputeDesiredMachine ::
  "'u kEnv \<Rightarrow> (string \<Rightarrow> string) \<Rightarrow> KubeadmControlPlane \<Rightarrow> Cluster \<Rightarrow> string option \<Rightarrow> Machine option \<Rightarrow> Machine res" where
  "kcpComputeDesiredMachine E genName kcp cluster failureDomain existing =
     bindR (case existing of
              None \<Rightarrow>
                bindR (wrapR ''failed to marshal cluster configuration''
                         (kEncodeCluster E (kcClusterConfiguration (ksKubeadmConfigSpec (kcpSpec kcp))))) (\<lambda>clusterConfig.
                  Inr (genName (mname (kcpMeta kcp) @ ''-''), [], Some (ksVersion (kcpSpec kcp)),
                       copyAnnotation (mannotations (kcpMeta kcp)) RemediationInProgressAnnotation RemediationForAnnotation
                         [KubeadmClusterConfigurationAnnotation \<mapsto> clusterConfig]))
            | Some m \<Rightarrow>
                Inr (mchName m, muid (mchMeta m), spVersion (mchSpec m),
                     copyAnnotation (mannotations (mchMeta m)) RemediationForAnnotation RemediationForAnnotation
                       (copyAnnotation (mannotations (mchMeta m)) KubeadmClusterConfigurationAnnotation
                          KubeadmClusterConfigurationAnnotation Map.empty)))
       (\<lambda>(name, uid, version, anns).
          let template = ksMachineTemplate (kcpSpec kcp);
              anns' = anns(PreTerminateHookCleanupAnnotation \<mapsto> [])
          in Inr \<lparr>mchMeta = emptyMeta\<lparr>mname := name, muid := uid, mnamespace := mnamespace (kcpMeta kcp),
                    mownerReferences := [kcpControllerRef kcp],
                    mlabels := Some (ControlPlaneMachineLabelsForCluster E kcp (mname (clMeta cluster))),
                    mannotations := Some ((case ktAnnotations template of None \<Rightarrow> Map.empty | Some f \<Rightarrow> f) ++ anns')\<rparr>,
                  mchSpec = \<lparr>spClusterName = mname (clMeta cluster),
                    spBootstrap = \<lparr>bConfigRef = (case existing of None \<Rightarrow> None | Some m \<Rightarrow> bConfigRef (spBootstrap (mchSpec m))),
                                   bDataSecretName = None\<rparr>,
                    spInfrastructureRef = (case existing of None \<Rightarrow> emptyRef | Some m \<Rightarrow> spInfrastructureRef (mchSpec m)),
                    spVersion = version, spProviderID = None, spFailureDomain = failureDomain,
                    spNodeDrainTimeout = ktNodeDrainTimeout template,
                    spNodeVolumeDetachTimeout = ktNodeVolumeDetachTimeout template,
                    spNodeDeletionTimeout = ktNodeDeletionTimeout template\<rparr>,
                  mchStatus = emptyMachineStatus\<rparr>)"

section \<open>Creating a machine\<close>

definition kGetExternal :: "'u kEnv \<Rightarrow> ObjectReference \<Rightarrow> string \<Rightarrow> (kState, ext) comp" where
  "kGetExternal E ref namespace =
     wrapE ''failed to retrieve external object'' (kread E (KReadExternal ref namespace) (kExternal E))"

definition cloneInfrastructure :: "'u kEnv \<Rightarrow> string \<Rightarrow> (kState, ObjectReference) comp" where
  "cloneInfrastructure E name =
     bindE (getsE kCP) (\<lambda>c.
       let kcp = cpKCP c; template = ksMachineTemplate (kcpSpec kcp) in
       bindE (kGetExternal E (ktInfrastructureRef template) (mnamespace (kcpMeta kcp))) (\<lambda>tmpl.
       bindE (getsE kTrace) (\<lambda>cs.
       bindE (liftE (GenerateTemplate (cdGroupKind (kDeps E)) (kName E cs)
                \<lparr>giTemplate = tmpl, giTemplateRef = ktInfrastructureRef template, giNamespace = mnamespace (kcpMeta kcp),
                 giName = name, giClusterName = mname (clMeta (cpCluster c)), giOwnerRef = Some (kcpOwnerRef kcp),
                 giLabels = Some (ControlPlaneMachineLabelsForCluster E kcp (mname (clMeta (cpCluster c)))),
                 giAnnotations = ktAnnotations template\<rparr>)) (\<lambda>to.
       bindE (kread E (KCreateExternal to) (\<lambda>cs'. kCreatedExternal E cs' to)) (\<lambda>created.
         returnE (GetObjectReference created))))))"

definition generateKubeadmConfig :: "'u kEnv \<Rightarrow> KubeadmConfigSpec \<Rightarrow> string \<Rightarrow> (kState, ObjectReference) comp" where
  "generateKubeadmConfig E spec name =
     bindE (getsE kCP) (\<lambda>c.
       let kcp = cpKCP c;
           cfg = \<lparr>kcfgMeta = emptyMeta\<lparr>mname := name, mnamespace := mnamespace (kcpMeta kcp),
                    mlabels := Some (ControlPlaneMachineLabelsForCluster E kcp (mname (clMeta (cpCluster c)))),
                    mannotations := ktAnnotations (ksMachineTemplate (kcpSpec kcp)),
                    mownerReferences := [kcpOwnerRef kcp]\<rparr>, kcfgSpec = spec, kcfgDataSecretName = None\<rparr>
       in bindE (wrapE ''Failed to create bootstrap configuration'' (kread E (KCreateConfig cfg) (\<lambda>cs. kCreatedConfig E cs cfg))) (\<lambda>created.
            returnE \<lparr>refKind = ''KubeadmConfig'', refNamespace = mnamespace (kcfgMeta created), refName = mname (kcfgMeta created),
              refUID = muid (kcfgMeta created), refAPIVersion = ''bootstrap.cluster.x-k8s.io/v1beta1''\<rparr>))"

definition removeKcpAnnotation :: "string \<Rightarrow> KubeadmControlPlane \<Rightarrow> KubeadmControlPlane" where
  "removeKcpAnnotation key kcp =
     kcp\<lparr>kcpMeta := (kcpMeta kcp)\<lparr>mannotations := map_option (\<lambda>f. f(key := None)) (mannotations (kcpMeta kcp))\<rparr>\<rparr>"

definition createMachine :: "'u kEnv \<Rightarrow> Machine \<Rightarrow> (kState, unit) comp" where
  "createMachine E machine =
     bindE (wrapE ''failed to create Machine'' (kcall E (KApplyMachine None machine))) (\<lambda>_.
       changeKCP (removeKcpAnnotation RemediationInProgressAnnotation))"

fun cleanupLoop :: "'u kEnv \<Rightarrow> ObjectReference option list \<Rightarrow> err list \<Rightarrow> (kState, err list) comp" where
  "cleanupLoop E [] errs = returnE errs"
| "cleanupLoop E (None # refs) errs = cleanupLoop E refs errs"
| "cleanupLoop E (Some ref # refs) errs =
     bindE (attemptE (kcall E (KDeleteObject ref))) (\<lambda>r.
       cleanupLoop E refs
         (case r of Inl e \<Rightarrow> if isNotFound e then errs else errs @ [Wrap ''failed to cleanup generated resources after error'' e]
                  | Inr _ \<Rightarrow> errs))"

definition cleanupFromGeneration :: "'u kEnv \<Rightarrow> ObjectReference option list \<Rightarrow> (kState, unit) comp" where
  "cleanupFromGeneration E refs =
     bindE (cleanupLoop E refs []) (\<lambda>errs. if length errs > 0 then failE (Aggregate errs) else returnE ())"

abbreviation "MachineGenerationFailedReason \<equiv> ''MachineGenerationFailed''"

definition markNotCreated :: "'u kEnv \<Rightarrow> string \<Rightarrow> err \<Rightarrow> (kState, unit) comp" where
  "markNotCreated E reason e =
     markKCP E (\<lambda>now cs. MarkFalse now cs MachinesCreatedCondition reason ConditionSeverityError (kErrText E e) [])"

text \<open>The bootstrap configuration and the machine; the errors, and the reference to the configuration if it was made.\<close>

definition generateRest ::
  "'u kEnv \<Rightarrow> KubeadmConfigSpec \<Rightarrow> Machine \<Rightarrow> (kState, ObjectReference option \<times> err list) comp" where
  "generateRest E bootstrapSpec machine =
     bindE (attemptE (generateKubeadmConfig E bootstrapSpec (mchName machine))) (\<lambda>r.
       case r of
         Inl e \<Rightarrow>
           bindE (markNotCreated E BootstrapTemplateCloningFailedReason e) (\<lambda>_.
             returnE (None, [Wrap ''failed to generate bootstrap config'' e]))
       | Inr ref \<Rightarrow>
           let machine' = machine\<lparr>mchSpec := (mchSpec machine)\<lparr>spBootstrap := (spBootstrap (mchSpec machine))\<lparr>bConfigRef := Some ref\<rparr>\<rparr>\<rparr> in
           bindE (attemptE (createMachine E machine')) (\<lambda>r'.
             case r' of
               Inl e \<Rightarrow>
                 bindE (markNotCreated E MachineGenerationFailedReason e) (\<lambda>_.
                   returnE (Some ref, [Wrap ''failed to create Machine'' e]))
             | Inr _ \<Rightarrow> returnE (Some ref, [])))"

definition cloneConfigsAndGenerateMachine :: "'u kEnv \<Rightarrow> KubeadmConfigSpec \<Rightarrow> string option \<Rightarrow> (kState, unit) comp" where
  "cloneConfigsAndGenerateMachine E bootstrapSpec failureDomain =
     bindE (getsE (\<lambda>s. (kCP s, kTrace s))) (\<lambda>(c, cs).
     bindE (wrapE ''failed to create Machine: failed to compute desired Machine''
              (liftE (kcpComputeDesiredMachine E (kName E cs) (cpKCP c) (cpCluster c) failureDomain None))) (\<lambda>machine.
       let infraMachineName = (if kDeprecatedNaming E
             then kName E cs (refName (ktInfrastructureRef (ksMachineTemplate (kcpSpec (cpKCP c)))) @ ''-'') else mchName machine) in
     bindE (attemptE (cloneInfrastructure E infraMachineName)) (\<lambda>r.
       case r of
         Inl e \<Rightarrow>
           bindE (markNotCreated E InfrastructureTemplateCloningFailedReason e) (\<lambda>_.
             failE (Wrap ''failed to clone infrastructure template'' e))
       | Inr infraRef \<Rightarrow>
           bindE (generateRest E bootstrapSpec
                    (machine\<lparr>mchSpec := (mchSpec machine)\<lparr>spInfrastructureRef := infraRef\<rparr>\<rparr>)) (\<lambda>(bootstrapRef, errs).
             if length errs > 0 then
               bindE (attemptE (cleanupFromGeneration E [Some infraRef, bootstrapRef])) (\<lambda>r'.
                 failE (Aggregate (errs @ (case r' of Inl e \<Rightarrow> [Wrap ''failed to cleanup generated resources'' e] | Inr _ \<Rightarrow> []))))
             else returnE ()))))"

section \<open>Preflight checks and scaling\<close>

abbreviation "requeueNow \<equiv> \<lparr>Requeue = True, RequeueAfter = 0\<rparr>"
abbreviation "deleteRequeueAfter \<equiv> (30 :: int)"
abbreviation "requeueIn n \<equiv> \<lparr>Requeue = False, RequeueAfter = n\<rparr>"

definition preflightCheckCondition :: "Machine \<Rightarrow> string \<Rightarrow> err list" where
  "preflightCheckCondition obj condition =
     (case Get (mchConditions obj) condition of
        None \<Rightarrow> [Err ''does not have condition'']
      | Some c \<Rightarrow>
          if cstatus c = ConditionFalse then [Err ''condition is false'']
          else if cstatus c = ConditionUnknown then [Err ''condition is unknown'']
          else [])"

text \<open>The failures of one machine; \<open>excluded\<close> are the names left out.\<close>

definition preflightMachine :: "bool \<Rightarrow> string list \<Rightarrow> Machine \<Rightarrow> err list" where
  "preflightMachine etcdManaged excluded machine =
     (if mchName machine \<in> set excluded then []
      else if stNodeRef (mchStatus machine) = None then [Err ''does not have a corresponding Node yet'']
      else concat (map (preflightCheckCondition machine) (controlPlaneHealthConditions etcdManaged)))"

definition preflightChecks :: "ControlPlane \<Rightarrow> string list \<Rightarrow> ctrlResult" where
  "preflightChecks c excluded =
     (if length (cpMachines c) = 0 then emptyResult
      else if HasDeletingMachine c then requeueIn deleteRequeueAfter
      else if concat (map (preflightMachine (IsEtcdManaged c) excluded) (cpMachines c)) \<noteq> []
      then requeueIn preflightFailedRequeueAfter
      else emptyResult)"

definition selectMachineForScaleDown :: "'u cpDeps \<Rightarrow> ControlPlane \<Rightarrow> Machines \<Rightarrow> Machine res" where
  "selectMachineForScaleDown D c outdatedMachines =
     (let machines =
        (if length (MachineWithDeleteAnnotation outdatedMachines) > 0 then MachineWithDeleteAnnotation outdatedMachines
         else if length (MachineWithDeleteAnnotation (cpMachines c)) > 0 then MachineWithDeleteAnnotation (cpMachines c)
         else if length (UnhealthyMachinesWithUnhealthyControlPlaneComponents c outdatedMachines) > 0
         then UnhealthyMachinesWithUnhealthyControlPlaneComponents c outdatedMachines
         else if length outdatedMachines > 0 then outdatedMachines
         else cpMachines c)
      in MachineInFailureDomainWithMostMachines D c machines)"

text \<open>The failure domain for a new machine; the comparison it needs changes the configurations.\<close>

definition nextFailureDomain :: "'u kEnv \<Rightarrow> (kState, string option) comp" where
  "nextFailureDomain E =
     bindE (getsE kCP) (\<lambda>c.
       let (r, cfgs) = NextFailureDomainForScaleUp (kDeps E) c in
       bindE (changeCP (\<lambda>c. c\<lparr>cpConfigs := cfgs\<rparr>)) (\<lambda>_. liftE r))"

definition createControlPlaneMachine :: "'u kEnv \<Rightarrow> KubeadmConfigSpec \<Rightarrow> (kState, ctrlResult) comp" where
  "createControlPlaneMachine E bootstrapSpec =
     bindE (getsE kCP) (\<lambda>c.
     bindE (wrapE ''failed to parse kubernetes version'' (liftE (ParseMajorMinorPatchTolerant (ksVersion (kcpSpec (cpKCP c)))))) (\<lambda>v.
     bindE (nextFailureDomain E) (\<lambda>fd.
     bindE (cloneConfigsAndGenerateMachine E (DefaultFeatureGates E bootstrapSpec v) fd) (\<lambda>_.
       returnE requeueNow))))"

definition initializeControlPlane :: "'u kEnv \<Rightarrow> (kState, ctrlResult) comp" where
  "initializeControlPlane E = bindE (getsE kCP) (\<lambda>c. createControlPlaneMachine E (InitialControlPlaneConfig c))"

definition scaleUpControlPlane :: "'u kEnv \<Rightarrow> (kState, ctrlResult) comp" where
  "scaleUpControlPlane E =
     bindE (getsE kCP) (\<lambda>c.
       if \<not> resultIsZero (preflightChecks c []) then returnE (preflightChecks c [])
       else createControlPlaneMachine E (JoinControlPlaneConfig c))"

definition scaleDownControlPlane :: "'u kEnv \<Rightarrow> Machines \<Rightarrow> (kState, ctrlResult) comp" where
  "scaleDownControlPlane E outdatedMachines =
     bindE (getsE kCP) (\<lambda>c.
     bindE (wrapE ''failed to select machine for scale down'' (liftE (selectMachineForScaleDown (kDeps E) c outdatedMachines))) (\<lambda>machineToDelete.
       if \<not> resultIsZero (preflightChecks c [mchName machineToDelete]) then returnE (preflightChecks c [mchName machineToDelete])
       else
         bindE (wrapE ''failed to create client to workload cluster'' (GetWorkloadCluster E)) (\<lambda>_.
         bindE (if IsEtcdManaged c then ForwardEtcdLeadership E machineToDelete (Newest (cpMachines c)) else returnE ()) (\<lambda>_.
         bindE (wrapE ''failed to parse kubernetes version'' (liftE (ParseTolerant (kLib E) (ksVersion (kcpSpec (cpKCP c)))))) (\<lambda>parsedVersion.
         bindE (RemoveMachineFromKubeadmConfigMap E machineToDelete parsedVersion) (\<lambda>_.
         bindE (attemptE (kcall E (KDeleteMachine machineToDelete))) (\<lambda>r.
           case r of
             Inl e \<Rightarrow> if isNotFound e then returnE requeueNow else failE e
           | Inr _ \<Rightarrow> returnE requeueNow)))))))"

section \<open>Rolling upgrades\<close>

type_synonym mutator = "ClusterConfiguration \<Rightarrow> ClusterConfiguration"

definition UpdateKubernetesVersionInKubeadmConfigMap :: "'u kEnv \<Rightarrow> semver \<Rightarrow> mutator" where
  "UpdateKubernetesVersionInKubeadmConfigMap E v c = c\<lparr>ccKubernetesVersion := ''v'' @ kSemverString E v\<rparr>"

definition UpdateImageRepositoryInKubeadmConfigMap :: "string \<Rightarrow> mutator" where
  "UpdateImageRepositoryInKubeadmConfigMap imageRepository c =
     (if imageRepository = [] then c else c\<lparr>ccImageRepository := imageRepository\<rparr>)"

definition UpdateFeatureGatesInKubeadmConfigMap :: "'u kEnv \<Rightarrow> KubeadmConfigSpec \<Rightarrow> semver \<Rightarrow> mutator" where
  "UpdateFeatureGatesInKubeadmConfigMap E spec v c =
     c\<lparr>ccFeatureGates := (case kcClusterConfiguration (DefaultFeatureGates E spec v) of
                             None \<Rightarrow> ccFeatureGates c | Some cc \<Rightarrow> ccFeatureGates cc)\<rparr>"

definition UpdateAPIServerInKubeadmConfigMap :: "string \<Rightarrow> mutator" where
  "UpdateAPIServerInKubeadmConfigMap apiServer c = c\<lparr>ccAPIServer := apiServer\<rparr>"

definition UpdateControllerManagerInKubeadmConfigMap :: "string \<Rightarrow> mutator" where
  "UpdateControllerManagerInKubeadmConfigMap controllerManager c = c\<lparr>ccControllerManager := controllerManager\<rparr>"

definition UpdateSchedulerInKubeadmConfigMap :: "string \<Rightarrow> mutator" where
  "UpdateSchedulerInKubeadmConfigMap scheduler c = c\<lparr>ccScheduler := scheduler\<rparr>"

definition UpdateEtcdLocalInKubeadmConfigMap :: "string option \<Rightarrow> mutator" where
  "UpdateEtcdLocalInKubeadmConfigMap etcdLocal c = (if ccEtcdLocal c \<noteq> None then c\<lparr>ccEtcdLocal := etcdLocal\<rparr> else c)"

definition UpdateEtcdExternalInKubeadmConfigMap :: "string option \<Rightarrow> mutator" where
  "UpdateEtcdExternalInKubeadmConfigMap etcdExternal c = (if ccEtcdExternal c \<noteq> None then c\<lparr>ccEtcdExternal := etcdExternal\<rparr> else c)"

definition kubeadmCMMutators :: "'u kEnv \<Rightarrow> KubeadmControlPlane \<Rightarrow> semver \<Rightarrow> mutator list res" where
  "kubeadmCMMutators E kcp parsedVersion =
     (let spec = ksKubeadmConfigSpec (kcpSpec kcp); first = UpdateKubernetesVersionInKubeadmConfigMap E parsedVersion in
      case kcClusterConfiguration spec of
        None \<Rightarrow> Inr [first]
      | Some cc \<Rightarrow>
          bindR (wrapR ''failed to parse kubernetes version'' (ParseMajorMinorPatchTolerant (ksVersion (kcpSpec kcp)))) (\<lambda>v.
            Inr [first, UpdateImageRepositoryInKubeadmConfigMap (ImageRepositoryFromClusterConfig E (Some cc) v),
                 UpdateFeatureGatesInKubeadmConfigMap E spec v, UpdateAPIServerInKubeadmConfigMap (ccAPIServer cc),
                 UpdateControllerManagerInKubeadmConfigMap (ccControllerManager cc), UpdateSchedulerInKubeadmConfigMap (ccScheduler cc),
                 (if ccEtcdLocal cc \<noteq> None then UpdateEtcdLocalInKubeadmConfigMap (ccEtcdLocal cc)
                  else UpdateEtcdExternalInKubeadmConfigMap (ccEtcdExternal cc))]))"

definition workloadOp :: "'u kEnv \<Rightarrow> workloadOp \<Rightarrow> (kState, unit) comp" where
  "workloadOp E w = kcall E (KWorkloadOp w)"

text \<open>What is updated in the workload cluster before machines are replaced.\<close>

definition upgradeWorkload :: "'u kEnv \<Rightarrow> KubeadmControlPlane \<Rightarrow> (kState, unit) comp" where
  "upgradeWorkload E kcp =
     bindE (GetWorkloadCluster E) (\<lambda>_.
     bindE (wrapE ''failed to parse kubernetes version'' (liftE (ParseTolerant (kLib E) (ksVersion (kcpSpec kcp))))) (\<lambda>v.
     bindE (wrapE ''failed to reconcile the remote kubelet RBAC role'' (workloadOp E (ReconcileKubeletRBACRole v))) (\<lambda>_.
     bindE (wrapE ''failed to reconcile the remote kubelet RBAC binding'' (workloadOp E (ReconcileKubeletRBACBinding v))) (\<lambda>_.
     bindE (wrapE ''failed to set role and role binding for kubeadm'' (workloadOp E AllowBootstrapTokensToGetNodes)) (\<lambda>_.
     bindE (wrapE ''failed to set cluster-admin ClusterRoleBinding for kubeadm'' (workloadOp E (AllowClusterAdminPermissions v))) (\<lambda>_.
     bindE (liftE (kubeadmCMMutators E kcp v)) (\<lambda>mutators.
     bindE (workloadOp E (UpdateClusterConfiguration v mutators)) (\<lambda>_.
       wrapE ''failed to upgrade kubelet config map'' (workloadOp E (UpdateKubeletConfigMap v))))))))))"

definition upgradeControlPlane :: "'u kEnv \<Rightarrow> Machines \<Rightarrow> (kState, ctrlResult) comp" where
  "upgradeControlPlane E machinesRequireUpgrade =
     bindE (getsE kCP) (\<lambda>c.
       case ksRolloutStrategy (kcpSpec (cpKCP c)) of
         None \<Rightarrow> failE (Err ''rolloutStrategy is not set'')
       | Some strategy \<Rightarrow>
       (case rsRollingUpdate strategy of
          None \<Rightarrow> failE (Err ''rolloutStrategy is not set'')
        | Some maxSurge \<Rightarrow>
       bindE (upgradeWorkload E (cpKCP c)) (\<lambda>_.
         if rsType strategy \<noteq> RollingUpdateStrategyType then returnE emptyResult
         else
           bindE (liftE (deref ''controlPlane.KCP.Spec.Replicas'' (ksReplicas (kcpSpec (cpKCP c))))) (\<lambda>replicas.
           bindE (liftE (deref ''MaxSurge'' maxSurge)) (\<lambda>surge.
             let maxNodes = wrap32 (replicas + wrap32 (kIntValue E surge)) in
             if wrap32 (int (length (cpMachines c))) < maxNodes then scaleUpControlPlane E
             else scaleDownControlPlane E machinesRequireUpgrade)))))"

section \<open>One change at a time\<close>

text \<open>
  A run that changes the machines at most once, and only by calls that satisfy \<open>P\<close>: no change has been
  made since \<open>h0\<close> when such a call is made.
\<close>

definition untouched :: "kCall list \<Rightarrow> kCall list \<Rightarrow> bool" where
  "untouched h0 h \<longleftrightarrow> (\<exists>cs. h = h0 @ cs \<and> filter changesMachines cs = [])"

definition onceIf :: "(kCall \<Rightarrow> bool) \<Rightarrow> kCall list \<Rightarrow> kCall list \<Rightarrow> kCall \<Rightarrow> bool" where
  "onceIf P h0 h c \<longleftrightarrow> (changesMachines c \<longrightarrow> P c \<and> untouched h0 h)"

definition onceAt :: "(kCall \<Rightarrow> bool) \<Rightarrow> (kState, 'a) comp \<Rightarrow> kState \<Rightarrow> bool" where
  "onceAt P m s \<longleftrightarrow> (\<forall>h0. untouched h0 (kTrace s) \<longrightarrow> keepsAt (allowed kTrace (onceIf P h0)) m s)"

lemma untouched_refl [simp]: "untouched h h"
  by (simp add: untouched_def)

lemma untouched_quiet: "untouched h0 (kTrace s) \<Longrightarrow> quiet s s' \<Longrightarrow> untouched h0 (kTrace s')"
  by (auto simp: untouched_def quiet_iff)

lemma quiet_onceIf: "keeps quiet m \<Longrightarrow> keeps (allowed kTrace (onceIf P h0)) m"
  unfolding keeps_def by (blast intro: allowed_mono [where ok = "\<lambda>_ c. \<not> changesMachines c"] onceIf_def [THEN iffD2])

lemma once_quiet: "keeps quiet m \<Longrightarrow> onceAt P m s"
  by (simp add: onceAt_def quiet_onceIf keeps_at)

lemma once_kcall: "P c \<Longrightarrow> onceAt P (kcall E c) s"
  unfolding onceAt_def by (intro allI impI kcallAt) (simp add: onceIf_def)

lemma once_after:
  assumes "keeps quiet m" and "\<And>x s1. m s = (Inr x, s1) \<Longrightarrow> onceAt P (f x) s1"
  shows "onceAt P (bindE m f) s"
  unfolding onceAt_def
proof (intro allI impI kcalls.keepsAt_bindE)
  fix h0 assume h: "untouched h0 (kTrace s)"
  show "keepsAt (allowed kTrace (onceIf P h0)) m s" by (rule keeps_at [OF quiet_onceIf [OF assms(1)]])
  fix x s1 assume r: "m s = (Inr x, s1)"
  show "keepsAt (allowed kTrace (onceIf P h0)) (f x) s1"
    using assms(2) [OF r] untouched_quiet [OF h keepsD [OF assms(1) r]] by (simp add: onceAt_def)
qed

lemma once_then: "onceAt P m s \<Longrightarrow> (\<And>x. keeps quiet (f x)) \<Longrightarrow> onceAt P (bindE m f) s"
  unfolding onceAt_def by (intro allI impI kcalls.keepsAt_bindE) (auto intro: keeps_at quiet_onceIf)

lemma once_attempt_then: "onceAt P m s \<Longrightarrow> (\<And>x. keeps quiet (f x)) \<Longrightarrow> onceAt P (bindE (attemptE m) f) s"
  unfolding onceAt_def by (intro allI impI kcalls.keepsAt_attempt) (auto intro: keeps_at quiet_onceIf)

lemma once_after_attempt:
  assumes "keeps quiet m" and "\<And>x s1. m s = (x, s1) \<Longrightarrow> onceAt P (f x) s1"
  shows "onceAt P (bindE (attemptE m) f) s"
  by (rule once_after) (use assms in \<open>auto intro: kcalls.keeps_attemptE simp: attemptE_def split: prod.splits\<close>)

lemma once_wrap: "onceAt P m s \<Longrightarrow> onceAt P (wrapE w m) s"
  by (simp add: onceAt_def kcalls.keepsAt_wrapE)

lemma once_if: "(b \<Longrightarrow> onceAt P m s) \<Longrightarrow> (\<not> b \<Longrightarrow> onceAt P m' s) \<Longrightarrow> onceAt P (if b then m else m') s"
  by simp

lemma once_option: "(x = None \<Longrightarrow> onceAt P m s) \<Longrightarrow> (\<And>v. x = Some v \<Longrightarrow> onceAt P (f v) s) \<Longrightarrow>
    onceAt P (case x of None \<Rightarrow> m | Some v \<Rightarrow> f v) s"
  by (cases x) simp_all

lemma once_sum: "(\<And>e. x = Inl e \<Longrightarrow> onceAt P (g e) s) \<Longrightarrow> (\<And>v. x = Inr v \<Longrightarrow> onceAt P (f v) s) \<Longrightarrow>
    onceAt P (case x of Inl e \<Rightarrow> g e | Inr v \<Rightarrow> f v) s"
  by (cases x) simp_all

lemma once_pure: "onceAt P (returnE x) s" "onceAt P (failE e) s"
  by (simp_all add: once_quiet kcalls.keeps_pure)

lemmas once_rules = once_after once_if once_option once_sum once_pure

lemma once_mono:
  assumes "onceAt P m s" and "\<And>c. P c \<Longrightarrow> Q c"
  shows "onceAt Q m s"
  unfolding onceAt_def keepsAt_def
proof (intro allI impI)
  fix h0 r s' assume "untouched h0 (kTrace s)" "m s = (r, s')"
  with assms(1) have "allowed kTrace (onceIf P h0) s s'" by (simp add: onceAt_def keepsAt_def)
  then show "allowed kTrace (onceIf Q h0) s s'" by (rule allowed_mono) (use assms(2) in \<open>simp add: onceIf_def\<close>)
qed

text \<open>In such a run the machines change at most once.\<close>

lemma okFrom_snoc: "okFrom ok h (cs @ [c]) \<longleftrightarrow> okFrom ok h cs \<and> ok (h @ cs) c"
  by (simp add: okFrom_append)

lemma onceIf_count: "okFrom (onceIf P h0) h0 cs \<Longrightarrow> length (filter changesMachines cs) \<le> 1"
  by (induction cs rule: rev_induct) (auto simp: okFrom_snoc onceIf_def untouched_def)

lemma onceD: "onceAt P m s \<Longrightarrow> allowed kTrace (onceIf P (kTrace s)) s (snd (m s))"
  unfolding onceAt_def keepsAt_def by (metis untouched_refl prod.collapse)

text \<open>Creating a machine.\<close>

fun createsMachine :: "kCall \<Rightarrow> bool" where
  "createsMachine (KApplyMachine None _) = True"
| "createsMachine _ = False"

lemma cloneInfrastructure_quiet: "keeps quiet (cloneInfrastructure E n)"
  unfolding cloneInfrastructure_def kGetExternal_def Let_def by (intro kc_rules) simp_all

lemma generateKubeadmConfig_quiet: "keeps quiet (generateKubeadmConfig E spec n)"
  unfolding generateKubeadmConfig_def Let_def by (intro kc_rules) simp_all

lemma markNotCreated_quiet: "keeps quiet (markNotCreated E reason e)"
  unfolding markNotCreated_def by (intro kc_rules)

lemma cleanupLoop_quiet: "keeps quiet (cleanupLoop E refs errs)"
proof (induction refs arbitrary: errs)
  case (Cons r refs)
  show ?case
  proof (cases r)
    case None
    with Cons.IH show ?thesis by simp
  next
    case (Some ref)
    then show ?thesis by (simp only: cleanupLoop.simps) (intro kc_rules Cons.IH, simp)
  qed
qed (simp only: cleanupLoop.simps kcalls.keeps_pure)

lemma cleanupFromGeneration_quiet: "keeps quiet (cleanupFromGeneration E refs)"
  unfolding cleanupFromGeneration_def by (intro kc_rules cleanupLoop_quiet)

lemma createMachine_once: "onceAt createsMachine (createMachine E m) s"
  unfolding createMachine_def by (rule once_then [OF once_wrap [OF once_kcall]]) (simp, intro kc_rules)

lemma generateRest_once: "onceAt createsMachine (generateRest E spec m) s"
  unfolding generateRest_def
proof (rule once_after_attempt [OF generateKubeadmConfig_quiet])
  fix r s1
  show "onceAt createsMachine
     (case r of Inl e \<Rightarrow> bindE (markNotCreated E BootstrapTemplateCloningFailedReason e) (\<lambda>_.
             returnE (None, [Wrap ''failed to generate bootstrap config'' e]))
       | Inr ref \<Rightarrow>
           let machine' = m\<lparr>mchSpec := (mchSpec m)\<lparr>spBootstrap := (spBootstrap (mchSpec m))\<lparr>bConfigRef := Some ref\<rparr>\<rparr>\<rparr> in
           bindE (attemptE (createMachine E machine')) (\<lambda>r'.
             case r' of
               Inl e \<Rightarrow>
                 bindE (markNotCreated E MachineGenerationFailedReason e) (\<lambda>_.
                   returnE (Some ref, [Wrap ''failed to create Machine'' e]))
             | Inr _ \<Rightarrow> returnE (Some ref, []))) s1"
  proof (cases r)
    case (Inl e)
    then show ?thesis by simp (rule once_quiet, intro kc_rules markNotCreated_quiet)
  next
    case (Inr ref)
    then show ?thesis
      by (simp add: Let_def) (rule once_attempt_then [OF createMachine_once], intro kc_rules markNotCreated_quiet)
  qed
qed

lemma cloneConfigsAndGenerateMachine_once: "onceAt createsMachine (cloneConfigsAndGenerateMachine E spec fd) s"
  unfolding cloneConfigsAndGenerateMachine_def Let_def case_prod_beta
proof (intro once_after)
  fix r s1
  show "onceAt createsMachine (case r of
         Inl e \<Rightarrow>
           bindE (markNotCreated E InfrastructureTemplateCloningFailedReason e) (\<lambda>_.
             failE (Wrap ''failed to clone infrastructure template'' e))
       | Inr infraRef \<Rightarrow>
           bindE (generateRest E spec (machine\<lparr>mchSpec := (mchSpec machine)\<lparr>spInfrastructureRef := infraRef\<rparr>\<rparr>)) (\<lambda>x.
             if length (snd x) > 0 then
               bindE (attemptE (cleanupFromGeneration E [Some infraRef, fst x])) (\<lambda>r'.
                 failE (Aggregate (snd x @ (case r' of Inl e \<Rightarrow> [Wrap ''failed to cleanup generated resources'' e] | Inr _ \<Rightarrow> []))))
             else returnE ())) s1" for machine
  proof (cases r)
    case (Inl e)
    then show ?thesis by simp (rule once_quiet, intro kc_rules markNotCreated_quiet)
  next
    case (Inr ref)
    then show ?thesis by simp (rule once_then [OF generateRest_once], intro kc_rules cleanupFromGeneration_quiet)
  qed
qed (intro kc_rules cloneInfrastructure_quiet)+

lemma nextFailureDomain_quiet: "keeps quiet (nextFailureDomain E)"
  unfolding nextFailureDomain_def Let_def by (intro kc_rules)

lemma createControlPlaneMachine_once: "onceAt createsMachine (createControlPlaneMachine E spec) s"
  unfolding createControlPlaneMachine_def
  by (rule once_after, intro kc_rules, rule once_after, intro kc_rules, rule once_after, rule nextFailureDomain_quiet,
      rule once_then [OF cloneConfigsAndGenerateMachine_once], intro kc_rules)

section \<open>Scaling and upgrading are safe\<close>

text \<open>
  A control plane whose machines, other than the named ones, are stable: they have a node and report all
  components as healthy; and none, named or not, is being deleted.
\<close>

definition stableExcept :: "ControlPlane \<Rightarrow> string list \<Rightarrow> bool" where
  "stableExcept c names \<longleftrightarrow>
     (\<forall>x \<in> set (cpMachines c). \<not> HasDeletionTimestamp x \<and>
        (mchName x \<notin> set names \<longrightarrow> HasNode x \<and>
           (\<forall>t \<in> set (controlPlaneHealthConditions (IsEtcdManaged c)). Has (mchConditions x) t \<and>
              \<not> IsFalse (mchConditions x) t \<and> \<not> IsUnknown (mchConditions x) t)))"

lemma preflightCheckCondition_ok:
  "preflightCheckCondition m t = [] \<longleftrightarrow> Has (mchConditions m) t \<and> \<not> IsFalse (mchConditions m) t \<and> \<not> IsUnknown (mchConditions m) t"
  by (auto simp: preflightCheckCondition_def Has_def IsFalse_def IsUnknown_def split: option.splits if_splits)

lemma AndF_single [simp]: "AndF [f] = f"
  by (simp add: fun_eq_iff AndF_def)

lemma HasDeletingMachine_iff:
  "wfMachines (cpMachines c) \<Longrightarrow> HasDeletingMachine c \<longleftrightarrow> (\<exists>x \<in> set (cpMachines c). HasDeletionTimestamp x)"
  by (auto simp: HasDeletingMachine_def Filter_eq filter_empty_conv)

lemma preflightChecks_ok:
  assumes "wfMachines (cpMachines c)"
  shows "resultIsZero (preflightChecks c names) \<longleftrightarrow> stableExcept c names"
proof -
  have m: "preflightMachine b names x = [] \<longleftrightarrow> mchName x \<notin> set names \<longrightarrow> HasNode x \<and>
     (\<forall>t \<in> set (controlPlaneHealthConditions b). preflightCheckCondition x t = [])" for b x
    by (auto simp: preflightMachine_def HasNode_def)
  show ?thesis
    using HasDeletingMachine_iff [OF assms]
    by (auto simp: preflightChecks_def stableExcept_def resultIsZero_def preflightFailedRequeueAfter_def
        m preflightCheckCondition_ok [symmetric] concat_eq_Nil_conv)
qed

definition deletesForScaleDown :: "'u kEnv \<Rightarrow> ControlPlane \<Rightarrow> Machines \<Rightarrow> kCall \<Rightarrow> bool" where
  "deletesForScaleDown E c outdated call \<longleftrightarrow>
     (\<exists>m. call = KDeleteMachine m \<and> selectMachineForScaleDown (kDeps E) c outdated = Inr m \<and> stableExcept c [mchName m])"

lemma scaleUpControlPlane_once:
  assumes "wfMachines (cpMachines (kCP s))"
  shows "onceAt (\<lambda>call. createsMachine call \<and> stableExcept (kCP s) []) (scaleUpControlPlane E) s"
proof (cases "stableExcept (kCP s) []")
  case True
  have "onceAt (\<lambda>call. createsMachine call \<and> stableExcept (kCP s) []) (createControlPlaneMachine E spec) s" for spec
    by (rule once_mono [OF createControlPlaneMachine_once]) (use True in simp)
  with True show ?thesis by (simp add: scaleUpControlPlane_def preflightChecks_ok [OF assms] onceAt_def keepsAt_def)
next
  case False
  then show ?thesis by (simp add: scaleUpControlPlane_def preflightChecks_ok [OF assms] onceAt_def keepsAt_def)
qed

lemma wrapE_liftE: "wrapE w (liftE r) = liftE (wrapR w r)"
  by (cases r) (simp_all add: fun_eq_iff wrapE_def wrapR_def liftE_def)

lemma scaleDownControlPlane_once:
  assumes "wfMachines (cpMachines (kCP s))"
  shows "onceAt (deletesForScaleDown E (kCP s) outdated) (scaleDownControlPlane E outdated) s"
proof (cases "selectMachineForScaleDown (kDeps E) (kCP s) outdated")
  case (Inl e)
  then show ?thesis by (simp add: scaleDownControlPlane_def onceAt_def keepsAt_def wrapE_liftE wrapR_def)
next
  case (Inr m)
  let ?P = "deletesForScaleDown E (kCP s) outdated"
  show ?thesis
  proof (cases "stableExcept (kCP s) [mchName m]")
    case True
    with Inr have P: "?P (KDeleteMachine m)" by (simp add: deletesForScaleDown_def)
    have "onceAt ?P
        (bindE (wrapE ''failed to create client to workload cluster'' (GetWorkloadCluster E)) (\<lambda>_.
         bindE (if IsEtcdManaged (kCP s) then ForwardEtcdLeadership E m (Newest (cpMachines (kCP s))) else returnE ()) (\<lambda>_.
         bindE (wrapE ''failed to parse kubernetes version'' (liftE (ParseTolerant (kLib E) (ksVersion (kcpSpec (cpKCP (kCP s))))))) (\<lambda>parsedVersion.
         bindE (RemoveMachineFromKubeadmConfigMap E m parsedVersion) (\<lambda>_.
         bindE (attemptE (kcall E (KDeleteMachine m))) (\<lambda>r.
           case r of
             Inl e \<Rightarrow> if isNotFound e then returnE requeueNow else failE e
           | Inr _ \<Rightarrow> returnE requeueNow)))))) s"
      by (intro once_after once_attempt_then once_kcall P)
        (intro kc_rules GetWorkloadCluster_quiet ForwardEtcdLeadership_quiet RemoveMachineFromKubeadmConfigMap_quiet)+
    with Inr True show ?thesis by (simp add: scaleDownControlPlane_def preflightChecks_ok [OF assms] onceAt_def keepsAt_def wrapE_liftE wrapR_def)
  next
    case False
    with Inr show ?thesis by (simp add: scaleDownControlPlane_def preflightChecks_ok [OF assms] onceAt_def keepsAt_def wrapE_liftE wrapR_def)
  qed
qed

text \<open>The operations on the workload cluster leave the control plane as it is, but for the cached client.\<close>

definition sameCP :: "kState \<Rightarrow> kState \<Rightarrow> bool" where
  "sameCP s s' \<longleftrightarrow> (\<exists>b. kCP s' = (kCP s)\<lparr>cpWorkload := b\<rparr>)"

lemma workload_same: "c\<lparr>cpWorkload := cpWorkload c\<rparr> = c"
  by simp

interpretation samecp: state_relation sameCP
proof
  show "sameCP s s" for s unfolding sameCP_def by (metis workload_same)
qed (auto simp: sameCP_def)

lemma kcall_sameCP: "keeps sameCP (kcall E c)"
  unfolding keeps_def by (auto simp: sameCP_def dest!: kcall_state) (metis workload_same)

lemma GetWorkloadCluster_sameCP: "keeps sameCP (GetWorkloadCluster E)"
  unfolding GetWorkloadCluster_def changeCP_def
  by (intro samecp.keeps_rules samecp.keeps_modifyE kcall_sameCP) (auto simp: sameCP_def)

lemma upgradeWorkload_sameCP: "keeps sameCP (upgradeWorkload E kcp)"
  unfolding upgradeWorkload_def workloadOp_def by (intro samecp.keeps_rules kcall_sameCP GetWorkloadCluster_sameCP)

lemma upgradeWorkload_quiet: "keeps quiet (upgradeWorkload E kcp)"
  unfolding upgradeWorkload_def workloadOp_def by (intro kc_rules GetWorkloadCluster_quiet; simp)

lemma workload_irrelevant [simp]:
  "stableExcept (c\<lparr>cpWorkload := b\<rparr>) names = stableExcept c names"
  "selectMachineForScaleDown D (c\<lparr>cpWorkload := b\<rparr>) outdated = selectMachineForScaleDown D c outdated"
  "deletesForScaleDown E (c\<lparr>cpWorkload := b\<rparr>) outdated = deletesForScaleDown E c outdated"
proof -
  show 1: "stableExcept (c\<lparr>cpWorkload := b\<rparr>) names = stableExcept c names" for names
    by (simp add: stableExcept_def IsEtcdManaged_def)
  show 2: "selectMachineForScaleDown D (c\<lparr>cpWorkload := b\<rparr>) outdated = selectMachineForScaleDown D c outdated" for D :: "'x cpDeps"
  proof -
    have "FailureDomainWithMostMachines D (c\<lparr>cpWorkload := b\<rparr>) ms = FailureDomainWithMostMachines D c ms" for ms
      by (simp add: FailureDomainWithMostMachines_def controlPlaneDomains_def cong: option.case_cong)
    then show ?thesis
      by (simp add: selectMachineForScaleDown_def MachineInFailureDomainWithMostMachines_def
          UnhealthyMachinesWithUnhealthyControlPlaneComponents_def IsEtcdManaged_def)
  qed
  show "deletesForScaleDown E (c\<lparr>cpWorkload := b\<rparr>) outdated = deletesForScaleDown E c outdated"
    by (simp add: deletesForScaleDown_def fun_eq_iff 1 2)
qed

text \<open>The change an upgrade may make: one machine more below the surge, one less at it.\<close>

definition upgradeChange :: "'u kEnv \<Rightarrow> ControlPlane \<Rightarrow> Machines \<Rightarrow> int \<Rightarrow> kCall \<Rightarrow> bool" where
  "upgradeChange E c outdated maxNodes call \<longleftrightarrow>
     (createsMachine call \<and> int (length (cpMachines c)) < maxNodes \<and> stableExcept c []) \<or>
     (deletesForScaleDown E c outdated call \<and> maxNodes \<le> int (length (cpMachines c)))"

end
