(* ===== verification/KcpRemediation.thy ===== *)
theory KcpRemediation
  imports KcpScale
begin

text \<open>
  Remediation of unhealthy control plane machines
  (\<open>src/cluster-api/controlplane/kubeadm/internal/controllers/remediation.go\<close>): the choice of the machine, the
  limits on retries, the projection of the etcd cluster without the machine's member, and the
  whole handler with the deferred patch of the machine.
\<close>

section \<open>Remediation data\<close>

record RemediationData =
  rdMachine :: string
  rdTimestamp :: int
  rdRetryCount :: int

text \<open>The annotation holds JSON; a stored time has the resolution of a second.\<close>

definition RemediationDataFromAnnotation :: "'u kEnv \<Rightarrow> string \<Rightarrow> RemediationData res" where
  "RemediationDataFromAnnotation E value' =
     (case kDecodeRemediation E value' of
        Inl e \<Rightarrow> Inl (Wrap ''failed to unmarshal value'' e)
      | Inr (machine, timestamp, retryCount) \<Rightarrow>
          Inr \<lparr>rdMachine = machine, rdTimestamp = timestamp, rdRetryCount = retryCount\<rparr>)"

definition RemediationData_Marshal :: "'u kEnv \<Rightarrow> RemediationData \<Rightarrow> string res" where
  "RemediationData_Marshal E r =
     wrapR ''failed to marshal value'' (kEncodeRemediation E (rdMachine r) (rdTimestamp r) (rdRetryCount r))"

definition ToStatus :: "RemediationData \<Rightarrow> LastRemediationStatus" where
  "ToStatus r = \<lparr>lrMachine = rdMachine r, lrTimestamp = rdTimestamp r, lrRetryCount = wrap32 (rdRetryCount r)\<rparr>"

section \<open>Which machine, and whether it may be retried\<close>

definition getMachineToBeRemediated :: "Machines \<Rightarrow> Machine option" where
  "getMachineToBeRemediated unhealthyMachines =
     (case Oldest (Filter unhealthyMachines [NotF HasNode]) of
        None \<Rightarrow> Oldest unhealthyMachines
      | Some m \<Rightarrow> Some m)"

text \<open>
  The verdict on a retry: the data to record, whether to go on, and the message for the machine's
  condition when not. Times and durations are in nanoseconds.
\<close>

definition checkRetryLimits ::
  "'u kEnv \<Rightarrow> Machine \<Rightarrow> KubeadmControlPlane \<Rightarrow> int \<Rightarrow> (RemediationData \<times> bool \<times> (string \<times> string list) option) res" where
  "checkRetryLimits E machine kcp reconciliationTime =
     bindR (case mlookup (mannotations (mchMeta machine)) RemediationForAnnotation of
              None \<Rightarrow> Inr None
            | Some v \<Rightarrow> bindR (RemediationDataFromAnnotation E v) (\<lambda>l. Inr (Some l))) (\<lambda>lastData.
       let fresh = \<lparr>rdMachine = mchName machine, rdTimestamp = reconciliationTime, rdRetryCount = 0\<rparr> in
       case lastData of
         None \<Rightarrow> Inr (fresh, True, None)
       | Some l \<Rightarrow>
           let strategy = ksRemediationStrategy (kcpSpec kcp);
               minHealthyPeriod = (case strategy of None \<Rightarrow> DefaultMinHealthyPeriod
                 | Some st \<Rightarrow> (case rmMinHealthyPeriod st of None \<Rightarrow> DefaultMinHealthyPeriod | Some d \<Rightarrow> d));
               retryPeriod = (case strategy of None \<Rightarrow> 0 | Some st \<Rightarrow> rmRetryPeriod st);
               lastRemediationTime = (if rdTimestamp l = 0
                 then reconciliationTime + wrap64 (- 2 * max minHealthyPeriod retryPeriod) else rdTimestamp l)
           in if \<not> lastRemediationTime + minHealthyPeriod > reconciliationTime then Inr (fresh, True, None)
              else
                let carried = fresh\<lparr>rdRetryCount := rdRetryCount l\<rparr> in
                if lastRemediationTime + retryPeriod > reconciliationTime then
                  Inr (carried, False, Some (''KCP can't remediate this machine because the operation already failed in the latest %s (RetryPeriod)'',
                    [kDurationString E retryPeriod]))
                else
                  (case (case strategy of None \<Rightarrow> None | Some st \<Rightarrow> rmMaxRetry st) of
                     Some maxRetry \<Rightarrow>
                       if rdRetryCount carried \<ge> maxRetry then
                         Inr (carried, False, Some (''KCP can't remediate this machine because the operation already failed %d times (MaxRetry)'',
                           [FormatInt maxRetry]))
                       else Inr (carried\<lparr>rdRetryCount := wrap64 (rdRetryCount carried + 1)\<rparr>, True, None)
                   | None \<Rightarrow> Inr (carried\<lparr>rdRetryCount := wrap64 (rdRetryCount carried + 1)\<rparr>, True, None)))"

section \<open>The etcd cluster without the machine\<close>

text \<open>The loop over the members: how many remain, and how many of those are unhealthy.\<close>

fun projectMembers :: "Machines \<Rightarrow> Machine \<Rightarrow> string list \<Rightarrow> int \<times> int \<Rightarrow> int \<times> int" where
  "projectMembers machines m [] (total', unhealthy) = (total', unhealthy)"
| "projectMembers machines m (etcdMember # members) (total', unhealthy) =
     (if map_option refName (stNodeRef (mchStatus m)) = Some etcdMember
      then projectMembers machines m members (total', unhealthy)
      else
        case find (\<lambda>x. map_option refName (stNodeRef (mchStatus x)) = Some etcdMember) machines of
          None \<Rightarrow> projectMembers machines m members (total' + 1, unhealthy + 1)
        | Some machine \<Rightarrow>
            if \<not> IsTrue (mchConditions machine) MachineEtcdMemberHealthyCondition
            then projectMembers machines m members (total' + 1, unhealthy + 1)
            else projectMembers machines m members (total' + 1, unhealthy))"

definition quorumKept :: "Machines \<Rightarrow> Machine \<Rightarrow> string list \<Rightarrow> bool" where
  "quorumKept machines m etcdMembers =
     (let (targetTotalMembers, targetUnhealthyMembers) = projectMembers machines m etcdMembers (0, 0);
          targetQuorum = targetTotalMembers div 2 + 1
      in targetTotalMembers - targetUnhealthyMembers \<ge> targetQuorum)"

definition canSafelyRemoveEtcdMember :: "'u kEnv \<Rightarrow> Machine \<Rightarrow> (kState, bool) comp" where
  "canSafelyRemoveEtcdMember E m =
     bindE (wrapE ''failed to get client for workload cluster'' (GetWorkloadCluster E)) (\<lambda>_.
     bindE (wrapE ''failed to get etcdStatus for workload cluster'' (EtcdMembers E)) (\<lambda>etcdMembers.
     bindE (getsE kCP) (\<lambda>c. returnE (quorumKept (cpMachines c) m etcdMembers))))"

section \<open>The handler\<close>

definition markRemediation :: "'u kEnv \<Rightarrow> string \<Rightarrow> string \<Rightarrow> string \<Rightarrow> string \<Rightarrow> string list \<Rightarrow> (kState, unit) comp" where
  "markRemediation E name reason severity fm args =
     markMachine E name (\<lambda>now cs. MarkFalse now cs MachineOwnerRemediatedCondition reason severity fm args)"

text \<open>
  Machines that are healthy again lose the mark of a remediation that was never done; each is patched,
  the errors are collected.
\<close>

fun healedLoop :: "'u kEnv \<Rightarrow> Machines \<Rightarrow> err list \<Rightarrow> (kState, err list) comp" where
  "healedLoop E [] errs = returnE errs"
| "healedLoop E (m # ms) errs =
     (if IsTrue (mchConditions m) MachineHealthCheckSucceededCondition \<and>
         IsFalse (mchConditions m) MachineOwnerRemediatedCondition \<and> timeIsZero (mdeletionTimestamp (mchMeta m))
      then
        bindE (attemptE (kcall E (KHelper (mchName m)))) (\<lambda>r.
          case r of
            Inl e \<Rightarrow> healedLoop E ms (errs @ [e])
          | Inr _ \<Rightarrow>
              let m' = setMachineConditions (Delete (mchConditions m) MachineOwnerRemediatedCondition) m in
              bindE (storeMachine m') (\<lambda>_.
              bindE (attemptE (kcall E (KPatchMachine m m'))) (\<lambda>r'.
                healedLoop E ms (case r' of Inl e \<Rightarrow> errs @ [e] | Inr _ \<Rightarrow> errs))))
      else healedLoop E ms errs)"

text \<open>Whether another remediation is under way; a stale mark of one is removed.\<close>

definition anotherInProgress :: "'u kEnv \<Rightarrow> (kState, bool) comp" where
  "anotherInProgress E =
     bindE (getsE kCP) (\<lambda>c.
       case mlookup (mannotations (kcpMeta (cpKCP c))) RemediationInProgressAnnotation of
         None \<Rightarrow> returnE False
       | Some v \<Rightarrow>
           bindE (liftE (RemediationDataFromAnnotation E v)) (\<lambda>data.
             if list_ex (\<lambda>m. mcreationTimestamp (mchMeta m) * 1000000000 > rdTimestamp data) (cpMachines c)
             then bindE (changeKCP (removeKcpAnnotation RemediationInProgressAnnotation)) (\<lambda>_. returnE False)
             else returnE True))"

text \<open>The checks for a control plane that is initialized; whether the machine may be removed now.\<close>

definition remediationChecks :: "'u kEnv \<Rightarrow> Machine \<Rightarrow> (kState, bool) comp" where
  "remediationChecks E m =
     bindE (getsE kCP) (\<lambda>c.
       let skip = (\<lambda>msg. bindE (markRemediation E (mchName m) WaitingForRemediationReason ConditionSeverityWarning msg []) (\<lambda>_. returnE False)) in
       if length (cpMachines c) \<le> 1 then skip ''KCP can't remediate if current replicas are less or equal to 1''
       else if HasHealthyMachineStillProvisioning c
       then skip ''KCP waiting for control plane machine provisioning to complete before triggering remediation''
       else if HasDeletingMachine c
       then skip ''KCP waiting for control plane machine deletion to complete before triggering remediation''
       else if \<not> IsEtcdManaged c then returnE True
       else
         bindE (attemptE (canSafelyRemoveEtcdMember E m)) (\<lambda>r.
           case r of
             Inl e \<Rightarrow>
               bindE (markRemediation E (mchName m) RemediationFailedReason ConditionSeverityError (kErrText E e) []) (\<lambda>_. failE e)
           | Inr safe \<Rightarrow>
               if safe then returnE True
               else skip ''KCP can't remediate this machine because this could result in etcd loosing quorum''))"

text \<open>What is done in the workload cluster before the machine is deleted; whether to go on.\<close>

definition prepareRemoval :: "'u kEnv \<Rightarrow> Machine \<Rightarrow> (kState, bool) comp" where
  "prepareRemoval E m =
     bindE (wrapE ''failed to create client to workload cluster'' (GetWorkloadCluster E)) (\<lambda>_.
     bindE (getsE kCP) (\<lambda>c.
     bindE (if \<not> IsEtcdManaged c then returnE True
            else
              case Newest (HealthyMachinesByMachineHealthCheck c) of
                None \<Rightarrow>
                  bindE (markRemediation E (mchName m) RemediationFailedReason ConditionSeverityWarning
                    ''A control plane machine needs remediation, but there is no healthy machine to forward etcd leadership to. Skipping remediation'' []) (\<lambda>_.
                    returnE False)
              | Some candidate \<Rightarrow>
                  bindE (attemptE (ForwardEtcdLeadership E m (Some candidate))) (\<lambda>r.
                    case r of
                      Inl e \<Rightarrow>
                        bindE (markRemediation E (mchName m) RemediationFailedReason ConditionSeverityError (kErrText E e) []) (\<lambda>_. failE e)
                    | Inr _ \<Rightarrow> returnE True)) (\<lambda>goOn.
       if \<not> goOn then returnE False
       else
         bindE (wrapE ''failed to parse kubernetes version'' (liftE (ParseTolerant (kLib E) (ksVersion (kcpSpec (cpKCP c)))))) (\<lambda>v.
         bindE (RemoveMachineFromKubeadmConfigMap E m v) (\<lambda>_. returnE True)))))"

definition deleteUnhealthy :: "'u kEnv \<Rightarrow> Machine \<Rightarrow> RemediationData \<Rightarrow> (kState, ctrlResult) comp" where
  "deleteUnhealthy E m data =
     bindE (attemptE (kcall E (KDeleteMachine m))) (\<lambda>r.
       case r of
         Inl e \<Rightarrow>
           bindE (markRemediation E (mchName m) RemediationFailedReason ConditionSeverityError (kErrText E e) []) (\<lambda>_.
             failE (Wrap ''failed to delete unhealthy machine'' e))
       | Inr _ \<Rightarrow>
           bindE (markRemediation E (mchName m) RemediationInProgressReason ConditionSeverityWarning [] []) (\<lambda>_.
           bindE (liftE (RemediationData_Marshal E data)) (\<lambda>v.
           bindE (changeKCP (\<lambda>k. k\<lparr>kcpMeta := fst (AddAnnotations (kcpMeta k) [(RemediationInProgressAnnotation, v)])\<rparr>)) (\<lambda>_.
             returnE requeueNow))))"

text \<open>The part between the creation of the patch helper and the deferred patch.\<close>

definition remediateMachine :: "'u kEnv \<Rightarrow> Machine \<Rightarrow> int \<Rightarrow> (kState, ctrlResult) comp" where
  "remediateMachine E m reconciliationTime =
     bindE (getsE kCP) (\<lambda>c.
     bindE (liftE (checkRetryLimits E m (cpKCP c) reconciliationTime)) (\<lambda>(data, canRemediate, message).
     bindE (case message of None \<Rightarrow> returnE ()
            | Some (fm, args) \<Rightarrow> markRemediation E (mchName m) WaitingForRemediationReason ConditionSeverityWarning fm args) (\<lambda>_.
       if \<not> canRemediate then returnE emptyResult
       else if kstInitialized (kcpStatus (cpKCP c)) then
         bindE (remediationChecks E m) (\<lambda>ok.
           if \<not> ok then returnE emptyResult
           else bindE (prepareRemoval E m) (\<lambda>goOn. if \<not> goOn then returnE emptyResult else deleteUnhealthy E m data))
       else deleteUnhealthy E m data)))"

text \<open>The deferred patch: it runs however the handler ends, and its error counts only if there is no other.\<close>

definition patchRemediated :: "'u kEnv \<Rightarrow> Machine \<Rightarrow> (kState, ctrlResult) comp \<Rightarrow> (kState, ctrlResult) comp" where
  "patchRemediated E m body =
     bindE (attemptE body) (\<lambda>r.
     bindE (getsE (currentMachine (mchName m))) (\<lambda>now.
     bindE (attemptE (kcall E (KPatchMachine m (case now of None \<Rightarrow> m | Some x \<Rightarrow> x)))) (\<lambda>r'.
       case (r, r') of
         (Inl e, _) \<Rightarrow> failE e
       | (Inr _, Inl e) \<Rightarrow> failE (Wrap ''failed to patch control plane Machine'' e)
       | (Inr res, Inr _) \<Rightarrow> returnE res)))"

text \<open>The handler from the choice of the machine on.\<close>

definition remediateFirst :: "'u kEnv \<Rightarrow> int \<Rightarrow> (kState, ctrlResult) comp" where
  "remediateFirst E reconciliationTime =
     bindE (getsE kCP) (\<lambda>c.
       case getMachineToBeRemediated (UnhealthyMachinesByMachineHealthCheck c) of
         None \<Rightarrow> returnE emptyResult
       | Some m \<Rightarrow>
           if \<not> timeIsZero (mdeletionTimestamp (mchMeta m)) then returnE emptyResult
           else
             bindE (anotherInProgress E) (\<lambda>inProgress.
               if inProgress then returnE emptyResult
               else
                 bindE (kcall E (KHelper (mchName m))) (\<lambda>_.
                   patchRemediated E m (remediateMachine E m reconciliationTime))))"

definition kcpReconcileUnhealthyMachines :: "'u kEnv \<Rightarrow> (kState, ctrlResult) comp" where
  "kcpReconcileUnhealthyMachines E =
     bindE (getsE (\<lambda>s. (kCP s, kNow E (kTrace s)))) (\<lambda>(c, reconciliationTime).
     bindE (healedLoop E (HealthyMachinesByMachineHealthCheck c) []) (\<lambda>errs.
       if length errs > 0 then failE (Aggregate errs) else remediateFirst E reconciliationTime))"

section \<open>Quorum\<close>

text \<open>The members that stay, and when one of them counts as healthy.\<close>

definition remainingMembers :: "Machine \<Rightarrow> string list \<Rightarrow> string list" where
  "remainingMembers m members = filter (\<lambda>n. map_option refName (stNodeRef (mchStatus m)) \<noteq> Some n) members"

definition memberHealthy :: "Machines \<Rightarrow> string \<Rightarrow> bool" where
  "memberHealthy machines n =
     (case find (\<lambda>x. map_option refName (stNodeRef (mchStatus x)) = Some n) machines of
        None \<Rightarrow> False
      | Some x \<Rightarrow> IsTrue (mchConditions x) MachineEtcdMemberHealthyCondition)"

lemma projectMembers_eq:
  "projectMembers machines m members (t, u) =
    (t + int (length (remainingMembers m members)),
     u + int (length (filter (\<lambda>n. \<not> memberHealthy machines n) (remainingMembers m members))))"
  by (induction members arbitrary: t u) (auto simp: remainingMembers_def memberHealthy_def split: option.splits)

lemma length_filter_split: "length (filter P xs) + length (filter (\<lambda>x. \<not> P x) xs) = length xs"
  by (induction xs) auto

text \<open>
  (C23) A machine is considered safe to remove exactly when, among the etcd members other than its own, those
  whose machine reports a healthy member are a majority: members without a machine, and members
  whose health is unknown, count against it.
\<close>

theorem quorumKept_iff_majority:
  "quorumKept machines m members \<longleftrightarrow>
    2 * length (filter (memberHealthy machines) (remainingMembers m members)) > length (remainingMembers m members)"
proof -
  let ?h = "length (filter (memberHealthy machines) (remainingMembers m members))"
    and ?u = "length (filter (\<lambda>n. \<not> memberHealthy machines n) (remainingMembers m members))"
  have "int ?u = int (length (remainingMembers m members)) - int ?h"
    using length_filter_split [of "memberHealthy machines" "remainingMembers m members"] by linarith
  then show ?thesis by (simp add: quorumKept_def projectMembers_eq) linarith
qed

section \<open>Retries\<close>

definition remediationForData :: "'u kEnv \<Rightarrow> Machine \<Rightarrow> RemediationData option" where
  "remediationForData E m =
     (case mlookup (mannotations (mchMeta m)) RemediationForAnnotation of
        None \<Rightarrow> None
      | Some v \<Rightarrow> (case RemediationDataFromAnnotation E v of Inl _ \<Rightarrow> None | Inr d \<Rightarrow> Some d))"

definition periodsOk :: "RemediationStrategy \<Rightarrow> bool" where
  "periodsOk st \<longleftrightarrow> (case rmMinHealthyPeriod st of None \<Rightarrow> True | Some d \<Rightarrow> 0 \<le> d \<and> d < 2 ^ 62) \<and>
     0 \<le> rmRetryPeriod st \<and> rmRetryPeriod st < 2 ^ 62"

lemma lastRemediation_missing:
  assumes "0 \<le> d" and "d < 2 ^ 62" and "0 \<le> p" and "p < 2 ^ 62"
  shows "now + wrap64 (- 2 * max d p) + d \<le> (now :: int)"
proof -
  have "wrap64 (- 2 * max d p) = - 2 * max d p" using assms by (intro wrap64_id) (auto simp: in64_def)
  with assms show ?thesis by (simp add: max_def)
qed


section \<open>Machines that are healthy again\<close>

definition strip :: "Machine \<Rightarrow> Machine" where
  "strip x = setMachineConditions (Delete (mchConditions x) MachineOwnerRemediatedCondition) x"

text \<open>A machine before and after the clean-up: unchanged, or healthy and without the mark.\<close>

definition healedRel :: "Machine \<Rightarrow> Machine \<Rightarrow> bool" where
  "healedRel x y \<longleftrightarrow> y = x \<or> (IsTrue (mchConditions x) MachineHealthCheckSucceededCondition \<and> y = strip x)"

lemma strip_simps [simp]:
  "mchMeta (strip x) = mchMeta x" "mchSpec (strip x) = mchSpec x" "stNodeRef (mchStatus (strip x)) = stNodeRef (mchStatus x)"
  "t \<noteq> MachineOwnerRemediatedCondition \<Longrightarrow> IsTrue (mchConditions (strip x)) t = IsTrue (mchConditions x) t"
  "t \<noteq> MachineOwnerRemediatedCondition \<Longrightarrow> IsFalse (mchConditions (strip x)) t = IsFalse (mchConditions x) t"
  "strip (strip x) = strip x"
  by (simp_all add: strip_def setMachineConditions_def IsTrue_def IsFalse_def Get_Delete) (simp add: Delete_def)

lemma IsTrue_not_IsFalse: "IsTrue cs t \<Longrightarrow> \<not> IsFalse cs t"
  by (auto simp: IsTrue_def IsFalse_def split: option.splits)

lemma healedRel_trans: "healedRel x y \<Longrightarrow> healedRel y z \<Longrightarrow> healedRel x z"
  by (auto simp: healedRel_def)

lemma healedRel_facts:
  assumes "healedRel x y"
  shows "mchMeta y = mchMeta x" "stNodeRef (mchStatus y) = stNodeRef (mchStatus x)" "HasUnhealthyCondition y = HasUnhealthyCondition x"
    "HasUnhealthyCondition y \<Longrightarrow> y = x" "HasNode y = HasNode x" "HasDeletionTimestamp y = HasDeletionTimestamp x"
    "IsTrue (mchConditions y) MachineEtcdMemberHealthyCondition = IsTrue (mchConditions x) MachineEtcdMemberHealthyCondition"
  using assms
  by (auto simp: healedRel_def HasUnhealthyCondition_def HasNode_def HasDeletionTimestamp_def dest: IsTrue_not_IsFalse)

definition healed :: "kState \<Rightarrow> kState \<Rightarrow> bool" where
  "healed s s' \<longleftrightarrow> list_all2 healedRel (cpMachines (kCP s)) (cpMachines (kCP s')) \<and> cpKCP (kCP s') = cpKCP (kCP s)"

interpretation healing: state_relation healed
proof
  show "healed s s" for s by (simp add: healed_def healedRel_def list_all2_refl)
  show "healed s v" if "healed s t" "healed t v" for s t v
    using that by (auto simp: healed_def intro: list_all2_trans [where ?P1.0 = healedRel and ?P2.0 = healedRel] healedRel_trans)
qed

lemma wf_healedRel: "list_all2 healedRel xs ys \<Longrightarrow> wfMachines xs \<Longrightarrow> wfMachines ys"
proof -
  assume h: "list_all2 healedRel xs ys" and wf: "wfMachines xs"
  from h have "map (\<lambda>m. mchName m) ys = map (\<lambda>m. mchName m) xs"
    by induction (simp_all add: healedRel_facts(1))
  with wf show ?thesis by (simp only: wfMachines_def)
qed

lemma wf_healed: "healed s s' \<Longrightarrow> wfMachines (cpMachines (kCP s)) \<Longrightarrow> wfMachines (cpMachines (kCP s'))"
  by (auto simp: healed_def intro: wf_healedRel)

lemma putMachine_eq:
  assumes "wfMachines ms" and "m \<in> set ms" and "mchName m' = mchName m"
  shows "putMachine m' ms = map (\<lambda>x. if x = m then m' else x) ms"
  using assms by (auto simp: putMachine_def wfMachines_def distinct_map inj_on_def)

lemma storeMachine_healed:
  assumes "wfMachines (cpMachines (kCP s))" and "m \<in> set (cpMachines (kCP s))"
    and "IsTrue (mchConditions m) MachineHealthCheckSucceededCondition" and "storeMachine (strip m) s = (r, s')"
  shows "healed s s' \<and> (\<forall>x \<in> set (cpMachines (kCP s)). x \<noteq> m \<longrightarrow> x \<in> set (cpMachines (kCP s')))"
proof -
  have "cpMachines (kCP s') = map (\<lambda>x. if x = m then strip m else x) (cpMachines (kCP s))" "cpKCP (kCP s') = cpKCP (kCP s)"
    using assms(4) putMachine_eq [OF assms(1,2), of "strip m"] by (auto simp: storeMachine_def changeCP_def)
  with assms(3) show ?thesis by (auto simp: healed_def healedRel_def list_all2_conv_all_nth)
qed

lemma kcall_healed: "keeps healed (kcall E c)"
  by (auto simp: keeps_def dest!: kcall_state) (simp add: healed_def healedRel_def list_all2_refl)

lemma healedLoop_healed:
  assumes "wfMachines (cpMachines (kCP s))" and "set ms \<subseteq> set (cpMachines (kCP s))" and "distinct ms"
  shows "keepsAt healed (healedLoop E ms errs) s"
  using assms
proof (induction ms arbitrary: errs s)
  case Nil
  then show ?case by (simp add: keepsAt_def returnE_def healing.rel_refl)
next
  case (Cons m ms)
  show ?case
  proof (cases "IsTrue (mchConditions m) MachineHealthCheckSucceededCondition \<and>
         IsFalse (mchConditions m) MachineOwnerRemediatedCondition \<and> timeIsZero (mdeletionTimestamp (mchMeta m))")
    case False
    then have "healedLoop E (m # ms) errs = healedLoop E ms errs" by auto
    with Cons show ?thesis by simp
  next
    case True
    have IH: "keepsAt healed (healedLoop E ms es) t"
      if "healed s t" "set ms \<subseteq> set (cpMachines (kCP t))" for es t
      using Cons.IH [of t es] that wf_healed [OF that(1) Cons.prems(1)] Cons.prems(3) by simp
    have call: "cpMachines (kCP t') = cpMachines (kCP t) \<and> healed t t'" if "kcall E c t = (x, t')" for c t x t'
      using kcall_state [OF that] by (simp add: healed_def healedRel_def list_all2_refl)
    have rest: "keepsAt healed (bindE (storeMachine (strip m)) (\<lambda>_.
              bindE (attemptE (kcall E (KPatchMachine m (strip m)))) (\<lambda>r'.
                healedLoop E ms (case r' of Inl e \<Rightarrow> errs @ [e] | Inr _ \<Rightarrow> errs)))) t"
      if "kcall E (KHelper (mchName m)) s = (x, t)" for x t
    proof (rule healing.keepsAt_bindE)
      have t: "cpMachines (kCP t) = cpMachines (kCP s)" "healed s t" using call [OF that] by auto
      have m: "wfMachines (cpMachines (kCP t))" "m \<in> set (cpMachines (kCP t))" using t Cons.prems by auto
      show "keepsAt healed (storeMachine (strip m)) t"
        using storeMachine_healed [OF m] True by (auto simp: keepsAt_def)
      fix u t1 assume "storeMachine (strip m) t = (Inr u, t1)"
      with storeMachine_healed [OF m] True have t1: "healed t t1" "\<forall>x \<in> set (cpMachines (kCP t)). x \<noteq> m \<longrightarrow> x \<in> set (cpMachines (kCP t1))"
        by auto
      show "keepsAt healed (bindE (attemptE (kcall E (KPatchMachine m (strip m)))) (\<lambda>r'.
                healedLoop E ms (case r' of Inl e \<Rightarrow> errs @ [e] | Inr _ \<Rightarrow> errs))) t1"
      proof (rule healing.keepsAt_attempt)
        show "keepsAt healed (kcall E (KPatchMachine m (strip m))) t1" by (rule keeps_at [OF kcall_healed])
        fix r' t2 assume r': "kcall E (KPatchMachine m (strip m)) t1 = (r', t2)"
        then have "healed s t2" using t(2) t1(1) call healing.rel_trans by blast
        moreover have "set ms \<subseteq> set (cpMachines (kCP t2))" using call [OF r'] t1(2) t(1) Cons.prems(2,3) by auto
        ultimately show "keepsAt healed (healedLoop E ms (case r' of Inl e \<Rightarrow> errs @ [e] | Inr _ \<Rightarrow> errs)) t2" by (rule IH)
      qed
    qed
    show ?thesis
      unfolding healedLoop.simps if_P [OF True] Let_def strip_def [symmetric]
    proof (rule healing.keepsAt_attempt)
      show "keepsAt healed (kcall E (KHelper (mchName m))) s" by (rule keeps_at [OF kcall_healed])
      fix r t assume r: "kcall E (KHelper (mchName m)) s = (r, t)"
      show "keepsAt healed (case r of Inl e \<Rightarrow> healedLoop E ms (errs @ [e])
          | Inr _ \<Rightarrow> bindE (storeMachine (strip m)) (\<lambda>_. bindE (attemptE (kcall E (KPatchMachine m (strip m)))) (\<lambda>r'.
                healedLoop E ms (case r' of Inl e \<Rightarrow> errs @ [e] | Inr _ \<Rightarrow> errs)))) t"
        using rest [OF r] IH call [OF r] Cons.prems(2) by (cases r) auto
    qed
  qed
qed

section \<open>Remediation is safe\<close>

lemma markRemediation_quiet: "keeps quiet (markRemediation E n r sv fm args)"
  unfolding markRemediation_def by (rule markMachine_quiet)

lemma healedLoop_quiet: "keeps quiet (healedLoop E ms errs)"
  by (induction ms arbitrary: errs) (simp only: healedLoop.simps, (intro kc_rules; simp))+

lemma anotherInProgress_quiet: "keeps quiet (anotherInProgress E)"
  unfolding anotherInProgress_def by (intro kc_rules)

lemma canSafelyRemoveEtcdMember_quiet: "keeps quiet (canSafelyRemoveEtcdMember E m)"
  unfolding canSafelyRemoveEtcdMember_def by (intro kc_rules GetWorkloadCluster_quiet EtcdMembers_quiet)

lemma remediationChecks_quiet: "keeps quiet (remediationChecks E m)"
  unfolding remediationChecks_def Let_def by (intro kc_rules markRemediation_quiet canSafelyRemoveEtcdMember_quiet)

lemma prepareRemoval_quiet: "keeps quiet (prepareRemoval E m)"
  unfolding prepareRemoval_def
  by (intro kc_rules markRemediation_quiet GetWorkloadCluster_quiet ForwardEtcdLeadership_quiet RemoveMachineFromKubeadmConfigMap_quiet)

lemma anotherInProgress_basis: "keeps sameBasis (anotherInProgress E)"
  unfolding anotherInProgress_def changeKCP_def changeCP_def
  by (intro basis_rules basis.keeps_modifyE) (simp add: sameBasis_def removeKcpAnnotation_def)

text \<open>The checks and the preparations leave the machines alone when they end with the permission to go on.\<close>

lemma EtcdMembers_Inr:
  assumes "EtcdMembers E s = (Inr members, s')"
  shows "\<exists>h. kTrace s' = kTrace s @ h @ [KEtcdMembers] \<and> members = map emName (kMembers E (kTrace s'))"
proof -
  obtain nodes s1 u s2 ms where 1: "getControlPlaneNodes E s = (Inr nodes, s1)"
    and 2: "kcall E (KEtcdLeader (nodeNames nodes)) s1 = (Inr u, s2)"
    and 3: "kread E KEtcdMembers (kMembers E) s2 = (Inr ms, s')" and m: "members = map emName ms"
    using assms unfolding EtcdMembers_def by (auto simp: wrapE_Inr elim!: bindE_Inr)
  show ?thesis
    using getControlPlaneNodes_Inr(1) [OF 1] kcall_state [OF 2] kread_Inr [OF 3] m by simp
qed

lemma canSafelyRemoveEtcdMember_Inr:
  assumes "canSafelyRemoveEtcdMember E m s = (Inr safe, s')"
  shows "sameBasis s s' \<and> (\<exists>h. kTrace s' = kTrace s @ h @ [KEtcdMembers] \<and>
    safe = quorumKept (cpMachines (kCP s)) m (map emName (kMembers E (kTrace s'))))"
proof -
  obtain u s1 members s2 where 1: "GetWorkloadCluster E s = (Inr u, s1)" and 2: "EtcdMembers E s1 = (Inr members, s2)"
    and r: "safe = quorumKept (cpMachines (kCP s2)) m members" "s' = s2"
    using assms unfolding canSafelyRemoveEtcdMember_def by (auto simp: wrapE_Inr elim!: bindE_Inr)
  have b: "sameBasis s s1" "sameBasis s1 s2"
    using keepsD [OF GetWorkloadCluster_basis 1] keepsD [OF EtcdMembers_basis 2] by auto
  obtain h1 where "kTrace s1 = kTrace s @ h1" using keepsD [OF GetWorkloadCluster_quiet 1] by (auto simp: quiet_iff)
  with EtcdMembers_Inr [OF 2] b r show ?thesis by (auto simp: sameBasis_def)
qed

text \<open>
  When a machine may be deleted, \<open>c\<close> being the control plane at the start of the run, \<open>h0\<close> the calls
  before it and \<open>h\<close> the calls so far: the machine is the first of the unhealthy ones (those without a node come
  first, then the older ones) and not yet being deleted; and once the control plane is initialized, it is not the last machine, no machine is being deleted, no healthy
  machine is still without a node, and a listing of the etcd members in this run has shown
  that removing the machine's member keeps the quorum.
\<close>

definition firstUnhealthy :: "Machines \<Rightarrow> Machine \<Rightarrow> bool" where
  "firstUnhealthy ms m \<longleftrightarrow> m \<in> set ms \<and> HasUnhealthyCondition m \<and>
     (\<forall>x \<in> set ms. HasUnhealthyCondition x \<longrightarrow>
        (HasNode m \<longrightarrow> HasNode x) \<and> (HasNode x = HasNode m \<longrightarrow> mcreationTimestamp (mchMeta m) \<le> mcreationTimestamp (mchMeta x)))"

definition remediable :: "'u kEnv \<Rightarrow> ControlPlane \<Rightarrow> kCall list \<Rightarrow> kCall list \<Rightarrow> Machine \<Rightarrow> bool" where
  "remediable E c h0 h m \<longleftrightarrow>
     firstUnhealthy (cpMachines c) m \<and> \<not> HasDeletionTimestamp m \<and>
     (kstInitialized (kcpStatus (cpKCP c)) \<longrightarrow>
        1 < length (cpMachines c) \<and> \<not> HasDeletingMachine c \<and> \<not> HasHealthyMachineStillProvisioning c \<and>
        (IsEtcdManaged c \<longrightarrow> (\<exists>h1 h2. h = h0 @ h1 @ KEtcdMembers # h2 \<and>
           quorumKept (cpMachines c) m (map emName (kMembers E (h0 @ h1 @ [KEtcdMembers]))))))"

definition remediationAllowed :: "'u kEnv \<Rightarrow> ControlPlane \<Rightarrow> kCall list \<Rightarrow> kCall list \<Rightarrow> kCall \<Rightarrow> bool" where
  "remediationAllowed E c h0 h call \<longleftrightarrow>
     (changesMachines call \<longrightarrow>
        (\<exists>m. call = KDeleteMachine m \<and> remediable E c h0 h m \<and> (\<exists>cs. h = h0 @ cs \<and> filter changesMachines cs = [])))"

text \<open>The states a run reaches before it changes anything.\<close>

definition undisturbed :: "ControlPlane \<Rightarrow> kCall list \<Rightarrow> kState \<Rightarrow> bool" where
  "undisturbed c h0 s \<longleftrightarrow>
     (\<exists>cs. kTrace s = h0 @ cs \<and> filter changesMachines cs = []) \<and>
     list_all2 healedRel (cpMachines c) (cpMachines (kCP s)) \<and> wfMachines (cpMachines c) \<and>
     kcpSpec (cpKCP (kCP s)) = kcpSpec (cpKCP c) \<and> kcpStatus (cpKCP (kCP s)) = kcpStatus (cpKCP c)"

lemma undisturbed_step: "undisturbed c h0 s \<Longrightarrow> quiet s s' \<Longrightarrow> sameBasis s s' \<Longrightarrow> undisturbed c h0 s'"
  by (auto simp: undisturbed_def quiet_iff sameBasis_def)

lemma memberHealthy_healed:
  "list_all2 healedRel xs ys \<Longrightarrow> memberHealthy ys n = memberHealthy xs n"
  by (induction rule: list_all2_induct) (auto simp: memberHealthy_def healedRel_facts)

lemma quorumKept_healed: "list_all2 healedRel xs ys \<Longrightarrow> quorumKept ys m members = quorumKept xs m members"
  by (simp add: quorumKept_def projectMembers_eq memberHealthy_healed)

lemma healedRel_unhealthy: "healedRel x y \<Longrightarrow> HasUnhealthyCondition x \<Longrightarrow> y = x"
  using healedRel_facts(3,4) by blast

lemma healed_set:
  assumes "list_all2 healedRel xs ys"
  shows "HasUnhealthyCondition y \<Longrightarrow> y \<in> set ys \<longleftrightarrow> y \<in> set xs"
    and "(\<exists>x \<in> set xs. HasDeletionTimestamp x) \<longleftrightarrow> (\<exists>y \<in> set ys. HasDeletionTimestamp y)"
    and "(\<exists>x \<in> set xs. \<not> HasUnhealthyCondition x \<and> \<not> HasNode x) \<longleftrightarrow> (\<exists>y \<in> set ys. \<not> HasUnhealthyCondition y \<and> \<not> HasNode y)"
  using assms by (induction rule: list_all2_induct) (auto simp: healedRel_facts dest: healedRel_facts(4) healedRel_unhealthy)

lemma firstUnhealthy_healed: "list_all2 healedRel xs ys \<Longrightarrow> firstUnhealthy ys m = firstUnhealthy xs m"
  unfolding firstUnhealthy_def using healed_set(1) [of xs ys] by blast

lemma HasHealthyMachineStillProvisioning_iff:
  "wfMachines (cpMachines c) \<Longrightarrow>
    HasHealthyMachineStillProvisioning c \<longleftrightarrow> (\<exists>x \<in> set (cpMachines c). \<not> HasUnhealthyCondition x \<and> \<not> HasNode x)"
  by (auto simp: HasHealthyMachineStillProvisioning_def HealthyMachinesByMachineHealthCheck_def Filter_eq wf_filter
      NotF_def filter_empty_conv)

lemma undisturbed_same:
  assumes "undisturbed c h0 s"
  shows "HasDeletingMachine (kCP s) = HasDeletingMachine c"
    and "HasHealthyMachineStillProvisioning (kCP s) = HasHealthyMachineStillProvisioning c"
    and "IsEtcdManaged (kCP s) = IsEtcdManaged c" and "length (cpMachines (kCP s)) = length (cpMachines c)"
    and "quorumKept (cpMachines (kCP s)) m members = quorumKept (cpMachines c) m members"
    and "kstInitialized (kcpStatus (cpKCP (kCP s))) = kstInitialized (kcpStatus (cpKCP c))"
proof -
  from assms have l: "list_all2 healedRel (cpMachines c) (cpMachines (kCP s))" and wf: "wfMachines (cpMachines c)"
    by (simp_all add: undisturbed_def)
  have wf': "wfMachines (cpMachines (kCP s))" using wf_healedRel [OF l wf] .
  show "HasDeletingMachine (kCP s) = HasDeletingMachine c"
    using healed_set(2) [OF l] by (simp add: HasDeletingMachine_iff wf wf')
  show "HasHealthyMachineStillProvisioning (kCP s) = HasHealthyMachineStillProvisioning c"
    using healed_set(3) [OF l] by (simp add: HasHealthyMachineStillProvisioning_iff wf wf')
  show "length (cpMachines (kCP s)) = length (cpMachines c)" using list_all2_lengthD [OF l] by simp
  show "quorumKept (cpMachines (kCP s)) m members = quorumKept (cpMachines c) m members" by (rule quorumKept_healed [OF l])
  show "IsEtcdManaged (kCP s) = IsEtcdManaged c" "kstInitialized (kcpStatus (cpKCP (kCP s))) = kstInitialized (kcpStatus (cpKCP c))"
    using assms by (simp_all add: undisturbed_def IsEtcdManaged_def)
qed

lemma remediationChecks_True:
  assumes run: "remediationChecks E m s = (Inr True, s')" and s: "undisturbed c h0 s"
    and m: "firstUnhealthy (cpMachines c) m" "\<not> HasDeletionTimestamp m"
  shows "undisturbed c h0 s' \<and> remediable E c h0 (kTrace s') m"
proof -
  note same = undisturbed_same [OF s]
  have no_skip: "bindE mark (\<lambda>_. returnE False) s \<noteq> (Inr True, s')" for mark :: "(kState, unit) comp"
    by (auto elim!: bindE_Inr)
  have ok: "1 < length (cpMachines c)" "\<not> HasHealthyMachineStillProvisioning c" "\<not> HasDeletingMachine c"
    using run no_skip same by (auto simp: remediationChecks_def Let_def split: if_splits)
  show ?thesis
  proof (cases "IsEtcdManaged c")
    case False
    then have "s' = s" using run ok same by (auto simp: remediationChecks_def)
    with False s m ok show ?thesis by (simp add: remediable_def)
  next
    case True
    obtain r1 s1 where c: "canSafelyRemoveEtcdMember E m s = (r1, s1)" by fastforce
    have "r1 = Inr True \<and> s1 = s'"
      using run ok same True c by (cases r1) (auto simp: remediationChecks_def elim!: bindE_Inr split: if_splits)
    with c have 1: "canSafelyRemoveEtcdMember E m s = (Inr True, s')" by simp
    obtain h where h: "kTrace s' = kTrace s @ h @ [KEtcdMembers]" "sameBasis s s'"
      and q: "quorumKept (cpMachines c) m (map emName (kMembers E (kTrace s')))"
      using canSafelyRemoveEtcdMember_Inr [OF 1] same by auto
    obtain cs where "kTrace s = h0 @ cs" using s by (auto simp: undisturbed_def)
    then have "kTrace s' = h0 @ (cs @ h) @ KEtcdMembers # []" using h by simp
    moreover from this q have "quorumKept (cpMachines c) m (map emName (kMembers E (h0 @ (cs @ h) @ [KEtcdMembers])))" by simp
    ultimately have "remediable E c h0 (kTrace s') m"
      unfolding remediable_def using m ok by blast
    moreover have "quiet s s'" by (rule keepsD [OF canSafelyRemoveEtcdMember_quiet 1])
    ultimately show ?thesis using undisturbed_step [OF s _ h(2)] by blast
  qed
qed

lemma prepareRemoval_True:
  assumes run: "prepareRemoval E m s = (Inr True, s')"
  shows "sameBasis s s'"
proof -
  obtain u s1 goOn s2 v where 1: "GetWorkloadCluster E s = (Inr u, s1)"
    and 2: "(if \<not> IsEtcdManaged (kCP s1) then returnE True
            else
              case Newest (HealthyMachinesByMachineHealthCheck (kCP s1)) of
                None \<Rightarrow>
                  bindE (markRemediation E (mchName m) RemediationFailedReason ConditionSeverityWarning
                    ''A control plane machine needs remediation, but there is no healthy machine to forward etcd leadership to. Skipping remediation'' []) (\<lambda>_.
                    returnE False)
              | Some candidate \<Rightarrow>
                  bindE (attemptE (ForwardEtcdLeadership E m (Some candidate))) (\<lambda>r.
                    case r of
                      Inl e \<Rightarrow>
                        bindE (markRemediation E (mchName m) RemediationFailedReason ConditionSeverityError (kErrText E e) []) (\<lambda>_. failE e)
                    | Inr _ \<Rightarrow> returnE True)) s1 = (Inr True, s2)"
    and 3: "RemoveMachineFromKubeadmConfigMap E m v s2 = (Inr u, s')"
    using run unfolding prepareRemoval_def by (auto simp: wrapE_Inr elim!: bindE_Inr split: if_splits)
  have "sameBasis s1 s2"
  proof (cases "IsEtcdManaged (kCP s1)")
    case True
    then obtain candidate where n: "Newest (HealthyMachinesByMachineHealthCheck (kCP s1)) = Some candidate"
      using 2 by (cases "Newest (HealthyMachinesByMachineHealthCheck (kCP s1))") (auto elim!: bindE_Inr)
    obtain r3 s3 where f: "ForwardEtcdLeadership E m (Some candidate) s1 = (r3, s3)" by fastforce
    have "s3 = s2" using 2 True n f by (cases r3) (auto elim!: bindE_Inr)
    with keepsD [OF ForwardEtcdLeadership_basis f] show ?thesis by simp
  qed (use 2 in \<open>simp add: basis.rel_refl\<close>)
  with keepsD [OF GetWorkloadCluster_basis 1] keepsD [OF RemoveMachineFromKubeadmConfigMap_basis 3]
  show ?thesis by (blast intro: basis.rel_trans)
qed

lemma checkRetryLimits_message: "checkRetryLimits E m kcp now = Inr (data, True, message) \<Longrightarrow> message = None"
  by (auto simp: checkRetryLimits_def Let_def bindR_def split: option.splits sum.splits if_splits)

lemma quiet_allowed: "keeps quiet m \<Longrightarrow> keeps (allowed kTrace (remediationAllowed E c h0)) m"
  unfolding keeps_def by (blast intro: allowed_mono [where ok = "\<lambda>_ c. \<not> changesMachines c"] remediationAllowed_def [THEN iffD2])

lemma remediable_later: "remediable E c h0 h m \<Longrightarrow> remediable E c h0 (h @ h') m"
  by (fastforce simp: remediable_def)

lemma deleteUnhealthy_allowed:
  assumes "undisturbed c h0 s" and "remediable E c h0 (kTrace s) m"
  shows "keepsAt (allowed kTrace (remediationAllowed E c h0)) (deleteUnhealthy E m data) s"
  unfolding deleteUnhealthy_def
proof (rule kcalls.keepsAt_attempt)
  show "keepsAt (allowed kTrace (remediationAllowed E c h0)) (kcall E (KDeleteMachine m)) s"
    by (rule kcallAt) (use assms in \<open>auto simp: remediationAllowed_def undisturbed_def\<close>)
qed (rule keeps_at, intro kc_rules quiet_allowed markRemediation_quiet)

lemma remediateMachine_allowed:
  assumes s: "undisturbed c h0 s"
    and m: "firstUnhealthy (cpMachines c) m" "\<not> HasDeletionTimestamp m"
  shows "keepsAt (allowed kTrace (remediationAllowed E c h0)) (remediateMachine E m now) s"
proof -
  let ?R = "allowed kTrace (remediationAllowed E c h0)"
  have prepared: "keepsAt ?R (bindE (prepareRemoval E m) (\<lambda>goOn. if \<not> goOn then returnE emptyResult else deleteUnhealthy E m data)) t"
    if t: "undisturbed c h0 t" "remediable E c h0 (kTrace t) m" for t data
  proof (rule kcalls.keepsAt_bindE)
    show "keepsAt ?R (prepareRemoval E m) t" by (rule keeps_at [OF quiet_allowed [OF prepareRemoval_quiet]])
    fix goOn t1 assume run: "prepareRemoval E m t = (Inr goOn, t1)"
    have q: "quiet t t1" by (rule keepsD [OF prepareRemoval_quiet run])
    show "keepsAt ?R (if \<not> goOn then returnE emptyResult else deleteUnhealthy E m data) t1"
    proof (cases goOn)
      case True
      with run have "sameBasis t t1" by (intro prepareRemoval_True) simp
      then have "undisturbed c h0 t1" by (rule undisturbed_step [OF t(1) q])
      moreover have "remediable E c h0 (kTrace t1) m" using q t(2) by (auto simp: quiet_iff intro: remediable_later)
      ultimately show ?thesis using True by (simp add: deleteUnhealthy_allowed)
    qed (simp add: keepsAt_def returnE_def)
  qed
  have checked: "keepsAt ?R (bindE (remediationChecks E m) (\<lambda>ok.
           if \<not> ok then returnE emptyResult
           else bindE (prepareRemoval E m) (\<lambda>goOn. if \<not> goOn then returnE emptyResult else deleteUnhealthy E m data))) s" for data
  proof (rule kcalls.keepsAt_bindE)
    show "keepsAt ?R (remediationChecks E m) s" by (rule keeps_at [OF quiet_allowed [OF remediationChecks_quiet]])
    fix ok t assume run: "remediationChecks E m s = (Inr ok, t)"
    show "keepsAt ?R (if \<not> ok then returnE emptyResult
           else bindE (prepareRemoval E m) (\<lambda>goOn. if \<not> goOn then returnE emptyResult else deleteUnhealthy E m data)) t"
      using remediationChecks_True [OF _ s m, of E t] run prepared by (cases ok) (auto simp: keepsAt_def returnE_def)
  qed
  have direct: "keepsAt ?R (deleteUnhealthy E m data) s" if "\<not> kstInitialized (kcpStatus (cpKCP (kCP s)))" for data
    using that undisturbed_same(6) [OF s] m by (intro deleteUnhealthy_allowed [OF s]) (simp add: remediable_def)
  show ?thesis
  proof (cases "checkRetryLimits E m (cpKCP (kCP s)) now")
    case (Inl e)
    then show ?thesis by (simp add: remediateMachine_def keepsAt_def)
  next
    case (Inr x)
    obtain data ok message where x: "x = (data, ok, message)" by (cases x)
    show ?thesis
    proof (cases ok)
      case True
      with Inr x have "message = None" by (auto dest: checkRetryLimits_message)
      with Inr x True checked direct show ?thesis by (simp add: remediateMachine_def keepsAt_def)
    next
      case False
      have "keeps ?R (bindE (case message of None \<Rightarrow> returnE ()
            | Some (fm, args) \<Rightarrow> markRemediation E (mchName m) WaitingForRemediationReason ConditionSeverityWarning fm args) (\<lambda>_.
              returnE emptyResult))"
        by (intro kc_rules quiet_allowed markRemediation_quiet)
      with Inr x False show ?thesis by (simp add: remediateMachine_def keepsAt_def keeps_def)
    qed
  qed
qed

lemma getMachineToBeRemediated_first:
  assumes "getMachineToBeRemediated (UnhealthyMachinesByMachineHealthCheck c) = Some m" and "wfMachines (cpMachines c)"
  shows "firstUnhealthy (cpMachines c) m"
proof -
  let ?u = "filter HasUnhealthyCondition (cpMachines c)" and ?n = "\<lambda>x. \<not> HasNode x"
  have e: "UnhealthyMachinesByMachineHealthCheck c = ?u" "Filter ?u [NotF HasNode] = filter ?n ?u"
    using assms(2) by (simp_all add: UnhealthyMachinesByMachineHealthCheck_def Filter_eq NotF_def wf_filter)
  show ?thesis
  proof (cases "Oldest (filter ?n ?u)")
    case None
    then have "\<forall>x \<in> set ?u. HasNode x" by (auto simp: Oldest_None filter_empty_conv)
    moreover have "Oldest ?u = Some m" using assms(1) None by (simp add: getMachineToBeRemediated_def e)
    ultimately show ?thesis using Oldest_Some [of ?u m] by (auto simp: firstUnhealthy_def)
  next
    case (Some x)
    then have "x = m" using assms(1) by (simp add: getMachineToBeRemediated_def e)
    with Oldest_Some [OF Some] show ?thesis by (auto simp: firstUnhealthy_def)
  qed
qed

lemma healedLoop_undisturbed:
  assumes "wfMachines (cpMachines (kCP s))"
    and run: "healedLoop E (HealthyMachinesByMachineHealthCheck (kCP s)) [] s = (r, s1)"
  shows "undisturbed (kCP s) (kTrace s) s1"
proof -
  have "set (HealthyMachinesByMachineHealthCheck (kCP s)) \<subseteq> set (cpMachines (kCP s))" "distinct (HealthyMachinesByMachineHealthCheck (kCP s))"
    using assms(1) by (auto simp: HealthyMachinesByMachineHealthCheck_def Filter_eq wfMachines_def distinct_map)
  then have "healed s s1" using healedLoop_healed [OF assms(1)] run by (blast intro: keepsAtD)
  with keepsD [OF healedLoop_quiet run] assms(1) show ?thesis by (auto simp: undisturbed_def healed_def quiet_iff)
qed

lemma remediateFirst_allowed:
  assumes s: "undisturbed c h0 s"
  shows "keepsAt (allowed kTrace (remediationAllowed E c h0)) (remediateFirst E now) s"
proof (cases "getMachineToBeRemediated (UnhealthyMachinesByMachineHealthCheck (kCP s))")
  case None
  then show ?thesis by (simp add: remediateFirst_def keepsAt_def)
next
  case (Some m)
  let ?R = "allowed kTrace (remediationAllowed E c h0)"
  have l: "list_all2 healedRel (cpMachines c) (cpMachines (kCP s))" "wfMachines (cpMachines c)"
    using s by (simp_all add: undisturbed_def)
  have m: "firstUnhealthy (cpMachines c) m"
    using getMachineToBeRemediated_first [OF Some wf_healedRel [OF l]] firstUnhealthy_healed [OF l(1)] by simp
  show ?thesis
  proof (cases "timeIsZero (mdeletionTimestamp (mchMeta m))")
    case False
    with Some show ?thesis by (simp add: remediateFirst_def keepsAt_def)
  next
    case True
    then have d: "\<not> HasDeletionTimestamp m" by (simp add: HasDeletionTimestamp_def)
    have "keepsAt ?R (bindE (anotherInProgress E) (\<lambda>inProgress.
               if inProgress then returnE emptyResult
               else bindE (kcall E (KHelper (mchName m))) (\<lambda>_. patchRemediated E m (remediateMachine E m now)))) s"
    proof (rule kcalls.keepsAt_bindE)
      show "keepsAt ?R (anotherInProgress E) s" by (rule keeps_at [OF quiet_allowed [OF anotherInProgress_quiet]])
      fix b s1 assume 1: "anotherInProgress E s = (Inr b, s1)"
      have s1: "undisturbed c h0 s1"
        by (rule undisturbed_step [OF s keepsD [OF anotherInProgress_quiet 1] keepsD [OF anotherInProgress_basis 1]])
      have "keepsAt ?R (bindE (kcall E (KHelper (mchName m))) (\<lambda>_. patchRemediated E m (remediateMachine E m now))) s1"
      proof (rule kcalls.keepsAt_bindE)
        show "keepsAt ?R (kcall E (KHelper (mchName m))) s1" by (rule kcallAt) (simp add: remediationAllowed_def)
        fix u s2 assume 2: "kcall E (KHelper (mchName m)) s1 = (Inr u, s2)"
        have "undisturbed c h0 s2" using s1 kcall_state [OF 2] by (auto simp: undisturbed_def)
        then show "keepsAt ?R (patchRemediated E m (remediateMachine E m now)) s2"
          unfolding patchRemediated_def
          by (intro kcalls.keepsAt_attempt remediateMachine_allowed m d)
            (assumption, rule keeps_at, intro kc_rules, simp add: remediationAllowed_def)
      qed
      then show "keepsAt ?R (if b then returnE emptyResult
               else bindE (kcall E (KHelper (mchName m))) (\<lambda>_. patchRemediated E m (remediateMachine E m now))) s1"
        by (simp add: keepsAt_def)
    qed
    with Some True show ?thesis by (simp add: remediateFirst_def keepsAt_def)
  qed
qed

text \<open>
  (C3) Remediation is safe: however the API servers answer, one run deletes at most one machine and
  creates none. It deletes a machine only if that machine is the first of the unhealthy ones and not being deleted already; and once the
  control plane is initialized, only if other machines exist, no machine is being deleted, all
  healthy machines have a node, and, with a managed etcd, the members listed in this run keep their quorum without
  the machine's member.
\<close>

theorem remediation_safe:
  assumes "wfMachines (cpMachines (kCP s))"
  shows "allowed kTrace (remediationAllowed E (kCP s) (kTrace s)) s (snd (kcpReconcileUnhealthyMachines E s))"
proof -
  let ?R = "allowed kTrace (remediationAllowed E (kCP s) (kTrace s))"
  have loop: "keepsAt ?R (bindE (healedLoop E (HealthyMachinesByMachineHealthCheck (kCP s)) []) (\<lambda>errs.
       if length errs > 0 then failE (Aggregate errs) else remediateFirst E now)) s" for now
  proof (rule kcalls.keepsAt_bindE)
    show "keepsAt ?R (healedLoop E (HealthyMachinesByMachineHealthCheck (kCP s)) []) s"
      by (rule keeps_at [OF quiet_allowed [OF healedLoop_quiet]])
    fix errs s1 assume "healedLoop E (HealthyMachinesByMachineHealthCheck (kCP s)) [] s = (Inr errs, s1)"
    then have "undisturbed (kCP s) (kTrace s) s1" by (rule healedLoop_undisturbed [OF assms])
    then show "keepsAt ?R (if length errs > 0 then failE (Aggregate errs) else remediateFirst E now) s1"
      by (simp add: remediateFirst_allowed keepsAt_def [of _ "failE _"])
  qed
  then have "keepsAt ?R (kcpReconcileUnhealthyMachines E) s"
    unfolding kcpReconcileUnhealthyMachines_def keepsAt_def by simp
  then show ?thesis by (rule keepsAtD) (rule surjective_pairing)
qed

section \<open>Remediation and what follows it\<close>

text \<open>
  Without the assumption on the names of the machines: a run changes the machines at most once, and a
  result that lets the reconciliation go on means it has not.
\<close>

lemma deleteUnhealthy_once: "onceAt (\<lambda>_. True) (deleteUnhealthy E m data) s"
  unfolding deleteUnhealthy_def
  by (rule once_attempt_then [OF once_kcall]) (simp, intro kc_rules markRemediation_quiet)

lemma remediateMachine_once: "onceAt (\<lambda>_. True) (remediateMachine E m now) s"
  unfolding remediateMachine_def case_prod_beta
  by (intro once_rules deleteUnhealthy_once) (intro kc_rules markRemediation_quiet remediationChecks_quiet prepareRemoval_quiet)+

lemma remediateFirst_once: "onceAt (\<lambda>_. True) (remediateFirst E now) s"
  unfolding remediateFirst_def patchRemediated_def
  by (intro once_rules once_attempt_then remediateMachine_once) (intro kc_rules anotherInProgress_quiet; simp)+

lemma kcpReconcileUnhealthyMachines_once: "onceAt (\<lambda>_. True) (kcpReconcileUnhealthyMachines E) s"
  unfolding kcpReconcileUnhealthyMachines_def case_prod_beta
  by (intro once_rules remediateFirst_once) (intro kc_rules healedLoop_quiet)+

lemma deleteUnhealthy_requeues: "deleteUnhealthy E m data s = (Inr res, s') \<Longrightarrow> res = requeueNow"
  unfolding deleteUnhealthy_def
  by (cases "kcall E (KDeleteMachine m) s"; cases "fst (kcall E (KDeleteMachine m) s)") (auto elim!: bindE_Inr)

definition zeroQuiet :: "(kState, ctrlResult) comp \<Rightarrow> kState \<Rightarrow> bool" where
  "zeroQuiet m s \<longleftrightarrow> (\<forall>res s'. m s = (Inr res, s') \<longrightarrow> resultIsZero res \<longrightarrow> quiet s s')"

lemma zeroQuiet_quiet: "keeps quiet m \<Longrightarrow> zeroQuiet m s"
  by (auto simp: zeroQuiet_def keeps_def)

lemma zeroQuiet_after:
  assumes "keeps quiet m" and "\<And>x s1. zeroQuiet (f x) s1"
  shows "zeroQuiet (bindE m f) s"
  unfolding zeroQuiet_def
proof (intro allI impI)
  fix res s' assume b: "bindE m f s = (Inr res, s')" and z: "resultIsZero res"
  obtain x s1 where r: "m s = (Inr x, s1)" "f x s1 = (Inr res, s')" using b by (rule bindE_Inr)
  have "quiet s1 s'" using assms(2) [of x s1] r(2) z by (simp add: zeroQuiet_def)
  with keepsD [OF assms(1) r(1)] show "quiet s s'" by (rule allowed_trans)
qed

lemma zeroQuiet_if: "(b \<Longrightarrow> zeroQuiet m s) \<Longrightarrow> (\<not> b \<Longrightarrow> zeroQuiet m' s) \<Longrightarrow> zeroQuiet (if b then m else m') s"
  by simp

lemma zeroQuiet_option: "(x = None \<Longrightarrow> zeroQuiet m s) \<Longrightarrow> (\<And>v. x = Some v \<Longrightarrow> zeroQuiet (f v) s) \<Longrightarrow>
    zeroQuiet (case x of None \<Rightarrow> m | Some v \<Rightarrow> f v) s"
  by (cases x) simp_all

lemma zeroQuiet_return: "zeroQuiet (returnE r) s"  "zeroQuiet (failE e) s"
  by (simp_all add: zeroQuiet_quiet kcalls.keeps_pure)

lemmas zero_rules = zeroQuiet_after zeroQuiet_if zeroQuiet_option zeroQuiet_return

lemma deleteUnhealthy_zero: "zeroQuiet (deleteUnhealthy E m data) s"
  by (auto simp: zeroQuiet_def resultIsZero_def dest: deleteUnhealthy_requeues)

lemma remediateMachine_zero: "zeroQuiet (remediateMachine E m now) s"
  unfolding remediateMachine_def case_prod_beta
  by (intro zero_rules deleteUnhealthy_zero) (intro kc_rules markRemediation_quiet remediationChecks_quiet prepareRemoval_quiet)+

lemma patchRemediated_zero:
  assumes "zeroQuiet body s"
  shows "zeroQuiet (patchRemediated E m body) s"
  unfolding zeroQuiet_def
proof (intro allI impI)
  fix res s' assume run: "patchRemediated E m body s = (Inr res, s')" and z: "resultIsZero res"
  obtain r s1 where b: "body s = (r, s1)" by fastforce
  let ?c = "KPatchMachine m (case currentMachine (mchName m) s1 of None \<Rightarrow> m | Some x \<Rightarrow> x)"
  obtain r' s2 where p: "kcall E ?c s1 = (r', s2)" by fastforce
  have "r = Inr res" "s' = s2" using run b p by (cases r; cases r'; simp add: patchRemediated_def)+
  moreover have "quiet s1 s2" using kcall_state [OF p] by (simp add: quiet_iff)
  ultimately show "quiet s s'" using assms b z by (auto simp: zeroQuiet_def intro: allowed_trans)
qed

lemma kcpReconcileUnhealthyMachines_zero: "zeroQuiet (kcpReconcileUnhealthyMachines E) s"
  unfolding kcpReconcileUnhealthyMachines_def case_prod_beta remediateFirst_def
  by (intro zero_rules patchRemediated_zero remediateMachine_zero) (intro kc_rules healedLoop_quiet anotherInProgress_quiet; simp)+

section \<open>A control plane with an unhealthy machine\<close>

definition sampleKEnv :: "string kEnv" where
  "sampleKEnv = \<lparr>kDeps = \<lparr>cdLib = sampleLib, cdDiffCluster = \<lambda>_ _. Inr [], cdDiffConfig = \<lambda>_ _. Inr [],
       cdDecodeCluster = \<lambda>_. Inr None, cdGroupKind = \<lambda>r. refKind r, cdDomainOrder = id\<rparr>,
     kOutcome = \<lambda>_ _. None, kNow = \<lambda>_. 9000000000, kNodes = \<lambda>_. [],
     kLeaderID = \<lambda>_. 1, kMembers = \<lambda>_. map (\<lambda>(i, n). \<lparr>emClusterID = 7, emID = i, emName = n, emAlarms = []\<rparr>) [(1, ''a''), (2, ''b''), (3, ''c'')],
     kName = \<lambda>_ b. b @ ''x'', kExternal = \<lambda>_. sampleExt, kConfig = \<lambda>_. sampleNamedConfig,
     kCreatedExternal = \<lambda>_ x. x, kCreatedConfig = \<lambda>_ x. x, kApplied = \<lambda>_ m. m, kPatched = \<lambda>_ m. m, kCleaned = \<lambda>_ m. m,
     kDroppedExternal = \<lambda>_ x. x, kDroppedConfig = \<lambda>_ x. x, kContract = \<lambda>_ r. r,
     kEtcdErrors = \<lambda>_. [], kPod = \<lambda>_. \<lparr>podPhase = ''Running'', podConditions = [(''Ready'', ConditionTrue)], podContainers = []\<rparr>,
     kSecret = \<lambda>_. \<lparr>scMeta = emptyMeta, scType = []\<rparr>, kSecrets = \<lambda>_. [], kCertificateSecrets = \<lambda>_. [], kNeedsRotation = \<lambda>_. Inr False,
     kCertificateMissing = \<lambda>_. False,
     kExpiryDate = \<lambda>_. [], kMachinesRead = \<lambda>_. [], kPoolCount = \<lambda>_. 0, kKcpRead = \<lambda>_. sampleKCP, kOwner = \<lambda>_. Some sampleCluster,
     kEncodeRemediation = \<lambda>m _ _. Inr m, kDecodeRemediation = \<lambda>v. Inr (v, 1000000000, 1), kEncodeCluster = \<lambda>_. Inr [],
     kGroup = \<lambda>v. Inr v, kSetController = \<lambda>_ m. Inr m, kSelectorFor = \<lambda>_ _. True, kSelectorString = \<lambda>c. c, kLabelErrors = \<lambda>_. [], kSemverString = \<lambda>_. [],
     kDurationString = \<lambda>_. [], kIntValue = \<lambda>v. (case v of IntVal n \<Rightarrow> n | StrVal _ \<Rightarrow> 0), kErrText = \<lambda>_. [],
     kClusterLocked = \<lambda>_. False, kConnectionError = \<lambda>_. False, kMachinePools = False, kDeprecatedNaming = False\<rparr>"

definition sampleCpMachine :: "string \<Rightarrow> (string \<times> string) list \<Rightarrow> Machine" where
  "sampleCpMachine n cs = (sampleMachine n 5)\<lparr>mchStatus := emptyMachineStatus\<lparr>stNodeRef := Some (emptyRef\<lparr>refName := n\<rparr>),
     stConditions := map (\<lambda>(t, st). \<lparr>ctype = t, cstatus = st, cseverity = [], clastTransitionTime = 1, creason = [], cmessage = []\<rparr>) cs\<rparr>\<rparr>"

definition sampleUnhealthy :: Machine where
  "sampleUnhealthy = sampleCpMachine ''c'' [(MachineHealthCheckSucceededCondition, ConditionFalse), (MachineOwnerRemediatedCondition, ConditionFalse)]"

definition sampleKState :: "Machines \<Rightarrow> kState" where
  "sampleKState ms = \<lparr>kCP = \<lparr>cpKCP = sampleKCP, cpCluster = sampleCluster, cpMachines = ms, cpHelpers = Map.empty, cpTime = 9,
     cpConfigs = Map.empty, cpInfra = Map.empty, cpWorkload = False\<rparr>, kTrace = []\<rparr>"

definition sampleThree :: Machines where
  "sampleThree = [sampleCpMachine ''a'' [(MachineEtcdMemberHealthyCondition, ConditionTrue)],
     sampleCpMachine ''b'' [(MachineEtcdMemberHealthyCondition, ConditionTrue)], sampleUnhealthy]"

fun changedMachine :: "kCall \<Rightarrow> string" where
  "changedMachine (KDeleteMachine m) = mchName m"
| "changedMachine (KApplyMachine _ m) = mchName m"
| "changedMachine _ = []"

theorem remediation_safe_witness:
  "map changedMachine (filter changesMachines (kTrace (snd (kcpReconcileUnhealthyMachines sampleKEnv (sampleKState sampleThree))))) = [''c''] \<and>
   allowed kTrace (remediationAllowed sampleKEnv (kCP (sampleKState sampleThree)) []) (sampleKState sampleThree)
     (snd (kcpReconcileUnhealthyMachines sampleKEnv (sampleKState sampleThree)))"
proof
  show "map changedMachine (filter changesMachines (kTrace (snd (kcpReconcileUnhealthyMachines sampleKEnv (sampleKState sampleThree))))) = [''c'']"
    by code_simp
  show "allowed kTrace (remediationAllowed sampleKEnv (kCP (sampleKState sampleThree)) []) (sampleKState sampleThree)
     (snd (kcpReconcileUnhealthyMachines sampleKEnv (sampleKState sampleThree)))"
    using remediation_safe [of "sampleKState sampleThree" sampleKEnv]
    by (simp add: sampleKState_def sampleThree_def sampleUnhealthy_def sampleCpMachine_def wfMachines_def)
qed

definition sampleRetried :: Machine where
  "sampleRetried = sampleUnhealthy\<lparr>mchMeta := emptyMeta\<lparr>mname := ''c'', mannotations := Some [RemediationForAnnotation \<mapsto> ''old'']\<rparr>\<rparr>"

definition sampleRetryKCP :: KubeadmControlPlane where
  "sampleRetryKCP = sampleKCP\<lparr>kcpSpec := (kcpSpec sampleKCP)\<lparr>ksRemediationStrategy :=
     Some \<lparr>rmMaxRetry = Some 3, rmRetryPeriod = 1000000000, rmMinHealthyPeriod = None\<rparr>\<rparr>\<rparr>"


end
