(* ===== verification/KcpController.thy ===== *)
theory KcpController
  imports KcpConditions KcpRemediation
begin

text \<open>
  The reconciliation of a KubeadmControlPlane
  (\<open>src/cluster-api/controlplane/kubeadm/internal/controllers/controller.go\<close>, \<open>status.go\<close>, \<open>helpers.go\<close>,
  and the parts of \<open>src/cluster-api/controlplane/kubeadm/internal/control_plane.go\<close> that call the API).

  A run starts by reading the object; until the control plane scope is set up, the state holds the object and
  its cluster with no machines. Secrets are their metadata and type: generating certificates and kubeconfigs,
  and reading the expiry of a certificate, are calls.
\<close>

section \<open>References and secrets\<close>

definition kcpClusterOwnerRef :: "Cluster \<Rightarrow> OwnerReference" where
  "kcpClusterOwnerRef cluster = \<lparr>orAPIVersion = ''cluster.x-k8s.io/v1beta1'', orKind = ''Cluster'',
     orName = mname (clMeta cluster), orUID = muid (clMeta cluster), orController = None, orBlockOwnerDeletion = None\<rparr>"

definition setInfrastructureRef :: "ObjectReference \<Rightarrow> KubeadmControlPlane \<Rightarrow> KubeadmControlPlane" where
  "setInfrastructureRef ref k = k\<lparr>kcpSpec := (kcpSpec k)\<lparr>ksMachineTemplate := (ksMachineTemplate (kcpSpec k))\<lparr>ktInfrastructureRef := ref\<rparr>\<rparr>\<rparr>"

definition reconcileExternalReference :: "'u kEnv \<Rightarrow> (kState, unit) comp" where
  "reconcileExternalReference E =
     bindE (getsE kCP) (\<lambda>c.
       let ref = ktInfrastructureRef (ksMachineTemplate (kcpSpec (cpKCP c))) in
       if \<not> HasSuffix (refKind ref) TemplateSuffix then returnE ()
       else
         bindE (kread E (KUpdateContract ref) (\<lambda>cs. kContract E cs ref)) (\<lambda>ref'.
         bindE (changeKCP (setInfrastructureRef ref')) (\<lambda>_.
         bindE (kGetExternal E ref' (mnamespace (clMeta (cpCluster c)))) (\<lambda>obj.
         bindE (kcall E (KHelper (mname (xMeta obj)))) (\<lambda>_.
           kcall E (KPatchExternalOwners obj (obj\<lparr>xMeta := (xMeta obj)\<lparr>mownerReferences :=
             EnsureOwnerRef (kGroup E) (mownerReferences (xMeta obj)) (kcpClusterOwnerRef (cpCluster c))\<rparr>\<rparr>)))))))"

abbreviation "ClusterSecretType \<equiv> ''cluster.x-k8s.io/secret''"

definition setSecretOwners :: "OwnerReference list \<Rightarrow> Secret \<Rightarrow> Secret" where
  "setSecretOwners refs s = s\<lparr>scMeta := (scMeta s)\<lparr>mownerReferences := refs\<rparr>\<rparr>"

text \<open>The owners of a secret that Cluster API has created: the control plane becomes the controller.\<close>

definition takeOver :: "'u kEnv \<Rightarrow> OwnerReference \<Rightarrow> OwnerReference option \<Rightarrow> Secret \<Rightarrow> Secret" where
  "takeOver E owner controller s =
     (let refs = mownerReferences (scMeta s) in
      setSecretOwners (EnsureOwnerRef (kGroup E)
        (case controller of None \<Rightarrow> refs | Some r \<Rightarrow> RemoveOwnerRef (kGroup E) refs r) owner) s)"

definition ownedByKcp :: "OwnerReference option \<Rightarrow> bool" where
  "ownedByKcp controller = (case controller of None \<Rightarrow> False | Some r \<Rightarrow> orKind r = kubeadmControlPlaneKind)"

definition certificateOwner :: "'u kEnv \<Rightarrow> OwnerReference \<Rightarrow> Secret \<Rightarrow> Secret" where
  "certificateOwner E owner s =
     (let controller = GetControllerOf (scMeta s);
          s' = (if ownedByKcp controller then setSecretOwners (EnsureOwnerRef (kGroup E) (mownerReferences (scMeta s)) owner) s else s)
      in if scType s = ClusterSecretType then takeOver E owner controller s' else s')"

fun ensureCertificatesOwnerRef :: "'u kEnv \<Rightarrow> OwnerReference \<Rightarrow> Secret option list \<Rightarrow> (kState, unit) comp" where
  "ensureCertificatesOwnerRef E owner [] = returnE ()"
| "ensureCertificatesOwnerRef E owner (None # cs) = ensureCertificatesOwnerRef E owner cs"
| "ensureCertificatesOwnerRef E owner (Some s # cs) =
     bindE (kcall E (KHelper (mname (scMeta s)))) (\<lambda>_.
     bindE (wrapE ''failed to set ownerReference'' (kcall E (KPatchSecret s (certificateOwner E owner s)))) (\<lambda>_.
       ensureCertificatesOwnerRef E owner cs))"

abbreviation "CertificatesAvailableCondition \<equiv> ''CertificatesAvailable''"
abbreviation "CertificatesGenerationFailedReason \<equiv> ''CertificatesGenerationFailed''"
abbreviation "AvailableCondition \<equiv> ''Available''"
abbreviation "WaitingForKubeadmInitReason \<equiv> ''WaitingForKubeadmInit''"
abbreviation "MachinesSpecUpToDateCondition \<equiv> ''MachinesSpecUpToDate''"
abbreviation "RollingUpdateInProgressReason \<equiv> ''RollingUpdateInProgress''"

definition reconcileClusterCertificates :: "'u kEnv \<Rightarrow> (kState, unit) comp" where
  "reconcileClusterCertificates E =
     bindE (getsE kCP) (\<lambda>c.
       let controllerRef = kcpControllerRef (cpKCP c) in
       bindE (attemptE (kread E (KLookupCertificates controllerRef) (kCertificateSecrets E))) (\<lambda>r.
         case r of
           Inl e \<Rightarrow>
             bindE (markControlPlane E CertificatesAvailableCondition
               (MFalse CertificatesGenerationFailedReason ConditionSeverityWarning (kErrText E e) [])) (\<lambda>_. failE e)
         | Inr certificates \<Rightarrow>
             bindE (ensureCertificatesOwnerRef E controllerRef certificates) (\<lambda>_.
               markControlPlane E CertificatesAvailableCondition MTrue)))"

text \<open>The owners of the kubeconfig secret after its adoption.\<close>

definition kubeconfigOwner :: "'u kEnv \<Rightarrow> OwnerReference \<Rightarrow> Secret \<Rightarrow> Secret" where
  "kubeconfigOwner E owner s =
     (let controller = GetControllerOf (scMeta s) in
      if ownedByKcp controller then setSecretOwners (EnsureOwnerRef (kGroup E) (mownerReferences (scMeta s)) owner) s
      else if scType s = ClusterSecretType then takeOver E owner controller s
      else s)"

definition adoptKubeconfigSecret :: "'u kEnv \<Rightarrow> Secret \<Rightarrow> (kState, Secret) comp" where
  "adoptKubeconfigSecret E configSecret =
     bindE (getsE kCP) (\<lambda>c.
     bindE (kcall E (KHelper (mname (scMeta configSecret)))) (\<lambda>_.
       let adopted = kubeconfigOwner E (kcpControllerRef (cpKCP c)) configSecret in
       bindE (attemptE (kcall E (KPatchSecret configSecret adopted))) (\<lambda>r.
         case r of Inl e \<Rightarrow> failE (Aggregate [e]) | Inr _ \<Rightarrow> returnE adopted)))"

abbreviation "dependentCertRequeueAfter \<equiv> (30 :: int)"

text \<open>\<open>APIEndpoint.String\<close>: \<open>net.JoinHostPort\<close>.\<close>

definition endpointString :: "APIEndpoint \<Rightarrow> string" where
  "endpointString v =
     (if CHR '':'' \<in> set (epHost v) then ''['' @ epHost v @ '']:'' else epHost v @ '':'') @ FormatInt (epPort v)"

definition reconcileKubeconfig :: "'u kEnv \<Rightarrow> (kState, ctrlResult) comp" where
  "reconcileKubeconfig E =
     bindE (getsE kCP) (\<lambda>c.
       let endpoint = clControlPlaneEndpoint (clSpec (cpCluster c)); controllerRef = kcpControllerRef (cpKCP c) in
       if endpointIsZero endpoint then returnE emptyResult
       else
         bindE (attemptE (kread E KReadKubeconfig (kSecret E))) (\<lambda>r.
           case r of
             Inl e \<Rightarrow>
               if isNotFound e then
                 bindE (attemptE (kcall E (KCreateKubeconfig (endpointString endpoint) controllerRef))) (\<lambda>r'.
                   case r' of
                     Inl e' \<Rightarrow> if kCertificateMissing E e' then returnE (requeueIn dependentCertRequeueAfter) else failE e'
                   | Inr _ \<Rightarrow> returnE emptyResult)
               else failE (Wrap ''failed to retrieve kubeconfig Secret'' e)
           | Inr configSecret \<Rightarrow>
               bindE (adoptKubeconfigSecret E configSecret) (\<lambda>s.
                 if \<not> IsControlledBy (kGroup E) (scMeta s) ''controlplane.cluster.x-k8s.io'' kubeadmControlPlaneKind (mname (kcpMeta (cpKCP c)))
                 then returnE emptyResult
                 else
                   bindE (liftE (kNeedsRotation E s)) (\<lambda>needsRotation.
                     if needsRotation then
                       bindE (wrapE ''failed to regenerate kubeconfig'' (kcall E (KRegenerateKubeconfig s))) (\<lambda>_. returnE emptyResult)
                     else returnE emptyResult))))"

section \<open>Machines in place\<close>

definition updateMachine :: "'u kEnv \<Rightarrow> Machine \<Rightarrow> (kState, Machine) comp" where
  "updateMachine E machine =
     bindE (getsE (\<lambda>s. (kCP s, kTrace s))) (\<lambda>(c, cs).
     bindE (wrapE ''failed to update Machine: failed to compute desired Machine''
       (liftE (kcpComputeDesiredMachine E (kName E cs) (cpKCP c) (cpCluster c) (spFailureDomain (mchSpec machine)) (Some machine)))) (\<lambda>updated.
       wrapE ''failed to update Machine'' (kread E (KApplyMachine (Some machine) updated) (\<lambda>cs. kApplied E cs updated))))"

definition updateExternalObject :: "'u kEnv \<Rightarrow> string \<Rightarrow> ObjMeta \<Rightarrow> (kState, unit) comp" where
  "updateExternalObject E kind meta =
     bindE (getsE kCP) (\<lambda>c.
       wrapE (''failed to update '' @ kind) (kcall E (KApplyExternal kind meta
         (ControlPlaneMachineLabelsForCluster E (cpKCP c) (mname (clMeta (cpCluster c))))
         (ktAnnotations (ksMachineTemplate (kcpSpec (cpKCP c)))))))"

definition setMachineAt :: "string \<Rightarrow> Machine \<Rightarrow> Machines \<Rightarrow> Machines" where
  "setMachineAt name m ms = map (\<lambda>x. if mchName x = name then m else x) ms"

definition syncInfra :: "'u kEnv \<Rightarrow> string \<Rightarrow> (kState, unit) comp" where
  "syncInfra E name =
     bindE (getsE kCP) (\<lambda>c.
       case cpInfra c name of
         None \<Rightarrow> returnE ()
       | Some obj \<Rightarrow>
           bindE (wrapE ''failed to clean up managedFields of InfrastructureMachine''
             (kread E (KDropExternal obj) (\<lambda>cs. kDroppedExternal E cs obj))) (\<lambda>obj'.
           bindE (changeCP (\<lambda>c. c\<lparr>cpInfra := (cpInfra c)(name \<mapsto> obj')\<rparr>)) (\<lambda>_.
             wrapE ''failed to update InfrastructureMachine'' (updateExternalObject E (xKind obj') (xMeta obj')))))"

definition syncConfig :: "'u kEnv \<Rightarrow> string \<Rightarrow> Machine \<Rightarrow> (kState, unit) comp" where
  "syncConfig E name m =
     bindE (getsE kCP) (\<lambda>c.
       case cpConfigs c name of
         None \<Rightarrow> returnE ()
       | Some cfg \<Rightarrow>
           bindE (liftE (deref ''m.Spec.Bootstrap.ConfigRef'' (bConfigRef (spBootstrap (mchSpec m))))) (\<lambda>ref.
           bindE (wrapE ''failed to clean up managedFields of KubeadmConfig''
             (kread E (KDropConfig cfg) (\<lambda>cs. kDroppedConfig E cs cfg))) (\<lambda>cfg'.
           bindE (changeCP (\<lambda>c. c\<lparr>cpConfigs := (cpConfigs c)(name \<mapsto> cfg')\<rparr>)) (\<lambda>_.
             wrapE ''failed to update KubeadmConfig'' (updateExternalObject E (refKind ref) (kcfgMeta cfg'))))))"

text \<open>
  The loop over the machines, with the patch helpers made so far. The clean-up answers into the machine,
  which the following steps read.
\<close>

fun syncLoop :: "'u kEnv \<Rightarrow> Machines \<Rightarrow> (string \<rightharpoonup> Machine) \<Rightarrow> (kState, string \<rightharpoonup> Machine) comp" where
  "syncLoop E [] helpers = returnE helpers"
| "syncLoop E (m # ms) helpers =
     (if \<not> timeIsZero (mdeletionTimestamp (mchMeta m)) then syncLoop E ms helpers
      else
        bindE (wrapE ''failed to update Machine: failed to adjust the managedFields of the Machine''
          (kread E (KCleanFields (mchName m)) (\<lambda>cs. kCleaned E cs m))) (\<lambda>m'.
        bindE (wrapE ''failed to update Machine'' (updateMachine E m')) (\<lambda>updated.
        bindE (changeCP (\<lambda>c. c\<lparr>cpMachines := setMachineAt (mchName m) updated (cpMachines c)\<rparr>)) (\<lambda>_.
        bindE (kcall E (KHelper (mchName updated))) (\<lambda>_.
        bindE (syncInfra E (mchName m)) (\<lambda>_.
        bindE (syncConfig E (mchName m) m') (\<lambda>_.
          syncLoop E ms (helpers(mchName m \<mapsto> updated)))))))))"

definition syncMachines :: "'u kEnv \<Rightarrow> (kState, unit) comp" where
  "syncMachines E =
     bindE (getsE (\<lambda>s. cpMachines (kCP s))) (\<lambda>machines.
     bindE (syncLoop E machines Map.empty) (\<lambda>helpers.
       changeCP (SetPatchHelpers helpers)))"

section \<open>Conditions, etcd members and hooks\<close>

text \<open>The machines are patched with the helpers that hold their originals; the errors are collected.\<close>

fun patchMachines :: "'u kEnv \<Rightarrow> Machines \<Rightarrow> err list \<Rightarrow> (kState, err list) comp" where
  "patchMachines E [] errs = returnE errs"
| "patchMachines E (m # ms) errs =
     bindE (getsE (\<lambda>s. cpHelpers (kCP s) (mchName m))) (\<lambda>helper.
       case helper of
         None \<Rightarrow> patchMachines E ms (errs @ [Err ''failed to get patch helper for machine''])
       | Some original \<Rightarrow>
           bindE (attemptE (kcall E (KPatchMachine original m))) (\<lambda>r.
             patchMachines E ms (case r of Inl e \<Rightarrow> errs @ [e] | Inr _ \<Rightarrow> errs)))"

definition PatchMachines :: "'u kEnv \<Rightarrow> (kState, unit) comp" where
  "PatchMachines E =
     bindE (getsE (\<lambda>s. cpMachines (kCP s))) (\<lambda>machines.
     bindE (patchMachines E machines []) (\<lambda>errs. if length errs > 0 then failE (Aggregate errs) else returnE ()))"

definition reconcileControlPlaneConditions :: "'u kEnv \<Rightarrow> (kState, unit) comp" where
  "reconcileControlPlaneConditions E =
     bindE (getsE kCP) (\<lambda>c.
       if \<not> kstInitialized (kcpStatus (cpKCP c)) then returnE ()
       else
         bindE (wrapE ''cannot get remote client to workload cluster'' (GetWorkloadCluster E)) (\<lambda>_.
         bindE (UpdateStaticPodConditions E) (\<lambda>_.
         bindE (UpdateEtcdConditions E) (\<lambda>_.
           PatchMachines E))))"

definition reconcileEtcdMembers :: "'u kEnv \<Rightarrow> (kState, unit) comp" where
  "reconcileEtcdMembers E =
     bindE (getsE kCP) (\<lambda>c.
       if \<not> IsEtcdManaged c then returnE ()
       else if length (cpMachines c) = 0 then returnE ()
       else if hasProvisioningMachine (cpMachines c) then returnE ()
       else if IsTrue (kcpConditions (cpKCP c)) EtcdClusterHealthyCondition then returnE ()
       else
         bindE (wrapE ''cannot get remote client to workload cluster'' (GetWorkloadCluster E)) (\<lambda>_.
         bindE (wrapE ''failed to parse kubernetes version'' (liftE (ParseTolerant (kLib E) (ksVersion (kcpSpec (cpKCP c)))))) (\<lambda>v.
         bindE (wrapE ''failed attempt to reconcile etcd members''
           (ReconcileEtcdMembers E (List.map_filter (\<lambda>m. map_option refName (stNodeRef (mchStatus m))) (cpMachines c)) v)) (\<lambda>_.
           returnE ()))))"

definition removePreTerminateHookAnnotationFromMachine :: "'u kEnv \<Rightarrow> Machine \<Rightarrow> (kState, unit) comp" where
  "removePreTerminateHookAnnotationFromMachine E machine =
     (case mlookup (mannotations (mchMeta machine)) PreTerminateHookCleanupAnnotation of
        None \<Rightarrow> returnE ()
      | Some _ \<Rightarrow>
          let machine' = machine\<lparr>mchMeta := (mchMeta machine)\<lparr>mannotations :=
                map_option (\<lambda>f. f(PreTerminateHookCleanupAnnotation := None)) (mannotations (mchMeta machine))\<rparr>\<rparr> in
          bindE (changeCP (\<lambda>c. c\<lparr>cpMachines := setMachineAt (mchName machine) machine' (cpMachines c)\<rparr>)) (\<lambda>_.
          bindE (wrapE ''failed to remove pre-terminate hook from control plane Machine''
            (kread E (KPatchMachine machine machine') (\<lambda>cs. kPatched E cs machine'))) (\<lambda>answer.
            changeCP (\<lambda>c. c\<lparr>cpMachines := setMachineAt (mchName machine) answer (cpMachines c)\<rparr>))))"

definition PreTerminateDeleteHookAnnotationPrefix :: string where
  "PreTerminateDeleteHookAnnotationPrefix = ''pre-terminate.delete.hook.machine.cluster.x-k8s.io''"

definition machineHasOtherPreTerminateHooks :: "Machine \<Rightarrow> bool" where
  "machineHasOtherPreTerminateHooks machine \<longleftrightarrow>
     (\<exists>k. mlookup (mannotations (mchMeta machine)) k \<noteq> None \<and> HasPrefix k PreTerminateDeleteHookAnnotationPrefix \<and>
        k \<noteq> PreTerminateHookCleanupAnnotation)"

abbreviation "PreTerminateDeleteHookSucceededCondition \<equiv> ''PreTerminateDeleteHookSucceeded''"
abbreviation "WaitingExternalHookReason \<equiv> ''WaitingExternalHook''"

text \<open>What keeps the hook from being run now.\<close>

definition hookMustWait :: "'u kEnv \<Rightarrow> semver \<Rightarrow> Machine \<Rightarrow> bool" where
  "hookMustWait E v machine \<longleftrightarrow>
     (Compare (semverCompare (kLib E)) v (mkVersion 1 31 0) [WithoutPreReleases] \<ge> 0 \<and> machineHasOtherPreTerminateHooks machine) \<or>
     (case Get (mchConditions machine) PreTerminateDeleteHookSucceededCondition of
        None \<Rightarrow> True
      | Some c \<Rightarrow> cstatus c \<noteq> ConditionFalse \<or> creason c \<noteq> WaitingExternalHookReason)"

definition leaveEtcd :: "'u kEnv \<Rightarrow> Machine \<Rightarrow> (kState, unit) comp" where
  "leaveEtcd E machine =
     bindE (getsE kCP) (\<lambda>c.
       if \<not> (length (cpMachines c) > 1 \<and> IsEtcdManaged c) then returnE ()
       else
         bindE (wrapE ''failed to remove etcd member for deleting Machine: failed to create client to workload cluster'' (GetWorkloadCluster E)) (\<lambda>_.
         bindE (case Newest (Filter (cpMachines c) [NotF HasDeletionTimestamp]) of
                  None \<Rightarrow> returnE ()
                | Some candidate \<Rightarrow>
                    wrapE ''failed to move leadership to candidate Machine'' (ForwardEtcdLeadership E machine (Some candidate))) (\<lambda>_.
           wrapE ''failed to remove etcd member for deleting Machine'' (RemoveEtcdMemberForMachine E machine))))"

definition reconcilePreTerminateHook :: "'u kEnv \<Rightarrow> (kState, ctrlResult) comp" where
  "reconcilePreTerminateHook E =
     bindE (getsE kCP) (\<lambda>c.
       if \<not> HasDeletingMachine c then returnE emptyResult
       else if list_ex (\<lambda>m. mlookup (mannotations (mchMeta m)) PreTerminateHookCleanupAnnotation = None) (DeletingMachines c)
       then returnE (requeueIn deleteRequeueAfter)
       else
         bindE (liftE (deref ''deletingMachine'' (OldestDeletionTimestamp (DeletingMachines c)))) (\<lambda>machine.
         bindE (wrapE ''failed to parse Kubernetes version'' (liftE (ParseTolerant (kLib E) (ksVersion (kcpSpec (cpKCP c)))))) (\<lambda>v.
           if hookMustWait E v machine then returnE (requeueIn deleteRequeueAfter)
           else
             bindE (leaveEtcd E machine) (\<lambda>_.
             bindE (removePreTerminateHookAnnotationFromMachine E machine) (\<lambda>_.
               returnE (requeueIn deleteRequeueAfter))))))"

definition MachineCertificatesExpiryDateAnnotation :: string where
  "MachineCertificatesExpiryDateAnnotation = ''machine.cluster.x-k8s.io/certificates-expiry''"

fun expiryLoop :: "'u kEnv \<Rightarrow> Machines \<Rightarrow> (kState, unit) comp" where
  "expiryLoop E [] = returnE ()"
| "expiryLoop E (m # ms) =
     bindE (getsE (\<lambda>s. cpConfigs (kCP s) (mchName m))) (\<lambda>config.
       case config of
         None \<Rightarrow> expiryLoop E ms
       | Some cfg \<Rightarrow>
           (case mlookup (mannotations (kcfgMeta cfg)) MachineCertificatesExpiryDateAnnotation of
              Some _ \<Rightarrow> expiryLoop E ms
            | None \<Rightarrow>
                (case stNodeRef (mchStatus m) of
                   None \<Rightarrow> expiryLoop E ms
                 | Some ref \<Rightarrow>
                     bindE (wrapE ''failed to reconcile certificate expiry for Machine'' (kread E (KExpiry (refName ref) cfg) (kExpiryDate E))) (\<lambda>expiry.
                     bindE (wrapE ''failed to reconcile certificate expiry for Machine'' (kcall E (KHelper (mname (kcfgMeta cfg))))) (\<lambda>_.
                       let cfg' = cfg\<lparr>kcfgMeta := (kcfgMeta cfg)\<lparr>mannotations := Some
                             ((case mannotations (kcfgMeta cfg) of None \<Rightarrow> Map.empty | Some f \<Rightarrow> f)
                                (MachineCertificatesExpiryDateAnnotation \<mapsto> expiry))\<rparr>\<rparr> in
                       bindE (changeCP (\<lambda>c. c\<lparr>cpConfigs := (cpConfigs c)(mchName m \<mapsto> cfg')\<rparr>)) (\<lambda>_.
                       bindE (wrapE ''failed to reconcile certificate expiry for Machine'' (kcall E (KPatchConfig cfg cfg'))) (\<lambda>_.
                         expiryLoop E ms)))))))"

definition reconcileCertificateExpiries :: "'u kEnv \<Rightarrow> (kState, unit) comp" where
  "reconcileCertificateExpiries E =
     bindE (getsE kCP) (\<lambda>c.
       if length (cpMachines c) = 0 then returnE ()
       else if \<not> kstInitialized (kcpStatus (cpKCP c)) then returnE ()
       else
         bindE (wrapE ''failed to reconcile certificate expiries: cannot get remote client to workload cluster'' (GetWorkloadCluster E)) (\<lambda>_.
           expiryLoop E (Filter (cpMachines c) [NotF HasDeletionTimestamp])))"

section \<open>The normal reconciliation\<close>

definition machineGetters :: "Machines \<Rightarrow> Getter list" where
  "machineGetters ms = map (\<lambda>m. \<lparr>gkind = ''Machine'', gname = mchName m, gconditions = mchConditions m\<rparr>) ms"

definition aggregateMachines :: "'u kEnv \<Rightarrow> (kState, unit) comp" where
  "aggregateMachines E =
     bindE (getsE (\<lambda>s. cpMachines (kCP s))) (\<lambda>machines.
       markKCP E (\<lambda>now cs. SetAggregate now cs MachinesReadyCondition (machineGetters machines) [AddSourceRef]))"

text \<open>Which machines need to be replaced; the comparison changes the configurations.\<close>

definition machinesNeedingRollout :: "'u kEnv \<Rightarrow> (kState, Machines) comp" where
  "machinesNeedingRollout E =
     bindE (getsE kCP) (\<lambda>c.
       let (r, cfgs) = MachinesNeedingRollout (kDeps E) c in
       bindE (changeCP (\<lambda>c. c\<lparr>cpConfigs := cfgs\<rparr>)) (\<lambda>_. liftE r))"

text \<open>When the number of machines is right: the add-ons of the workload cluster.\<close>

definition reconcileAddons :: "'u kEnv \<Rightarrow> (kState, ctrlResult) comp" where
  "reconcileAddons E =
     bindE (attemptE (GetWorkloadCluster E)) (\<lambda>r.
       case r of
         Inl _ \<Rightarrow> returnE requeueNow
       | Inr _ \<Rightarrow>
           bindE (getsE kCP) (\<lambda>c.
           bindE (wrapE ''failed to set role and role binding for kubeadm'' (workloadOp E AllowBootstrapTokensToGetNodes)) (\<lambda>_.
           bindE (wrapE ''failed to parse kubernetes version'' (liftE (ParseMajorMinorPatchTolerant (ksVersion (kcpSpec (cpKCP c)))))) (\<lambda>v.
           bindE (workloadOp E (UpdateKubeProxyImageInfo v)) (\<lambda>_.
           bindE (wrapE ''failed to update CoreDNS deployment'' (workloadOp E (UpdateCoreDNS v))) (\<lambda>_.
           bindE (reconcileCertificateExpiries E) (\<lambda>_.
             returnE emptyResult)))))))"

definition reconcileReplicas :: "'u kEnv \<Rightarrow> (kState, ctrlResult) comp" where
  "reconcileReplicas E =
     bindE (getsE kCP) (\<lambda>c.
     bindE (liftE (deref ''controlPlane.KCP.Spec.Replicas'' (ksReplicas (kcpSpec (cpKCP c))))) (\<lambda>desiredReplicas.
       let numMachines = int (length (cpMachines c)) in
       if numMachines < desiredReplicas \<and> numMachines = 0 then
         bindE (markControlPlane E AvailableCondition (MFalse WaitingForKubeadmInitReason ConditionSeverityInfo [] [])) (\<lambda>_.
           initializeControlPlane E)
       else if numMachines < desiredReplicas \<and> numMachines > 0 then scaleUpControlPlane E
       else if numMachines > desiredReplicas then scaleDownControlPlane E []
       else reconcileAddons E))"

definition reconcileRollout :: "'u kEnv \<Rightarrow> (kState, ctrlResult) comp" where
  "reconcileRollout E =
     bindE (machinesNeedingRollout E) (\<lambda>outdated.
     bindE (getsE kCP) (\<lambda>c.
       if length outdated > 0 then
         bindE (markControlPlane E MachinesSpecUpToDateCondition
           (MFalse RollingUpdateInProgressReason ConditionSeverityWarning ''Rolling %d replicas with outdated spec (%d replicas up to date)''
             [FormatInt (int (length outdated)), FormatInt (int (length (cpMachines c)) - int (length outdated))])) (\<lambda>_.
           upgradeControlPlane E outdated)
       else
         bindE (if Has (kcpConditions (cpKCP c)) MachinesSpecUpToDateCondition
                then markControlPlane E MachinesSpecUpToDateCondition MTrue else returnE ()) (\<lambda>_.
           reconcileReplicas E)))"

definition kcpReconcile :: "'u kEnv \<Rightarrow> (kState, ctrlResult) comp" where
  "kcpReconcile E =
     bindE (reconcileExternalReference E) (\<lambda>_.
     bindE (getsE (\<lambda>s. cpCluster (kCP s))) (\<lambda>cluster.
       if \<not> clInfrastructureReady (clStatus cluster) then returnE emptyResult
       else
         bindE (reconcileClusterCertificates E) (\<lambda>_.
           if \<not> endpointIsValid (clControlPlaneEndpoint (clSpec cluster)) then returnE emptyResult
           else
             bindE (reconcileKubeconfig E) (\<lambda>result.
               if \<not> resultIsZero result then returnE result
               else
                 bindE (wrapE ''failed to sync Machines'' (syncMachines E)) (\<lambda>_.
                 bindE (aggregateMachines E) (\<lambda>_.
                 bindE (reconcileControlPlaneConditions E) (\<lambda>_.
                 bindE (reconcileEtcdMembers E) (\<lambda>_.
                 bindE (reconcilePreTerminateHook E) (\<lambda>result.
                   if \<not> resultIsZero result then returnE result
                   else
                     bindE (kcpReconcileUnhealthyMachines E) (\<lambda>result.
                       if \<not> resultIsZero result then returnE result else reconcileRollout E))))))))))"

section \<open>Deletion\<close>

definition KubeadmControlPlaneFinalizer :: string where
  "KubeadmControlPlaneFinalizer = ''kubeadm.controlplane.cluster.x-k8s.io''"

definition setFinalizers :: "(string list \<Rightarrow> string list) \<Rightarrow> KubeadmControlPlane \<Rightarrow> KubeadmControlPlane" where
  "setFinalizers f k = k\<lparr>kcpMeta := (kcpMeta k)\<lparr>mfinalizers := f (mfinalizers (kcpMeta k))\<rparr>\<rparr>"

definition GetMachinesForCluster :: "'u kEnv \<Rightarrow> bool \<Rightarrow> Func list \<Rightarrow> (kState, Machines) comp" where
  "GetMachinesForCluster E cached filters =
     bindE (wrapE ''failed to list machines'' (kread E (KListMachines cached) (kMachinesRead E))) (\<lambda>items.
       returnE (Filter (FromMachineList items) filters))"

text \<open>Every machine loses the hook and, unless it is being deleted already, is deleted; the errors are collected.\<close>

fun deleteLoop :: "'u kEnv \<Rightarrow> Machines \<Rightarrow> err list \<Rightarrow> (kState, err list) comp" where
  "deleteLoop E [] errs = returnE errs"
| "deleteLoop E (m # ms) errs =
     bindE (attemptE (removePreTerminateHookAnnotationFromMachine E m)) (\<lambda>r.
       case r of
         Inl e \<Rightarrow> deleteLoop E ms (errs @ [e])
       | Inr _ \<Rightarrow>
           bindE (getsE (currentMachine (mchName m))) (\<lambda>now.
             let m' = (case now of None \<Rightarrow> m | Some x \<Rightarrow> x) in
             if \<not> timeIsZero (mdeletionTimestamp (mchMeta m')) then deleteLoop E ms errs
             else
               bindE (attemptE (kcall E (KDeleteMachine m'))) (\<lambda>r'.
                 deleteLoop E ms
                   (case r' of Inl e \<Rightarrow> if isNotFound e then errs else errs @ [Wrap ''failed to delete control plane Machine'' e]
                             | Inr _ \<Rightarrow> errs))))"

definition kcpReconcileDelete :: "'u kEnv \<Rightarrow> (kState, ctrlResult) comp" where
  "kcpReconcileDelete E =
     bindE (getsE kCP) (\<lambda>c.
       if length (cpMachines c) = 0 then
         bindE (changeKCP (setFinalizers (filter (\<lambda>f. f \<noteq> KubeadmControlPlaneFinalizer)))) (\<lambda>_. returnE emptyResult)
       else
         bindE (attemptE (reconcileControlPlaneConditions E)) (\<lambda>_.
         bindE (aggregateMachines E) (\<lambda>_.
         bindE (GetMachinesForCluster E True []) (\<lambda>allMachines.
         bindE (if kMachinePools E then kread E KListPools (kPoolCount E) else returnE 0) (\<lambda>pools.
         bindE (getsE (\<lambda>s. cpMachines (kCP s))) (\<lambda>machines.
           if length allMachines \<noteq> length machines \<or> pools \<noteq> 0 then
             bindE (markControlPlane E ResizedCondition
               (MFalse DeletingReason ConditionSeverityInfo ''Waiting for worker nodes to be deleted first'' [])) (\<lambda>_.
               returnE (requeueIn deleteRequeueAfter))
           else
             bindE (deleteLoop E machines []) (\<lambda>errs.
               if length errs > 0 then failE (Aggregate errs)
               else
                 bindE (markControlPlane E ResizedCondition (MFalse DeletingReason ConditionSeverityInfo [] [])) (\<lambda>_.
                   returnE (requeueIn deleteRequeueAfter)))))))))"

section \<open>Adoption\<close>

text \<open>
  Whether the machines may be adopted: an error stops the reconciliation, an unsupported version only this
  adoption.
\<close>

fun adoptChecks :: "'u kEnv \<Rightarrow> KubeadmControlPlane \<Rightarrow> semver \<Rightarrow> Machines \<Rightarrow> bool res" where
  "adoptChecks E kcp kcpVersion [] = Inr True"
| "adoptChecks E kcp kcpVersion (m # ms) =
     (case bConfigRef (spBootstrap (mchSpec m)) of
        None \<Rightarrow> Inl (Err ''unable to adopt Machine: expected a ConfigRef of kind KubeadmConfig'')
      | Some ref \<Rightarrow>
          if refKind ref \<noteq> ''KubeadmConfig'' then Inl (Err ''unable to adopt Machine: expected a ConfigRef of kind KubeadmConfig'')
          else if refNamespace ref \<noteq> [] \<and> refNamespace ref \<noteq> mnamespace (kcpMeta kcp)
          then Inl (Err ''could not adopt resources from KubeadmConfig: cannot adopt across namespaces'')
          else
            (case spVersion (mchSpec m) of
               None \<Rightarrow> adoptChecks E kcp kcpVersion ms
             | Some v \<Rightarrow>
                 bindR (wrapR ''failed to parse kubernetes version'' (ParseTolerant (kLib E) v)) (\<lambda>machineVersion.
                   if \<not> IsSupportedVersionSkew kcpVersion machineVersion then Inr False
                   else adoptChecks E kcp kcpVersion ms)))"

fun adoptSecretsLoop :: "'u kEnv \<Rightarrow> KubeadmControlPlane \<Rightarrow> KubeadmConfig \<Rightarrow> Secret list \<Rightarrow> (kState, unit) comp" where
  "adoptSecretsLoop E kcp owner [] = returnE ()"
| "adoptSecretsLoop E kcp owner (s # ss) =
     (if \<not> IsOwnedByObject (kGroup E) (scMeta s) ''bootstrap.cluster.x-k8s.io'' ''KubeadmConfig'' (mname (kcfgMeta owner))
      then adoptSecretsLoop E kcp owner ss
      else if kcfgDataSecretName owner = Some (mname (scMeta s)) then adoptSecretsLoop E kcp owner ss
      else
        bindE (wrapE ''error changing secret ownership from KubeadmConfig to KubeadmControlPlane''
          (kcall E (KUpdateSecret (setSecretOwners
             (ReplaceOwnerRef (mownerReferences (scMeta s)) (muid (kcfgMeta owner)) (kcpControllerRef kcp)) s)))) (\<lambda>_.
          adoptSecretsLoop E kcp owner ss))"

definition adoptOwnedSecrets :: "'u kEnv \<Rightarrow> KubeadmControlPlane \<Rightarrow> KubeadmConfig \<Rightarrow> string \<Rightarrow> (kState, unit) comp" where
  "adoptOwnedSecrets E kcp currentOwner clusterName =
     bindE (wrapE ''error finding secrets for adoption'' (kread E (KListSecrets clusterName) (kSecrets E))) (\<lambda>secrets.
       adoptSecretsLoop E kcp currentOwner secrets)"

fun adoptLoop :: "'u kEnv \<Rightarrow> KubeadmControlPlane \<Rightarrow> string \<Rightarrow> Machines \<Rightarrow> (kState, unit) comp" where
  "adoptLoop E kcp clusterName [] = returnE ()"
| "adoptLoop E kcp clusterName (m # ms) =
     bindE (liftE (deref ''m.Spec.Bootstrap.ConfigRef'' (bConfigRef (spBootstrap (mchSpec m))))) (\<lambda>ref.
     bindE (kread E (KReadConfig (mnamespace (kcpMeta kcp)) (refName ref)) (kConfig E)) (\<lambda>cfg.
     bindE (adoptOwnedSecrets E kcp cfg clusterName) (\<lambda>_.
     bindE (kcall E (KHelper (mchName m))) (\<lambda>_.
     bindE (liftE (kSetController E kcp (mchMeta m))) (\<lambda>meta'.
     bindE (kcall E (KPatchMachine m (m\<lparr>mchMeta := meta'\<rparr>))) (\<lambda>_.
       adoptLoop E kcp clusterName ms))))))"

definition kcpAdoptMachines :: "'u kEnv \<Rightarrow> KubeadmControlPlane \<Rightarrow> Machines \<Rightarrow> Cluster \<Rightarrow> (kState, unit) comp" where
  "kcpAdoptMachines E kcp machines cluster =
     bindE (wrapE ''failed to check whether the control plane was deleted before adoption'' (kread E KReadKCP (kKcpRead E))) (\<lambda>uncached.
       if \<not> timeIsZero (mdeletionTimestamp (kcpMeta uncached)) then failE (Err ''has just been deleted'')
       else
         bindE (wrapE ''failed to parse kubernetes version'' (liftE (ParseTolerant (kLib E) (ksVersion (kcpSpec kcp))))) (\<lambda>kcpVersion.
         bindE (liftE (adoptChecks E kcp kcpVersion machines)) (\<lambda>ok.
           if \<not> ok then returnE () else adoptLoop E kcp (mname (clMeta cluster)) machines)))"

section \<open>Scope\<close>

fun getInfraResources :: "'u kEnv \<Rightarrow> Machines \<Rightarrow> (string \<rightharpoonup> ext) \<Rightarrow> (kState, string \<rightharpoonup> ext) comp" where
  "getInfraResources E [] result = returnE result"
| "getInfraResources E (m # ms) result =
     bindE (attemptE (kGetExternal E (spInfrastructureRef (mchSpec m)) (mnamespace (mchMeta m)))) (\<lambda>r.
       case r of
         Inl e \<Rightarrow> if isNotFound e then getInfraResources E ms result
                  else failE (Wrap ''failed to retrieve infra obj for machine'' e)
       | Inr obj \<Rightarrow> getInfraResources E ms (result(mchName m \<mapsto> obj)))"

fun getKubeadmConfigs :: "'u kEnv \<Rightarrow> Machines \<Rightarrow> (string \<rightharpoonup> KubeadmConfig) \<Rightarrow> (kState, string \<rightharpoonup> KubeadmConfig) comp" where
  "getKubeadmConfigs E [] result = returnE result"
| "getKubeadmConfigs E (m # ms) result =
     (case bConfigRef (spBootstrap (mchSpec m)) of
        None \<Rightarrow> getKubeadmConfigs E ms result
      | Some ref \<Rightarrow>
          bindE (attemptE (kread E (KReadConfig (mnamespace (mchMeta m)) (refName ref)) (kConfig E))) (\<lambda>r.
            case r of
              Inl e \<Rightarrow> if isNotFound e then getKubeadmConfigs E ms result
                       else failE (Wrap ''failed to retrieve bootstrap config for machine'' e)
            | Inr cfg \<Rightarrow> getKubeadmConfigs E ms (result(mchName m \<mapsto> cfg))))"

fun newHelpers :: "'u kEnv \<Rightarrow> Machines \<Rightarrow> (string \<rightharpoonup> Machine) \<Rightarrow> (kState, string \<rightharpoonup> Machine) comp" where
  "newHelpers E [] helpers = returnE helpers"
| "newHelpers E (m # ms) helpers =
     bindE (kcall E (KHelper (mchName m))) (\<lambda>_. newHelpers E ms (helpers(mchName m \<mapsto> m)))"

text \<open>The control plane becomes the one the run works on.\<close>

definition NewControlPlane :: "'u kEnv \<Rightarrow> Cluster \<Rightarrow> KubeadmControlPlane \<Rightarrow> Machines \<Rightarrow> (kState, unit) comp" where
  "NewControlPlane E cluster kcp ownedMachines =
     bindE (getInfraResources E ownedMachines Map.empty) (\<lambda>infra.
     bindE (getKubeadmConfigs E ownedMachines Map.empty) (\<lambda>cfgs.
     bindE (newHelpers E ownedMachines Map.empty) (\<lambda>helpers.
     bindE (getsE (\<lambda>s. kNow E (kTrace s))) (\<lambda>now.
       changeCP (\<lambda>_. \<lparr>cpKCP = kcp, cpCluster = cluster, cpMachines = ownedMachines, cpHelpers = helpers, cpTime = now,
         cpConfigs = cfgs, cpInfra = infra, cpWorkload = False\<rparr>)))))"

text \<open>Whether machines were found that can be adopted; the scope is set up otherwise.\<close>

definition initControlPlaneScope :: "'u kEnv \<Rightarrow> Cluster \<Rightarrow> KubeadmControlPlane \<Rightarrow> (kState, bool) comp" where
  "initControlPlaneScope E cluster kcp =
     (if \<not> clInfrastructureReady (clStatus cluster) \<or> \<not> endpointIsValid (clControlPlaneEndpoint (clSpec cluster))
      then bindE (NewControlPlane E cluster kcp []) (\<lambda>_. returnE False)
      else
        let clusterName = mname (clMeta cluster); live = timeIsZero (mdeletionTimestamp (kcpMeta kcp)) in
        bindE (GetMachinesForCluster E False [ControlPlaneMachines (kSelectorFor E) clusterName]) (\<lambda>controlPlaneMachines.
          let adoptable = Filter controlPlaneMachines [AdoptableControlPlaneMachines (kSelectorFor E) clusterName];
              owned = Filter controlPlaneMachines
                [OwnedMachines (kGroup E) ''controlplane.cluster.x-k8s.io'' kubeadmControlPlaneKind (mname (kcpMeta kcp))]
          in if live \<and> length adoptable > 0 then
               bindE (kcpAdoptMachines E kcp adoptable cluster) (\<lambda>_. returnE True)
             else if live \<and> length owned \<noteq> length controlPlaneMachines then
               failE (Err ''not all control plane machines are owned by this KubeadmControlPlane, refusing to operate in mixed management mode'')
             else bindE (NewControlPlane E cluster kcp owned) (\<lambda>_. returnE False)))"

section \<open>Status\<close>

definition setKcpStatus :: "(KubeadmControlPlaneStatus \<Rightarrow> KubeadmControlPlaneStatus) \<Rightarrow> (kState, unit) comp" where
  "setKcpStatus f = changeKCP (\<lambda>k. k\<lparr>kcpStatus := f (kcpStatus k)\<rparr>)"

definition upToDateMachines :: "'u kEnv \<Rightarrow> (kState, Machines) comp" where
  "upToDateMachines E =
     bindE (getsE kCP) (\<lambda>c.
       let (r, cfgs) = UpToDateMachines (kDeps E) c in
       bindE (changeCP (\<lambda>c. c\<lparr>cpConfigs := cfgs\<rparr>)) (\<lambda>_. liftE r))"

text \<open>The most recent of the remediations recorded on the machines.\<close>

fun lastRemediationOf :: "'u kEnv \<Rightarrow> Machines \<Rightarrow> RemediationData option \<Rightarrow> RemediationData option res" where
  "lastRemediationOf E [] acc = Inr acc"
| "lastRemediationOf E (m # ms) acc =
     (case mlookup (mannotations (mchMeta m)) RemediationForAnnotation of
        None \<Rightarrow> lastRemediationOf E ms acc
      | Some v \<Rightarrow>
          bindR (RemediationDataFromAnnotation E v) (\<lambda>data.
            lastRemediationOf E ms
              (case acc of None \<Rightarrow> Some data | Some l \<Rightarrow> if rdTimestamp l < rdTimestamp data then Some data else acc)))"

definition lastRemediation :: "'u kEnv \<Rightarrow> ControlPlane \<Rightarrow> RemediationData option res" where
  "lastRemediation E c =
     (case mlookup (mannotations (kcpMeta (cpKCP c))) RemediationInProgressAnnotation of
        Some v \<Rightarrow> bindR (RemediationDataFromAnnotation E v) (\<lambda>data. Inr (Some data))
      | None \<Rightarrow> lastRemediationOf E (cpMachines c) None)"

definition markResized :: "'u kEnv \<Rightarrow> int \<Rightarrow> int \<Rightarrow> Machines \<Rightarrow> (kState, unit) comp" where
  "markResized E replicas desiredReplicas machines =
     (if replicas < desiredReplicas then
        markControlPlane E ResizedCondition (MFalse ScalingUpReason ConditionSeverityWarning
          ''Scaling up control plane to %d replicas (actual %d)'' [FormatInt desiredReplicas, FormatInt replicas])
      else if replicas > desiredReplicas then
        bindE (markControlPlane E ResizedCondition (MFalse ScalingDownReason ConditionSeverityWarning
          ''Scaling down control plane to %d replicas (actual %d)'' [FormatInt desiredReplicas, FormatInt replicas])) (\<lambda>_.
          markControlPlane E MachinesCreatedCondition MTrue)
      else
        bindE (if wrap32 (int (length (Filter machines [machineIsReady]))) = replicas
               then markControlPlane E ResizedCondition MTrue else returnE ()) (\<lambda>_.
          markControlPlane E MachinesCreatedCondition MTrue))"

text \<open>What the nodes of the workload cluster say.\<close>

definition updateNodeStatus :: "'u kEnv \<Rightarrow> int \<Rightarrow> (kState, unit) comp" where
  "updateNodeStatus E replicas =
     bindE (wrapE ''failed to create remote cluster client'' (GetWorkloadCluster E)) (\<lambda>_.
     bindE (workloadClusterStatus E) (\<lambda>status.
     bindE (setKcpStatus (\<lambda>st. st\<lparr>kstReadyReplicas := wsReadyNodes status, kstUnavailableReplicas := wrap32 (replicas - wsReadyNodes status)\<rparr>)) (\<lambda>_.
     bindE (if wsHasKubeadmConfig status
            then bindE (setKcpStatus (\<lambda>st. st\<lparr>kstInitialized := True\<rparr>)) (\<lambda>_. markControlPlane E AvailableCondition MTrue)
            else returnE ()) (\<lambda>_.
     bindE (if wsReadyNodes status > 0 then setKcpStatus (\<lambda>st. st\<lparr>kstReady := True\<rparr>) else returnE ()) (\<lambda>_.
     bindE (getsE kCP) (\<lambda>c.
     bindE (liftE (lastRemediation E c)) (\<lambda>last'.
       case last' of None \<Rightarrow> returnE () | Some d \<Rightarrow> setKcpStatus (\<lambda>st. st\<lparr>kstLastRemediation := Some (ToStatus d)\<rparr>))))))))"

definition kcpUpdateStatus :: "'u kEnv \<Rightarrow> (kState, unit) comp" where
  "kcpUpdateStatus E =
     bindE (getsE kCP) (\<lambda>c0.
     bindE (setKcpStatus (\<lambda>st. st\<lparr>kstSelector := kSelectorString E (mname (clMeta (cpCluster c0)))\<rparr>)) (\<lambda>_.
     bindE (wrapE ''failed to update status'' (upToDateMachines E)) (\<lambda>upToDate.
     bindE (setKcpStatus (\<lambda>st. st\<lparr>kstUpdatedReplicas := wrap32 (int (length upToDate))\<rparr>)) (\<lambda>_.
     bindE (getsE kCP) (\<lambda>c.
       let replicas = wrap32 (int (length (cpMachines c))) in
       bindE (liftE (deref ''controlPlane.KCP.Spec.Replicas'' (ksReplicas (kcpSpec (cpKCP c))))) (\<lambda>desiredReplicas.
       bindE (setKcpStatus (\<lambda>st. st\<lparr>kstReplicas := replicas, kstReadyReplicas := 0, kstUnavailableReplicas := replicas\<rparr>)) (\<lambda>_.
         if \<not> timeIsZero (mdeletionTimestamp (kcpMeta (cpKCP c))) then returnE ()
         else
           bindE (liftE (LowestVersion (kLib E) (Filter (cpMachines c) [HealthyAPIServer]))) (\<lambda>lowest.
           bindE (case lowest of None \<Rightarrow> returnE () | Some v \<Rightarrow> setKcpStatus (\<lambda>st. st\<lparr>kstVersion := Some v\<rparr>)) (\<lambda>_.
           bindE (markResized E replicas desiredReplicas (cpMachines c)) (\<lambda>_.
             updateNodeStatus E replicas))))))))))"

section \<open>Reconcile\<close>

definition patchKubeadmControlPlane :: "'u kEnv \<Rightarrow> KubeadmControlPlane \<Rightarrow> bool \<Rightarrow> (kState, unit) comp" where
  "patchKubeadmControlPlane E original observedGeneration =
     bindE (modifyE (\<lambda>s. s\<lparr>kCP := (kCP s)\<lparr>cpKCP := setKcpConditions
        (SetSummary (kNowSec E (kTrace s))
           \<lparr>gkind = kubeadmControlPlaneKind, gname = mname (kcpMeta (cpKCP (kCP s))), gconditions = kcpConditions (cpKCP (kCP s))\<rparr>
           [WithConditions [MachinesCreatedCondition, MachinesSpecUpToDateCondition, ResizedCondition, MachinesReadyCondition,
              AvailableCondition, CertificatesAvailableCondition]]) (cpKCP (kCP s))\<rparr>\<rparr>)) (\<lambda>_.
     bindE (getsE (\<lambda>s. cpKCP (kCP s))) (\<lambda>kcp. kcall E (KPatchKCP original kcp observedGeneration)))"

text \<open>The error that is returned so far, with another one added; a panic is not returned.\<close>

definition addError :: "err option \<Rightarrow> err \<Rightarrow> err" where
  "addError reterr e = Aggregate (case reterr of None \<Rightarrow> [e] | Some e0 \<Rightarrow> [e0, e])"

definition returnedError :: "ctrlResult res \<Rightarrow> err option" where
  "returnedError outcome = (case outcome of Inl e \<Rightarrow> if isPanic e then None else Some e | Inr _ \<Rightarrow> None)"

text \<open>The result after a run without an error: objects that are not ready are looked at again soon.\<close>

definition requeueUnready :: "KubeadmControlPlane \<Rightarrow> ctrlResult \<Rightarrow> ctrlResult" where
  "requeueUnready kcp res =
     (if resultIsZero res \<and> timeIsZero (mdeletionTimestamp (kcpMeta kcp)) then
        if IsFalse (kcpConditions kcp) ControlPlaneComponentsHealthyCondition then requeueIn 20
        else if \<not> kstReady (kcpStatus kcp) then requeueIn 20
        else res
      else res)"

text \<open>What is deferred: the status, the patch and the requeue. After a panic it is done too, and the panic goes on.\<close>

definition patchAndFinish :: "'u kEnv \<Rightarrow> KubeadmControlPlane \<Rightarrow> ctrlResult res \<Rightarrow> err option \<Rightarrow> (kState, ctrlResult) comp" where
  "patchAndFinish E original outcome reterr =
     bindE (attemptE (patchKubeadmControlPlane E original (reterr = None))) (\<lambda>p.
     bindE (getsE (\<lambda>s. cpKCP (kCP s))) (\<lambda>kcp.
       case (outcome, p, reterr) of
         (Inl e, Inl e', _) \<Rightarrow> failE (if isPanic e then e else addError reterr e')
       | (Inl e, Inr _, None) \<Rightarrow> failE e
       | (Inl e, Inr _, Some e') \<Rightarrow> failE (if isPanic e then e else e')
       | (Inr _, Inl e', _) \<Rightarrow> failE (addError reterr e')
       | (Inr _, Inr _, Some e') \<Rightarrow> failE e'
       | (Inr res, Inr _, None) \<Rightarrow> returnE (requeueUnready kcp res)))"

definition finishReconcile :: "'u kEnv \<Rightarrow> KubeadmControlPlane \<Rightarrow> ctrlResult res \<Rightarrow> (kState, ctrlResult) comp" where
  "finishReconcile E original outcome =
     bindE (attemptE (kcpUpdateStatus E)) (\<lambda>r.
       case r of
         Inr _ \<Rightarrow> patchAndFinish E original outcome (returnedError outcome)
       | Inl e \<Rightarrow>
           if isPanic e then failE e
           else if kConnectionError E e then patchAndFinish E original outcome (returnedError outcome)
           else patchAndFinish E original outcome (Some (addError (returnedError outcome) e)))"

definition kcpReconcileObject :: "'u kEnv \<Rightarrow> string \<Rightarrow> KubeadmControlPlane \<Rightarrow> (kState, ctrlResult) comp" where
  "kcpReconcileObject E name kcp =
     bindE (kread E (KReadOwners name) (kOwner E)) (\<lambda>owner.
       case owner of
         None \<Rightarrow> returnE emptyResult
       | Some cluster \<Rightarrow>
           if IsPaused cluster (kcpMeta kcp) then returnE emptyResult
           else
             bindE (attemptE (kcall E (KHelper name))) (\<lambda>h.
               case h of
                 Inl _ \<Rightarrow> returnE requeueNow
               | Inr _ \<Rightarrow>
                   if timeIsZero (mdeletionTimestamp (kcpMeta kcp)) \<and> KubeadmControlPlaneFinalizer \<notin> set (mfinalizers (kcpMeta kcp)) then
                     bindE (wrapE ''failed to add finalizer''
                       (kcall E (KPatchKCP kcp (setFinalizers (\<lambda>fs. fs @ [KubeadmControlPlaneFinalizer]) kcp) True))) (\<lambda>_.
                       returnE emptyResult)
                   else
                     bindE (initControlPlaneScope E cluster kcp) (\<lambda>adoptable.
                       if adoptable then returnE emptyResult
                       else
                         bindE (attemptE (if timeIsZero (mdeletionTimestamp (kcpMeta kcp)) then kcpReconcile E else kcpReconcileDelete E)) (\<lambda>r.
                           finishReconcile E kcp
                             (case r of
                                Inl e \<Rightarrow> if \<not> isPanic e \<and> kClusterLocked E e then Inr (requeueIn 60) else Inl e
                              | Inr res \<Rightarrow> Inr res)))))"

definition kcpReconcileRequest :: "'u kEnv \<Rightarrow> string \<Rightarrow> (kState, ctrlResult) comp" where
  "kcpReconcileRequest E name =
     bindE (attemptE (kread E KReadKCP (kKcpRead E))) (\<lambda>r.
       case r of
         Inl e \<Rightarrow> returnE (if isNotFound e then emptyResult else requeueNow)
       | Inr kcp \<Rightarrow> kcpReconcileObject E name kcp)"

section \<open>Rolling upgrades\<close>

text \<open>
  (C5) A step of a rolling upgrade is safe: however the API servers answer, it changes the machines at most
  once. It creates a machine only while there are fewer than the replicas and the surge
  allow, and all machines are stable; it deletes only the machine selected for the scale-down, only when that
  number is reached, and only if all other machines are stable and none is being deleted.
\<close>

theorem upgrade_safe:
  assumes "wfMachines (cpMachines (kCP s))" and "in32 (int (length (cpMachines (kCP s))))"
    and "ksRolloutStrategy (kcpSpec (cpKCP (kCP s))) = Some strategy" and "rsRollingUpdate strategy = Some (Some surge)"
    and "ksReplicas (kcpSpec (cpKCP (kCP s))) = Some n" and "in32 (kIntValue E surge)" and "in32 (n + kIntValue E surge)"
  shows "allowed kTrace (onceIf (upgradeChange E (kCP s) outdated (n + kIntValue E surge)) (kTrace s)) s
    (snd (upgradeControlPlane E outdated s))"
proof (rule onceD)
  let ?P = "upgradeChange E (kCP s) outdated (n + kIntValue E surge)" and ?l = "int (length (cpMachines (kCP s)))"
  have "onceAt ?P (bindE (upgradeWorkload E (cpKCP (kCP s))) (\<lambda>_.
         if rsType strategy \<noteq> RollingUpdateStrategyType then returnE emptyResult
         else if ?l < n + kIntValue E surge then scaleUpControlPlane E else scaleDownControlPlane E outdated)) s"
  proof (rule once_after [OF upgradeWorkload_quiet])
    fix u s1 assume r: "upgradeWorkload E (cpKCP (kCP s)) s = (Inr u, s1)"
    obtain b where s1: "kCP s1 = (kCP s)\<lparr>cpWorkload := b\<rparr>" using keepsD [OF upgradeWorkload_sameCP r] by (auto simp: sameCP_def)
    have wf: "wfMachines (cpMachines (kCP s1))" using s1 assms(1) by simp
    have "onceAt ?P (scaleUpControlPlane E) s1" if "?l < n + kIntValue E surge"
      by (rule once_mono [OF scaleUpControlPlane_once [OF wf]]) (use s1 that in \<open>simp add: upgradeChange_def\<close>)
    moreover have "onceAt ?P (scaleDownControlPlane E outdated) s1" if "\<not> ?l < n + kIntValue E surge"
      by (rule once_mono [OF scaleDownControlPlane_once [OF wf]]) (use s1 that in \<open>simp add: upgradeChange_def\<close>)
    ultimately show "onceAt ?P (if rsType strategy \<noteq> RollingUpdateStrategyType then returnE emptyResult
         else if ?l < n + kIntValue E surge then scaleUpControlPlane E else scaleDownControlPlane E outdated) s1"
      by (simp add: once_quiet kcalls.keeps_pure)
  qed
  moreover have "upgradeControlPlane E outdated s = bindE (upgradeWorkload E (cpKCP (kCP s))) (\<lambda>_.
         if rsType strategy \<noteq> RollingUpdateStrategyType then returnE emptyResult
         else if ?l < n + kIntValue E surge then scaleUpControlPlane E else scaleDownControlPlane E outdated) s"
  proof -
    obtain r1 s1 where 1: "upgradeWorkload E (cpKCP (kCP s)) s = (r1, s1)" by fastforce
    show ?thesis
      using assms(2-) unfolding upgradeControlPlane_def
      by (cases r1) (simp_all add: wrap32_id Let_def bindE_def [of "upgradeWorkload E (cpKCP (kCP s))"] 1 deref_def)
  qed
  ultimately show "onceAt ?P (upgradeControlPlane E outdated) s" by (simp add: onceAt_def keepsAt_def)
qed

definition sampleUpgradeState :: kState where
  "sampleUpgradeState = (sampleKState sampleThree)\<lparr>kCP := (kCP (sampleKState sampleThree))\<lparr>cpKCP := sampleKCP\<lparr>kcpSpec := (kcpSpec sampleKCP)\<lparr>
     ksRolloutStrategy := Some \<lparr>rsType = RollingUpdateStrategyType, rsRollingUpdate = Some (Some (IntVal 1))\<rparr>\<rparr>\<rparr>\<rparr>\<rparr>"

theorem upgrade_safe_witness:
  "allowed kTrace (onceIf (upgradeChange sampleKEnv (kCP sampleUpgradeState) sampleThree 4) []) sampleUpgradeState
    (snd (upgradeControlPlane sampleKEnv sampleThree sampleUpgradeState))"
  using upgrade_safe [of sampleUpgradeState "\<lparr>rsType = RollingUpdateStrategyType, rsRollingUpdate = Some (Some (IntVal 1))\<rparr>"
      "IntVal 1" 3 sampleKEnv sampleThree]
  by (simp add: sampleUpgradeState_def sampleKState_def sampleThree_def sampleUnhealthy_def sampleCpMachine_def wfMachines_def
      sampleKCP_def sampleKEnv_def in32_def)

section \<open>One machine at a time\<close>

text \<open>The calls that create or delete a machine.\<close>

fun machineChange :: "kCall \<Rightarrow> bool" where
  "machineChange (KDeleteMachine _) = True"
| "machineChange (KApplyMachine None _) = True"
| "machineChange _ = False"

abbreviation "calm \<equiv> allowed kTrace (\<lambda>_ c. \<not> machineChange c)"

lemma machineChange_changes: "machineChange c \<Longrightarrow> changesMachines c"
  by (cases c rule: machineChange.cases) simp_all

lemma calm_iff: "calm s s' \<longleftrightarrow> (\<exists>cs. kTrace s' = kTrace s @ cs \<and> filter machineChange cs = [])"
  by (simp add: allowed_def okFrom_set filter_empty_conv)

lemma quiet_calm: "quiet s s' \<Longrightarrow> calm s s'"
  by (erule allowed_mono) (auto dest: machineChange_changes)

lemma keeps_calm: "keeps quiet m \<Longrightarrow> keeps calm m"
  by (auto simp: keeps_def intro: quiet_calm)

definition atMostOne :: "kState \<Rightarrow> kState \<Rightarrow> bool" where
  "atMostOne s s' \<longleftrightarrow> (\<exists>cs. kTrace s' = kTrace s @ cs \<and> length (filter machineChange cs) \<le> 1)"

lemma atMostOne_calm: "calm s s' \<Longrightarrow> atMostOne s s'"
  by (auto simp: calm_iff atMostOne_def)

lemma calm_atMostOne: "calm s t \<Longrightarrow> atMostOne t v \<Longrightarrow> atMostOne s v"
  by (auto simp: calm_iff atMostOne_def)

lemma atMostOne_then_calm: "atMostOne s t \<Longrightarrow> calm t v \<Longrightarrow> atMostOne s v"
  by (auto simp: calm_iff atMostOne_def)

lemma filter_imp_length: "(\<And>x. P x \<Longrightarrow> Q x) \<Longrightarrow> length (filter P xs) \<le> length (filter Q xs)"
  by (induction xs) (auto simp: le_SucI)

lemma once_atMostOne:
  assumes "\<And>s. onceAt P m s"
  shows "keeps atMostOne m"
  unfolding keeps_def
proof (intro allI impI)
  fix s r s' assume run: "m s = (r, s')"
  have "allowed kTrace (onceIf P (kTrace s)) s s'" using onceD [OF assms, of s] run by simp
  then obtain cs where "kTrace s' = kTrace s @ cs" "length (filter changesMachines cs) \<le> 1"
    by (auto simp: allowed_def dest: onceIf_count)
  moreover have "length (filter machineChange cs) \<le> length (filter changesMachines cs)"
    by (rule filter_imp_length) (rule machineChange_changes)
  ultimately show "atMostOne s s'" unfolding atMostOne_def by (metis le_trans)
qed

lemma one_after:
  assumes "keeps calm m" and "\<And>x. keeps atMostOne (f x)"
  shows "keeps atMostOne (bindE m f)"
  unfolding keeps_def
proof (intro allI impI)
  fix s r s' assume "bindE m f s = (r, s')"
  then show "atMostOne s s'"
  proof (cases rule: bindE_cases)
    fix e assume "m s = (Inl e, s')"
    then show ?thesis by (rule atMostOne_calm [OF keepsD [OF assms(1)]])
  next
    fix x s1 assume 1: "m s = (Inr x, s1)" and 2: "f x s1 = (r, s')"
    show ?thesis by (rule calm_atMostOne [OF keepsD [OF assms(1) 1] keepsD [OF assms(2) 2]])
  qed
qed

lemma one_quiet: "keeps calm m \<Longrightarrow> keeps atMostOne m"
  by (auto simp: keeps_def intro: atMostOne_calm)

lemma one_if: "keeps atMostOne m \<Longrightarrow> keeps atMostOne m' \<Longrightarrow> keeps atMostOne (if b then m else m')"
  by simp

lemma one_return: "keeps atMostOne (returnE x)" "keeps atMostOne (failE e)"
  by (auto intro: one_quiet kcalls.keeps_pure)

lemmas one_rules = one_after one_if one_return

text \<open>The parts of the reconciliation that create or delete no machine.\<close>

lemma kGetExternal_calm: "keeps calm (kGetExternal E ref ns)"
  unfolding kGetExternal_def by (intro kc_rules; simp)

lemma reconcileExternalReference_calm: "keeps calm (reconcileExternalReference E)"
  unfolding reconcileExternalReference_def Let_def by (intro kc_rules kGetExternal_calm; simp)

lemma markControlPlane_calm: "keeps calm (markControlPlane E t k)"
  unfolding markControlPlane_def by (intro kc_rules)

lemma ensureCertificatesOwnerRef_calm: "keeps calm (ensureCertificatesOwnerRef E owner cs)"
  by (induction E owner cs rule: ensureCertificatesOwnerRef.induct) (simp_all only: ensureCertificatesOwnerRef.simps, (intro kc_rules; simp)+)

lemma reconcileClusterCertificates_calm: "keeps calm (reconcileClusterCertificates E)"
  unfolding reconcileClusterCertificates_def Let_def
  by (intro kc_rules markControlPlane_calm ensureCertificatesOwnerRef_calm; simp)

lemma reconcileKubeconfig_calm: "keeps calm (reconcileKubeconfig E)"
  unfolding reconcileKubeconfig_def adoptKubeconfigSecret_def Let_def by (intro kc_rules; simp)

lemma updateExternalObject_calm: "keeps calm (updateExternalObject E k m)"
  unfolding updateExternalObject_def by (intro kc_rules; simp)

lemma syncLoop_calm: "keeps calm (syncLoop E ms hs)"
  by (induction ms arbitrary: hs)
    (simp_all only: syncLoop.simps updateMachine_def syncInfra_def syncConfig_def case_prod_beta,
     (intro kc_rules updateExternalObject_calm; simp)+)

lemma syncMachines_calm: "keeps calm (syncMachines E)"
  unfolding syncMachines_def by (intro kc_rules syncLoop_calm)

lemma aggregateMachines_calm: "keeps calm (aggregateMachines E)"
  unfolding aggregateMachines_def by (intro kc_rules)

lemma markAs_calm: "keeps calm (markAs E n t k)"
  unfolding markAs_def by (rule keeps_calm [OF markMachine_quiet])

lemma markAll_calm: "keeps calm (markAll E n ts k)"
  by (induction ts) (simp_all only: markAll.simps, (intro kc_rules markAs_calm)+)

lemma markMachines_calm: "keeps calm (markMachines E ns ts k)"
  by (induction ns) (simp_all only: markMachines.simps, (intro kc_rules markAll_calm)+)

lemma aggregateFromMachinesToKCP_calm: "keeps calm (aggregateFromMachinesToKCP E ts errs c u v n)"
  unfolding aggregateFromMachinesToKCP_def by (intro kc_rules markControlPlane_calm)

lemma updateStaticPodCondition_calm: "keeps calm (updateStaticPodCondition E m node component t)"
  unfolding updateStaticPodCondition_def Let_def by (intro kc_rules markAs_calm; simp)

lemma updateStaticPods_calm: "keeps calm (updateStaticPods E m node comps)"
  by (induction E m node comps rule: updateStaticPods.induct)
    (simp_all only: updateStaticPods.simps, (intro kc_rules updateStaticPodCondition_calm)+)

lemma staticPodNodes_calm: "keeps calm (staticPodNodes E nodes errs)"
  by (induction nodes arbitrary: errs)
    (simp_all only: staticPodNodes.simps, (intro kc_rules markAll_calm updateStaticPods_calm)+)

lemma getControlPlaneNodes_calm: "keeps calm (getControlPlaneNodes E)"
  by (rule keeps_calm [OF getControlPlaneNodes_quiet])

lemma UpdateStaticPodConditions_calm: "keeps calm (UpdateStaticPodConditions E)"
  unfolding UpdateStaticPodConditions_def
  by (intro kc_rules getControlPlaneNodes_calm markMachines_calm markControlPlane_calm staticPodNodes_calm aggregateFromMachinesToKCP_calm)

lemma getCurrentEtcdMembers_calm: "keeps calm (getCurrentEtcdMembers E m n)"
  unfolding getCurrentEtcdMembers_def by (intro kc_rules markAs_calm; simp)

lemma etcdNodes_calm: "keeps calm (etcdNodes E nodes errs members cid)"
  by (induction nodes arbitrary: errs members cid)
    (simp_all only: etcdNodes.simps Let_def case_prod_beta, (intro kc_rules markAs_calm getCurrentEtcdMembers_calm)+)

lemma compareMachinesAndMembers_calm: "keeps calm (compareMachinesAndMembers E members errs)"
  unfolding compareMachinesAndMembers_def by (intro kc_rules markMachines_calm)

lemma UpdateEtcdConditions_calm: "keeps calm (UpdateEtcdConditions E)"
  unfolding UpdateEtcdConditions_def updateManagedEtcdConditions_def updateExternalEtcdConditions_def case_prod_beta
  by (intro kc_rules getControlPlaneNodes_calm markMachines_calm markControlPlane_calm etcdNodes_calm
      compareMachinesAndMembers_calm aggregateFromMachinesToKCP_calm)

lemma GetWorkloadCluster_calm: "keeps calm (GetWorkloadCluster E)"
  by (rule keeps_calm [OF GetWorkloadCluster_quiet])

lemma patchMachines_calm: "keeps calm (patchMachines E ms errs)"
  by (induction ms arbitrary: errs) (simp_all only: patchMachines.simps, (intro kc_rules; simp)+)

lemma reconcileControlPlaneConditions_calm: "keeps calm (reconcileControlPlaneConditions E)"
  unfolding reconcileControlPlaneConditions_def PatchMachines_def
  by (intro kc_rules GetWorkloadCluster_calm UpdateStaticPodConditions_calm UpdateEtcdConditions_calm patchMachines_calm)

lemma removeMemberForNode_calm: "keeps calm (removeMemberForNode E n)"
  unfolding removeMemberForNode_def Let_def by (intro kc_rules getControlPlaneNodes_calm; simp)

lemma memberLoop_calm: "keeps calm (memberLoop E names v ms removed errs)"
  by (induction ms arbitrary: removed errs)
    (simp_all only: memberLoop.simps RemoveNodeFromKubeadmConfigMap_def, (intro kc_rules removeMemberForNode_calm; simp)+)

lemma etcdMembersLoop_calm: "keeps calm (etcdMembersLoop E names v ns removed errs)"
  by (induction ns arbitrary: removed errs)
    (simp_all only: etcdMembersLoop.simps reconcileEtcdMember_def, (intro kc_rules memberLoop_calm; simp)+)

lemma reconcileEtcdMembers_calm: "keeps calm (reconcileEtcdMembers E)"
  unfolding reconcileEtcdMembers_def ReconcileEtcdMembers_def by (intro kc_rules GetWorkloadCluster_calm etcdMembersLoop_calm)

lemma removeHook_calm: "keeps calm (removePreTerminateHookAnnotationFromMachine E m)"
  unfolding removePreTerminateHookAnnotationFromMachine_def Let_def by (intro kc_rules; simp)

lemma leaveEtcd_calm: "keeps calm (leaveEtcd E m)"
  unfolding leaveEtcd_def RemoveEtcdMemberForMachine_def
  by (intro kc_rules GetWorkloadCluster_calm keeps_calm [OF ForwardEtcdLeadership_quiet] removeMemberForNode_calm)

lemma reconcilePreTerminateHook_calm: "keeps calm (reconcilePreTerminateHook E)"
  unfolding reconcilePreTerminateHook_def by (intro kc_rules leaveEtcd_calm removeHook_calm)

lemma expiryLoop_calm: "keeps calm (expiryLoop E ms)"
  by (induction ms) (simp_all only: expiryLoop.simps Let_def, (intro kc_rules; simp)+)

lemma reconcileAddons_calm: "keeps calm (reconcileAddons E)"
  unfolding reconcileAddons_def workloadOp_def reconcileCertificateExpiries_def
  by (intro kc_rules GetWorkloadCluster_calm expiryLoop_calm; simp)

lemma scaleUpControlPlane_one: "onceAt (\<lambda>_. True) (scaleUpControlPlane E) s"
  unfolding scaleUpControlPlane_def
  by (intro once_rules once_mono [OF createControlPlaneMachine_once]) (intro kc_rules | simp)+

lemma scaleDownControlPlane_one: "onceAt (\<lambda>_. True) (scaleDownControlPlane E outdated) s"
  unfolding scaleDownControlPlane_def
  by (intro once_rules once_attempt_then once_kcall)
    (intro kc_rules GetWorkloadCluster_quiet ForwardEtcdLeadership_quiet RemoveMachineFromKubeadmConfigMap_quiet | simp)+

lemma upgradeControlPlane_one: "onceAt (\<lambda>_. True) (upgradeControlPlane E outdated) s"
  unfolding upgradeControlPlane_def Let_def
  by (intro once_rules scaleUpControlPlane_one scaleDownControlPlane_one) (intro kc_rules upgradeWorkload_quiet)+

lemma initializeControlPlane_one: "onceAt (\<lambda>_. True) (initializeControlPlane E) s"
  unfolding initializeControlPlane_def
  by (intro once_rules once_mono [OF createControlPlaneMachine_once]) (intro kc_rules | simp)+

lemma machinesNeedingRollout_calm: "keeps calm (machinesNeedingRollout E)"
  unfolding machinesNeedingRollout_def Let_def by (intro kc_rules)

lemma reconcileRollout_one: "keeps atMostOne (reconcileRollout E)"
  unfolding reconcileRollout_def reconcileReplicas_def Let_def
  by (intro one_rules once_atMostOne [OF upgradeControlPlane_one] once_atMostOne [OF scaleUpControlPlane_one]
      once_atMostOne [OF scaleDownControlPlane_one] once_atMostOne [OF initializeControlPlane_one] one_quiet [OF reconcileAddons_calm])
    (intro kc_rules machinesNeedingRollout_calm markControlPlane_calm)+

text \<open>When remediation lets the reconciliation go on it has changed nothing.\<close>

lemma remediation_then:
  assumes "\<And>res. keeps atMostOne (f res)" and "\<And>res. \<not> resultIsZero res \<Longrightarrow> keeps calm (f res)"
  shows "keeps atMostOne (bindE (kcpReconcileUnhealthyMachines E) f)"
  unfolding keeps_def
proof (intro allI impI)
  fix s r s' assume "bindE (kcpReconcileUnhealthyMachines E) f s = (r, s')"
  then show "atMostOne s s'"
  proof (cases rule: bindE_cases)
    case (fail e)
    show ?thesis by (rule keepsD [OF once_atMostOne [OF kcpReconcileUnhealthyMachines_once] fail(1)])
  next
    case (cont res s1)
    show ?thesis
    proof (cases "resultIsZero res")
      case True
      then have "quiet s s1" using kcpReconcileUnhealthyMachines_zero [of E s] cont(1) by (simp add: zeroQuiet_def)
      then show ?thesis by (rule calm_atMostOne [OF quiet_calm keepsD [OF assms(1) cont(2)]])
    next
      case False
      have "atMostOne s s1" by (rule keepsD [OF once_atMostOne [OF kcpReconcileUnhealthyMachines_once] cont(1)])
      then show ?thesis by (rule atMostOne_then_calm [OF _ keepsD [OF assms(2) [OF False] cont(2)]])
    qed
  qed
qed

lemma kcpReconcile_one: "keeps atMostOne (kcpReconcile E)"
  unfolding kcpReconcile_def
  by (intro one_rules remediation_then reconcileRollout_one)
    (intro kc_rules reconcileExternalReference_calm reconcileClusterCertificates_calm reconcileKubeconfig_calm syncMachines_calm
       aggregateMachines_calm reconcileControlPlaneConditions_calm reconcileEtcdMembers_calm reconcilePreTerminateHook_calm | simp add: kcalls.keeps_pure)+

lemma adoptSecretsLoop_calm: "keeps calm (adoptSecretsLoop E kcp owner ss)"
  by (induction ss) (simp_all only: adoptSecretsLoop.simps, (intro kc_rules; simp)+)

lemma adoptLoop_calm: "keeps calm (adoptLoop E kcp n ms)"
  by (induction ms) (simp_all only: adoptLoop.simps adoptOwnedSecrets_def, (intro kc_rules adoptSecretsLoop_calm; simp)+)

lemma kcpAdoptMachines_calm: "keeps calm (kcpAdoptMachines E kcp ms cluster)"
  unfolding kcpAdoptMachines_def by (intro kc_rules adoptLoop_calm; simp)

lemma getInfraResources_calm: "keeps calm (getInfraResources E ms acc)"
  by (induction ms arbitrary: acc) (simp_all only: getInfraResources.simps, (intro kc_rules kGetExternal_calm)+)

lemma getKubeadmConfigs_calm: "keeps calm (getKubeadmConfigs E ms acc)"
  by (induction ms arbitrary: acc) (simp_all only: getKubeadmConfigs.simps, (intro kc_rules; simp)+)

lemma newHelpers_calm: "keeps calm (newHelpers E ms acc)"
  by (induction ms arbitrary: acc) (simp_all only: newHelpers.simps, (intro kc_rules; simp)+)

lemma initControlPlaneScope_calm: "keeps calm (initControlPlaneScope E cluster kcp)"
  unfolding initControlPlaneScope_def NewControlPlane_def GetMachinesForCluster_def Let_def
  by (intro kc_rules getInfraResources_calm getKubeadmConfigs_calm newHelpers_calm kcpAdoptMachines_calm; simp)

lemma markResized_calm: "keeps calm (markResized E r d ms)"
  unfolding markResized_def by (intro kc_rules markControlPlane_calm)

lemma setKcpStatus_calm: "keeps calm (setKcpStatus f)"
  unfolding setKcpStatus_def by (intro kc_rules)

lemma workloadClusterStatus_calm: "keeps calm (workloadClusterStatus E)"
  unfolding workloadClusterStatus_def Let_def case_prod_beta by (intro kc_rules getControlPlaneNodes_calm; simp)

lemma kcpUpdateStatus_calm: "keeps calm (kcpUpdateStatus E)"
  unfolding kcpUpdateStatus_def updateNodeStatus_def upToDateMachines_def Let_def
  by (intro kc_rules setKcpStatus_calm markResized_calm GetWorkloadCluster_calm workloadClusterStatus_calm markControlPlane_calm)

lemma patchKubeadmControlPlane_calm: "keeps calm (patchKubeadmControlPlane E original b)"
  unfolding patchKubeadmControlPlane_def by (intro kc_rules kcalls.keeps_modifyE; simp add: allowed_def)

lemma patchAndFinish_calm: "keeps calm (patchAndFinish E original outcome reterr)"
  unfolding patchAndFinish_def by (intro kc_rules patchKubeadmControlPlane_calm)

lemma finishReconcile_calm: "keeps calm (finishReconcile E original outcome)"
  unfolding finishReconcile_def by (intro kc_rules kcpUpdateStatus_calm patchAndFinish_calm)

lemma one_attempt_then:
  assumes "keeps atMostOne m" and "\<And>r. keeps calm (f r)"
  shows "keeps atMostOne (bindE (attemptE m) f)"
  unfolding keeps_def
proof (intro allI impI)
  fix s r s' assume run: "bindE (attemptE m) f s = (r, s')"
  obtain r1 s1 where 1: "m s = (r1, s1)" by fastforce
  with run have "f r1 s1 = (r, s')" by simp
  then show "atMostOne s s'" using keepsD [OF assms(1) 1] keepsD [OF assms(2)] by (blast intro: atMostOne_then_calm)
qed

lemma one_option: "(x = None \<Longrightarrow> keeps atMostOne m) \<Longrightarrow> (\<And>v. x = Some v \<Longrightarrow> keeps atMostOne (f v)) \<Longrightarrow>
    keeps atMostOne (case x of None \<Rightarrow> m | Some v \<Rightarrow> f v)"
  by (cases x) simp_all

lemma one_sum: "(\<And>e. x = Inl e \<Longrightarrow> keeps atMostOne (g e)) \<Longrightarrow> (\<And>v. x = Inr v \<Longrightarrow> keeps atMostOne (f v)) \<Longrightarrow>
    keeps atMostOne (case x of Inl e \<Rightarrow> g e | Inr v \<Rightarrow> f v)"
  by (cases x) simp_all

lemma kcpReconcileObject_one:
  assumes "timeIsZero (mdeletionTimestamp (kcpMeta kcp))"
  shows "keeps atMostOne (kcpReconcileObject E name kcp)"
  unfolding kcpReconcileObject_def if_P [OF assms]
  by (intro one_rules one_option one_sum one_attempt_then kcpReconcile_one)
    (intro kc_rules initControlPlaneScope_calm finishReconcile_calm; simp)+

text \<open>
  (C4) One machine at a time: reconciling a control plane that is not being deleted creates or deletes at most one
  machine, whatever the API servers answer and wherever the run stops.
\<close>

theorem reconcile_one_change:
  assumes "timeIsZero (mdeletionTimestamp (kcpMeta (kKcpRead E (kTrace s @ [KReadKCP]))))"
  shows "\<exists>cs. kTrace (snd (kcpReconcileRequest E name s)) = kTrace s @ cs \<and> length (filter machineChange cs) \<le> 1"
proof -
  obtain r s1 where 1: "kcall E KReadKCP s = (r, s1)" by fastforce
  note s1 = kcall_state [OF 1]
  have live: "timeIsZero (mdeletionTimestamp (kcpMeta (kKcpRead E (kTrace s1))))" using assms s1 by simp
  have "atMostOne s1 (snd (kcpReconcileObject E name (kKcpRead E (kTrace s1)) s1))"
    by (rule keepsD [OF kcpReconcileObject_one [OF live]]) (rule surjective_pairing)
  moreover have "kcpReconcileRequest E name s = (case r of Inl e \<Rightarrow> (Inr (if isNotFound e then emptyResult else requeueNow), s1)
      | Inr _ \<Rightarrow> kcpReconcileObject E name (kKcpRead E (kTrace s1)) s1)"
    by (cases r) (simp_all add: kcpReconcileRequest_def kread_def bindE_def [of "kcall E KReadKCP"] 1)
  ultimately have "atMostOne s1 (snd (kcpReconcileRequest E name s))"
    by (cases r) (simp_all add: atMostOne_def)
  with s1 have "atMostOne s (snd (kcpReconcileRequest E name s))" by (auto simp: atMostOne_def)
  then show ?thesis by (simp add: atMostOne_def)
qed

definition sampleEmptyEnv :: "string kEnv" where
  "sampleEmptyEnv = sampleKEnv\<lparr>kKcpRead := \<lambda>_. setFinalizers (\<lambda>_. [KubeadmControlPlaneFinalizer]) sampleKCP,
     kOwner := \<lambda>_. Some (sampleCluster\<lparr>clSpec := (clSpec sampleCluster)\<lparr>clControlPlaneEndpoint := \<lparr>epHost = ''h'', epPort = 6443\<rparr>\<rparr>\<rparr>)\<rparr>"

theorem reconcile_one_change_witness:
  "length (filter machineChange (kTrace (snd (kcpReconcileRequest sampleEmptyEnv ''kcp'' (sampleKState []))))) \<le> 1"
proof -
  have "timeIsZero (mdeletionTimestamp (kcpMeta (kKcpRead sampleEmptyEnv (kTrace (sampleKState []) @ [KReadKCP]))))"
    by (simp add: sampleEmptyEnv_def setFinalizers_def sampleKCP_def emptyMeta_def timeIsZero_def)
  from reconcile_one_change [OF this, of "''kcp''"] show ?thesis by (auto simp: sampleKState_def)
qed

section \<open>A machine that is being deleted\<close>

text \<open>Steps that keep the names of the machines, and that undelete none.\<close>

definition stays :: "kState \<Rightarrow> kState \<Rightarrow> bool" where
  "stays s s' \<longleftrightarrow> (wfMachines (cpMachines (kCP s)) \<longrightarrow>
     list_all2 (\<lambda>m m'. mchName m' = mchName m \<and> (HasDeletionTimestamp m \<longrightarrow> HasDeletionTimestamp m'))
       (cpMachines (kCP s)) (cpMachines (kCP s')))"

lemma stays_names:
  assumes l: "list_all2 (\<lambda>m m'. mchName m' = mchName m \<and> (HasDeletionTimestamp m \<longrightarrow> HasDeletionTimestamp m')) xs ys"
    and wf: "wfMachines xs"
  shows "wfMachines ys"
proof -
  from l have "map (\<lambda>m. mchName m) ys = map (\<lambda>m. mchName m) xs" by (induction rule: list_all2_induct) simp_all
  with wf show ?thesis by (simp only: wfMachines_def)
qed

interpretation staying: state_relation stays
proof
  show "stays s s" for s by (simp add: stays_def list_all2_refl)
  show "stays s v" if 1: "stays s t" and 2: "stays t v" for s t v
    unfolding stays_def
  proof
    assume wf: "wfMachines (cpMachines (kCP s))"
    let ?R = "\<lambda>m m'. mchName m' = mchName m \<and> (HasDeletionTimestamp m \<longrightarrow> HasDeletionTimestamp m')"
    have st: "list_all2 ?R (cpMachines (kCP s)) (cpMachines (kCP t))" using 1 wf by (simp add: stays_def)
    have tv: "list_all2 ?R (cpMachines (kCP t)) (cpMachines (kCP v))" using 2 stays_names [OF st wf] by (simp add: stays_def)
    show "list_all2 ?R (cpMachines (kCP s)) (cpMachines (kCP v))" by (rule list_all2_trans [OF _ st tv]) auto
  qed
qed

lemma stays_same: "cpMachines (kCP s') = cpMachines (kCP s) \<Longrightarrow> stays s s'"
  by (simp add: stays_def list_all2_refl)

lemma kcall_stays: "keeps stays (kcall E c)"
  unfolding keeps_def by (auto intro!: stays_same dest!: kcall_state)

lemma kread_stays: "keeps stays (kread E c answer)"
  unfolding kread_def by (intro staying.keeps_rules kcall_stays)

lemma changeKCP_stays: "keeps stays (changeKCP f)"
  unfolding changeKCP_def changeCP_def by (intro staying.keeps_modifyE stays_same) simp

lemma changeCP_stays: "(\<And>c. cpMachines (f c) = cpMachines c) \<Longrightarrow> keeps stays (changeCP f)"
  unfolding changeCP_def by (intro staying.keeps_modifyE stays_same) simp

lemma markKCP_stays: "keeps stays (markKCP E f)"
  unfolding markKCP_def by (intro staying.keeps_rules changeKCP_stays)

lemma markMachine_stays: "keeps stays (markMachine E n f)"
  unfolding keeps_def
proof (intro allI impI)
  fix s r s' assume run: "markMachine E n f s = (r, s')"
  show "stays s s'"
  proof (cases "currentMachine n s")
    case None
    with run show ?thesis by (simp add: markMachine_def staying.rel_refl)
  next
    case (Some x)
    let ?x = "setMachineConditions (f (kNowSec E (kTrace s)) (mchConditions x)) x"
    have s': "cpMachines (kCP s') = putMachine ?x (cpMachines (kCP s))"
      using run Some by (auto simp: markMachine_def storeMachine_def changeCP_def)
    have x: "x \<in> set (cpMachines (kCP s))" using Some by (auto simp: currentMachine_def find_Some_iff)
    show ?thesis
      unfolding stays_def s'
    proof
      assume "wfMachines (cpMachines (kCP s))"
      then have "putMachine ?x (cpMachines (kCP s)) = map (\<lambda>y. if y = x then ?x else y) (cpMachines (kCP s))"
        using x by (intro putMachine_eq) (simp_all add: setMachineConditions_def)
      then show "list_all2 (\<lambda>m m'. mchName m' = mchName m \<and> (HasDeletionTimestamp m \<longrightarrow> HasDeletionTimestamp m'))
          (cpMachines (kCP s)) (putMachine ?x (cpMachines (kCP s)))"
        by (auto simp: list_all2_conv_all_nth setMachineConditions_def HasDeletionTimestamp_def)
    qed
  qed
qed

lemmas stay_rules = staying.keeps_rules kcall_stays kread_stays changeKCP_stays markKCP_stays markMachine_stays

text \<open>What is relied on: the API server answers about the machine it is asked about.\<close>

definition namesKept :: "'u kEnv \<Rightarrow> bool" where
  "namesKept E \<longleftrightarrow> (\<forall>cs m. mchName (kApplied E cs m) = mchName m) \<and> (\<forall>cs m. mchName (kCleaned E cs m) = mchName m) \<and>
     (\<forall>cs m. mchName (kPatched E cs m) = mchName m)"

lemma updateMachine_name:
  assumes "namesKept E" and "updateMachine E m s = (Inr updated, s')"
  shows "mchName updated = mchName m"
proof -
  obtain d s1 where d: "kcpComputeDesiredMachine E (kName E (kTrace s)) (cpKCP (kCP s)) (cpCluster (kCP s)) (spFailureDomain (mchSpec m)) (Some m) = Inr d"
    and r: "kread E (KApplyMachine (Some m) d) (\<lambda>cs. kApplied E cs d) s = (Inr updated, s')"
    using assms(2) unfolding updateMachine_def by (auto simp: wrapE_Inr wrapE_liftE elim!: bindE_Inr)
      (auto simp: wrapR_def wrapE_Inr split: sum.splits)
  have "mchName d = mchName m" using d by (auto simp: kcpComputeDesiredMachine_def bindR_def Let_def)
  with kread_Inr [OF r] assms(1) show ?thesis by (simp add: namesKept_def)
qed

lemma setMachineAt_stays:
  assumes "wfMachines ms" and "m \<in> set ms" and "\<not> HasDeletionTimestamp m" and "mchName m' = mchName m"
  shows "list_all2 (\<lambda>m m'. mchName m' = mchName m \<and> (HasDeletionTimestamp m \<longrightarrow> HasDeletionTimestamp m')) ms (setMachineAt (mchName m) m' ms)"
    and "x \<in> set ms \<Longrightarrow> mchName x \<noteq> mchName m \<Longrightarrow> x \<in> set (setMachineAt (mchName m) m' ms)"
proof -
  have "x = m" if "x \<in> set ms" "mchName x = mchName m" for x
    using assms(1,2) that by (auto simp: wfMachines_def distinct_map inj_on_def)
  with assms(3,4) show "list_all2 (\<lambda>m m'. mchName m' = mchName m \<and> (HasDeletionTimestamp m \<longrightarrow> HasDeletionTimestamp m')) ms
      (setMachineAt (mchName m) m' ms)"
    by (auto simp: setMachineAt_def list_all2_map2 list_all2_same)
  show "x \<in> set ms \<Longrightarrow> mchName x \<noteq> mchName m \<Longrightarrow> x \<in> set (setMachineAt (mchName m) m' ms)"
    by (force simp: setMachineAt_def image_iff)
qed

lemma updateMachine_stays: "keeps stays (updateMachine E m)"
  unfolding updateMachine_def case_prod_beta by (intro stay_rules)

lemma updateMachine_machines: "updateMachine E m s = (r, s') \<Longrightarrow> cpMachines (kCP s') = cpMachines (kCP s)"
proof -
  have "keeps sameBasis (updateMachine E m)"
    unfolding updateMachine_def case_prod_beta by (intro basis_rules)
  then show "updateMachine E m s = (r, s') \<Longrightarrow> ?thesis" by (auto simp: keeps_def sameBasis_def)
qed

lemma updateExternalObject_basis: "keeps sameBasis (updateExternalObject E k meta)"
  unfolding updateExternalObject_def by (intro basis_rules)

lemma changeCP_basis: "(\<And>c. cpMachines (f c) = cpMachines c) \<Longrightarrow> (\<And>c. cpKCP (f c) = cpKCP c) \<Longrightarrow> keeps sameBasis (changeCP f)"
  unfolding changeCP_def by (intro basis.keeps_modifyE) (simp add: sameBasis_def)

lemma syncInfra_basis: "keeps sameBasis (syncInfra E n)"
  unfolding syncInfra_def by (intro basis_rules updateExternalObject_basis changeCP_basis; simp)

lemma syncConfig_basis: "keeps sameBasis (syncConfig E n m)"
  unfolding syncConfig_def by (intro basis_rules updateExternalObject_basis changeCP_basis; simp)

lemma keeps_mono: "keeps R m \<Longrightarrow> (\<And>s s'. R s s' \<Longrightarrow> Q s s') \<Longrightarrow> keeps Q m"
  by (auto simp: keeps_def)

lemma basis_stays: "sameBasis s s' \<Longrightarrow> stays s s'"
  by (simp add: sameBasis_def stays_same)

lemma syncLoop_stays:
  assumes "namesKept E" and "wfMachines (cpMachines (kCP s))" and "set ms \<subseteq> set (cpMachines (kCP s))" and "wfMachines ms"
  shows "keepsAt stays (syncLoop E ms hs) s"
  using assms(2-)
proof (induction ms arbitrary: hs s)
  case Nil
  then show ?case by (simp add: keepsAt_def staying.rel_refl)
next
  case (Cons m ms)
  note prems = Cons.prems
  have wf: "wfMachines ms" and m: "m \<in> set (cpMachines (kCP s))" and others: "\<forall>x \<in> set ms. mchName x \<noteq> mchName m"
    using prems by (force simp: wfMachines_def image_iff)+
  show ?case
  proof (cases "timeIsZero (mdeletionTimestamp (mchMeta m))")
    case False
    with Cons wf show ?thesis by simp
  next
    case True
    have rest: "keepsAt stays (bindE (kcall E (KHelper (mchName u))) (\<lambda>_. bindE (syncInfra E (mchName m)) (\<lambda>_.
        bindE (syncConfig E (mchName m) m') (\<lambda>_. syncLoop E ms hs')))) t"
      if t: "wfMachines (cpMachines (kCP t))" "set ms \<subseteq> set (cpMachines (kCP t))" for u m' hs' t
    proof -
      have "keepsAt stays (syncLoop E ms hs') t'" if "sameBasis t t'" for t'
        by (rule Cons.IH) (use t wf that in \<open>simp_all add: sameBasis_def\<close>)
      then show ?thesis
        by (intro staying.keepsAt_bindE keeps_at [OF keeps_mono [OF kcall_basis basis_stays]]
            keeps_at [OF keeps_mono [OF syncInfra_basis basis_stays]] keeps_at [OF keeps_mono [OF syncConfig_basis basis_stays]])
          (assumption | drule keepsD [OF kcall_basis], drule keepsD [OF syncInfra_basis], drule keepsD [OF syncConfig_basis],
            simp add: sameBasis_def)+
    qed
    have "keepsAt stays (bindE (wrapE w (kread E (KCleanFields (mchName m)) (\<lambda>cs. kCleaned E cs m))) (\<lambda>m'.
        bindE (wrapE w' (updateMachine E m')) (\<lambda>u.
        bindE (changeCP (\<lambda>c. c\<lparr>cpMachines := setMachineAt (mchName m) u (cpMachines c)\<rparr>)) (\<lambda>_.
        bindE (kcall E (KHelper (mchName u))) (\<lambda>_. bindE (syncInfra E (mchName m)) (\<lambda>_.
        bindE (syncConfig E (mchName m) m') (\<lambda>_. syncLoop E ms (hs(mchName m \<mapsto> u))))))))) s" for w w'
    proof (rule staying.keepsAt_bindE, goal_cases)
      case 1
      show ?case by (rule keeps_at) (intro stay_rules)
    next
      case (2 m' s1)
      note k = kread_Inr [OF 2 [unfolded wrapE_Inr]]
      show ?case
      proof (rule staying.keepsAt_bindE, goal_cases)
        case 1
        show ?case by (rule keeps_at) (intro stay_rules updateMachine_stays)
      next
        case (2 u s2)
        have u: "mchName u = mchName m" using updateMachine_name [OF assms(1) 2 [unfolded wrapE_Inr]] k(2) assms(1) by (simp add: namesKept_def)
        have ms: "cpMachines (kCP s2) = cpMachines (kCP s)" using updateMachine_machines [OF 2 [unfolded wrapE_Inr]] k(1) by simp
        have nd: "\<not> HasDeletionTimestamp m" using True by (simp add: HasDeletionTimestamp_def)
        note at = setMachineAt_stays [OF prems(1) m nd u]
        show ?case
        proof (rule staying.keepsAt_bindE, goal_cases)
          case 1
          show ?case using at(1) ms by (simp add: keepsAt_def changeCP_def stays_def)
        next
          case (2 x s3)
          then have s3: "cpMachines (kCP s3) = setMachineAt (mchName m) u (cpMachines (kCP s))" using ms by (auto simp: changeCP_def)
          show ?case
          proof (rule rest)
            show "wfMachines (cpMachines (kCP s3))" using stays_names [OF at(1) prems(1)] s3 by simp
            show "set ms \<subseteq> set (cpMachines (kCP s3))" using at(2) others prems(2) s3 by auto
          qed
        qed
      qed
    qed
    with True show ?thesis by simp
  qed
qed

end
