(* ===== verification/KvTypes.thy ===== *)
theory KvTypes
  imports External GoTime
begin

text \<open>
  The KubeVirt infrastructure provider (\<open>src/cluster-api-provider-kubevirt\<close>): its objects
  (\<open>api/v1alpha1/kubevirtmachine_types.go\<close>, \<open>api/v1alpha1/kubevirtcluster_types.go\<close>), the objects of
  KubeVirt it works on, with the fields the code reads or writes, and the calls it makes.

  Three API servers are involved: the management cluster, the infrastructure cluster on which the virtual
  machines run (the management cluster itself, or an external one named by a secret), and the workload
  cluster. A call is recorded with the server it goes to; the environment answers, knowing all calls made
  before. Methods of the KubeVirt types, YAML and the reading of kubeconfigs belong to libraries and are
  part of the environment.
\<close>

section \<open>KubeVirt objects\<close>

record kvCondition =
  kcType :: string
  kcStatus :: string
  kcReason :: string
  kcMessage :: string

record Volume =
  volName :: string
  volClaim :: "string option"
  volDataVolume :: "string option"
  volUserDataSecret :: "string option"
  volRest :: string

record Disk =
  dkName :: string
  dkBus :: string
  dkRest :: string

record VMISpec =
  vspVolumes :: "Volume list"
  vspDisks :: "Disk list"
  vspEvictionStrategy :: "string option"
  vspRest :: string

record VMITemplate =
  vtLabels :: "strmap option"
  vtAnnotations :: "strmap option"
  vtSpec :: VMISpec

record DataVolumeTemplate =
  dvtName :: string
  dvtRest :: string

record VMSpec =
  vmsRunStrategy :: "string option"
  vmsTemplate :: "VMITemplate option"
  vmsDataVolumeTemplates :: "DataVolumeTemplate list"
  vmsRest :: string

record VirtualMachine =
  vmMeta :: ObjMeta
  vmSpec :: VMSpec
  vmPrintableStatus :: string
  vmConditions :: "kvCondition list"

record VMI =
  vmiMeta :: ObjMeta
  vmiSpec :: VMISpec
  vmiPhase :: string
  vmiEvacuationNodeName :: string
  vmiConditions :: "kvCondition list"
  vmiInterfaces :: "string list"

record DataVolume =
  dvName :: string
  dvPhase :: string
  dvConditions :: "kvCondition list"

section \<open>Objects of the provider\<close>

record VirtualMachineTemplateSpec =
  vtsNamespace :: string
  vtsLabels :: "strmap option"
  vtsAnnotations :: "strmap option"
  vtsSpec :: VMSpec

record KubevirtMachineSpec =
  kvmTemplate :: VirtualMachineTemplateSpec
  kvmProviderID :: "string option"
  kvmCheckStrategy :: string
  kvmInfraClusterSecretRef :: "ObjectReference option"

record KubevirtMachineStatus =
  kvmReady :: bool
  kvmLoadBalancerConfigured :: bool
  kvmAddresses :: "(string \<times> string) list"
  kvmConditions :: "Condition list"
  kvmNodeUpdated :: bool
  kvmFailureReason :: "string option"
  kvmFailureMessage :: "string option"

record KubevirtMachine =
  kvmMeta :: ObjMeta
  kvmSpec :: KubevirtMachineSpec
  kvmStatus :: KubevirtMachineStatus

abbreviation "kvmName k \<equiv> mname (kvmMeta k)"

definition setKvmConditions :: "Condition list \<Rightarrow> KubevirtMachine \<Rightarrow> KubevirtMachine" where
  "setKvmConditions cs k = k\<lparr>kvmStatus := (kvmStatus k)\<lparr>kvmConditions := cs\<rparr>\<rparr>"

interpretation kubevirtmachine_conditions: condition_object "\<lambda>k. kvmConditions (kvmStatus k)" setKvmConditions
  by unfold_locales (simp_all add: setKvmConditions_def)

record SSHKeys =
  skConfigRef :: "ObjectReference option"
  skDataSecretName :: "string option"

record ControlPlaneServiceTemplate =
  cstNamespace :: string
  cstLabels :: "strmap option"
  cstAnnotations :: "strmap option"
  cstType :: string

record KubevirtClusterSpec =
  kvcControlPlaneEndpoint :: APIEndpoint
  kvcServiceTemplate :: ControlPlaneServiceTemplate
  kvcSshKeys :: SSHKeys
  kvcInfraClusterSecretRef :: "ObjectReference option"

record KubevirtClusterStatus =
  kvcReady :: bool
  kvcFailureDomains :: FailureDomains
  kvcConditions :: "Condition list"

record KubevirtCluster =
  kvcAPIVersion :: string
  kvcKind :: string
  kvcMeta :: ObjMeta
  kvcSpec :: KubevirtClusterSpec
  kvcStatus :: KubevirtClusterStatus

definition setKvcConditions :: "Condition list \<Rightarrow> KubevirtCluster \<Rightarrow> KubevirtCluster" where
  "setKvcConditions cs k = k\<lparr>kvcStatus := (kvcStatus k)\<lparr>kvcConditions := cs\<rparr>\<rparr>"

interpretation kubevirtcluster_conditions: condition_object "\<lambda>k. kvcConditions (kvcStatus k)" setKvcConditions
  by unfold_locales (simp_all add: setKvcConditions_def)

record KvSecret =
  seAPIVersion :: string
  seKind :: string
  seMeta :: ObjMeta
  seType :: string
  seData :: "strmap option"

record KvService =
  svMeta :: ObjMeta
  svType :: string
  svPort :: int
  svSelector :: "strmap option"
  svClusterIP :: string
  svIngress :: "string list"

text \<open>YAML documents as the library's nodes.\<close>

datatype yamlKind = DocumentNode | SequenceNode | MappingNode | ScalarNode | AliasNode

datatype yamlNode = YamlNode (yKind: yamlKind) (yValue: string) (yHead: string) (yContent: "yamlNode list")

section \<open>Names\<close>

definition MachineFinalizer :: string where
  "MachineFinalizer = ''kubevirtmachine.infrastructure.cluster.x-k8s.io''"
definition ClusterFinalizer :: string where
  "ClusterFinalizer = ''kubevirtcluster.infrastructure.cluster.x-k8s.io''"
definition KubevirtMachineNameLabel :: string where
  "KubevirtMachineNameLabel = ''capk.cluster.x-k8s.io/kubevirt-machine-name''"
definition KubevirtMachineNamespaceLabel :: string where
  "KubevirtMachineNamespaceLabel = ''capk.cluster.x-k8s.io/kubevirt-machine-namespace''"
definition KubevirtMachineVMTerminalLabel :: string where
  "KubevirtMachineVMTerminalLabel = ''capk.cluster.x-k8s.io/vm-is-terminal''"
definition VmiDeletionGraceTime :: string where
  "VmiDeletionGraceTime = ''capk.cluster.x-k8s.io/vmi-deletion-grace-time''"

abbreviation "VMProvisionedCondition \<equiv> ''VMProvisioned''"
abbreviation "WaitingForClusterInfrastructureReason \<equiv> ''WaitingForClusterInfrastructure''"
abbreviation "WaitingForBootstrapDataReason \<equiv> ''WaitingForBootstrapData''"
abbreviation "WaitingForControlPlaneAvailableReason \<equiv> ''WaitingForControlPlaneAvailable''"
abbreviation "VMCreateFailedReason \<equiv> ''VMCreateFailed''"
abbreviation "VMLiveMigratableCondition \<equiv> ''VMLiveMigratable''"
abbreviation "BootstrapExecSucceededCondition \<equiv> ''BootstrapExecSucceeded''"
abbreviation "BootstrapFailedReason \<equiv> ''BootstrapFailed''"
abbreviation "LoadBalancerAvailableCondition \<equiv> ''LoadBalancerAvailable''"
abbreviation "LoadBalancerProvisioningFailedReason \<equiv> ''LoadBalancerProvisioningFailed''"
abbreviation "kvClusterSecretType \<equiv> ''cluster.x-k8s.io/secret''"

section \<open>Calls and environment\<close>

text \<open>The infrastructure cluster: the management cluster, or the one the secret of a reference leads to.\<close>

datatype infra = Internal | External ObjectReference

datatype vCall =
    VGetKubevirtMachine
  | VGetKubevirtCluster string string
  | VGetMachine string string
  | VGetCluster string string
  | VListMachines string string
  | VGetSecret string string
  | VHelper string
  | VPatchKubevirtMachine KubevirtMachine KubevirtMachine
  | VPatchKubevirtCluster KubevirtCluster KubevirtCluster
  | VApplySshSecret KvSecret
  | VGenerateKeys
  | VInfraClient ObjectReference
  | VGetVMI infra string string
  | VGetVM infra string string
  | VGetDataVolume infra string string
  | VApplyVM infra VirtualMachine
  | VDeleteVM infra VirtualMachine
  | VDeleteVMI infra VMI
  | VAnnotateMachine infra KubevirtMachine "string option"
  | VGetInfraSecret infra string string
  | VApplyInfraSecret infra KvSecret
  | VDeleteInfraSecret infra KvSecret
  | VGetService infra string string
  | VApplyService infra KvService
  | VDeleteService infra KvService
  | VListExtra string string string
  | VDeleteExtra string string
  | VWorkloadClient
  | VGetNode string
  | VCordon string
  | VDrain string bool
  | VPatchNode string string
  | VRunCommand string

record vEnv =
  vOutcome :: "vCall list \<Rightarrow> vCall \<Rightarrow> err option"
  vNow :: "vCall list \<Rightarrow> int"
  vKubevirtMachine :: "vCall list \<Rightarrow> KubevirtMachine"
  vKubevirtCluster :: "vCall list \<Rightarrow> KubevirtCluster"
  vMachine :: "vCall list \<Rightarrow> Machine"
  vMachines :: "vCall list \<Rightarrow> Machine list"
  vCluster :: "vCall list \<Rightarrow> Cluster"
  vSecret :: "vCall list \<Rightarrow> KvSecret"
  vVMI :: "vCall list \<Rightarrow> VMI"
  vVM :: "vCall list \<Rightarrow> VirtualMachine"
  vDataVolume :: "vCall list \<Rightarrow> DataVolume"
  vService :: "vCall list \<Rightarrow> KvService"
  vExtra :: "vCall list \<Rightarrow> string list"
  vNode :: "vCall list \<Rightarrow> Node"
  vCommandOutput :: "vCall list \<Rightarrow> string"
  vKeys :: "vCall list \<Rightarrow> string \<times> string"
  vAnnotated :: "vCall list \<Rightarrow> KubevirtMachine \<Rightarrow> KubevirtMachine"
  vGroup :: "string \<Rightarrow> string res"
  vIsFinal :: "VMI \<Rightarrow> bool"
  vIsMigratable :: "VMI \<Rightarrow> bool"
  vRunStrategy :: "VirtualMachine \<Rightarrow> string res"
  vConfigNamespace :: "string \<Rightarrow> string res"
  vConfigValid :: "string \<Rightarrow> unit res"
  vUnmarshal :: "string \<Rightarrow> yamlNode res"
  vMarshal :: "yamlNode \<Rightarrow> string res"
  vErrText :: "err \<Rightarrow> string"

text \<open>What every controller of the provider has: the calls made so far.\<close>

record vBase =
  vTrace :: "vCall list"

definition vNowSec :: "vEnv \<Rightarrow> vCall list \<Rightarrow> time" where
  "vNowSec E cs = vNow E cs div 1000000000"

definition vcall :: "vEnv \<Rightarrow> vCall \<Rightarrow> ('x vBase_scheme, unit) comp" where
  "vcall E c s =
     (case vOutcome E (vTrace s) c of
        None \<Rightarrow> (Inr (), s\<lparr>vTrace := vTrace s @ [c]\<rparr>)
      | Some e \<Rightarrow> (Inl e, s\<lparr>vTrace := vTrace s @ [c]\<rparr>))"

definition vread :: "vEnv \<Rightarrow> vCall \<Rightarrow> (vCall list \<Rightarrow> 'a) \<Rightarrow> ('x vBase_scheme, 'a) comp" where
  "vread E c answer = bindE (vcall E c) (\<lambda>_. getsE (\<lambda>s. answer (vTrace s)))"

text \<open>A read after which a missing object is not an error.\<close>

definition vfind :: "vEnv \<Rightarrow> vCall \<Rightarrow> (vCall list \<Rightarrow> 'a) \<Rightarrow> ('x vBase_scheme, 'a option) comp" where
  "vfind E c answer =
     bindE (attemptE (vread E c answer)) (\<lambda>r.
       case r of Inl e \<Rightarrow> if isNotFound e then returnE None else failE e | Inr x \<Rightarrow> returnE (Some x))"

text \<open>
  \<open>controllerutil.CreateOrUpdate\<close>: the object is read, the mutation is applied to what the server has,
  or to the given object where it has none, and the result is written. A write of what was read changes
  nothing and stands for the update that is left out.
\<close>

definition createOrUpdate ::
  "vEnv \<Rightarrow> vCall \<Rightarrow> (vCall list \<Rightarrow> 'o) \<Rightarrow> ('o option \<Rightarrow> ('x vBase_scheme, 'o) comp) \<Rightarrow> ('o \<Rightarrow> vCall) \<Rightarrow> ('x vBase_scheme, 'o) comp" where
  "createOrUpdate E get answer mutate write =
     bindE (vfind E get answer) (\<lambda>found.
     bindE (mutate found) (\<lambda>obj.
     bindE (vcall E (write obj)) (\<lambda>_. returnE obj)))"

definition foundOr :: "'o \<Rightarrow> 'o option \<Rightarrow> 'o" where
  "foundOr obj found = (case found of None \<Rightarrow> obj | Some x \<Rightarrow> x)"

interpretation vcalls: state_relation "allowed vTrace ok" for ok
  by unfold_locales (auto intro: allowed_trans)

lemma vcall_state: "vcall E c s = (r, s') \<Longrightarrow> s' = s\<lparr>vTrace := vTrace s @ [c]\<rparr>"
  by (auto simp: vcall_def split: option.splits)

lemma vcall_keeps: "(\<And>h. ok h c) \<Longrightarrow> keeps (allowed vTrace ok) (vcall E c)"
  by (auto simp: keeps_def allowed_def dest!: vcall_state)

lemma vread_keeps: "(\<And>h. ok h c) \<Longrightarrow> keeps (allowed vTrace ok) (vread E c answer)"
  unfolding vread_def by (intro vcalls.keeps_rules vcall_keeps)

lemma vfind_keeps: "(\<And>h. ok h c) \<Longrightarrow> keeps (allowed vTrace ok) (vfind E c answer)"
  unfolding vfind_def by (intro vcalls.keeps_rules vread_keeps)

lemma createOrUpdate_keeps:
  "(\<And>h. ok h get) \<Longrightarrow> (\<And>f. keeps (allowed vTrace ok) (mutate f)) \<Longrightarrow> (\<And>h o'. ok h (write o')) \<Longrightarrow>
   keeps (allowed vTrace ok) (createOrUpdate E get answer mutate write)"
  unfolding createOrUpdate_def by (intro vcalls.keeps_rules vcall_keeps vfind_keeps)

lemmas vc_rules = vcalls.keeps_rules vcall_keeps vread_keeps vfind_keeps createOrUpdate_keeps

end
