(* ===== verification/KvMachine.thy ===== *)
theory KvMachine
  imports KvTypes
begin

text \<open>
  The virtual machine behind a KubevirtMachine: \<open>src/cluster-api-provider-kubevirt/pkg/kubevirt/machine.go\<close>
  and \<open>utils.go\<close>, with what it is built on: \<open>pkg/ssh\<close>, \<open>pkg/infracluster\<close>, \<open>pkg/workloadcluster\<close> and
  \<open>pkg/context\<close>. Durations are in milliseconds. A result that is returned beside an error is ignored by
  the controller runtime and is left out.
\<close>

record kmState = vBase +
  sKM :: KubevirtMachine
  sBootstrap :: "KvSecret option"

record MachineContext =
  mcMachine :: Machine
  mcCluster :: "Cluster option"
  mcKubevirtCluster :: "KubevirtCluster option"

definition changeKM :: "(KubevirtMachine \<Rightarrow> KubevirtMachine) \<Rightarrow> (kmState, unit) comp" where
  "changeKM f = modifyE (\<lambda>s. s\<lparr>sKM := f (sKM s)\<rparr>)"

definition markKM :: "vEnv \<Rightarrow> (time \<Rightarrow> Condition list \<Rightarrow> Condition list) \<Rightarrow> (kmState, unit) comp" where
  "markKM E f = modifyE (\<lambda>s. s\<lparr>sKM := setKvmConditions (f (vNowSec E (vTrace s)) (kvmConditions (kvmStatus (sKM s)))) (sKM s)\<rparr>)"

section \<open>Clients\<close>

definition isSpace :: "char \<Rightarrow> bool" where
  "isSpace c \<longleftrightarrow> (of_char c :: nat) \<in> {9, 10, 11, 12, 13, 32}"

definition TrimSpace :: "string \<Rightarrow> string" where
  "TrimSpace s = rev (dropWhile isSpace (rev (dropWhile isSpace s)))"

definition GenerateInfraClusterClient ::
  "vEnv \<Rightarrow> ObjectReference option \<Rightarrow> string \<Rightarrow> ('x vBase_scheme, infra option \<times> string) comp" where
  "GenerateInfraClusterClient E infraClusterSecretRef ownerNamespace =
     (case infraClusterSecretRef of
        None \<Rightarrow> returnE (Some Internal, ownerNamespace)
      | Some ref \<Rightarrow>
          let secretNamespace = (if refNamespace ref = [] then ownerNamespace else refNamespace ref) in
          bindE (wrapE ''failed to fetch infra kubeconfig secret'' (vread E (VGetSecret secretNamespace (refName ref)) (vSecret E))) (\<lambda>secret.
            case mlookup (seData secret) ''kubeconfig'' of
              None \<Rightarrow> failE (Err ''failed to retrieve infra kubeconfig from secret: 'kubeconfig' key is missing'')
            | Some kubeConfig \<Rightarrow>
                bindE (wrapE ''failed to resolve namespace from client config'' (liftE (vConfigNamespace E kubeConfig))) (\<lambda>ns.
                  let namespace = (case mlookup (seData secret) ''namespace'' of None \<Rightarrow> ns | Some v \<Rightarrow> TrimSpace v) in
                  bindE (wrapE ''failed to create REST config'' (liftE (vConfigValid E kubeConfig))) (\<lambda>_.
                  bindE (wrapE ''failed to create infra cluster client'' (vcall E (VInfraClient ref))) (\<lambda>_.
                    returnE (Some (External ref), namespace))))))"

definition getKubeconfigForWorkloadCluster :: "vEnv \<Rightarrow> MachineContext \<Rightarrow> ('x vBase_scheme, string) comp" where
  "getKubeconfigForWorkloadCluster E ctx =
     bindE (liftE (deref ''ctx.KubevirtCluster'' (mcKubevirtCluster ctx))) (\<lambda>kc.
     bindE (liftE (deref ''ctx.Cluster'' (mcCluster ctx))) (\<lambda>cluster.
     bindE (wrapE ''failed to fetch kubeconfig for workload cluster''
       (vread E (VGetSecret (mnamespace (kvcMeta kc)) (mname (clMeta cluster) @ ''-kubeconfig'')) (vSecret E))) (\<lambda>secret.
       case mlookup (seData secret) ''value'' of
         None \<Rightarrow> failE (Err ''error retrieving kubeconfig data: secret value key is missing'')
       | Some v \<Rightarrow> returnE v)))"

definition GenerateWorkloadClusterClient :: "vEnv \<Rightarrow> MachineContext \<Rightarrow> ('x vBase_scheme, unit) comp" where
  "GenerateWorkloadClusterClient E ctx =
     bindE (wrapE ''failed to get kubeconfig for workload cluster'' (getKubeconfigForWorkloadCluster E ctx)) (\<lambda>kubeConfig.
     bindE (wrapE ''failed to create REST config'' (liftE (vConfigValid E kubeConfig))) (\<lambda>_.
       wrapE ''failed to create workload cluster client'' (vcall E VWorkloadClient)))"

section \<open>Keys of the nodes\<close>

record ClusterNodeSshKeys =
  kyPublic :: string
  kyPrivate :: string

definition GetKeysDataSecret :: "vEnv \<Rightarrow> KubevirtCluster \<Rightarrow> ('x vBase_scheme, KvSecret) comp" where
  "GetKeysDataSecret E kc =
     (let keysSecretName = (case skDataSecretName (kvcSshKeys (kvcSpec kc)) of None \<Rightarrow> [] | Some n \<Rightarrow> n) in
      if keysSecretName = [] then failE (Err ''ssh keys secret data has not been set in KubevirtCluster.Spec.SshKeys'')
      else wrapE ''failed to fetch secret'' (vread E (VGetSecret (mnamespace (kvcMeta kc)) keysSecretName) (vSecret E)))"

definition IsPersistedToSecret :: "vEnv \<Rightarrow> KubevirtCluster \<Rightarrow> ('x vBase_scheme, bool) comp" where
  "IsPersistedToSecret E kc =
     bindE (attemptE (GetKeysDataSecret E kc)) (\<lambda>r.
       case r of
         Inl _ \<Rightarrow> returnE False
       | Inr s \<Rightarrow> returnE (mlookup (seData s) ''pub'' \<noteq> None \<and> mlookup (seData s) ''key'' \<noteq> None))"

text \<open>The error of the second read is dropped; the secret is nil then.\<close>

definition FetchPersistedKeysFromSecret :: "vEnv \<Rightarrow> KubevirtCluster \<Rightarrow> ('x vBase_scheme, ClusterNodeSshKeys) comp" where
  "FetchPersistedKeysFromSecret E kc =
     bindE (IsPersistedToSecret E kc) (\<lambda>persisted.
       if \<not> persisted then failE (Err ''keys have not been persisted to secret yet'')
       else
         bindE (attemptE (GetKeysDataSecret E kc)) (\<lambda>r.
           case r of
             Inl _ \<Rightarrow> failE (Panic ''sshKeysSecret.Data'')
           | Inr s \<Rightarrow>
               (case mlookup (seData s) ''pub'' of
                  None \<Rightarrow> failE (Err ''error retrieving secret data: pub value is missing'')
                | Some pub \<Rightarrow>
                    (case mlookup (seData s) ''key'' of
                       None \<Rightarrow> failE (Err ''error retrieving secret data: key value is missing'')
                     | Some key \<Rightarrow> returnE \<lparr>kyPublic = pub, kyPrivate = key\<rparr>))))"

fun Contains :: "string \<Rightarrow> string \<Rightarrow> bool" where
  "Contains [] sub = (sub = [])"
| "Contains (c # cs) sub = (take (length sub) (c # cs) = sub \<or> Contains cs sub)"

text \<open>The public key is encoded to base 64 and decoded again, which gives the key itself.\<close>

definition HasInjectedCapkSSHKeys :: "KvSecret option \<Rightarrow> string \<Rightarrow> bool" where
  "HasInjectedCapkSSHKeys bootstrap sshPublicKey =
     (case bootstrap of
        None \<Rightarrow> False
      | Some s \<Rightarrow>
          if length sshPublicKey = 0 then False
          else (case mlookup (seData s) ''userdata'' of None \<Rightarrow> False | Some v \<Rightarrow> Contains v sshPublicKey))"

definition trimNewlines :: "string \<Rightarrow> string" where
  "trimNewlines s = (let nl = (\<lambda>c. c = CHR 10) in rev (dropWhile nl (rev (dropWhile nl s))))"

definition ExecuteCommand :: "vEnv \<Rightarrow> string \<Rightarrow> ('x vBase_scheme, string) comp" where
  "ExecuteCommand E address = vread E (VRunCommand address) (\<lambda>cs. trimNewlines (vCommandOutput E cs))"

section \<open>The virtual machine to create\<close>

definition nodeRole :: "Machine \<Rightarrow> string" where
  "nodeRole m = (if IsControlPlaneMachine m then ''control-plane'' else ''worker'')"

text \<open>A copy of a map, and the labels every object of a machine gets.\<close>

definition mapCopy :: "strmap option \<Rightarrow> strmap" where
  "mapCopy src = (case src of None \<Rightarrow> Map.empty | Some f \<Rightarrow> f)"

definition commonLabels :: "strmap \<Rightarrow> string \<Rightarrow> string \<Rightarrow> string \<Rightarrow> strmap" where
  "commonLabels base name role cluster =
     base(''kubevirt.io/vm'' \<mapsto> name, ''name'' \<mapsto> name, ''cluster.x-k8s.io/role'' \<mapsto> role, ''cluster.x-k8s.io/cluster-name'' \<mapsto> cluster)"

definition buildVirtualMachineInstanceTemplate :: "MachineContext \<Rightarrow> KubevirtMachine \<Rightarrow> VMITemplate res" where
  "buildVirtualMachineInstanceTemplate ctx kvm =
     bindR (deref ''VirtualMachineTemplate.Spec.Template'' (vmsTemplate (vtsSpec (kvmTemplate (kvmSpec kvm))))) (\<lambda>t.
     bindR (deref ''ctx.Cluster'' (mcCluster ctx)) (\<lambda>cluster.
     bindR (deref ''Bootstrap.DataSecretName'' (bDataSecretName (spBootstrap (mchSpec (mcMachine ctx))))) (\<lambda>secret.
       Inr \<lparr>vtLabels = Some (commonLabels (mapCopy (vtLabels t)) (kvmName kvm) (nodeRole (mcMachine ctx)) (mname (clMeta cluster))),
            vtAnnotations = Some (mapCopy (vtAnnotations t)),
            vtSpec = (vtSpec t)\<lparr>
              vspVolumes := vspVolumes (vtSpec t) @ [\<lparr>volName = ''cloudinitvolume'', volClaim = None, volDataVolume = None,
                volUserDataSecret = Some (secret @ ''-userdata''), volRest = []\<rparr>],
              vspDisks := vspDisks (vtSpec t) @ [\<lparr>dkName = ''cloudinitvolume'', dkBus = ''virtio'', dkRest = []\<rparr>]\<rparr>\<rparr>)))"

text \<open>The names of the data volumes get the prefix, and so do the references to them.\<close>

definition prefixed :: "string \<Rightarrow> string list \<Rightarrow> string \<Rightarrow> string" where
  "prefixed prefix names n = (if n \<in> set names then prefix @ ''-'' @ n else n)"

definition prefixVolume :: "string \<Rightarrow> string list \<Rightarrow> Volume \<Rightarrow> Volume" where
  "prefixVolume prefix names v =
     (case volClaim v of
        Some claim \<Rightarrow> v\<lparr>volClaim := Some (prefixed prefix names claim)\<rparr>
      | None \<Rightarrow>
          (case volDataVolume v of
             Some dv \<Rightarrow> v\<lparr>volDataVolume := Some (prefixed prefix names dv)\<rparr>
           | None \<Rightarrow> v))"

definition prefixDataVolumeTemplates :: "VMSpec \<Rightarrow> string \<Rightarrow> VMSpec" where
  "prefixDataVolumeTemplates spec prefix =
     (let names = map dvtName (vmsDataVolumeTemplates spec) in
      if length names = 0 then spec
      else spec\<lparr>
        vmsDataVolumeTemplates := map (\<lambda>t. t\<lparr>dvtName := prefix @ ''-'' @ dvtName t\<rparr>) (vmsDataVolumeTemplates spec),
        vmsTemplate := map_option (\<lambda>t. t\<lparr>vtSpec := (vtSpec t)\<lparr>vspVolumes := map (prefixVolume prefix names) (vspVolumes (vtSpec t))\<rparr>\<rparr>)
          (vmsTemplate spec)\<rparr>)"

definition newVirtualMachineFromKubevirtMachine :: "MachineContext \<Rightarrow> KubevirtMachine \<Rightarrow> string \<Rightarrow> VirtualMachine res" where
  "newVirtualMachineFromKubevirtMachine ctx kvm namespace =
     bindR (buildVirtualMachineInstanceTemplate ctx kvm) (\<lambda>t.
     bindR (deref ''ctx.Cluster'' (mcCluster ctx)) (\<lambda>cluster.
       let tmpl = kvmTemplate (kvmSpec kvm) in
       Inr \<lparr>vmMeta = emptyMeta\<lparr>mname := kvmName kvm, mnamespace := namespace,
              mlabels := Some (commonLabels (mapCopy (vtsLabels tmpl)) (kvmName kvm) (nodeRole (mcMachine ctx)) (mname (clMeta cluster))),
              mannotations := vtsAnnotations tmpl\<rparr>,
            vmSpec = prefixDataVolumeTemplates ((vtsSpec tmpl)\<lparr>vmsTemplate := Some t\<rparr>) (kvmName kvm),
            vmPrintableStatus = [], vmConditions = []\<rparr>))"

section \<open>The helper of a machine\<close>

record vmHandle =
  vhInfra :: infra
  vhNamespace :: string
  vhContext :: MachineContext
  vhVmi :: "VMI option"
  vhVm :: "VirtualMachine option"
  vhDataVolumes :: "DataVolume list"
  vhSshKeys :: "ClusterNodeSshKeys option"

fun findDataVolumes :: "vEnv \<Rightarrow> infra \<Rightarrow> string \<Rightarrow> DataVolumeTemplate list \<Rightarrow> (kmState, DataVolume list) comp" where
  "findDataVolumes E infra ns [] = returnE []"
| "findDataVolumes E infra ns (t # ts) =
     bindE (vfind E (VGetDataVolume infra ns (dvtName t)) (vDataVolume E)) (\<lambda>dv.
     bindE (findDataVolumes E infra ns ts) (\<lambda>dvs. returnE ((case dv of None \<Rightarrow> [] | Some d \<Rightarrow> [d]) @ dvs)))"

definition NewMachine ::
  "vEnv \<Rightarrow> MachineContext \<Rightarrow> infra \<Rightarrow> string \<Rightarrow> ClusterNodeSshKeys option \<Rightarrow> (kmState, vmHandle) comp" where
  "NewMachine E ctx infra namespace sshKeys =
     bindE (getsE sKM) (\<lambda>kvm.
     bindE (vfind E (VGetVMI infra namespace (kvmName kvm)) (vVMI E)) (\<lambda>vmi.
     bindE (vfind E (VGetVM infra namespace (kvmName kvm)) (vVM E)) (\<lambda>vm.
     bindE (case vm of None \<Rightarrow> returnE [] | Some v \<Rightarrow> findDataVolumes E infra namespace (vmsDataVolumeTemplates (vmSpec v))) (\<lambda>dvs.
       returnE \<lparr>vhInfra = infra, vhNamespace = namespace, vhContext = ctx, vhVmi = vmi, vhVm = vm, vhDataVolumes = dvs, vhSshKeys = sshKeys\<rparr>))))"

definition terminalText :: "string \<Rightarrow> string \<Rightarrow> string" where
  "terminalText what reason =
     what @ '' '' @ KubevirtMachineVMTerminalLabel @ '' label has the vm marked as being terminal with reason ['' @ reason @ '']''"

definition IsTerminal :: "vEnv \<Rightarrow> vmHandle \<Rightarrow> (bool \<times> string) res" where
  "IsTerminal E m =
     (case (vhVm m, vhVmi m) of
        (Some vm, Some vmi) \<Rightarrow>
          if \<not> vIsFinal E vmi \<and> \<not> vIsMigratable E vmi \<and> vmiEvacuationNodeName vmi \<noteq> [] then
            Inr (True, ''The Machine's VM pod is marked for eviction due to infra node drain.'')
          else
            (case mlookup (mlabels (vmMeta vm)) KubevirtMachineVMTerminalLabel of
               Some reason \<Rightarrow> Inr (True, terminalText ''VM's'' reason)
             | None \<Rightarrow>
            (case mlookup (mlabels (vmiMeta vmi)) KubevirtMachineVMTerminalLabel of
               Some reason \<Rightarrow> Inr (True, terminalText ''VMI's'' reason)
             | None \<Rightarrow>
                 bindR (vRunStrategy E vm) (\<lambda>runStrategy.
                   if runStrategy = ''Halted'' \<or> runStrategy = ''Once'' then
                     Inr (if vIsFinal E vmi then (True, ''VMI has reached a permanent finalized state'') else (False, []))
                   else if runStrategy = ''RerunOnFailure'' then
                     Inr (if vmiPhase vmi = ''Succeeded'' then (True, ''VMI has reached a permanent finalized state'') else (False, []))
                   else Inr (False, []))))
      | _ \<Rightarrow> Inr (False, []))"

definition Exists :: "vmHandle \<Rightarrow> bool" where
  "Exists m \<longleftrightarrow> vhVm m \<noteq> None"

text \<open>The labels by which a virtual machine is found again, set on what the server has or gets.\<close>

definition labelVM :: "Cluster \<Rightarrow> KubevirtMachine \<Rightarrow> VirtualMachine \<Rightarrow> VirtualMachine res" where
  "labelVM cluster kvm vm =
     bindR (deref ''virtualMachine.Spec.Template'' (vmsTemplate (vmSpec vm))) (\<lambda>t.
       let own = [KubevirtMachineNameLabel \<mapsto> kvmName kvm, KubevirtMachineNamespaceLabel \<mapsto> mnamespace (kvmMeta kvm)] in
       Inr (vm\<lparr>vmMeta := (vmMeta vm)\<lparr>mlabels := Some (mapCopy (mlabels (vmMeta vm)) ++ [ClusterNameLabel \<mapsto> mname (clMeta cluster)] ++ own)\<rparr>,
               vmSpec := (vmSpec vm)\<lparr>vmsTemplate := Some (t\<lparr>vtLabels := Some (mapCopy (vtLabels t) ++ own)\<rparr>)\<rparr>\<rparr>))"

definition Create :: "vEnv \<Rightarrow> vmHandle \<Rightarrow> (kmState, unit) comp" where
  "Create E m =
     bindE (getsE sKM) (\<lambda>kvm.
     bindE (liftE (newVirtualMachineFromKubevirtMachine (vhContext m) kvm (vhNamespace m))) (\<lambda>vm.
     bindE (liftE (deref ''m.machineContext.Cluster'' (mcCluster (vhContext m)))) (\<lambda>cluster.
     bindE (createOrUpdate E (VGetVM (vhInfra m) (mnamespace (vmMeta vm)) (mname (vmMeta vm))) (vVM E)
       (\<lambda>found. liftE (labelVM cluster kvm (foundOr vm found))) (VApplyVM (vhInfra m))) (\<lambda>_. returnE ()))))"

definition hasReadyCondition :: "vmHandle \<Rightarrow> bool" where
  "hasReadyCondition m =
     (case vhVmi m of
        None \<Rightarrow> False
      | Some vmi \<Rightarrow> list_ex (\<lambda>c. kcType c = ''Ready'' \<and> kcStatus c = ConditionTrue) (vmiConditions vmi))"

definition IsReady :: "vmHandle \<Rightarrow> bool" where
  "IsReady m = hasReadyCondition m"

definition Address :: "vmHandle \<Rightarrow> string" where
  "Address m = (case vhVmi m of None \<Rightarrow> [] | Some vmi \<Rightarrow> (case vmiInterfaces vmi of [] \<Rightarrow> [] | ip # _ \<Rightarrow> ip))"

definition IsLiveMigratable :: "vmHandle \<Rightarrow> (bool \<times> string \<times> string) res" where
  "IsLiveMigratable m =
     (case vhVmi m of
        None \<Rightarrow> Inl (Err ''VMI is nil'')
      | Some vmi \<Rightarrow>
          (case find (\<lambda>c. kcType c = ''LiveMigratable'') (vmiConditions vmi) of
             None \<Rightarrow> Inl (Err (vmiPhase vmi @ '' VMI does not have a LiveMigratable condition''))
           | Some c \<Rightarrow> Inr (if kcStatus c = ConditionTrue then (True, [], []) else (False, kcReason c, kcMessage c))))"

definition getDVNotProvisionedReason :: "DataVolume \<Rightarrow> (string \<times> string) option" where
  "getDVNotProvisionedReason dv =
     (let msg = ''DataVolume '' @ dvName dv @ '' is not ready; Phase: '' @ dvPhase dv in
      if dvPhase dv = ''Succeeded'' then None
      else if dvPhase dv = ''Pending'' then Some (''DVPending'', msg)
      else if dvPhase dv = ''Failed'' then Some (''DVFailed'', msg)
      else case find (\<lambda>c. kcType c = ''Running'') (dvConditions dv) of
             None \<Rightarrow> Some (''DVNotReady'', msg)
           | Some c \<Rightarrow>
               if kcStatus c = ConditionFalse then
                 Some (if kcReason c = ''ImagePullFailed'' then ''DVImagePullFailed'' else ''DVNotReady'',
                   ''DataVolume '' @ dvName dv @ '' import is not running: '' @ kcMessage c)
               else Some (''DVNotReady'', msg))"

fun firstDVReason :: "DataVolume list \<Rightarrow> (string \<times> string) option" where
  "firstDVReason [] = None"
| "firstDVReason (dv # dvs) = (case getDVNotProvisionedReason dv of Some r \<Rightarrow> Some r | None \<Rightarrow> firstDVReason dvs)"

definition getVMCondition :: "vmHandle \<Rightarrow> string \<Rightarrow> kvCondition option" where
  "getVMCondition m t = (case vhVm m of None \<Rightarrow> None | Some vm \<Rightarrow> find (\<lambda>c. kcType c = t) (vmConditions vm))"

definition GetVMNotReadyReason :: "vmHandle \<Rightarrow> string \<times> string" where
  "GetVMNotReadyReason m =
     (case vhVm m of
        None \<Rightarrow> (''VMNotReady'', ''VM is not ready'')
      | Some vm \<Rightarrow>
          let basic = (''VMNotReady'', ''VM is not ready: '' @ vmPrintableStatus vm);
              volumes = (case firstDVReason (vhDataVolumes m) of None \<Rightarrow> basic | Some r \<Rightarrow> r)
          in case getVMCondition m ''PodScheduled'' of
               None \<Rightarrow> volumes
             | Some c \<Rightarrow>
                 if kcStatus c = ConditionTrue then basic
                 else if kcStatus c = ConditionFalse \<and> kcReason c = ''Unschedulable'' then (''Unschedulable'', kcMessage c)
                 else volumes)"

definition SupportsCheckingIsBootstrapped :: "vmHandle \<Rightarrow> KvSecret option \<Rightarrow> bool" where
  "SupportsCheckingIsBootstrapped m bootstrap =
     (case vhSshKeys m of None \<Rightarrow> False | Some k \<Rightarrow> HasInjectedCapkSSHKeys bootstrap (kyPublic k))"

definition IsBootstrappedWithSSH :: "vEnv \<Rightarrow> vmHandle \<Rightarrow> (kmState, bool) comp" where
  "IsBootstrappedWithSSH E m =
     (if \<not> IsReady m \<or> vhSshKeys m = None then returnE False
      else
        bindE (attemptE (ExecuteCommand E (Address m))) (\<lambda>r.
          returnE (case r of Inl _ \<Rightarrow> False | Inr output \<Rightarrow> output = ''success'')))"

definition IsBootstrapped :: "vEnv \<Rightarrow> vmHandle \<Rightarrow> (kmState, bool) comp" where
  "IsBootstrapped E m =
     bindE (getsE (\<lambda>s. kvmCheckStrategy (kvmSpec (sKM s)))) (\<lambda>strategy.
       if strategy = ''none'' then returnE True
       else if strategy = [] \<or> strategy = ''ssh'' then IsBootstrappedWithSSH E m
       else returnE False)"

definition GenerateProviderID :: "vmHandle \<Rightarrow> KubevirtMachine \<Rightarrow> string res" where
  "GenerateProviderID m kvm =
     (case vhVmi m of
        None \<Rightarrow> Inl (Err ''Underlying Kubevirt VM is NOT running'')
      | Some _ \<Rightarrow> Inr (''kubevirt://'' @ kvmName kvm))"

definition vmDelete :: "vEnv \<Rightarrow> vmHandle \<Rightarrow> (kmState, unit) comp" where
  "vmDelete E m =
     bindE (getsE sKM) (\<lambda>kvm.
     bindE (wrapE ''failed to retrieve VM to delete'' (vfind E (VGetVM (vhInfra m) (vhNamespace m) (kvmName kvm)) (vVM E))) (\<lambda>vm.
       case vm of None \<Rightarrow> returnE () | Some v \<Rightarrow> wrapE ''failed to delete VM'' (vcall E (VDeleteVM (vhInfra m) v))))"

section \<open>Draining\<close>

definition shouldGracefulDeleteVMI :: "VMI \<Rightarrow> bool" where
  "shouldGracefulDeleteVMI vmi \<longleftrightarrow>
     mdeletionTimestamp (vmiMeta vmi) = None \<and> vspEvictionStrategy (vmiSpec vmi) = Some ''External'' \<and>
     length (vmiEvacuationNodeName vmi) > 0"

definition setGraceAnnotation :: "string option \<Rightarrow> KubevirtMachine \<Rightarrow> KubevirtMachine" where
  "setGraceAnnotation v kvm =
     kvm\<lparr>kvmMeta := (kvmMeta kvm)\<lparr>mannotations := Some ((mapCopy (mannotations (kvmMeta kvm)))(VmiDeletionGraceTime := v))\<rparr>\<rparr>"

text \<open>
  The patches of the annotation. They go through the client of the infrastructure cluster, and the answer
  of the server replaces the object.
\<close>

definition annotateMachine :: "vEnv \<Rightarrow> vmHandle \<Rightarrow> string option \<Rightarrow> (kmState, unit) comp" where
  "annotateMachine E m v =
     bindE (getsE sKM) (\<lambda>kvm.
     bindE (vread E (VAnnotateMachine (vhInfra m) kvm v) (\<lambda>cs. vAnnotated E cs (setGraceAnnotation v kvm))) (\<lambda>answer.
       changeKM (\<lambda>_. answer)))"

definition removeGracePeriodAnnotation :: "vEnv \<Rightarrow> vmHandle \<Rightarrow> (kmState, unit) comp" where
  "removeGracePeriodAnnotation E m = wrapE ''failed to remove the annotation'' (annotateMachine E m None)"

abbreviation "vmiDeleteGraceTimeout \<equiv> (600 * 1000000000 :: int)"

definition setVmiDeletionGraceTime :: "vEnv \<Rightarrow> vmHandle \<Rightarrow> (kmState, unit) comp" where
  "setVmiDeletionGraceTime E m =
     bindE (getsE (\<lambda>s. vNow E (vTrace s))) (\<lambda>now.
       wrapE ''failed to add the annotation'' (annotateMachine E m (Some (FormatRFC3339 (now + vmiDeleteGraceTimeout)))))"

definition drainGracePeriodExceeded :: "vEnv \<Rightarrow> vmHandle \<Rightarrow> (kmState, bool) comp" where
  "drainGracePeriodExceeded E m =
     bindE (getsE (\<lambda>s. (mlookup (mannotations (kvmMeta (sKM s))) VmiDeletionGraceTime, vNow E (vTrace s)))) (\<lambda>(ann, now).
       case Option.bind ann ParseRFC3339 of
         Some deletionGraceTime \<Rightarrow> returnE (now > deletionGraceTime)
       | None \<Rightarrow> bindE (setVmiDeletionGraceTime E m) (\<lambda>_. returnE False))"

text \<open>The duration after which to try again, 0 if the node is drained.\<close>

definition drainNode :: "vEnv \<Rightarrow> vmHandle \<Rightarrow> VMI \<Rightarrow> (kmState, int) comp" where
  "drainNode E m vmi =
     bindE (wrapE ''failed to get client to remote cluster'' (GenerateWorkloadClusterClient E (vhContext m))) (\<lambda>_.
       let nodeName = vmiEvacuationNodeName vmi in
       bindE (wrapE ''unable to get node'' (vfind E (VGetNode nodeName) (vNode E))) (\<lambda>node.
         case node of
           None \<Rightarrow> returnE 0
         | Some n \<Rightarrow>
             bindE (wrapE ''unable to cordon node'' (vcall E (VCordon nodeName))) (\<lambda>_.
             bindE (attemptE (vcall E (VDrain (mname (nodeMeta n)) (IsNodeUnreachable node)))) (\<lambda>r.
               returnE (case r of Inl _ \<Rightarrow> 1000 | Inr _ \<Rightarrow> 0)))))"

definition DrainNodeIfNeeded :: "vEnv \<Rightarrow> vmHandle \<Rightarrow> (kmState, int) comp" where
  "DrainNodeIfNeeded E m =
     (let idle =
        bindE (getsE (\<lambda>s. mlookup (mannotations (kvmMeta (sKM s))) VmiDeletionGraceTime)) (\<lambda>ann.
        bindE (if ann \<noteq> None then removeGracePeriodAnnotation E m else returnE ()) (\<lambda>_. returnE 0))
      in case vhVmi m of
           None \<Rightarrow> idle
         | Some vmi \<Rightarrow>
             if \<not> shouldGracefulDeleteVMI vmi then idle
             else
               bindE (drainGracePeriodExceeded E m) (\<lambda>exceeded.
               bindE (if \<not> exceeded then drainNode E m vmi else returnE 0) (\<lambda>retryDuration.
                 if retryDuration > 0 then returnE retryDuration
                 else
                   bindE (vcall E (VDeleteVMI (vhInfra m) vmi)) (\<lambda>_.
                   bindE (removeGracePeriodAnnotation E m) (\<lambda>_.
                     returnE 10000)))))"

section \<open>What is known after a call\<close>

lemma vfind_None:
  assumes "vfind E c answer s = (Inr None, s')"
  shows "vTrace s' = vTrace s @ [c] \<and> (\<exists>e. vOutcome E (vTrace s) c = Some e \<and> isNotFound e)"
  using assms
  by (auto simp: vfind_def vread_def bindE_def vcall_def attemptE_def split: option.splits prod.splits sum.splits if_splits)

lemma vfind_Some:
  assumes "vfind E c answer s = (Inr (Some x), s')"
  shows "vTrace s' = vTrace s @ [c] \<and> vOutcome E (vTrace s) c = None \<and> x = answer (vTrace s')"
  using assms
  by (auto simp: vfind_def vread_def bindE_def vcall_def attemptE_def split: option.splits prod.splits sum.splits if_splits)

lemma vcall_Inr: "vcall E c s = (Inr u, s') \<longleftrightarrow> vOutcome E (vTrace s) c = None \<and> s' = s\<lparr>vTrace := vTrace s @ [c]\<rparr>"
  by (auto simp: vcall_def split: option.splits)

lemma vcall_keepsAt: "ok (vTrace s) c \<Longrightarrow> keepsAt (allowed vTrace ok) (vcall E c) s"
  by (auto simp: keepsAt_def allowed_def dest!: vcall_state)

section \<open>Draining is safe\<close>

text \<open>The last call drained the node, or found that there is no node.\<close>

definition drainedBefore :: "vEnv \<Rightarrow> VMI \<Rightarrow> vCall list \<Rightarrow> bool" where
  "drainedBefore E vmi h \<longleftrightarrow> h \<noteq> [] \<and>
     (case last h of
        VDrain _ _ \<Rightarrow> vOutcome E (butlast h) (last h) = None
      | VGetNode n \<Rightarrow> n = vmiEvacuationNodeName vmi \<and> (case vOutcome E (butlast h) (last h) of None \<Rightarrow> False | Some e \<Rightarrow> isNotFound e)
      | _ \<Rightarrow> False)"

text \<open>The annotation holds a time, and that time is over.\<close>

definition graceOver :: "vEnv \<Rightarrow> kmState \<Rightarrow> bool" where
  "graceOver E s =
     (case Option.bind (mlookup (mannotations (kvmMeta (sKM s))) VmiDeletionGraceTime) ParseRFC3339 of
        None \<Rightarrow> False
      | Some t \<Rightarrow> t < vNow E (vTrace s))"

definition deletionOk :: "vEnv \<Rightarrow> vmHandle \<Rightarrow> kmState \<Rightarrow> vCall list \<Rightarrow> vCall \<Rightarrow> bool" where
  "deletionOk E m s h c =
     (case c of
        VDeleteVMI i v \<Rightarrow> vhVmi m = Some v \<and> i = vhInfra m \<and> shouldGracefulDeleteVMI v \<and> (graceOver E s \<or> drainedBefore E v h)
      | _ \<Rightarrow> True)"

lemma drainNode_done:
  assumes "drainNode E m vmi s = (Inr d, s')" and "\<not> 0 < d"
  shows "drainedBefore E vmi (vTrace s')"
  using assms
  by (auto simp: drainNode_def Let_def wrapE_Inr vcall_Inr attemptE_Inr drainedBefore_def butlast_append elim!: bindE_Inr
      dest!: vfind_None split: option.splits sum.splits prod.splits)

lemma changeKM_quiet [simp]: "keeps (allowed vTrace ok) (changeKM f)" "keeps (allowed vTrace ok) (markKM E g)"
  by (simp_all add: changeKM_def markKM_def keeps_def allowed_def)

lemma annotateMachine_quiet:
  "(\<And>h k v. ok h (VAnnotateMachine (vhInfra m) k v)) \<Longrightarrow> keeps (allowed vTrace ok) (annotateMachine E m v)"
  unfolding annotateMachine_def by (intro vc_rules; simp)

lemma removeGracePeriodAnnotation_quiet:
  "(\<And>h k v. ok h (VAnnotateMachine (vhInfra m) k v)) \<Longrightarrow> keeps (allowed vTrace ok) (removeGracePeriodAnnotation E m)"
  unfolding removeGracePeriodAnnotation_def by (intro vc_rules annotateMachine_quiet; simp)

lemma drainGracePeriodExceeded_quiet:
  "(\<And>h k v. ok h (VAnnotateMachine (vhInfra m) k v)) \<Longrightarrow> keeps (allowed vTrace ok) (drainGracePeriodExceeded E m)"
  unfolding drainGracePeriodExceeded_def setVmiDeletionGraceTime_def by (intro vc_rules annotateMachine_quiet; simp)

lemma drainGracePeriodExceeded_True: "drainGracePeriodExceeded E m s = (Inr True, s') \<Longrightarrow> graceOver E s"
  by (auto simp: drainGracePeriodExceeded_def graceOver_def elim!: bindE_Inr split: option.splits)

lemma workloadClient_quiet:
  "(\<And>h c. (case c of VGetSecret _ _ \<Rightarrow> True | VWorkloadClient \<Rightarrow> True | _ \<Rightarrow> False) \<Longrightarrow> ok h c) \<Longrightarrow>
   keeps (allowed vTrace ok) (GenerateWorkloadClusterClient E ctx)"
  unfolding GenerateWorkloadClusterClient_def getKubeconfigForWorkloadCluster_def by (intro vc_rules; simp)

lemma drainNode_quiet:
  "(\<And>h c. (case c of VGetSecret _ _ \<Rightarrow> True | VWorkloadClient \<Rightarrow> True | VGetNode _ \<Rightarrow> True | VCordon _ \<Rightarrow> True | VDrain _ _ \<Rightarrow> True
      | _ \<Rightarrow> False) \<Longrightarrow> ok h c) \<Longrightarrow>
   keeps (allowed vTrace ok) (drainNode E m vmi)"
  unfolding drainNode_def by (intro vc_rules workloadClient_quiet; simp split: vCall.splits)

lemma DrainNodeIfNeeded_ok: "keepsAt (allowed vTrace (deletionOk E m s)) (DrainNodeIfNeeded E m) s"
proof -
  let ?ok = "deletionOk E m s"
  have ann: "keeps (allowed vTrace ?ok) (removeGracePeriodAnnotation E m)"
      "keeps (allowed vTrace ?ok) (drainGracePeriodExceeded E m)"
    by (intro removeGracePeriodAnnotation_quiet drainGracePeriodExceeded_quiet; simp add: deletionOk_def)+
  have node: "keeps (allowed vTrace ?ok) (drainNode E m vmi)" for vmi
    by (intro drainNode_quiet) (simp add: deletionOk_def split: vCall.splits)
  have finish: "keepsAt (allowed vTrace ?ok) (bindE (vcall E (VDeleteVMI (vhInfra m) vmi)) (\<lambda>_.
      bindE (removeGracePeriodAnnotation E m) (\<lambda>_. returnE 10000))) t"
    if "vhVmi m = Some vmi" "shouldGracefulDeleteVMI vmi" "graceOver E s \<or> drainedBefore E vmi (vTrace t)" for vmi t
    using that by (intro vcalls.keepsAt_bindE vcall_keepsAt keeps_at [OF vcalls.keeps_bindE] ann vc_rules) (auto simp: deletionOk_def)
  show ?thesis
  proof (cases "\<exists>vmi. vhVmi m = Some vmi \<and> shouldGracefulDeleteVMI vmi")
    case False
    then show ?thesis
      unfolding DrainNodeIfNeeded_def Let_def by (auto split: option.splits intro!: keeps_at vc_rules ann)
  next
    case True
    then obtain vmi where vmi: "vhVmi m = Some vmi" "shouldGracefulDeleteVMI vmi" by blast
    show ?thesis
      unfolding DrainNodeIfNeeded_def Let_def vmi(1) option.case
      apply (simp add: vmi(2))
      apply (rule vcalls.keepsAt_bindE)
       apply (rule keeps_at [OF ann(2)])
      apply (rule vcalls.keepsAt_bindE)
       apply (rule keeps_at) apply (intro vc_rules node)
      apply (auto intro!: keeps_at [OF vcalls.keeps_pure(1)] finish vmi dest: drainGracePeriodExceeded_True drainNode_done split: if_splits)
      done
  qed
qed


section \<open>The grace period\<close>

lemma mapCopy_Some [simp]: "mapCopy (Some f) = f" "mapCopy None = Map.empty"
  by (simp_all add: mapCopy_def)

lemma setGraceAnnotation_lookup [simp]:
  "mlookup (mannotations (kvmMeta (setGraceAnnotation v k))) VmiDeletionGraceTime = v"
  by (simp add: setGraceAnnotation_def)

lemma annotateMachine_Inr:
  assumes "annotateMachine E m v s = (Inr u, s')"
  shows "sKM s' = vAnnotated E (vTrace s') (setGraceAnnotation v (sKM s))"
  using assms by (auto simp: annotateMachine_def vread_def changeKM_def vcall_Inr elim!: bindE_Inr)

text \<open>
  (C18) The deadline written to the machine is read back: while it is annotated, the grace period is over at
  every moment later than ten minutes after the annotation was made, and not over in the first 599 seconds
  (the text of the annotation has no fraction of a second). The check itself calls nothing then.
\<close>

theorem grace_period_roundtrip:
  assumes server: "\<And>cs k. vAnnotated E cs k = k"
    and set: "setVmiDeletionGraceTime E m s = (Inr (), s1)"
    and range: "- (2 ^ 63) \<le> vNow E (vTrace s)" "vNow E (vTrace s) + vmiDeleteGraceTimeout < 2 ^ 63"
    and later: "mlookup (mannotations (kvmMeta (sKM s2))) VmiDeletionGraceTime = mlookup (mannotations (kvmMeta (sKM s1))) VmiDeletionGraceTime"
  shows "\<exists>over. drainGracePeriodExceeded E m s2 = (Inr over, s2) \<and>
    (vNow E (vTrace s) + vmiDeleteGraceTimeout < vNow E (vTrace s2) \<longrightarrow> over) \<and>
    (vNow E (vTrace s2) \<le> vNow E (vTrace s) + 599 * 1000000000 \<longrightarrow> \<not> over)"
proof -
  let ?t = "vNow E (vTrace s) + vmiDeleteGraceTimeout"
  have "annotateMachine E m (Some (FormatRFC3339 ?t)) s = (Inr (), s1)"
    using set by (simp add: setVmiDeletionGraceTime_def wrapE_Inr)
  from annotateMachine_Inr [OF this]
  have "mlookup (mannotations (kvmMeta (sKM s2))) VmiDeletionGraceTime = Some (FormatRFC3339 ?t)"
    by (simp add: later server)
  moreover have "ParseRFC3339 (FormatRFC3339 ?t) = Some (?t div 1000000000 * 1000000000)"
    using range by (intro ParseRFC3339_Format64) simp_all
  ultimately have "drainGracePeriodExceeded E m s2 = (Inr (?t div 1000000000 * 1000000000 < vNow E (vTrace s2)), s2)"
    by (simp add: drainGracePeriodExceeded_def)
  then show ?thesis by (intro exI conjI) (assumption, linarith+)
qed

text \<open>
  When the grace period is over, the instance is deleted at once, whatever the node is doing: the
  first call of the run is the deletion, and the second removes the annotation.
\<close>

theorem drain_deadline:
  assumes "vhVmi m = Some vmi" and "shouldGracefulDeleteVMI vmi" and "graceOver E s"
    and "vOutcome E (vTrace s) (VDeleteVMI (vhInfra m) vmi) = None"
  shows "vTrace (snd (DrainNodeIfNeeded E m s)) =
    vTrace s @ [VDeleteVMI (vhInfra m) vmi, VAnnotateMachine (vhInfra m) (sKM s) None]"
proof -
  have "drainGracePeriodExceeded E m s = (Inr True, s)"
    using assms(3) by (auto simp: graceOver_def drainGracePeriodExceeded_def split: option.splits)
  then show ?thesis
    using assms(1,2,4)
    by (simp add: DrainNodeIfNeeded_def bindE_def removeGracePeriodAnnotation_def annotateMachine_def vread_def
        wrapE_def changeKM_def vcall_def split: option.splits)
qed

section \<open>The annotation and an external cluster\<close>

text \<open>
  (C21) With an infrastructure cluster of its own, the KubevirtMachine is not there, and the API answers that
  it is not found. The annotation can then never be set: an instance that has to be evacuated is neither
  drained nor deleted, and the reconciliation fails each time.
\<close>

theorem drain_stuck_external:
  assumes absent: "\<And>h k v. vOutcome E h (VAnnotateMachine (External ref) k v) = Some (NotFound ''kubevirtmachines'')"
    and "vhInfra m = External ref" and "vhVmi m = Some vmi" and "shouldGracefulDeleteVMI vmi"
    and "mlookup (mannotations (kvmMeta (sKM s))) VmiDeletionGraceTime = None"
  shows "DrainNodeIfNeeded E m s =
    (Inl (Wrap ''failed to add the annotation'' (NotFound ''kubevirtmachines'')), s\<lparr>vTrace := vTrace s @ [VAnnotateMachine (External ref) (sKM s)
      (Some (FormatRFC3339 (vNow E (vTrace s) + vmiDeleteGraceTimeout)))]\<rparr>)"
  using assms
  by (simp add: DrainNodeIfNeeded_def drainGracePeriodExceeded_def setVmiDeletionGraceTime_def annotateMachine_def
      bindE_def vread_def wrapE_def vcall_def)

section \<open>Examples\<close>

abbreviation "noRef \<equiv> \<lparr>refKind = [], refNamespace = [], refName = [], refUID = [], refAPIVersion = []\<rparr>"

definition kvSampleMachine :: Machine where
  "kvSampleMachine =
     \<lparr>mchMeta = emptyMeta\<lparr>mname := ''m'', mnamespace := ''ns'',
        mlabels := Some [''cluster.x-k8s.io/cluster-name'' \<mapsto> ''c'', MachineControlPlaneLabel \<mapsto> []]\<rparr>,
      mchSpec = \<lparr>spClusterName = ''c'', spBootstrap = \<lparr>bConfigRef = None, bDataSecretName = Some ''boot''\<rparr>,
        spInfrastructureRef = noRef\<lparr>refName := ''m''\<rparr>, spVersion = None, spProviderID = None, spFailureDomain = None,
        spNodeDrainTimeout = None, spNodeVolumeDetachTimeout = None, spNodeDeletionTimeout = None\<rparr>,
      mchStatus = \<lparr>stNodeRef = None, stNodeInfo = None, stLastUpdated = None, stFailureReason = None,
        stFailureMessage = None, stAddresses = [], stPhase = [], stCertificatesExpiryDate = None,
        stBootstrapReady = False, stInfrastructureReady = False, stObservedGeneration = 0, stConditions = []\<rparr>\<rparr>"

definition kvSampleCluster :: Cluster where
  "kvSampleCluster = \<lparr>clMeta = emptyMeta\<lparr>mname := ''c'', mnamespace := ''ns''\<rparr>,
     clSpec = \<lparr>clPaused = False, clControlPlaneEndpoint = \<lparr>epHost = [], epPort = 0\<rparr>, clControlPlaneRef = None,
       clInfrastructureRef = Some (noRef\<lparr>refName := ''c''\<rparr>), clTopology = None\<rparr>,
     clStatus = \<lparr>clFailureDomains = [], clFailureReason = None, clFailureMessage = None, clPhase = [],
       clInfrastructureReady = True, clControlPlaneReady = True, clConditions = [], clObservedGeneration = 0\<rparr>\<rparr>"

definition kvSampleKC :: KubevirtCluster where
  "kvSampleKC = \<lparr>kvcAPIVersion = ''infrastructure.cluster.x-k8s.io/v1alpha1'', kvcKind = ''KubevirtCluster'',
     kvcMeta = emptyMeta\<lparr>mname := ''c'', mnamespace := ''ns''\<rparr>,
     kvcSpec = \<lparr>kvcControlPlaneEndpoint = \<lparr>epHost = [], epPort = 0\<rparr>,
       kvcServiceTemplate = \<lparr>cstNamespace = [], cstLabels = Some [''a'' \<mapsto> ''b''], cstAnnotations = None, cstType = []\<rparr>,
       kvcSshKeys = \<lparr>skConfigRef = None, skDataSecretName = Some ''c-ssh-keys''\<rparr>, kvcInfraClusterSecretRef = None\<rparr>,
     kvcStatus = \<lparr>kvcReady = False, kvcFailureDomains = [], kvcConditions = []\<rparr>\<rparr>"

definition kvSampleVMISpec :: VMISpec where
  "kvSampleVMISpec = \<lparr>vspVolumes = [\<lparr>volName = ''root'', volClaim = None, volDataVolume = Some ''disk'', volUserDataSecret = None, volRest = []\<rparr>],
     vspDisks = [], vspEvictionStrategy = Some ''External'', vspRest = []\<rparr>"

definition kvSampleVMSpec :: VMSpec where
  "kvSampleVMSpec = \<lparr>vmsRunStrategy = Some ''Always'',
     vmsTemplate = Some \<lparr>vtLabels = None, vtAnnotations = None, vtSpec = kvSampleVMISpec\<rparr>,
     vmsDataVolumeTemplates = [\<lparr>dvtName = ''disk'', dvtRest = []\<rparr>], vmsRest = []\<rparr>"

definition kvSampleKM :: KubevirtMachine where
  "kvSampleKM = \<lparr>kvmMeta = emptyMeta\<lparr>mname := ''m'', mnamespace := ''ns'', mfinalizers := [MachineFinalizer]\<rparr>,
     kvmSpec = \<lparr>kvmTemplate = \<lparr>vtsNamespace = [], vtsLabels = None, vtsAnnotations = None, vtsSpec = kvSampleVMSpec\<rparr>,
       kvmProviderID = None, kvmCheckStrategy = [], kvmInfraClusterSecretRef = None\<rparr>,
     kvmStatus = \<lparr>kvmReady = False, kvmLoadBalancerConfigured = False, kvmAddresses = [], kvmConditions = [], kvmNodeUpdated = False,
       kvmFailureReason = None, kvmFailureMessage = None\<rparr>\<rparr>"

definition kvSampleVMI :: VMI where
  "kvSampleVMI = \<lparr>vmiMeta = emptyMeta\<lparr>mname := ''m''\<rparr>, vmiSpec = kvSampleVMISpec, vmiPhase = ''Running'', vmiEvacuationNodeName = ''n'',
     vmiConditions = [\<lparr>kcType = ''Ready'', kcStatus = ConditionTrue, kcReason = [], kcMessage = []\<rparr>], vmiInterfaces = [''10.0.0.1'']\<rparr>"

definition kvSampleVM :: VirtualMachine where
  "kvSampleVM = \<lparr>vmMeta = emptyMeta\<lparr>mname := ''m''\<rparr>, vmSpec = kvSampleVMSpec, vmPrintableStatus = [], vmConditions = []\<rparr>"

definition kvSampleCtx :: MachineContext where
  "kvSampleCtx = \<lparr>mcMachine = kvSampleMachine, mcCluster = Some kvSampleCluster, mcKubevirtCluster = Some kvSampleKC\<rparr>"

definition kvSampleHandle :: "infra \<Rightarrow> vmHandle" where
  "kvSampleHandle i = \<lparr>vhInfra = i, vhNamespace = ''ns'', vhContext = kvSampleCtx, vhVmi = Some kvSampleVMI, vhVm = Some kvSampleVM,
     vhDataVolumes = [], vhSshKeys = Some \<lparr>kyPublic = ''pub'', kyPrivate = ''key''\<rparr>\<rparr>"

text \<open>An environment in which every call succeeds but those that \<open>fails\<close> names.\<close>

definition kvSampleEnv :: "(vCall \<Rightarrow> err option) \<Rightarrow> vEnv" where
  "kvSampleEnv fails =
     \<lparr>vOutcome = \<lambda>_. fails, vNow = \<lambda>_. 0, vKubevirtMachine = \<lambda>_. kvSampleKM, vKubevirtCluster = \<lambda>_. kvSampleKC,
      vMachine = \<lambda>_. kvSampleMachine, vMachines = \<lambda>_. [kvSampleMachine], vCluster = \<lambda>_. kvSampleCluster,
      vSecret = \<lambda>_. \<lparr>seAPIVersion = [], seKind = [], seMeta = emptyMeta\<lparr>mname := ''boot''\<rparr>, seType = [],
        seData = Some [''value'' \<mapsto> ''v'', ''pub'' \<mapsto> ''pub'', ''key'' \<mapsto> ''key'']\<rparr>,
      vVMI = \<lambda>_. kvSampleVMI, vVM = \<lambda>_. kvSampleVM, vDataVolume = \<lambda>_. \<lparr>dvName = ''disk'', dvPhase = ''Succeeded'', dvConditions = []\<rparr>,
      vService = \<lambda>_. \<lparr>svMeta = emptyMeta\<lparr>mname := ''c-lb''\<rparr>, svType = [], svPort = 6443, svSelector = None, svClusterIP = ''10.0.0.9'', svIngress = []\<rparr>,
      vExtra = \<lambda>_. [], vNode = \<lambda>_. \<lparr>nodeMeta = emptyMeta\<lparr>mname := ''m''\<rparr>, nodeProviderID = [], nodeConditions = [], nodeTaints = []\<rparr>,
      vCommandOutput = \<lambda>_. ''success'', vKeys = \<lambda>_. (''pub'', ''key''), vAnnotated = \<lambda>_ k. k, vGroup = Inr,
      vIsFinal = \<lambda>_. False, vIsMigratable = \<lambda>_. True, vRunStrategy = \<lambda>_. Inr ''Always'', vConfigNamespace = \<lambda>_. Inr ''infra'',
      vConfigValid = \<lambda>_. Inr (), vUnmarshal = \<lambda>_. Inl (Err ''yaml''), vMarshal = \<lambda>_. Inl (Err ''yaml''), vErrText = \<lambda>_. []\<rparr>"

definition kvSampleState :: "KubevirtMachine \<Rightarrow> kmState" where
  "kvSampleState k = \<lparr>vTrace = [], sKM = k, sBootstrap = None\<rparr>"

lemma kvSample_simps [simp]:
  "vOutcome (kvSampleEnv f) h c = f c" "vNow (kvSampleEnv f) h = 0" "vKubevirtMachine (kvSampleEnv f) h = kvSampleKM"
  "vKubevirtCluster (kvSampleEnv f) h = kvSampleKC" "vMachine (kvSampleEnv f) h = kvSampleMachine" "vCluster (kvSampleEnv f) h = kvSampleCluster"
  "vVMI (kvSampleEnv f) h = kvSampleVMI" "vVM (kvSampleEnv f) h = kvSampleVM" "vAnnotated (kvSampleEnv f) h k = k"
  "vConfigValid (kvSampleEnv f) x = Inr ()" "vRunStrategy (kvSampleEnv f) vm = Inr ''Always''"
  "seData (vSecret (kvSampleEnv f) h) = Some [''value'' \<mapsto> ''v'', ''pub'' \<mapsto> ''pub'', ''key'' \<mapsto> ''key'']"
  "vhInfra (kvSampleHandle i) = i" "vhVmi (kvSampleHandle i) = Some kvSampleVMI" "vhContext (kvSampleHandle i) = kvSampleCtx"
  "vhVm (kvSampleHandle i) = Some kvSampleVM" "mcMachine kvSampleCtx = kvSampleMachine" "mcCluster kvSampleCtx = Some kvSampleCluster"
  "mcKubevirtCluster kvSampleCtx = Some kvSampleKC" "shouldGracefulDeleteVMI kvSampleVMI" "vmiEvacuationNodeName kvSampleVMI = ''n''"
  "mlookup (mannotations (kvmMeta kvSampleKM)) a = None" "vTrace (kvSampleState k) = []" "sKM (kvSampleState k) = k"
  by (simp_all add: kvSampleEnv_def kvSampleHandle_def kvSampleCtx_def shouldGracefulDeleteVMI_def kvSampleVMI_def kvSampleVMISpec_def
      kvSampleKM_def kvSampleState_def emptyMeta_def)

definition noNodeFails :: "vCall \<Rightarrow> err option" where
  "noNodeFails c = (case c of VGetNode n \<Rightarrow> Some (NotFound n) | _ \<Rightarrow> None)"


definition kvLaterEnv :: vEnv where
  "kvLaterEnv = (kvSampleEnv (\<lambda>_. None))\<lparr>vNow := \<lambda>h. int (length h) * 700 * 1000000000\<rparr>"

theorem grace_period_roundtrip_witness:
  "\<exists>s1. setVmiDeletionGraceTime kvLaterEnv (kvSampleHandle Internal) (kvSampleState kvSampleKM) = (Inr (), s1) \<and>
     drainGracePeriodExceeded kvLaterEnv (kvSampleHandle Internal) s1 = (Inr True, s1)"
proof -
  let ?m = "kvSampleHandle Internal" and ?s = "kvSampleState kvSampleKM"
  obtain s1 where set: "setVmiDeletionGraceTime kvLaterEnv ?m ?s = (Inr (), s1)" and len: "length (vTrace s1) = 1"
    by (auto simp: setVmiDeletionGraceTime_def annotateMachine_def bindE_def vread_def wrapE_def vcall_def changeKM_def
        kvLaterEnv_def kvSampleEnv_def kvSampleState_def)
  have now: "vNow kvLaterEnv [] = 0" "vNow kvLaterEnv (vTrace s1) = 700 * 1000000000"
    by (simp_all add: kvLaterEnv_def len)
  have ann: "vAnnotated kvLaterEnv cs k = k" for cs k by (simp add: kvLaterEnv_def kvSampleEnv_def)
  have "- (2 ^ 63) \<le> vNow kvLaterEnv (vTrace ?s)" "vNow kvLaterEnv (vTrace ?s) + vmiDeleteGraceTimeout < 2 ^ 63"
    by (simp_all add: now)
  from grace_period_roundtrip [OF ann set this refl] show ?thesis using set by (auto simp: now)
qed

theorem drain_deadline_witness:
  "\<exists>k. graceOver ((kvSampleEnv (\<lambda>_. None))\<lparr>vNow := \<lambda>_. 1\<rparr>) (kvSampleState k) \<and>
     vTrace (snd (DrainNodeIfNeeded ((kvSampleEnv (\<lambda>_. None))\<lparr>vNow := \<lambda>_. 1\<rparr>) (kvSampleHandle Internal) (kvSampleState k))) =
       [VDeleteVMI Internal kvSampleVMI, VAnnotateMachine Internal k None]"
proof -
  let ?E = "(kvSampleEnv (\<lambda>_. None))\<lparr>vNow := \<lambda>_. 1\<rparr>" and ?k = "setGraceAnnotation (Some (FormatRFC3339 0)) kvSampleKM"
  have over: "graceOver ?E (kvSampleState ?k)"
    using ParseRFC3339_Format64 [of 0] by (simp add: graceOver_def kvSampleState_def)
  from drain_deadline [of "kvSampleHandle Internal" kvSampleVMI, OF _ _ over] over show ?thesis
    by (intro exI [of _ ?k]) simp
qed

definition absentFails :: "vCall \<Rightarrow> err option" where
  "absentFails c = (case c of VAnnotateMachine (External _) _ _ \<Rightarrow> Some (NotFound ''kubevirtmachines'') | _ \<Rightarrow> None)"

theorem drain_stuck_external_witness:
  "fst (DrainNodeIfNeeded (kvSampleEnv absentFails) (kvSampleHandle (External noRef)) (kvSampleState kvSampleKM)) =
     Inl (Wrap ''failed to add the annotation'' (NotFound ''kubevirtmachines''))"
proof -
  have "vOutcome (kvSampleEnv absentFails) h (VAnnotateMachine (External noRef) k v) = Some (NotFound ''kubevirtmachines'')" for h k v
    by (simp add: absentFails_def)
  from drain_stuck_external [OF this, of "kvSampleHandle (External noRef)" kvSampleVMI "kvSampleState kvSampleKM"]
  show ?thesis by simp
qed

end
