(* ===== verification/KvMachineController.thy ===== *)
theory KvMachineController
  imports KvMachine VersionUtil
begin

text \<open>
  The controller of KubevirtMachines
  (\<open>src/cluster-api-provider-kubevirt/controllers/kubevirtmachine_controller.go\<close>, with
  \<open>PatchKubevirtMachine\<close> of \<open>pkg/context/machine_context.go\<close> and the helpers of
  \<open>src/cluster-api/util/util.go\<close> it uses).

  The deferred patch runs after a panic too, and the panic goes on. Durations are in milliseconds.
\<close>

abbreviation "waitFor n \<equiv> \<lparr>Requeue = False, RequeueAfter = n\<rparr>"

section \<open>Owners\<close>

fun GetOwnerMachine :: "vEnv \<Rightarrow> string \<Rightarrow> OwnerReference list \<Rightarrow> ('x vBase_scheme, Machine option) comp" where
  "GetOwnerMachine E ns [] = returnE None"
| "GetOwnerMachine E ns (ref # refs) =
     bindE (liftE (vGroup E (orAPIVersion ref))) (\<lambda>g.
       if orKind ref = ''Machine'' \<and> g = ''cluster.x-k8s.io''
       then bindE (vread E (VGetMachine ns (orName ref)) (vMachine E)) (\<lambda>m. returnE (Some m))
       else GetOwnerMachine E ns refs)"

definition GetClusterFromMetadata :: "vEnv \<Rightarrow> ObjMeta \<Rightarrow> ('x vBase_scheme, Cluster) comp" where
  "GetClusterFromMetadata E obj =
     (let name = mget (mlabels obj) ClusterNameLabel in
      if name = [] then failE (Err ''no cluster label present'')
      else wrapE ''failed to get Cluster'' (vread E (VGetCluster (mnamespace obj) name) (vCluster E)))"

fun GetOwnerCluster :: "vEnv \<Rightarrow> string \<Rightarrow> OwnerReference list \<Rightarrow> ('x vBase_scheme, Cluster option) comp" where
  "GetOwnerCluster E ns [] = returnE None"
| "GetOwnerCluster E ns (ref # refs) =
     (if orKind ref \<noteq> ''Cluster'' then GetOwnerCluster E ns refs
      else
        bindE (liftE (vGroup E (orAPIVersion ref))) (\<lambda>g.
          if g = ''cluster.x-k8s.io''
          then bindE (wrapE ''failed to get Cluster'' (vread E (VGetCluster ns (orName ref)) (vCluster E))) (\<lambda>c. returnE (Some c))
          else GetOwnerCluster E ns refs))"

text \<open>The requests a KubevirtCluster leads to: namespace and name of the machines of its cluster.\<close>

definition KubevirtClusterToKubevirtMachines :: "vEnv \<Rightarrow> KubevirtCluster \<Rightarrow> ('x vBase_scheme, (string \<times> string) list) comp" where
  "KubevirtClusterToKubevirtMachines E c =
     bindE (attemptE (GetOwnerCluster E (mnamespace (kvcMeta c)) (mownerReferences (kvcMeta c)))) (\<lambda>r.
       case r of
         Inl _ \<Rightarrow> returnE []
       | Inr None \<Rightarrow> returnE []
       | Inr (Some cluster) \<Rightarrow>
           bindE (attemptE (vread E (VListMachines (mnamespace (kvcMeta c)) (mname (clMeta cluster))) (vMachines E))) (\<lambda>l.
             case l of
               Inl _ \<Rightarrow> returnE []
             | Inr machines \<Rightarrow>
                 returnE (map (\<lambda>m. (mnamespace (mchMeta m), mchName m))
                   (filter (\<lambda>m. refName (spInfrastructureRef (mchSpec m)) \<noteq> []) machines))))"

section \<open>User data\<close>

text \<open>\<open>(?m)^#cloud-config\<close>: a line starts with the text.\<close>

definition hasCloudConfigHeader :: "string \<Rightarrow> bool" where
  "hasCloudConfigHeader s \<longleftrightarrow> list_ex (\<lambda>l. HasPrefix l ''#cloud-config'') (Split (CHR 10) s)"

definition withContent :: "yamlNode list \<Rightarrow> yamlNode \<Rightarrow> yamlNode" where
  "withContent ns n = YamlNode (yKind n) (yValue n) (yHead n) ns"

text \<open>The first comment of the document; the last one when all are empty.\<close>

definition headerComment :: "yamlNode \<Rightarrow> yamlNode \<Rightarrow> yamlNode \<Rightarrow> string" where
  "headerComment root data first =
     (if yHead root \<noteq> [] then yHead root else if yHead data \<noteq> [] then yHead data else yHead first)"

text \<open>The position of the value of a key in the alternating keys and values of a mapping.\<close>

fun keyValueAt :: "(yamlNode \<Rightarrow> yamlNode \<Rightarrow> bool) \<Rightarrow> nat \<Rightarrow> yamlNode list \<Rightarrow> nat option" where
  "keyValueAt P i (k # v # rest) = (if P k v then Some (Suc i) else keyValueAt P (i + 2) rest)"
| "keyValueAt P i _ = None"

definition usersAt :: "yamlNode list \<Rightarrow> nat option" where
  "usersAt sections = keyValueAt (\<lambda>k v. yKind v = SequenceNode \<and> yValue k = ''users'') 0 sections"

text \<open>A user is the one of the provider if the first name among its fields says so.\<close>

definition isCapkUser :: "yamlNode \<Rightarrow> bool" where
  "isCapkUser user =
     (case keyValueAt (\<lambda>k v. yValue k = ''name'') 0 (yContent user) of
        None \<Rightarrow> False | Some j \<Rightarrow> yValue (yContent user ! j) = ''capk'')"

fun replaceFirst :: "('a \<Rightarrow> bool) \<Rightarrow> 'a \<Rightarrow> 'a list \<Rightarrow> 'a list option" where
  "replaceFirst P new [] = None"
| "replaceFirst P new (x # xs) = (if P x then Some (new # xs) else map_option ((#) x) (replaceFirst P new xs))"

definition usersYaml :: "string \<Rightarrow> string" where
  "usersYaml key =
     ''users:'' @ [CHR 10] @ ''- name: capk'' @ [CHR 10] @ ''  gecos: CAPK User'' @ [CHR 10] @
     ''  sudo: ALL=(ALL) NOPASSWD:ALL'' @ [CHR 10] @ ''  groups: users, admin'' @ [CHR 10] @
     ''  ssh_authorized_keys:'' @ [CHR 10] @ ''  - '' @ key"

definition index :: "string \<Rightarrow> 'a list \<Rightarrow> nat \<Rightarrow> 'a res" where
  "index what xs i = (if i < length xs then Inr (xs ! i) else Inl (Panic what))"

definition usersYamlNodes :: "vEnv \<Rightarrow> string \<Rightarrow> (yamlNode \<times> yamlNode) res" where
  "usersYamlNodes E key =
     bindR (wrapR ''failed to render capk user as valid yaml'' (vUnmarshal E (usersYaml key))) (\<lambda>node.
     bindR (index ''node.Content[0]'' (yContent node) 0) (\<lambda>doc.
     bindR (index ''data[0]'' (yContent doc) 0) (\<lambda>k.
     bindR (index ''data[1]'' (yContent doc) 1) (\<lambda>v. Inr (k, v)))))"

text \<open>The users of the document with the user of the provider, replaced in place or added at the end.\<close>

definition withCapkUser :: "yamlNode \<Rightarrow> yamlNode list \<Rightarrow> yamlNode list res" where
  "withCapkUser usersWithCapk users =
     (if list_ex isCapkUser users
      then bindR (index ''usersWithCapk.Content[0]'' (yContent usersWithCapk) 0) (\<lambda>capk.
             Inr (case replaceFirst isCapkUser capk users of None \<Rightarrow> users | Some us \<Rightarrow> us))
      else Inr (users @ yContent usersWithCapk))"

definition addCapkUserToCloudInitConfig :: "vEnv \<Rightarrow> string \<Rightarrow> string \<Rightarrow> (string \<times> bool) res" where
  "addCapkUserToCloudInitConfig E userdata key =
     bindR (wrapR ''failed to parse userdata yaml'' (vUnmarshal E userdata)) (\<lambda>root.
       if yKind root \<noteq> DocumentNode \<or> length (yContent root) \<noteq> 1 then Inr (userdata, False)
       else
         let data = yContent root ! 0 in
         if yKind data \<noteq> MappingNode \<or> length (yContent data) = 0 then Inr (userdata, False)
         else if \<not> hasCloudConfigHeader (headerComment root data (yContent data ! 0)) then Inr (userdata, False)
         else
           bindR (usersYamlNodes E key) (\<lambda>(usersKey, usersWithCapk).
           bindR (case usersAt (yContent data) of
                    None \<Rightarrow> Inr (yContent data @ [usersKey, usersWithCapk])
                  | Some i \<Rightarrow>
                      bindR (withCapkUser usersWithCapk (yContent (yContent data ! i))) (\<lambda>us.
                        Inr ((yContent data)[i := withContent us (yContent data ! i)]))) (\<lambda>sections.
           bindR (vMarshal E (withContent [withContent sections data] root)) (\<lambda>ud. Inr (ud, True)))))"

section \<open>Secrets of the machine\<close>

definition reconcileKubevirtBootstrapSecret ::
  "vEnv \<Rightarrow> MachineContext \<Rightarrow> infra \<Rightarrow> string \<Rightarrow> ClusterNodeSshKeys option \<Rightarrow> (kmState, unit) comp" where
  "reconcileKubevirtBootstrapSecret E ctx infra vmNamespace sshKeys =
     (case bDataSecretName (spBootstrap (mchSpec (mcMachine ctx))) of
        None \<Rightarrow> failE (Err ''error retrieving bootstrap data: linked Machine's bootstrap.dataSecretName is nil'')
      | Some secretName \<Rightarrow>
          bindE (wrapE ''failed to retrieve bootstrap data secret for KubevirtMachine''
            (vread E (VGetSecret (mnamespace (mchMeta (mcMachine ctx))) secretName) (vSecret E))) (\<lambda>s.
            case mlookup (seData s) ''value'' of
              None \<Rightarrow> failE (Err ''error retrieving bootstrap data: secret value key is missing'')
            | Some v \<Rightarrow>
                bindE (case sshKeys of
                         None \<Rightarrow> returnE v
                       | Some k \<Rightarrow>
                           bindE (wrapE ''failed to add capk user to KubevirtMachine userdata''
                             (liftE (addCapkUserToCloudInitConfig E v (kyPublic k)))) (\<lambda>(ud, _). returnE ud)) (\<lambda>userdata.
                  let new = \<lparr>seAPIVersion = [], seKind = [], seMeta = emptyMeta\<lparr>mname := mname (seMeta s) @ ''-userdata'',
                              mnamespace := vmNamespace, mlabels := mlabels (seMeta s)\<rparr>, seType = [], seData = None\<rparr> in
                  bindE (modifyE (\<lambda>st. st\<lparr>sBootstrap := Some new\<rparr>)) (\<lambda>_.
                  bindE (wrapE ''failed to create kubevirt bootstrap secret for cluster''
                    (createOrUpdate E (VGetInfraSecret infra (mnamespace (seMeta new)) (mname (seMeta new))) (vSecret E)
                      (\<lambda>found. returnE ((foundOr new found)\<lparr>seType := kvClusterSecretType, seData := Some [''userdata'' \<mapsto> userdata]\<rparr>))
                      (VApplyInfraSecret infra))) (\<lambda>written.
                    modifyE (\<lambda>st. st\<lparr>sBootstrap := Some written\<rparr>))))))"

text \<open>Any error of the read counts as a secret that is not there.\<close>

definition deleteKubevirtBootstrapSecret :: "vEnv \<Rightarrow> MachineContext \<Rightarrow> infra \<Rightarrow> string \<Rightarrow> (kmState, unit) comp" where
  "deleteKubevirtBootstrapSecret E ctx infra vmNamespace =
     (case bDataSecretName (spBootstrap (mchSpec (mcMachine ctx))) of
        None \<Rightarrow> returnE ()
      | Some secretName \<Rightarrow>
          bindE (attemptE (vread E (VGetInfraSecret infra vmNamespace (secretName @ ''-userdata'')) (vSecret E))) (\<lambda>r.
            case r of
              Inl _ \<Rightarrow> returnE ()
            | Inr s \<Rightarrow> wrapE ''failed to delete kubevirt bootstrap secret for cluster'' (vcall E (VDeleteInfraSecret infra s))))"

section \<open>Reconciliation\<close>

definition machineHasKnownInternalIP :: "KubevirtMachine \<Rightarrow> bool" where
  "machineHasKnownInternalIP kvm \<longleftrightarrow> list_ex (\<lambda>(t, a). t = ''InternalIP'' \<and> a \<noteq> []) (kvmAddresses (kvmStatus kvm))"

definition setStatus :: "(KubevirtMachineStatus \<Rightarrow> KubevirtMachineStatus) \<Rightarrow> (kmState, unit) comp" where
  "setStatus f = changeKM (\<lambda>k. k\<lparr>kvmStatus := f (kvmStatus k)\<rparr>)"

definition markVM :: "vEnv \<Rightarrow> string \<Rightarrow> string \<Rightarrow> string \<Rightarrow> (kmState, unit) comp" where
  "markVM E reason severity message = markKM E (\<lambda>now cs. MarkFalse now cs VMProvisionedCondition reason severity message [])"

text \<open>The namespace of the virtual machine: that of the template, or that of the infrastructure cluster.\<close>

definition vmNamespaceFor :: "KubevirtMachine \<Rightarrow> string \<Rightarrow> string" where
  "vmNamespaceFor kvm infraClusterNamespace =
     (let ns = vtsNamespace (kvmTemplate (kvmSpec kvm)) in if ns = [] then infraClusterNamespace else ns)"

definition fetchKeys :: "vEnv \<Rightarrow> KubevirtCluster \<Rightarrow> (kmState, ClusterNodeSshKeys option + unit) comp" where
  "fetchKeys E kc =
     (if IsExternallyManaged (kvcMeta kc) then returnE (Inl None)
      else
        bindE (IsPersistedToSecret E kc) (\<lambda>persisted.
          if \<not> persisted then returnE (Inr ())
          else bindE (wrapE ''failed to fetch ssh keys for cluster nodes'' (FetchPersistedKeysFromSecret E kc)) (\<lambda>k. returnE (Inl (Some k)))))"

definition machineAddresses :: "string \<Rightarrow> string \<Rightarrow> (string \<times> string) list" where
  "machineAddresses name ip = [(''Hostname'', name), (''InternalIP'', ip), (''ExternalIP'', ip), (''InternalDNS'', name)]"

text \<open>A machine whose virtual machine runs and has an address: addresses, provider ID, readiness and migration.\<close>

definition reportMachine :: "vEnv \<Rightarrow> vmHandle \<Rightarrow> string \<Rightarrow> (kmState, ctrlResult) comp" where
  "reportMachine E m ip =
     bindE (getsE sKM) (\<lambda>kvm.
     bindE (setStatus (\<lambda>st. st\<lparr>kvmAddresses := machineAddresses (kvmName kvm) ip\<rparr>)) (\<lambda>_.
     bindE (if kvmProviderID (kvmSpec kvm) = None \<or> kvmProviderID (kvmSpec kvm) = Some []
            then attemptE (bindE (liftE (GenerateProviderID m kvm)) (\<lambda>p. changeKM (\<lambda>k. k\<lparr>kvmSpec := (kvmSpec k)\<lparr>kvmProviderID := Some p\<rparr>\<rparr>)))
            else returnE (Inr ())) (\<lambda>r.
       case r of
         Inl _ \<Rightarrow> returnE (waitFor 5000)
       | Inr _ \<Rightarrow>
           bindE (setStatus (\<lambda>st. st\<lparr>kvmReady := IsReady m\<rparr>)) (\<lambda>_.
             case IsLiveMigratable m of
               Inl _ \<Rightarrow> returnE (waitFor 10000)
             | Inr (liveMigratable, reason, message) \<Rightarrow>
                 bindE (markKM E (\<lambda>now cs.
                   if liveMigratable then MarkTrue now cs VMLiveMigratableCondition
                   else MarkFalse now cs VMLiveMigratableCondition reason ConditionSeverityInfo
                     (kvmName kvm @ '' is not a live migratable machine: '' @ message) [])) (\<lambda>_.
                   returnE emptyResult)))))"

definition checkBootstrap :: "vEnv \<Rightarrow> vmHandle \<Rightarrow> string \<Rightarrow> (kmState, ctrlResult) comp" where
  "checkBootstrap E m ip =
     bindE (getsE (\<lambda>s. SupportsCheckingIsBootstrapped m (sBootstrap s) \<and>
         \<not> IsTrue (kvmConditions (kvmStatus (sKM s))) BootstrapExecSucceededCondition)) (\<lambda>check.
       if \<not> check then reportMachine E m ip
       else
         bindE (IsBootstrapped E m) (\<lambda>bootstrapped.
           if \<not> bootstrapped then
             bindE (markKM E (\<lambda>now cs. MarkFalse now cs BootstrapExecSucceededCondition BootstrapFailedReason ConditionSeverityWarning
               ''VM not bootstrapped yet'' [])) (\<lambda>_.
             bindE (setStatus (\<lambda>st. st\<lparr>kvmReady := False\<rparr>)) (\<lambda>_. returnE (waitFor 10000)))
           else
             bindE (markKM E (\<lambda>now cs. MarkTrue now cs BootstrapExecSucceededCondition)) (\<lambda>_. reportMachine E m ip)))"

definition reconcileRunning :: "vEnv \<Rightarrow> vmHandle \<Rightarrow> (kmState, ctrlResult) comp" where
  "reconcileRunning E m =
     (if \<not> IsReady m then
        let (reason, message) = GetVMNotReadyReason m in
        bindE (markVM E reason ConditionSeverityInfo message) (\<lambda>_.
        bindE (setStatus (\<lambda>st. st\<lparr>kvmReady := False\<rparr>)) (\<lambda>_. returnE (waitFor 20000)))
      else
        bindE (markKM E (\<lambda>now cs. MarkTrue now cs VMProvisionedCondition)) (\<lambda>_.
          let ip = Address m in
          if ip = [] then
            bindE (getsE sKM) (\<lambda>kvm.
            bindE (if machineHasKnownInternalIP kvm then returnE () else setStatus (\<lambda>st. st\<lparr>kvmReady := False\<rparr>)) (\<lambda>_.
              returnE (waitFor 20000)))
          else
            bindE (wrapE ''failed to drain node'' (DrainNodeIfNeeded E m)) (\<lambda>retryDuration.
              if retryDuration > 0 then returnE (waitFor retryDuration) else checkBootstrap E m ip)))"

definition reconcileVM :: "vEnv \<Rightarrow> vmHandle \<Rightarrow> (kmState, ctrlResult) comp" where
  "reconcileVM E m =
     bindE (wrapE ''failed checking VM for terminal state'' (liftE (IsTerminal E m))) (\<lambda>(isTerminal, terminalReason).
     bindE (if isTerminal then setStatus (\<lambda>st. st\<lparr>kvmFailureReason := Some ''UpdateError'', kvmFailureMessage := Some terminalReason\<rparr>)
            else returnE ()) (\<lambda>_.
       if \<not> isTerminal \<and> \<not> Exists m then
         bindE (setStatus (\<lambda>st. st\<lparr>kvmReady := False\<rparr>)) (\<lambda>_.
         bindE (attemptE (Create E m)) (\<lambda>r.
           case r of
             Inl e \<Rightarrow>
               if isPanic e then failE e
               else bindE (markVM E VMCreateFailedReason ConditionSeverityError (''Failed vm creation: '' @ vErrText E e)) (\<lambda>_.
                 failE (Wrap ''failed to create VM instance'' e))
           | Inr _ \<Rightarrow> returnE (waitFor 20000)))
       else reconcileRunning E m))"

definition kvmReconcileNormal :: "vEnv \<Rightarrow> MachineContext \<Rightarrow> (kmState, ctrlResult) comp" where
  "kvmReconcileNormal E ctx =
     bindE (liftE (deref ''ctx.Cluster'' (mcCluster ctx))) (\<lambda>cluster.
     bindE (liftE (deref ''ctx.KubevirtCluster'' (mcKubevirtCluster ctx))) (\<lambda>kc.
       if bDataSecretName (spBootstrap (mchSpec (mcMachine ctx))) = None then
         bindE (markVM E
           (if \<not> IsControlPlaneMachine (mcMachine ctx) \<and> \<not> IsTrue (clConditions (clStatus cluster)) ControlPlaneInitializedCondition
            then WaitingForControlPlaneAvailableReason else WaitingForBootstrapDataReason) ConditionSeverityInfo []) (\<lambda>_.
           returnE emptyResult)
       else
         bindE (fetchKeys E kc) (\<lambda>keys.
           case keys of
             Inr _ \<Rightarrow> returnE (waitFor 10000)
           | Inl sshKeys \<Rightarrow>
               bindE (changeKM (\<lambda>k. if kvmInfraClusterSecretRef (kvmSpec k) = None
                 then k\<lparr>kvmSpec := (kvmSpec k)\<lparr>kvmInfraClusterSecretRef := kvcInfraClusterSecretRef (kvcSpec kc)\<rparr>\<rparr> else k)) (\<lambda>_.
               bindE (getsE sKM) (\<lambda>kvm.
               bindE (wrapE ''failed to generate infra cluster client''
                 (GenerateInfraClusterClient E (kvmInfraClusterSecretRef (kvmSpec kvm)) (mnamespace (kvmMeta kvm)))) (\<lambda>(client, infraNamespace).
                 case client of
                   None \<Rightarrow> returnE (waitFor 10000)
                 | Some infra \<Rightarrow>
                     let vmNamespace = vmNamespaceFor kvm infraNamespace in
                     bindE (attemptE (reconcileKubevirtBootstrapSecret E ctx infra vmNamespace sshKeys)) (\<lambda>r.
                       case r of
                         Inl e \<Rightarrow>
                           if isPanic e then failE e
                           else bindE (markVM E WaitingForBootstrapDataReason ConditionSeverityInfo []) (\<lambda>_.
                             failE (Wrap ''failed to fetch kubevirt bootstrap secret'' e))
                       | Inr _ \<Rightarrow>
                           bindE (wrapE ''failed to create helper for managing the externalMachine'' (NewMachine E ctx infra vmNamespace sshKeys)) (\<lambda>m.
                             reconcileVM E m))))))))"

definition updateNodeProviderID :: "vEnv \<Rightarrow> MachineContext \<Rightarrow> (kmState, ctrlResult) comp" where
  "updateNodeProviderID E ctx =
     bindE (getsE sKM) (\<lambda>kvm.
       if kvmNodeUpdated (kvmStatus kvm) then returnE emptyResult
       else
         bindE (attemptE (GenerateWorkloadClusterClient E ctx)) (\<lambda>r.
           case r of
             Inl e \<Rightarrow> if isPanic e then failE e else returnE (waitFor 10000)
           | Inr _ \<Rightarrow>
               bindE (wrapE ''failed to fetch workload cluster node'' (vfind E (VGetNode (kvmName kvm)) (vNode E))) (\<lambda>node.
                 case node of
                   None \<Rightarrow> returnE (waitFor 10000)
                 | Some n \<Rightarrow>
                     bindE (liftE (deref ''ctx.KubevirtMachine.Spec.ProviderID'' (kvmProviderID (kvmSpec kvm)))) (\<lambda>pid.
                       if nodeProviderID n = pid then returnE emptyResult
                       else
                         bindE (wrapE ''failed to patch workload cluster node'' (vcall E (VPatchNode (kvmName kvm) pid))) (\<lambda>_.
                         bindE (setStatus (\<lambda>st. st\<lparr>kvmNodeUpdated := True\<rparr>)) (\<lambda>_. returnE emptyResult))))))"

definition PatchKubevirtMachine :: "vEnv \<Rightarrow> KubevirtMachine \<Rightarrow> (kmState, unit) comp" where
  "PatchKubevirtMachine E original =
     bindE (modifyE (\<lambda>s. s\<lparr>sKM := setKvmConditions
        (SetSummary (vNowSec E (vTrace s))
           \<lparr>gkind = ''KubevirtMachine'', gname = kvmName (sKM s), gconditions = kvmConditions (kvmStatus (sKM s))\<rparr>
           [WithConditions [VMProvisionedCondition, BootstrapExecSucceededCondition]]) (sKM s)\<rparr>)) (\<lambda>_.
     bindE (getsE sKM) (\<lambda>kvm. vcall E (VPatchKubevirtMachine original kvm)))"

definition setKvmFinalizers :: "(string list \<Rightarrow> string list) \<Rightarrow> KubevirtMachine \<Rightarrow> KubevirtMachine" where
  "setKvmFinalizers f k = k\<lparr>kvmMeta := (kvmMeta k)\<lparr>mfinalizers := f (mfinalizers (kvmMeta k))\<rparr>\<rparr>"

text \<open>\<open>utilerrors.FilterOut\<close> with \<open>IsNotFound\<close>: nothing is left of errors that all say so.\<close>

fun onlyNotFound :: "err \<Rightarrow> bool" where
  "onlyNotFound (Aggregate es) = list_all onlyNotFound es"
| "onlyNotFound e = isNotFound e"

definition kvmReconcileDelete :: "vEnv \<Rightarrow> MachineContext \<Rightarrow> (kmState, ctrlResult) comp" where
  "kvmReconcileDelete E ctx =
     bindE (getsE sKM) (\<lambda>kvm.
     bindE (vcall E (VHelper (kvmName kvm))) (\<lambda>_.
     bindE (wrapE ''failed to generate infra cluster client''
       (GenerateInfraClusterClient E (kvmInfraClusterSecretRef (kvmSpec kvm)) (mnamespace (kvmMeta kvm)))) (\<lambda>(client, infraNamespace).
       case client of
         None \<Rightarrow> returnE (waitFor 10000)
       | Some infra \<Rightarrow>
           let vmNamespace = vmNamespaceFor kvm infraNamespace in
           bindE (wrapE ''failed to delete bootstrap secret'' (deleteKubevirtBootstrapSecret E ctx infra vmNamespace)) (\<lambda>_.
           bindE (wrapE ''failed to create helper for externalMachine access'' (NewMachine E ctx infra vmNamespace None)) (\<lambda>m.
           bindE (if Exists m then wrapE ''failed to delete VM'' (vmDelete E m) else returnE ()) (\<lambda>_.
           bindE (changeKM (setKvmFinalizers (filter (\<lambda>f. f \<noteq> MachineFinalizer)))) (\<lambda>_.
           bindE (markVM E DeletingReason ConditionSeverityInfo []) (\<lambda>_.
           bindE (attemptE (PatchKubevirtMachine E kvm)) (\<lambda>r.
             case r of
               Inl e \<Rightarrow> if onlyNotFound e then returnE emptyResult else failE (Wrap ''failed to patch KubevirtMachine'' e)
             | Inr _ \<Rightarrow> returnE emptyResult)))))))))"

text \<open>The run under the deferred patch; an error of the run goes before one of the patch.\<close>

definition reconcilePatched :: "vEnv \<Rightarrow> MachineContext \<Rightarrow> Cluster \<Rightarrow> (kmState, ctrlResult) comp" where
  "reconcilePatched E ctx cluster =
     bindE (getsE (\<lambda>s. MachineFinalizer \<in> set (mfinalizers (kvmMeta (sKM s))))) (\<lambda>hasFinalizer.
       if \<not> hasFinalizer then bindE (changeKM (setKvmFinalizers (\<lambda>fs. fs @ [MachineFinalizer]))) (\<lambda>_. returnE emptyResult)
       else if \<not> clInfrastructureReady (clStatus cluster) then
         bindE (markVM E WaitingForClusterInfrastructureReason ConditionSeverityInfo []) (\<lambda>_. returnE emptyResult)
       else
         bindE (kvmReconcileNormal E ctx) (\<lambda>res.
           if resultIsZero res then updateNodeProviderID E ctx else returnE res))"

definition kvmReconcileObject :: "vEnv \<Rightarrow> Machine \<Rightarrow> (kmState, ctrlResult) comp" where
  "kvmReconcileObject E machine =
     bindE (getsE sKM) (\<lambda>kvm.
       if \<not> timeIsZero (mdeletionTimestamp (kvmMeta kvm))
       then kvmReconcileDelete E \<lparr>mcMachine = machine, mcCluster = None, mcKubevirtCluster = None\<rparr>
       else
         bindE (GetClusterFromMetadata E (mchMeta machine)) (\<lambda>cluster.
         bindE (liftE (deref ''cluster.Spec.InfrastructureRef'' (clInfrastructureRef (clSpec cluster)))) (\<lambda>ref.
         bindE (attemptE (vread E (VGetKubevirtCluster (mnamespace (kvmMeta kvm)) (refName ref)) (vKubevirtCluster E))) (\<lambda>r.
           case r of
             Inl _ \<Rightarrow> returnE emptyResult
           | Inr kc \<Rightarrow>
               bindE (vcall E (VHelper (kvmName kvm))) (\<lambda>_.
               bindE (attemptE (reconcilePatched E \<lparr>mcMachine = machine, mcCluster = Some cluster, mcKubevirtCluster = Some kc\<rparr> cluster)) (\<lambda>res.
               bindE (attemptE (PatchKubevirtMachine E kvm)) (\<lambda>p.
                 case (res, p) of
                   (Inl e, _) \<Rightarrow> failE e
                 | (Inr _, Inl e) \<Rightarrow> failE e
                 | (Inr x, Inr _) \<Rightarrow> returnE x)))))))"

definition kvmReconcile :: "vEnv \<Rightarrow> (kmState, ctrlResult) comp" where
  "kvmReconcile E =
     bindE (vfind E VGetKubevirtMachine (vKubevirtMachine E)) (\<lambda>kvm.
       case kvm of
         None \<Rightarrow> returnE emptyResult
       | Some k \<Rightarrow>
           bindE (changeKM (\<lambda>_. k)) (\<lambda>_.
           bindE (GetOwnerMachine E (mnamespace (kvmMeta k)) (mownerReferences (kvmMeta k))) (\<lambda>machine.
             case machine of None \<Rightarrow> returnE emptyResult | Some m \<Rightarrow> kvmReconcileObject E m)))"

section \<open>Calls of a run\<close>

text \<open>Calls that neither write a virtual machine nor patch the KubevirtMachine.\<close>

definition plainCall :: "vCall \<Rightarrow> bool" where
  "plainCall c = (case c of VApplyVM _ _ \<Rightarrow> False | VPatchKubevirtMachine _ _ \<Rightarrow> False | _ \<Rightarrow> True)"

abbreviation "plainly m \<equiv> keeps (allowed vTrace (\<lambda>_. plainCall)) m"

lemma plainCall_simps [simp]: "\<not> plainCall (VApplyVM i vm)" "\<not> plainCall (VPatchKubevirtMachine a b)"
  by (simp_all add: plainCall_def)

lemma GetOwnerMachine_plain: "plainly (GetOwnerMachine E ns refs)"
proof (induction refs)
  case Nil
  show ?case unfolding GetOwnerMachine.simps by (intro vc_rules)
next
  case (Cons x xs)
  then show ?case unfolding GetOwnerMachine.simps by (intro vc_rules; simp add: plainCall_def)
qed

lemma clients_plain:
  "plainly (GenerateInfraClusterClient E ref ns)" "plainly (GenerateWorkloadClusterClient E ctx)"
  unfolding GenerateInfraClusterClient_def GenerateWorkloadClusterClient_def getKubeconfigForWorkloadCluster_def
  by (intro vc_rules; simp add: plainCall_def)+

lemma keys_plain: "plainly (fetchKeys E kc)"
  unfolding fetchKeys_def IsPersistedToSecret_def FetchPersistedKeysFromSecret_def GetKeysDataSecret_def
  by (intro vc_rules; simp add: plainCall_def)

lemma bootstrapSecret_plain:
  "plainly (reconcileKubevirtBootstrapSecret E ctx infra ns keys)" "plainly (deleteKubevirtBootstrapSecret E ctx infra ns)"
  unfolding reconcileKubevirtBootstrapSecret_def deleteKubevirtBootstrapSecret_def
  by (intro vc_rules vcalls.keeps_modifyE; simp add: plainCall_def allowed_def)+

lemma findDataVolumes_plain: "plainly (findDataVolumes E infra ns ts)"
proof (induction ts)
  case Nil
  show ?case unfolding findDataVolumes.simps by (intro vc_rules)
next
  case (Cons x xs)
  then show ?case unfolding findDataVolumes.simps by (intro vc_rules; simp add: plainCall_def)
qed

lemma NewMachine_plain: "plainly (NewMachine E ctx infra ns keys)"
  unfolding NewMachine_def by (intro vc_rules findDataVolumes_plain; simp add: plainCall_def)

lemma marks_plain: "plainly (markVM E a b c)" "plainly (setStatus f)"
  by (simp_all add: markVM_def setStatus_def)

lemma DrainNodeIfNeeded_plain: "plainly (DrainNodeIfNeeded E m)"
  unfolding DrainNodeIfNeeded_def
  by (intro vc_rules drainNode_quiet drainGracePeriodExceeded_quiet removeGracePeriodAnnotation_quiet;
      simp add: plainCall_def split: vCall.splits)

lemma reconcileRunning_plain: "plainly (reconcileRunning E m)"
  unfolding reconcileRunning_def checkBootstrap_def reportMachine_def IsBootstrapped_def IsBootstrappedWithSSH_def ExecuteCommand_def
  by (intro vc_rules DrainNodeIfNeeded_plain marks_plain changeKM_quiet; simp add: plainCall_def)

lemma updateNodeProviderID_plain: "plainly (updateNodeProviderID E ctx)"
  unfolding updateNodeProviderID_def by (intro vc_rules clients_plain marks_plain; simp add: plainCall_def)

lemma vmDelete_plain: "plainly (vmDelete E m)"
  unfolding vmDelete_def by (intro vc_rules; simp add: plainCall_def)

lemmas plain_rules = vc_rules GetOwnerMachine_plain clients_plain keys_plain bootstrapSecret_plain NewMachine_plain marks_plain
  reconcileRunning_plain updateNodeProviderID_plain vmDelete_plain changeKM_quiet

lemma plainly_at: "plainly m \<Longrightarrow> (\<And>h c. plainCall c \<Longrightarrow> ok h c) \<Longrightarrow> keepsAt (allowed vTrace ok) m s"
  by (auto simp: keepsAt_def dest: keepsD intro: allowed_mono)

lemma plainly_trace: "plainly m \<Longrightarrow> m s = (r, s') \<Longrightarrow> \<exists>cs. vTrace s' = vTrace s @ cs \<and> list_all plainCall cs"
  by (drule (1) keepsD) (auto simp: allowed_def okFrom_set list_all_iff)

text \<open>A part of a run that makes no such call, in front of the rest and behind it.\<close>

lemma plain_then:
  assumes "plainly m" and "\<And>h c. plainCall c \<Longrightarrow> ok h c"
    and "\<And>x s1 cs. m s = (Inr x, s1) \<Longrightarrow> vTrace s1 = vTrace s @ cs \<Longrightarrow> list_all plainCall cs \<Longrightarrow> keepsAt (allowed vTrace ok) (f x) s1"
  shows "keepsAt (allowed vTrace ok) (bindE m f) s"
proof (rule vcalls.keepsAt_bindE)
  show "keepsAt (allowed vTrace ok) m s" using assms(1,2) by (rule plainly_at)
  fix x s1 assume run: "m s = (Inr x, s1)"
  with plainly_trace [OF assms(1) this] show "keepsAt (allowed vTrace ok) (f x) s1" using assms(3) by blast
qed

lemma then_plain:
  assumes "keepsAt (allowed vTrace ok) m s" and "\<And>h c. plainCall c \<Longrightarrow> ok h c" and "\<And>x. plainly (f x)"
  shows "keepsAt (allowed vTrace ok) (bindE m f) s"
  by (rule vcalls.keepsAt_bindE [OF assms(1) plainly_at [OF assms(3)]]) (rule assms(2))

section \<open>What has happened\<close>

text \<open>A call of the trace satisfies the predicate together with its outcome.\<close>

definition happened :: "vEnv \<Rightarrow> (vCall \<Rightarrow> err option \<Rightarrow> bool) \<Rightarrow> vCall list \<Rightarrow> bool" where
  "happened E P h = list_ex (\<lambda>i. P (h ! i) (vOutcome E (take i h) (h ! i))) [0..<length h]"

lemma happened_append: "happened E P h \<Longrightarrow> happened E P (h @ cs)"
  by (fastforce simp: happened_def list_ex_iff nth_append)

lemma happened_snoc: "P c (vOutcome E h c) \<Longrightarrow> happened E P (h @ [c])"
  by (auto simp: happened_def list_ex_iff intro!: bexI [of _ "length h"])

text \<open>The virtual machine was not there, or its deletion was accepted; the secret was written.\<close>

definition vmGoneBy :: "vCall \<Rightarrow> err option \<Rightarrow> bool" where
  "vmGoneBy c out =
     (case c of
        VGetVM _ _ _ \<Rightarrow> (case out of None \<Rightarrow> False | Some e \<Rightarrow> isNotFound e)
      | VDeleteVM _ _ \<Rightarrow> out = None
      | _ \<Rightarrow> False)"

definition vmMissingBy :: "vCall \<Rightarrow> err option \<Rightarrow> bool" where
  "vmMissingBy c out = (case c of VGetVM _ _ _ \<Rightarrow> vmGoneBy c out | _ \<Rightarrow> False)"

definition secretBy :: "infra \<Rightarrow> vCall \<Rightarrow> err option \<Rightarrow> bool" where
  "secretBy i c out = (case c of VApplyInfraSecret j _ \<Rightarrow> j = i \<and> out = None | _ \<Rightarrow> False)"

lemma NewMachine_Inr:
  assumes "NewMachine E ctx infra ns keys s = (Inr m, s1)"
  shows "vhInfra m = infra" and "\<not> Exists m \<Longrightarrow> happened E vmMissingBy (vTrace s1)"
  using assms
  by (auto simp: NewMachine_def Exists_def vmMissingBy_def vmGoneBy_def elim!: bindE_Inr split: option.splits
      dest!: vfind_None intro!: happened_snoc)

lemma vmDelete_Inr: "vmDelete E m s = (Inr u, s1) \<Longrightarrow> happened E vmGoneBy (vTrace s1)"
  by (auto simp: vmDelete_def wrapE_Inr vcall_Inr vmGoneBy_def elim!: bindE_Inr split: option.splits
      dest!: vfind_None intro!: happened_snoc)

lemma happened_mono: "happened E P h \<Longrightarrow> (\<And>c out. P c out \<Longrightarrow> Q c out) \<Longrightarrow> happened E Q h"
  by (auto simp: happened_def list_ex_iff)

lemma happened_gone: "happened E vmMissingBy h \<Longrightarrow> happened E vmGoneBy h"
  by (erule happened_mono) (simp add: vmMissingBy_def split: vCall.splits)

lemma bootstrapSecret_Inr:
  "reconcileKubevirtBootstrapSecret E ctx infra ns keys s = (Inr u, s1) \<Longrightarrow> happened E (secretBy infra) (vTrace s1)"
  by (auto simp: reconcileKubevirtBootstrapSecret_def createOrUpdate_def Let_def wrapE_Inr vcall_Inr secretBy_def elim!: bindE_Inr
      split: option.splits intro!: happened_snoc)

section \<open>Deletion\<close>

definition patchOk :: "vEnv \<Rightarrow> vCall list \<Rightarrow> vCall \<Rightarrow> bool" where
  "patchOk E h c = (case c of VPatchKubevirtMachine _ _ \<Rightarrow> happened E vmGoneBy h | _ \<Rightarrow> True)"

lemma PatchKubevirtMachine_ok:
  assumes "happened E vmGoneBy (vTrace s)"
  shows "keepsAt (allowed vTrace (patchOk E)) (PatchKubevirtMachine E kvm) s"
  using assms by (auto simp: PatchKubevirtMachine_def keepsAt_def allowed_def patchOk_def dest!: vcall_state)

lemma plain_patchOk: "plainCall c \<Longrightarrow> patchOk E h c"
  by (simp add: plainCall_def patchOk_def split: vCall.splits)

lemma then_patch:
  assumes "plainly m"
    and "\<And>x s1 cs. m s = (Inr x, s1) \<Longrightarrow> vTrace s1 = vTrace s @ cs \<Longrightarrow> list_all plainCall cs \<Longrightarrow> keepsAt (allowed vTrace (patchOk E)) (f x) s1"
  shows "keepsAt (allowed vTrace (patchOk E)) (bindE m f) s"
  by (rule plain_then [OF assms(1) plain_patchOk assms(2)])

lemma kvmReconcileDelete_ok: "keepsAt (allowed vTrace (patchOk E)) (kvmReconcileDelete E ctx) s"
proof -
  let ?R = "allowed vTrace (patchOk E)"
  have finish: "keepsAt ?R (bindE (changeKM f) (\<lambda>_. bindE (markVM E a b c) (\<lambda>_.
      bindE (attemptE (PatchKubevirtMachine E kvm)) (\<lambda>r. case r of
        Inl e \<Rightarrow> if onlyNotFound e then returnE emptyResult else failE (Wrap w e) | Inr _ \<Rightarrow> returnE emptyResult)))) t"
    if "happened E vmGoneBy (vTrace t)" for f a b c w kvm t
    using that
    by (intro plain_then plain_rules plain_patchOk vcalls.keepsAt_attempt PatchKubevirtMachine_ok keeps_at)
      (auto intro: happened_append)
  have vm: "happened E vmGoneBy (vTrace t)"
    if "(if Exists m then wrapE w (vmDelete E m) else returnE ()) t1 = (Inr u, t)"
      and "wrapE w' (NewMachine E ctx infra ns None) t0 = (Inr m, t1)" for m w w' infra ns t0 t1 t u
    using that NewMachine_Inr [of E ctx infra ns None t0 m t1]
    by (auto simp: wrapE_Inr split: if_splits dest: vmDelete_Inr happened_gone)
  show ?thesis
    unfolding kvmReconcileDelete_def
    apply (rule then_patch, intro vc_rules)
    apply (rule then_patch, intro vc_rules, simp add: plainCall_def)
    apply (rule then_patch, intro plain_rules)
    apply (intro keepsAt_prod keepsAt_option keepsAt_let)
     apply (rule keeps_at, intro vc_rules)
    apply (rule then_patch, intro plain_rules)
    apply (rule then_patch, intro plain_rules)
    apply (rule then_patch, intro plain_rules)
    apply (rule finish)
    apply (rule vm; assumption)
    done
qed


section \<open>Creation\<close>

definition isApplyVM :: "vCall \<Rightarrow> bool" where
  "isApplyVM c = (case c of VApplyVM _ _ \<Rightarrow> True | _ \<Rightarrow> False)"

definition createOk :: "vEnv \<Rightarrow> vCall list \<Rightarrow> vCall \<Rightarrow> bool" where
  "createOk E h c =
     (case c of
        VApplyVM i vm \<Rightarrow> list_all (\<lambda>x. \<not> isApplyVM x) h \<and> happened E (secretBy i) h \<and> happened E vmMissingBy h
      | _ \<Rightarrow> True)"

lemma plain_createOk: "plainCall c \<Longrightarrow> createOk E h c"
  by (simp add: plainCall_def createOk_def split: vCall.splits)

lemma plain_no_vm: "list_all plainCall cs \<Longrightarrow> list_all (\<lambda>x. \<not> isApplyVM x) cs"
  by (auto simp: list_all_iff plainCall_def isApplyVM_def split: vCall.splits)

lemma then_create:
  assumes "plainly m"
    and "\<And>x s1 cs. m s = (Inr x, s1) \<Longrightarrow> vTrace s1 = vTrace s @ cs \<Longrightarrow> list_all plainCall cs \<Longrightarrow> keepsAt (allowed vTrace (createOk E)) (f x) s1"
  shows "keepsAt (allowed vTrace (createOk E)) (bindE m f) s"
  by (rule plain_then [OF assms(1) plain_createOk assms(2)])

lemma attempt_create:
  assumes "plainly m"
    and "\<And>r s1 cs. m s = (r, s1) \<Longrightarrow> vTrace s1 = vTrace s @ cs \<Longrightarrow> list_all plainCall cs \<Longrightarrow> keepsAt (allowed vTrace (createOk E)) (f r) s1"
  shows "keepsAt (allowed vTrace (createOk E)) (bindE (attemptE m) f) s"
  using plainly_trace [OF assms(1)] assms(2)
  by (intro vcalls.keepsAt_attempt plainly_at [OF assms(1) plain_createOk]) blast+

lemma plain_create: "plainly m \<Longrightarrow> keepsAt (allowed vTrace (createOk E)) m s"
  by (rule plainly_at [OF _ plain_createOk])

lemma Create_ok:
  assumes "list_all (\<lambda>x. \<not> isApplyVM x) (vTrace s)" and "happened E (secretBy (vhInfra m)) (vTrace s)" and "happened E vmMissingBy (vTrace s)"
  shows "keepsAt (allowed vTrace (createOk E)) (Create E m) s"
proof -
  have put: "keepsAt (allowed vTrace (createOk E)) (vcall E (VApplyVM (vhInfra m) vm)) t"
    if "vTrace t = vTrace s @ cs" and "list_all plainCall cs" for t cs vm
    using assms that by (intro vcall_keepsAt) (auto simp: createOk_def happened_append plain_no_vm)
  have pure: "keepsAt (allowed vTrace (createOk E)) (returnE x) t" for x t
    by (rule keeps_at, intro vc_rules)
  show ?thesis
    unfolding Create_def createOrUpdate_def
    apply (rule then_create, intro vc_rules)
    apply (rule then_create, intro vc_rules)
    apply (rule then_create, intro vc_rules)
    apply (rule vcalls.keepsAt_bindE [OF _ pure])
    apply (rule then_create, intro vc_rules, simp add: plainCall_def)
    apply (rule then_create, intro vc_rules)
    apply (rule vcalls.keepsAt_bindE [OF put pure])
    apply auto
    done
qed

lemma reconcileVM_ok:
  assumes "list_all (\<lambda>x. \<not> isApplyVM x) (vTrace s)" and "happened E (secretBy (vhInfra m)) (vTrace s)"
    and "\<not> Exists m \<Longrightarrow> happened E vmMissingBy (vTrace s)"
  shows "keepsAt (allowed vTrace (createOk E)) (reconcileVM E m) s"
  unfolding reconcileVM_def
  apply (rule then_create, intro plain_rules)
  apply (rule keepsAt_prod)
  apply (rule then_create, intro plain_rules)
  apply (rule keepsAt_if)
   apply (rule then_create, intro plain_rules)
   apply (rule vcalls.keepsAt_attempt)
    apply (rule Create_ok)
      apply (use assms plain_no_vm in \<open>auto intro!: happened_append\<close>) [3]
   apply (rule plain_create, intro plain_rules)
  apply (rule plain_create, intro plain_rules)
  done

lemma kvmReconcileNormal_ok:
  assumes "list_all (\<lambda>x. \<not> isApplyVM x) (vTrace s)"
  shows "keepsAt (allowed vTrace (createOk E)) (kvmReconcileNormal E ctx) s"
proof -
  have last: "keepsAt (allowed vTrace (createOk E)) (bindE (wrapE w (NewMachine E ctx infra ns keys)) (reconcileVM E)) t"
    if "list_all (\<lambda>x. \<not> isApplyVM x) (vTrace t)" "happened E (secretBy infra) (vTrace t)" for w infra ns keys t
    apply (rule then_create, intro plain_rules)
    apply (rule reconcileVM_ok)
    using that by (auto simp: wrapE_Inr happened_append plain_no_vm dest: NewMachine_Inr)
  show ?thesis
    unfolding kvmReconcileNormal_def
    apply (rule then_create, intro plain_rules)
    apply (rule then_create, intro plain_rules)
    apply (rule keepsAt_if)
     apply (rule plain_create, intro plain_rules)
    apply (rule then_create, intro plain_rules)
    apply (rule keepsAt_sum)
     prefer 2
     apply (rule plain_create, intro plain_rules)
    apply (rule then_create, intro plain_rules)
    apply (rule then_create, intro plain_rules)
    apply (rule then_create, intro plain_rules)
    apply (rule keepsAt_prod)
    apply (rule keepsAt_option)
     apply (rule plain_create, intro plain_rules)
    apply (rule keepsAt_let)
    apply (rule attempt_create, intro plain_rules)
    apply (rule keepsAt_sum)
     apply (rule plain_create, intro plain_rules)
    apply (rule last)
    using assms by (auto simp: plain_no_vm dest: bootstrapSecret_Inr)
qed

lemma plain_keeps: "plainly m \<Longrightarrow> keeps (allowed vTrace (createOk E)) m"
  by (auto simp: keeps_def intro: allowed_mono plain_createOk)

lemma PatchKubevirtMachine_create: "keeps (allowed vTrace (createOk E)) (PatchKubevirtMachine E kvm)"
  unfolding PatchKubevirtMachine_def by (intro vc_rules vcalls.keeps_modifyE; simp add: allowed_def createOk_def)

lemma kvmReconcileDelete_create: "keeps (allowed vTrace (createOk E)) (kvmReconcileDelete E ctx)"
  unfolding kvmReconcileDelete_def
  by (intro vcalls.keeps_rules PatchKubevirtMachine_create plain_keeps [OF clients_plain(1)] plain_keeps [OF NewMachine_plain]
      plain_keeps [OF bootstrapSecret_plain(2)] plain_keeps [OF vmDelete_plain] plain_keeps [OF marks_plain(1)]
      changeKM_quiet vcall_keeps; simp add: createOk_def)

lemma reconcilePatched_ok:
  assumes "list_all (\<lambda>x. \<not> isApplyVM x) (vTrace s)"
  shows "keepsAt (allowed vTrace (createOk E)) (reconcilePatched E ctx cluster) s"
  unfolding reconcilePatched_def
  apply (rule then_create, intro plain_rules)
  apply (rule keepsAt_if, rule plain_create, intro plain_rules)
  apply (rule keepsAt_if, rule plain_create, intro plain_rules)
  apply (rule then_plain [OF kvmReconcileNormal_ok plain_createOk])
    apply (use assms in \<open>simp add: plain_no_vm\<close>)
   apply assumption
  apply (intro plain_rules)
  done

lemma kvmReconcileObject_ok:
  assumes "list_all (\<lambda>x. \<not> isApplyVM x) (vTrace s)"
  shows "keepsAt (allowed vTrace (createOk E)) (kvmReconcileObject E machine) s"
proof -
  have meta: "plainly (GetClusterFromMetadata E md)" for md
    unfolding GetClusterFromMetadata_def by (intro vc_rules; simp add: plainCall_def)
  have get: "plainly (vread E (VGetKubevirtCluster ns n) (vKubevirtCluster E))" "plainly (vcall E (VHelper n))" for ns n
    by (intro vc_rules; simp add: plainCall_def)+
  show ?thesis
    unfolding kvmReconcileObject_def
    apply (rule then_create, intro plain_rules)
    apply (rule keepsAt_if, rule keeps_at [OF kvmReconcileDelete_create])
    apply (rule then_create, rule meta)
    apply (rule then_create, intro plain_rules)
    apply (rule attempt_create, rule get)
    apply (rule keepsAt_sum, rule plain_create, intro plain_rules)
    apply (rule then_create, rule get)
    apply (rule vcalls.keepsAt_attempt, rule reconcilePatched_ok)
     apply (use assms in \<open>simp add: plain_no_vm\<close>)
    apply (rule keeps_at)
    apply (intro vc_rules PatchKubevirtMachine_create)
    done
qed


section \<open>Examples\<close>

definition kvOwnedKM :: KubevirtMachine where
  "kvOwnedKM = kvSampleKM\<lparr>kvmMeta := (kvmMeta kvSampleKM)\<lparr>mownerReferences :=
     [\<lparr>orAPIVersion = ''cluster.x-k8s.io'', orKind = ''Machine'', orName = ''m'', orUID = [], orController = None, orBlockOwnerDeletion = None\<rparr>]\<rparr>\<rparr>"

definition kvManagedKC :: KubevirtCluster where
  "kvManagedKC = kvSampleKC\<lparr>kvcMeta := (kvcMeta kvSampleKC)\<lparr>mannotations := Some [''cluster.x-k8s.io/managed-by'' \<mapsto> []]\<rparr>\<rparr>"

definition noVMFails :: "vCall \<Rightarrow> err option" where
  "noVMFails c = (case c of VGetVM _ _ n \<Rightarrow> Some (NotFound n) | VGetVMI _ _ n \<Rightarrow> Some (NotFound n) | _ \<Rightarrow> None)"

definition kvCreateEnv :: vEnv where
  "kvCreateEnv = (kvSampleEnv noVMFails)\<lparr>vKubevirtMachine := \<lambda>_. kvOwnedKM, vKubevirtCluster := \<lambda>_. kvManagedKC\<rparr>"

definition isPatchKM :: "vCall \<Rightarrow> bool" where
  "isPatchKM c = (case c of VPatchKubevirtMachine _ _ \<Rightarrow> True | _ \<Rightarrow> False)"

lemma isApplyVMD: "isApplyVM c \<Longrightarrow> \<exists>i vm. c = VApplyVM i vm"
  by (cases c) (simp_all add: isApplyVM_def)

lemma isPatchKMD: "isPatchKM c \<Longrightarrow> \<exists>a b. c = VPatchKubevirtMachine a b"
  by (cases c) (simp_all add: isPatchKM_def)

lemma kvSample_fields [simp]:
  "kvmInfraClusterSecretRef (kvmSpec kvSampleKM) = None" "kvmName kvSampleKM = ''m''" "mnamespace (kvmMeta kvSampleKM) = ''ns''"
  "bDataSecretName (spBootstrap (mchSpec kvSampleMachine)) = Some ''boot''" "vmsDataVolumeTemplates (vmSpec kvSampleVM) = [\<lparr>dvtName = ''disk'', dvtRest = []\<rparr>]"
  "kvmStatus kvOwnedKM = kvmStatus kvSampleKM" "kvmSpec kvOwnedKM = kvmSpec kvSampleKM" "kvmName kvOwnedKM = ''m''" "mnamespace (kvmMeta kvOwnedKM) = ''ns''"
  "mfinalizers (kvmMeta kvOwnedKM) = [MachineFinalizer]" "mdeletionTimestamp (kvmMeta kvOwnedKM) = None"
  by (simp_all add: kvSampleKM_def kvSampleMachine_def kvSampleVM_def kvSampleVMSpec_def kvOwnedKM_def emptyMeta_def)

lemmas run_defs = GenerateInfraClusterClient_def NewMachine_def vfind_def vread_def vcall_def bindE_def wrapE_def attemptE_def
  markVM_def markKM_def setStatus_def changeKM_def PatchKubevirtMachine_def Let_def

lemma sample_deletes: "list_ex isPatchKM (vTrace (snd (kvmReconcileDelete (kvSampleEnv (\<lambda>_. None)) kvSampleCtx (kvSampleState kvSampleKM))))"
  by (simp add: kvmReconcileDelete_def deleteKubevirtBootstrapSecret_def vmDelete_def Exists_def run_defs isPatchKM_def)

lemma kvCreate_simps [simp]:
  "vOutcome kvCreateEnv h c = noVMFails c" "vKubevirtMachine kvCreateEnv h = kvOwnedKM" "vKubevirtCluster kvCreateEnv h = kvManagedKC"
  "vMachine kvCreateEnv h = kvSampleMachine" "vCluster kvCreateEnv h = kvSampleCluster" "vGroup kvCreateEnv x = Inr x"
  "seData (vSecret kvCreateEnv h) = Some [''value'' \<mapsto> ''v'', ''pub'' \<mapsto> ''pub'', ''key'' \<mapsto> ''key'']"
  "IsExternallyManaged (kvcMeta kvManagedKC)" "kvcInfraClusterSecretRef (kvcSpec kvManagedKC) = None"
  "mget (mlabels (mchMeta kvSampleMachine)) ClusterNameLabel = ''c''" "mnamespace (mchMeta kvSampleMachine) = ''ns''"
  "clInfrastructureRef (clSpec kvSampleCluster) = Some (noRef\<lparr>refName := ''c''\<rparr>)" "clInfrastructureReady (clStatus kvSampleCluster)"
  "mownerReferences (kvmMeta kvOwnedKM) =
     [\<lparr>orAPIVersion = ''cluster.x-k8s.io'', orKind = ''Machine'', orName = ''m'', orUID = [], orController = None, orBlockOwnerDeletion = None\<rparr>]"
  "vmsTemplate (vtsSpec (kvmTemplate (kvmSpec kvSampleKM))) = Some \<lparr>vtLabels = None, vtAnnotations = None, vtSpec = kvSampleVMISpec\<rparr>"
  by (simp_all add: kvCreateEnv_def kvSampleEnv_def kvManagedKC_def IsExternallyManaged_def kvSampleKC_def kvSampleMachine_def
      kvSampleCluster_def kvOwnedKM_def kvSampleKM_def kvSampleVMSpec_def emptyMeta_def timeIsZero_def
      hasAnnotation_def ManagedByAnnotation_def label_names MachineControlPlaneLabel_def)

lemma sample_new_vm:
  "\<exists>vm vm'. newVirtualMachineFromKubevirtMachine \<lparr>mcMachine = kvSampleMachine, mcCluster = Some kvSampleCluster, mcKubevirtCluster = Some kvManagedKC\<rparr>
      kvOwnedKM' ns = Inr vm \<and> labelVM kvSampleCluster kvOwnedKM' vm = Inr vm'"
  if "kvmSpec kvOwnedKM' = kvmSpec kvSampleKM" for kvOwnedKM'
  using that by (simp add: newVirtualMachineFromKubevirtMachine_def buildVirtualMachineInstanceTemplate_def labelVM_def bindR_def deref_def
      prefixDataVolumeTemplates_def Let_def)

lemma sample_reconcileVM:
  assumes "kvmSpec (sKM t) = kvmSpec kvSampleKM" and "vhVm m = None"
    and "vhContext m = \<lparr>mcMachine = kvSampleMachine, mcCluster = Some kvSampleCluster, mcKubevirtCluster = Some kvManagedKC\<rparr>"
  shows "\<exists>t'. reconcileVM kvCreateEnv m t = (Inr (waitFor 20000), t') \<and> list_ex isApplyVM (vTrace t')"
proof -
  obtain vm vm' where "newVirtualMachineFromKubevirtMachine (vhContext m) (sKM t\<lparr>kvmStatus := (kvmStatus (sKM t))\<lparr>kvmReady := False\<rparr>\<rparr>) (vhNamespace m) = Inr vm"
      "labelVM kvSampleCluster (sKM t\<lparr>kvmStatus := (kvmStatus (sKM t))\<lparr>kvmReady := False\<rparr>\<rparr>) vm = Inr vm'"
    using sample_new_vm [of "sKM t\<lparr>kvmStatus := (kvmStatus (sKM t))\<lparr>kvmReady := False\<rparr>\<rparr>"] assms by fastforce
  with assms show ?thesis
    by (simp add: reconcileVM_def IsTerminal_def Exists_def Create_def createOrUpdate_def foundOr_def deref_def run_defs noVMFails_def isApplyVM_def)
qed

lemma sample_normal:
  assumes "kvmSpec (sKM t) = kvmSpec kvSampleKM"
  shows "\<exists>t'. kvmReconcileNormal kvCreateEnv \<lparr>mcMachine = kvSampleMachine, mcCluster = Some kvSampleCluster, mcKubevirtCluster = Some kvManagedKC\<rparr> t =
      (Inr (waitFor 20000), t') \<and> list_ex isApplyVM (vTrace t')"
  using assms
  apply (simp add: kvmReconcileNormal_def fetchKeys_def reconcileKubevirtBootstrapSecret_def createOrUpdate_def deref_def run_defs noVMFails_def)
  apply (rule sample_reconcileVM)
    apply (simp_all add: kvSampleKM_def)
  done

lemma sample_creates: "list_ex isApplyVM (vTrace (snd (kvmReconcile kvCreateEnv (kvSampleState kvSampleKM))))"
proof -
  define t where "t = \<lparr>vTrace = [VGetKubevirtMachine, VGetMachine ''ns'' ''m'', VGetCluster ''ns'' ''c'', VGetKubevirtCluster ''ns'' ''c'', VHelper ''m''],
    sKM = kvOwnedKM, sBootstrap = None\<rparr>"
  obtain t' where "kvmReconcileNormal kvCreateEnv \<lparr>mcMachine = kvSampleMachine, mcCluster = Some kvSampleCluster, mcKubevirtCluster = Some kvManagedKC\<rparr> t =
      (Inr (waitFor 20000), t')" "list_ex isApplyVM (vTrace t')"
    using sample_normal [of t] by (auto simp: t_def)
  then show ?thesis
    by (simp add: kvmReconcile_def kvmReconcileObject_def GetClusterFromMetadata_def reconcilePatched_def deref_def timeIsZero_def
      resultIsZero_def run_defs noVMFails_def kvSampleState_def t_def)
qed



section \<open>Readiness\<close>

abbreviation "ready s \<equiv> kvmReady (kvmStatus (sKM s))"
abbreviation "conds s \<equiv> kvmConditions (kvmStatus (sKM s))"

lemma setKvmConditions_status [simp]:
  "kvmReady (kvmStatus (setKvmConditions cs k)) = kvmReady (kvmStatus k)" "kvmConditions (kvmStatus (setKvmConditions cs k)) = cs"
  by (simp_all add: setKvmConditions_def)

text \<open>
  A step that leaves the status alone: it changes neither readiness nor conditions, nor the bootstrap
  secret the machine context holds.
\<close>

definition sameStatus :: "kmState \<Rightarrow> kmState \<Rightarrow> bool" where
  "sameStatus s s' \<longleftrightarrow> kvmStatus (sKM s') = kvmStatus (sKM s) \<and> sBootstrap s' = sBootstrap s"

interpretation status_rel: state_relation sameStatus
  by unfold_locales (simp_all add: sameStatus_def)

lemma vcall_sameStatus: "keeps sameStatus (vcall E c)"
  by (auto simp: keeps_def sameStatus_def dest!: vcall_state)

lemma vread_sameStatus: "keeps sameStatus (vread E c f)"
  unfolding vread_def by (intro status_rel.keeps_rules vcall_sameStatus)

lemma vfind_sameStatus: "keeps sameStatus (vfind E c f)"
  unfolding vfind_def by (intro status_rel.keeps_rules vread_sameStatus)

lemmas status_rules = status_rel.keeps_rules vcall_sameStatus vread_sameStatus vfind_sameStatus

lemma Create_sameStatus: "keeps sameStatus (Create E m)"
  unfolding Create_def createOrUpdate_def by (intro status_rules)

lemma IsBootstrapped_sameStatus: "keeps sameStatus (IsBootstrapped E m)"
  unfolding IsBootstrapped_def IsBootstrappedWithSSH_def ExecuteCommand_def by (intro status_rules)

lemma DrainNodeIfNeeded_sameStatus:
  assumes "\<And>cs k. kvmStatus (vAnnotated E cs k) = kvmStatus k"
  shows "keeps sameStatus (DrainNodeIfNeeded E m)"
proof -
  have ann: "keeps sameStatus (annotateMachine E m v)" for v
    by (auto simp: keeps_def annotateMachine_def vread_def changeKM_def sameStatus_def assms setGraceAnnotation_def
        elim!: bindE_cases dest!: vcall_state)
  show ?thesis
    unfolding DrainNodeIfNeeded_def removeGracePeriodAnnotation_def drainGracePeriodExceeded_def setVmiDeletionGraceTime_def drainNode_def
      GenerateWorkloadClusterClient_def getKubeconfigForWorkloadCluster_def
    by (intro status_rules ann)
qed

lemma marks:
  assumes "wfConditions cs"
  shows "IsTrue (MarkTrue now cs t) t" and "wfConditions (MarkTrue now cs t)" and "wfConditions (MarkFalse now cs t r sev fm args)"
    and "u \<noteq> t \<Longrightarrow> IsTrue (MarkTrue now cs t) u = IsTrue cs u" and "u \<noteq> t \<Longrightarrow> IsTrue (MarkFalse now cs t r sev fm args) u = IsTrue cs u"
  using assms getter_object.mark_true [of "\<lparr>gkind = [], gname = [], gconditions = cs\<rparr>"]
    getter_object.mark_wf [of "\<lparr>gkind = [], gname = [], gconditions = cs\<rparr>"]
    getter_object.mark_frame [of "\<lparr>gkind = [], gname = [], gconditions = cs\<rparr>" u t]
  by (simp_all add: IsTrue_def)

lemma reportMachine_status:
  assumes "reportMachine E m ip s = (r, s')" and "wfConditions (conds s)"
  shows "ready s' \<longrightarrow> ready s \<or> IsReady m" and "IsTrue (conds s') BootstrapExecSucceededCondition = IsTrue (conds s) BootstrapExecSucceededCondition"
  using assms
  by (auto simp: reportMachine_def setStatus_def changeKM_def markKM_def marks elim!: bindE_cases split: sum.splits if_splits)

lemma checkBootstrap_ready:
  assumes "checkBootstrap E m ip s = (r, s')" and "wfConditions (conds s)" and "\<not> ready s" and "ready s'"
  shows "IsReady m \<and> (SupportsCheckingIsBootstrapped m (sBootstrap s) \<longrightarrow> IsTrue (conds s') BootstrapExecSucceededCondition)"
proof (cases "SupportsCheckingIsBootstrapped m (sBootstrap s) \<and> \<not> IsTrue (conds s) BootstrapExecSucceededCondition")
  case False
  then have "reportMachine E m ip s = (r, s')" using assms(1) by (simp add: checkBootstrap_def)
  from reportMachine_status [OF this assms(2)] False assms(3,4) show ?thesis by auto
next
  case True
  obtain b s1 where b: "IsBootstrapped E m s = (Inr b, s1)"
    using assms(1,3,4) keepsD [OF IsBootstrapped_sameStatus, of E m s]
    by (cases "IsBootstrapped E m s"; cases "fst (IsBootstrapped E m s)")
      (auto simp: checkBootstrap_def True bindE_def sameStatus_def)
  then have same: "sameStatus s s1" by (rule keepsD [OF IsBootstrapped_sameStatus])
  show ?thesis
  proof (cases b)
    case False
    with assms(1,4) b show ?thesis by (auto simp: checkBootstrap_def True bindE_def setStatus_def changeKM_def markKM_def)
  next
    case True
    define t where "t = s1\<lparr>sKM := setKvmConditions (MarkTrue (vNowSec E (vTrace s1)) (conds s1) BootstrapExecSucceededCondition) (sKM s1)\<rparr>"
    have "reportMachine E m ip t = (r, s')"
      using assms(1) b \<open>SupportsCheckingIsBootstrapped m (sBootstrap s) \<and> _\<close> True
      by (simp add: checkBootstrap_def bindE_def markKM_def t_def)
    moreover have "\<not> ready t" "wfConditions (conds t)" "IsTrue (conds t) BootstrapExecSucceededCondition"
      using same assms(2,3) by (simp_all add: t_def sameStatus_def marks)
    ultimately show ?thesis using reportMachine_status assms(4) by blast
  qed
qed

lemma reconcileRunning_ready:
  assumes server: "\<And>cs k. kvmStatus (vAnnotated E cs k) = kvmStatus k"
    and run: "reconcileRunning E m s = (r, s')" and wf: "wfConditions (conds s)" and "\<not> ready s" and "ready s'"
  shows "IsReady m \<and> Address m \<noteq> [] \<and> (SupportsCheckingIsBootstrapped m (sBootstrap s) \<longrightarrow> IsTrue (conds s') BootstrapExecSucceededCondition)"
proof (cases "IsReady m \<and> Address m \<noteq> []")
  case False
  then show ?thesis
    using run assms(4,5)
    by (auto simp: reconcileRunning_def markVM_def markKM_def setStatus_def changeKM_def Let_def split: prod.splits if_splits)
next
  case True
  define t where "t = s\<lparr>sKM := setKvmConditions (MarkTrue (vNowSec E (vTrace s)) (conds s) VMProvisionedCondition) (sKM s)\<rparr>"
  have t: "\<not> ready t" "wfConditions (conds t)" "sBootstrap t = sBootstrap s" using wf assms(4) by (simp_all add: t_def marks)
  obtain rd t1 where drain: "DrainNodeIfNeeded E m t = (rd, t1)" by fastforce
  then have same: "sameStatus t t1" by (rule keepsD [OF DrainNodeIfNeeded_sameStatus [OF server]])
  then have "\<not> ready t1" using t by (simp add: sameStatus_def)
  then have "checkBootstrap E m (Address m) t1 = (r, s')"
    using run True drain assms(5)
    by (auto simp: reconcileRunning_def markKM_def Let_def t_def [symmetric] bindE_def wrapE_def split: sum.splits if_splits)
  from checkBootstrap_ready [OF this] same t True assms(5) show ?thesis by (simp add: sameStatus_def)
qed


text \<open>
  (C22) While there is no bootstrap data, a run of a machine whose provider ID is not set yet gets as far as the
  node of the workload cluster, and reads the provider ID through a nil pointer when there is a node of that
  name.
\<close>

theorem nil_provider_id_panics:
  assumes "bDataSecretName (spBootstrap (mchSpec (mcMachine ctx))) = None" and "mcCluster ctx = Some cluster" and "mcKubevirtCluster ctx = Some kc"
    and "MachineFinalizer \<in> set (mfinalizers (kvmMeta (sKM s)))" and "clInfrastructureReady (clStatus cluster)"
    and "\<not> kvmNodeUpdated (kvmStatus (sKM s))" and "kvmProviderID (kvmSpec (sKM s)) = None"
    and up: "\<And>h c. vOutcome E h c = None" "mlookup (seData (vSecret E (vTrace s @ [VGetSecret (mnamespace (kvcMeta kc)) (mname (clMeta cluster) @ ''-kubeconfig'')]))) ''value'' = Some v"
      "vConfigValid E v = Inr ()"
  shows "fst (reconcilePatched E ctx cluster s) = Inl (Panic ''ctx.KubevirtMachine.Spec.ProviderID'')"
  using assms
  by (simp add: reconcilePatched_def kvmReconcileNormal_def updateNodeProviderID_def GenerateWorkloadClusterClient_def
      getKubeconfigForWorkloadCluster_def deref_def resultIsZero_def setKvmConditions_def run_defs)

definition kvReadyHandle :: vmHandle where
  "kvReadyHandle = (kvSampleHandle Internal)\<lparr>vhVmi := Some (kvSampleVMI\<lparr>vmiEvacuationNodeName := []\<rparr>)\<rparr>"

lemma kvReady_simps [simp]:
  "IsReady kvReadyHandle" "Address kvReadyHandle = ''10.0.0.1''" "Exists kvReadyHandle" "IsTerminal (kvSampleEnv f) kvReadyHandle = Inr (False, [])"
  "shouldGracefulDeleteVMI (kvSampleVMI\<lparr>vmiEvacuationNodeName := []\<rparr>) = False" "vhVmi kvReadyHandle = Some (kvSampleVMI\<lparr>vmiEvacuationNodeName := []\<rparr>)"
  "SupportsCheckingIsBootstrapped kvReadyHandle None = False"
  by (simp_all add: kvReadyHandle_def IsReady_def hasReadyCondition_def Address_def Exists_def IsTerminal_def kvSampleVMI_def kvSampleVM_def
      kvSampleHandle_def kvSampleEnv_def shouldGracefulDeleteVMI_def SupportsCheckingIsBootstrapped_def HasInjectedCapkSSHKeys_def emptyMeta_def)


theorem nil_provider_id_panics_witness:
  "fst (reconcilePatched (kvSampleEnv (\<lambda>_. None))
     (kvSampleCtx\<lparr>mcMachine := kvSampleMachine\<lparr>mchSpec := (mchSpec kvSampleMachine)\<lparr>spBootstrap := \<lparr>bConfigRef = None, bDataSecretName = None\<rparr>\<rparr>\<rparr>\<rparr>)
     kvSampleCluster (kvSampleState kvSampleKM)) = Inl (Panic ''ctx.KubevirtMachine.Spec.ProviderID'')"
proof -
  let ?ctx = "kvSampleCtx\<lparr>mcMachine := kvSampleMachine\<lparr>mchSpec := (mchSpec kvSampleMachine)\<lparr>spBootstrap := \<lparr>bConfigRef = None, bDataSecretName = None\<rparr>\<rparr>\<rparr>\<rparr>"
  have "kvmProviderID (kvmSpec kvSampleKM) = None" "\<not> kvmNodeUpdated (kvmStatus kvSampleKM)" "MachineFinalizer \<in> set (mfinalizers (kvmMeta kvSampleKM))"
    by (simp_all add: kvSampleKM_def)
  with nil_provider_id_panics [of ?ctx kvSampleCluster kvSampleKC "kvSampleState kvSampleKM" "kvSampleEnv (\<lambda>_. None)" "''v''"]
  show ?thesis by simp
qed

section \<open>The user of the provider\<close>

lemma replaceFirst_Some:
  "list_ex P xs \<Longrightarrow> P new \<Longrightarrow> \<exists>ys. replaceFirst P new xs = Some ys \<and> filter (\<lambda>x. \<not> P x) ys = filter (\<lambda>x. \<not> P x) xs \<and>
     length (filter P ys) = length (filter P xs) \<and> new \<in> set ys"
  by (induction xs) auto

text \<open>
  The user data gets the user of the provider once: it replaces the first user of that name, or is added
  where there is none, and all other users stay as they are and in their order.
\<close>

theorem capk_user_added:
  assumes "withCapkUser usersWithCapk users = Inr us" and "yContent usersWithCapk = [capk]" and "isCapkUser capk"
  shows "capk \<in> set us \<and> filter (\<lambda>u. \<not> isCapkUser u) us = filter (\<lambda>u. \<not> isCapkUser u) users \<and>
    length (filter isCapkUser us) = max 1 (length (filter isCapkUser users))"
proof (cases "list_ex isCapkUser users")
  case True
  then have "filter isCapkUser users \<noteq> []" by (auto simp: list_ex_iff filter_empty_conv)
  then have "max 1 (length (filter isCapkUser users)) = length (filter isCapkUser users)" by (cases "filter isCapkUser users") simp_all
  with replaceFirst_Some [OF True assms(3)] assms True show ?thesis
    by (auto simp: withCapkUser_def bindR_def index_def)
next
  case False
  then have none: "filter isCapkUser users = []" by (simp add: list_ex_iff filter_empty_conv)
  from False assms show ?thesis by (auto simp: withCapkUser_def none)
qed

theorem capk_user_added_witness:
  "\<exists>us. withCapkUser (YamlNode SequenceNode [] [] [YamlNode MappingNode [] [] [YamlNode ScalarNode ''name'' [] [], YamlNode ScalarNode ''capk'' [] []]])
     [YamlNode MappingNode [] [] [YamlNode ScalarNode ''name'' [] [], YamlNode ScalarNode ''x'' [] []]] = Inr us \<and> length (filter isCapkUser us) = 1"
proof -
  let ?capk = "YamlNode MappingNode [] [] [YamlNode ScalarNode ''name'' [] [], YamlNode ScalarNode ''capk'' [] []]"
  let ?x = "YamlNode MappingNode [] [] [YamlNode ScalarNode ''name'' [] [], YamlNode ScalarNode ''x'' [] []]"
  have c: "isCapkUser ?capk" "\<not> isCapkUser ?x" by (simp_all add: isCapkUser_def)
  then have "withCapkUser (YamlNode SequenceNode [] [] [?capk]) [?x] = Inr [?x, ?capk]" by (simp add: withCapkUser_def)
  from capk_user_added [OF this _ c(1)] this c show ?thesis by simp
qed

end
