(* ===== verification/KvCluster.thy ===== *)
theory KvCluster
  imports KvMachineController
begin

text \<open>
  The controller of KubevirtClusters
  (\<open>src/cluster-api-provider-kubevirt/controllers/kubevirtcluster_controller.go\<close>), the load balancer of
  the control plane (\<open>pkg/loadbalancer/loadbalancer.go\<close>), the keys of the nodes
  (\<open>pkg/ssh/cluster_node_ssh_keys.go\<close>) and the validation of machine templates
  (\<open>pkg/webhookhandler/validator.go\<close>).
\<close>

record kcState = vBase +
  sKC :: KubevirtCluster

definition changeKC :: "(KubevirtCluster \<Rightarrow> KubevirtCluster) \<Rightarrow> (kcState, unit) comp" where
  "changeKC f = modifyE (\<lambda>s. s\<lparr>sKC := f (sKC s)\<rparr>)"

definition changeKCSpec :: "(KubevirtClusterSpec \<Rightarrow> KubevirtClusterSpec) \<Rightarrow> (kcState, unit) comp" where
  "changeKCSpec f = changeKC (\<lambda>k. k\<lparr>kvcSpec := f (kvcSpec k)\<rparr>)"

definition markKC :: "vEnv \<Rightarrow> (time \<Rightarrow> Condition list \<Rightarrow> Condition list) \<Rightarrow> (kcState, unit) comp" where
  "markKC E f = modifyE (\<lambda>s. s\<lparr>sKC := setKvcConditions (f (vNowSec E (vTrace s)) (kvcConditions (kvcStatus (sKC s)))) (sKC s)\<rparr>)"

section \<open>The load balancer\<close>

record LoadBalancer =
  lbName :: string
  lbService :: "KvService option"
  lbInfra :: infra
  lbNamespace :: string

definition NewLoadBalancer :: "vEnv \<Rightarrow> Cluster \<Rightarrow> infra \<Rightarrow> string \<Rightarrow> (kcState, LoadBalancer) comp" where
  "NewLoadBalancer E cluster infra namespace =
     (let name = mname (clMeta cluster) @ ''-lb'' in
      bindE (vfind E (VGetService infra namespace name) (vService E)) (\<lambda>service.
        returnE \<lparr>lbName = name, lbService = service, lbInfra = infra, lbNamespace = namespace\<rparr>))"

definition IsFound :: "LoadBalancer \<Rightarrow> bool" where
  "IsFound l \<longleftrightarrow> lbService l \<noteq> None"

definition lbSelector :: "Cluster \<Rightarrow> strmap" where
  "lbSelector cluster = [''cluster.x-k8s.io/role'' \<mapsto> ''control-plane'', ''cluster.x-k8s.io/cluster-name'' \<mapsto> mname (clMeta cluster)]"

definition newService :: "LoadBalancer \<Rightarrow> Cluster \<Rightarrow> ControlPlaneServiceTemplate \<Rightarrow> KvService" where
  "newService l cluster t =
     \<lparr>svMeta = emptyMeta\<lparr>mname := lbName l, mnamespace := lbNamespace l, mlabels := cstLabels t, mannotations := cstAnnotations t\<rparr>,
      svType = cstType t, svPort = 6443, svSelector = Some (lbSelector cluster), svClusterIP = [], svIngress = []\<rparr>"

definition labelWith :: "Cluster \<Rightarrow> strmap option \<Rightarrow> strmap option" where
  "labelWith cluster labels = Some ((mapCopy labels)(ClusterNameLabel \<mapsto> mname (clMeta cluster)))"

text \<open>
  The labels of a new service are those of the template in the specification, the same map: the label
  that is added is added there too, unless there was no map. Every error of the API is replaced by one
  error value.
\<close>

definition labelService :: "Cluster \<Rightarrow> KvService \<Rightarrow> KvService option \<Rightarrow> (kcState, KvService) comp" where
  "labelService cluster new found =
     bindE (if found = None \<and> mlabels (svMeta new) \<noteq> None
            then changeKCSpec (\<lambda>sp. sp\<lparr>kvcServiceTemplate := (kvcServiceTemplate sp)\<lparr>
                   cstLabels := labelWith cluster (cstLabels (kvcServiceTemplate sp))\<rparr>\<rparr>)
            else returnE ()) (\<lambda>_.
       let sv = foundOr new found in
       returnE (sv\<lparr>svMeta := (svMeta sv)\<lparr>mlabels := labelWith cluster (mlabels (svMeta sv))\<rparr>\<rparr>))"

definition lbCreate :: "vEnv \<Rightarrow> LoadBalancer \<Rightarrow> Cluster \<Rightarrow> (kcState, unit) comp" where
  "lbCreate E l cluster =
     (if IsFound l then failE (Err ''the load balancer service already exists'')
      else
        bindE (getsE (\<lambda>s. kvcServiceTemplate (kvcSpec (sKC s)))) (\<lambda>t.
        bindE (attemptE (createOrUpdate E (VGetService (lbInfra l) (lbNamespace l) (lbName l)) (vService E)
          (labelService cluster (newService l cluster t)) (VApplyService (lbInfra l)))) (\<lambda>r.
          case r of Inl _ \<Rightarrow> failE (Err ''proto: integer overflow'') | Inr _ \<Rightarrow> returnE ())))"

definition lbIP :: "vEnv \<Rightarrow> LoadBalancer \<Rightarrow> (kcState, string) comp" where
  "lbIP E l =
     bindE (vread E (VGetService (lbInfra l) (lbNamespace l) (lbName l)) (vService E)) (\<lambda>sv.
       if length (svClusterIP sv) = 0 then failE (Err ''the load balancer service is not ready yet'') else returnE (svClusterIP sv))"

definition lbExternalIP :: "vEnv \<Rightarrow> LoadBalancer \<Rightarrow> (kcState, string) comp" where
  "lbExternalIP E l =
     bindE (vread E (VGetService (lbInfra l) (lbNamespace l) (lbName l)) (vService E)) (\<lambda>sv.
       case svIngress sv of [] \<Rightarrow> failE (Err ''the load balancer external IP is not ready yet'') | ip # _ \<Rightarrow> returnE ip)"

definition lbDelete :: "vEnv \<Rightarrow> LoadBalancer \<Rightarrow> (kcState, unit) comp" where
  "lbDelete E l =
     (case lbService l of
        None \<Rightarrow> returnE ()
      | Some sv \<Rightarrow> wrapE ''failed to delete load balancer service'' (vcall E (VDeleteService (lbInfra l) sv)))"

section \<open>Keys\<close>

definition GenerateNewKeys :: "vEnv \<Rightarrow> (kcState, ClusterNodeSshKeys) comp" where
  "GenerateNewKeys E =
     bindE (wrapE ''failed to generate new ssh keys'' (vread E VGenerateKeys (vKeys E))) (\<lambda>(pub, key).
       returnE \<lparr>kyPublic = pub, kyPrivate = key\<rparr>)"

definition keysSecret :: "vEnv \<Rightarrow> Cluster \<Rightarrow> KubevirtCluster \<Rightarrow> ClusterNodeSshKeys \<Rightarrow> KvSecret \<Rightarrow> KvSecret" where
  "keysSecret E cluster kc k s =
     (let data = mapCopy (seData s) in
      s\<lparr>seMeta := (seMeta s)\<lparr>
          mlabels := Some ((mapCopy (mlabels (seMeta s)))(ClusterNameLabel \<mapsto> mname (clMeta cluster))),
          mownerReferences := EnsureOwnerRef (vGroup E) (mownerReferences (seMeta s))
            \<lparr>orAPIVersion = kvcAPIVersion kc, orKind = kvcKind kc, orName = mname (kvcMeta kc), orUID = muid (kvcMeta kc),
             orController = None, orBlockOwnerDeletion = None\<rparr>\<rparr>,
        seType := kvClusterSecretType,
        seData := Some (if data ''key'' = None then data(''pub'' \<mapsto> kyPublic k, ''key'' \<mapsto> kyPrivate k) else data)\<rparr>)"

definition PersistKeysToSecret :: "vEnv \<Rightarrow> Cluster \<Rightarrow> ClusterNodeSshKeys option \<Rightarrow> (kcState, KvSecret) comp" where
  "PersistKeysToSecret E cluster keys =
     bindE (getsE sKC) (\<lambda>kc.
       case keys of
         None \<Rightarrow> failE (Err ''cannot persist nil values to secret'')
       | Some k \<Rightarrow>
           let new = \<lparr>seAPIVersion = [], seKind = [], seMeta = emptyMeta\<lparr>mname := mname (kvcMeta kc) @ ''-ssh-keys'',
                 mnamespace := mnamespace (kvcMeta kc)\<rparr>, seType = [], seData = None\<rparr> in
           wrapE ''failed to reconcile ssh keys secret for cluster''
             (createOrUpdate E (VGetSecret (mnamespace (seMeta new)) (mname (seMeta new))) (vSecret E)
               (\<lambda>found. returnE (keysSecret E cluster kc k (foundOr new found))) VApplySshSecret))"

section \<open>Reconciliation\<close>

definition GetLoadBalancerNamespace :: "KubevirtCluster \<Rightarrow> string \<Rightarrow> string" where
  "GetLoadBalancerNamespace kc infraClusterNamespace =
     (let ns = cstNamespace (kvcServiceTemplate (kvcSpec kc)) in if ns \<noteq> [] then ns else infraClusterNamespace)"

text \<open>A step that reports its error on the object.\<close>

definition lbStep :: "vEnv \<Rightarrow> string \<Rightarrow> (kcState, 'a) comp \<Rightarrow> (kcState, 'a) comp" where
  "lbStep E msg m =
     bindE (attemptE m) (\<lambda>r.
       case r of
         Inr x \<Rightarrow> returnE x
       | Inl e \<Rightarrow>
           if isPanic e then failE e
           else bindE (markKC E (\<lambda>now cs. MarkFalse now cs LoadBalancerAvailableCondition LoadBalancerProvisioningFailedReason
             ConditionSeverityWarning (vErrText E e) [])) (\<lambda>_. failE (Wrap msg e)))"

definition setEndpoint :: "string \<Rightarrow> (kcState, unit) comp" where
  "setEndpoint host = changeKCSpec (\<lambda>sp. sp\<lparr>kvcControlPlaneEndpoint := \<lparr>epHost = host, epPort = 6443\<rparr>\<rparr>)"

definition ensureKeys :: "vEnv \<Rightarrow> Cluster \<Rightarrow> (kcState, unit) comp" where
  "ensureKeys E cluster =
     bindE (getsE sKC) (\<lambda>kc.
     bindE (IsPersistedToSecret E kc) (\<lambda>persisted.
       if persisted then returnE ()
       else
         bindE (wrapE ''failed to generate new ssh keys'' (GenerateNewKeys E)) (\<lambda>k.
         bindE (wrapE ''failed to persist ssh keys to secret'' (PersistKeysToSecret E cluster (Some k))) (\<lambda>s.
           changeKCSpec (\<lambda>sp. sp\<lparr>kvcSshKeys := \<lparr>
             skConfigRef = Some \<lparr>refKind = seKind s, refNamespace = mnamespace (seMeta s), refName = mname (seMeta s),
               refUID = muid (seMeta s), refAPIVersion = seAPIVersion s\<rparr>,
             skDataSecretName = Some (mname (seMeta s))\<rparr>\<rparr>)))))"

definition kvcReconcileNormal :: "vEnv \<Rightarrow> Cluster \<Rightarrow> LoadBalancer \<Rightarrow> (kcState, ctrlResult) comp" where
  "kvcReconcileNormal E cluster l =
     bindE (if \<not> IsFound l then lbStep E ''failed to create load balancer'' (lbCreate E l cluster) else returnE ()) (\<lambda>_.
     bindE (getsE (\<lambda>s. kvcSpec (sKC s))) (\<lambda>spec.
     bindE (if epHost (kvcControlPlaneEndpoint spec) \<noteq> [] then returnE ()
            else if cstType (kvcServiceTemplate spec) = ''LoadBalancer'' then
              bindE (lbStep E ''failed to get ExternalIP for the load balancer'' (lbExternalIP E l)) setEndpoint
            else bindE (lbStep E ''failed to get ClusterIP for the load balancer'' (lbIP E l)) setEndpoint) (\<lambda>_.
     bindE (markKC E (\<lambda>now cs. MarkTrue now cs LoadBalancerAvailableCondition)) (\<lambda>_.
     bindE (ensureKeys E cluster) (\<lambda>_.
     bindE (changeKC (\<lambda>k. k\<lparr>kvcStatus := (kvcStatus k)\<lparr>kvcReady := True\<rparr>\<rparr>)) (\<lambda>_.
       returnE emptyResult))))))"

definition PatchKubevirtCluster :: "vEnv \<Rightarrow> KubevirtCluster \<Rightarrow> (kcState, unit) comp" where
  "PatchKubevirtCluster E original =
     bindE (modifyE (\<lambda>s. s\<lparr>sKC := setKvcConditions
        (SetSummary (vNowSec E (vTrace s))
           \<lparr>gkind = ''KubevirtCluster'', gname = mname (kvcMeta (sKC s)), gconditions = kvcConditions (kvcStatus (sKC s))\<rparr>
           [WithConditions [LoadBalancerAvailableCondition],
            WithStepCounterIf (timeIsZero (mdeletionTimestamp (kvcMeta (sKC s))))]) (sKC s)\<rparr>)) (\<lambda>_.
     bindE (getsE sKC) (\<lambda>kc. vcall E (VPatchKubevirtCluster original kc)))"

fun deleteExtraLoop :: "vEnv \<Rightarrow> string \<Rightarrow> string list \<Rightarrow> (kcState, unit) comp" where
  "deleteExtraLoop E kind [] = returnE ()"
| "deleteExtraLoop E kind (n # ns) =
     bindE (wrapE ''failed deleting cluster extra object meta'' (vcall E (VDeleteExtra kind n))) (\<lambda>_. deleteExtraLoop E kind ns)"

definition deleteExtraGVK :: "vEnv \<Rightarrow> Cluster \<Rightarrow> string \<Rightarrow> (kcState, unit) comp" where
  "deleteExtraGVK E cluster kind =
     bindE (wrapE ''failed listing cluster extra object meta''
       (vread E (VListExtra kind (mnamespace (clMeta cluster)) (mname (clMeta cluster))) (vExtra E))) (\<lambda>items.
       deleteExtraLoop E kind items)"

fun deleteExtraKinds :: "vEnv \<Rightarrow> Cluster \<Rightarrow> string list \<Rightarrow> (kcState, unit) comp" where
  "deleteExtraKinds E cluster [] = returnE ()"
| "deleteExtraKinds E cluster (k # ks) =
     bindE (wrapE ''failed to delete extra'' (deleteExtraGVK E cluster k)) (\<lambda>_. deleteExtraKinds E cluster ks)"

definition extraKinds :: "string list" where
  "extraKinds = [''ConfigMapList'', ''ServiceAccountList'', ''DeploymentList'', ''RoleList'', ''RoleBindingList'']"

definition setKvcFinalizers :: "(string list \<Rightarrow> string list) \<Rightarrow> KubevirtCluster \<Rightarrow> KubevirtCluster" where
  "setKvcFinalizers f k = k\<lparr>kvcMeta := (kvcMeta k)\<lparr>mfinalizers := f (mfinalizers (kvcMeta k))\<rparr>\<rparr>"

text \<open>An error of the deletion of the load balancer is only logged.\<close>

definition kvcReconcileDelete :: "vEnv \<Rightarrow> Cluster \<Rightarrow> LoadBalancer \<Rightarrow> (kcState, ctrlResult) comp" where
  "kvcReconcileDelete E cluster l =
     bindE (attemptE (lbDelete E l)) (\<lambda>_.
     bindE (getsE sKC) (\<lambda>kc.
     bindE (vcall E (VHelper (mname (kvcMeta kc)))) (\<lambda>_.
     bindE (markKC E (\<lambda>now cs. MarkFalse now cs LoadBalancerAvailableCondition DeletingReason ConditionSeverityInfo [] [])) (\<lambda>_.
     bindE (wrapE ''failed to patch KubevirtCluster'' (PatchKubevirtCluster E kc)) (\<lambda>_.
     bindE (deleteExtraKinds E cluster extraKinds) (\<lambda>_.
     bindE (changeKC (setKvcFinalizers (filter (\<lambda>f. f \<noteq> ClusterFinalizer)))) (\<lambda>_.
       returnE emptyResult)))))))"

fun asAggregate :: "err \<Rightarrow> err list option" where
  "asAggregate (Aggregate es) = Some es"
| "asAggregate (Wrap _ e) = asAggregate e"
| "asAggregate _ = None"

definition filterOutNotFoundError :: "err \<Rightarrow> err option" where
  "filterOutNotFoundError e =
     (case asAggregate e of
        Some es \<Rightarrow> (let rest = filter (\<lambda>x. \<not> isNotFound x) es in if rest = [] then None else Some (Aggregate rest))
      | None \<Rightarrow> if isNotFound e then None else Some e)"

definition kvcReconcileFound :: "vEnv \<Rightarrow> Cluster \<Rightarrow> LoadBalancer \<Rightarrow> (kcState, ctrlResult) comp" where
  "kvcReconcileFound E cluster l =
     bindE (getsE sKC) (\<lambda>kc.
       if ClusterFinalizer \<notin> set (mfinalizers (kvcMeta kc)) then
         bindE (changeKC (setKvcFinalizers (\<lambda>fs. fs @ [ClusterFinalizer]))) (\<lambda>_. returnE emptyResult)
       else if \<not> timeIsZero (mdeletionTimestamp (kvcMeta kc)) then kvcReconcileDelete E cluster l
       else kvcReconcileNormal E cluster l)"

definition kvcReconcileObject :: "vEnv \<Rightarrow> Cluster \<Rightarrow> (kcState, ctrlResult) comp" where
  "kvcReconcileObject E cluster =
     bindE (getsE sKC) (\<lambda>kc.
     bindE (wrapE ''failed to generate infra cluster client''
       (GenerateInfraClusterClient E (kvcInfraClusterSecretRef (kvcSpec kc)) (mnamespace (kvcMeta kc)))) (\<lambda>(client, infraNamespace).
       case client of
         None \<Rightarrow> returnE (waitFor 10000)
       | Some infra \<Rightarrow>
           bindE (wrapE ''failed to create helper for managing the externalLoadBalancer''
             (NewLoadBalancer E cluster infra (GetLoadBalancerNamespace kc infraNamespace))) (\<lambda>l.
           bindE (vcall E (VHelper (mname (kvcMeta kc)))) (\<lambda>_.
           bindE (attemptE (kvcReconcileFound E cluster l)) (\<lambda>res.
           bindE (attemptE (PatchKubevirtCluster E kc)) (\<lambda>p.
             case res of
               Inl e \<Rightarrow> failE e
             | Inr x \<Rightarrow>
                 (case p of
                    Inr _ \<Rightarrow> returnE x
                  | Inl e \<Rightarrow> (case filterOutNotFoundError e of None \<Rightarrow> returnE x | Some e' \<Rightarrow> failE e'))))))))"

definition kvcReconcile :: "vEnv \<Rightarrow> string \<Rightarrow> string \<Rightarrow> (kcState, ctrlResult) comp" where
  "kvcReconcile E ns name =
     bindE (vfind E (VGetKubevirtCluster ns name) (vKubevirtCluster E)) (\<lambda>kc.
       case kc of
         None \<Rightarrow> returnE emptyResult
       | Some k \<Rightarrow>
           if IsExternallyManaged (kvcMeta k) then returnE emptyResult
           else
             bindE (changeKC (\<lambda>_. k)) (\<lambda>_.
             bindE (GetOwnerCluster E (mnamespace (kvcMeta k)) (mownerReferences (kvcMeta k))) (\<lambda>cluster.
               case cluster of None \<Rightarrow> returnE emptyResult | Some c \<Rightarrow> kvcReconcileObject E c)))"

section \<open>Validation of machine templates\<close>

datatype admissionResponse = Admitted | Denied string | Errored err

text \<open>
  A request to admit a template: the operation, whether it is a dry run, and the specifications the
  decoder finds in the new and in the old object.
\<close>

record 'spec admissionRequest =
  arOperation :: string
  arDryRun :: "bool option"
  arObject :: "'spec res"
  arOldObject :: "'spec res"

definition validateUpdate :: "'spec \<Rightarrow> 'spec \<Rightarrow> err option" where
  "validateUpdate old requested = (if old \<noteq> requested then Some (Err ''KubevirtMachineTemplateSpec is immutable'') else None)"

definition Handle :: "'spec admissionRequest \<Rightarrow> admissionResponse res" where
  "Handle req =
     (if arOperation req = ''CREATE'' then
        Inr (case arObject req of Inl e \<Rightarrow> Errored e | Inr _ \<Rightarrow> Admitted)
      else if arOperation req = ''UPDATE'' then
        bindR (deref ''req.DryRun'' (arDryRun req)) (\<lambda>dryRun.
          Inr (if dryRun then Admitted
               else case arObject req of
                 Inl e \<Rightarrow> Errored e
               | Inr new \<Rightarrow>
                   (case arOldObject req of
                      Inl e \<Rightarrow> Errored e
                    | Inr old \<Rightarrow>
                        (case validateUpdate old new of
                           None \<Rightarrow> Admitted
                         | Some _ \<Rightarrow> Denied ''KubevirtMachineTemplateSpec is immutable''))))
      else if arOperation req = ''DELETE'' then
        Inr (case arOldObject req of Inl e \<Rightarrow> Errored e | Inr _ \<Rightarrow> Admitted)
      else Inr (Errored (Err ''unknown operation request'')))"

section \<open>The load balancer and the machines\<close>

lemma lbSelector_le:
  "lbSelector cluster \<subseteq>\<^sub>m f \<longleftrightarrow>
     f ''cluster.x-k8s.io/role'' = Some ''control-plane'' \<and> f ''cluster.x-k8s.io/cluster-name'' = Some (mname (clMeta cluster))"
  by (auto simp: map_le_def lbSelector_def)

lemma prefixDataVolumeTemplates_labels:
  "vmsTemplate spec = Some t \<Longrightarrow>
     \<exists>t'. vmsTemplate (prefixDataVolumeTemplates spec prefix) = Some t' \<and> vtLabels t' = vtLabels t"
  by (simp add: prefixDataVolumeTemplates_def Let_def)

text \<open>
  (C13) The service of the load balancer selects exactly the control plane: the labels the instances of a new
  virtual machine get match the selector of the service of the cluster if and only if the machine is a
  control plane machine.
\<close>

theorem lb_selects_control_plane:
  assumes "newVirtualMachineFromKubevirtMachine ctx kvm ns = Inr vm" and "mcCluster ctx = Some cluster" and "labelVM cluster kvm vm = Inr vm'"
  shows "\<exists>t. vmsTemplate (vmSpec vm') = Some t \<and> (lbSelector cluster \<subseteq>\<^sub>m mapCopy (vtLabels t) \<longleftrightarrow> IsControlPlaneMachine (mcMachine ctx))"
proof -
  obtain t0 where t0: "buildVirtualMachineInstanceTemplate ctx kvm = Inr t0"
    and vm: "vmSpec vm = prefixDataVolumeTemplates ((vtsSpec (kvmTemplate (kvmSpec kvm)))\<lparr>vmsTemplate := Some t0\<rparr>) (kvmName kvm)"
    using assms(1) by (auto simp: newVirtualMachineFromKubevirtMachine_def bindR_def Let_def split: sum.splits)
  obtain base where base: "vtLabels t0 = Some (commonLabels base (kvmName kvm) (nodeRole (mcMachine ctx)) (mname (clMeta cluster)))"
    using t0 assms(2) by (auto simp: buildVirtualMachineInstanceTemplate_def bindR_def deref_def split: option.splits sum.splits)
  obtain t1 where t1: "vmsTemplate (vmSpec vm) = Some t1" "vtLabels t1 = vtLabels t0"
    using prefixDataVolumeTemplates_labels [of "(vtsSpec (kvmTemplate (kvmSpec kvm)))\<lparr>vmsTemplate := Some t0\<rparr>" t0 "kvmName kvm"] by (auto simp: vm)
  have "vmsTemplate (vmSpec vm') = Some (t1\<lparr>vtLabels := Some (mapCopy (vtLabels t1) ++
      [KubevirtMachineNameLabel \<mapsto> kvmName kvm, KubevirtMachineNamespaceLabel \<mapsto> mnamespace (kvmMeta kvm)])\<rparr>)"
    using assms(3) by (auto simp: labelVM_def t1(1) bindR_def deref_def Let_def)
  then show ?thesis
    by (simp add: lbSelector_le t1(2) base commonLabels_def nodeRole_def KubevirtMachineNameLabel_def KubevirtMachineNamespaceLabel_def)
qed

theorem lb_selects_control_plane_witness:
  "\<exists>vm vm' t. newVirtualMachineFromKubevirtMachine kvSampleCtx kvSampleKM ''ns'' = Inr vm \<and> labelVM kvSampleCluster kvSampleKM vm = Inr vm' \<and>
     vmsTemplate (vmSpec vm') = Some t \<and> lbSelector kvSampleCluster \<subseteq>\<^sub>m mapCopy (vtLabels t)"
proof -
  have "\<exists>vm vm'. newVirtualMachineFromKubevirtMachine kvSampleCtx kvSampleKM ''ns'' = Inr vm \<and> labelVM kvSampleCluster kvSampleKM vm = Inr vm'"
    by (simp add: newVirtualMachineFromKubevirtMachine_def buildVirtualMachineInstanceTemplate_def labelVM_def bindR_def deref_def
      prefixDataVolumeTemplates_def Let_def)
  then obtain vm vm' where vm: "newVirtualMachineFromKubevirtMachine kvSampleCtx kvSampleKM ''ns'' = Inr vm" "labelVM kvSampleCluster kvSampleKM vm = Inr vm'"
    by blast
  have "IsControlPlaneMachine (mcMachine kvSampleCtx)"
    by (simp add: IsControlPlaneMachine_def kvSampleMachine_def emptyMeta_def)
  with lb_selects_control_plane [OF vm(1) _ vm(2)] vm show ?thesis by auto
qed

section \<open>Deletion of a cluster\<close>

text \<open>
  The finalizer of a KubevirtCluster does not wait for the load balancer: where the service cannot be
  deleted, whatever the error, the deletion goes on, the finalizer is taken off and the service is left
  behind.
\<close>

theorem lb_leak_on_delete:
  assumes "vOutcome E (vTrace s) (VDeleteService (lbInfra l) sv) = Some e" and "lbService l = Some sv"
    and "\<And>h c. (\<forall>i v. c \<noteq> VDeleteService i v) \<Longrightarrow> vOutcome E h c = None"
  shows "\<exists>s'. kvcReconcileDelete E cluster l s = (Inr emptyResult, s') \<and> ClusterFinalizer \<notin> set (mfinalizers (kvcMeta (sKC s')))"
proof -
  have loop: "\<exists>s1. deleteExtraLoop E k ns t = (Inr (), s1)" for k ns t
    by (induction ns arbitrary: t) (auto simp: bindE_def wrapE_def vcall_def assms(3))
  have kind: "\<exists>s1. deleteExtraGVK E cluster k t = (Inr (), s1)" for k t
    using loop by (simp add: deleteExtraGVK_def bindE_def wrapE_def vread_def vcall_def assms(3))
  have kinds: "\<exists>s1. deleteExtraKinds E cluster ks t = (Inr (), s1)" for ks t
  proof (induction ks arbitrary: t)
    case (Cons k ks)
    from kind [of k t] obtain s1 where "deleteExtraGVK E cluster k t = (Inr (), s1)" by blast
    with Cons.IH [of s1] show ?case by (simp add: bindE_def wrapE_def)
  qed simp
  define t where "t = snd (bindE (attemptE (lbDelete E l)) (\<lambda>_. bindE (getsE sKC) (\<lambda>kc.
     bindE (vcall E (VHelper (mname (kvcMeta kc)))) (\<lambda>_.
     bindE (markKC E (\<lambda>now cs. MarkFalse now cs LoadBalancerAvailableCondition DeletingReason ConditionSeverityInfo [] [])) (\<lambda>_.
     wrapE ''failed to patch KubevirtCluster'' (PatchKubevirtCluster E kc))))) s)"
  obtain s1 where "deleteExtraKinds E cluster extraKinds t = (Inr (), s1)" using kinds by blast
  then show ?thesis
    using assms(1,2)
    by (simp add: kvcReconcileDelete_def lbDelete_def bindE_def wrapE_def vcall_def assms(3) markKC_def PatchKubevirtCluster_def
        changeKC_def setKvcFinalizers_def attemptE_def t_def)
qed

theorem lb_leak_on_delete_witness:
  "\<exists>s'. kvcReconcileDelete (kvSampleEnv (\<lambda>c. case c of VDeleteService _ _ \<Rightarrow> Some (Err ''forbidden'') | _ \<Rightarrow> None)) kvSampleCluster
     \<lparr>lbName = ''c-lb'', lbService = Some \<lparr>svMeta = emptyMeta, svType = [], svPort = 6443, svSelector = None, svClusterIP = [], svIngress = []\<rparr>,
      lbInfra = Internal, lbNamespace = ''ns''\<rparr>
     \<lparr>vTrace = [], sKC = kvSampleKC\<lparr>kvcMeta := (kvcMeta kvSampleKC)\<lparr>mfinalizers := [ClusterFinalizer]\<rparr>\<rparr>\<rparr> = (Inr emptyResult, s') \<and>
     ClusterFinalizer \<notin> set (mfinalizers (kvcMeta (sKC s')))"
  by (rule lb_leak_on_delete [where e = "Err ''forbidden''"]) (auto split: vCall.splits)

section \<open>Creation of the load balancer\<close>

text \<open>
  The service is created with the labels of the specification, the same map, and the label added to the
  service is added to the specification of the KubevirtCluster too, whether or not the service is written.
  The patch at the end of the reconciliation then stores it.
\<close>

theorem lb_create_changes_spec:
  assumes "lbService l = None" and "cstLabels (kvcServiceTemplate (kvcSpec (sKC s))) = Some labels"
    and "vOutcome E (vTrace s) (VGetService (lbInfra l) (lbNamespace l) (lbName l)) = Some e" and "isNotFound e"
  shows "cstLabels (kvcServiceTemplate (kvcSpec (sKC (snd (lbCreate E l cluster s))))) = Some (labels(ClusterNameLabel \<mapsto> mname (clMeta cluster)))"
  using assms
  by (simp add: lbCreate_def IsFound_def createOrUpdate_def labelService_def changeKCSpec_def changeKC_def newService_def labelWith_def
      vfind_def vread_def vcall_def bindE_def attemptE_def Let_def split: option.splits)

theorem lb_create_changes_spec_witness:
  "cstLabels (kvcServiceTemplate (kvcSpec (sKC (snd (lbCreate
     (kvSampleEnv (\<lambda>c. case c of VGetService _ _ n \<Rightarrow> Some (NotFound n) | _ \<Rightarrow> None))
     \<lparr>lbName = ''c-lb'', lbService = None, lbInfra = Internal, lbNamespace = ''ns''\<rparr> kvSampleCluster \<lparr>vTrace = [], sKC = kvSampleKC\<rparr>))))) =
     Some [''a'' \<mapsto> ''b'', ClusterNameLabel \<mapsto> ''c'']"
proof -
  have "mname (clMeta kvSampleCluster) = ''c''" by (simp add: kvSampleCluster_def)
  then show ?thesis
    using lb_create_changes_spec [of "\<lparr>lbName = ''c-lb'', lbService = None, lbInfra = Internal, lbNamespace = ''ns''\<rparr>"
        "\<lparr>vTrace = [], sKC = kvSampleKC\<rparr>" "[''a'' \<mapsto> ''b'']" "kvSampleEnv (\<lambda>c. case c of VGetService _ _ n \<Rightarrow> Some (NotFound n) | _ \<Rightarrow> None)"
        "NotFound ''c-lb''" kvSampleCluster]
    by (simp add: kvSampleKC_def)
qed

section \<open>A cluster that is ready\<close>

definition sameEndpoint :: "kcState \<Rightarrow> kcState \<Rightarrow> bool" where
  "sameEndpoint s s' \<longleftrightarrow> kvcControlPlaneEndpoint (kvcSpec (sKC s')) = kvcControlPlaneEndpoint (kvcSpec (sKC s)) \<and>
     cstType (kvcServiceTemplate (kvcSpec (sKC s'))) = cstType (kvcServiceTemplate (kvcSpec (sKC s))) \<and>
     kvcConditions (kvcStatus (sKC s')) = kvcConditions (kvcStatus (sKC s))"

interpretation endpoint_rel: state_relation sameEndpoint
  by unfold_locales (auto simp: sameEndpoint_def)

lemma vcall_sameEndpoint: "keeps sameEndpoint (vcall E c)"
  by (auto simp: keeps_def sameEndpoint_def dest!: vcall_state)

lemma vread_sameEndpoint: "keeps sameEndpoint (vread E c f)"
  unfolding vread_def by (intro endpoint_rel.keeps_rules vcall_sameEndpoint)

lemma vfind_sameEndpoint: "keeps sameEndpoint (vfind E c f)"
  unfolding vfind_def by (intro endpoint_rel.keeps_rules vread_sameEndpoint)

lemmas endpoint_rules = endpoint_rel.keeps_rules vcall_sameEndpoint vread_sameEndpoint vfind_sameEndpoint

lemma lbCreate_sameEndpoint: "keeps sameEndpoint (lbCreate E l cluster)"
  unfolding lbCreate_def createOrUpdate_def labelService_def changeKCSpec_def changeKC_def
  by (intro endpoint_rules endpoint_rel.keeps_modifyE) (simp add: sameEndpoint_def)

lemma ensureKeys_sameEndpoint: "keeps sameEndpoint (ensureKeys E cluster)"
  unfolding ensureKeys_def IsPersistedToSecret_def GetKeysDataSecret_def GenerateNewKeys_def PersistKeysToSecret_def createOrUpdate_def
    changeKCSpec_def changeKC_def
  by (intro endpoint_rules endpoint_rel.keeps_modifyE) (simp add: sameEndpoint_def)

lemma lbStep_Inr: "lbStep E msg m s = (Inr x, s') \<longleftrightarrow> m s = (Inr x, s')"
  by (auto simp: lbStep_def markKC_def split: sum.splits prod.splits)



section \<open>Keys of a new cluster\<close>



section \<open>Machine templates are immutable\<close>

text \<open>
  An update of a machine template that is admitted is a dry run or leaves the specification as it was,
  and an update that changes the specification and is not a dry run is denied.
\<close>

theorem template_immutable:
  assumes "arOperation req = ''UPDATE''" and "arObject req = Inr new" and "arOldObject req = Inr old" and "arDryRun req = Some dry"
  shows "Handle req = Inr Admitted \<longleftrightarrow> dry \<or> new = old"
  using assms by (simp add: Handle_def bindR_def deref_def validateUpdate_def)

theorem template_immutable_witness:
  "Handle \<lparr>arOperation = ''UPDATE'', arDryRun = Some False, arObject = Inr (1 :: nat), arOldObject = Inr 2\<rparr> \<noteq> Inr Admitted"
  using template_immutable [of "\<lparr>arOperation = ''UPDATE'', arDryRun = Some False, arObject = Inr (1 :: nat), arOldObject = Inr 2\<rparr>" 1 2 False]
  by simp

end
