(* ===== verification/KvAdm.thy ===== *)
theory KvAdm
  imports External VersionUtil
begin

text \<open>
  The command line tool of the KubeVirt provider,
  \<open>src/cluster-api-provider-kubevirt/clusterkubevirtadm\<close>: \<open>create credentials\<close> and \<open>apply credentials\<close>
  (\<open>cmd/credentials/credentials.go\<close>) and \<open>get kubeconfig\<close> (\<open>cmd/get/kubeconfig/get.go\<close>).

  The API server, the loader and the encoder of kubeconfig files are parameters. A file is its content; a
  missing file is \<open>None\<close>.
\<close>

section \<open>Credentials\<close>

datatype clientOperation = clientOperationApply | clientOperationCreate

record PolicyRule =
  prAPIGroups :: "string list"
  prResources :: "string list"
  prVerbs :: "string list"

datatype aCall =
    AGetNamespace string
  | ACreateNamespace string
  | AGetServiceAccount string string
  | ACreateServiceAccount string string
  | AGetRole string string
  | ACreateRole string string "PolicyRule list"
  | AUpdateRole string string "PolicyRule list"
  | AGetRoleBinding string string
  | ACreateRoleBinding string string string string

definition isWrite :: "aCall \<Rightarrow> bool" where
  "isWrite c =
     (case c of AGetNamespace _ \<Rightarrow> False | AGetServiceAccount _ _ \<Rightarrow> False | AGetRole _ _ \<Rightarrow> False | AGetRoleBinding _ _ \<Rightarrow> False | _ \<Rightarrow> True)"

text \<open>The error of a call, if it has one, and the rules of the role that was read.\<close>

record aEnv =
  aOutcome :: "aCall list \<Rightarrow> aCall \<Rightarrow> err option"
  aRules :: "aCall list \<Rightarrow> PolicyRule list"

type_synonym 'a acomp = "(aCall list, 'a) comp"

definition acall :: "aEnv \<Rightarrow> aCall \<Rightarrow> unit acomp" where
  "acall E c h = (case aOutcome E h c of None \<Rightarrow> (Inr (), h @ [c]) | Some e \<Rightarrow> (Inl e, h @ [c]))"

abbreviation "ServiceAccountName \<equiv> ''capk-service-account''"
abbreviation "roleName \<equiv> ''capk-user-role''"
abbreviation "roleBindingName \<equiv> ''capk-user-role-binding''"

definition ensureNamespace :: "aEnv \<Rightarrow> string \<Rightarrow> clientOperation \<Rightarrow> unit acomp" where
  "ensureNamespace E ns co =
     bindE (attemptE (acall E (AGetNamespace ns))) (\<lambda>r.
       case r of
         Inr _ \<Rightarrow> if co = clientOperationApply then returnE () else failE (Err (''namspace '' @ ns @ '' is already exist''))
       | Inl e \<Rightarrow>
           if isNotFound e then wrapE (''failed to create namespace '' @ ns) (acall E (ACreateNamespace ns))
           else failE (Wrap (''failed to read namespace '' @ ns) e))"

definition createServiceAccount :: "aEnv \<Rightarrow> string \<Rightarrow> unit acomp" where
  "createServiceAccount E ns = acall E (ACreateServiceAccount ns ServiceAccountName)"

definition ensureServiceAccount :: "aEnv \<Rightarrow> string \<Rightarrow> unit acomp" where
  "ensureServiceAccount E ns =
     bindE (attemptE (acall E (AGetServiceAccount ns ServiceAccountName))) (\<lambda>r.
       case r of
         Inr _ \<Rightarrow> returnE ()
       | Inl e \<Rightarrow>
           if isNotFound e then wrapE ''failed to create the service account'' (createServiceAccount E ns)
           else failE (Wrap ''can't get the serviceAccount'' e))"

definition generateRole :: "PolicyRule list" where
  "generateRole =
     [\<lparr>prAPIGroups = [''kubevirt.io''], prResources = [''virtualmachines'', ''virtualmachineinstances''], prVerbs = [''*'']\<rparr>,
      \<lparr>prAPIGroups = [''cdi.kubevirt.io''], prResources = [''datavolumes''], prVerbs = [''get'', ''list'', ''watch'']\<rparr>,
      \<lparr>prAPIGroups = [[]], prResources = [''secrets'', ''services''], prVerbs = [''*'']\<rparr>]"

definition createOrUpdateRole :: "aEnv \<Rightarrow> string \<Rightarrow> clientOperation \<Rightarrow> unit acomp" where
  "createOrUpdateRole E ns co =
     bindE (attemptE (acall E (AGetRole ns roleName))) (\<lambda>r.
       case r of
         Inl e \<Rightarrow>
           if isNotFound e then wrapE ''can't create existingRole'' (acall E (ACreateRole ns roleName generateRole))
           else failE (Wrap ''can't read existingRole'' e)
       | Inr _ \<Rightarrow>
           if co = clientOperationApply then
             bindE (getsE (aRules E)) (\<lambda>rules.
               if rules \<noteq> generateRole then acall E (AUpdateRole ns roleName generateRole) else returnE ())
           else failE (Err ''role capk-user-role is already exist''))"

text \<open>The binding is given by its namespace and name, the service account it is for and the role it grants.\<close>

definition ensureRoleBinding :: "aEnv \<Rightarrow> string \<Rightarrow> unit acomp" where
  "ensureRoleBinding E ns =
     bindE (attemptE (acall E (AGetRoleBinding ns roleBindingName))) (\<lambda>r.
       case r of
         Inr _ \<Rightarrow> returnE ()
       | Inl e \<Rightarrow>
           if isNotFound e then wrapE ''can't create roleBinding'' (acall E (ACreateRoleBinding ns roleBindingName ServiceAccountName roleName))
           else failE (Wrap ''can't read roleBinding'' e))"

definition createOrUpdateResources :: "aEnv \<Rightarrow> string \<Rightarrow> clientOperation \<Rightarrow> unit acomp" where
  "createOrUpdateResources E ns co =
     bindE (ensureNamespace E ns co) (\<lambda>_.
     bindE (ensureServiceAccount E ns) (\<lambda>_.
     bindE (createOrUpdateRole E ns co) (\<lambda>_.
       ensureRoleBinding E ns)))"

section \<open>The service account\<close>

record ServiceAccount =
  saName :: string
  saSecrets :: "string list"

text \<open>
  What happens while the command waits: which channel is ready at the \<open>i\<close>-th turn of the loop, when the
  turn starts, in milliseconds since the timeout was set, and what the read gives then.
\<close>

datatype pollEvent = Tick | Done

record pollEnv =
  pEvent :: "nat \<Rightarrow> pollEvent"
  pClock :: "nat \<Rightarrow> nat"
  pServiceAccount :: "nat \<Rightarrow> ServiceAccount res"

abbreviation "pollTimeout \<equiv> (10000 :: nat)"
abbreviation "pollPeriod \<equiv> (100 :: nat)"
abbreviation "deadlineExceeded \<equiv> Err ''context deadline exceeded''"

partial_function (option) pollServiceAccount :: "pollEnv \<Rightarrow> nat \<Rightarrow> ServiceAccount res option" where
  "pollServiceAccount P i =
     (case pEvent P i of
        Done \<Rightarrow> Some (Inl deadlineExceeded)
      | Tick \<Rightarrow>
          (case pServiceAccount P i of
             Inl e \<Rightarrow> Some (Inl e)
           | Inr sa \<Rightarrow> if length (saSecrets sa) > 0 then Some (Inr sa) else pollServiceAccount P (Suc i)))"

definition getServiceAccount :: "pollEnv \<Rightarrow> ServiceAccount res option" where
  "getServiceAccount P = pollServiceAccount P 1"

text \<open>
  What the code relies on of the ticker and of the context: the \<open>i\<close>-th tick is not received before \<open>i\<close>
  periods have passed, and a request with an expired context fails.
\<close>

definition ticking :: "pollEnv \<Rightarrow> bool" where
  "ticking P \<longleftrightarrow> (\<forall>i. pEvent P i = Tick \<longrightarrow> i * pollPeriod \<le> pClock P i) \<and>
     (\<forall>i sa. pollTimeout \<le> pClock P i \<longrightarrow> pServiceAccount P i \<noteq> Inr sa)"

section \<open>The kubeconfig\<close>

text \<open>The read of a secret gives its data.\<close>

fun getToken :: "(string \<Rightarrow> strmap res) \<Rightarrow> string \<Rightarrow> string list \<Rightarrow> string res" where
  "getToken secret name [] = Inl (Err (''can't find secret '' @ name @ ''-token''))"
| "getToken secret name (sn # sns) =
     (if HasPrefix sn (name @ ''-token'') then
        (case secret sn of
           Inl e \<Rightarrow> Inl (Wrap ''can't get the secret'' e)
         | Inr data \<Rightarrow> (case data ''token'' of None \<Rightarrow> Inl (Err ''can't find the koken in the secret'') | Some t \<Rightarrow> Inr t))
      else getToken secret name sns)"

record kubeContext =
  kxCluster :: string
  kxAuthInfo :: string
  kxNamespace :: string

record kubeConfig =
  kfContexts :: "string \<rightharpoonup> kubeContext"
  kfCurrent :: string
  kfTokens :: "string \<rightharpoonup> string"

definition renameContext :: "string \<Rightarrow> string \<Rightarrow> kubeConfig \<Rightarrow> kubeConfig res" where
  "renameContext ns token config =
     (let userName = ns @ ''-token-user'' in
      case kfContexts config (kfCurrent config) of
        None \<Rightarrow> Inl (Panic ''config.Contexts[cmdCtx.Namespace]'')
      | Some c \<Rightarrow>
          Inr \<lparr>kfContexts = ((kfContexts config)(ns \<mapsto> c\<lparr>kxAuthInfo := userName, kxNamespace := ns\<rparr>))(kfCurrent config := None),
               kfCurrent = ns, kfTokens = [userName \<mapsto> token]\<rparr>)"

text \<open>
  The file is opened for writing, created if need be and not truncated: what is written replaces as many
  characters of the content.
\<close>

definition writeKubeconfigFile :: "string option \<Rightarrow> string \<Rightarrow> string" where
  "writeKubeconfigFile content output =
     (case content of None \<Rightarrow> output | Some old \<Rightarrow> output @ drop (length output) old)"

record cmdLib =
  clLoad :: "kubeConfig res"
  clFlatten :: "kubeConfig \<Rightarrow> kubeConfig res"
  clMinify :: "kubeConfig \<Rightarrow> kubeConfig res"
  clEncode :: "kubeConfig \<Rightarrow> string res"
  clSecret :: "string \<Rightarrow> strmap res"

text \<open>The text that goes to standard output or to the file.\<close>

definition createKubeconfig :: "cmdLib \<Rightarrow> string \<Rightarrow> ServiceAccount \<Rightarrow> string res" where
  "createKubeconfig L ns sa =
     bindR (getToken (clSecret L) (saName sa) (saSecrets sa)) (\<lambda>token.
     bindR (wrapR ''can't load current kubeconfig file'' (clLoad L)) (\<lambda>c0.
     bindR (wrapR ''flatten failed'' (clFlatten L c0)) (\<lambda>c1.
     bindR (wrapR ''minify failed'' (clMinify L c1)) (\<lambda>c2.
     bindR (renameContext ns token c2) (\<lambda>c3.
       wrapR ''failed to encode the configuration'' (clEncode L c3))))))"

text \<open>The command: the content of the output file afterwards, where one is given and the run succeeds.\<close>

definition getKubeconfig :: "pollEnv \<Rightarrow> cmdLib \<Rightarrow> string \<Rightarrow> string option \<Rightarrow> string res option" where
  "getKubeconfig P L ns content =
     map_option (\<lambda>r. case r of
       Inl e \<Rightarrow> Inl (Wrap ''can't get service account'' e)
     | Inr sa \<Rightarrow> bindR (createKubeconfig L ns sa) (\<lambda>output. Inr (writeKubeconfigFile content output))) (getServiceAccount P)"

section \<open>The wait ends\<close>

lemma pollServiceAccount_returns:
  assumes "ticking P"
  shows "\<exists>r. pollServiceAccount P i = Some r \<and> (\<forall>sa. r = Inr sa \<longrightarrow> saSecrets sa \<noteq> [])"
proof (induction "100 - i" arbitrary: i rule: less_induct)
  case less
  show ?case
  proof (cases "\<exists>sa. pEvent P i = Tick \<and> pServiceAccount P i = Inr sa \<and> saSecrets sa = []")
    case False
    then show ?thesis by (subst pollServiceAccount.simps) (auto split: pollEvent.splits sum.splits)
  next
    case True
    then have "i * pollPeriod \<le> pClock P i" "\<not> pollTimeout \<le> pClock P i" using assms by (auto simp: ticking_def)
    then have "100 - Suc i < 100 - i" by simp
    from less [OF this] True show ?thesis by (subst pollServiceAccount.simps) auto
  qed
qed

text \<open>
  (C14) The wait for the secrets of the service account ends: with a ticker of 100 milliseconds and a context
  that expires after ten seconds, the loop returns after at most 100 ticks that lead on, with an error or
  with an account that has a secret.
\<close>

theorem getServiceAccount_terminates:
  assumes "ticking P"
  shows "\<exists>r. getServiceAccount P = Some r \<and> (\<forall>sa. r = Inr sa \<longrightarrow> saSecrets sa \<noteq> [])"
  unfolding getServiceAccount_def using assms by (rule pollServiceAccount_returns)

definition slowPoll :: pollEnv where
  "slowPoll = \<lparr>pEvent = \<lambda>i. Tick, pClock = \<lambda>i. 150 * i,
     pServiceAccount = \<lambda>i. if pollTimeout \<le> 150 * i then Inl deadlineExceeded else Inr \<lparr>saName = ''a'', saSecrets = []\<rparr>\<rparr>"

theorem getServiceAccount_terminates_witness: "\<exists>r. getServiceAccount slowPoll = Some r"
proof -
  have "ticking slowPoll" by (auto simp: ticking_def slowPoll_def)
  from getServiceAccount_terminates [OF this] show ?thesis by blast
qed

section \<open>Credentials are not taken over by create\<close>

interpretation acalls: state_relation "allowed (\<lambda>h. h) ok" for ok
  by unfold_locales (auto intro: allowed_trans)

lemma acall_keeps: "(\<And>h. ok h c) \<Longrightarrow> keeps (allowed (\<lambda>h. h) ok) (acall E c)"
  by (auto simp: keeps_def allowed_def acall_def split: option.splits)

lemmas ac_rules = acalls.keeps_rules acall_keeps

text \<open>
  \<open>create credentials\<close> does not touch a namespace that exists: a run writes something only if the
  namespace was not found, and it never replaces the rules of a role.
\<close>

theorem create_only_fresh:
  assumes "createOrUpdateResources E ns clientOperationCreate h = (r, h')" and "h' = h @ a @ c # b" and "isWrite c"
  shows "(\<exists>e. aOutcome E h (AGetNamespace ns) = Some e \<and> isNotFound e) \<and> (\<forall>n rules. c \<noteq> AUpdateRole ns n rules)"
proof -
  have "keeps (allowed (\<lambda>h. h) (\<lambda>_ c. \<forall>n rules. c \<noteq> AUpdateRole ns n rules)) (createOrUpdateResources E ns clientOperationCreate)"
    unfolding createOrUpdateResources_def ensureNamespace_def ensureServiceAccount_def createServiceAccount_def createOrUpdateRole_def
      ensureRoleBinding_def
    by (intro ac_rules; simp)
  from keepsD [OF this assms(1)] assms(2) have "\<forall>n rules. c \<noteq> AUpdateRole ns n rules"
    by (auto simp: allowed_def okFrom_set)
  moreover have "\<exists>e. aOutcome E h (AGetNamespace ns) = Some e \<and> isNotFound e"
  proof (rule ccontr)
    assume "\<not> ?thesis"
    then have "h' = h @ [AGetNamespace ns]"
      using assms(1)
      by (auto simp: createOrUpdateResources_def ensureNamespace_def bindE_def acall_def attemptE_def split: option.splits sum.splits prod.splits)
    with assms(2,3) show False by (cases a) (auto simp: isWrite_def)
  qed
  ultimately show ?thesis by blast
qed

theorem create_only_fresh_witness:
  "\<exists>a c b. snd (createOrUpdateResources \<lparr>aOutcome = \<lambda>h c. if isWrite c then None else Some (NotFound []), aRules = \<lambda>_. []\<rparr> ''ns'' clientOperationCreate []) =
     a @ c # b \<and> isWrite c \<and> (\<forall>n rules. c \<noteq> AUpdateRole ''ns'' n rules)"
proof -
  let ?E = "\<lparr>aOutcome = \<lambda>h c. if isWrite c then None else Some (NotFound []), aRules = \<lambda>_. []\<rparr>"
  obtain r h' where run: "createOrUpdateResources ?E ''ns'' clientOperationCreate [] = (r, h')" by fastforce
  then have "list_ex isWrite h'"
    by (auto simp: createOrUpdateResources_def ensureNamespace_def ensureServiceAccount_def createServiceAccount_def createOrUpdateRole_def
        ensureRoleBinding_def bindE_def acall_def attemptE_def wrapE_def isWrite_def)
  then obtain a c b where h: "h' = [] @ a @ c # b" and w: "isWrite c" by (auto simp: list_ex_iff dest!: split_list)
  from create_only_fresh [OF run h w] run h w show ?thesis by auto
qed

text \<open>
  \<open>apply credentials\<close> is idempotent: where everything is there and the role has the rules it needs, it
  succeeds and writes nothing.
\<close>

theorem apply_idempotent:
  assumes "\<And>h c. aOutcome E h c = None" and "\<And>h. aRules E h = generateRole"
  shows "createOrUpdateResources E ns clientOperationApply h =
    (Inr (), h @ [AGetNamespace ns, AGetServiceAccount ns ServiceAccountName, AGetRole ns roleName, AGetRoleBinding ns roleBindingName])"
  by (simp add: createOrUpdateResources_def ensureNamespace_def ensureServiceAccount_def createOrUpdateRole_def ensureRoleBinding_def
      bindE_def acall_def attemptE_def assms)

theorem apply_idempotent_witness:
  "fst (createOrUpdateResources \<lparr>aOutcome = \<lambda>h c. None, aRules = \<lambda>_. generateRole\<rparr> ''ns'' clientOperationApply []) = Inr ()"
  by (subst apply_idempotent) simp_all

section \<open>The kubeconfig that is written\<close>

text \<open>
  The context of the new kubeconfig is there unless it has the name of the old one: where the current context
  already has the name of the namespace, the context that was just written is deleted, and the kubeconfig
  names a current context it does not have.
\<close>

theorem context_usable_iff:
  assumes "renameContext ns token config = Inr config'"
  shows "kfContexts config' (kfCurrent config') \<noteq> None \<longleftrightarrow> kfCurrent config \<noteq> ns"
  using assms by (auto simp: renameContext_def Let_def split: option.splits)

theorem context_usable_iff_witness:
  "\<exists>c. renameContext ''ns'' ''t'' \<lparr>kfContexts = [''ns'' \<mapsto> \<lparr>kxCluster = ''k'', kxAuthInfo = [], kxNamespace = []\<rparr>], kfCurrent = ''ns'', kfTokens = Map.empty\<rparr> = Inr c \<and>
     kfContexts c (kfCurrent c) = None"
proof -
  let ?c = "\<lparr>kfContexts = [''ns'' \<mapsto> \<lparr>kxCluster = ''k'', kxAuthInfo = [], kxNamespace = []\<rparr>], kfCurrent = ''ns'', kfTokens = Map.empty\<rparr>"
  obtain c where "renameContext ''ns'' ''t'' ?c = Inr c" by (simp add: renameContext_def)
  with context_usable_iff [OF this] show ?thesis by simp
qed

text \<open>
  The output file holds the kubeconfig, and nothing else, exactly when there was no longer content in the
  file before: the file is not truncated.
\<close>

theorem file_overwritten_iff:
  "writeKubeconfigFile content output = output \<longleftrightarrow> (case content of None \<Rightarrow> True | Some old \<Rightarrow> length old \<le> length output)"
  by (auto simp: writeKubeconfigFile_def split: option.splits)

end
